(* ===== verification/Crc32.thy ===== *)
theory Crc32
  imports Prelude
begin

text \<open>
  The checksum of \<^verbatim>\<open>protocol/crc32.h\<close>: a reflected CRC-32, computed bit by
  bit on a 32-bit register.  The lemmas show the register step is linear and
  injective, from which the detection theorems follow: a change confined to
  four consecutive bytes of a buffer always changes the checksum.
\<close>

section \<open>The register\<close>

definition crc32_bit :: "u32 \<Rightarrow> u32" where
  "crc32_bit crc = (let mask = - (crc AND 1) in drop_bit 1 crc XOR (0xEDB88320 AND mask))"

definition crc32_byte :: "u32 \<Rightarrow> u8 \<Rightarrow> u32" where
  "crc32_byte crc b = (crc32_bit ^^ 8) (crc XOR ucast b)"

definition crc32_seed :: "bytes \<Rightarrow> u32 \<Rightarrow> u32" where
  "crc32_seed data seed = NOT (foldl crc32_byte seed data)"

definition crc32 :: "bytes \<Rightarrow> u32" where
  "crc32 data = crc32_seed data 0xFFFFFFFF"

section \<open>The bit step is linear and injective\<close>

lemma crc_mask: "- (crc AND 1 :: u32) = (if bit crc 0 then - 1 else 0)"
  by (cases "even crc") (simp_all add: and_one_eq bit_0 even_iff_mod_2_eq_zero odd_iff_mod_2_eq_one)

lemma crc32_bit_alt:
  "crc32_bit crc = drop_bit 1 crc XOR (if bit crc 0 then 0xEDB88320 else 0)"
  unfolding crc32_bit_def Let_def crc_mask by simp

lemma crc32_bit_linear: "crc32_bit (x XOR y) = crc32_bit x XOR crc32_bit y"
proof -
  have d: "drop_bit 1 (x XOR y) = drop_bit 1 x XOR drop_bit 1 y"
    by (rule drop_bit_xor)
  have r: "(p XOR q) XOR ((p' XOR q') :: u32) = (p XOR p') XOR (q XOR q')" for p q p' q'
    by (simp add: ac_simps)
  have c: "(if bit (x XOR y) 0 then k else 0) =
      (if bit x 0 then k else 0) XOR (if bit y 0 then k else (0 :: u32))" for k
    by (simp add: bit_xor_iff)
  show ?thesis
    by (simp only: crc32_bit_alt d c r)
qed

lemma crc32_bit_top: "bit (crc32_bit crc) 31 = bit crc 0"
proof -
  have "\<not> bit crc 32"
    using bit_imp_le_length [of crc 32] by auto
  then have "\<not> bit (drop_bit 1 crc) 31"
    by (simp add: bit_drop_bit_eq)
  moreover have "bit (0xEDB88320 :: u32) 31"
    by (simp add: bit_numeral_word_iff)
  ultimately show ?thesis
    by (simp add: crc32_bit_alt bit_xor_iff)
qed

lemma crc32_bit_zero_iff: "crc32_bit x = 0 \<longleftrightarrow> x = 0"
proof
  assume z: "crc32_bit x = 0"
  have l: "\<not> bit x 0"
    using crc32_bit_top [of x] by (simp add: z)
  have d: "drop_bit 1 x = 0"
    using z l by (simp add: crc32_bit_alt)
  show "x = 0"
  proof (rule bit_word_eqI)
    fix n
    have "bit x (Suc m) = bit (drop_bit 1 x) m" for m
      by (simp add: bit_drop_bit_eq)
    then show "bit x n = bit (0 :: u32) n"
      using l d by (cases n) simp_all
  qed
qed (simp add: crc32_bit_alt)

lemma crc32_pow_linear:
  "(crc32_bit ^^ n) (x XOR y) = (crc32_bit ^^ n) x XOR (crc32_bit ^^ n) y"
  by (induction n) (simp_all add: crc32_bit_linear)

lemma crc32_pow_zero_iff: "(crc32_bit ^^ n) x = 0 \<longleftrightarrow> x = 0"
  by (induction n) (simp_all add: crc32_bit_zero_iff)

lemma xor_left_cancel: "c XOR a = c XOR b \<longleftrightarrow> a = (b :: 'a::len word)"
proof
  assume "c XOR a = c XOR b"
  then have "c XOR (c XOR a) = c XOR (c XOR b)"
    by (rule arg_cong)
  then show "a = b"
    by (simp flip: xor.assoc)
qed simp

lemma xor_right_cancel: "a XOR c = b XOR c \<longleftrightarrow> a = (b :: 'a::len word)"
  by (simp add: xor.commute [of _ c] xor_left_cancel)

lemma xor_zero_iff_eq: "x XOR y = (0 :: 'a::len word) \<longleftrightarrow> x = y"
  using xor_left_cancel [of x y x] by auto

lemma crc32_pow_inj: "(crc32_bit ^^ n) x = (crc32_bit ^^ n) y \<longleftrightarrow> x = y"
  using crc32_pow_zero_iff [of n "x XOR y"] by (simp add: crc32_pow_linear xor_zero_iff_eq)

lemma crc32_pow_shift:
  assumes "\<And>i. i < n \<Longrightarrow> \<not> bit x i"
  shows "(crc32_bit ^^ n) x = drop_bit n x"
  using assms
proof (induction n)
  case (Suc n)
  have p: "(crc32_bit ^^ n) x = drop_bit n x"
    by (rule Suc.IH) (simp add: Suc.prems)
  have "\<not> bit (drop_bit n x) 0"
    using Suc.prems [of n] by (simp add: bit_drop_bit_eq)
  then have "crc32_bit (drop_bit n x) = drop_bit 1 (drop_bit n x)"
    by (simp add: crc32_bit_alt)
  then show ?case
    by (simp add: p)
qed simp

section \<open>A run of up to four bytes\<close>

fun byte_window :: "bytes \<Rightarrow> u32" where
  "byte_window [] = 0"
| "byte_window (b # bs) = ucast b XOR push_bit 8 (byte_window bs)"

lemma bit_byte_window:
  "bit (byte_window bs) i \<longleftrightarrow> i < 32 \<and> i < 8 * length bs \<and> bit (bs ! (i div 8)) (i mod 8)"
proof (induction bs arbitrary: i)
  case (Cons b bs)
  show ?case
  proof (cases "i < 8")
    case True
    then show ?thesis
      by (auto simp: bit_xor_iff bit_push_bit_iff bit_ucast_iff)
  next
    case False
    then have "\<not> bit b i"
      using bit_imp_le_length [of b i] by auto
    moreover have "(b # bs) ! (i div 8) = bs ! ((i - 8) div 8)" "(i - 8) mod 8 = i mod 8"
      using False by (simp_all add: div_if mod_if not_less)
    ultimately show ?thesis
      using False by (auto simp: bit_xor_iff bit_push_bit_iff bit_ucast_iff Cons.IH)
  qed
qed simp

lemma byte_window_inj:
  assumes "length xs = length ys" "length xs \<le> 4" "byte_window xs = byte_window ys"
  shows "xs = ys"
proof (rule nth_equalityI)
  fix k
  assume k: "k < length xs"
  show "xs ! k = ys ! k"
  proof (rule bit_word_eqI)
    fix j
    assume j: "j < LENGTH(8)"
    have d: "(8 * k + j) div 8 = k" "(8 * k + j) mod 8 = j" "8 * k + j < 32"
        "8 * k + j < 8 * length xs"
      using j k assms(2) by simp_all
    have "bit (byte_window xs) (8 * k + j) = bit (byte_window ys) (8 * k + j)"
      by (simp add: assms(3))
    then show "bit (xs ! k) j = bit (ys ! k) j"
      using d assms(1) by (simp add: bit_byte_window)
  qed
qed (rule assms(1))

lemma crc32_run:
  assumes "length bs \<le> 4"
  shows "foldl crc32_byte c bs = (crc32_bit ^^ (8 * length bs)) (c XOR byte_window bs)"
  using assms
proof (induction bs arbitrary: c)
  case (Cons b bs)
  let ?w = "byte_window bs"
  have hi: "\<not> bit ?w i" if "24 \<le> i" for i
    using that Cons.prems by (simp add: bit_byte_window)
  have "(crc32_bit ^^ 8) (push_bit 8 ?w) = drop_bit 8 (push_bit 8 ?w)"
    by (rule crc32_pow_shift) (simp add: bit_push_bit_iff)
  also have "\<dots> = ?w"
  proof (rule bit_word_eqI)
    fix n
    show "bit (drop_bit 8 (push_bit 8 ?w)) n = bit ?w n"
      using hi [of n] by (cases "24 \<le> n") (simp_all add: bit_drop_bit_eq bit_push_bit_iff)
  qed
  finally have sh: "(crc32_bit ^^ 8) (push_bit 8 ?w) = ?w" .
  have "foldl crc32_byte c (b # bs) =
      (crc32_bit ^^ (8 * length bs)) ((crc32_bit ^^ 8) (c XOR ucast b) XOR ?w)"
    using Cons by (simp add: crc32_byte_def [of c b])
  also have "\<dots> = (crc32_bit ^^ (8 * length bs)) ((crc32_bit ^^ 8) (c XOR ucast b XOR push_bit 8 ?w))"
    by (simp only: crc32_pow_linear sh xor.assoc)
  also have "\<dots> = (crc32_bit ^^ (8 * length bs + 8)) (c XOR byte_window (b # bs))"
    by (simp add: funpow_add xor.assoc)
  finally show ?case
    by (simp add: add.commute)
qed simp

lemma crc32_fold_inj:
  "foldl crc32_byte c bs = foldl crc32_byte d bs \<longleftrightarrow> c = d"
proof (induction bs arbitrary: c d)
  case (Cons b bs)
  have "crc32_byte c b = crc32_byte d b \<longleftrightarrow> c = d"
    by (simp add: crc32_byte_def crc32_pow_inj xor_right_cancel)
  then show ?case
    by (simp add: Cons.IH)
qed simp

lemma crc32_eq_iff: "crc32_seed xs s = crc32_seed ys s \<longleftrightarrow> foldl crc32_byte s xs = foldl crc32_byte s ys"
  unfolding crc32_seed_def by (metis bit.double_compl)

lemma crc32_burst:
  assumes "length xs = length ys" "length xs \<le> 4" "xs \<noteq> ys"
  shows "crc32_seed (pre @ xs @ post) s \<noteq> crc32_seed (pre @ ys @ post) s"
proof
  assume "crc32_seed (pre @ xs @ post) s = crc32_seed (pre @ ys @ post) s"
  then have "foldl crc32_byte (foldl crc32_byte s pre) xs = foldl crc32_byte (foldl crc32_byte s pre) ys"
    by (simp add: crc32_eq_iff crc32_fold_inj)
  then have "foldl crc32_byte s pre XOR byte_window xs = foldl crc32_byte s pre XOR byte_window ys"
    using assms(1,2) by (simp add: crc32_run crc32_pow_inj)
  then have "byte_window xs = byte_window ys"
    by (simp only: xor_left_cancel)
  then show False
    using byte_window_inj assms by blast
qed

end
