(* ===== verification/Journal_Frame.thy ===== *)
theory Journal_Frame
  imports Crc32
begin

text \<open>
  \<^verbatim>\<open>protocol/event_journal_core.h/.cpp\<close>: the frame format of the durable
  journal, its append routine and its scanner, over the abstract
  \<^verbatim>\<open>JournalFile\<close>.  The abstract class is a record of operations (its virtual
  functions); its documented semantics is the locale \<open>journal_file\<close>.  The
  scanner, a loop whose end depends on the file, is a
  \<open>partial_function (option)\<close>; under the laws of the interface it is shown to
  return, with exactly the frames of the pure function \<open>scan_bytes\<close>.  The
  byte-level theorems (round trip, torn tails, corruption) are about
  \<open>scan_bytes\<close> and carry over to the scanner through that refinement.
\<close>

section \<open>Little-endian words\<close>

definition read_u32_le :: "bytes \<Rightarrow> u32" where
  "read_u32_le b = ucast (b ! 0) OR push_bit 8 (ucast (b ! 1)) OR
     push_bit 16 (ucast (b ! 2)) OR push_bit 24 (ucast (b ! 3))"

definition write_u32_le :: "u32 \<Rightarrow> bytes" where
  "write_u32_le v = [ucast (v AND 0xFF), ucast (drop_bit 8 v AND 0xFF),
     ucast (drop_bit 16 v AND 0xFF), ucast (drop_bit 24 v AND 0xFF)]"

lemma length_write_u32_le [simp]: "length (write_u32_le v) = 4"
  by (simp add: write_u32_le_def)

lemma byte_mask: "v AND 0xFF = (take_bit 8 v :: u32)"
  by (simp add: take_bit_eq_mask mask_eq_exp_minus_1)

lemma read_write_u32_le [simp, codec_simps]: "read_u32_le (write_u32_le v) = v"
proof (rule bit_word_eqI)
  fix n
  assume "n < LENGTH(32)"
  then consider "n < 8" | "8 \<le> n" "n < 16" | "16 \<le> n" "n < 24" | "24 \<le> n" "n < 32"
    by fastforce
  then show "bit (read_u32_le (write_u32_le v)) n = bit v n"
    by cases
      (simp_all add: read_u32_le_def write_u32_le_def bit_or_iff bit_push_bit_iff bit_ucast_iff
        byte_mask bit_take_bit_iff bit_drop_bit_eq less_diff_conv2)
qed

section \<open>The abstract file\<close>

record 'f jfile_ops =
  jf_open_for_append :: "'f \<Rightarrow> bool \<times> 'f"
  jf_open_for_read :: "'f \<Rightarrow> bool \<times> 'f"
  jf_close :: "'f \<Rightarrow> 'f"
  jf_write :: "'f \<Rightarrow> bytes \<Rightarrow> int \<times> 'f"
  jf_flush :: "'f \<Rightarrow> bool \<times> 'f"
  jf_read :: "'f \<Rightarrow> nat \<Rightarrow> bytes option \<times> 'f"
  jf_size :: "'f \<Rightarrow> u32"

datatype frame_outcome = FRAME_OK | INCOMPLETE | CRC_FAIL | BAD_COMMIT_MARKER

record scan_frame =
  sf_offset :: u32
  sf_frame_size :: u32
  sf_body_json :: string
  sf_outcome :: frame_outcome

definition commit_marker :: u8 where
  "commit_marker = 0xC3"

definition bad_frame :: "u32 \<Rightarrow> frame_outcome \<Rightarrow> scan_frame" where
  "bad_frame off oc = \<lparr>sf_offset = off, sf_frame_size = 0, sf_body_json = [], sf_outcome = oc\<rparr>"

definition ok_frame :: "u32 \<Rightarrow> u32 \<Rightarrow> bytes \<Rightarrow> scan_frame" where
  "ok_frame off body_len body = \<lparr>sf_offset = off, sf_frame_size = 4 + body_len + 4 + 1,
     sf_body_json = string_of body, sf_outcome = FRAME_OK\<rparr>"

text \<open>\<open>read_exact\<close> loops until the buffer is full or the file gives nothing;
  its result is what was read and the file after it.  A negative return of the
  virtual \<^verbatim>\<open>read\<close> is \<open>None\<close>, a non-negative one the bytes it put in the buffer.\<close>

function read_loop :: "'f jfile_ops \<Rightarrow> 'f \<Rightarrow> nat \<Rightarrow> bytes \<Rightarrow> bytes \<times> 'f" where
  "read_loop ops f len got =
     (if length got < len then
        (case jf_read ops f (len - length got) of
           (None, f') \<Rightarrow> (got, f')
         | (Some [], f') \<Rightarrow> (got, f')
         | (Some (c # cs), f') \<Rightarrow> read_loop ops f' len (got @ c # cs))
      else (got, f))"
  by pat_completeness auto
termination
  by (relation "measure (\<lambda>(ops, f, len, got). len - length got)") auto

declare read_loop.simps [simp del]

definition read_exact :: "'f jfile_ops \<Rightarrow> 'f \<Rightarrow> nat \<Rightarrow> bool \<times> bytes \<times> 'f" where
  "read_exact ops f len =
     (let (got, f') = read_loop ops f len [] in (length got = len, got, f'))"

definition read_body :: "'f jfile_ops \<Rightarrow> 'f \<Rightarrow> u32 \<Rightarrow> bool \<times> bytes \<times> 'f" where
  "read_body ops f body_len =
     (if body_len = 0 then (True, [], f) else read_exact ops f (unat body_len))"

section \<open>Scanning\<close>

type_synonym 'f scan_result = "int \<times> scan_frame list \<times> 'f"

partial_function (option) scan_loop ::
  "'f jfile_ops \<Rightarrow> 'f \<Rightarrow> u32 \<Rightarrow> int \<Rightarrow> scan_frame list \<Rightarrow> 'f scan_result option" where
  "scan_loop ops f off ok_count acc =
     (let (have_len, len_bytes, f1) = read_exact ops f 4 in
      if \<not> have_len then
        Some (ok_count, (if 0 < length len_bytes then acc @ [bad_frame off INCOMPLETE] else acc), f1)
      else
      let body_len = read_u32_le len_bytes;
          (have_body, body, f2) = read_body ops f1 body_len in
      if \<not> have_body then Some (ok_count, acc @ [bad_frame off INCOMPLETE], f2)
      else
      let (have_crc, crc_bytes, f3) = read_exact ops f2 4 in
      if \<not> have_crc then Some (ok_count, acc @ [bad_frame off INCOMPLETE], f3)
      else
      let stored_crc = read_u32_le crc_bytes; actual_crc = crc32 body in
      if stored_crc \<noteq> actual_crc then Some (ok_count, acc @ [bad_frame off CRC_FAIL], f3)
      else
      let (have_marker, marker, f4) = read_exact ops f3 1 in
      if \<not> have_marker then Some (ok_count, acc @ [bad_frame off INCOMPLETE], f4)
      else if marker ! 0 \<noteq> commit_marker then
        Some (ok_count, acc @ [bad_frame off BAD_COMMIT_MARKER], f4)
      else
      let fr = ok_frame off body_len body in
      scan_loop ops f4 (off + sf_frame_size fr) (ok_count + 1) (acc @ [fr]))"

definition scan_journal :: "'f jfile_ops \<Rightarrow> 'f \<Rightarrow> 'f scan_result option" where
  "scan_journal ops f =
     (let (opened, f1) = jf_open_for_read ops f in
      if \<not> opened then Some (0, [], f1)
      else map_option (\<lambda>(n, frames, f2). (n, frames, jf_close ops f2)) (scan_loop ops f1 0 0 []))"

section \<open>Appending\<close>

definition append_journal_frame :: "'f jfile_ops \<Rightarrow> 'f \<Rightarrow> string \<Rightarrow> bool \<times> 'f" where
  "append_journal_frame ops f body_json =
     (let body = bytes_of body_json; (opened, f1) = jf_open_for_append ops f in
      if \<not> opened then (False, f1) else
      let (n, f2) = jf_write ops f1 (write_u32_le (of_nat (length body))) in
      if n \<noteq> 4 then (False, jf_close ops f2) else
      let (body_ok, f3) =
        (if body \<noteq> [] then
           let (n, f3) = jf_write ops f2 body in (n = sint (of_nat (length body) :: u32), f3)
         else (True, f2)) in
      if \<not> body_ok then (False, jf_close ops f3) else
      let (fl, f4) = jf_flush ops f3 in
      if \<not> fl then (False, jf_close ops f4) else
      let (n, f5) = jf_write ops f4 (write_u32_le (crc32 body)) in
      if n \<noteq> 4 then (False, jf_close ops f5) else
      let (fl, f6) = jf_flush ops f5 in
      if \<not> fl then (False, jf_close ops f6) else
      let (n, f7) = jf_write ops f6 [commit_marker] in
      if n \<noteq> 1 then (False, jf_close ops f7) else
      let (ok, f8) = jf_flush ops f7 in (ok, jf_close ops f8))"

section \<open>The reference: frames of a byte string\<close>

definition frame_of :: "string \<Rightarrow> bytes" where
  "frame_of b = write_u32_le (of_nat (length b)) @ bytes_of b @
     write_u32_le (crc32 (bytes_of b)) @ [commit_marker]"

function scan_bytes :: "u32 \<Rightarrow> bytes \<Rightarrow> scan_frame list" where
  "scan_bytes off bs =
     (if length bs < 4 then (if bs = [] then [] else [bad_frame off INCOMPLETE])
      else let n = read_u32_le (take 4 bs); r1 = drop 4 bs in
      if length r1 < unat n then [bad_frame off INCOMPLETE]
      else let body = take (unat n) r1; r2 = drop (unat n) r1 in
      if length r2 < 4 then [bad_frame off INCOMPLETE]
      else if read_u32_le (take 4 r2) \<noteq> crc32 body then [bad_frame off CRC_FAIL]
      else (case drop 4 r2 of
          [] \<Rightarrow> [bad_frame off INCOMPLETE]
        | m # r4 \<Rightarrow>
            if m \<noteq> commit_marker then [bad_frame off BAD_COMMIT_MARKER]
            else ok_frame off n body # scan_bytes (off + sf_frame_size (ok_frame off n body)) r4))"
  by pat_completeness auto
termination
  by (relation "measure (\<lambda>(off, bs). length bs)") (auto dest: drop_Cons_length)

declare scan_bytes.simps [simp del]

definition ok_count :: "scan_frame list \<Rightarrow> nat" where
  "ok_count frs = length (filter (\<lambda>fr. sf_outcome fr = FRAME_OK) frs)"

lemma ok_count_simps [simp]:
  "ok_count [] = 0"
  "ok_count (fr # frs) = (if sf_outcome fr = FRAME_OK then 1 else 0) + ok_count frs"
  "ok_count (frs @ frs') = ok_count frs + ok_count frs'"
  by (simp_all add: ok_count_def)

lemma outcome_simps [simp]:
  "sf_outcome (ok_frame off n body) = FRAME_OK"
  "sf_outcome (bad_frame off oc) = oc"
  "sf_frame_size (ok_frame off n body) = 4 + n + 4 + 1"
  by (simp_all add: ok_frame_def bad_frame_def)

section \<open>Whole frames, torn frames, damaged frames\<close>

lemma length_frame_of [simp]: "length (frame_of b) = length b + 9"
  by (simp add: frame_of_def)

lemma frame_of_not_Nil [simp]: "frame_of b \<noteq> []" "[] \<noteq> frame_of b"
  by (simp_all add: frame_of_def)

lemma take_write_u32_le [simp]: "take 4 (write_u32_le v @ xs) = write_u32_le v"
  "drop 4 (write_u32_le v @ xs) = xs"
  by simp_all

lemma scan_header:
  assumes "n < 2 ^ 32"
  shows "scan_bytes off (write_u32_le (of_nat n) @ r) =
     (if length r < n then [bad_frame off INCOMPLETE]
      else let body = take n r; r2 = drop n r in
      if length r2 < 4 then [bad_frame off INCOMPLETE]
      else if read_u32_le (take 4 r2) \<noteq> crc32 body then [bad_frame off CRC_FAIL]
      else (case drop 4 r2 of
          [] \<Rightarrow> [bad_frame off INCOMPLETE]
        | m # r4 \<Rightarrow>
            if m \<noteq> commit_marker then [bad_frame off BAD_COMMIT_MARKER]
            else ok_frame off (of_nat n) body #
              scan_bytes (off + sf_frame_size (ok_frame off (of_nat n) body)) r4))"
proof -
  have u: "unat (of_nat n :: u32) = n"
    using assms by (rule unat_of_nat_u32)
  show ?thesis
    by (subst scan_bytes.simps) (simp add: u Let_def)
qed

lemma scan_short:
  assumes "n < 2 ^ 32" "length r < n + 4"
  shows "scan_bytes off (write_u32_le (of_nat n) @ r) = [bad_frame off INCOMPLETE]"
proof (cases "length r < n")
  case True
  then show ?thesis
    by (simp add: scan_header [OF assms(1)])
next
  case False
  then have "length (drop n r) < 4"
    using assms(2) by simp
  then show ?thesis
    using False by (simp only: scan_header [OF assms(1)] Let_def if_True if_False)
qed

definition ok_frame_for :: "u32 \<Rightarrow> string \<Rightarrow> scan_frame" where
  "ok_frame_for off b = ok_frame off (of_nat (length b)) (bytes_of b)"

fun ok_frames :: "u32 \<Rightarrow> string list \<Rightarrow> scan_frame list" where
  "ok_frames off [] = []"
| "ok_frames off (b # bs) = ok_frame_for off b # ok_frames (off + of_nat (length b + 9)) bs"

definition log_bytes :: "string list \<Rightarrow> bytes" where
  "log_bytes bs = concat (map frame_of bs)"

lemma log_bytes_simps [simp]:
  "log_bytes [] = []"
  "log_bytes (b # bs) = frame_of b @ log_bytes bs"
  "log_bytes (bs @ cs) = log_bytes bs @ log_bytes cs"
  by (simp_all add: log_bytes_def)

lemma ok_frame_for_simps [simp]:
  "sf_body_json (ok_frame_for off b) = b"
  "sf_outcome (ok_frame_for off b) = FRAME_OK"
  "sf_frame_size (ok_frame_for off b) = of_nat (length b + 9)"
  "sf_offset (ok_frame_for off b) = off"
  by (simp_all add: ok_frame_for_def ok_frame_def algebra_simps)

lemma scan_bytes_Nil [simp]: "scan_bytes off [] = []"
  by (simp add: scan_bytes.simps)

lemma scan_whole_frame:
  assumes "length b < 2 ^ 32"
  shows "scan_bytes off (frame_of b @ r) =
     ok_frame_for off b # scan_bytes (off + of_nat (length b + 9)) r"
  unfolding frame_of_def append_assoc
  by (subst scan_header [OF assms]) (simp add: Let_def ok_frame_for_def algebra_simps)

lemma scan_log:
  assumes "\<forall>b\<in>set bs. length b < 2 ^ 32"
  shows "scan_bytes off (log_bytes bs @ r) =
     ok_frames off bs @ scan_bytes (off + of_nat (length (log_bytes bs))) r"
  using assms
  by (induction bs arbitrary: off) (simp_all add: scan_whole_frame algebra_simps)

lemma ok_frames_bodies [simp]: "map sf_body_json (ok_frames off bs) = bs"
  by (induction bs arbitrary: off) simp_all

lemma ok_count_ok_frames [simp]: "ok_count (ok_frames off bs) = length bs"
  by (induction bs arbitrary: off) simp_all

lemma ok_frames_append:
  "ok_frames off (bs @ cs) = ok_frames off bs @ ok_frames (off + of_nat (length (log_bytes bs))) cs"
  by (induction bs arbitrary: off) (simp_all add: algebra_simps)

text \<open>A frame cut anywhere but at its end is one \<open>INCOMPLETE\<close> frame; what
  follows a cut frame is swallowed up to the length the cut frame announces.\<close>

lemma scan_torn_swallows:
  assumes "length b < 2 ^ 32" "4 \<le> k" "k + length r < length b + 8"
  shows "scan_bytes off (take k (frame_of b) @ r) = [bad_frame off INCOMPLETE]"
proof -
  let ?t = "take (k - 4) (bytes_of b @ write_u32_le (crc32 (bytes_of b)) @ [commit_marker]) @ r"
  have t: "take k (frame_of b) @ r = write_u32_le (of_nat (length b)) @ ?t"
    using assms by (simp add: frame_of_def)
  have "length ?t < length b + 4"
    using assms by simp
  then show ?thesis
    unfolding t by (rule scan_short [OF assms(1)])
qed

lemma scan_torn:
  assumes "length b < 2 ^ 32" "k < length b + 9"
  shows "scan_bytes off (take k (frame_of b)) = (if k = 0 then [] else [bad_frame off INCOMPLETE])"
proof -
  consider "k < 4" | "4 \<le> k" "k < length b + 8" | "k = length b + 8"
    using assms by linarith
  then show ?thesis
  proof cases
    case 1
    then have "length (take k (frame_of b)) = k"
      by simp
    then show ?thesis
      using 1 by (subst scan_bytes.simps) (simp del: length_take)
  next
    case 2
    then show ?thesis
      using scan_torn_swallows [OF assms(1), of k "[]"] by simp
  next
    case 3
    then have "take k (frame_of b) = write_u32_le (of_nat (length b)) @
        bytes_of b @ write_u32_le (crc32 (bytes_of b))"
      by (simp add: frame_of_def)
    then show ?thesis
      using 3 by (simp add: scan_header [OF assms(1)] Let_def)
  qed
qed

text \<open>Damage: a change of at most four consecutive bytes of the body, or any
  change of the stored checksum or of the marker, is reported, and nothing
  after the damaged frame is.\<close>

lemma scan_damaged_body:
  assumes "length (pre @ xs @ post) < 2 ^ 32" "length xs = length ys" "length xs \<le> 4" "xs \<noteq> ys"
  shows "scan_bytes off (write_u32_le (of_nat (length (pre @ xs @ post))) @ (pre @ ys @ post) @
      write_u32_le (crc32 (pre @ xs @ post)) @ r) = [bad_frame off CRC_FAIL]"
proof -
  have "crc32 (pre @ xs @ post) \<noteq> crc32 (pre @ ys @ post)"
    unfolding crc32_def using assms(2-4) by (rule crc32_burst)
  moreover have "length (pre @ ys @ post) = length (pre @ xs @ post)"
    using assms(2) by simp
  ultimately show ?thesis
    unfolding scan_header [OF assms(1)]
    by (simp only: Let_def append_assoc [symmetric] drop_append_exact take_append_exact) simp
qed

lemma scan_damaged_crc:
  assumes "length b < 2 ^ 32" "length c = 4" "read_u32_le c \<noteq> crc32 (bytes_of b)"
  shows "scan_bytes off (write_u32_le (of_nat (length b)) @ bytes_of b @ c @ r) =
     [bad_frame off CRC_FAIL]"
  unfolding scan_header [OF assms(1)] using assms(2,3) by (simp add: Let_def)

lemma scan_damaged_marker:
  assumes "length b < 2 ^ 32" "m \<noteq> commit_marker"
  shows "scan_bytes off (write_u32_le (of_nat (length b)) @ bytes_of b @
     write_u32_le (crc32 (bytes_of b)) @ m # r) = [bad_frame off BAD_COMMIT_MARKER]"
  unfolding scan_header [OF assms(1)] using assms(2) by (simp add: Let_def)

section \<open>The file interface\<close>

text \<open>The documented semantics of \<^verbatim>\<open>JournalFile\<close>: ordinary sequential file
  I/O.  \<open>content\<close> is what the file holds, \<open>unread\<close> what a reader has still to
  see, \<open>rest\<close> whatever else the medium holds, which no operation on this file
  touches.  A failing write may have appended any prefix of its data; opening,
  flushing, closing and reading change no content.\<close>

locale journal_file =
  fixes ops :: "'f jfile_ops"
    and content :: "'f \<Rightarrow> bytes"
    and unread :: "'f \<Rightarrow> bytes"
    and rest :: "'f \<Rightarrow> 'r"
  assumes open_for_read:
      "jf_open_for_read ops f = (ok, f') \<Longrightarrow>
        content f' = content f \<and> rest f' = rest f \<and> (ok \<longrightarrow> unread f' = content f)"
    and open_for_append:
      "jf_open_for_append ops f = (ok, f') \<Longrightarrow> content f' = content f \<and> rest f' = rest f"
    and close_file: "content (jf_close ops f) = content f \<and> rest (jf_close ops f) = rest f"
    and flush_file: "jf_flush ops f = (ok, f') \<Longrightarrow> content f' = content f \<and> rest f' = rest f"
    and write_file: "jf_write ops f d = (n, f') \<Longrightarrow> rest f' = rest f \<and>
        (\<exists>k. k \<le> length d \<and> content f' = content f @ take k d \<and> (0 \<le> n \<longrightarrow> n = int k))"
    and read_file: "jf_read ops f len = (r, f') \<Longrightarrow>
        content f' = content f \<and> rest f' = rest f \<and>
        (\<exists>c. r = Some c \<and> unread f = c @ unread f' \<and> length c \<le> len \<and>
             (c = [] \<longrightarrow> len = 0 \<or> unread f = []))"
begin

lemma read_loop_spec:
  assumes "read_loop ops f len got = (got', f')" "length got \<le> len"
  shows "got' = got @ take (len - length got) (unread f) \<and>
     unread f' = drop (len - length got) (unread f) \<and> content f' = content f \<and> rest f' = rest f"
  using assms
proof (induction "len - length got" arbitrary: f got rule: less_induct)
  case less
  show ?case
  proof (cases "length got < len")
    case True
    obtain r f1 where rd: "jf_read ops f (len - length got) = (r, f1)"
      by fastforce
    obtain c where c: "r = Some c" "unread f = c @ unread f1" "length c \<le> len - length got"
        "content f1 = content f" "rest f1 = rest f" and c0: "c = [] \<longrightarrow> len - length got = 0 \<or> unread f = []"
      using read_file [OF rd] by blast
    have step: "read_loop ops f len got =
        (if c = [] then (got, f1) else read_loop ops f1 len (got @ c))"
      using True rd c(1) by (subst read_loop.simps) (simp split: list.split)
    show ?thesis
    proof (cases "c = []")
      case True
      then show ?thesis
        using less.prems step c c0 \<open>length got < len\<close> by auto
    next
      case False
      then have IH: "got' = (got @ c) @ take (len - length (got @ c)) (unread f1) \<and>
          unread f' = drop (len - length (got @ c)) (unread f1) \<and> content f' = content f1 \<and>
          rest f' = rest f1"
        using less.hyps [of "got @ c" f1] less.prems step c True by (simp add: diff_less_mono2)
      then show ?thesis
        using c by (simp add: diff_diff_left)
    qed
  next
    case False
    then show ?thesis
      using less.prems by (subst (asm) read_loop.simps) simp
  qed
qed

lemma read_exact_spec:
  obtains f' where "read_exact ops f len =
      (len \<le> length (unread f), take len (unread f), f')"
    "unread f' = drop len (unread f)" "content f' = content f \<and> rest f' = rest f"
proof -
  obtain got f' where r: "read_loop ops f len [] = (got, f')"
    by fastforce
  show thesis
    using read_loop_spec [OF r] r by (intro that [of f']) (auto simp: read_exact_def)
qed

lemma read_body_spec:
  obtains f' where "read_body ops f n =
      (unat n \<le> length (unread f), take (unat n) (unread f), f')"
    "unread f' = drop (unat n) (unread f)" "content f' = content f \<and> rest f' = rest f"
proof (cases "n = 0")
  case True
  then show thesis
    by (intro that [of f]) (simp_all add: read_body_def)
next
  case False
  then show thesis
    using read_exact_spec [of f "unat n"] that by (metis read_body_def)
qed

lemma scan_loop_spec:
  "\<exists>f'. scan_loop ops f off k acc =
      Some (k + int (ok_count (scan_bytes off (unread f))), acc @ scan_bytes off (unread f), f') \<and>
      content f' = content f \<and> rest f' = rest f"
proof (induction "length (unread f)" arbitrary: f off k acc rule: less_induct)
  case less
  let ?n = "read_u32_le (take 4 (unread f))"
  obtain f1 where f1: "read_exact ops f 4 = (4 \<le> length (unread f), take 4 (unread f), f1)"
      "drop 4 (unread f) = unread f1" "content f1 = content f \<and> rest f1 = rest f"
    by (metis read_exact_spec)
  obtain f2 where f2: "read_body ops f1 ?n =
        (unat ?n \<le> length (unread f1), take (unat ?n) (unread f1), f2)"
      "drop (unat ?n) (unread f1) = unread f2" "content f2 = content f1 \<and> rest f2 = rest f1"
    by (metis read_body_spec)
  obtain f3 where f3: "read_exact ops f2 4 = (4 \<le> length (unread f2), take 4 (unread f2), f3)"
      "drop 4 (unread f2) = unread f3" "content f3 = content f2 \<and> rest f3 = rest f2"
    by (metis read_exact_spec)
  obtain f4 where f4: "read_exact ops f3 1 = (1 \<le> length (unread f3), take 1 (unread f3), f4)"
      "unread f4 = drop 1 (unread f3)" "content f4 = content f3 \<and> rest f4 = rest f3"
    by (metis read_exact_spec)
  note unf = scan_loop.simps [of ops f off k acc] scan_bytes.simps [of off "unread f"]
  note facts = f1 f2 f3
  consider "\<not> 4 \<le> length (unread f)"
    | "4 \<le> length (unread f)" "\<not> unat ?n \<le> length (unread f1)"
    | "4 \<le> length (unread f)" "unat ?n \<le> length (unread f1)" "\<not> 4 \<le> length (unread f2)"
    | "4 \<le> length (unread f)" "unat ?n \<le> length (unread f1)" "4 \<le> length (unread f2)"
        "read_u32_le (take 4 (unread f2)) \<noteq> crc32 (take (unat ?n) (unread f1))"
    | "4 \<le> length (unread f)" "unat ?n \<le> length (unread f1)" "4 \<le> length (unread f2)"
        "read_u32_le (take 4 (unread f2)) = crc32 (take (unat ?n) (unread f1))" "unread f3 = []"
    | (go) m r where "4 \<le> length (unread f)" "unat ?n \<le> length (unread f1)"
        "4 \<le> length (unread f2)"
        "read_u32_le (take 4 (unread f2)) = crc32 (take (unat ?n) (unread f1))"
        "unread f3 = m # r"
    by (cases "unread f3") blast+
  then show ?case
  proof cases
    case go
    have r: "unread f4 = r"
      using f4(2) go by simp
    have m: "read_exact ops f3 (Suc 0) = (True, [m], f4)"
      using f4(1) go by simp
    have "length (unread f3) \<le> length (unread f)"
      by (metis f1(2) f2(2) f3(2) drop_drop length_drop diff_le_self)
    then have l: "length (unread f4) < length (unread f)"
      using go r by simp
    let ?body = "take (unat ?n) (unread f1)"
    show ?thesis
    proof (cases "m = commit_marker")
      case True
      have "scan_loop ops f off k acc =
          scan_loop ops f4 (off + (4 + ?n + 4 + 1)) (k + 1) (acc @ [ok_frame off ?n ?body])"
        by (subst scan_loop.simps) (simp add: Let_def go(1-4) facts m True)
      moreover have "scan_bytes off (unread f) =
          ok_frame off ?n ?body # scan_bytes (off + (4 + ?n + 4 + 1)) (unread f4)"
        using go facts r True by (subst scan_bytes.simps) (simp add: Let_def not_less)
      moreover have "content f4 = content f \<and> rest f4 = rest f"
        using f1(3) f2(3) f3(3) f4(3) by simp
      ultimately show ?thesis
        using less.hyps [OF l, of "off + (4 + ?n + 4 + 1)" "k + 1" "acc @ [ok_frame off ?n ?body]"]
        by (simp add: algebra_simps)
    next
      case False
      then show ?thesis
        using go facts m f4(3) unfolding unf by (simp add: Let_def not_less)
    qed
  qed (use facts f4 in \<open>simp_all add: unf Let_def not_le\<close>)
qed

lemma write_whole:
  assumes "jf_write ops f d = (n, f')" "n = int (length d)"
  shows "content f' = content f @ d"
  using write_file [OF assms(1)] assms(2) by auto

lemma write_prefix:
  assumes "jf_write ops f d = (n, f')" "content f = c @ p" "w = p @ d @ q"
  shows "\<exists>k. k \<le> length w \<and> content f' = c @ take k w"
proof -
  obtain k where k: "k \<le> length d" "content f' = content f @ take k d"
    using write_file [OF assms(1)] by blast
  then show ?thesis
    using assms(2,3) by (intro exI [of _ "length p + k"]) simp
qed

lemma append_spec:
  assumes "append_journal_frame ops f b = (ok, f')" "length b < 2 ^ 31"
  shows "\<exists>k. k \<le> length (frame_of b) \<and> content f' = content f @ take k (frame_of b) \<and>
     (ok \<longrightarrow> k = length (frame_of b))"
proof -
  let ?l = "write_u32_le (of_nat (length b))" and ?b = "bytes_of b"
  let ?c = "write_u32_le (crc32 ?b)"
  have fr: "frame_of b = ?l @ ?b @ ?c @ [commit_marker]"
    by (simp add: frame_of_def)
  have sl: "sint (of_nat (length b) :: u32) = int (length ?b)"
    using assms(2) by (simp add: sint_of_nat_u32)
  obtain o1 f1 where 1: "jf_open_for_append ops f = (o1, f1)" by fastforce
  obtain n2 f2 where 2: "jf_write ops f1 ?l = (n2, f2)" by fastforce
  obtain n3 f3 where 3: "(if ?b \<noteq> [] then
      (let (n, f3) = jf_write ops f2 ?b in (n = sint (of_nat (length ?b) :: u32), f3))
      else (True, f2)) = (n3, f3)" by fastforce
  obtain o4 f4 where 4: "jf_flush ops f3 = (o4, f4)" by fastforce
  obtain n5 f5 where 5: "jf_write ops f4 ?c = (n5, f5)" by fastforce
  obtain o6 f6 where 6: "jf_flush ops f5 = (o6, f6)" by fastforce
  obtain n7 f7 where 7: "jf_write ops f6 [commit_marker] = (n7, f7)" by fastforce
  obtain o8 f8 where 8: "jf_flush ops f7 = (o8, f8)" by fastforce
  have c1: "content f1 = content f @ []"
    using open_for_append [OF 1] by simp
  have p2: "\<exists>k. k \<le> length (frame_of b) \<and> content f2 = content f @ take k (frame_of b)"
    by (rule write_prefix [OF 2 c1]) (simp add: fr)
  have w2: "content f2 = content f @ ?l" if "n2 = 4"
    using write_whole [OF 2] that c1 by simp
  have p3: "\<exists>k. k \<le> length (frame_of b) \<and> content f3 = content f @ take k (frame_of b)"
    and w3: "n3 \<Longrightarrow> content f3 = content f @ ?l @ ?b" if n: "n2 = 4"
  proof (atomize(full), cases "?b = []")
    case True
    then have "f3 = f2"
      using 3 by simp
    then show "(\<exists>k. k \<le> length (frame_of b) \<and> content f3 = content f @ take k (frame_of b)) \<and>
        (n3 \<longrightarrow> content f3 = content f @ ?l @ ?b)"
      using p2 w2 [OF n] True by simp
  next
    case False
    then obtain n where w: "jf_write ops f2 ?b = (n, f3)" "n3 \<longleftrightarrow> n = int (length ?b)"
      using 3 sl by (auto simp: Let_def split: prod.splits)
    show "(\<exists>k. k \<le> length (frame_of b) \<and> content f3 = content f @ take k (frame_of b)) \<and>
        (n3 \<longrightarrow> content f3 = content f @ ?l @ ?b)"
      using write_prefix [OF w(1) w2 [OF n] fr] write_whole [OF w(1)] w(2) w2 [OF n] by simp
  qed
  have w4: "content f4 = content f @ ?l @ ?b" if "n2 = 4" "n3"
    using w3 [OF that] flush_file [OF 4] by simp
  have p5: "\<exists>k. k \<le> length (frame_of b) \<and> content f5 = content f @ take k (frame_of b)" if "n2 = 4" "n3"
    by (rule write_prefix [OF 5 w4 [OF that]]) (simp add: fr)
  have w5: "content f5 = content f @ ?l @ ?b @ ?c" if "n2 = 4" "n3" "n5 = 4"
    using write_whole [OF 5] that w4 by simp
  have w6: "content f6 = content f @ ?l @ ?b @ ?c" if "n2 = 4" "n3" "n5 = 4"
    using w5 [OF that] flush_file [OF 6] by simp
  have p7: "\<exists>k. k \<le> length (frame_of b) \<and> content f7 = content f @ take k (frame_of b)"
    if "n2 = 4" "n3" "n5 = 4"
    by (rule write_prefix [OF 7 w6 [OF that]]) (simp add: fr)
  have w7: "content f7 = content f @ frame_of b" if "n2 = 4" "n3" "n5 = 4" "n7 = 1"
    using write_whole [OF 7] that w6 by (simp add: fr)
  note def = append_journal_frame_def [of ops f b] Let_def
  have r: "(ok, f') =
    (if \<not> o1 then (False, f1) else if n2 \<noteq> 4 then (False, jf_close ops f2)
     else if \<not> n3 then (False, jf_close ops f3) else if \<not> o4 then (False, jf_close ops f4)
     else if n5 \<noteq> 4 then (False, jf_close ops f5) else if \<not> o6 then (False, jf_close ops f6)
     else if n7 \<noteq> 1 then (False, jf_close ops f7) else (o8, jf_close ops f8))"
    using assms(1) 1 2 4 5 6 7 8 by (simp only: def split length_bytes_of 3 [unfolded Let_def length_bytes_of])
  consider "ok" "o1" "n2 = 4" "n3" "n5 = 4" "n7 = 1" | "\<not> ok"
    using r by (auto split: if_splits)
  then show ?thesis
  proof cases
    case 1
    then have "content f' = content f @ frame_of b"
      using r w7 flush_file [OF 8] close_file by (auto split: if_splits)
    then show ?thesis
      by (intro exI [of _ "length (frame_of b)"]) simp
  next
    case 2
    have "content f1 = content f" "content f4 = content f3" "content f6 = content f5" "content f8 = content f7"
      using c1 flush_file [OF 4] flush_file [OF 6] flush_file [OF 8] by simp_all
    then have "\<exists>k. k \<le> length (frame_of b) \<and> content f' = content f @ take k (frame_of b)"
      using r p2 p3 p5 p7 close_file by (auto split: if_splits intro: exI [of _ 0])
    then show ?thesis
      using 2 by blast
  qed
qed

lemma append_rest:
  assumes "append_journal_frame ops f b = (ok, f')"
  shows "rest f' = rest f"
proof -
  have w: "rest (snd (jf_write ops x d)) = rest x" for x d
    using write_file [of x d "fst (jf_write ops x d)"] by simp
  have o: "rest (snd (jf_open_for_append ops x)) = rest x" "rest (snd (jf_flush ops x)) = rest x" for x
    using open_for_append [of x "fst (jf_open_for_append ops x)"] flush_file [of x "fst (jf_flush ops x)"]
    by simp_all
  show ?thesis
    using assms close_file w o
    by (auto simp: append_journal_frame_def Let_def split_def split: if_splits)
qed

lemma scan_journal_spec:
  assumes "fst (jf_open_for_read ops f)"
  shows "\<exists>f'. scan_journal ops f =
      Some (int (ok_count (scan_bytes 0 (content f))), scan_bytes 0 (content f), f') \<and>
      content f' = content f \<and> rest f' = rest f"
proof -
  obtain f1 where o: "jf_open_for_read ops f = (True, f1)"
    using assms by (cases "jf_open_for_read ops f") auto
  have c: "content f1 = content f" "rest f1 = rest f" "unread f1 = content f"
    using open_for_read [OF o] by simp_all
  show ?thesis
    using scan_loop_spec [of f1 0 0 "[]"] close_file c by (auto simp: scan_journal_def o)
qed

end

section \<open>A file in memory\<close>

text \<open>An instance of the interface to run the model on, in the role of the
  temporary file of the host tests: a byte string with a reading position and
  the number of bytes the medium still takes (a smaller number than a frame
  needs is a write cut short).\<close>

record mem_file =
  mf_content :: bytes
  mf_unread :: bytes
  mf_room :: nat

definition mem_ops :: "mem_file jfile_ops" where
  "mem_ops = \<lparr>
     jf_open_for_append = (\<lambda>f. (True, f)),
     jf_open_for_read = (\<lambda>f. (True, f\<lparr>mf_unread := mf_content f\<rparr>)),
     jf_close = (\<lambda>f. f),
     jf_write = (\<lambda>f d. let k = min (length d) (mf_room f) in
       (int k, f\<lparr>mf_content := mf_content f @ take k d, mf_room := mf_room f - k\<rparr>)),
     jf_flush = (\<lambda>f. (True, f)),
     jf_read = (\<lambda>f n. (Some (take n (mf_unread f)), f\<lparr>mf_unread := drop n (mf_unread f)\<rparr>)),
     jf_size = (\<lambda>f. of_nat (length (mf_content f)))\<rparr>"

definition mem_with :: "bytes \<Rightarrow> nat \<Rightarrow> mem_file" where
  "mem_with c room = \<lparr>mf_content = c, mf_unread = [], mf_room = room\<rparr>"

lemma journal_file_mem: "journal_file mem_ops mf_content mf_unread (\<lambda>f. ())"
  by unfold_locales (auto simp: mem_ops_def Let_def)

interpretation mem: journal_file mem_ops mf_content mf_unread "\<lambda>f. ()"
  by (rule journal_file_mem)

lemma mem_open_for_read [simp]: "fst (jf_open_for_read mem_ops f)"
  by (simp add: mem_ops_def)

lemma mem_append_ok:
  assumes "length b + 9 \<le> mf_room f" "length b < 2 ^ 31"
  shows "append_journal_frame mem_ops f b =
     (True, f\<lparr>mf_content := mf_content f @ frame_of b, mf_room := mf_room f - (length b + 9)\<rparr>)"
  using assms
  by (simp add: append_journal_frame_def mem_ops_def Let_def frame_of_def sint_of_nat_u32)

section \<open>Properties of the frame layer\<close>

text \<open>C23. Appending one frame to a journal and scanning it again, whatever the
  file operations did on the way: the scan returns, every frame that was there
  before is reported unchanged and in order, and the new body is reported when
  the append returned true; when it returned false the only other outcomes are
  a clean end or one INCOMPLETE frame at the old end of the file.\<close>

theorem append_then_scan:
  assumes "journal_file ops content unread rest"
    and "content f = log_bytes bs"
    and "\<forall>x\<in>set (bs @ [b]). length x < 2 ^ 31"
    and "append_journal_frame ops f b = (ok, f1)"
    and "fst (jf_open_for_read ops f1)"
  shows "\<exists>frames f2. scan_journal ops f1 = Some (int (ok_count frames), frames, f2) \<and>
     content f2 = content f1 \<and>
     (if ok then frames = ok_frames 0 (bs @ [b])
      else frames \<in> {ok_frames 0 bs,
             ok_frames 0 bs @ [bad_frame (of_nat (length (log_bytes bs))) INCOMPLETE],
             ok_frames 0 (bs @ [b])})"
proof -
  obtain k where k: "k \<le> length (frame_of b)" "content f1 = content f @ take k (frame_of b)"
      "ok \<longrightarrow> k = length (frame_of b)"
    using journal_file.append_spec [OF assms(1,4)] assms(3) by auto
  obtain f2 where s: "scan_journal ops f1 =
      Some (int (ok_count (scan_bytes 0 (content f1))), scan_bytes 0 (content f1), f2)"
      "content f2 = content f1"
    using journal_file.scan_journal_spec [OF assms(1,5)] by blast
  have small: "\<forall>x\<in>set bs. length x < 2 ^ 32" "length b < 2 ^ 32"
    using assms(3) by auto
  have "scan_bytes 0 (content f1) =
      (if k = length (frame_of b) then ok_frames 0 (bs @ [b])
       else if k = 0 then ok_frames 0 bs
       else ok_frames 0 bs @ [bad_frame (of_nat (length (log_bytes bs))) INCOMPLETE])"
    using k(1,2) scan_log [OF small(1), of 0] scan_whole_frame [OF small(2), of _ "[]"]
      scan_torn [OF small(2), of k]
    by (simp add: assms(2) ok_frames_append)
  then show ?thesis
    using s k(3) by auto
qed

theorem append_then_scan_witness:
  "(\<exists>frames f2. scan_journal mem_ops (snd (append_journal_frame mem_ops (mem_with (log_bytes [''a'']) 5) ''xy'')) =
        Some (int (ok_count frames), frames, f2))"
proof -
  let ?f = "mem_with (log_bytes [''a'']) 5"
  obtain ok f1 where a: "append_journal_frame mem_ops ?f ''xy'' = (ok, f1)"
    by fastforce
  show ?thesis
    using append_then_scan [OF journal_file_mem _ _ a, of "[''a'']"] a by (auto simp: mem_with_def)
qed

text \<open>C24. Damage is detected: when at most four consecutive bytes of the body
  of some frame have changed, the scan reports every frame before the damaged
  one unchanged, reports that frame as CRC_FAIL at its offset, and reports
  nothing of what follows.\<close>

theorem scan_detects_damage:
  assumes "journal_file ops content unread rest"
    and "fst (jf_open_for_read ops f)"
    and "content f = log_bytes bs @ write_u32_le (of_nat (length (pre @ xs @ post))) @
           (pre @ ys @ post) @ write_u32_le (crc32 (pre @ xs @ post)) @ tl'"
    and "\<forall>x\<in>set bs. length x < 2 ^ 32" "length (pre @ xs @ post) < 2 ^ 32"
    and "length ys = length xs" "length xs \<le> 4" "xs \<noteq> ys"
  shows "\<exists>f'. scan_journal ops f = Some (int (length bs),
     ok_frames 0 bs @ [bad_frame (of_nat (length (log_bytes bs))) CRC_FAIL], f')"
proof -
  have "scan_bytes 0 (content f) =
      ok_frames 0 bs @ [bad_frame (of_nat (length (log_bytes bs))) CRC_FAIL]"
    unfolding assms(3) scan_log [OF assms(4)]
    using scan_damaged_body [OF assms(5), of ys] assms(6-8) by simp
  then show ?thesis
    using journal_file.scan_journal_spec [OF assms(1,2)] by force
qed

theorem scan_detects_damage_witness:
  "\<exists>f'. scan_journal mem_ops (mem_with (log_bytes [''a''] @
      write_u32_le 3 @ [1, 9, 8] @ write_u32_le (crc32 [1, 2, 3]) @ [commit_marker]) 0) =
    Some (1, [ok_frame_for 0 ''a'', bad_frame 10 CRC_FAIL], f')"
  using scan_detects_damage [OF journal_file_mem, of "mem_with (log_bytes [''a''] @
      write_u32_le 3 @ [1, 9, 8] @ write_u32_le (crc32 [1, 2, 3]) @ [commit_marker]) 0"
      "[''a'']" "[1]" "[2, 3]" "[]" "[9, 8]" "[commit_marker]"]
  by (simp add: mem_with_def)

text \<open>A torn frame that is left in place hides what is appended after it:
  the append returns true, yet a scan reports the frames before the torn one
  and then a single INCOMPLETE frame, as long as the new frame fits into the
  length the torn header announces.\<close>

lemma append_after_torn_frame_is_lost:
  assumes "journal_file ops content unread rest"
    and "content f = log_bytes bs @ take k (frame_of b)"
    and "\<forall>x\<in>set (bs @ [b, b']). length x < 2 ^ 31"
    and "4 \<le> k" "k + length b' + 9 < length b + 8"
    and "append_journal_frame ops f b' = (True, f1)"
    and "fst (jf_open_for_read ops f1)"
  shows "\<exists>f2. scan_journal ops f1 = Some (int (length bs),
     ok_frames 0 bs @ [bad_frame (of_nat (length (log_bytes bs))) INCOMPLETE], f2)"
proof -
  have c: "content f1 = log_bytes bs @ take k (frame_of b) @ frame_of b'"
    using journal_file.append_spec [OF assms(1,6)] assms(2,3) by auto
  have small: "\<forall>x\<in>set bs. length x < 2 ^ 32" "length b < 2 ^ 32"
    using assms(3) by auto
  have "scan_bytes 0 (content f1) =
      ok_frames 0 bs @ [bad_frame (of_nat (length (log_bytes bs))) INCOMPLETE]"
    unfolding c scan_log [OF small(1)]
    using scan_torn_swallows [OF small(2) assms(4), of "frame_of b'"] assms(5) by simp
  then show ?thesis
    using journal_file.scan_journal_spec [OF assms(1,7)] by force
qed

lemma append_after_torn_frame_is_lost_witness:
  "\<exists>f1 f2. append_journal_frame mem_ops (mem_with (log_bytes [''a''] @
       take 6 (frame_of ''twenty bytes of text'')) 100) ''xy'' = (True, f1) \<and>
     scan_journal mem_ops f1 = Some (1, [ok_frame_for 0 ''a'', bad_frame 10 INCOMPLETE], f2)"
proof -
  let ?f = "mem_with (log_bytes [''a''] @ take 6 (frame_of ''twenty bytes of text'')) 100"
  obtain f1 where a: "append_journal_frame mem_ops ?f ''xy'' = (True, f1)"
    using mem_append_ok [of "''xy''" ?f] by (simp add: mem_with_def)
  have "\<exists>f2. scan_journal mem_ops f1 = Some (int (length [''a'']),
      ok_frames 0 [''a''] @ [bad_frame (of_nat (length (log_bytes [''a'']))) INCOMPLETE], f2)"
    by (rule append_after_torn_frame_is_lost [OF journal_file_mem _ _ _ _ a,
          of "[''a'']" 6 "''twenty bytes of text''"]) (simp_all add: mem_with_def)
  then show ?thesis
    using a by simp
qed

end
