(* ===== verification/Ordered_Map.thy ===== *)
theory Ordered_Map
  imports Prelude
begin

text \<open>
  \<^verbatim>\<open>std::map\<close> with string keys, as the firmware uses it: find, insert or
  overwrite, and iteration in key order.  The interface is the locale
  \<open>ordered_map\<close>; the implementation, an association list in key order, is
  interpreted in it.  (The order of strings is the one of
  \<^verbatim>\<open>std::string::operator<\<close>: lexicographic on unsigned bytes.)
\<close>

type_synonym 'v omap = "(string \<times> 'v) list"

definition om_empty :: "'v omap" where
  "om_empty = []"

definition om_get :: "'v omap \<Rightarrow> string \<Rightarrow> 'v option" where
  "om_get m k = map_of m k"

fun om_put :: "string \<Rightarrow> 'v \<Rightarrow> 'v omap \<Rightarrow> 'v omap" where
  "om_put k v [] = [(k, v)]"
| "om_put k v ((k', v') # m) =
     (if k < k' then (k, v) # (k', v') # m
      else if k = k' then (k, v) # m
      else (k', v') # om_put k v m)"

definition om_wf :: "'v omap \<Rightarrow> bool" where
  "om_wf m = sorted_wrt (<) (map fst m)"

section \<open>The interface\<close>

locale ordered_map =
  fixes empty :: "'m"
    and get :: "'m \<Rightarrow> string \<Rightarrow> 'v option"
    and put :: "string \<Rightarrow> 'v \<Rightarrow> 'm \<Rightarrow> 'm"
    and entries :: "'m \<Rightarrow> (string \<times> 'v) list"
    and wf :: "'m \<Rightarrow> bool"
  assumes get_empty: "get empty k = None"
    and get_put: "wf m \<Longrightarrow> get (put k v m) k' = (if k' = k then Some v else get m k')"
    and wf_empty: "wf empty"
    and wf_put: "wf m \<Longrightarrow> wf (put k v m)"
    and entries_get: "wf m \<Longrightarrow> (k, v) \<in> set (entries m) \<longleftrightarrow> get m k = Some v"
    and entries_sorted: "wf m \<Longrightarrow> sorted_wrt (<) (map fst (entries m))"
begin

lemma entries_distinct: "wf m \<Longrightarrow> distinct (map fst (entries m))"
  using entries_sorted strict_sorted_iff by blast

lemma entries_determined:
  assumes "wf m" "wf m'" "\<And>k. get m k = get m' k"
  shows "entries m = entries m'"
proof -
  have d: "distinct (entries m)" "distinct (entries m')"
    using entries_distinct assms(1,2) distinct_map by blast+
  have s: "set (entries m) = set (entries m')"
    using entries_get [OF assms(1)] entries_get [OF assms(2)] assms(3) by auto
  have inj: "inj_on fst (set (entries m))"
    using entries_distinct [OF assms(1)] distinct_map by blast
  have "map fst (entries m) = map fst (entries m')"
    using sorted_distinct_set_unique entries_sorted assms(1,2) s
    by (metis (no_types, lifting) entries_distinct list.set_map strict_sorted_iff)
  then show ?thesis
    using inj s by (metis inj_on_map_eq_map inf.idem sup.idem)
qed

lemma get_None_iff: "wf m \<Longrightarrow> get m k = None \<longleftrightarrow> k \<notin> fst ` set (entries m)"
  using entries_get by (metis (no_types, lifting) image_iff not_None_eq prod.collapse fst_conv)

lemma wf_fold_put: "wf m \<Longrightarrow> wf (fold (\<lambda>x. put (f x) (g x)) xs m)"
  by (induction xs arbitrary: m) (simp_all add: wf_put)

lemma get_fold_put:
  assumes "wf m" "distinct (map f xs)"
  shows "get (fold (\<lambda>x. put (f x) (g x)) xs m) k =
    (case map_of (map (\<lambda>x. (f x, g x)) xs) k of None \<Rightarrow> get m k | Some v \<Rightarrow> Some v)"
  using assms
proof (induction xs arbitrary: m)
  case (Cons x xs)
  have "k = f x \<Longrightarrow> map_of (map (\<lambda>x. (f x, g x)) xs) k = None"
    using Cons.prems(2) by (auto simp: map_of_eq_None_iff)
  then show ?case
    using Cons by (auto simp: wf_put get_put split: option.split)
qed simp

end

section \<open>The association list implements it\<close>

lemma om_put_keys: "fst ` set (om_put k v m) = insert k (fst ` set m)"
  by (induction k v m rule: om_put.induct) (simp_all add: insert_commute)

lemma om_wf_put: "om_wf m \<Longrightarrow> om_wf (om_put k v m)"
proof (induction m)
  case (Cons e m)
  obtain k' v' where e: "e = (k', v')" by (cases e)
  have "\<forall>x\<in>fst ` set (om_put k v m). k' < x" if "k' < k"
    using Cons.prems that by (auto simp: om_put_keys om_wf_def e)
  then show ?case
    using Cons by (auto simp: om_wf_def e)
qed (simp add: om_wf_def)

lemma om_get_put: "om_wf m \<Longrightarrow> om_get (om_put k v m) k' = (if k' = k then Some v else om_get m k')"
proof (induction m)
  case (Cons e m)
  obtain a b where e: "e = (a, b)" by (cases e)
  have "k \<notin> fst ` set m" if "k < a"
    using Cons.prems that by (auto simp: om_wf_def e)
  then show ?case
    using Cons by (auto simp: om_wf_def om_get_def e)
qed (simp add: om_get_def)

lemma om_distinct: "om_wf m \<Longrightarrow> distinct (map fst m)"
  unfolding om_wf_def using strict_sorted_iff by blast

lemma om_entries: "om_wf m \<Longrightarrow> (k, v) \<in> set m \<longleftrightarrow> om_get m k = Some v"
  by (simp add: om_get_def om_distinct)

lemma ordered_map_om: "ordered_map om_empty om_get om_put (\<lambda>m. m) om_wf"
proof
  show "om_get om_empty k = None" for k :: string
    by (simp add: om_get_def om_empty_def)
  show "om_wf om_empty"
    by (simp add: om_wf_def om_empty_def)
qed (auto simp: om_get_put om_wf_put om_entries, simp add: om_wf_def)

interpretation om: ordered_map om_empty om_get om_put "\<lambda>m. m" om_wf
  by (rule ordered_map_om)

end
