(* ===== verification/Json_Text.thy ===== *)
theory Json_Text
  imports Prelude
begin

text \<open>
  The JSON text routines: the substring-based extractors of
  \<^verbatim>\<open>protocol/json_extract.cpp\<close>, \<^verbatim>\<open>json_escape\<close> of \<^verbatim>\<open>protocol/protocol_codec.cpp\<close>
  and the number formats the encoders print.  A position in the text is
  modelled by the suffix that starts there.  The second half proves what makes
  the plain substring search sound on the texts the encoders build: the
  pattern of a key never matches inside an escaped string, so a lookup skips
  every other key and value (\<open>find_simps\<close>) and the extractors return what
  the encoder was given.
\<close>

section \<open>Characters\<close>

abbreviation dq :: char where "dq \<equiv> CHR 0x22"
abbreviation bslash :: char where "bslash \<equiv> CHR 0x5C"

definition is_space :: "char \<Rightarrow> bool" where
  "is_space c = (of_char c = (32 :: nat) \<or> (9 \<le> (of_char c :: nat) \<and> (of_char c :: nat) \<le> 13))"

definition is_digit :: "char \<Rightarrow> bool" where
  "is_digit c = (48 \<le> (of_char c :: nat) \<and> (of_char c :: nat) \<le> 57)"

definition is_ctrl :: "char \<Rightarrow> bool" where
  "is_ctrl c = ((of_char c :: nat) < 0x20)"

section \<open>Printing numbers\<close>

definition digit_char :: "nat \<Rightarrow> char" where
  "digit_char d = char_of (48 + d)"

fun dec :: "nat \<Rightarrow> string" where
  "dec n = (if n < 10 then [digit_char n] else dec (n div 10) @ [digit_char (n mod 10)])"

declare dec.simps [simp del]

definition dec_int :: "int \<Rightarrow> string" where
  "dec_int i = (if i < 0 then CHR ''-'' # dec (nat (- i)) else dec (nat i))"

definition hex_char :: "nat \<Rightarrow> char" where
  "hex_char d = (if d < 10 then char_of (48 + d) else char_of (87 + d))"

definition hex4 :: "nat \<Rightarrow> string" where
  "hex4 n = [hex_char (n div 4096 mod 16), hex_char (n div 256 mod 16),
             hex_char (n div 16 mod 16), hex_char (n mod 16)]"

section \<open>Escaping\<close>

definition escape_char :: "char \<Rightarrow> string" where
  "escape_char c =
     (if c = dq then [bslash, dq]
      else if c = bslash then [bslash, bslash]
      else if c = CHR 0x0A then [bslash, CHR ''n'']
      else if c = CHR 0x0D then [bslash, CHR ''r'']
      else if c = CHR 0x09 then [bslash, CHR ''t'']
      else if is_ctrl c then bslash # CHR ''u'' # hex4 (of_char c)
      else [c])"

definition json_escape :: "string \<Rightarrow> string" where
  "json_escape input = concat (map escape_char input)"

section \<open>Extraction\<close>

definition skip_ws :: "string \<Rightarrow> string" where
  "skip_ws s = dropWhile is_space s"

fun has_prefix :: "string \<Rightarrow> string \<Rightarrow> bool" where
  "has_prefix [] s = True"
| "has_prefix (x # xs) [] = False"
| "has_prefix (x # xs) (y # ys) = (x = y \<and> has_prefix xs ys)"

fun find_after :: "string \<Rightarrow> string \<Rightarrow> string option" where
  "find_after n [] = (if n = [] then Some [] else None)"
| "find_after n (c # s) =
     (if has_prefix n (c # s) then Some (drop (length n) (c # s)) else find_after n s)"

definition needle :: "string \<Rightarrow> string" where
  "needle key = dq # key @ [dq, CHR '':'']"

definition find_value_start :: "string \<Rightarrow> string \<Rightarrow> string option" where
  "find_value_start json key = find_after (needle key) json"

text \<open>The brace-counting loop: the object text and what follows it.\<close>

fun take_object :: "int \<Rightarrow> string \<Rightarrow> (string \<times> string) option" where
  "take_object depth [] = None"
| "take_object depth (c # s) =
     (if c = CHR ''{'' then map_option (apfst (Cons c)) (take_object (depth + 1) s)
      else if c = CHR ''}'' then
        (if depth - 1 = 0 then Some ([c], s)
         else map_option (apfst (Cons c)) (take_object (depth - 1) s))
      else map_option (apfst (Cons c)) (take_object depth s))"

definition json_extract_object :: "string \<Rightarrow> string \<Rightarrow> string" where
  "json_extract_object json key =
     (case find_value_start json key of
        None \<Rightarrow> []
      | Some v \<Rightarrow>
          (case skip_ws v of
             [] \<Rightarrow> []
           | c # s \<Rightarrow> if c \<noteq> CHR ''{'' then []
               else (case take_object 0 (c # s) of None \<Rightarrow> [] | Some (obj, _) \<Rightarrow> obj)))"

definition unescape_char :: "char \<Rightarrow> char" where
  "unescape_char e =
     (if e = CHR ''n'' then CHR 0x0A
      else if e = CHR ''r'' then CHR 0x0D
      else if e = CHR ''t'' then CHR 0x09
      else e)"

fun read_string :: "string \<Rightarrow> string" where
  "read_string [] = []"
| "read_string [c] = (if c = dq then [] else [c])"
| "read_string (c # e # s) =
     (if c = dq then []
      else if c = bslash then unescape_char e # read_string s
      else c # read_string (e # s))"

definition json_extract_string :: "string \<Rightarrow> string \<Rightarrow> string \<Rightarrow> string" where
  "json_extract_string json key default_value =
     (case find_value_start json key of
        None \<Rightarrow> default_value
      | Some v \<Rightarrow>
          (case skip_ws v of
             [] \<Rightarrow> default_value
           | c # s \<Rightarrow> if c \<noteq> dq then default_value else read_string s))"

definition json_extract_bool :: "string \<Rightarrow> string \<Rightarrow> bool \<Rightarrow> bool" where
  "json_extract_bool json key default_value =
     (case find_value_start json key of
        None \<Rightarrow> default_value
      | Some v \<Rightarrow>
          (let s = skip_ws v in
           if take 4 s = ''true'' then True
           else if take 5 s = ''false'' then False
           else default_value))"

definition digit_value :: "char \<Rightarrow> nat" where
  "digit_value c = of_char c - 48"

definition digits_value :: "string \<Rightarrow> nat" where
  "digits_value ds = foldl (\<lambda>a c. 10 * a + digit_value c) 0 ds"

definition strtoll :: "bool \<Rightarrow> string \<Rightarrow> int" where
  "strtoll neg ds =
     (let v = (if neg then - int (digits_value ds) else int (digits_value ds)) in
      max (- (2 ^ 63)) (min (2 ^ 63 - 1) v))"

definition json_extract_int :: "string \<Rightarrow> string \<Rightarrow> int \<Rightarrow> int" where
  "json_extract_int json key default_value =
     (case find_value_start json key of
        None \<Rightarrow> default_value
      | Some v \<Rightarrow>
          (let s = skip_ws v;
               neg = (s \<noteq> [] \<and> hd s = CHR ''-'');
               ds = takeWhile is_digit (if neg then tl s else s) in
           if ds = [] then default_value else strtoll neg ds))"

definition json_has_key :: "string \<Rightarrow> string \<Rightarrow> bool" where
  "json_has_key json key = (find_value_start json key \<noteq> None)"

definition json_is_null :: "string \<Rightarrow> string \<Rightarrow> bool" where
  "json_is_null json key =
     (case find_value_start json key of None \<Rightarrow> False | Some v \<Rightarrow> take 4 (skip_ws v) = ''null'')"

lemma length_take_object: "take_object d s = Some (obj, rest) \<Longrightarrow> length rest < length s"
proof (induction s arbitrary: d obj rest)
  case (Cons c s)
  then consider d' obj' where "take_object d' s = Some (obj', rest)" | "rest = s"
    by (auto split: if_splits)
  then show ?case
    by cases (auto dest: Cons.IH)
qed simp

lemma length_skip_ws: "length (skip_ws s) \<le> length s"
  by (simp add: skip_ws_def length_dropWhile_le)

function object_elements :: "string \<Rightarrow> string list" where
  "object_elements s =
     (case skip_ws s of
        [] \<Rightarrow> []
      | c # t \<Rightarrow>
          if c = CHR '']'' then []
          else if c \<noteq> CHR ''{'' then []
          else (case take_object 0 (c # t) of
                  None \<Rightarrow> []
                | Some (obj, rest) \<Rightarrow>
                    obj # (case skip_ws rest of
                       [] \<Rightarrow> []
                     | d # u \<Rightarrow> object_elements (if d = CHR '','' then u else d # u))))"
  by pat_completeness auto
termination
proof (relation "measure length", simp, goal_cases)
  case (1 s c t obj_rest obj rest d u)
  have "length (skip_ws rest) \<le> length rest" "length (c # t) \<le> length s"
    using length_skip_ws [of rest] length_skip_ws [of s] 1 by auto
  moreover have "length rest < length (c # t)"
    by (rule length_take_object [of 0 _ obj]) (use 1 in auto)
  ultimately show ?case
    using 1 by (auto split: if_splits)
qed

declare object_elements.simps [simp del]

definition json_extract_object_array :: "string \<Rightarrow> string \<Rightarrow> string list" where
  "json_extract_object_array json key =
     (case find_value_start json key of
        None \<Rightarrow> []
      | Some v \<Rightarrow>
          (case skip_ws v of
             [] \<Rightarrow> []
           | c # s \<Rightarrow> if c \<noteq> CHR ''['' then [] else object_elements s))"

section \<open>Decimal numbers round trip\<close>

lemma of_char_digit_char: "d < 10 \<Longrightarrow> of_char (digit_char d) = 48 + d"
  by (simp add: digit_char_def)

lemma is_digit_digit_char [simp]: "d < 10 \<Longrightarrow> is_digit (digit_char d)"
  by (simp add: is_digit_def of_char_digit_char)

lemma digit_value_digit_char [simp]: "d < 10 \<Longrightarrow> digit_value (digit_char d) = d"
  by (simp add: digit_value_def of_char_digit_char)

lemma is_digit_dec: "c \<in> set (dec n) \<Longrightarrow> is_digit c"
  by (induction n rule: dec.induct) (subst (asm) (2) dec.simps, auto split: if_splits)

lemma dec_not_Nil [simp]: "dec n \<noteq> []"
  by (subst dec.simps) simp

lemma digits_value_dec [codec_simps]: "digits_value (dec n) = n"
proof (induction n rule: dec.induct)
  case (1 n)
  show ?case
  proof (cases "n < 10")
    case False
    then have "digits_value (dec n) = 10 * digits_value (dec (n div 10)) + n mod 10"
      by (subst dec.simps) (simp add: digits_value_def)
    then show ?thesis
      using 1 False by simp
  qed (simp add: dec.simps digits_value_def)
qed

lemma is_digit_props: "is_digit c \<Longrightarrow> c \<noteq> dq" "is_digit c \<Longrightarrow> \<not> is_space c"
  "is_digit c \<Longrightarrow> c \<noteq> CHR ''-''"
  by (auto simp: is_digit_def is_space_def)

lemma dec_Cons:
  obtains c cs where "dec n = c # cs" "is_digit c"
  by (metis dec_not_Nil is_digit_dec list.set_intros(1) neq_Nil_conv)

lemma skip_ws_dec [simp]: "skip_ws (dec n @ r) = dec n @ r"
  by (cases n rule: dec_Cons) (simp add: skip_ws_def is_digit_props)

lemma takeWhile_dec:
  assumes "\<not> is_digit c"
  shows "takeWhile is_digit (dec n @ c # r) = dec n"
  using assms by (simp add: is_digit_dec)

lemma dq_notin_dec [simp]: "dq \<notin> set (dec n)"
  using is_digit_dec is_digit_props(1) by blast

section \<open>Strings round trip\<close>

definition plain :: "string \<Rightarrow> bool" where
  "plain s = list_all (\<lambda>c. is_ctrl c \<longrightarrow> c \<in> {CHR 0x0A, CHR 0x0D, CHR 0x09}) s"

lemma json_escape_simps [simp]:
  "json_escape [] = []"
  "json_escape (c # s) = escape_char c @ json_escape s"
  "json_escape (s @ t) = json_escape s @ json_escape t"
  by (simp_all add: json_escape_def)

lemma read_string_plain_char:
  "c \<noteq> dq \<Longrightarrow> c \<noteq> bslash \<Longrightarrow> read_string (c # s) = c # read_string s"
  by (cases s) auto

lemma read_string_escape:
  assumes "is_ctrl c \<longrightarrow> c \<in> {CHR 0x0A, CHR 0x0D, CHR 0x09}"
  shows "read_string (escape_char c @ s) = c # read_string s"
  using assms by (auto simp: escape_char_def unescape_char_def read_string_plain_char)

lemma read_string_json_escape [codec_simps]:
  "plain s \<Longrightarrow> read_string (json_escape s @ dq # r) = s"
proof (induction s)
  case Nil
  show ?case by (cases r) auto
qed (simp add: plain_def read_string_escape)

section \<open>Keys are found where the encoder put them\<close>

definition simple_key :: "string \<Rightarrow> bool" where
  "simple_key k = (k \<noteq> [] \<and> list_all (\<lambda>c. c \<noteq> dq \<and> c \<noteq> bslash \<and> c \<noteq> CHR '':'') k)"

named_theorems find_simps \<open>lookups skip other keys and values\<close>

lemma has_prefix_append [simp]: "has_prefix n (n @ s)"
  by (induction n) simp_all

lemma find_skip_char: "c \<noteq> dq \<Longrightarrow> find_after (needle k) (c # s) = find_after (needle k) s"
  by (simp add: needle_def)

lemma find_no_prefix:
  "\<not> has_prefix n (c # s) \<Longrightarrow> find_after n (c # s) = find_after n s"
  by simp

declare find_after.simps [simp del]

lemma find_skip_chars:
  "dq \<notin> set xs \<Longrightarrow> find_after (needle k) (xs @ s) = find_after (needle k) s"
  by (induction xs) (auto simp: find_skip_char)

lemma hex_char_not_dq: "d < 16 \<Longrightarrow> hex_char d \<noteq> dq"
  by (auto simp: hex_char_def dest!: arg_cong [where f = "of_char :: char \<Rightarrow> nat"])

lemma dq_notin_hex4 [simp]: "dq \<notin> set (hex4 n)"
  using hex_char_not_dq [THEN not_sym] by (simp add: hex4_def)

lemma escape_char_cases:
  obtains "escape_char c = [c]" "c \<noteq> dq" "c \<noteq> bslash"
  | e r where "escape_char c = bslash # e # r" "dq \<notin> set r"
proof -
  consider "escape_char c = [c]" "c \<noteq> dq" "c \<noteq> bslash"
    | "escape_char c = bslash # CHR ''u'' # hex4 (of_char c)"
    | e where "escape_char c = [bslash, e]"
    by (cases "c \<in> {dq, bslash, CHR 0x0A, CHR 0x0D, CHR 0x09}"; cases "is_ctrl c")
      (auto simp: escape_char_def)
  then show thesis
    by cases (use that dq_notin_hex4 in \<open>auto\<close>)
qed

text \<open>The pattern of a key, without its opening quote, does not start an
  escaped string that is closed by a quote and followed by no colon.\<close>

lemma no_key_in_escaped:
  assumes "list_all (\<lambda>c. c \<noteq> dq \<and> c \<noteq> bslash \<and> c \<noteq> CHR '':'') k" "c \<noteq> CHR '':''"
  shows "\<not> has_prefix (k @ [dq, CHR '':'']) (json_escape s @ dq # c # r)"
  using assms
proof (induction s arbitrary: k)
  case Nil
  then show ?case by (cases k) auto
next
  case (Cons x s)
  show ?case
  proof (cases x rule: escape_char_cases)
    case 1
    then show ?thesis
      using Cons by (cases k) auto
  next
    case (2 e y)
    then show ?thesis
      using Cons.prems by (cases k) auto
  qed
qed

lemma find_skip_escaped:
  assumes "simple_key k" "c \<noteq> CHR '':''"
  shows "find_after (needle k) (json_escape s @ dq # c # r) = find_after (needle k) (dq # c # r)"
proof (induction s)
  case (Cons x s)
  show ?case
  proof (cases x rule: escape_char_cases)
    case 1
    then show ?thesis
      using Cons by (simp add: find_skip_char)
  next
    case (2 e y)
    have p: "\<not> has_prefix (needle k) (dq # json_escape s @ dq # c # r)"
      using no_key_in_escaped [of k c s r] assms by (simp add: needle_def simple_key_def)
    show ?thesis
    proof (cases "e = dq")
      case True
      then have "y = []"
        using 2(1) by (auto simp: escape_char_def split: if_splits)
      then show ?thesis
        using 2 Cons True find_no_prefix [OF p] by (simp add: find_skip_char)
    next
      case False
      then show ?thesis
        using 2 Cons by (simp add: find_skip_char find_skip_chars)
    qed
  qed
qed simp

definition jkey :: "string \<Rightarrow> string" where
  "jkey k = dq # k @ [dq, CHR '':'']"

definition jstr :: "string \<Rightarrow> string" where
  "jstr s = dq # json_escape s @ [dq]"

lemma find_closing_quote:
  "simple_key k \<Longrightarrow> hd k \<noteq> c \<Longrightarrow> find_after (needle k) (dq # c # r) = find_after (needle k) (c # r)"
  by (rule find_no_prefix) (cases k; auto simp: needle_def simple_key_def)

lemma find_skip_string [find_simps]:
  assumes "simple_key k" "c \<noteq> CHR '':''" "c \<noteq> hd k"
  shows "find_value_start (jstr s @ c # r) k = find_value_start (c # r) k"
proof -
  have "\<not> has_prefix (needle k) (dq # json_escape s @ dq # c # r)"
    using no_key_in_escaped [of k c s r] assms by (simp add: needle_def simple_key_def)
  then have "find_after (needle k) (dq # json_escape s @ dq # c # r) =
      find_after (needle k) (json_escape s @ dq # c # r)"
    by (rule find_no_prefix)
  then show ?thesis
    using find_skip_escaped [OF assms(1,2)] find_closing_quote [OF assms(1)] assms(3)
    by (simp add: find_value_start_def jstr_def)
qed

lemma find_skip_text [find_simps]:
  "dq \<notin> set xs \<Longrightarrow> find_value_start (xs @ s) k = find_value_start s k"
  "c \<noteq> dq \<Longrightarrow> find_value_start (c # s) k = find_value_start s k"
  by (simp_all add: find_value_start_def find_skip_chars find_skip_char)

lemma find_this_key [find_simps]: "find_value_start (jkey k @ s) k = Some s"
  using has_prefix_append [of "k @ [dq, CHR '':'']" s]
  by (simp add: find_value_start_def jkey_def needle_def find_after.simps)

lemma has_prefix_split:
  assumes "dq \<notin> set k" "dq \<notin> set k'"
  shows "has_prefix (k @ dq # a) (k' @ dq # b) \<longleftrightarrow> k = k' \<and> has_prefix a b"
  using assms
proof (induction k arbitrary: k')
  case Nil
  then show ?case by (cases k') auto
next
  case (Cons x k)
  then show ?case by (cases k') auto
qed

lemma simple_key_no_dq: "simple_key k \<Longrightarrow> dq \<notin> set k"
  by (auto simp: simple_key_def list_all_iff)

lemma find_other_key [find_simps]:
  assumes "simple_key k" "simple_key k'" "k \<noteq> k'"
  shows "find_value_start (jkey k' @ s) k = find_value_start s k"
proof -
  have "\<not> has_prefix (needle k) (dq # k' @ dq # CHR '':'' # s)"
    using has_prefix_split [of k k'] assms simple_key_no_dq by (simp add: needle_def)
  then have "find_after (needle k) (dq # k' @ dq # CHR '':'' # s) =
      find_after (needle k) (k' @ dq # CHR '':'' # s)"
    by (rule find_no_prefix)
  also have "\<dots> = find_after (needle k) (dq # CHR '':'' # s)"
    by (rule find_skip_chars) (rule simple_key_no_dq [OF assms(2)])
  also have "\<dots> = find_after (needle k) s"
    using assms(1) by (subst find_closing_quote)
      (auto simp: find_skip_char simple_key_def list_all_iff)
  finally show ?thesis
    by (simp add: find_value_start_def jkey_def)
qed

section \<open>Extracting what was encoded\<close>

lemma skip_ws_jstr [simp]: "skip_ws (jstr s @ r) = jstr s @ r"
  by (simp add: skip_ws_def jstr_def is_space_def)

lemma extract_string_value [codec_simps]:
  assumes "find_value_start json k = Some (jstr s @ r)" "plain s"
  shows "json_extract_string json k d = s"
  using assms by (simp add: json_extract_string_def) (simp add: jstr_def read_string_json_escape)

lemma extract_int_value [codec_simps]:
  assumes "find_value_start json k = Some (dec n @ c # r)" "\<not> is_digit c"
  shows "json_extract_int json k d = min (2 ^ 63 - 1) (int n)"
proof -
  have "hd (dec n @ c # r) \<noteq> CHR ''-''"
    by (cases n rule: dec_Cons) (simp add: is_digit_props)
  then show ?thesis
    using assms(1) takeWhile_dec [OF assms(2), of n r]
    by (simp add: json_extract_int_def strtoll_def digits_value_dec)
qed

lemma dq_notin_dec_int [simp]: "dq \<notin> set (dec_int i)"
  by (simp add: dec_int_def)

lemma extract_dec_int_value [codec_simps]:
  assumes "find_value_start json k = Some (dec_int i @ c # r)" "\<not> is_digit c"
    "- (2 ^ 63) \<le> i" "i < 2 ^ 63"
  shows "json_extract_int json k d = i"
proof (cases "i < 0")
  case True
  have "skip_ws (CHR ''-'' # dec (nat (- i)) @ c # r) = CHR ''-'' # dec (nat (- i)) @ c # r"
    by (simp add: skip_ws_def is_space_def)
  then show ?thesis
    using assms True takeWhile_dec [OF assms(2), of "nat (- i)" r]
    by (simp add: json_extract_int_def dec_int_def strtoll_def digits_value_dec)
next
  case False
  then have "find_value_start json k = Some (dec (nat i) @ c # r)"
    using assms(1) by (simp add: dec_int_def)
  then show ?thesis
    using extract_int_value [OF _ assms(2)] assms(4) False by fastforce
qed

lemma has_key_iff: "json_has_key json k \<longleftrightarrow> find_value_start json k \<noteq> None"
  by (simp add: json_has_key_def)

lemma find_nothing [find_simps]:
  "simple_key k \<Longrightarrow> find_value_start [] k = None"
  by (simp add: find_value_start_def needle_def find_after.simps)

lemma find_skip_dec [find_simps]:
  "find_value_start (dec n @ s) k = find_value_start s k"
  "find_value_start (dec_int i @ s) k = find_value_start s k"
  by (simp_all add: find_skip_text)

text \<open>What a control character other than newline, carriage return and tab
  becomes: the escape is six characters, of which the reader drops one.\<close>

definition reread_char :: "char \<Rightarrow> string" where
  "reread_char c =
     (if is_ctrl c \<and> c \<notin> {CHR 0x0A, CHR 0x0D, CHR 0x09} then CHR ''u'' # hex4 (of_char c) else [c])"

lemma hex_char_not_bslash: "d < 16 \<Longrightarrow> hex_char d \<noteq> bslash"
  by (auto simp: hex_char_def dest!: arg_cong [where f = "of_char :: char \<Rightarrow> nat"])

lemma read_string_hex4: "read_string (hex4 n @ s) = hex4 n @ read_string s"
  by (simp add: hex4_def read_string_plain_char hex_char_not_dq hex_char_not_bslash)

lemma read_string_json_escape_any:
  "read_string (json_escape s @ dq # r) = concat (map reread_char s)"
proof (induction s)
  case Nil
  show ?case by (cases r) auto
next
  case (Cons c s)
  show ?case
  proof (cases "is_ctrl c \<longrightarrow> c \<in> {CHR 0x0A, CHR 0x0D, CHR 0x09}")
    case True
    then show ?thesis
      using Cons by (auto simp: read_string_escape reread_char_def)
  next
    case False
    then have "escape_char c = bslash # CHR ''u'' # hex4 (of_char c)"
      by (auto simp: escape_char_def is_ctrl_def)
    moreover have "unescape_char CHR ''u'' = CHR ''u''"
      by (simp add: unescape_char_def)
    ultimately show ?thesis
      using Cons False by (simp add: read_string_hex4 reread_char_def)
  qed
qed

text \<open>C25. What the reader makes of a string the writer escaped, for every
  string: every character comes back as it was, except a control character
  other than newline, carriage return and tab, which comes back as the letter
  u and four hexadecimal digits.\<close>

theorem json_string_reread:
  assumes "simple_key k"
  shows "json_extract_string (CHR ''{'' # jkey k @ jstr s @ ''}'') k d = concat (map reread_char s)"
proof -
  have "find_value_start (CHR ''{'' # jkey k @ jstr s @ ''}'') k = Some (jstr s @ ''}'')"
    using assms by (simp add: find_simps)
  then show ?thesis
    by (simp add: json_extract_string_def) (simp add: jstr_def read_string_json_escape_any)
qed

theorem json_string_reread_witness:
  "json_extract_string (CHR ''{'' # jkey ''raw'' @ jstr [CHR ''A'', CHR 0x1D, dq] @ ''}'') ''raw'' [] =
     [CHR ''A'', CHR ''u'', CHR ''0'', CHR ''0'', CHR ''1'', CHR ''d'', dq]"
proof -
  have "simple_key ''raw''" by (simp add: simple_key_def)
  from json_string_reread [OF this, of "[CHR ''A'', CHR 0x1D, dq]" "[]"] show ?thesis
    by (simp add: reread_char_def is_ctrl_def hex4_def hex_char_def char_of_def bit_0)
qed

end
