(* ===== verification/Event_Codec.thy ===== *)
theory Event_Codec
  imports Json_Text
begin

text \<open>
  The business event of \<^verbatim>\<open>protocol/event_types.h\<close> and its wire format,
  \<^verbatim>\<open>encode_event_json\<close> of \<^verbatim>\<open>protocol/protocol_codec.cpp\<close>.  The texts are built
  from keys (\<open>jkey\<close>), escaped strings (\<open>jstr\<close>) and numbers, so every lookup
  is computed by \<open>find_simps\<close>.
\<close>

datatype event_type = SCAN | FINISH_REQUESTED | QUANTITY_SUBMITTED | CANCEL_REQUESTED

definition event_type_to_string :: "event_type \<Rightarrow> string" where
  "event_type_to_string t =
     (case t of
        SCAN \<Rightarrow> ''SCAN''
      | FINISH_REQUESTED \<Rightarrow> ''FINISH_REQUESTED''
      | QUANTITY_SUBMITTED \<Rightarrow> ''QUANTITY_SUBMITTED''
      | CANCEL_REQUESTED \<Rightarrow> ''CANCEL_REQUESTED'')"

datatype time_sync_status = UNSYNCED | SYNCING | SYNCED | STALE | SYNC_FAILED

definition time_sync_status_to_string :: "time_sync_status \<Rightarrow> string" where
  "time_sync_status_to_string s =
     (case s of
        UNSYNCED \<Rightarrow> ''UNSYNCED''
      | SYNCING \<Rightarrow> ''SYNCING''
      | SYNCED \<Rightarrow> ''SYNCED''
      | STALE \<Rightarrow> ''STALE''
      | SYNC_FAILED \<Rightarrow> ''FAILED'')"

record optional_quantity =
  oq_present :: bool
  oq_value :: u32

record scan_payload =
  sp_source :: string
  sp_raw :: string

record event_context =
  ec_expected_state_version :: u64
  ec_workflow_version :: u32
  ec_ui_bundle_version :: u32

record event_device_info =
  ed_device_id :: string
  ed_hardware_id :: string
  ed_boot_id :: string

record event_info =
  ei_event_id :: string
  ei_device_seq :: u64
  ei_type :: event_type

record event_time_info =
  et_timestamp_device_iso :: string
  et_uptime_ms :: u64
  et_sync_status :: time_sync_status
  et_sync_age_s :: u32

record kiosk_event =
  ke_protocol_version :: u32
  ke_device :: event_device_info
  ke_event :: event_info
  ke_time :: event_time_info
  ke_context :: event_context
  ke_payload :: scan_payload
  ke_quantity_good :: optional_quantity
  ke_quantity_defect :: optional_quantity
  ke_quantity_rework :: optional_quantity

definition no_quantity :: optional_quantity where
  "no_quantity = \<lparr>oq_present = False, oq_value = 0\<rparr>"

definition encode_quantity :: "string \<Rightarrow> optional_quantity \<Rightarrow> string" where
  "encode_quantity key q = (if oq_present q then '','' @ jkey key @ dec_int (sint (oq_value q)) else [])"

definition encode_device :: "event_device_info \<Rightarrow> string" where
  "encode_device d = ''{'' @ jkey ''device_id'' @ jstr (ed_device_id d) @
     '','' @ jkey ''hardware_id'' @ jstr (ed_hardware_id d) @
     '','' @ jkey ''boot_id'' @ jstr (ed_boot_id d) @ ''}''"

definition encode_info :: "event_info \<Rightarrow> string" where
  "encode_info e = ''{'' @ jkey ''event_id'' @ jstr (ei_event_id e) @
     '','' @ jkey ''device_seq'' @ dec (unat (ei_device_seq e)) @
     '','' @ jkey ''type'' @ [dq] @ event_type_to_string (ei_type e) @ [dq] @ ''}''"

definition encode_time :: "event_time_info \<Rightarrow> string" where
  "encode_time t = ''{'' @ jkey ''timestamp_device'' @
     (if et_sync_status t = SYNCED \<or> et_sync_status t = STALE
      then jstr (et_timestamp_device_iso t) else ''null'') @
     '','' @ jkey ''uptime_ms'' @ dec (unat (et_uptime_ms t)) @
     '','' @ jkey ''sync_status'' @ [dq] @ time_sync_status_to_string (et_sync_status t) @ [dq] @
     '','' @ jkey ''sync_age_s'' @ dec (unat (et_sync_age_s t)) @ ''}''"

definition encode_context :: "event_context \<Rightarrow> string" where
  "encode_context c = ''{'' @ jkey ''expected_state_version'' @ dec (unat (ec_expected_state_version c)) @
     '','' @ jkey ''workflow_version'' @ dec (unat (ec_workflow_version c)) @
     '','' @ jkey ''ui_bundle_version'' @ dec (unat (ec_ui_bundle_version c)) @ ''}''"

definition encode_event_json :: "kiosk_event \<Rightarrow> string" where
  "encode_event_json ev = ''{'' @ jkey ''protocol_version'' @ dec (unat (ke_protocol_version ev)) @
     '','' @ jkey ''device'' @ encode_device (ke_device ev) @
     '','' @ jkey ''event'' @ encode_info (ke_event ev) @
     '','' @ jkey ''time'' @ encode_time (ke_time ev) @
     '','' @ jkey ''context'' @ encode_context (ke_context ev) @
     '','' @ jkey ''payload'' @ ''{'' @ jkey ''source'' @ jstr (sp_source (ke_payload ev)) @
     '','' @ jkey ''raw'' @ jstr (sp_raw (ke_payload ev)) @
     encode_quantity ''quantity_good'' (ke_quantity_good ev) @
     encode_quantity ''quantity_defect'' (ke_quantity_defect ev) @
     encode_quantity ''quantity_rework'' (ke_quantity_rework ev) @
     ''}'' @ ''}''"

lemma type_string_jstr:
  "dq # event_type_to_string t @ dq # r = jstr (event_type_to_string t) @ r"
  by (cases t) (simp_all add: event_type_to_string_def jstr_def escape_char_def is_ctrl_def)

lemma sync_string_jstr:
  "dq # time_sync_status_to_string t @ dq # r = jstr (time_sync_status_to_string t) @ r"
  by (cases t) (simp_all add: time_sync_status_to_string_def jstr_def escape_char_def is_ctrl_def)

lemmas encode_defs = encode_event_json_def encode_device_def encode_info_def encode_time_def
  encode_context_def

lemma simple_keys [simp]:
  "simple_key ''quantity_good''" "simple_key ''quantity_defect''" "simple_key ''quantity_rework''"
  "simple_key ''protocol_version''" "simple_key ''device''" "simple_key ''device_id''"
  "simple_key ''hardware_id''" "simple_key ''boot_id''" "simple_key ''event''" "simple_key ''event_id''"
  "simple_key ''device_seq''" "simple_key ''type''" "simple_key ''time''" "simple_key ''timestamp_device''"
  "simple_key ''uptime_ms''" "simple_key ''sync_status''" "simple_key ''sync_age_s''"
  "simple_key ''context''" "simple_key ''expected_state_version''" "simple_key ''workflow_version''"
  "simple_key ''ui_bundle_version''" "simple_key ''payload''" "simple_key ''source''" "simple_key ''raw''"
  by (simp_all add: simple_key_def)

definition quantity_tail :: "kiosk_event \<Rightarrow> string" where
  "quantity_tail ev = encode_quantity ''quantity_good'' (ke_quantity_good ev) @
     encode_quantity ''quantity_defect'' (ke_quantity_defect ev) @
     encode_quantity ''quantity_rework'' (ke_quantity_rework ev) @ ''}'' @ ''}''"

lemma quantity_tail_head: "\<exists>c r. quantity_tail ev = c # r \<and> c \<in> {CHR '','', CHR ''}''}"
  by (simp add: quantity_tail_def encode_quantity_def)

lemma find_in_encoded:
  assumes "k \<in> {''quantity_good'', ''quantity_defect'', ''quantity_rework''}"
  shows "find_value_start (encode_event_json ev) k = find_value_start (quantity_tail ev) k"
proof -
  have k: "simple_key k" "hd k = CHR ''q''"
    using assms by auto
  obtain c r where t: "quantity_tail ev = c # r" "c \<in> {CHR '','', CHR ''}''}"
    using quantity_tail_head by blast
  have raw: "find_value_start (jstr x @ c # r) k = find_value_start (c # r) k" for x
    using k t(2) by (intro find_skip_string) auto
  have "encode_event_json ev = ''{'' @ jkey ''protocol_version'' @ dec (unat (ke_protocol_version ev)) @
     '','' @ jkey ''device'' @ encode_device (ke_device ev) @
     '','' @ jkey ''event'' @ encode_info (ke_event ev) @
     '','' @ jkey ''time'' @ encode_time (ke_time ev) @
     '','' @ jkey ''context'' @ encode_context (ke_context ev) @
     '','' @ jkey ''payload'' @ ''{'' @ jkey ''source'' @ jstr (sp_source (ke_payload ev)) @
     '','' @ jkey ''raw'' @ jstr (sp_raw (ke_payload ev)) @ c # r"
    by (simp add: encode_event_json_def t(1) [symmetric] quantity_tail_def)
  then show ?thesis
    using assms raw unfolding t(1)
    by (auto simp: encode_device_def encode_info_def encode_time_def encode_context_def
        type_string_jstr sync_string_jstr find_simps)
qed

lemma sint_u32_bounds: "- (2 ^ 63) \<le> sint (v :: u32)" "sint (v :: u32) < 2 ^ 63"
proof -
  have "- (2 ^ 31) \<le> sint v" "sint v < 2 ^ 31"
    using sint_greater_eq [of v] sint_less [of v] by simp_all
  then show "- (2 ^ 63) \<le> sint v" "sint v < 2 ^ 63"
    by simp_all
qed

lemma extract_quantity:
  assumes "find_value_start json k = Some (dec_int (sint (v :: u32)) @ c # r)" "c \<in> {CHR '','', CHR ''}''}"
  shows "json_extract_int json k d = sint v"
  by (rule extract_dec_int_value [OF assms(1)])
    (use assms(2) sint_u32_bounds in \<open>auto simp: is_digit_def\<close>)

lemma extract_optional_quantity:
  assumes "find_value_start json k = (if p then Some (dec_int (sint (v :: u32)) @ r) else None)"
    "\<exists>c r'. r = c # r' \<and> c \<in> {CHR '','', CHR ''}''}"
  shows "json_extract_int json k d = (if p then sint v else d)"
proof (cases p)
  case True
  then show ?thesis
    using assms extract_quantity by auto
next
  case False
  then show ?thesis
    using assms(1) by (simp add: json_extract_int_def)
qed

lemma quantity_lookups:
  "find_value_start (encode_event_json ev) ''quantity_good'' =
     (if oq_present (ke_quantity_good ev)
      then Some (dec_int (sint (oq_value (ke_quantity_good ev))) @
        encode_quantity ''quantity_defect'' (ke_quantity_defect ev) @
        encode_quantity ''quantity_rework'' (ke_quantity_rework ev) @ ''}}'') else None)"
  "find_value_start (encode_event_json ev) ''quantity_defect'' =
     (if oq_present (ke_quantity_defect ev)
      then Some (dec_int (sint (oq_value (ke_quantity_defect ev))) @
        encode_quantity ''quantity_rework'' (ke_quantity_rework ev) @ ''}}'') else None)"
  "find_value_start (encode_event_json ev) ''quantity_rework'' =
     (if oq_present (ke_quantity_rework ev)
      then Some (dec_int (sint (oq_value (ke_quantity_rework ev))) @ ''}}'') else None)"
  by (simp_all add: find_in_encoded quantity_tail_def encode_quantity_def find_simps)

lemma quantity_follow:
  "\<exists>c r'. encode_quantity k q @ s = c # r' \<and> c \<in> {CHR '','', CHR ''}''}"
  if "\<exists>c r'. s = c # r' \<and> c \<in> {CHR '','', CHR ''}''}"
  using that by (auto simp: encode_quantity_def)

text \<open>C26. A quantity that is present, be it zero or negative, and a quantity
  that is absent stay different on the wire, for each of the three quantities
  whatever the other fields hold: the key is in the encoded event exactly when
  the quantity is present, and reading it gives its value, or the reader's
  default when it is absent.\<close>

theorem encoded_quantities:
  "json_has_key (encode_event_json ev) ''quantity_good'' = oq_present (ke_quantity_good ev) \<and>
   json_has_key (encode_event_json ev) ''quantity_defect'' = oq_present (ke_quantity_defect ev) \<and>
   json_has_key (encode_event_json ev) ''quantity_rework'' = oq_present (ke_quantity_rework ev) \<and>
   json_extract_int (encode_event_json ev) ''quantity_good'' d =
     (if oq_present (ke_quantity_good ev) then sint (oq_value (ke_quantity_good ev)) else d) \<and>
   json_extract_int (encode_event_json ev) ''quantity_defect'' d =
     (if oq_present (ke_quantity_defect ev) then sint (oq_value (ke_quantity_defect ev)) else d) \<and>
   json_extract_int (encode_event_json ev) ''quantity_rework'' d =
     (if oq_present (ke_quantity_rework ev) then sint (oq_value (ke_quantity_rework ev)) else d)"
proof (intro conjI)
  note q = quantity_lookups [of ev]
  show "json_has_key (encode_event_json ev) ''quantity_good'' = oq_present (ke_quantity_good ev)"
    "json_has_key (encode_event_json ev) ''quantity_defect'' = oq_present (ke_quantity_defect ev)"
    "json_has_key (encode_event_json ev) ''quantity_rework'' = oq_present (ke_quantity_rework ev)"
    by (simp_all add: has_key_iff q)
  show "json_extract_int (encode_event_json ev) ''quantity_good'' d =
     (if oq_present (ke_quantity_good ev) then sint (oq_value (ke_quantity_good ev)) else d)"
    by (rule extract_optional_quantity [OF q(1)]) (intro quantity_follow, simp)
  show "json_extract_int (encode_event_json ev) ''quantity_defect'' d =
     (if oq_present (ke_quantity_defect ev) then sint (oq_value (ke_quantity_defect ev)) else d)"
    by (rule extract_optional_quantity [OF q(2)]) (intro quantity_follow, simp)
  show "json_extract_int (encode_event_json ev) ''quantity_rework'' d =
     (if oq_present (ke_quantity_rework ev) then sint (oq_value (ke_quantity_rework ev)) else d)"
    by (rule extract_optional_quantity [OF q(3)]) simp
qed

end
