(* ===== verification/Journal_Record.thy ===== *)
theory Journal_Record
  imports Event_Codec
begin

text \<open>
  \<^verbatim>\<open>protocol/journal_record.h/.cpp\<close>: the event records and status transitions
  stored in the journal, their JSON bodies and the decoders.  A decoder that
  returns false leaves its output alone; here it is \<open>None\<close>.
\<close>

datatype sync_status = PENDING | IN_FLIGHT | ACKED | REJECTED | CONFLICT | HUMAN_REVIEW

definition sync_status_to_string :: "sync_status \<Rightarrow> string" where
  "sync_status_to_string s =
     (case s of
        PENDING \<Rightarrow> ''PENDING''
      | IN_FLIGHT \<Rightarrow> ''IN_FLIGHT''
      | ACKED \<Rightarrow> ''ACKED''
      | REJECTED \<Rightarrow> ''REJECTED''
      | CONFLICT \<Rightarrow> ''CONFLICT''
      | HUMAN_REVIEW \<Rightarrow> ''HUMAN_REVIEW'')"

definition sync_status_from_string :: "string \<Rightarrow> sync_status option" where
  "sync_status_from_string s =
     (if s = ''PENDING'' then Some PENDING
      else if s = ''IN_FLIGHT'' then Some IN_FLIGHT
      else if s = ''ACKED'' then Some ACKED
      else if s = ''REJECTED'' then Some REJECTED
      else if s = ''CONFLICT'' then Some CONFLICT
      else if s = ''HUMAN_REVIEW'' then Some HUMAN_REVIEW
      else None)"

record journal_record =
  jr_record_version :: u8
  jr_event_id :: string
  jr_device_seq :: u64
  jr_boot_id :: string
  jr_event_type :: string
  jr_payload :: string
  jr_payload_hash :: string
  jr_expected_state_version :: u64
  jr_created_uptime_ms :: u32
  jr_time_sync_status :: string
  jr_retry_count :: u32
  jr_last_attempt_uptime_ms :: u32
  jr_last_error_code :: string
  jr_sync_status :: sync_status

record journal_transition =
  jt_event_id :: string
  jt_sync_status :: sync_status
  jt_retry_count :: u32
  jt_last_attempt_uptime_ms :: u32
  jt_last_error_code :: string

definition encode_journal_event :: "journal_record \<Rightarrow> string" where
  "encode_journal_event r = ''{'' @ jkey ''k'' @ [dq] @ ''E'' @ [dq] @
     '','' @ jkey ''record_version'' @ dec (unat (jr_record_version r)) @
     '','' @ jkey ''event_id'' @ jstr (jr_event_id r) @
     '','' @ jkey ''device_seq'' @ dec (unat (jr_device_seq r)) @
     '','' @ jkey ''boot_id'' @ jstr (jr_boot_id r) @
     '','' @ jkey ''event_type'' @ jstr (jr_event_type r) @
     '','' @ jkey ''payload'' @ jstr (jr_payload r) @
     '','' @ jkey ''payload_hash'' @ jstr (jr_payload_hash r) @
     '','' @ jkey ''expected_state_version'' @ dec (unat (jr_expected_state_version r)) @
     '','' @ jkey ''created_uptime_ms'' @ dec (unat (jr_created_uptime_ms r)) @
     '','' @ jkey ''time_sync_status'' @ jstr (jr_time_sync_status r) @
     '','' @ jkey ''retry_count'' @ dec (unat (jr_retry_count r)) @
     '','' @ jkey ''last_attempt_uptime_ms'' @ dec (unat (jr_last_attempt_uptime_ms r)) @
     '','' @ jkey ''last_error_code'' @ jstr (jr_last_error_code r) @
     '','' @ jkey ''sync_status'' @ [dq] @ sync_status_to_string (jr_sync_status r) @ [dq] @ ''}''"

definition encode_journal_transition :: "journal_transition \<Rightarrow> string" where
  "encode_journal_transition t = ''{'' @ jkey ''k'' @ [dq] @ ''T'' @ [dq] @
     '','' @ jkey ''event_id'' @ jstr (jt_event_id t) @
     '','' @ jkey ''sync_status'' @ [dq] @ sync_status_to_string (jt_sync_status t) @ [dq] @
     '','' @ jkey ''retry_count'' @ dec (unat (jt_retry_count t)) @
     '','' @ jkey ''last_attempt_uptime_ms'' @ dec (unat (jt_last_attempt_uptime_ms t)) @
     '','' @ jkey ''last_error_code'' @ jstr (jt_last_error_code t) @ ''}''"

datatype body_kind = EVENT_BODY | TRANSITION_BODY | UNKNOWN_BODY

definition journal_body_kind :: "string \<Rightarrow> body_kind" where
  "journal_body_kind body_json =
     (let k = json_extract_string body_json ''k'' [] in
      if k = ''E'' then EVENT_BODY else if k = ''T'' then TRANSITION_BODY else UNKNOWN_BODY)"

definition decode_journal_event :: "string \<Rightarrow> journal_record option" where
  "decode_journal_event b =
     (if journal_body_kind b \<noteq> EVENT_BODY then None else
      let version = json_extract_int b ''record_version'' (-1) in
      if version \<noteq> 1 then None else
      let event_id = json_extract_string b ''event_id'' [] in
      if event_id = [] then None else
      let event_type = json_extract_string b ''event_type'' [] in
      if event_type = [] then None else
      case sync_status_from_string (json_extract_string b ''sync_status'' []) of
        None \<Rightarrow> None
      | Some st \<Rightarrow> Some \<lparr>
          jr_record_version = of_int version,
          jr_event_id = event_id,
          jr_device_seq = of_int (json_extract_int b ''device_seq'' 0),
          jr_boot_id = json_extract_string b ''boot_id'' [],
          jr_event_type = event_type,
          jr_payload = json_extract_string b ''payload'' [],
          jr_payload_hash = json_extract_string b ''payload_hash'' [],
          jr_expected_state_version = of_int (json_extract_int b ''expected_state_version'' 0),
          jr_created_uptime_ms = of_int (json_extract_int b ''created_uptime_ms'' 0),
          jr_time_sync_status = json_extract_string b ''time_sync_status'' [],
          jr_retry_count = of_int (json_extract_int b ''retry_count'' 0),
          jr_last_attempt_uptime_ms = of_int (json_extract_int b ''last_attempt_uptime_ms'' 0),
          jr_last_error_code = json_extract_string b ''last_error_code'' [],
          jr_sync_status = st\<rparr>)"

definition decode_journal_transition :: "string \<Rightarrow> journal_transition option" where
  "decode_journal_transition b =
     (if journal_body_kind b \<noteq> TRANSITION_BODY then None else
      let event_id = json_extract_string b ''event_id'' [] in
      if event_id = [] then None else
      case sync_status_from_string (json_extract_string b ''sync_status'' []) of
        None \<Rightarrow> None
      | Some st \<Rightarrow> Some \<lparr>
          jt_event_id = event_id,
          jt_sync_status = st,
          jt_retry_count = of_int (json_extract_int b ''retry_count'' 0),
          jt_last_attempt_uptime_ms = of_int (json_extract_int b ''last_attempt_uptime_ms'' 0),
          jt_last_error_code = json_extract_string b ''last_error_code'' []\<rparr>)"

section \<open>Decoding what was encoded\<close>

lemma status_string_jstr:
  "dq # sync_status_to_string t @ dq # r = jstr (sync_status_to_string t) @ r"
  by (cases t) (simp_all add: sync_status_to_string_def jstr_def escape_char_def is_ctrl_def)

lemma kind_string_jstr:
  "dq # CHR ''E'' # dq # r = jstr ''E'' @ r" "dq # CHR ''T'' # dq # r = jstr ''T'' @ r"
  by (simp_all add: jstr_def escape_char_def is_ctrl_def)

lemma sync_status_roundtrip [codec_simps]:
  "sync_status_from_string (sync_status_to_string s) = Some s"
  by (cases s) (simp_all add: sync_status_to_string_def sync_status_from_string_def)

lemma plain_constants [simp]:
  "plain (sync_status_to_string s)" "plain ''E''" "plain ''T''"
  by (cases s; simp add: sync_status_to_string_def plain_def is_ctrl_def)
    (simp_all add: plain_def is_ctrl_def)

lemma record_keys [simp]:
  "simple_key ''k''" "simple_key ''record_version''" "simple_key ''event_type''"
  "simple_key ''payload_hash''" "simple_key ''created_uptime_ms''" "simple_key ''time_sync_status''"
  "simple_key ''retry_count''" "simple_key ''last_attempt_uptime_ms''" "simple_key ''last_error_code''"
  by (simp_all add: simple_key_def)

lemma not_digit_punct [simp]: "\<not> is_digit CHR '',''" "\<not> is_digit CHR ''}''"
  by (simp_all add: is_digit_def)

lemma u64_of_min:
  assumes "unat (x :: u64) < 2 ^ 63"
  shows "of_int (min 9223372036854775807 (uint x)) = x"
proof -
  have "uint x < 2 ^ 63"
    using assms by (simp only: uint_nat) (metis of_nat_less_iff of_nat_numeral of_nat_power)
  then have "uint x \<le> 9223372036854775807"
    by simp
  then show ?thesis
    by (simp add: min_absorb2)
qed

lemma u32_of_min: "of_int (min 9223372036854775807 (uint (x :: u32))) = x"
proof -
  have "uint x < 2 ^ 32"
    using unsigned_less [where 'a = int, of x] by simp
  then show ?thesis
    by (simp add: min_absorb2)
qed

definition wf_record :: "journal_record \<Rightarrow> bool" where
  "wf_record r = (jr_record_version r = 1 \<and> jr_event_id r \<noteq> [] \<and> jr_event_type r \<noteq> [] \<and>
     unat (jr_device_seq r) < 2 ^ 63 \<and> unat (jr_expected_state_version r) < 2 ^ 63 \<and>
     list_all plain [jr_event_id r, jr_boot_id r, jr_event_type r, jr_payload r, jr_payload_hash r,
       jr_time_sync_status r, jr_last_error_code r])"

definition wf_transition :: "journal_transition \<Rightarrow> bool" where
  "wf_transition t = (jt_event_id t \<noteq> [] \<and> plain (jt_event_id t) \<and> plain (jt_last_error_code t))"

lemma event_string_lookups:
  assumes "wf_record r"
  shows "json_extract_string (encode_journal_event r) ''k'' d = ''E''"
    "json_extract_string (encode_journal_event r) ''event_id'' d = jr_event_id r"
    "json_extract_string (encode_journal_event r) ''boot_id'' d = jr_boot_id r"
    "json_extract_string (encode_journal_event r) ''event_type'' d = jr_event_type r"
    "json_extract_string (encode_journal_event r) ''payload'' d = jr_payload r"
    "json_extract_string (encode_journal_event r) ''payload_hash'' d = jr_payload_hash r"
    "json_extract_string (encode_journal_event r) ''time_sync_status'' d = jr_time_sync_status r"
    "json_extract_string (encode_journal_event r) ''last_error_code'' d = jr_last_error_code r"
    "json_extract_string (encode_journal_event r) ''sync_status'' d = sync_status_to_string (jr_sync_status r)"
  using assms
  by (simp_all add: wf_record_def encode_journal_event_def kind_string_jstr status_string_jstr find_simps
      extract_string_value)

lemma event_int_lookups:
  assumes "wf_record r"
  shows "json_extract_int (encode_journal_event r) ''record_version'' i = 1"
    "json_extract_int (encode_journal_event r) ''device_seq'' i = min (2 ^ 63 - 1) (int (unat (jr_device_seq r)))"
    "json_extract_int (encode_journal_event r) ''expected_state_version'' i =
       min (2 ^ 63 - 1) (int (unat (jr_expected_state_version r)))"
    "json_extract_int (encode_journal_event r) ''created_uptime_ms'' i =
       min (2 ^ 63 - 1) (int (unat (jr_created_uptime_ms r)))"
    "json_extract_int (encode_journal_event r) ''retry_count'' i =
       min (2 ^ 63 - 1) (int (unat (jr_retry_count r)))"
    "json_extract_int (encode_journal_event r) ''last_attempt_uptime_ms'' i =
       min (2 ^ 63 - 1) (int (unat (jr_last_attempt_uptime_ms r)))"
  using assms
  by (simp_all add: wf_record_def encode_journal_event_def kind_string_jstr status_string_jstr find_simps
      extract_int_value)

lemma transition_lookups:
  assumes "wf_transition t"
  shows "json_extract_string (encode_journal_transition t) ''k'' d = ''T''"
    "json_extract_string (encode_journal_transition t) ''event_id'' d = jt_event_id t"
    "json_extract_string (encode_journal_transition t) ''last_error_code'' d = jt_last_error_code t"
    "json_extract_string (encode_journal_transition t) ''sync_status'' d = sync_status_to_string (jt_sync_status t)"
    "json_extract_int (encode_journal_transition t) ''retry_count'' i =
       min (2 ^ 63 - 1) (int (unat (jt_retry_count t)))"
    "json_extract_int (encode_journal_transition t) ''last_attempt_uptime_ms'' i =
       min (2 ^ 63 - 1) (int (unat (jt_last_attempt_uptime_ms t)))"
  using assms
  by (simp_all add: wf_transition_def encode_journal_transition_def kind_string_jstr status_string_jstr
      find_simps extract_string_value extract_int_value)

lemma decode_encode_event [codec_simps]:
  assumes "wf_record r"
  shows "decode_journal_event (encode_journal_event r) = Some r"
proof -
  have w: "jr_record_version r = 1" "jr_event_id r \<noteq> []" "jr_event_type r \<noteq> []"
      "unat (jr_device_seq r) < 2 ^ 63" "unat (jr_expected_state_version r) < 2 ^ 63"
    using assms by (simp_all add: wf_record_def)
  show ?thesis
    unfolding decode_journal_event_def journal_body_kind_def
    by (simp add: Let_def event_string_lookups [OF assms] event_int_lookups [OF assms] w(1-3)
        sync_status_roundtrip u64_of_min [OF w(4)] u64_of_min [OF w(5)] u32_of_min)
qed

lemma decode_encode_transition [codec_simps]:
  assumes "wf_transition t"
  shows "decode_journal_transition (encode_journal_transition t) = Some t"
proof -
  have w: "jt_event_id t \<noteq> []"
    using assms by (simp add: wf_transition_def)
  show ?thesis
    unfolding decode_journal_transition_def journal_body_kind_def
    by (simp add: Let_def transition_lookups [OF assms] w sync_status_roundtrip u32_of_min)
qed

lemma body_kind_of_encoded [simp]:
  "wf_record r \<Longrightarrow> journal_body_kind (encode_journal_event r) = EVENT_BODY"
  "wf_transition t \<Longrightarrow> journal_body_kind (encode_journal_transition t) = TRANSITION_BODY"
  by (simp_all add: journal_body_kind_def event_string_lookups transition_lookups)

text \<open>C27. Journal bodies round trip: an event record whose strings hold no
  control character beyond newline, return and tab and whose 64-bit counters
  are below 2^63 is decoded to itself, a status transition likewise, and
  neither is taken for the other.\<close>

theorem journal_body_roundtrip:
  assumes "wf_record r" "wf_transition t"
  shows "decode_journal_event (encode_journal_event r) = Some r \<and>
     decode_journal_transition (encode_journal_transition t) = Some t \<and>
     decode_journal_event (encode_journal_transition t) = None \<and>
     decode_journal_transition (encode_journal_event r) = None"
  using assms
  by (simp add: decode_encode_event decode_encode_transition)
    (simp add: decode_journal_event_def decode_journal_transition_def)

definition sample_record :: journal_record where
  "sample_record = \<lparr>jr_record_version = 1, jr_event_id = ''K1-7'', jr_device_seq = 7, jr_boot_id = ''b'',
     jr_event_type = ''SCAN'', jr_payload = [CHR ''{'', dq, CHR ''k'', dq, CHR '':'', bslash, CHR ''}''],
     jr_payload_hash = ''0a'', jr_expected_state_version = 3, jr_created_uptime_ms = 90,
     jr_time_sync_status = ''SYNCED'', jr_retry_count = 0, jr_last_attempt_uptime_ms = 0,
     jr_last_error_code = [], jr_sync_status = PENDING\<rparr>"

definition sample_transition :: journal_transition where
  "sample_transition = \<lparr>jt_event_id = ''K1-7'', jt_sync_status = ACKED, jt_retry_count = 2,
     jt_last_attempt_uptime_ms = 120, jt_last_error_code = []\<rparr>"

lemma wf_samples: "wf_record sample_record" "wf_transition sample_transition"
  by (simp_all add: sample_record_def sample_transition_def wf_record_def wf_transition_def plain_def is_ctrl_def)

theorem journal_body_roundtrip_witness:
  "decode_journal_event (encode_journal_event sample_record) = Some sample_record \<and>
   decode_journal_transition (encode_journal_transition sample_transition) = Some sample_transition"
  using journal_body_roundtrip [OF wf_samples] by simp

end
