(* ===== verification/Journal_Index.thy ===== *)
theory Journal_Index
  imports Ordered_Map Journal_Record Complex_Main
begin

text \<open>
  The in-memory index of the journal, \<^verbatim>\<open>EventJournalIndex\<close> of
  \<^verbatim>\<open>protocol/event_journal_index.h/.cpp\<close>: replay of scanned frames, admission
  of new events, accounting of bytes, the order of replay and the choice of
  the records that survive a compaction.  Percentages are exact rationals: the
  thresholds compared against are multiples of ten, and a quotient of two
  32-bit numbers that differs from one of them does so by more than the
  rounding of a double.  \<^verbatim>\<open>std::sort\<close> is modelled by the stable \<open>sort_key\<close>
  (the order of equal keys is unspecified in C++).
\<close>

datatype journal_pressure = PRESSURE_NORMAL | PRESSURE_WARNING | PRESSURE_RESTRICTED | PRESSURE_FULL

definition journal_pressure_for_usage :: "rat \<Rightarrow> journal_pressure" where
  "journal_pressure_for_usage usage_pct =
     (if usage_pct \<ge> 100 then PRESSURE_FULL
      else if usage_pct \<ge> 90 then PRESSURE_RESTRICTED
      else if usage_pct \<ge> 70 then PRESSURE_WARNING
      else PRESSURE_NORMAL)"

datatype append_decision = APPEND_OK | DUPLICATE_EVENT | JOURNAL_FULL

record journal_counts =
  jc_pending :: u32
  jc_in_flight :: u32
  jc_acked :: u32
  jc_rejected :: u32
  jc_conflict :: u32
  jc_human_review :: u32

definition counts_total :: "journal_counts \<Rightarrow> u32" where
  "counts_total c = jc_pending c + jc_in_flight c + jc_acked c + jc_rejected c + jc_conflict c + jc_human_review c"

definition frame_overhead :: u32 where
  "frame_overhead = 4 + 4 + 1"

record journal_index =
  ji_capacity_bytes :: u32
  ji_used_bytes :: u32
  ji_records :: "journal_record omap"
  ji_frame_sizes :: "u32 omap"

definition new_index :: "u32 \<Rightarrow> journal_index" where
  "new_index capacity = \<lparr>ji_capacity_bytes = capacity, ji_used_bytes = 0,
     ji_records = om_empty, ji_frame_sizes = om_empty\<rparr>"

definition is_terminal :: "sync_status \<Rightarrow> bool" where
  "is_terminal s = (s = ACKED \<or> s = REJECTED \<or> s = CONFLICT \<or> s = HUMAN_REVIEW)"

definition apply_transition :: "journal_transition \<Rightarrow> journal_record \<Rightarrow> journal_record" where
  "apply_transition t r = r\<lparr>jr_sync_status := jt_sync_status t, jr_retry_count := jt_retry_count t,
     jr_last_attempt_uptime_ms := jt_last_attempt_uptime_ms t, jr_last_error_code := jt_last_error_code t\<rparr>"

definition apply_scanned_frame :: "string \<Rightarrow> u32 \<Rightarrow> journal_index \<Rightarrow> journal_index" where
  "apply_scanned_frame body frame_size idx0 =
     (let idx = idx0\<lparr>ji_used_bytes := ji_used_bytes idx0 + frame_size\<rparr> in
      case journal_body_kind body of
        EVENT_BODY \<Rightarrow>
          (case decode_journal_event body of
             None \<Rightarrow> idx
           | Some r \<Rightarrow>
               if om_get (ji_records idx) (jr_event_id r) \<noteq> None then idx
               else idx\<lparr>ji_records := om_put (jr_event_id r) r (ji_records idx),
                        ji_frame_sizes := om_put (jr_event_id r) frame_size (ji_frame_sizes idx)\<rparr>)
      | TRANSITION_BODY \<Rightarrow>
          (case decode_journal_transition body of
             None \<Rightarrow> idx
           | Some t \<Rightarrow>
               (case om_get (ji_records idx) (jt_event_id t) of
                  None \<Rightarrow> idx
                | Some r \<Rightarrow>
                    idx\<lparr>ji_records := om_put (jt_event_id t) (apply_transition t r) (ji_records idx)\<rparr>))
      | UNKNOWN_BODY \<Rightarrow> idx)"

definition decide_append :: "journal_index \<Rightarrow> string \<Rightarrow> u32 \<Rightarrow> append_decision" where
  "decide_append idx event_id frame_size =
     (if om_get (ji_records idx) event_id \<noteq> None then DUPLICATE_EVENT
      else if ji_used_bytes idx + frame_size > ji_capacity_bytes idx then JOURNAL_FULL
      else APPEND_OK)"

definition record_appended_event :: "journal_record \<Rightarrow> u32 \<Rightarrow> journal_index \<Rightarrow> journal_index" where
  "record_appended_event r frame_size idx =
     idx\<lparr>ji_records := om_put (jr_event_id r) r (ji_records idx),
         ji_frame_sizes := om_put (jr_event_id r) frame_size (ji_frame_sizes idx),
         ji_used_bytes := ji_used_bytes idx + frame_size\<rparr>"

definition record_appended_transition :: "journal_transition \<Rightarrow> u32 \<Rightarrow> journal_index \<Rightarrow> journal_index" where
  "record_appended_transition t frame_size idx =
     (let idx' = (case om_get (ji_records idx) (jt_event_id t) of
                    None \<Rightarrow> idx
                  | Some r \<Rightarrow>
                      idx\<lparr>ji_records := om_put (jt_event_id t) (apply_transition t r) (ji_records idx)\<rparr>)
      in idx'\<lparr>ji_used_bytes := ji_used_bytes idx' + frame_size\<rparr>)"

definition has_event :: "journal_index \<Rightarrow> string \<Rightarrow> bool" where
  "has_event idx event_id = (om_get (ji_records idx) event_id \<noteq> None)"

definition index_find :: "journal_index \<Rightarrow> string \<Rightarrow> journal_record option" where
  "index_find idx event_id = om_get (ji_records idx) event_id"

definition pending_in_device_seq_order :: "journal_index \<Rightarrow> journal_record list" where
  "pending_in_device_seq_order idx =
     sort_key (\<lambda>r. unat (jr_device_seq r))
       (filter (\<lambda>r. jr_sync_status r = PENDING \<or> jr_sync_status r = IN_FLIGHT) (map snd (ji_records idx)))"

definition count_record :: "journal_record \<Rightarrow> journal_counts \<Rightarrow> journal_counts" where
  "count_record r c =
     (case jr_sync_status r of
        PENDING \<Rightarrow> c\<lparr>jc_pending := jc_pending c + 1\<rparr>
      | IN_FLIGHT \<Rightarrow> c\<lparr>jc_in_flight := jc_in_flight c + 1\<rparr>
      | ACKED \<Rightarrow> c\<lparr>jc_acked := jc_acked c + 1\<rparr>
      | REJECTED \<Rightarrow> c\<lparr>jc_rejected := jc_rejected c + 1\<rparr>
      | CONFLICT \<Rightarrow> c\<lparr>jc_conflict := jc_conflict c + 1\<rparr>
      | HUMAN_REVIEW \<Rightarrow> c\<lparr>jc_human_review := jc_human_review c + 1\<rparr>)"

definition no_counts :: journal_counts where
  "no_counts = \<lparr>jc_pending = 0, jc_in_flight = 0, jc_acked = 0, jc_rejected = 0,
     jc_conflict = 0, jc_human_review = 0\<rparr>"

definition index_counts :: "journal_index \<Rightarrow> journal_counts" where
  "index_counts idx = foldl (\<lambda>c r. count_record r c) no_counts (map snd (ji_records idx))"

section \<open>Compaction\<close>

record compaction_policy =
  cp_acked :: u32
  cp_rejected :: u32
  cp_conflict :: u32
  cp_human_review :: u32

definition default_policy :: compaction_policy where
  "default_policy = \<lparr>cp_acked = 5, cp_rejected = 5, cp_conflict = 5, cp_human_review = 5\<rparr>"

definition collect_and_trim :: "journal_index \<Rightarrow> sync_status \<Rightarrow> u32 \<Rightarrow> string list" where
  "collect_and_trim idx status retention =
     (let bucket = map (\<lambda>(k, r). (jr_created_uptime_ms r, k))
            (filter (\<lambda>(k, r). jr_sync_status r = status) (ji_records idx));
          sorted = sort_key (\<lambda>(c, k). - int (unat c)) bucket;
          n = min retention (of_nat (length sorted)) in
      map snd (take (unat n) sorted))"

definition select_records_to_keep :: "compaction_policy \<Rightarrow> journal_index \<Rightarrow> string list" where
  "select_records_to_keep policy idx =
     map fst (filter (\<lambda>(k, r). \<not> is_terminal (jr_sync_status r)) (ji_records idx)) @
     collect_and_trim idx ACKED (cp_acked policy) @
     collect_and_trim idx REJECTED (cp_rejected policy) @
     collect_and_trim idx CONFLICT (cp_conflict policy) @
     collect_and_trim idx HUMAN_REVIEW (cp_human_review policy)"

definition event_frame_size :: "journal_record \<Rightarrow> u32" where
  "event_frame_size r = frame_overhead + of_nat (length (encode_journal_event r))"

definition keep_record :: "journal_index \<Rightarrow> string \<Rightarrow> journal_record omap \<times> u32 omap \<times> u32 \<Rightarrow>
    journal_record omap \<times> u32 omap \<times> u32" where
  "keep_record idx k acc =
     (let (kept, sizes, used) = acc in
      case om_get (ji_records idx) k of
        None \<Rightarrow> (kept, sizes, used)
      | Some r \<Rightarrow>
          (om_put k r kept, om_put k (event_frame_size r) sizes, used + event_frame_size r))"

definition rebuild_after_compaction :: "string list \<Rightarrow> journal_index \<Rightarrow> journal_index" where
  "rebuild_after_compaction keep idx =
     (let (kept, sizes, used) = fold (keep_record idx) keep (om_empty, om_empty, 0) in
      idx\<lparr>ji_records := kept, ji_frame_sizes := sizes, ji_used_bytes := used\<rparr>)"

section \<open>Usage\<close>

definition max_in_memory_records :: u32 where
  "max_in_memory_records = 120"

definition record_count :: "journal_index \<Rightarrow> u32" where
  "record_count idx = of_nat (length (ji_records idx))"

definition usage_pct :: "journal_index \<Rightarrow> rat" where
  "usage_pct idx =
     (if ji_capacity_bytes idx = 0 then 100
      else 100 * of_nat (unat (ji_used_bytes idx)) / of_nat (unat (ji_capacity_bytes idx)))"

definition index_pressure :: "journal_index \<Rightarrow> journal_pressure" where
  "index_pressure idx = journal_pressure_for_usage (usage_pct idx)"

definition should_consider_compaction :: "journal_index \<Rightarrow> bool" where
  "should_consider_compaction idx =
     (usage_pct idx \<ge> 70 \<or> record_count idx > max_in_memory_records)"

definition oldest_step :: "journal_record \<Rightarrow> bool \<times> u32 \<Rightarrow> bool \<times> u32" where
  "oldest_step r acc =
     (let (found, oldest) = acc in
      if jr_sync_status r \<noteq> PENDING \<and> jr_sync_status r \<noteq> IN_FLIGHT then (found, oldest)
      else if \<not> found \<or> jr_created_uptime_ms r < oldest then (True, jr_created_uptime_ms r)
      else (found, oldest))"

definition oldest_pending_age_ms :: "journal_index \<Rightarrow> u32 \<Rightarrow> u32" where
  "oldest_pending_age_ms idx now_uptime_ms =
     (let (found, oldest) = fold oldest_step (map snd (ji_records idx)) (False, 0) in
      if \<not> found then 0xFFFFFFFF
      else if now_uptime_ms \<ge> oldest then now_uptime_ms - oldest else 0)"

section \<open>The index mirrors the log\<close>

definition index_wf :: "journal_index \<Rightarrow> bool" where
  "index_wf idx = (om_wf (ji_records idx) \<and> om_wf (ji_frame_sizes idx) \<and>
     (\<forall>(k, r)\<in>set (ji_records idx). jr_event_id r = k))"

lemma index_wf_get: "index_wf idx \<Longrightarrow> om_get (ji_records idx) k = Some r \<Longrightarrow> jr_event_id r = k"
  by (auto simp: index_wf_def simp flip: om.entries_get)

lemma set_om_put:
  "om_wf m \<Longrightarrow> (k', v') \<in> set (om_put k v m) \<longleftrightarrow> (if k' = k then v' = v else (k', v') \<in> set m)"
  by (auto simp: om.entries_get om.wf_put om.get_put)

lemma index_wf_new [inv_intros]: "index_wf (new_index c)"
  by (simp add: index_wf_def new_index_def om.wf_empty) (simp add: om_empty_def)

lemma index_wf_put:
  assumes "index_wf idx" "jr_event_id r = k" "om_wf sz"
  shows "index_wf (idx\<lparr>ji_records := om_put k r (ji_records idx), ji_frame_sizes := sz\<rparr>)"
  using assms by (auto simp: index_wf_def om.wf_put set_om_put split: if_splits)

lemma index_wf_used [simp]:
  "index_wf (idx\<lparr>ji_used_bytes := u\<rparr>) = index_wf idx"
  "index_wf (idx\<lparr>ji_used_bytes := u, ji_records := m\<rparr>) = index_wf (idx\<lparr>ji_records := m\<rparr>)"
  "index_wf (idx\<lparr>ji_used_bytes := u, ji_records := m, ji_frame_sizes := z\<rparr>) =
     index_wf (idx\<lparr>ji_records := m, ji_frame_sizes := z\<rparr>)"
  by (simp_all add: index_wf_def)

lemma apply_transition_id [simp]: "jr_event_id (apply_transition t r) = jr_event_id r"
  by (simp add: apply_transition_def)

lemma index_wf_transition:
  assumes "index_wf idx" "om_get (ji_records idx) k = Some r"
  shows "index_wf (idx\<lparr>ji_records := om_put k (apply_transition t r) (ji_records idx)\<rparr>)"
  using index_wf_put [OF assms(1), of "apply_transition t r" k "ji_frame_sizes idx"]
    index_wf_get [OF assms] assms(1) by (simp add: index_wf_def)

lemma index_wf_record_event [inv_intros]:
  assumes "index_wf idx"
  shows "index_wf (record_appended_event r sz idx)"
proof -
  have "om_wf (om_put (jr_event_id r) sz (ji_frame_sizes idx))"
    using assms by (simp add: index_wf_def om.wf_put)
  then show ?thesis
    using index_wf_put [OF assms refl] by (simp add: record_appended_event_def)
qed

lemma index_wf_record_transition [inv_intros]:
  "index_wf idx \<Longrightarrow> index_wf (record_appended_transition t sz idx)"
  by (simp add: record_appended_transition_def Let_def index_wf_transition split: option.split)

lemma mirror_event:
  assumes "wf_record r" "\<not> has_event idx (jr_event_id r)"
  shows "apply_scanned_frame (encode_journal_event r) sz idx = record_appended_event r sz idx"
  using assms
  by (simp add: apply_scanned_frame_def record_appended_event_def has_event_def Let_def decode_encode_event)

lemma mirror_transition:
  assumes "wf_transition t"
  shows "apply_scanned_frame (encode_journal_transition t) sz idx = record_appended_transition t sz idx"
  using assms
  by (simp add: apply_scanned_frame_def record_appended_transition_def Let_def decode_encode_transition
      split: option.split)

lemma index_wf_apply [inv_intros]:
  assumes "index_wf idx"
  shows "index_wf (apply_scanned_frame body sz idx)"
proof -
  have ev: "index_wf (record_appended_event r sz idx)" "index_wf (record_appended_transition t sz idx)" for r t
    using assms by (auto intro: inv_intros)
  show ?thesis
    using assms ev
    by (auto simp: apply_scanned_frame_def record_appended_event_def record_appended_transition_def Let_def
        index_wf_transition split: body_kind.split option.split)
qed

section \<open>What compaction keeps\<close>

lemma collect_and_trim_facts:
  fixes st :: sync_status
  assumes "index_wf idx" "length (ji_records idx) < 2 ^ 32"
  defines "B \<equiv> {k. \<exists>r. om_get (ji_records idx) k = Some r \<and> jr_sync_status r = st}"
  shows "distinct (collect_and_trim idx st n)" "set (collect_and_trim idx st n) \<subseteq> B"
    "length (collect_and_trim idx st n) = min (unat n) (card B)"
    "\<lbrakk>k \<in> set (collect_and_trim idx st n); k' \<in> B; k' \<notin> set (collect_and_trim idx st n);
      om_get (ji_records idx) k = Some r; om_get (ji_records idx) k' = Some r'\<rbrakk>
      \<Longrightarrow> jr_created_uptime_ms r' \<le> jr_created_uptime_ms r"
proof -
  let ?f = "filter (\<lambda>(k, r). jr_sync_status r = st) (ji_records idx)"
  let ?b = "map (\<lambda>(k, r). (jr_created_uptime_ms r, k)) ?f"
  let ?s = "sort_key (\<lambda>(c, k). - int (unat c)) ?b"
  have wf: "om_wf (ji_records idx)"
    using assms(1) by (simp add: index_wf_def)
  have keys: "map snd ?b = map fst ?f"
    by (simp add: comp_def split_def)
  have dist: "distinct (map snd ?b)"
    unfolding keys using om_distinct [OF wf] by (rule distinct_map_filter)
  have mem: "(c, k) \<in> set ?b \<longleftrightarrow>
      (\<exists>r. om_get (ji_records idx) k = Some r \<and> jr_sync_status r = st \<and> c = jr_created_uptime_ms r)" for c k
    by (auto simp: om.entries_get [OF wf])
  have B: "set (map snd ?b) = B"
    by (auto simp: B_def image_iff om.entries_get [OF wf] split: prod.splits)
  have cardB: "card B = length ?b"
    using distinct_card [OF dist] B by simp
  have dists: "distinct (map snd ?s)"
  proof (rule card_distinct)
    have "set (map snd ?s) = set (map snd ?b)"
      by (simp only: set_map set_sort)
    then show "card (set (map snd ?s)) = length (map snd ?s)"
      using distinct_card [OF dist] by simp
  qed
  have "length ?b \<le> length (ji_records idx)"
    by simp
  then have lb: "length ?b < 2 ^ 32"
    using assms(2) by linarith
  have n: "unat (min n (of_nat (length ?s))) = min (unat n) (length ?b)"
  proof -
    have "unat (of_nat (length ?s) :: u32) = length ?b"
      using unat_of_nat_u32 [OF lb] by simp
    then show ?thesis
      by (auto simp: min_def word_le_nat_alt)
  qed
  have ct: "collect_and_trim idx st n = map snd (take (min (unat n) (length ?b)) ?s)"
    unfolding collect_and_trim_def Let_def n ..
  show "distinct (collect_and_trim idx st n)"
    unfolding ct take_map [symmetric] using dists by (rule distinct_take)
  show "set (collect_and_trim idx st n) \<subseteq> B"
    unfolding ct B [symmetric] using set_take_subset [of _ ?s] by (auto simp: image_iff) fastforce
  show "length (collect_and_trim idx st n) = min (unat n) (card B)"
    unfolding ct cardB by simp
  show "jr_created_uptime_ms r' \<le> jr_created_uptime_ms r"
    if k: "k \<in> set (collect_and_trim idx st n)" "k' \<in> B" "k' \<notin> set (collect_and_trim idx st n)"
      "om_get (ji_records idx) k = Some r" "om_get (ji_records idx) k' = Some r'"
  proof -
    let ?t = "take (min (unat n) (length ?b)) ?s"
    obtain c where c: "(c, k) \<in> set ?t"
      using k(1) unfolding ct by auto
    then have "(c, k) \<in> set ?b"
      by (rule in_set_takeD [THEN set_sort [THEN equalityD1, THEN subsetD]])
    then have "c = jr_created_uptime_ms r"
      using mem k(4) by auto
    moreover have "(jr_created_uptime_ms r', k') \<in> set ?b"
      using k(2,5) mem by (auto simp: B_def)
    moreover have "(jr_created_uptime_ms r', k') \<notin> set ?t"
    proof
      assume "(jr_created_uptime_ms r', k') \<in> set ?t"
      then have "snd (jr_created_uptime_ms r', k') \<in> set (map snd ?t)"
        unfolding set_map by (rule imageI)
      then show False
        using k(3) unfolding ct by simp
    qed
    ultimately have "- int (unat (jr_created_uptime_ms r)) \<le> - int (unat (jr_created_uptime_ms r'))"
      using sort_take_le [OF c] by fastforce
    then show ?thesis
      by (simp add: word_le_def)
  qed
qed

definition status_ids :: "journal_index \<Rightarrow> sync_status \<Rightarrow> string set" where
  "status_ids idx st = {k. \<exists>r. om_get (ji_records idx) k = Some r \<and> jr_sync_status r = st}"

definition retention :: "compaction_policy \<Rightarrow> sync_status \<Rightarrow> nat" where
  "retention p st =
     (case st of ACKED \<Rightarrow> unat (cp_acked p) | REJECTED \<Rightarrow> unat (cp_rejected p)
      | CONFLICT \<Rightarrow> unat (cp_conflict p) | HUMAN_REVIEW \<Rightarrow> unat (cp_human_review p) | _ \<Rightarrow> 0)"

lemma status_ids_disjoint: "k \<in> status_ids idx st \<Longrightarrow> k \<in> status_ids idx st' \<Longrightarrow> st = st'"
  by (auto simp: status_ids_def)

lemma nonterminal_ids:
  assumes "index_wf idx"
  shows "set (map fst (filter (\<lambda>(k, r). \<not> is_terminal (jr_sync_status r)) (ji_records idx))) =
    status_ids idx PENDING \<union> status_ids idx IN_FLIGHT"
proof -
  have "is_terminal s \<longleftrightarrow> s \<noteq> PENDING \<and> s \<noteq> IN_FLIGHT" for s
    by (cases s) (simp_all add: is_terminal_def)
  then show ?thesis
    using assms
    by (auto simp: status_ids_def image_iff om.entries_get index_wf_def split: prod.splits)
qed

definition policy_count :: "compaction_policy \<Rightarrow> sync_status \<Rightarrow> u32" where
  "policy_count p st =
     (case st of ACKED \<Rightarrow> cp_acked p | REJECTED \<Rightarrow> cp_rejected p
      | CONFLICT \<Rightarrow> cp_conflict p | HUMAN_REVIEW \<Rightarrow> cp_human_review p | _ \<Rightarrow> 0)"

lemma kept_with_status:
  assumes "index_wf idx" "length (ji_records idx) < 2 ^ 32" "is_terminal st"
  shows "set (select_records_to_keep p idx) \<inter> status_ids idx st =
    set (collect_and_trim idx st (policy_count p st))"
proof -
  have c: "set (collect_and_trim idx s n) \<subseteq> status_ids idx s" for s n
    using collect_and_trim_facts(2) [OF assms(1,2)] by (simp add: status_ids_def)
  have n: "status_ids idx s \<inter> status_ids idx st = {}" if "s \<noteq> st" for s
    using that status_ids_disjoint by blast
  have o: "set (collect_and_trim idx s n) \<inter> status_ids idx st = {}" if "s \<noteq> st" for s n
    using c n [OF that] by blast
  have s: "set (collect_and_trim idx st n) \<inter> status_ids idx st = set (collect_and_trim idx st n)" for n
    using c by blast
  have "set (select_records_to_keep p idx) \<inter> status_ids idx st =
    (status_ids idx PENDING \<union> status_ids idx IN_FLIGHT) \<inter> status_ids idx st \<union>
    set (collect_and_trim idx ACKED (cp_acked p)) \<inter> status_ids idx st \<union>
    set (collect_and_trim idx REJECTED (cp_rejected p)) \<inter> status_ids idx st \<union>
    set (collect_and_trim idx CONFLICT (cp_conflict p)) \<inter> status_ids idx st \<union>
    set (collect_and_trim idx HUMAN_REVIEW (cp_human_review p)) \<inter> status_ids idx st"
    unfolding select_records_to_keep_def set_append nonterminal_ids [OF assms(1)] by blast
  also have "(status_ids idx PENDING \<union> status_ids idx IN_FLIGHT) \<inter> status_ids idx st = {}"
    using n [of PENDING] n [of IN_FLIGHT] assms(3) by (auto simp: is_terminal_def)
  finally show ?thesis
    using assms(3) o s by (auto simp: is_terminal_def policy_count_def)
qed

lemma keep_distinct:
  assumes "index_wf idx" "length (ji_records idx) < 2 ^ 32"
  shows "distinct (select_records_to_keep p idx)"
proof -
  have c: "set (collect_and_trim idx s n) \<subseteq> status_ids idx s" "distinct (collect_and_trim idx s n)" for s n
    using collect_and_trim_facts(1,2) [OF assms] by (simp_all add: status_ids_def)
  have dj: "set (collect_and_trim idx s n) \<inter> set (collect_and_trim idx s' n') = {}" if "s \<noteq> s'" for s s' n n'
    using c(1) [of s n] c(1) [of s' n'] status_ids_disjoint that by blast
  have np: "(status_ids idx PENDING \<union> status_ids idx IN_FLIGHT) \<inter> set (collect_and_trim idx s n) = {}"
    if "is_terminal s" for s n
    using c(1) [of s n] status_ids_disjoint that by (fastforce simp: is_terminal_def)
  have "distinct (map fst (filter (\<lambda>(k, r). \<not> is_terminal (jr_sync_status r)) (ji_records idx)))"
    using om_distinct [of "ji_records idx"] assms(1) by (intro distinct_map_filter) (simp add: index_wf_def)
  then show ?thesis
    unfolding select_records_to_keep_def distinct_append set_append nonterminal_ids [OF assms(1)]
    using dj np c(2) by (simp add: Int_Un_distrib is_terminal_def)
qed

lemma keep_exists:
  assumes "index_wf idx" "length (ji_records idx) < 2 ^ 32" "k \<in> set (select_records_to_keep p idx)"
  shows "has_event idx k"
proof -
  have c: "set (collect_and_trim idx s n) \<subseteq> status_ids idx s" for s n
    using collect_and_trim_facts(2) [OF assms(1,2)] by (simp add: status_ids_def)
  have "\<exists>st. k \<in> status_ids idx st"
    using assms(3) c unfolding select_records_to_keep_def set_append nonterminal_ids [OF assms(1)] by blast
  then show ?thesis
    by (auto simp: status_ids_def has_event_def)
qed

text \<open>C28. What compaction keeps: distinct ids of records of the index, among
  them every record that is still pending or in flight; of each of the four
  terminal statuses exactly the retention count (all of them when there are
  fewer), and no dropped record of that status was created, by its uptime
  stamp, after a kept one.\<close>

theorem compaction_selection:
  assumes "index_wf idx" "length (ji_records idx) < 2 ^ 32"
  shows "distinct (select_records_to_keep p idx) \<and>
    (\<forall>k\<in>set (select_records_to_keep p idx). has_event idx k) \<and>
    status_ids idx PENDING \<union> status_ids idx IN_FLIGHT \<subseteq> set (select_records_to_keep p idx) \<and>
    (\<forall>st\<in>{ACKED, REJECTED, CONFLICT, HUMAN_REVIEW}.
       card (set (select_records_to_keep p idx) \<inter> status_ids idx st) =
         min (retention p st) (card (status_ids idx st)) \<and>
       (\<forall>k\<in>set (select_records_to_keep p idx) \<inter> status_ids idx st.
          \<forall>k'\<in>status_ids idx st - set (select_records_to_keep p idx).
            jr_created_uptime_ms (the (index_find idx k')) \<le> jr_created_uptime_ms (the (index_find idx k))))"
proof (intro conjI ballI)
  show "distinct (select_records_to_keep p idx)"
    using assms by (rule keep_distinct)
  show "has_event idx k" if "k \<in> set (select_records_to_keep p idx)" for k
    using assms that by (rule keep_exists)
  show "status_ids idx PENDING \<union> status_ids idx IN_FLIGHT \<subseteq> set (select_records_to_keep p idx)"
    unfolding select_records_to_keep_def set_append nonterminal_ids [OF assms(1)] by blast
next
  fix st
  assume st: "st \<in> {ACKED, REJECTED, CONFLICT, HUMAN_REVIEW}"
  then have t: "is_terminal st" "unat (policy_count p st) = retention p st"
    by (auto simp: is_terminal_def policy_count_def retention_def)
  note f = collect_and_trim_facts [OF assms, where st = st and n = "policy_count p st", folded status_ids_def]
  note k = kept_with_status [OF assms t(1), of p]
  show "card (set (select_records_to_keep p idx) \<inter> status_ids idx st) =
      min (retention p st) (card (status_ids idx st))"
    using f(3) distinct_card [OF f(1)] by (simp add: k t)
  show "jr_created_uptime_ms (the (index_find idx b)) \<le> jr_created_uptime_ms (the (index_find idx a))"
    if a: "a \<in> set (select_records_to_keep p idx) \<inter> status_ids idx st"
      and b: "b \<in> status_ids idx st - set (select_records_to_keep p idx)" for a b
  proof -
    obtain r r' where r: "om_get (ji_records idx) a = Some r" "om_get (ji_records idx) b = Some r'"
      using a b by (auto simp: status_ids_def)
    have "b \<notin> set (collect_and_trim idx st (policy_count p st))"
      using b k by blast
    then show ?thesis
      using f(4) [of a b r r'] a b r k by (simp add: index_find_def)
  qed
qed

definition sample_index :: journal_index where
  "sample_index = record_appended_event sample_record 300 (new_index 1000)"

lemma sample_index_wf: "index_wf sample_index" "length (ji_records sample_index) < 2 ^ 32"
proof -
  show "index_wf sample_index"
    unfolding sample_index_def by (intro inv_intros)
  show "length (ji_records sample_index) < 2 ^ 32"
    by (simp add: sample_index_def record_appended_event_def new_index_def om_empty_def)
qed

theorem compaction_selection_witness:
  "distinct (select_records_to_keep default_policy sample_index) \<and>
   status_ids sample_index PENDING \<subseteq> set (select_records_to_keep default_policy sample_index)"
  using compaction_selection [OF sample_index_wf, of default_policy] by blast

section \<open>Rebuilding the index\<close>

lemma fold_keep_record:
  assumes "om_wf m" "om_wf z" "fold (keep_record idx) keep (m, z, u) = (m', z', u')"
  shows "om_wf m' \<and> om_wf z' \<and>
    (\<forall>k. om_get m' k = (if k \<in> set keep \<and> has_event idx k then om_get (ji_records idx) k else om_get m k)) \<and>
    (\<forall>k. om_get z' k = (if k \<in> set keep \<and> has_event idx k
       then map_option event_frame_size (om_get (ji_records idx) k) else om_get z k)) \<and>
    u' = u + sum_list (map (\<lambda>k. event_frame_size (the (om_get (ji_records idx) k))) (filter (has_event idx) keep))"
  using assms
proof (induction keep arbitrary: m z u)
  case (Cons a keep)
  show ?case
  proof (cases "om_get (ji_records idx) a")
    case None
    then have "keep_record idx a (m, z, u) = (m, z, u)"
      by (simp add: keep_record_def)
    then have "fold (keep_record idx) keep (m, z, u) = (m', z', u')"
      using Cons.prems(3) by simp
    from Cons.IH [OF Cons.prems(1,2) this] show ?thesis
      using None by (auto simp: has_event_def)
  next
    case (Some r)
    then have "keep_record idx a (m, z, u) =
        (om_put a r m, om_put a (event_frame_size r) z, u + event_frame_size r)"
      by (simp add: keep_record_def)
    then have "fold (keep_record idx) keep (om_put a r m, om_put a (event_frame_size r) z, u + event_frame_size r)
        = (m', z', u')"
      using Cons.prems(3) by simp
    from Cons.IH [OF om.wf_put [OF Cons.prems(1)] om.wf_put [OF Cons.prems(2)] this] show ?thesis
      using Some Cons.prems(1,2) by (auto simp: has_event_def om.get_put add.assoc)
  qed
qed simp

lemma rebuild_facts:
  assumes "index_wf idx"
  shows "index_wf (rebuild_after_compaction keep idx)"
    "om_get (ji_records (rebuild_after_compaction keep idx)) k =
       (if k \<in> set keep then om_get (ji_records idx) k else None)"
    "ji_used_bytes (rebuild_after_compaction keep idx) =
       sum_list (map (\<lambda>k. event_frame_size (the (om_get (ji_records idx) k))) (filter (has_event idx) keep))"
    "ji_capacity_bytes (rebuild_after_compaction keep idx) = ji_capacity_bytes idx"
proof -
  obtain m z u where f: "fold (keep_record idx) keep (om_empty, om_empty, 0) = (m, z, u)"
    by (cases "fold (keep_record idx) keep (om_empty, om_empty, 0)")
  note facts = fold_keep_record [OF om.wf_empty om.wf_empty f]
  have g: "om_get m k = (if k \<in> set keep then om_get (ji_records idx) k else None)" for k
    using facts by (auto simp: om.get_empty has_event_def)
  have r: "rebuild_after_compaction keep idx = idx\<lparr>ji_records := m, ji_frame_sizes := z, ji_used_bytes := u\<rparr>"
    by (simp add: rebuild_after_compaction_def f)
  have "jr_event_id r = k" if "(k, r) \<in> set m" for k r
    using that facts g [of k] index_wf_get [OF assms] by (auto simp: om.entries_get split: if_splits)
  then show "index_wf (rebuild_after_compaction keep idx)"
    using facts by (auto simp: r index_wf_def)
  show "om_get (ji_records (rebuild_after_compaction keep idx)) k =
       (if k \<in> set keep then om_get (ji_records idx) k else None)"
    by (simp add: r g)
  show "ji_used_bytes (rebuild_after_compaction keep idx) =
       sum_list (map (\<lambda>k. event_frame_size (the (om_get (ji_records idx) k))) (filter (has_event idx) keep))"
    using facts by (simp add: r)
  show "ji_capacity_bytes (rebuild_after_compaction keep idx) = ji_capacity_bytes idx"
    by (simp add: r)
qed

section \<open>Order of replay, counts\<close>

lemma pending_order_facts:
  shows "sorted (map (\<lambda>r. unat (jr_device_seq r)) (pending_in_device_seq_order idx))"
    "set (pending_in_device_seq_order idx) =
       {r \<in> snd ` set (ji_records idx). jr_sync_status r \<in> {PENDING, IN_FLIGHT}}"
    "length (pending_in_device_seq_order idx) =
       length (filter (\<lambda>r. jr_sync_status r \<in> {PENDING, IN_FLIGHT}) (map snd (ji_records idx)))"
  by (auto simp: pending_in_device_seq_order_def intro!: arg_cong [where f = length] filter_cong)

lemma count_record_total: "counts_total (count_record r c) = counts_total c + 1"
  by (simp add: count_record_def counts_total_def split: sync_status.split)

lemma counts_total_index: "counts_total (index_counts idx) = record_count idx"
proof -
  have "counts_total (foldl (\<lambda>c r. count_record r c) c rs) = counts_total c + of_nat (length rs)" for c rs
    by (induction rs arbitrary: c) (simp_all add: count_record_total)
  then show ?thesis
    by (simp add: index_counts_def record_count_def no_counts_def counts_total_def)
qed

section \<open>Replay of the log\<close>

definition replay_frames :: "(string \<times> u32) list \<Rightarrow> journal_index \<Rightarrow> journal_index" where
  "replay_frames frs idx = fold (\<lambda>(body, sz). apply_scanned_frame body sz) frs idx"

lemma replay_frames_simps [simp]:
  "replay_frames [] idx = idx"
  "replay_frames (f # frs) idx = replay_frames frs (apply_scanned_frame (fst f) (snd f) idx)"
  "replay_frames (frs @ frs') idx = replay_frames frs' (replay_frames frs idx)"
  by (simp_all add: replay_frames_def split_def)

lemma index_wf_replay [inv_intros]: "index_wf idx \<Longrightarrow> index_wf (replay_frames frs idx)"
  by (induction frs arbitrary: idx) (simp_all add: index_wf_apply)

end
