(* ===== verification/Storage_Api.thy ===== *)
theory Storage_Api
  imports Prelude
begin

text \<open>
  The two storage libraries the firmware calls, which are not part of the
  repository: the SPIFFS file system and the NVS key-value store
  (\<^verbatim>\<open>Preferences\<close>).  Each is a record of operations, a parameter of the model,
  with its documented behaviour as a locale.  The laws allow every operation
  to fail: a write may append only a prefix of its data, a rename or remove may
  have no effect.  A loss of power is the case where every operation from some
  point on fails, so a theorem over all lawful disks covers a crash at every
  point of an operation; what the flash holds then is what the next boot finds.
\<close>

section \<open>SPIFFS\<close>

datatype open_mode = MODE_READ | MODE_APPEND | MODE_WRITE

record 'd spiffs_ops =
  fs_begin :: "'d \<Rightarrow> bool \<times> 'd"
  fs_exists :: "'d \<Rightarrow> string \<Rightarrow> bool"
  fs_open :: "'d \<Rightarrow> string \<Rightarrow> open_mode \<Rightarrow> bool \<times> 'd"
  fs_write :: "'d \<Rightarrow> string \<Rightarrow> bytes \<Rightarrow> nat \<times> 'd"
  fs_flush :: "'d \<Rightarrow> string \<Rightarrow> 'd"
  fs_available :: "'d \<Rightarrow> string \<Rightarrow> nat \<Rightarrow> nat"
  fs_read :: "'d \<Rightarrow> string \<Rightarrow> nat \<Rightarrow> nat \<Rightarrow> bytes"
  fs_rename :: "'d \<Rightarrow> string \<Rightarrow> string \<Rightarrow> bool \<times> 'd"
  fs_remove :: "'d \<Rightarrow> string \<Rightarrow> bool \<times> 'd"

type_synonym files = "string \<Rightarrow> bytes option"

definition file_bytes :: "files \<Rightarrow> string \<Rightarrow> bytes" where
  "file_bytes fs p = (case fs p of None \<Rightarrow> [] | Some c \<Rightarrow> c)"

lemma file_bytes_simps [simp]:
  "fs p = Some c \<Longrightarrow> file_bytes fs p = c" "fs p = None \<Longrightarrow> file_bytes fs p = []"
  by (simp_all add: file_bytes_def)

lemma file_bytes_upd [simp]:
  "file_bytes (fs(p := v)) q = (if q = p then (case v of None \<Rightarrow> [] | Some c \<Rightarrow> c) else file_bytes fs q)"
  by (simp add: file_bytes_def)

text \<open>A file handle is a path, a mode and, for reading, a position; \<open>fs_write\<close>
  appends at the end of the file, where a handle opened for appending or
  truncating stands when the firmware writes.\<close>

locale spiffs =
  fixes ops :: "'d spiffs_ops"
    and files :: "'d \<Rightarrow> files"
  assumes begin_keeps: "fs_begin ops d = (True, d') \<Longrightarrow> files d' = files d"
    and exists_iff: "fs_exists ops d p \<longleftrightarrow> files d p \<noteq> None"
    and open_read: "fs_open ops d p MODE_READ = (ok, d') \<Longrightarrow> files d' = files d"
    and open_append: "fs_open ops d p MODE_APPEND = (ok, d') \<Longrightarrow>
        files d' = files d \<or> (files d p = None \<and> files d' = (files d)(p := Some []))"
    and open_append_creates: "fs_open ops d p MODE_APPEND = (True, d') \<Longrightarrow> files d' p \<noteq> None"
    and open_write: "fs_open ops d p MODE_WRITE = (ok, d') \<Longrightarrow>
        files d' = (if ok then (files d)(p := Some []) else files d)
        \<or> (\<not> ok \<and> files d' = (files d)(p := Some []))"
    and write_data: "fs_write ops d p data = (n, d') \<Longrightarrow>
        n \<le> length data \<and>
        (files d p = None \<longrightarrow> files d' = files d \<and> n = 0) \<and>
        (\<forall>c. files d p = Some c \<longrightarrow> files d' = (files d)(p := Some (c @ take n data)))"
    and flush_keeps: "files (fs_flush ops d p) = files d"
    and available: "files d p = Some c \<Longrightarrow> fs_available ops d p pos = length c - pos"
    and available_none: "files d p = None \<Longrightarrow> fs_available ops d p pos = 0"
    and read_data: "files d p = Some c \<Longrightarrow>
        (\<exists>k. fs_read ops d p pos len = take k (drop pos c) \<and> k \<le> len \<and>
             (0 < len \<and> pos < length c \<longrightarrow> 0 < k))"
    and rename: "fs_rename ops d p q = (ok, d') \<Longrightarrow> p \<noteq> q \<Longrightarrow>
        (if ok then \<exists>c. files d p = Some c \<and> files d' = (files d)(p := None, q := Some c)
         else files d' = files d)"
    and remove: "fs_remove ops d p = (ok, d') \<Longrightarrow>
        files d' = (files d)(p := None) \<or> (\<not> ok \<and> files d' = files d)"

section \<open>NVS\<close>

record 'n nvs_ops =
  nv_begin :: "'n \<Rightarrow> string \<Rightarrow> bool \<Rightarrow> bool"
  nv_get_string :: "'n \<Rightarrow> string \<Rightarrow> string \<Rightarrow> string \<Rightarrow> string"
  nv_get_uint :: "'n \<Rightarrow> string \<Rightarrow> string \<Rightarrow> u32 \<Rightarrow> u32"
  nv_get_u64 :: "'n \<Rightarrow> string \<Rightarrow> string \<Rightarrow> u64 \<Rightarrow> u64"
  nv_put_string :: "'n \<Rightarrow> string \<Rightarrow> string \<Rightarrow> string \<Rightarrow> nat \<times> 'n"
  nv_put_uint :: "'n \<Rightarrow> string \<Rightarrow> string \<Rightarrow> u32 \<Rightarrow> nat \<times> 'n"
  nv_put_u64 :: "'n \<Rightarrow> string \<Rightarrow> string \<Rightarrow> u64 \<Rightarrow> nat \<times> 'n"
  nv_get_int :: "'n \<Rightarrow> string \<Rightarrow> string \<Rightarrow> u32 \<Rightarrow> u32"
  nv_put_int :: "'n \<Rightarrow> string \<Rightarrow> string \<Rightarrow> u32 \<Rightarrow> nat \<times> 'n"

datatype nvs_value = NvString string | NvUint u32 | NvU64 u64 | NvInt u32

type_synonym nvs_map = "string \<times> string \<Rightarrow> nvs_value option"

text \<open>The first two arguments of an access are the namespace the firmware has
  begun and the key.  A put returns the number of bytes stored; zero means
  nothing was stored.  \<open>nv_begin\<close>, with the flag for read-only, may fail for
  any reason.  \<^verbatim>\<open>putULong\<close> is \<^verbatim>\<open>putUInt\<close> and \<^verbatim>\<open>putLong\<close> is \<^verbatim>\<open>putInt\<close> on the target,
  where a long has 32 bits; an integer is kept as its word.\<close>

locale nvs =
  fixes ops :: "'n nvs_ops"
    and vals :: "'n \<Rightarrow> nvs_map"
  assumes get_string: "nv_get_string ops s ns k d =
        (case vals s (ns, k) of Some (NvString v) \<Rightarrow> v | _ \<Rightarrow> d)"
    and get_uint: "nv_get_uint ops s ns k du =
        (case vals s (ns, k) of Some (NvUint v) \<Rightarrow> v | _ \<Rightarrow> du)"
    and get_u64: "nv_get_u64 ops s ns k dl =
        (case vals s (ns, k) of Some (NvU64 v) \<Rightarrow> v | _ \<Rightarrow> dl)"
    and put_string: "nv_put_string ops s ns k v = (n, s') \<Longrightarrow>
        vals s' = (if 0 < n then (vals s)((ns, k) \<mapsto> NvString v) else vals s)"
    and put_uint: "nv_put_uint ops s ns k u = (n, s') \<Longrightarrow>
        vals s' = (if 0 < n then (vals s)((ns, k) \<mapsto> NvUint u) else vals s)"
    and put_u64: "nv_put_u64 ops s ns k l = (n, s') \<Longrightarrow>
        vals s' = (if 0 < n then (vals s)((ns, k) \<mapsto> NvU64 l) else vals s)"
    and get_int: "nv_get_int ops s ns k di =
        (case vals s (ns, k) of Some (NvInt v) \<Rightarrow> v | _ \<Rightarrow> di)"
    and put_int: "nv_put_int ops s ns k i = (n, s') \<Longrightarrow>
        vals s' = (if 0 < n then (vals s)((ns, k) \<mapsto> NvInt i) else vals s)"

section \<open>A disk and a store in memory\<close>

text \<open>Concrete instances to run the model on.  With the flag \<open>mains\<close> every
  operation works; without it \<open>rd_power\<close> is the number of further modifying
  operations before the power goes: those after it fail and change nothing.\<close>

record ram_disk =
  rd_files :: files
  rd_power :: nat

definition rd_modify :: "bool \<Rightarrow> (files \<Rightarrow> files) \<Rightarrow> ram_disk \<Rightarrow> bool \<times> ram_disk" where
  "rd_modify mains g d = (if \<not> mains \<and> rd_power d = 0 then (False, d)
     else (True, d\<lparr>rd_files := g (rd_files d), rd_power := rd_power d - 1\<rparr>))"

definition rd_open :: "bool \<Rightarrow> ram_disk \<Rightarrow> string \<Rightarrow> open_mode \<Rightarrow> bool \<times> ram_disk" where
  "rd_open mains d p m =
     (case m of
        MODE_READ \<Rightarrow> (rd_files d p \<noteq> None, d)
      | MODE_APPEND \<Rightarrow>
          if rd_files d p \<noteq> None then (True, d) else rd_modify mains (\<lambda>fs. fs(p := Some [])) d
      | MODE_WRITE \<Rightarrow> rd_modify mains (\<lambda>fs. fs(p := Some [])) d)"

definition ram_ops :: "bool \<Rightarrow> ram_disk spiffs_ops" where
  "ram_ops mains = \<lparr>
     fs_begin = (\<lambda>d. (True, d)),
     fs_exists = (\<lambda>d p. rd_files d p \<noteq> None),
     fs_open = rd_open mains,
     fs_write = (\<lambda>d p data.
       (case rd_files d p of
          None \<Rightarrow> (0, d)
        | Some c \<Rightarrow>
            (let (ok, d') = rd_modify mains (\<lambda>fs. fs(p := Some (c @ data))) d in
             (if ok then length data else 0, d')))),
     fs_flush = (\<lambda>d p. d),
     fs_available = (\<lambda>d p pos. length (file_bytes (rd_files d) p) - pos),
     fs_read = (\<lambda>d p pos len. take len (drop pos (file_bytes (rd_files d) p))),
     fs_rename = (\<lambda>d p q.
       (case rd_files d p of
          None \<Rightarrow> (False, d)
        | Some c \<Rightarrow> rd_modify mains (\<lambda>fs. fs(p := None, q := Some c)) d)),
     fs_remove = (\<lambda>d p.
       if rd_files d p = None then (False, d) else rd_modify mains (\<lambda>fs. fs(p := None)) d)\<rparr>"

lemma spiffs_ram: "spiffs (ram_ops mains) rd_files"
proof
  show "\<exists>k. fs_read (ram_ops mains) d p pos len = take k (drop pos c) \<and> k \<le> len \<and>
      (0 < len \<and> pos < length c \<longrightarrow> 0 < k)" if "rd_files d p = Some c" for d p c pos len
    using that by (intro exI [of _ len]) (simp add: ram_ops_def)
qed (auto simp: ram_ops_def rd_open_def rd_modify_def Let_def split: if_splits option.splits)

interpretation ram: spiffs "ram_ops mains" rd_files for mains
  by (rule spiffs_ram)

record ram_nvs =
  rn_vals :: nvs_map
  rn_power :: nat

definition rn_put :: "bool \<Rightarrow> string \<Rightarrow> string \<Rightarrow> nvs_value \<Rightarrow> nat \<Rightarrow> ram_nvs \<Rightarrow> nat \<times> ram_nvs" where
  "rn_put mains ns k v n s = (if (\<not> mains \<and> rn_power s = 0) \<or> n = 0 then (0, s)
     else (n, s\<lparr>rn_vals := (rn_vals s)((ns, k) \<mapsto> v), rn_power := rn_power s - 1\<rparr>))"

definition ram_nvs_ops :: "bool \<Rightarrow> ram_nvs nvs_ops" where
  "ram_nvs_ops mains = \<lparr>
     nv_begin = (\<lambda>s ns ro. True),
     nv_get_string = (\<lambda>s ns k d. case rn_vals s (ns, k) of Some (NvString v) \<Rightarrow> v | _ \<Rightarrow> d),
     nv_get_uint = (\<lambda>s ns k d. case rn_vals s (ns, k) of Some (NvUint v) \<Rightarrow> v | _ \<Rightarrow> d),
     nv_get_u64 = (\<lambda>s ns k d. case rn_vals s (ns, k) of Some (NvU64 v) \<Rightarrow> v | _ \<Rightarrow> d),
     nv_put_string = (\<lambda>s ns k v. rn_put mains ns k (NvString v) (length v) s),
     nv_put_uint = (\<lambda>s ns k v. rn_put mains ns k (NvUint v) 4 s),
     nv_put_u64 = (\<lambda>s ns k v. rn_put mains ns k (NvU64 v) 8 s),
     nv_get_int = (\<lambda>s ns k d. case rn_vals s (ns, k) of Some (NvInt v) \<Rightarrow> v | _ \<Rightarrow> d),
     nv_put_int = (\<lambda>s ns k v. rn_put mains ns k (NvInt v) 4 s)\<rparr>"

lemma nvs_ram: "nvs (ram_nvs_ops mains) rn_vals"
  by unfold_locales (auto simp: ram_nvs_ops_def rn_put_def split: if_splits)

interpretation ram_nvs: nvs "ram_nvs_ops mains" rn_vals for mains
  by (rule nvs_ram)

end
