(* ===== verification/Event_Journal.thy ===== *)
theory Event_Journal
  imports Journal_Frame Journal_Index Storage_Api
begin

text \<open>
  The durable journal, \<^verbatim>\<open>storage/event_journal.h/.cpp\<close>: the adapter that makes
  a SPIFFS file a \<^verbatim>\<open>JournalFile\<close>, boot-time recovery, appends, and compaction
  in one call or in ticks.  The adapter is interpreted in the file interface
  of \<open>Journal_Frame\<close> over any lawful disk.  Log output is not modelled.  An
  operation that scans a file is an \<open>option\<close>, \<open>None\<close> for a scan that never
  returns; on a lawful disk there is none.
\<close>

section \<open>A SPIFFS file as a journal file\<close>

datatype file_handle = NoFile | AppendHandle | ReadHandle nat

record 'd sj_file =
  sj_disk :: 'd
  sj_path :: string
  sj_handle :: file_handle

definition new_sj_file :: "'d \<Rightarrow> string \<Rightarrow> 'd sj_file" where
  "new_sj_file d p = \<lparr>sj_disk = d, sj_path = p, sj_handle = NoFile\<rparr>"

definition sj_open_for_append :: "'d spiffs_ops \<Rightarrow> 'd sj_file \<Rightarrow> bool \<times> 'd sj_file" where
  "sj_open_for_append fs f =
     (let (ok, d) = fs_open fs (sj_disk f) (sj_path f) MODE_APPEND in
      (ok, f\<lparr>sj_disk := d, sj_handle := (if ok then AppendHandle else NoFile)\<rparr>))"

definition sj_open_for_read :: "'d spiffs_ops \<Rightarrow> 'd sj_file \<Rightarrow> bool \<times> 'd sj_file" where
  "sj_open_for_read fs f =
     (if \<not> fs_exists fs (sj_disk f) (sj_path f) then (True, f)
      else let (ok, d) = fs_open fs (sj_disk f) (sj_path f) MODE_READ in
        (ok, f\<lparr>sj_disk := d, sj_handle := (if ok then ReadHandle 0 else NoFile)\<rparr>))"

definition sj_close :: "'d sj_file \<Rightarrow> 'd sj_file" where
  "sj_close f = f\<lparr>sj_handle := NoFile\<rparr>"

definition sj_write :: "'d spiffs_ops \<Rightarrow> 'd sj_file \<Rightarrow> bytes \<Rightarrow> int \<times> 'd sj_file" where
  "sj_write fs f data =
     (case sj_handle f of
        NoFile \<Rightarrow> (-1, f)
      | ReadHandle _ \<Rightarrow> (0, f)
      | AppendHandle \<Rightarrow>
          (let (n, d) = fs_write fs (sj_disk f) (sj_path f) data in (int n, f\<lparr>sj_disk := d\<rparr>)))"

definition sj_flush :: "'d spiffs_ops \<Rightarrow> 'd sj_file \<Rightarrow> bool \<times> 'd sj_file" where
  "sj_flush fs f =
     (if sj_handle f = NoFile then (False, f)
      else (True, f\<lparr>sj_disk := fs_flush fs (sj_disk f) (sj_path f)\<rparr>))"

definition sj_read :: "'d spiffs_ops \<Rightarrow> 'd sj_file \<Rightarrow> nat \<Rightarrow> bytes option \<times> 'd sj_file" where
  "sj_read fs f len =
     (case sj_handle f of
        ReadHandle pos \<Rightarrow>
          (if fs_available fs (sj_disk f) (sj_path f) pos = 0 then (Some [], f)
           else let c = fs_read fs (sj_disk f) (sj_path f) pos len in
             (Some c, f\<lparr>sj_handle := ReadHandle (pos + length c)\<rparr>))
      | _ \<Rightarrow> (Some [], f))"

definition sj_size :: "'d spiffs_ops \<Rightarrow> 'd sj_file \<Rightarrow> u32" where
  "sj_size fs f =
     (if fs_exists fs (sj_disk f) (sj_path f)
      then of_nat (fs_available fs (sj_disk f) (sj_path f) 0) else 0)"

definition sj_ops :: "'d spiffs_ops \<Rightarrow> 'd sj_file jfile_ops" where
  "sj_ops fs = \<lparr>
     jf_open_for_append = sj_open_for_append fs,
     jf_open_for_read = sj_open_for_read fs,
     jf_close = sj_close,
     jf_write = sj_write fs,
     jf_flush = sj_flush fs,
     jf_read = sj_read fs,
     jf_size = sj_size fs\<rparr>"

section \<open>The journal\<close>

definition journal_path :: string where "journal_path = ''/journal.dat''"
definition journal_tmp_path :: string where "journal_tmp_path = ''/journal.dat.tmp''"
definition journal_old_path :: string where "journal_old_path = ''/journal.dat.old''"

record 'd event_journal =
  ej_disk :: 'd
  ej_index :: journal_index
  ej_init_ok :: bool
  ej_compaction_active :: bool
  ej_compaction_keep :: "string list"
  ej_compaction_write_index :: nat
  ej_compaction_last_progress_ms :: u32

definition new_journal :: "'d \<Rightarrow> 'd event_journal" where
  "new_journal d = \<lparr>ej_disk = d, ej_index = new_index 0, ej_init_ok = False,
     ej_compaction_active = False, ej_compaction_keep = [], ej_compaction_write_index = 0,
     ej_compaction_last_progress_ms = 0\<rparr>"

definition recover_orphans :: "'d spiffs_ops \<Rightarrow> 'd \<Rightarrow> 'd" where
  "recover_orphans fs d =
     (let has_dat = fs_exists fs d journal_path;
          has_old = fs_exists fs d journal_old_path;
          has_tmp = fs_exists fs d journal_tmp_path;
          d1 = (if has_tmp then snd (fs_remove fs d journal_tmp_path) else d) in
      if \<not> has_dat \<and> has_old then snd (fs_rename fs d1 journal_old_path journal_path)
      else if has_dat \<and> has_old then snd (fs_remove fs d1 journal_old_path)
      else d1)"

definition recover_frame :: "scan_frame \<Rightarrow> journal_index \<Rightarrow> journal_index" where
  "recover_frame fr idx =
     (case sf_outcome fr of
        FRAME_OK \<Rightarrow> apply_scanned_frame (sf_body_json fr) (sf_frame_size fr) idx
      | _ \<Rightarrow> idx)"

definition journal_init :: "'d spiffs_ops \<Rightarrow> u32 \<Rightarrow> 'd event_journal \<Rightarrow> 'd event_journal option" where
  "journal_init fs capacity ej =
     (let (mounted, d0) = fs_begin fs (ej_disk ej) in
      if \<not> mounted then Some (ej\<lparr>ej_disk := d0, ej_init_ok := False\<rparr>)
      else
      let d1 = recover_orphans fs d0 in
      case scan_journal (sj_ops fs) (new_sj_file d1 journal_path) of
        None \<Rightarrow> None
      | Some (n, frames, f) \<Rightarrow>
          Some (ej\<lparr>ej_disk := sj_disk f,
                   ej_index := fold recover_frame frames (new_index capacity),
                   ej_init_ok := True\<rparr>))"

definition append_frame_to :: "'d spiffs_ops \<Rightarrow> string \<Rightarrow> string \<Rightarrow> 'd \<Rightarrow> bool \<times> 'd" where
  "append_frame_to fs path body d =
     (let (ok, f) = append_journal_frame (sj_ops fs) (new_sj_file d path) body in (ok, sj_disk f))"

definition append_event :: "'d spiffs_ops \<Rightarrow> journal_record \<Rightarrow> 'd event_journal \<Rightarrow> bool \<times> 'd event_journal" where
  "append_event fs r ej =
     (if \<not> ej_init_ok ej then (False, ej) else
      let body = encode_journal_event r;
          frame_size = frame_overhead + of_nat (length body) in
      case decide_append (ej_index ej) (jr_event_id r) frame_size of
        DUPLICATE_EVENT \<Rightarrow> (False, ej)
      | JOURNAL_FULL \<Rightarrow> (False, ej)
      | APPEND_OK \<Rightarrow>
          (let (ok, d) = append_frame_to fs journal_path body (ej_disk ej) in
           if \<not> ok then (False, ej\<lparr>ej_disk := d\<rparr>)
           else (True, ej\<lparr>ej_disk := d,
                          ej_index := record_appended_event r frame_size (ej_index ej)\<rparr>)))"

definition append_transition ::
  "'d spiffs_ops \<Rightarrow> journal_transition \<Rightarrow> 'd event_journal \<Rightarrow> bool \<times> 'd event_journal" where
  "append_transition fs t ej =
     (if \<not> ej_init_ok ej then (False, ej)
      else if \<not> has_event (ej_index ej) (jt_event_id t) then (False, ej) else
      let body = encode_journal_transition t;
          frame_size = frame_overhead + of_nat (length body);
          (ok, d) = append_frame_to fs journal_path body (ej_disk ej) in
      if \<not> ok then (False, ej\<lparr>ej_disk := d\<rparr>)
      else (True, ej\<lparr>ej_disk := d,
                     ej_index := record_appended_transition t frame_size (ej_index ej)\<rparr>))"

section \<open>Compaction\<close>

text \<open>The loop of \<open>compact\<close> over the keep list, on one file object.\<close>

fun write_kept :: "'d spiffs_ops \<Rightarrow> journal_index \<Rightarrow> string list \<Rightarrow> 'd sj_file \<Rightarrow> bool \<times> 'd sj_file" where
  "write_kept fs idx [] f = (True, f)"
| "write_kept fs idx (k # ks) f =
     (case index_find idx k of
        None \<Rightarrow> write_kept fs idx ks f
      | Some r \<Rightarrow>
          (let (ok, f') = append_journal_frame (sj_ops fs) f (encode_journal_event r) in
           if \<not> ok then (False, f') else write_kept fs idx ks f'))"

definition swap_files :: "'d spiffs_ops \<Rightarrow> 'd \<Rightarrow> bool \<times> 'd" where
  "swap_files fs d =
     (let (moved, d1) =
        (if fs_exists fs d journal_path then fs_rename fs d journal_path journal_old_path else (True, d)) in
      if \<not> moved then (False, snd (fs_remove fs d1 journal_tmp_path))
      else
      let (renamed, d2) = fs_rename fs d1 journal_tmp_path journal_path in
      if \<not> renamed then
        (False, if fs_exists fs d2 journal_old_path
                then snd (fs_rename fs d2 journal_old_path journal_path) else d2)
      else (True, snd (fs_remove fs d2 journal_old_path)))"

definition finish_compaction ::
  "'d spiffs_ops \<Rightarrow> string list \<Rightarrow> 'd event_journal \<Rightarrow> (bool \<times> 'd event_journal) option" where
  "finish_compaction fs keep ej =
     (case scan_journal (sj_ops fs) (new_sj_file (ej_disk ej) journal_tmp_path) of
        None \<Rightarrow> None
      | Some (n, frames, f) \<Rightarrow>
          let d = sj_disk f;
              bad = length (filter (\<lambda>fr. sf_outcome fr \<noteq> FRAME_OK) frames);
              seen = length frames in
          if 0 < bad \<or> seen \<noteq> length keep \<or> n \<noteq> int (length keep) then
            Some (False, ej\<lparr>ej_disk := snd (fs_remove fs d journal_tmp_path)\<rparr>)
          else
          let (swapped, d1) = swap_files fs d in
          if \<not> swapped then Some (False, ej\<lparr>ej_disk := d1\<rparr>)
          else Some (True, ej\<lparr>ej_disk := d1, ej_index := rebuild_after_compaction keep (ej_index ej)\<rparr>))"

definition compact ::
  "'d spiffs_ops \<Rightarrow> compaction_policy \<Rightarrow> 'd event_journal \<Rightarrow> (bool \<times> 'd event_journal) option" where
  "compact fs policy ej =
     (if \<not> ej_init_ok ej then Some (False, ej) else
      let keep = select_records_to_keep policy (ej_index ej);
          before_count = record_count (ej_index ej) in
      if length keep = unat before_count then Some (True, ej)
      else
      let d0 = snd (fs_remove fs (ej_disk ej) journal_tmp_path);
          (ok, f) = write_kept fs (ej_index ej) keep (new_sj_file d0 journal_tmp_path) in
      if \<not> ok then Some (False, ej\<lparr>ej_disk := snd (fs_remove fs (sj_disk f) journal_tmp_path)\<rparr>)
      else finish_compaction fs keep (ej\<lparr>ej_disk := sj_disk f\<rparr>))"

definition records_per_tick :: nat where
  "records_per_tick = 10"

definition begin_compaction ::
  "'d spiffs_ops \<Rightarrow> compaction_policy \<Rightarrow> u32 \<Rightarrow> 'd event_journal \<Rightarrow> bool \<times> 'd event_journal" where
  "begin_compaction fs policy now ej =
     (if \<not> ej_init_ok ej \<or> ej_compaction_active ej then (False, ej) else
      let keep = select_records_to_keep policy (ej_index ej) in
      if length keep = unat (record_count (ej_index ej))
      then (False, ej\<lparr>ej_compaction_keep := []\<rparr>)
      else (True, ej\<lparr>ej_compaction_keep := keep,
                     ej_disk := snd (fs_remove fs (ej_disk ej) journal_tmp_path),
                     ej_compaction_write_index := 0,
                     ej_compaction_last_progress_ms := now,
                     ej_compaction_active := True\<rparr>))"

text \<open>The loop of a tick from index \<open>i\<close> over the next records of the keep list:
  whether a write failed, the write index, and the file.\<close>

fun tick_loop :: "'d spiffs_ops \<Rightarrow> journal_index \<Rightarrow> string list \<Rightarrow> nat \<Rightarrow> nat \<Rightarrow> 'd sj_file \<Rightarrow>
    bool \<times> nat \<times> 'd sj_file" where
  "tick_loop fs idx [] i wi f = (False, wi, f)"
| "tick_loop fs idx (k # ks) i wi f =
     (case index_find idx k of
        None \<Rightarrow> tick_loop fs idx ks (i + 1) wi f
      | Some r \<Rightarrow>
          (let (ok, f') = append_journal_frame (sj_ops fs) f (encode_journal_event r) in
           if \<not> ok then (True, wi, f') else tick_loop fs idx ks (i + 1) (i + 1) f'))"

definition compact_tick :: "'d spiffs_ops \<Rightarrow> u32 \<Rightarrow> 'd event_journal \<Rightarrow> 'd event_journal option" where
  "compact_tick fs now ej =
     (if \<not> ej_compaction_active ej then Some ej else
      let wi = ej_compaction_write_index ej;
          keep = ej_compaction_keep ej;
          chunk = take records_per_tick (drop wi keep);
          (failed, wi', f) = tick_loop fs (ej_index ej) chunk wi wi (new_sj_file (ej_disk ej) journal_tmp_path);
          ej1 = ej\<lparr>ej_disk := sj_disk f, ej_compaction_write_index := wi',
                   ej_compaction_last_progress_ms := now\<rparr> in
      if failed then
        Some (ej1\<lparr>ej_disk := snd (fs_remove fs (ej_disk ej1) journal_tmp_path),
                  ej_compaction_active := False, ej_compaction_keep := []\<rparr>)
      else if wi' < length keep then Some ej1
      else
        (case finish_compaction fs keep ej1 of
           None \<Rightarrow> None
         | Some (ok, ej2) \<Rightarrow>
             Some (ej2\<lparr>ej_compaction_active := False, ej_compaction_keep := [],
                       ej_compaction_write_index := 0\<rparr>)))"

section \<open>The adapter is a journal file\<close>

definition sj_content :: "('d \<Rightarrow> files) \<Rightarrow> 'd sj_file \<Rightarrow> bytes" where
  "sj_content files f = file_bytes (files (sj_disk f)) (sj_path f)"

definition sj_unread :: "('d \<Rightarrow> files) \<Rightarrow> 'd sj_file \<Rightarrow> bytes" where
  "sj_unread files f = (case sj_handle f of ReadHandle pos \<Rightarrow> drop pos (sj_content files f) | _ \<Rightarrow> [])"

definition sj_rest :: "('d \<Rightarrow> files) \<Rightarrow> 'd sj_file \<Rightarrow> files \<times> string" where
  "sj_rest files f = ((files (sj_disk f))(sj_path f := None), sj_path f)"

context spiffs begin

lemma sj_read_law:
  assumes "sj_read ops f len = (r, f')"
  shows "sj_content files f' = sj_content files f \<and> sj_rest files f' = sj_rest files f \<and>
    (\<exists>c. r = Some c \<and> sj_unread files f = c @ sj_unread files f' \<and> length c \<le> len \<and>
         (c = [] \<longrightarrow> len = 0 \<or> sj_unread files f = []))"
proof (cases "sj_handle f")
  case (ReadHandle pos)
  show ?thesis
  proof (cases "fs_available ops (sj_disk f) (sj_path f) pos = 0")
    case True
    have "sj_unread files f = []"
    proof (cases "files (sj_disk f) (sj_path f)")
      case (Some c)
      then show ?thesis
        using True available [OF Some] by (simp add: sj_unread_def sj_content_def ReadHandle)
    qed (simp add: sj_unread_def sj_content_def ReadHandle)
    then show ?thesis
      using assms True by (auto simp: sj_read_def ReadHandle)
  next
    case False
    then obtain c where c: "files (sj_disk f) (sj_path f) = Some c"
      using available_none by fastforce
    obtain k where k: "fs_read ops (sj_disk f) (sj_path f) pos len = take k (drop pos c)" "k \<le> len"
        "0 < len \<and> pos < length c \<longrightarrow> 0 < k"
      using read_data [OF c] by blast
    have pos: "pos < length c"
      using False available [OF c] by simp
    let ?r = "take k (drop pos c)"
    have "r = Some ?r" "f' = f\<lparr>sj_handle := ReadHandle (pos + length ?r)\<rparr>"
      using assms False k(1) by (simp_all add: sj_read_def ReadHandle Let_def)
    moreover have "drop pos c = ?r @ drop (pos + length ?r) c"
      by (metis append_take_drop_id drop_drop add.commute length_take min.cobounded1 drop_append_exact append_eq_conv_conj)
    ultimately show ?thesis
      using k(2,3) pos c by (auto simp: sj_content_def sj_rest_def sj_unread_def ReadHandle)
  qed
qed (use assms in \<open>auto simp: sj_read_def sj_unread_def\<close>)

lemma sj_journal_file: "journal_file (sj_ops ops) (sj_content files) (sj_unread files) (sj_rest files)"
proof
  fix f f' ok
  assume "jf_open_for_read (sj_ops ops) f = (ok, f')"
  then show "sj_content files f' = sj_content files f \<and> sj_rest files f' = sj_rest files f \<and>
      (ok \<longrightarrow> sj_unread files f' = sj_content files f)"
    using open_read [of "sj_disk f" "sj_path f"] exists_iff [of "sj_disk f" "sj_path f"]
    by (auto simp: sj_ops_def sj_open_for_read_def sj_content_def sj_rest_def sj_unread_def
        split: prod.splits if_splits file_handle.splits)
next
  fix f f' ok
  assume "jf_open_for_append (sj_ops ops) f = (ok, f')"
  then show "sj_content files f' = sj_content files f \<and> sj_rest files f' = sj_rest files f"
    using open_append [of "sj_disk f" "sj_path f"]
    by (fastforce simp: sj_ops_def sj_open_for_append_def sj_content_def sj_rest_def split: prod.splits)
next
  fix f
  show "sj_content files (jf_close (sj_ops ops) f) = sj_content files f \<and>
      sj_rest files (jf_close (sj_ops ops) f) = sj_rest files f"
    by (simp add: sj_ops_def sj_close_def sj_content_def sj_rest_def)
next
  fix f f' ok
  assume "jf_flush (sj_ops ops) f = (ok, f')"
  then show "sj_content files f' = sj_content files f \<and> sj_rest files f' = sj_rest files f"
    by (auto simp: sj_ops_def sj_flush_def sj_content_def sj_rest_def flush_keeps split: if_splits)
next
  fix f d n f'
  assume w: "jf_write (sj_ops ops) f d = (n, f')"
  show "sj_rest files f' = sj_rest files f \<and>
      (\<exists>k\<le>length d. sj_content files f' = sj_content files f @ take k d \<and> (0 \<le> n \<longrightarrow> n = int k))"
  proof (cases "sj_handle f")
    case AppendHandle
    obtain m d' where m: "fs_write ops (sj_disk f) (sj_path f) d = (m, d')"
      by fastforce
    have "n = int m" "f' = f\<lparr>sj_disk := d'\<rparr>"
      using w m by (simp_all add: sj_ops_def sj_write_def AppendHandle)
    then show ?thesis
      using write_data [OF m]
      by (cases "files (sj_disk f) (sj_path f)") (auto simp: sj_content_def sj_rest_def)
  qed (use w in \<open>auto simp: sj_ops_def sj_write_def intro!: exI [of _ 0]\<close>)
next
  fix f len r f'
  assume "jf_read (sj_ops ops) f len = (r, f')"
  then show "sj_content files f' = sj_content files f \<and> sj_rest files f' = sj_rest files f \<and>
      (\<exists>c. r = Some c \<and> sj_unread files f = c @ sj_unread files f' \<and> length c \<le> len \<and>
           (c = [] \<longrightarrow> len = 0 \<or> sj_unread files f = []))"
    by (intro sj_read_law) (simp add: sj_ops_def)
qed

end

sublocale spiffs < sj: journal_file "sj_ops ops" "sj_content files" "sj_unread files" "sj_rest files"
  by (rule sj_journal_file)

section \<open>What the log recovers\<close>

definition log_index :: "u32 \<Rightarrow> bytes \<Rightarrow> journal_index" where
  "log_index capacity c = fold recover_frame (scan_bytes 0 c) (new_index capacity)"

definition replay_bodies :: "string list \<Rightarrow> journal_index \<Rightarrow> journal_index" where
  "replay_bodies bs idx = fold (\<lambda>b. apply_scanned_frame b (of_nat (length b + 9))) bs idx"

lemma replay_bodies_simps [simp]:
  "replay_bodies [] idx = idx"
  "replay_bodies (b # bs) idx = replay_bodies bs (apply_scanned_frame b (of_nat (length b + 9)) idx)"
  "replay_bodies (bs @ bs') idx = replay_bodies bs' (replay_bodies bs idx)"
  by (simp_all add: replay_bodies_def)

lemma fold_recover_ok_frames:
  "fold recover_frame (ok_frames off bs) idx = replay_bodies bs idx"
  by (induction bs arbitrary: off idx) (simp_all add: recover_frame_def)

definition small_bodies :: "string list \<Rightarrow> bool" where
  "small_bodies bs = list_all (\<lambda>b. length b < 2 ^ 31) bs"

lemma small_bodies_less: "small_bodies bs \<Longrightarrow> \<forall>b\<in>set bs. length b < 2 ^ 32"
  by (auto simp: small_bodies_def list_all_iff)

lemma log_index_torn:
  assumes "small_bodies bs" "length b < 2 ^ 31" "k < length (frame_of b)"
  shows "log_index cap (log_bytes bs @ take k (frame_of b)) = replay_bodies bs (new_index cap)"
  using assms scan_log [OF small_bodies_less [OF assms(1)], of 0 "take k (frame_of b)"]
    scan_torn [of b k]
  by (auto simp: log_index_def fold_recover_ok_frames recover_frame_def)

lemma log_index_clean [simp]:
  assumes "small_bodies bs"
  shows "log_index cap (log_bytes bs) = replay_bodies bs (new_index cap)"
  using scan_log [OF small_bodies_less [OF assms], of 0 "[]"]
  by (simp add: log_index_def fold_recover_ok_frames)

lemma index_wf_replay_bodies [inv_intros]: "index_wf idx \<Longrightarrow> index_wf (replay_bodies bs idx)"
  by (induction bs arbitrary: idx) (simp_all add: index_wf_apply)

lemma apply_scanned_capacity [simp]:
  "ji_capacity_bytes (apply_scanned_frame b z idx) = ji_capacity_bytes idx"
  by (simp add: apply_scanned_frame_def Let_def split: body_kind.split option.split)

lemma replay_bodies_capacity [simp]: "ji_capacity_bytes (replay_bodies bs idx) = ji_capacity_bytes idx"
  by (induction bs arbitrary: idx) simp_all

lemma new_index_capacity [simp]: "ji_capacity_bytes (new_index cap) = cap"
  by (simp add: new_index_def)

text \<open>The abstraction: the journal holds the bodies \<open>bs\<close>, its file is their
  frames and nothing else, its index is what a boot would recover from them.\<close>

definition journal_holds :: "('d \<Rightarrow> files) \<Rightarrow> string list \<Rightarrow> 'd event_journal \<Rightarrow> bool" where
  "journal_holds files bs ej =
     (ej_init_ok ej \<and> small_bodies bs \<and>
      file_bytes (files (ej_disk ej)) journal_path = log_bytes bs \<and>
      ej_index ej = replay_bodies bs (new_index (ji_capacity_bytes (ej_index ej))))"

lemma journal_holds_wf: "journal_holds files bs ej \<Longrightarrow> index_wf (ej_index ej)"
  unfolding journal_holds_def by (metis index_wf_new index_wf_replay_bodies)

lemma journal_holds_log:
  "journal_holds files bs ej \<Longrightarrow>
   log_index (ji_capacity_bytes (ej_index ej)) (file_bytes (files (ej_disk ej)) journal_path) = ej_index ej"
  unfolding journal_holds_def by (metis log_index_clean)

lemma body_frame_size: "frame_overhead + of_nat (length b) = of_nat (length b + 9)"
  by (simp add: frame_overhead_def)

lemma paths_distinct [simp]:
  "journal_path \<noteq> journal_tmp_path" "journal_tmp_path \<noteq> journal_path"
  "journal_path \<noteq> journal_old_path" "journal_old_path \<noteq> journal_path"
  "journal_tmp_path \<noteq> journal_old_path" "journal_old_path \<noteq> journal_tmp_path"
  by (simp_all add: journal_path_def journal_tmp_path_def journal_old_path_def)

context spiffs begin

lemma append_sj_spec:
  assumes "append_journal_frame (sj_ops ops) f body = (ok, f')" "length body < 2 ^ 31"
  shows "\<exists>k. k \<le> length (frame_of body) \<and>
      file_bytes (files (sj_disk f')) (sj_path f) = file_bytes (files (sj_disk f)) (sj_path f) @ take k (frame_of body) \<and>
      (ok \<longrightarrow> k = length (frame_of body))"
    "sj_path f' = sj_path f"
    "q \<noteq> sj_path f \<Longrightarrow> files (sj_disk f') q = files (sj_disk f) q"
proof -
  have r: "(files (sj_disk f'))(sj_path f' := None) = (files (sj_disk f))(sj_path f := None)"
      "sj_path f' = sj_path f"
    using sj.append_rest [OF assms(1)] unfolding sj_rest_def prod.inject by blast+
  show "sj_path f' = sj_path f"
    by (rule r(2))
  show "files (sj_disk f') q = files (sj_disk f) q" if "q \<noteq> sj_path f"
    using fun_cong [OF r(1), of q] r(2) that by simp
  show "\<exists>k. k \<le> length (frame_of body) \<and>
      file_bytes (files (sj_disk f')) (sj_path f) = file_bytes (files (sj_disk f)) (sj_path f) @ take k (frame_of body) \<and>
      (ok \<longrightarrow> k = length (frame_of body))"
    using sj.append_spec [OF assms] r(2) by (simp add: sj_content_def)
qed

lemma append_frame_to_spec:
  assumes "append_frame_to ops path body d = (ok, d')" "length body < 2 ^ 31"
  obtains k where "k \<le> length (frame_of body)"
    "file_bytes (files d') path = file_bytes (files d) path @ take k (frame_of body)"
    "ok \<longrightarrow> k = length (frame_of body)" "\<And>q. q \<noteq> path \<Longrightarrow> files d' q = files d q"
proof -
  obtain f where f: "append_journal_frame (sj_ops ops) (new_sj_file d path) body = (ok, f)" "sj_disk f = d'"
    using assms(1) by (auto simp: append_frame_to_def split: prod.splits)
  show thesis
    using append_sj_spec [OF f(1) assms(2)] f(2) that by (auto simp: new_sj_file_def)
qed

lemma scan_sj_spec:
  obtains n frames f where "scan_journal (sj_ops ops) (new_sj_file d p) = Some (n, frames, f)"
    "(n = int (ok_count frames) \<and> frames = scan_bytes 0 (file_bytes (files d) p)) \<or> (n = 0 \<and> frames = [])"
    "fst (jf_open_for_read (sj_ops ops) (new_sj_file d p)) \<longrightarrow> frames = scan_bytes 0 (file_bytes (files d) p)"
    "file_bytes (files (sj_disk f)) p = file_bytes (files d) p"
    "\<And>q. q \<noteq> p \<Longrightarrow> files (sj_disk f) q = files d q"
proof -
  let ?f0 = "new_sj_file d p"
  have new: "sj_disk ?f0 = d" "sj_path ?f0 = p"
    by (simp_all add: new_sj_file_def)
  have same: "file_bytes (files (sj_disk f)) p = file_bytes (files d) p \<and>
      (\<forall>q. q \<noteq> p \<longrightarrow> files (sj_disk f) q = files d q)"
    if "sj_content files f = sj_content files ?f0" "sj_rest files f = sj_rest files ?f0" for f
  proof -
    have r: "(files (sj_disk f))(p := None) = (files d)(p := None)" "sj_path f = p"
      using that(2) by (auto simp: sj_rest_def new)
    have "files (sj_disk f) q = files d q" if "q \<noteq> p" for q
      using fun_cong [OF r(1), of q] that by simp
    then show ?thesis
      using that(1) r(2) by (simp add: sj_content_def new)
  qed
  show thesis
  proof (cases "fst (jf_open_for_read (sj_ops ops) ?f0)")
    case True
    then obtain f' where f': "scan_journal (sj_ops ops) ?f0 =
        Some (int (ok_count (scan_bytes 0 (sj_content files ?f0))), scan_bytes 0 (sj_content files ?f0), f')"
      "sj_content files f' = sj_content files ?f0" "sj_rest files f' = sj_rest files ?f0"
      using sj.scan_journal_spec by blast
    have c: "sj_content files ?f0 = file_bytes (files d) p"
      by (simp add: sj_content_def new)
    show thesis
      by (rule that [OF f'(1)]) (use same [OF f'(2,3)] c in simp_all)
  next
    case False
    then obtain f1 where o: "jf_open_for_read (sj_ops ops) ?f0 = (False, f1)"
      by (cases "jf_open_for_read (sj_ops ops) ?f0") auto
    show thesis
      using that [of 0 "[]" f1] same [of f1] sj.open_for_read [OF o] False
      by (simp add: scan_journal_def o)
  qed
qed

end

section \<open>Appends\<close>

lemma log_after_append:
  assumes "small_bodies bs" "length b < 2 ^ 31" "k \<le> length (frame_of b)"
  shows "log_index cap (log_bytes bs @ take k (frame_of b)) =
    (if k = length (frame_of b) then replay_bodies (bs @ [b]) (new_index cap)
     else replay_bodies bs (new_index cap))"
proof (cases "k = length (frame_of b)")
  case True
  have "small_bodies (bs @ [b])"
    using assms(1,2) by (simp add: small_bodies_def)
  from log_index_clean [OF this, of cap] show ?thesis
    using True by simp
next
  case False
  then show ?thesis
    using log_index_torn [OF assms(1,2)] assms(3) by simp
qed

context spiffs begin

lemma append_event_spec:
  assumes "journal_holds files bs ej" "wf_record r" "length (encode_journal_event r) < 2 ^ 31"
    and "append_event ops r ej = (ok, ej')"
  defines "cap \<equiv> ji_capacity_bytes (ej_index ej)" and "b \<equiv> encode_journal_event r"
  shows "ok \<Longrightarrow> journal_holds files (bs @ [b]) ej'"
    "\<not> ok \<Longrightarrow> ej_index ej' = ej_index ej"
    "ok \<Longrightarrow> ej_index ej' = record_appended_event r (of_nat (length b + 9)) (ej_index ej)"
    "log_index cap (file_bytes (files (ej_disk ej')) journal_path) \<in>
       {ej_index ej, replay_bodies (bs @ [b]) (new_index cap)}"
proof -
  have h: "ej_init_ok ej" "small_bodies bs" "file_bytes (files (ej_disk ej)) journal_path = log_bytes bs"
      "ej_index ej = replay_bodies bs (new_index cap)"
    using assms(1) by (simp_all add: journal_holds_def cap_def)
  have lb: "length b < 2 ^ 31"
    using assms(3) by (simp add: b_def)
  have un: "append_event ops r ej =
      (case decide_append (ej_index ej) (jr_event_id r) (of_nat (length b + 9)) of
        APPEND_OK \<Rightarrow>
          (let (ok, d) = append_frame_to ops journal_path b (ej_disk ej) in
           if \<not> ok then (False, ej\<lparr>ej_disk := d\<rparr>)
           else (True, ej\<lparr>ej_disk := d,
             ej_index := record_appended_event r (of_nat (length b + 9)) (ej_index ej)\<rparr>))
      | _ \<Rightarrow> (False, ej))"
    using h(1) unfolding append_event_def Let_def body_frame_size b_def
    by (simp split: append_decision.split)
  consider (no) "(ok, ej') = (False, ej)"
    | (go) d ok' where "decide_append (ej_index ej) (jr_event_id r) (of_nat (length b + 9)) = APPEND_OK"
        "append_frame_to ops journal_path b (ej_disk ej) = (ok', d)" "ok = ok'"
        "ej' = (if ok' then ej\<lparr>ej_disk := d,
             ej_index := record_appended_event r (of_nat (length b + 9)) (ej_index ej)\<rparr> else ej\<lparr>ej_disk := d\<rparr>)"
    using assms(4) unfolding un by (auto split: append_decision.splits prod.splits if_splits)
  then have "(ok \<longrightarrow> journal_holds files (bs @ [b]) ej') \<and> (\<not> ok \<longrightarrow> ej_index ej' = ej_index ej) \<and>
    (ok \<longrightarrow> ej_index ej' = record_appended_event r (of_nat (length b + 9)) (ej_index ej)) \<and>
    log_index cap (file_bytes (files (ej_disk ej')) journal_path) \<in>
       {ej_index ej, replay_bodies (bs @ [b]) (new_index cap)}"
  proof cases
    case no
    then show ?thesis
      using h by simp
  next
    case go
    have fresh: "\<not> has_event (ej_index ej) (jr_event_id r)"
      using go(1) by (auto simp: decide_append_def has_event_def split: if_splits)
    have new: "record_appended_event r (of_nat (length b + 9)) (ej_index ej) =
        replay_bodies (bs @ [b]) (new_index cap)"
      using mirror_event [OF assms(2) fresh, of "of_nat (length b + 9)"] h(4) by (simp add: b_def)
    obtain k where k: "k \<le> length (frame_of b)"
        "file_bytes (files d) journal_path = log_bytes bs @ take k (frame_of b)"
        "ok' \<longrightarrow> k = length (frame_of b)"
      using append_frame_to_spec [OF go(2) lb] h(3) by metis
    have dsk: "ej_disk ej' = d"
      using go(4) by simp
    have log: "log_index cap (file_bytes (files (ej_disk ej')) journal_path) \<in>
        {ej_index ej, replay_bodies (bs @ [b]) (new_index cap)}"
      using log_after_append [OF h(2) lb k(1), of cap] h(4) by (simp add: dsk k(2))
    have "journal_holds files (bs @ [b]) ej'" if "ok"
      using that go(3,4) k h(1,2) lb new
      by (simp add: journal_holds_def small_bodies_def)
    then show ?thesis
      using log go(3,4) by simp
  qed
  then show "ok \<Longrightarrow> journal_holds files (bs @ [b]) ej'"
    "\<not> ok \<Longrightarrow> ej_index ej' = ej_index ej"
    "ok \<Longrightarrow> ej_index ej' = record_appended_event r (of_nat (length b + 9)) (ej_index ej)"
    "log_index cap (file_bytes (files (ej_disk ej')) journal_path) \<in>
       {ej_index ej, replay_bodies (bs @ [b]) (new_index cap)}"
    by blast+
qed

end

section \<open>Boot\<close>

text \<open>The bytes a boot recovers from: the live file, or, when an interrupted
  compaction has moved it away, the copy it kept.\<close>

definition boot_bytes :: "files \<Rightarrow> bytes" where
  "boot_bytes fs = (case fs journal_path of Some c \<Rightarrow> c | None \<Rightarrow> file_bytes fs journal_old_path)"

definition healthy :: "'d spiffs_ops \<Rightarrow> ('d \<Rightarrow> files) \<Rightarrow> bool" where
  "healthy ops files =
     ((\<forall>d. fst (fs_begin ops d)) \<and>
      (\<forall>d p. files d p \<noteq> None \<longrightarrow> fst (fs_open ops d p MODE_READ)) \<and>
      (\<forall>d p q. files d p \<noteq> None \<longrightarrow> files d q = None \<longrightarrow> fst (fs_rename ops d p q)))"

lemma healthy_ram: "healthy (ram_ops True) rd_files"
  by (auto simp: healthy_def ram_ops_def rd_open_def rd_modify_def)

context spiffs begin

lemma remove_spec:
  "files (snd (fs_remove ops d p)) = (files d)(p := None) \<or> files (snd (fs_remove ops d p)) = files d"
  using remove [of d p "fst (fs_remove ops d p)" "snd (fs_remove ops d p)"] by auto

lemma remove_other: "q \<noteq> p \<Longrightarrow> files (snd (fs_remove ops d p)) q = files d q"
  using remove_spec [of d p] by auto

lemma recover_orphans_spec:
  assumes "healthy ops files"
  shows "file_bytes (files (recover_orphans ops d)) journal_path = boot_bytes (files d)"
    "files d journal_tmp_path \<noteq> None \<or> files d journal_old_path \<noteq> None \<or> recover_orphans ops d = d"
proof -
  define d1 where "d1 = (if fs_exists ops d journal_tmp_path then snd (fs_remove ops d journal_tmp_path) else d)"
  have d1: "files d1 q = files d q" if "q \<noteq> journal_tmp_path" for q
    using that by (simp add: d1_def remove_other)
  have u: "recover_orphans ops d =
     (if files d journal_path = None \<and> files d journal_old_path \<noteq> None
      then snd (fs_rename ops d1 journal_old_path journal_path)
      else if files d journal_path \<noteq> None \<and> files d journal_old_path \<noteq> None
      then snd (fs_remove ops d1 journal_old_path) else d1)"
    by (simp add: recover_orphans_def Let_def exists_iff d1_def)
  show "file_bytes (files (recover_orphans ops d)) journal_path = boot_bytes (files d)"
  proof (cases "files d journal_path = None \<and> files d journal_old_path \<noteq> None")
    case True
    obtain ok d2 where r: "fs_rename ops d1 journal_old_path journal_path = (ok, d2)"
      by fastforce
    have "fst (fs_rename ops d1 journal_old_path journal_path)"
      using assms True d1 unfolding healthy_def by simp
    then show ?thesis
      using rename [OF r] True d1 r by (auto simp: u boot_bytes_def)
  next
    case False
    then show ?thesis
      using d1 remove_other [of journal_path journal_old_path d1]
      by (auto simp: u boot_bytes_def file_bytes_def split: option.splits)
  qed
  show "files d journal_tmp_path \<noteq> None \<or> files d journal_old_path \<noteq> None \<or> recover_orphans ops d = d"
    by (auto simp: u d1_def exists_iff)
qed

lemma journal_init_spec:
  assumes "healthy ops files"
  obtains ej' where "journal_init ops cap ej = Some ej'" "ej_init_ok ej'"
    "ej_index ej' = log_index cap (boot_bytes (files (ej_disk ej)))"
    "file_bytes (files (ej_disk ej')) journal_path = boot_bytes (files (ej_disk ej))"
proof -
  obtain d0 where b: "fs_begin ops (ej_disk ej) = (True, d0)"
    using assms unfolding healthy_def by (metis prod.collapse)
  let ?d1 = "recover_orphans ops d0"
  have fb: "file_bytes (files ?d1) journal_path = boot_bytes (files (ej_disk ej))"
    using recover_orphans_spec(1) [OF assms, of d0] begin_keeps [OF b] by simp
  have op: "fst (jf_open_for_read (sj_ops ops) (new_sj_file ?d1 journal_path))"
    using assms unfolding healthy_def
    by (auto simp: sj_ops_def sj_open_for_read_def new_sj_file_def exists_iff split_def)
  obtain n frames f where s: "scan_journal (sj_ops ops) (new_sj_file ?d1 journal_path) = Some (n, frames, f)"
      "frames = scan_bytes 0 (file_bytes (files ?d1) journal_path)"
      "file_bytes (files (sj_disk f)) journal_path = file_bytes (files ?d1) journal_path"
    using scan_sj_spec [of ?d1 journal_path] op by metis
  show thesis
    by (rule that [of "ej\<lparr>ej_disk := sj_disk f, ej_index := fold recover_frame frames (new_index cap),
        ej_init_ok := True\<rparr>"])
      (simp_all add: journal_init_def b s fb log_index_def)
qed

end

section \<open>Compaction is a replay of what it keeps\<close>

definition kept_bodies :: "journal_index \<Rightarrow> string list \<Rightarrow> string list" where
  "kept_bodies idx ks = map (\<lambda>k. encode_journal_event (the (index_find idx k))) (filter (has_event idx) ks)"

lemma kept_bodies_simps [simp]:
  "kept_bodies idx [] = []"
  "kept_bodies idx (ks @ ks') = kept_bodies idx ks @ kept_bodies idx ks'"
  by (simp_all add: kept_bodies_def)

lemma kept_bodies_Cons:
  "index_find idx k = None \<Longrightarrow> kept_bodies idx (k # ks) = kept_bodies idx ks"
  "index_find idx k = Some r \<Longrightarrow> kept_bodies idx (k # ks) = encode_journal_event r # kept_bodies idx ks"
  by (simp_all add: kept_bodies_def has_event_def index_find_def)

definition records_ok :: "journal_index \<Rightarrow> bool" where
  "records_ok idx = (index_wf idx \<and> length (ji_records idx) < 2 ^ 32 \<and>
     (\<forall>(k, r)\<in>set (ji_records idx). wf_record r \<and> length (encode_journal_event r) < 2 ^ 31))"

lemma records_ok_find:
  assumes "records_ok idx" "index_find idx k = Some r"
  shows "wf_record r" "length (encode_journal_event r) < 2 ^ 31" "jr_event_id r = k"
  using assms index_wf_get [of idx k r]
  by (auto simp: records_ok_def index_find_def index_wf_def simp flip: om.entries_get)

lemma fold_keep_is_replay:
  assumes "records_ok idx" "distinct keep" "\<forall>k\<in>set keep. om_get m k = None" "om_wf m"
    "fold (keep_record idx) keep (m, z, u) = (m', z', u')"
  shows "replay_bodies (kept_bodies idx keep)
      \<lparr>ji_capacity_bytes = cap, ji_used_bytes = u, ji_records = m, ji_frame_sizes = z\<rparr> =
    \<lparr>ji_capacity_bytes = cap, ji_used_bytes = u', ji_records = m', ji_frame_sizes = z'\<rparr>"
  using assms(2-5)
proof (induction keep arbitrary: m z u)
  case (Cons k keep)
  show ?case
  proof (cases "index_find idx k")
    case None
    then have "keep_record idx k (m, z, u) = (m, z, u)"
      by (simp add: keep_record_def index_find_def)
    then show ?thesis
      using Cons None by (simp add: kept_bodies_Cons)
  next
    case (Some r)
    note r = records_ok_find [OF assms(1) Some]
    let ?s = "event_frame_size r"
    have st: "keep_record idx k (m, z, u) = (om_put k r m, om_put k ?s z, u + ?s)"
      using Some by (simp add: keep_record_def index_find_def)
    have sz: "of_nat (length (encode_journal_event r) + 9) = ?s"
      unfolding event_frame_size_def body_frame_size ..
    have "apply_scanned_frame (encode_journal_event r) ?s
        \<lparr>ji_capacity_bytes = cap, ji_used_bytes = u, ji_records = m, ji_frame_sizes = z\<rparr> =
      \<lparr>ji_capacity_bytes = cap, ji_used_bytes = u + ?s, ji_records = om_put k r m, ji_frame_sizes = om_put k ?s z\<rparr>"
      by (subst mirror_event [OF r(1)])
        (use Cons.prems(2) r(3) in \<open>simp_all add: has_event_def record_appended_event_def\<close>)
    moreover have "replay_bodies (kept_bodies idx keep)
        \<lparr>ji_capacity_bytes = cap, ji_used_bytes = u + ?s, ji_records = om_put k r m, ji_frame_sizes = om_put k ?s z\<rparr> =
      \<lparr>ji_capacity_bytes = cap, ji_used_bytes = u', ji_records = m', ji_frame_sizes = z'\<rparr>"
      using Cons.prems st by (intro Cons.IH) (auto simp: om.get_put om.wf_put)
    ultimately show ?thesis
      by (simp only: kept_bodies_Cons(2) [OF Some] replay_bodies_simps sz)
  qed
qed simp

lemma rebuild_is_replay:
  assumes "records_ok idx" "distinct keep"
  shows "rebuild_after_compaction keep idx =
    replay_bodies (kept_bodies idx keep) (new_index (ji_capacity_bytes idx))"
proof -
  obtain m z u where f: "fold (keep_record idx) keep (om_empty, om_empty, 0) = (m, z, u)"
    by (cases "fold (keep_record idx) keep (om_empty, om_empty, 0)")
  have "replay_bodies (kept_bodies idx keep) (new_index (ji_capacity_bytes idx)) =
      \<lparr>ji_capacity_bytes = ji_capacity_bytes idx, ji_used_bytes = u, ji_records = m, ji_frame_sizes = z\<rparr>"
    unfolding new_index_def
    by (rule fold_keep_is_replay [OF assms _ om.wf_empty f]) (simp add: om.get_empty)
  then show ?thesis
    by (simp add: rebuild_after_compaction_def f)
qed

context spiffs begin

lemma write_kept_spec:
  assumes "write_kept ops idx ks f = (ok, f')" "records_ok idx"
  shows "sj_path f' = sj_path f \<and> (\<forall>q. q \<noteq> sj_path f \<longrightarrow> files (sj_disk f') q = files (sj_disk f) q) \<and>
    (ok \<longrightarrow> file_bytes (files (sj_disk f')) (sj_path f) =
       file_bytes (files (sj_disk f)) (sj_path f) @ log_bytes (kept_bodies idx ks))"
  using assms(1)
proof (induction ks arbitrary: f)
  case (Cons k ks)
  show ?case
  proof (cases "index_find idx k")
    case None
    then show ?thesis
      using Cons by (simp add: kept_bodies_Cons)
  next
    case (Some r)
    note small = records_ok_find(2) [OF assms(2) Some]
    obtain ok1 f1 where a: "append_journal_frame (sj_ops ops) f (encode_journal_event r) = (ok1, f1)"
      by fastforce
    note sp = append_sj_spec [OF a small]
    show ?thesis
    proof (cases ok1)
      case False
      then show ?thesis
        using Cons.prems Some a sp(2,3) by simp
    next
      case True
      then have "write_kept ops idx ks f1 = (ok, f')"
        using Cons.prems Some a by simp
      from Cons.IH [OF this] show ?thesis
        using sp True by (auto simp: kept_bodies_Cons(2) [OF Some])
    qed
  qed
qed simp

lemma swap_files_spec:
  assumes "swap_files ops d = (ok, d')" "files d journal_path = Some c"
  shows "ok \<Longrightarrow> \<exists>t. files d journal_tmp_path = Some t \<and> files d' journal_path = Some t"
    "\<not> ok \<Longrightarrow> boot_bytes (files d') = c"
proof -
  obtain moved d1 where m: "fs_rename ops d journal_path journal_old_path = (moved, d1)"
    by fastforce
  obtain renamed d2 where n: "fs_rename ops d1 journal_tmp_path journal_path = (renamed, d2)"
    by fastforce
  obtain undone d3 where b: "fs_rename ops d2 journal_old_path journal_path = (undone, d3)"
    by fastforce
  have u: "swap_files ops d =
     (if \<not> moved then (False, snd (fs_remove ops d1 journal_tmp_path))
      else if \<not> renamed then (False, if files d2 journal_old_path \<noteq> None then d3 else d2)
      else (True, snd (fs_remove ops d2 journal_old_path)))"
    by (simp add: swap_files_def exists_iff assms(2) m n b)
  note law = rename [OF m] rename [OF n] rename [OF b]
  have rm: "files (snd (fs_remove ops d1 journal_tmp_path)) journal_path = files d1 journal_path"
      "files (snd (fs_remove ops d2 journal_old_path)) journal_path = files d2 journal_path"
    by (simp_all add: remove_other)
  show "\<exists>t. files d journal_tmp_path = Some t \<and> files d' journal_path = Some t" if "ok"
  proof -
    have "moved" "renamed" "d' = snd (fs_remove ops d2 journal_old_path)"
      using that assms(1) u by (auto split: if_splits)
    then show ?thesis
      using law rm by auto
  qed
  show "boot_bytes (files d') = c" if "\<not> ok"
  proof (cases moved)
    case False
    then have "files d' journal_path = Some c"
      using assms u law(1) rm by (auto split: if_splits)
    then show ?thesis
      by (simp add: boot_bytes_def)
  next
    case True
    then have f1: "files d1 journal_path = None" "files d1 journal_old_path = Some c"
      using law(1) assms(2) by auto
    have "\<not> renamed"
      using that assms(1) u True by (auto split: if_splits)
    then have "files d2 = files d1" "d' = d3"
      using law(2) assms(1) u True f1 that by (auto split: if_splits)
    then show ?thesis
      using law(3) f1 by (cases undone) (auto simp: boot_bytes_def)
  qed
qed

end

lemma small_kept_bodies: "records_ok idx \<Longrightarrow> small_bodies (kept_bodies idx ks)"
  by (auto simp: small_bodies_def kept_bodies_def list_all_iff has_event_def index_find_def
      intro: records_ok_find(2) [unfolded index_find_def, simplified])

lemma length_kept_bodies: "\<forall>k\<in>set ks. has_event idx k \<Longrightarrow> length (kept_bodies idx ks) = length ks"
  by (simp add: kept_bodies_def)

context spiffs begin

lemma finish_compaction_spec:
  assumes "files (ej_disk ej) journal_path = Some c" "index_wf (ej_index ej)"
    and "file_bytes (files (ej_disk ej)) journal_tmp_path = log_bytes bodies" "small_bodies bodies"
  shows "\<exists>ok ej'. finish_compaction ops keep ej = Some (ok, ej') \<and>
    (\<not> ok \<longrightarrow> ej_index ej' = ej_index ej \<and> boot_bytes (files (ej_disk ej')) = c) \<and>
    (ok \<longrightarrow> ej_index ej' = rebuild_after_compaction keep (ej_index ej) \<and>
       files (ej_disk ej') journal_path = Some (log_bytes bodies)) \<and>
    ej_init_ok ej' = ej_init_ok ej \<and> ej_compaction_active ej' = ej_compaction_active ej"
proof -
  obtain n frames f where s: "scan_journal (sj_ops ops) (new_sj_file (ej_disk ej) journal_tmp_path) = Some (n, frames, f)"
    and tmp: "file_bytes (files (sj_disk f)) journal_tmp_path = log_bytes bodies"
    and oth: "\<And>q. q \<noteq> journal_tmp_path \<Longrightarrow> files (sj_disk f) q = files (ej_disk ej) q"
    using scan_sj_spec [of "ej_disk ej" journal_tmp_path] assms(3) by metis
  have dat: "files (sj_disk f) journal_path = Some c"
    using oth assms(1) by simp
  let ?bad = "0 < length (filter (\<lambda>fr. sf_outcome fr \<noteq> FRAME_OK) frames) \<or>
      length frames \<noteq> length keep \<or> n \<noteq> int (length keep)"
  obtain swapped d1 where w: "swap_files ops (sj_disk f) = (swapped, d1)"
    by fastforce
  note sw = swap_files_spec [OF w dat]
  have u: "finish_compaction ops keep ej =
     (if ?bad then Some (False, ej\<lparr>ej_disk := snd (fs_remove ops (sj_disk f) journal_tmp_path)\<rparr>)
      else if \<not> swapped then Some (False, ej\<lparr>ej_disk := d1\<rparr>)
      else Some (True, ej\<lparr>ej_disk := d1, ej_index := rebuild_after_compaction keep (ej_index ej)\<rparr>))"
    by (simp add: finish_compaction_def s w Let_def)
  show ?thesis
  proof (cases "?bad \<or> \<not> swapped")
    case True
    have "boot_bytes (files (snd (fs_remove ops (sj_disk f) journal_tmp_path))) = c"
      using dat by (simp add: boot_bytes_def remove_other)
    then show ?thesis
      using True sw(2) unfolding u by (cases ?bad) auto
  next
    case False
    then have "files d1 journal_path = Some (log_bytes bodies)"
      using sw(1) tmp by auto
    then show ?thesis
      using False unfolding u by auto
  qed
qed

lemma compact_spec:
  fixes policy :: compaction_policy
  assumes "journal_holds files bs ej" "records_ok (ej_index ej)"
    and "files (ej_disk ej) journal_path = Some c"
    and "files (snd (fs_remove ops (ej_disk ej) journal_tmp_path)) journal_tmp_path = None"
  defines "keep \<equiv> select_records_to_keep policy (ej_index ej)"
  shows "\<exists>ok ej'. compact ops policy ej = Some (ok, ej') \<and>
    (\<not> ok \<longrightarrow> ej_index ej' = ej_index ej \<and> boot_bytes (files (ej_disk ej')) = log_bytes bs) \<and>
    (ok \<longrightarrow> ej' = ej \<or> journal_holds files (kept_bodies (ej_index ej) keep) ej' \<and>
       ej_index ej' = rebuild_after_compaction keep (ej_index ej) \<and>
       files (ej_disk ej') journal_path \<noteq> None)"
proof -
  have idx: "index_wf (ej_index ej)" "length (ji_records (ej_index ej)) < 2 ^ 32"
    using assms(2) by (simp_all add: records_ok_def)
  have c: "c = log_bytes bs" and init: "ej_init_ok ej"
    using assms(1,3) by (simp_all add: journal_holds_def)
  have kd: "distinct keep"
    unfolding keep_def using idx by (rule keep_distinct)
  define d0 where "d0 = snd (fs_remove ops (ej_disk ej) journal_tmp_path)"
  have d0: "files d0 journal_path = Some c" "files d0 journal_tmp_path = None"
    using assms(3,4) by (simp_all add: d0_def remove_other)
  obtain ok1 f where w: "write_kept ops (ej_index ej) keep (new_sj_file d0 journal_tmp_path) = (ok1, f)"
    by fastforce
  note wk = write_kept_spec [OF w assms(2)]
  have dat: "files (sj_disk f) journal_path = Some c"
    using wk d0(1) by (simp add: new_sj_file_def)
  have u: "compact ops policy ej =
     (if length keep = unat (record_count (ej_index ej)) then Some (True, ej)
      else if \<not> ok1 then Some (False, ej\<lparr>ej_disk := snd (fs_remove ops (sj_disk f) journal_tmp_path)\<rparr>)
      else finish_compaction ops keep (ej\<lparr>ej_disk := sj_disk f\<rparr>))"
    unfolding compact_def Let_def keep_def [symmetric] d0_def [symmetric] w by (simp add: init)
  consider (skip) "length keep = unat (record_count (ej_index ej))"
    | (fail) "length keep \<noteq> unat (record_count (ej_index ej))" "\<not> ok1"
    | (go) "length keep \<noteq> unat (record_count (ej_index ej))" "ok1"
    by blast
  then show ?thesis
  proof cases
    case skip
    then show ?thesis
      by (auto simp: u)
  next
    case fail
    then show ?thesis
      using dat c by (auto simp: u boot_bytes_def remove_other)
  next
    case go
    let ?bodies = "kept_bodies (ej_index ej) keep"
    have tmp: "file_bytes (files (sj_disk f)) journal_tmp_path = log_bytes ?bodies"
      using wk go d0(2) by (simp add: new_sj_file_def)
    obtain ok ej' where f: "finish_compaction ops keep (ej\<lparr>ej_disk := sj_disk f\<rparr>) = Some (ok, ej')"
      "\<not> ok \<longrightarrow> ej_index ej' = ej_index ej \<and> boot_bytes (files (ej_disk ej')) = c"
      "ok \<longrightarrow> ej_index ej' = rebuild_after_compaction keep (ej_index ej) \<and>
         files (ej_disk ej') journal_path = Some (log_bytes ?bodies)"
      "ej_init_ok ej'"
      using finish_compaction_spec [of "ej\<lparr>ej_disk := sj_disk f\<rparr>" c ?bodies keep]
        dat idx(1) tmp small_kept_bodies [OF assms(2)] init by auto
    have "journal_holds files ?bodies ej'" if "ok"
      using f(3,4) that small_kept_bodies [OF assms(2), of keep] rebuild_is_replay [OF assms(2) kd]
        rebuild_facts(4) [OF idx(1), of keep]
      by (simp add: journal_holds_def)
    then show ?thesis
      using f(1-3) go c by (simp add: u)
  qed
qed

end

section \<open>Transitions\<close>

context spiffs begin

lemma append_transition_spec:
  assumes "journal_holds files bs ej" "wf_transition t" "length (encode_journal_transition t) < 2 ^ 31"
    and "append_transition ops t ej = (ok, ej')"
  defines "cap \<equiv> ji_capacity_bytes (ej_index ej)" and "b \<equiv> encode_journal_transition t"
  shows "(ok \<longrightarrow> journal_holds files (bs @ [b]) ej' \<and> has_event (ej_index ej) (jt_event_id t) \<and>
       ej_index ej' = record_appended_transition t (of_nat (length b + 9)) (ej_index ej)) \<and>
    (\<not> ok \<longrightarrow> ej_index ej' = ej_index ej) \<and>
    log_index cap (file_bytes (files (ej_disk ej')) journal_path) \<in>
       {ej_index ej, record_appended_transition t (of_nat (length b + 9)) (ej_index ej)} \<and>
    (\<forall>q. q \<noteq> journal_path \<longrightarrow> files (ej_disk ej') q = files (ej_disk ej) q)"
proof -
  have h: "ej_init_ok ej" "small_bodies bs" "file_bytes (files (ej_disk ej)) journal_path = log_bytes bs"
      "ej_index ej = replay_bodies bs (new_index cap)"
    using assms(1) by (simp_all add: journal_holds_def cap_def)
  have lb: "length b < 2 ^ 31"
    using assms(3) by (simp add: b_def)
  have new: "record_appended_transition t (of_nat (length b + 9)) (ej_index ej) =
      replay_bodies (bs @ [b]) (new_index cap)"
    using mirror_transition [OF assms(2)] h(4) by (simp add: b_def)
  show ?thesis
  proof (cases "has_event (ej_index ej) (jt_event_id t)")
    case False
    then show ?thesis
      using assms(4) h by (simp add: append_transition_def)
  next
    case True
    obtain ok' d where a: "append_frame_to ops journal_path b (ej_disk ej) = (ok', d)"
      by fastforce
    have r: "ok = ok'" "ej' = (if ok' then ej\<lparr>ej_disk := d,
        ej_index := record_appended_transition t (of_nat (length b + 9)) (ej_index ej)\<rparr> else ej\<lparr>ej_disk := d\<rparr>)"
      using assms(4) h(1) True a unfolding append_transition_def Let_def body_frame_size b_def
      by (simp_all split: if_splits)
    obtain k where k: "k \<le> length (frame_of b)"
        "file_bytes (files d) journal_path = log_bytes bs @ take k (frame_of b)"
        "ok' \<longrightarrow> k = length (frame_of b)" "\<And>q. q \<noteq> journal_path \<Longrightarrow> files d q = files (ej_disk ej) q"
      using append_frame_to_spec [OF a lb] h(3) by metis
    have dsk: "ej_disk ej' = d"
      by (simp add: r(2))
    have "log_index cap (file_bytes (files d) journal_path) \<in>
        {ej_index ej, record_appended_transition t (of_nat (length b + 9)) (ej_index ej)}"
      unfolding k(2) log_after_append [OF h(2) lb k(1)] new [symmetric] h(4) [symmetric]
      by (cases "k = length (frame_of b)") simp_all
    moreover have "journal_holds files (bs @ [b]) ej'" if "ok'"
      using that r(2) k(2,3) h(1,2) lb new by (simp add: journal_holds_def small_bodies_def)
    ultimately show ?thesis
      using r True k(4) dsk by simp
  qed
qed

lemma append_event_others:
  assumes "append_event ops r ej = (ok, ej')" "length (encode_journal_event r) < 2 ^ 31" "q \<noteq> journal_path"
  shows "files (ej_disk ej') q = files (ej_disk ej) q"
proof -
  obtain ok' d where a: "append_frame_to ops journal_path (encode_journal_event r) (ej_disk ej) = (ok', d)"
    by fastforce
  have "files d q = files (ej_disk ej) q"
    using append_frame_to_spec [OF a assms(2)] assms(3) by metis
  then show ?thesis
    using assms(1) a
    by (auto simp: append_event_def Let_def split: if_splits append_decision.splits)
qed

lemma append_event_admitted:
  assumes "append_event ops r ej = (True, ej')"
  shows "\<not> has_event (ej_index ej) (jr_event_id r)" "ji_used_bytes (ej_index ej') \<le> ji_capacity_bytes (ej_index ej')"
  using assms
  by (auto simp: append_event_def decide_append_def has_event_def record_appended_event_def Let_def
      split: if_splits append_decision.splits prod.splits)

end

section \<open>Properties of the durable journal\<close>

lemma boot_bytes_no_old: "fs journal_old_path = None \<Longrightarrow> boot_bytes fs = file_bytes fs journal_path"
  by (simp add: boot_bytes_def file_bytes_def split: option.split)

text \<open>C2. An event the journal has accepted survives: when \<open>append_event\<close> returns
  true, the id was new, the capacity is respected, and a boot from the disk it
  leaves recovers exactly the index the firmware holds, the new record
  included; when it returns false (refused, or the write was cut short at any
  point), the index in memory is unchanged and a boot recovers either that
  index or that index with the complete new record, never anything else.\<close>

theorem append_event_durable:
  assumes "spiffs ops files" "spiffs ops2 files" "healthy ops2 files"
    and "journal_holds files bs ej" "files (ej_disk ej) journal_old_path = None"
    and "wf_record r" "length (encode_journal_event r) < 2 ^ 31"
    and "append_event ops r ej = (ok, ej')"
  shows "\<exists>ej2. journal_init ops2 (ji_capacity_bytes (ej_index ej)) (new_journal (ej_disk ej')) = Some ej2 \<and>
    ej_init_ok ej2 \<and>
    (if ok then ej_index ej2 = ej_index ej' \<and> index_find (ej_index ej2) (jr_event_id r) = Some r \<and>
       \<not> has_event (ej_index ej) (jr_event_id r) \<and> ji_used_bytes (ej_index ej') \<le> ji_capacity_bytes (ej_index ej')
     else ej_index ej' = ej_index ej \<and>
       ej_index ej2 \<in> {ej_index ej, apply_scanned_frame (encode_journal_event r)
         (of_nat (length (encode_journal_event r) + 9)) (ej_index ej)})"
proof -
  note sp = spiffs.append_event_spec [OF assms(1,4,6,7,8)]
  let ?cap = "ji_capacity_bytes (ej_index ej)"
  obtain ej2 where b: "journal_init ops2 ?cap (new_journal (ej_disk ej')) = Some ej2" "ej_init_ok ej2"
      "ej_index ej2 = log_index ?cap (boot_bytes (files (ej_disk ej')))"
    using spiffs.journal_init_spec [OF assms(2,3), of ?cap "new_journal (ej_disk ej')"]
    by (auto simp: new_journal_def)
  have bb: "boot_bytes (files (ej_disk ej')) = file_bytes (files (ej_disk ej')) journal_path"
    using spiffs.append_event_others [OF assms(1,8,7), of journal_old_path] assms(5)
    by (simp add: boot_bytes_no_old)
  have idx: "ej_index ej = replay_bodies bs (new_index ?cap)"
    using assms(4) by (simp add: journal_holds_def)
  have rep: "replay_bodies (bs @ [encode_journal_event r]) (new_index ?cap) =
      apply_scanned_frame (encode_journal_event r) (of_nat (length (encode_journal_event r) + 9)) (ej_index ej)"
    using idx by simp
  show ?thesis
  proof (cases ok)
    case True
    have cap: "ji_capacity_bytes (ej_index ej') = ?cap"
      by (simp add: sp(3) [OF True] record_appended_event_def)
    have "ej_index ej2 = ej_index ej'"
      using journal_holds_log [OF sp(1) [OF True]] b(3) unfolding bb cap by (rule trans [rotated])
    moreover have "index_find (ej_index ej') (jr_event_id r) = Some r"
      using journal_holds_wf [OF assms(4)]
      by (simp add: sp(3) [OF True] record_appended_event_def index_find_def om.get_put index_wf_def)
    ultimately show ?thesis
      using b(1,2) spiffs.append_event_admitted [OF assms(1)] assms(8) True by auto
  next
    case False
    then show ?thesis
      using b sp(2) [OF False] sp(4) by (simp only: bb rep) auto
  qed
qed

definition sample_bodies :: "string list" where
  "sample_bodies = [encode_journal_event (sample_record\<lparr>jr_event_id := ''K1-6'', jr_sync_status := ACKED\<rparr>),
     encode_journal_event sample_record]"

definition sample_journal :: "ram_disk event_journal" where
  "sample_journal = \<lparr>
     ej_disk = \<lparr>rd_files = [journal_path \<mapsto> log_bytes sample_bodies], rd_power = 2\<rparr>,
     ej_index = replay_bodies sample_bodies (new_index 5000), ej_init_ok = True,
     ej_compaction_active = False, ej_compaction_keep = [], ej_compaction_write_index = 0,
     ej_compaction_last_progress_ms = 0\<rparr>"

definition next_record :: journal_record where
  "next_record = sample_record\<lparr>jr_event_id := ''K1-8'', jr_device_seq := 8\<rparr>"

lemma sample_lengths:
  "length (encode_journal_event sample_record) < 1000"
  "length (encode_journal_event (sample_record\<lparr>jr_event_id := ''K1-6'', jr_sync_status := ACKED\<rparr>)) < 1000"
  "length (encode_journal_event next_record) < 1000"
  by code_simp+

abbreviation sample_acked :: journal_record where
  "sample_acked \<equiv> sample_record\<lparr>jr_event_id := ''K1-6'', jr_sync_status := ACKED\<rparr>"

lemma wf_sample_acked: "wf_record sample_acked" "wf_record next_record"
  by (simp_all add: next_record_def sample_record_def wf_record_def plain_def is_ctrl_def)

lemma sample_ids: "jr_event_id sample_record = ''K1-7''" "jr_event_id next_record = ''K1-8''"
  by (simp_all add: next_record_def sample_record_def)

lemma sample_replay:
  "replay_bodies sample_bodies (new_index cap) =
     record_appended_event sample_record (of_nat (length (encode_journal_event sample_record) + 9))
       (record_appended_event sample_acked (of_nat (length (encode_journal_event sample_acked) + 9)) (new_index cap))"
proof -
  let ?i = "record_appended_event sample_acked (of_nat (length (encode_journal_event sample_acked) + 9)) (new_index cap)"
  have "apply_scanned_frame (encode_journal_event sample_acked)
      (of_nat (length (encode_journal_event sample_acked) + 9)) (new_index cap) = ?i"
    by (rule mirror_event [OF wf_sample_acked(1)]) (simp add: has_event_def new_index_def om.get_empty)
  moreover have "apply_scanned_frame (encode_journal_event sample_record)
      (of_nat (length (encode_journal_event sample_record) + 9)) ?i =
      record_appended_event sample_record (of_nat (length (encode_journal_event sample_record) + 9)) ?i"
    by (rule mirror_event [OF wf_samples(1)])
      (simp add: has_event_def record_appended_event_def new_index_def om.get_put om.get_empty om.wf_empty sample_ids)
  ultimately show ?thesis
    by (simp only: sample_bodies_def replay_bodies_simps)
qed

lemma sample_records:
  "ji_records (replay_bodies sample_bodies (new_index cap)) = [(''K1-6'', sample_acked), (''K1-7'', sample_record)]"
  unfolding sample_replay by (simp add: record_appended_event_def new_index_def om_empty_def sample_ids)

lemma sample_small: "small_bodies sample_bodies"
  using sample_lengths by (simp add: small_bodies_def sample_bodies_def)

lemma sample_journal_holds: "journal_holds rd_files sample_bodies sample_journal"
  by (simp add: journal_holds_def sample_journal_def sample_small)

lemma sample_records_ok: "records_ok (ej_index sample_journal)"
  using journal_holds_wf [OF sample_journal_holds] wf_sample_acked wf_samples(1) sample_lengths
  by (simp add: records_ok_def sample_journal_def sample_records)

theorem append_event_durable_witness:
  "\<exists>ok ej' ej2. append_event (ram_ops False) next_record sample_journal = (ok, ej') \<and>
     journal_init (ram_ops True) (ji_capacity_bytes (ej_index sample_journal)) (new_journal (ej_disk ej')) = Some ej2 \<and>
     ej_init_ok ej2"
proof -
  obtain ok ej' where a: "append_event (ram_ops False) next_record sample_journal = (ok, ej')"
    by fastforce
  have old: "rd_files (ej_disk sample_journal) journal_old_path = None"
    by (simp add: sample_journal_def)
  show ?thesis
    using append_event_durable [OF spiffs_ram spiffs_ram healthy_ram sample_journal_holds old
        wf_sample_acked(2) _ a] sample_lengths(3) a by auto
qed

text \<open>C3. Compaction is crash safe: started from a consistent journal with no
  leftover temporary file, on any disk, with any of its file operations failing
  at any point, it returns, and a boot from the disk it leaves recovers either
  the index from before or exactly the compacted index; in both every pending
  and every in-flight record is there unchanged.  When it returns true the
  index in memory is the one a boot recovers.\<close>

theorem compaction_crash_safe:
  assumes "spiffs ops files" "spiffs ops2 files" "healthy ops2 files"
    and "journal_holds files bs ej" "records_ok (ej_index ej)"
    and "files (ej_disk ej) journal_path \<noteq> None"
    and "files (snd (fs_remove ops (ej_disk ej) journal_tmp_path)) journal_tmp_path = None"
  shows "\<exists>ok ej' ej2. compact ops policy ej = Some (ok, ej') \<and>
    journal_init ops2 (ji_capacity_bytes (ej_index ej)) (new_journal (ej_disk ej')) = Some ej2 \<and>
    ej_index ej2 \<in> {ej_index ej,
      rebuild_after_compaction (select_records_to_keep policy (ej_index ej)) (ej_index ej)} \<and>
    (if ok then ej_index ej2 = ej_index ej' else ej_index ej2 = ej_index ej \<and> ej_index ej' = ej_index ej) \<and>
    (\<forall>k\<in>status_ids (ej_index ej) PENDING \<union> status_ids (ej_index ej) IN_FLIGHT.
       index_find (ej_index ej2) k = index_find (ej_index ej) k)"
proof -
  let ?idx = "ej_index ej" and ?cap = "ji_capacity_bytes (ej_index ej)"
  let ?keep = "select_records_to_keep policy ?idx"
  obtain c where c: "files (ej_disk ej) journal_path = Some c"
    using assms(6) by blast
  obtain ok ej' where r: "compact ops policy ej = Some (ok, ej')"
      "\<not> ok \<longrightarrow> ej_index ej' = ?idx \<and> boot_bytes (files (ej_disk ej')) = log_bytes bs"
      "ok \<longrightarrow> ej' = ej \<or> journal_holds files (kept_bodies ?idx ?keep) ej' \<and>
         ej_index ej' = rebuild_after_compaction ?keep ?idx \<and> files (ej_disk ej') journal_path \<noteq> None"
    using spiffs.compact_spec [OF assms(1,4,5) c assms(7)] by blast
  obtain ej2 where b: "journal_init ops2 ?cap (new_journal (ej_disk ej')) = Some ej2"
      "ej_index ej2 = log_index ?cap (boot_bytes (files (ej_disk ej')))"
    using spiffs.journal_init_spec [OF assms(2,3), of ?cap "new_journal (ej_disk ej')"]
    by (auto simp: new_journal_def)
  have wf: "index_wf ?idx"
    using assms(4) by (rule journal_holds_wf)
  have same: "log_index ?cap (log_bytes bs) = ?idx"
    using journal_holds_log [OF assms(4)] assms(4) by (simp add: journal_holds_def)
  have new: "ej_index ej2 = ej_index ej'" if "ok" "journal_holds files (kept_bodies ?idx ?keep) ej'"
      "ej_index ej' = rebuild_after_compaction ?keep ?idx" "files (ej_disk ej') journal_path \<noteq> None"
    using journal_holds_log [OF that(2)] that(3,4) b(2) rebuild_facts(4) [OF wf, of ?keep]
    by (auto simp: boot_bytes_def file_bytes_def)
  have old: "ej_index ej2 = ?idx" if "boot_bytes (files (ej_disk ej')) = log_bytes bs"
    using that b(2) same by simp
  have skip: "boot_bytes (files (ej_disk ej)) = log_bytes bs"
    using c assms(4) by (simp add: boot_bytes_def journal_holds_def)
  have idx2: "ej_index ej2 \<in> {?idx, rebuild_after_compaction ?keep ?idx} \<and>
      (if ok then ej_index ej2 = ej_index ej' else ej_index ej2 = ?idx \<and> ej_index ej' = ?idx)"
    using r(2,3) new old skip by (cases ok) auto
  have keep: "status_ids ?idx PENDING \<union> status_ids ?idx IN_FLIGHT \<subseteq> set ?keep"
    unfolding select_records_to_keep_def set_append nonterminal_ids [OF wf] by blast
  have "index_find (ej_index ej2) k = index_find ?idx k"
    if "k \<in> status_ids ?idx PENDING \<union> status_ids ?idx IN_FLIGHT" for k
    using idx2 rebuild_facts(2) [OF wf, of ?keep k] keep that by (auto simp: index_find_def)
  then show ?thesis
    using r(1) b(1) idx2 by blast
qed

theorem compaction_crash_safe_witness:
  "\<exists>ok ej' ej2. compact (ram_ops False) (default_policy\<lparr>cp_acked := 0\<rparr>) sample_journal = Some (ok, ej') \<and>
     journal_init (ram_ops True) (ji_capacity_bytes (ej_index sample_journal)) (new_journal (ej_disk ej')) = Some ej2 \<and>
     index_find (ej_index ej2) ''K1-7'' = Some sample_record"
proof -
  have t: "rd_files (snd (fs_remove (ram_ops False) (ej_disk sample_journal) journal_tmp_path)) journal_tmp_path = None"
    by (simp add: ram_ops_def sample_journal_def)
  have d: "rd_files (ej_disk sample_journal) journal_path \<noteq> None"
    by (simp add: sample_journal_def)
  have g: "om_get (ji_records (ej_index sample_journal)) ''K1-7'' = Some sample_record"
    by (simp add: sample_journal_def sample_records om_get_def)
  then have "''K1-7'' \<in> status_ids (ej_index sample_journal) PENDING"
    by (simp add: status_ids_def) (simp add: sample_record_def)
  then show ?thesis
    using compaction_crash_safe [OF spiffs_ram spiffs_ram healthy_ram sample_journal_holds sample_records_ok d t,
        of "default_policy\<lparr>cp_acked := 0\<rparr>"] g by (fastforce simp: index_find_def)
qed

section \<open>Compaction in ticks\<close>

context spiffs begin

lemma tick_loop_spec:
  assumes "tick_loop ops idx ks i wi f = (failed, wi', f')" "records_ok idx" "\<forall>k\<in>set ks. has_event idx k" "wi = i"
  shows "sj_path f' = sj_path f \<and> (\<forall>q. q \<noteq> sj_path f \<longrightarrow> files (sj_disk f') q = files (sj_disk f) q) \<and>
    (\<not> failed \<longrightarrow> wi' = i + length ks \<and>
       file_bytes (files (sj_disk f')) (sj_path f) =
       file_bytes (files (sj_disk f)) (sj_path f) @ log_bytes (kept_bodies idx ks))"
  using assms(1,3,4)
proof (induction ks arbitrary: f i wi)
  case (Cons k ks)
  obtain r where r: "index_find idx k = Some r"
    using Cons.prems(2) by (auto simp: has_event_def index_find_def)
  note small = records_ok_find(2) [OF assms(2) r]
  obtain ok1 f1 where a: "append_journal_frame (sj_ops ops) f (encode_journal_event r) = (ok1, f1)"
    by fastforce
  note sp = append_sj_spec [OF a small]
  show ?case
  proof (cases ok1)
    case False
    then show ?thesis
      using Cons.prems r a sp(2,3) by simp
  next
    case True
    then have "tick_loop ops idx ks (i + 1) (i + 1) f1 = (failed, wi', f')"
      using Cons.prems r a by simp
    from Cons.IH [OF this] show ?thesis
      using sp True Cons.prems(2) by (auto simp: kept_bodies_Cons(2) [OF r])
  qed
qed simp

text \<open>A tick that ends the run with a new index has swapped in a file and an
  index that hold the keep list and nothing else.\<close>

lemma compact_tick_finish:
  assumes "compact_tick ops now ej = Some ej'" "ej_compaction_active ej" "ej_index ej' \<noteq> ej_index ej"
    and "records_ok (ej_index ej)" "\<forall>k\<in>set (ej_compaction_keep ej). has_event (ej_index ej) k"
    and "files (ej_disk ej) journal_path = Some c"
    and "file_bytes (files (ej_disk ej)) journal_tmp_path =
      log_bytes (kept_bodies (ej_index ej) (take (ej_compaction_write_index ej) (ej_compaction_keep ej)))"
  shows "\<not> ej_compaction_active ej' \<and>
    ej_index ej' = rebuild_after_compaction (ej_compaction_keep ej) (ej_index ej) \<and>
    files (ej_disk ej') journal_path = Some (log_bytes (kept_bodies (ej_index ej) (ej_compaction_keep ej)))"
proof -
  let ?wi = "ej_compaction_write_index ej" and ?keep = "ej_compaction_keep ej" and ?idx = "ej_index ej"
  let ?chunk = "take records_per_tick (drop ?wi ?keep)"
  obtain failed wi' f where t: "tick_loop ops ?idx ?chunk ?wi ?wi (new_sj_file (ej_disk ej) journal_tmp_path) = (failed, wi', f)"
    by (metis prod_cases3)
  have ch: "\<forall>k\<in>set ?chunk. has_event ?idx k"
    using assms(5) by (meson in_set_dropD in_set_takeD)
  note tl = tick_loop_spec [OF t assms(4) ch refl]
  define ej1 where "ej1 = ej\<lparr>ej_disk := sj_disk f, ej_compaction_write_index := wi',
      ej_compaction_last_progress_ms := now\<rparr>"
  have u: "compact_tick ops now ej =
     (if failed then Some (ej1\<lparr>ej_disk := snd (fs_remove ops (ej_disk ej1) journal_tmp_path),
          ej_compaction_active := False, ej_compaction_keep := []\<rparr>)
      else if wi' < length ?keep then Some ej1
      else (case finish_compaction ops ?keep ej1 of None \<Rightarrow> None
         | Some (ok, ej2) \<Rightarrow> Some (ej2\<lparr>ej_compaction_active := False, ej_compaction_keep := [],
              ej_compaction_write_index := 0\<rparr>)))"
    using assms(2) by (simp add: compact_tick_def t Let_def ej1_def)
  have nf: "\<not> failed" "\<not> wi' < length ?keep"
    using assms(1,3) unfolding u by (auto simp: ej1_def split: if_splits)
  have wi': "wi' = ?wi + length ?chunk"
    using tl nf(1) by blast
  then have all: "drop (length ?chunk) (drop ?wi ?keep) = []"
    using nf(2) by simp
  then have whole: "take ?wi ?keep @ ?chunk = ?keep"
    by (metis append_take_drop_id append_Nil2 length_take take_all min.absorb_iff1 drop_eq_Nil nat_le_linear take_take)
  have tmp: "file_bytes (files (ej_disk ej1)) journal_tmp_path = log_bytes (kept_bodies ?idx ?keep)"
  proof -
    have "file_bytes (files (sj_disk f)) journal_tmp_path =
        log_bytes (kept_bodies ?idx (take ?wi ?keep)) @ log_bytes (kept_bodies ?idx ?chunk)"
      using tl nf(1) assms(7) by (simp add: new_sj_file_def)
    also have "\<dots> = log_bytes (kept_bodies ?idx (take ?wi ?keep @ ?chunk))"
      by (simp only: kept_bodies_simps log_bytes_simps)
    finally show ?thesis
      by (simp only: whole ej1_def) (simp add: ej1_def)
  qed
  have dat: "files (ej_disk ej1) journal_path = Some c"
    using tl assms(6) by (simp add: ej1_def new_sj_file_def)
  have i1: "ej_index ej1 = ?idx"
    by (simp add: ej1_def)
  have wf: "index_wf (ej_index ej1)"
    using assms(4) by (simp add: i1 records_ok_def)
  obtain ok ej2 where f: "finish_compaction ops ?keep ej1 = Some (ok, ej2)"
      "\<not> ok \<longrightarrow> ej_index ej2 = ej_index ej1"
      "ok \<longrightarrow> ej_index ej2 = rebuild_after_compaction ?keep (ej_index ej1) \<and>
         files (ej_disk ej2) journal_path = Some (log_bytes (kept_bodies ?idx ?keep))"
    using finish_compaction_spec [OF dat wf tmp small_kept_bodies [OF assms(4)], of ?keep] by blast
  have e: "ej' = ej2\<lparr>ej_compaction_active := False, ej_compaction_keep := [], ej_compaction_write_index := 0\<rparr>"
    using assms(1) nf unfolding u by (simp add: f(1))
  have "ok"
    using assms(3) e f(2) i1 by auto
  then show ?thesis
    using e f(3) i1 by simp
qed

end


lemma ram_append_ok:
  assumes "length b < 2 ^ 31"
  shows "fst (append_journal_frame (sj_ops (ram_ops True)) f b)"
  using assms
  by (cases "rd_files (sj_disk f) (sj_path f)")
    (simp_all add: append_journal_frame_def sj_ops_def sj_open_for_append_def sj_write_def sj_flush_def
      sj_close_def ram_ops_def rd_open_def rd_modify_def Let_def sint_of_nat_u32)

lemma ram_append_to_ok: "length b < 2 ^ 31 \<Longrightarrow> fst (append_frame_to (ram_ops True) p b d)"
  using ram_append_ok [of b "new_sj_file d p"] by (simp add: append_frame_to_def split_def)

definition tick_policy :: compaction_policy where
  "tick_policy = default_policy\<lparr>cp_acked := 0\<rparr>"

lemma sample_keep: "select_records_to_keep tick_policy (ej_index sample_journal) = [''K1-7'']"
  by (simp add: select_records_to_keep_def collect_and_trim_def sample_journal_def sample_records
      tick_policy_def default_policy_def is_terminal_def) (simp add: sample_record_def)

lemma ram_swap_ok:
  assumes "rd_files d journal_path \<noteq> None" "rd_files d journal_tmp_path \<noteq> None"
  shows "fst (swap_files (ram_ops True) d)"
  using assms by (auto simp: swap_files_def ram_ops_def rd_modify_def Let_def)

lemma filter_bad_ok_frames [simp]: "filter (\<lambda>fr. sf_outcome fr \<noteq> FRAME_OK) (ok_frames off bs) = []"
  by (induction bs arbitrary: off) simp_all

lemma length_ok_frames [simp]: "length (ok_frames off bs) = length bs"
  by (induction bs arbitrary: off) simp_all

lemma ram_finish_ok:
  assumes "rd_files (ej_disk ej) journal_path \<noteq> None"
    and "rd_files (ej_disk ej) journal_tmp_path = Some (log_bytes bodies)" "small_bodies bodies"
    and "length bodies = length keep" "bodies \<noteq> []"
  shows "\<exists>ej'. finish_compaction (ram_ops True) keep ej = Some (True, ej') \<and>
    ej_index ej' = rebuild_after_compaction keep (ej_index ej)"
proof -
  let ?f = "new_sj_file (ej_disk ej) journal_tmp_path"
  have o: "fst (jf_open_for_read (sj_ops (ram_ops True)) ?f)"
    using assms(2) by (simp add: sj_ops_def sj_open_for_read_def new_sj_file_def ram_ops_def rd_open_def)
  obtain n frames f where s: "scan_journal (sj_ops (ram_ops True)) ?f = Some (n, frames, f)"
    and cnt: "(n = int (ok_count frames) \<and> frames = scan_bytes 0 (file_bytes (rd_files (ej_disk ej)) journal_tmp_path)) \<or>
       (n = 0 \<and> frames = [])"
    and fr0: "fst (jf_open_for_read (sj_ops (ram_ops True)) ?f) \<longrightarrow>
       frames = scan_bytes 0 (file_bytes (rd_files (ej_disk ej)) journal_tmp_path)"
    and tmp: "file_bytes (rd_files (sj_disk f)) journal_tmp_path = file_bytes (rd_files (ej_disk ej)) journal_tmp_path"
    and oth: "\<And>q. q \<noteq> journal_tmp_path \<Longrightarrow> rd_files (sj_disk f) q = rd_files (ej_disk ej) q"
    by (rule spiffs.scan_sj_spec [OF spiffs_ram [of True], of "ej_disk ej" journal_tmp_path]) (blast intro: that)
  have fr: "frames = scan_bytes 0 (log_bytes bodies)"
    using fr0 o assms(2) by simp
  have frames: "frames = ok_frames 0 bodies"
    using scan_log [OF small_bodies_less [OF assms(3)], of 0 "[]"] fr by simp
  have n: "n = int (length bodies)"
    using cnt frames by (cases bodies) auto
  have tmp_there: "rd_files (sj_disk f) journal_tmp_path \<noteq> None"
    using tmp assms(2,5) by (cases bodies) (auto simp: file_bytes_def split: option.splits)
  have "fst (swap_files (ram_ops True) (sj_disk f))"
    using ram_swap_ok [of "sj_disk f"] oth [of journal_path] assms(1) tmp_there by simp
  then obtain d1 where "swap_files (ram_ops True) (sj_disk f) = (True, d1)"
    by (cases "swap_files (ram_ops True) (sj_disk f)") auto
  then show ?thesis
    using assms(4) by (simp add: finish_compaction_def s frames n Let_def)
qed

lemma sample_fields [simp]:
  "ej_init_ok sample_journal" "\<not> ej_compaction_active sample_journal"
  "rd_files (ej_disk sample_journal) = [journal_path \<mapsto> log_bytes sample_bodies]"
  by (simp_all add: sample_journal_def)

lemma sample_exact_lengths:
  "length (encode_journal_event sample_record) = 304"
  "length (encode_journal_event sample_acked) = 302"
  "length (encode_journal_event next_record) = 304"
  by code_simp+

definition tick_index :: journal_index where
  "tick_index = record_appended_event next_record 313 (ej_index sample_journal)"

lemma tick_index_records:
  "ji_records tick_index = [(''K1-6'', sample_acked), (''K1-7'', sample_record), (''K1-8'', next_record)]"
  by (simp add: tick_index_def record_appended_event_def sample_journal_def sample_records sample_ids)

lemma tick_index_ok: "records_ok tick_index"
proof -
  have "index_wf (ej_index sample_journal)"
    using sample_records_ok by (simp add: records_ok_def)
  then have "index_wf tick_index"
    unfolding tick_index_def by (rule index_wf_record_event)
  then show ?thesis
    using wf_sample_acked wf_samples(1) by (simp add: records_ok_def tick_index_records sample_exact_lengths)
qed

lemma tick_decide: "decide_append (ej_index sample_journal) ''K1-8'' 313 = APPEND_OK"
proof -
  have "ji_used_bytes (ej_index sample_journal) = 624" "ji_capacity_bytes (ej_index sample_journal) = 5000"
    unfolding sample_journal_def
    by (simp_all only: event_journal.simps sample_replay sample_exact_lengths)
      (simp_all add: record_appended_event_def new_index_def)
  then show ?thesis
    by (simp add: decide_append_def sample_journal_def sample_records om_get_def)
qed


end
