(* ===== verification/Sequence_Reservation.thy ===== *)
theory Sequence_Reservation
  imports Storage_Api
begin

text \<open>
  \<^verbatim>\<open>protocol/sequence_reservation.h\<close> and \<^verbatim>\<open>protocol/ids.cpp\<close>: the persistent
  counter that hands out device sequence numbers from blocks reserved ahead,
  and the random hexadecimal ids.  The counter is written against injected
  \<open>load\<close> and \<open>persist\<close> functions; the locale \<open>seq_store\<close> is what they promise,
  and NVS is interpreted in it.  A history of reboots and calls is a list of
  events.
\<close>

section \<open>The reservation\<close>

record reservation =
  sr_block_size :: u64
  sr_current :: u64
  sr_reserved_ceiling :: u64

definition reserve_next_block :: "('s \<Rightarrow> u64 \<Rightarrow> 's) \<Rightarrow> reservation \<Rightarrow> 's \<Rightarrow> reservation \<times> 's" where
  "reserve_next_block persist r s =
     (let ceiling = sr_current r + sr_block_size r in
      (r\<lparr>sr_reserved_ceiling := ceiling\<rparr>, persist s ceiling))"

definition make_reservation ::
  "('s \<Rightarrow> u64) \<Rightarrow> ('s \<Rightarrow> u64 \<Rightarrow> 's) \<Rightarrow> u64 \<Rightarrow> 's \<Rightarrow> reservation \<times> 's" where
  "make_reservation load persist block_size s =
     (let high_water_mark = load s in
      reserve_next_block persist \<lparr>sr_block_size = block_size, sr_current = high_water_mark,
        sr_reserved_ceiling = high_water_mark\<rparr> s)"

definition reservation_next :: "('s \<Rightarrow> u64 \<Rightarrow> 's) \<Rightarrow> reservation \<Rightarrow> 's \<Rightarrow> u64 \<times> reservation \<times> 's" where
  "reservation_next persist r s =
     (let (r1, s1) = (if sr_current r \<ge> sr_reserved_ceiling r then reserve_next_block persist r s else (r, s));
          r2 = r1\<lparr>sr_current := sr_current r1 + 1\<rparr> in
      (sr_current r2, r2, s1))"

section \<open>The device sequence over NVS\<close>

definition nvs_load_hwm :: "'n nvs_ops \<Rightarrow> 'n \<Rightarrow> u64" where
  "nvs_load_hwm nv n = nv_get_u64 nv n ''kiosk_seq'' ''hwm'' 0"

definition nvs_persist_hwm :: "'n nvs_ops \<Rightarrow> 'n \<Rightarrow> u64 \<Rightarrow> 'n" where
  "nvs_persist_hwm nv n v = snd (nv_put_u64 nv n ''kiosk_seq'' ''hwm'' v)"

record 'n device_sequence =
  dq_reservation :: "reservation option"
  dq_nvs :: 'n

definition device_seq_reserve_block :: u64 where
  "device_seq_reserve_block = 1000"

definition device_sequence_init :: "'n nvs_ops \<Rightarrow> 'n device_sequence \<Rightarrow> 'n device_sequence" where
  "device_sequence_init nv q =
     (case dq_reservation q of
        Some r \<Rightarrow> q
      | None \<Rightarrow>
          (let (r, n) = make_reservation (nvs_load_hwm nv) (nvs_persist_hwm nv) device_seq_reserve_block (dq_nvs q)
           in q\<lparr>dq_reservation := Some r, dq_nvs := n\<rparr>))"

definition device_sequence_next :: "'n nvs_ops \<Rightarrow> 'n device_sequence \<Rightarrow> u64 \<times> 'n device_sequence" where
  "device_sequence_next nv q =
     (case dq_reservation q of
        None \<Rightarrow> (0, q)
      | Some r \<Rightarrow>
          (let (v, r', n) = reservation_next (nvs_persist_hwm nv) r (dq_nvs q) in
           (v, q\<lparr>dq_reservation := Some r', dq_nvs := n\<rparr>)))"

definition device_sequence_current :: "'n device_sequence \<Rightarrow> u64" where
  "device_sequence_current q = (case dq_reservation q of None \<Rightarrow> 0 | Some r \<Rightarrow> sr_current r)"

section \<open>Histories\<close>

text \<open>A reboot forgets the reservation and keeps what was persisted; every boot
  constructs a new one before the first call of \<open>next\<close>.\<close>

datatype seq_event = Reboot | NextSeq

fun run_sequence :: "'n nvs_ops \<Rightarrow> seq_event list \<Rightarrow> 'n device_sequence \<Rightarrow> u64 list" where
  "run_sequence nv [] q = []"
| "run_sequence nv (Reboot # es) q =
     run_sequence nv es (device_sequence_init nv (q\<lparr>dq_reservation := None\<rparr>))"
| "run_sequence nv (NextSeq # es) q =
     (let (v, q') = device_sequence_next nv q in v # run_sequence nv es q')"

section \<open>The contract of the store\<close>

definition reserved :: "('s \<Rightarrow> u64) \<Rightarrow> reservation \<Rightarrow> 's \<Rightarrow> bool" where
  "reserved load r s = (sr_current r \<le> sr_reserved_ceiling r \<and> load s = sr_reserved_ceiling r)"

lemma unat_add_small: "unat a + unat b < 2 ^ 64 \<Longrightarrow> unat (a + b :: u64) = unat a + unat b"
  by (subst unat_add_lem [THEN iffD1]) simp_all

locale seq_store =
  fixes load :: "'s \<Rightarrow> u64" and persist :: "'s \<Rightarrow> u64 \<Rightarrow> 's"
  assumes load_persist: "load (persist s v) = v"
begin

lemma make_reserved:
  assumes "make_reservation load persist b s = (r, s')" "unat (load s) + unat b < 2 ^ 64"
  shows "reserved load r s'" "sr_current r = load s" "unat (load s') = unat (load s) + unat b"
    "sr_block_size r = b"
  using assms unat_add_small [OF assms(2)]
  by (auto simp: make_reservation_def reserve_next_block_def Let_def load_persist reserved_def word_le_nat_alt)

lemma next_reserved:
  assumes "reservation_next persist r s = (v, r', s')" "reserved load r s" "0 < sr_block_size r"
    "unat (load s) + unat (sr_block_size r) < 2 ^ 64"
  shows "reserved load r' s'" "sr_current r < v" "sr_current r' = v"
    "unat (load s') \<le> unat (load s) + unat (sr_block_size r)" "sr_block_size r' = sr_block_size r"
proof -
  let ?b = "sr_block_size r" and ?c = "sr_current r" and ?h = "sr_reserved_ceiling r"
  have h: "load s = ?h" "?c \<le> ?h"
    using assms(2) by (simp_all add: reserved_def)
  have b: "0 < unat ?b"
    using assms(3) by (simp add: word_less_nat_alt)
  have c1: "unat (?c + 1) = unat ?c + 1"
    using h b assms(4) unat_add_small [of ?c 1] by (simp add: word_le_nat_alt)
  have "reserved load r' s' \<and> ?c < v \<and> sr_current r' = v \<and>
      unat (load s') \<le> unat (load s) + unat ?b \<and> sr_block_size r' = ?b"
  proof (cases "?h \<le> ?c")
    case True
    then have e: "?h = ?c" using h by simp
    have cb: "unat (?c + ?b) = unat ?c + unat ?b"
      using assms(4) by (intro unat_add_small) (simp add: h e)
    show ?thesis
      using assms(1) True c1 cb b h e
      by (auto simp: reservation_next_def reserve_next_block_def Let_def load_persist reserved_def
          word_le_nat_alt word_less_nat_alt)
  next
    case False
    then show ?thesis
      using assms(1) c1 h
      by (auto simp: reservation_next_def Let_def reserved_def word_le_nat_alt word_less_nat_alt)
  qed
  then show "reserved load r' s'" "?c < v" "sr_current r' = v"
      "unat (load s') \<le> unat (load s) + unat ?b" "sr_block_size r' = ?b"
    by blast+
qed

end

text \<open>An NVS whose writes succeed is such a store.\<close>

locale reliable_nvs = nvs +
  assumes put_u64_ok: "0 < fst (nv_put_u64 ops s ns k l)"

sublocale reliable_nvs < store: seq_store "nvs_load_hwm ops" "nvs_persist_hwm ops"
proof
  fix s v
  have "vals (nvs_persist_hwm ops s v) = (vals s)((''kiosk_seq'', ''hwm'') \<mapsto> NvU64 v)"
    using put_u64 [of s "''kiosk_seq''" "''hwm''" v] put_u64_ok [of s "''kiosk_seq''" "''hwm''" v]
    by (cases "nv_put_u64 ops s ''kiosk_seq'' ''hwm'' v") (simp add: nvs_persist_hwm_def)
  then show "nvs_load_hwm ops (nvs_persist_hwm ops s v) = v"
    by (simp add: nvs_load_hwm_def get_u64)
qed

lemma reliable_ram: "reliable_nvs (ram_nvs_ops True) rn_vals"
  by (intro reliable_nvs.intro nvs_ram reliable_nvs_axioms.intro) (simp add: ram_nvs_ops_def rn_put_def)

interpretation reliable_ram: reliable_nvs "ram_nvs_ops True" rn_vals
  by (rule reliable_ram)

section \<open>Numbers never repeat\<close>

context reliable_nvs begin

lemma run_sequence_increases:
  assumes "dq_reservation q = Some r" "reserved (nvs_load_hwm ops) r (dq_nvs q)"
    "sr_block_size r = device_seq_reserve_block"
    "unat (nvs_load_hwm ops (dq_nvs q)) + 1000 * length es < 2 ^ 64"
  shows "sorted_wrt (<) (run_sequence ops es q) \<and> (\<forall>v\<in>set (run_sequence ops es q). sr_current r < v)"
  using assms
proof (induction es arbitrary: q r)
  case (Cons e es)
  let ?L = "nvs_load_hwm ops"
  have blk: "unat device_seq_reserve_block = 1000"
    by (simp add: device_seq_reserve_block_def)
  show ?case
  proof (cases e)
    case Reboot
    obtain r' n' where m: "make_reservation ?L (nvs_persist_hwm ops) device_seq_reserve_block (dq_nvs q) = (r', n')"
      by fastforce
    have small: "unat (?L (dq_nvs q)) + unat device_seq_reserve_block < 2 ^ 64"
      using Cons.prems(4) by (simp add: blk)
    note mk = store.make_reserved [OF m small]
    have "sr_current r \<le> sr_current r'"
      using Cons.prems(2) mk(2) by (simp add: reserved_def)
    moreover have "sorted_wrt (<) (run_sequence ops es (q\<lparr>dq_reservation := Some r', dq_nvs := n'\<rparr>)) \<and>
        (\<forall>v\<in>set (run_sequence ops es (q\<lparr>dq_reservation := Some r', dq_nvs := n'\<rparr>)). sr_current r' < v)"
      by (rule Cons.IH) (use mk Cons.prems(4) in \<open>simp_all add: blk\<close>)
    ultimately show ?thesis
      using m Reboot by (fastforce simp: device_sequence_init_def)
  next
    case NextSeq
    obtain v r' n' where m: "reservation_next (nvs_persist_hwm ops) r (dq_nvs q) = (v, r', n')"
      by (metis prod_cases3)
    have small: "unat (?L (dq_nvs q)) + unat (sr_block_size r) < 2 ^ 64"
      using Cons.prems(3,4) by (simp add: blk)
    have pos: "0 < sr_block_size r"
      using Cons.prems(3) by (simp add: device_seq_reserve_block_def)
    note nx = store.next_reserved [OF m Cons.prems(2) pos small]
    have "sorted_wrt (<) (run_sequence ops es (q\<lparr>dq_reservation := Some r', dq_nvs := n'\<rparr>)) \<and>
        (\<forall>w\<in>set (run_sequence ops es (q\<lparr>dq_reservation := Some r', dq_nvs := n'\<rparr>)). sr_current r' < w)"
      by (rule Cons.IH) (use nx Cons.prems(3,4) in \<open>simp_all add: blk\<close>)
    then show ?thesis
      using nx(2,3) m NextSeq Cons.prems(1) by (fastforce simp: device_sequence_next_def)
  qed
qed simp

lemma run_from_boot:
  assumes "unat (nvs_load_hwm ops (dq_nvs q)) + 1000 * (length es + 1) < 2 ^ 64"
  shows "sorted_wrt (<) (run_sequence ops (Reboot # es) q) \<and>
    (\<forall>v\<in>set (run_sequence ops (Reboot # es) q). nvs_load_hwm ops (dq_nvs q) < v)"
proof -
  obtain r n where m: "make_reservation (nvs_load_hwm ops) (nvs_persist_hwm ops) device_seq_reserve_block
      (dq_nvs q) = (r, n)"
    by fastforce
  have blk: "unat device_seq_reserve_block = 1000"
    by (simp add: device_seq_reserve_block_def)
  have small: "unat (nvs_load_hwm ops (dq_nvs q)) + unat device_seq_reserve_block < 2 ^ 64"
    using assms by (simp add: blk)
  note mk = store.make_reserved [OF m small]
  have "sorted_wrt (<) (run_sequence ops es (q\<lparr>dq_reservation := Some r, dq_nvs := n\<rparr>)) \<and>
      (\<forall>v\<in>set (run_sequence ops es (q\<lparr>dq_reservation := Some r, dq_nvs := n\<rparr>)). sr_current r < v)"
    by (rule run_sequence_increases) (use mk assms in \<open>simp_all add: blk\<close>)
  then show ?thesis
    using m mk(2) by (simp add: device_sequence_init_def)
qed

end

text \<open>C4. Sequence numbers are issued in strictly increasing order, hence never
  twice, over any number of reboots at any moment, and all of them above what
  the store held at first; the NVS writes have to succeed and the 64-bit
  counter must not be exhausted.\<close>

theorem device_seq_strictly_increases:
  assumes "reliable_nvs nv vals" "unat (nvs_load_hwm nv (dq_nvs q)) + 1000 * (length es + 1) < 2 ^ 64"
  shows "sorted_wrt (<) (run_sequence nv (Reboot # es) q) \<and>
    (\<forall>v\<in>set (run_sequence nv (Reboot # es) q). nvs_load_hwm nv (dq_nvs q) < v)"
  using reliable_nvs.run_from_boot [OF assms] .

definition fresh_sequence :: "ram_nvs device_sequence" where
  "fresh_sequence = \<lparr>dq_reservation = None, dq_nvs = \<lparr>rn_vals = Map.empty, rn_power = 0\<rparr>\<rparr>"

theorem device_seq_strictly_increases_witness:
  "sorted_wrt (<) (run_sequence (ram_nvs_ops True) [Reboot, NextSeq, NextSeq, Reboot, NextSeq] fresh_sequence)"
  using device_seq_strictly_increases [OF reliable_ram, of fresh_sequence "[NextSeq, NextSeq, Reboot, NextSeq]"]
  by (simp add: fresh_sequence_def nvs_load_hwm_def ram_nvs_ops_def)

text \<open>When the NVS write fails, which the persisting lambda does not look at,
  the next boot issues the same number again.\<close>

lemma sequence_repeats_when_persist_fails:
  "run_sequence (ram_nvs_ops False) [Reboot, NextSeq, Reboot, NextSeq] fresh_sequence = [1, 1]"
  by (simp add: fresh_sequence_def device_sequence_init_def device_sequence_next_def make_reservation_def
      reserve_next_block_def reservation_next_def nvs_load_hwm_def nvs_persist_hwm_def ram_nvs_ops_def
      rn_put_def device_seq_reserve_block_def)

section \<open>Random ids\<close>

definition hex_digits :: string where
  "hex_digits = ''0123456789abcdef''"

definition generate_random_hex_id :: "u32 list \<Rightarrow> string" where
  "generate_random_hex_id randoms =
     concat (map (\<lambda>x. let b = ucast (x AND 0xFF) :: u8 in
       [hex_digits ! unat (drop_bit 4 b AND 0x0F), hex_digits ! unat (b AND 0x0F)]) randoms)"

lemma length_generate_random_hex_id: "length (generate_random_hex_id rs) = 2 * length rs"
  by (induction rs) (simp_all add: generate_random_hex_id_def Let_def)

end
