(* ===== verification/State_Projection.thy ===== *)
theory State_Projection
  imports Json_Text
begin

text \<open>
  \<^verbatim>\<open>protocol/state_projection.h/.cpp\<close>: the authoritative snapshot the device
  holds and the version rules by which a server snapshot is applied, and
  \<^verbatim>\<open>protocol/event_response.cpp\<close>, the classification of a response.  The life
  of a projection is a step relation; its invariant is proved by rule
  induction.
\<close>

section \<open>Snapshots\<close>

datatype business_state =
  WAIT_EMPLOYEE | WAIT_OPERATION | SESSION_ACTIVE | QUANTITY_INPUT | DEVICE_DISABLED | MAINTENANCE | UNSUPPORTED

definition business_state_to_string :: "business_state \<Rightarrow> string" where
  "business_state_to_string s =
     (case s of
        WAIT_EMPLOYEE \<Rightarrow> ''WAIT_EMPLOYEE''
      | WAIT_OPERATION \<Rightarrow> ''WAIT_OPERATION''
      | SESSION_ACTIVE \<Rightarrow> ''SESSION_ACTIVE''
      | QUANTITY_INPUT \<Rightarrow> ''QUANTITY_INPUT''
      | DEVICE_DISABLED \<Rightarrow> ''DEVICE_DISABLED''
      | MAINTENANCE \<Rightarrow> ''MAINTENANCE''
      | UNSUPPORTED \<Rightarrow> ''UNSUPPORTED'')"

definition business_state_from_string :: "string \<Rightarrow> business_state" where
  "business_state_from_string s =
     (if s = ''WAIT_EMPLOYEE'' then WAIT_EMPLOYEE
      else if s = ''WAIT_OPERATION'' then WAIT_OPERATION
      else if s = ''SESSION_ACTIVE'' then SESSION_ACTIVE
      else if s = ''QUANTITY_INPUT'' then QUANTITY_INPUT
      else if s = ''DEVICE_DISABLED'' then DEVICE_DISABLED
      else if s = ''MAINTENANCE'' then MAINTENANCE
      else UNSUPPORTED)"

definition screen_id_for_business_state :: "business_state \<Rightarrow> string" where
  "screen_id_for_business_state s =
     (case s of
        WAIT_EMPLOYEE \<Rightarrow> ''state_wait_employee''
      | WAIT_OPERATION \<Rightarrow> ''state_wait_operation''
      | SESSION_ACTIVE \<Rightarrow> ''state_session_active''
      | QUANTITY_INPUT \<Rightarrow> ''state_quantity_input''
      | DEVICE_DISABLED \<Rightarrow> ''state_device_disabled''
      | MAINTENANCE \<Rightarrow> ''state_maintenance''
      | UNSUPPORTED \<Rightarrow> [])"

record view_model =
  vm_has_employee_name :: bool
  vm_employee_name :: string
  vm_has_operation_code :: bool
  vm_operation_code :: string
  vm_has_operation_name :: bool
  vm_operation_name :: string
  vm_has_session_id :: bool
  vm_session_id :: string
  vm_has_started_at :: bool
  vm_started_at :: string
  vm_has_target_qty :: bool
  vm_target_qty :: u32
  vm_has_produced_qty :: bool
  vm_produced_qty :: u32

definition empty_view :: view_model where
  "empty_view = \<lparr>vm_has_employee_name = False, vm_employee_name = [], vm_has_operation_code = False,
     vm_operation_code = [], vm_has_operation_name = False, vm_operation_name = [],
     vm_has_session_id = False, vm_session_id = [], vm_has_started_at = False, vm_started_at = [],
     vm_has_target_qty = False, vm_target_qty = 0, vm_has_produced_qty = False, vm_produced_qty = 0\<rparr>"

record state_snapshot =
  ss_state :: business_state
  ss_state_version :: u64
  ss_workflow_version :: u32
  ss_view :: view_model

definition default_snapshot :: state_snapshot where
  "default_snapshot = \<lparr>ss_state = WAIT_EMPLOYEE, ss_state_version = 0, ss_workflow_version = 0,
     ss_view = empty_view\<rparr>"

definition present :: "string \<Rightarrow> string \<Rightarrow> bool" where
  "present json key = (json_has_key json key \<and> \<not> json_is_null json key)"

definition parse_view :: "string \<Rightarrow> view_model \<Rightarrow> view_model" where
  "parse_view j v0 =
     (let v1 = (if present j ''employee_name''
                then v0\<lparr>vm_has_employee_name := True, vm_employee_name := json_extract_string j ''employee_name'' []\<rparr>
                else v0);
          v2 = (if present j ''operation_code''
                then v1\<lparr>vm_has_operation_code := True, vm_operation_code := json_extract_string j ''operation_code'' []\<rparr>
                else v1);
          v3 = (if present j ''operation_name''
                then v2\<lparr>vm_has_operation_name := True, vm_operation_name := json_extract_string j ''operation_name'' []\<rparr>
                else v2);
          v4 = (if present j ''session_id''
                then v3\<lparr>vm_has_session_id := True, vm_session_id := json_extract_string j ''session_id'' []\<rparr>
                else v3);
          v5 = (if present j ''started_at''
                then v4\<lparr>vm_has_started_at := True, vm_started_at := json_extract_string j ''started_at'' []\<rparr>
                else v4);
          v6 = (if present j ''target_qty''
                then v5\<lparr>vm_has_target_qty := True, vm_target_qty := of_int (json_extract_int j ''target_qty'' 0)\<rparr>
                else v5)
      in if present j ''produced_qty''
         then v6\<lparr>vm_has_produced_qty := True, vm_produced_qty := of_int (json_extract_int j ''produced_qty'' 0)\<rparr>
         else v6)"

definition parse_state_snapshot_json :: "string \<Rightarrow> state_snapshot option" where
  "parse_state_snapshot_json json =
     (let state_obj = json_extract_object json ''state'' in
      if state_obj = [] then None
      else if \<not> json_has_key state_obj ''name'' \<or> \<not> json_has_key state_obj ''version'' then None
      else
      let workflow_obj = json_extract_object json ''workflow'';
          view_obj = json_extract_object json ''view'' in
      Some \<lparr>ss_state = business_state_from_string (json_extract_string state_obj ''name'' []),
            ss_state_version = of_int (json_extract_int state_obj ''version'' 0),
            ss_workflow_version = (if workflow_obj = [] then 0
              else of_int (json_extract_int workflow_obj ''version'' 0)),
            ss_view = (if view_obj = [] then empty_view else parse_view view_obj empty_view)\<rparr>)"

section \<open>The projection\<close>

datatype apply_result =
  APPLIED | APPLIED_IDENTICAL | REJECTED_STALE | REJECTED_INCONSISTENT | REJECTED_UNSUPPORTED

definition apply_result_to_string :: "apply_result \<Rightarrow> string" where
  "apply_result_to_string r =
     (case r of
        APPLIED \<Rightarrow> ''APPLIED''
      | APPLIED_IDENTICAL \<Rightarrow> ''APPLIED_IDENTICAL''
      | REJECTED_STALE \<Rightarrow> ''REJECTED_STALE''
      | REJECTED_INCONSISTENT \<Rightarrow> ''REJECTED_INCONSISTENT''
      | REJECTED_UNSUPPORTED \<Rightarrow> ''REJECTED_UNSUPPORTED'')"

record state_projection =
  sp_has_snapshot :: bool
  sp_current :: state_snapshot

definition new_projection :: state_projection where
  "new_projection = \<lparr>sp_has_snapshot = False, sp_current = default_snapshot\<rparr>"

definition projection_apply :: "state_snapshot \<Rightarrow> state_projection \<Rightarrow> apply_result \<times> state_projection" where
  "projection_apply incoming p =
     (if ss_state incoming = UNSUPPORTED then (REJECTED_UNSUPPORTED, p)
      else if \<not> sp_has_snapshot p then
        (APPLIED, p\<lparr>sp_current := incoming, sp_has_snapshot := True\<rparr>)
      else if ss_state_version incoming < ss_state_version (sp_current p) then (REJECTED_STALE, p)
      else if ss_state_version incoming = ss_state_version (sp_current p) then
        (if incoming = sp_current p then (APPLIED_IDENTICAL, p) else (REJECTED_INCONSISTENT, p))
      else (APPLIED, p\<lparr>sp_current := incoming\<rparr>))"

section \<open>Invariant 16\<close>

inductive projection_steps :: "state_projection \<Rightarrow> state_projection \<Rightarrow> bool" where
  steps_refl: "projection_steps p p"
| steps_apply: "projection_steps p q \<Longrightarrow> projection_steps p (snd (projection_apply s q))"

definition projection_ok :: "state_projection \<Rightarrow> bool" where
  "projection_ok p = (if sp_has_snapshot p then ss_state (sp_current p) \<noteq> UNSUPPORTED
     else sp_current p = default_snapshot)"

lemma projection_apply_ok [inv_intros]: "projection_ok p \<Longrightarrow> projection_ok (snd (projection_apply s p))"
  by (simp add: projection_ok_def projection_apply_def)

lemma projection_apply_mono:
  assumes "sp_has_snapshot p"
  shows "sp_has_snapshot (snd (projection_apply s p))"
    "ss_state_version (sp_current p) \<le> ss_state_version (sp_current (snd (projection_apply s p)))"
    "ss_state_version (sp_current (snd (projection_apply s p))) = ss_state_version (sp_current p)
      \<Longrightarrow> sp_current (snd (projection_apply s p)) = sp_current p"
  using assms by (auto simp: projection_apply_def)

lemma projection_steps_mono:
  assumes "projection_steps p q" "projection_ok p"
  shows "projection_ok q \<and>
    (sp_has_snapshot p \<longrightarrow> sp_has_snapshot q \<and>
       ss_state_version (sp_current p) \<le> ss_state_version (sp_current q) \<and>
       (ss_state_version (sp_current q) = ss_state_version (sp_current p) \<longrightarrow> sp_current q = sp_current p))"
  using assms
proof (induction rule: projection_steps.induct)
  case (steps_apply p q s)
  show ?case
  proof (intro conjI impI)
    show "projection_ok (snd (projection_apply s q))"
      using steps_apply by (intro inv_intros) simp
    assume h: "sp_has_snapshot p"
    then have q: "sp_has_snapshot q" "ss_state_version (sp_current p) \<le> ss_state_version (sp_current q)"
        "ss_state_version (sp_current q) = ss_state_version (sp_current p) \<longrightarrow> sp_current q = sp_current p"
      using steps_apply by simp_all
    note m = projection_apply_mono [OF q(1), of s]
    show "sp_has_snapshot (snd (projection_apply s q))" by (rule m(1))
    show "ss_state_version (sp_current p) \<le> ss_state_version (sp_current (snd (projection_apply s q)))"
      using q(2) m(2) by (rule order.trans)
    show "sp_current (snd (projection_apply s q)) = sp_current p"
      if "ss_state_version (sp_current (snd (projection_apply s q))) = ss_state_version (sp_current p)"
      using that q m(2,3) by force
  qed
qed simp

text \<open>Whatever snapshots arrive in whatever order: a state the firmware does
  not know is never held; once a snapshot is held one always is, its version
  never goes back, and while the version stays the same the content does.\<close>

lemma projection_monotone:
  assumes "projection_steps p q" "projection_ok p"
  shows "projection_ok q \<and>
    (sp_has_snapshot p \<longrightarrow> sp_has_snapshot q \<and>
       ss_state_version (sp_current p) \<le> ss_state_version (sp_current q) \<and>
       (ss_state_version (sp_current q) = ss_state_version (sp_current p) \<longrightarrow> sp_current q = sp_current p))"
  by (rule projection_steps_mono [OF assms])

lemma projection_monotone_witness:
  "projection_ok (snd (projection_apply (default_snapshot\<lparr>ss_state := UNSUPPORTED\<rparr>)
     (snd (projection_apply default_snapshot new_projection))))"
proof -
  have "projection_steps new_projection (snd (projection_apply (default_snapshot\<lparr>ss_state := UNSUPPORTED\<rparr>)
      (snd (projection_apply default_snapshot new_projection))))"
    by (intro projection_steps.intros)
  moreover have "projection_ok new_projection"
    by (simp add: projection_ok_def new_projection_def)
  ultimately show ?thesis
    using projection_monotone by blast
qed

end
