(* ===== verification/Event_Response.thy ===== *)
theory Event_Response
  imports State_Projection
begin

text \<open>
  \<^verbatim>\<open>protocol/event_response.h/.cpp\<close>: the body of a response to an event, sorted
  into the shapes the protocol knows.  The parser returns its boolean and the
  whole structure it filled in, because a malformed body leaves the fields it
  got to in place.
\<close>

section \<open>The response\<close>

datatype event_outcome_kind = SUCCESS | BUSINESS_REJECTED | CONFLICT_RESYNC | MALFORMED

definition event_outcome_kind_to_string :: "event_outcome_kind \<Rightarrow> string" where
  "event_outcome_kind_to_string k =
     (case k of
        SUCCESS \<Rightarrow> ''SUCCESS''
      | BUSINESS_REJECTED \<Rightarrow> ''BUSINESS_REJECTED''
      | CONFLICT_RESYNC \<Rightarrow> ''CONFLICT_RESYNC''
      | MALFORMED \<Rightarrow> ''MALFORMED'')"

record event_response =
  er_kind :: event_outcome_kind
  er_event_id :: string
  er_server_seq :: int
  er_error_code :: string
  er_error_message :: string
  er_snapshot :: state_snapshot
  er_current_state_version :: u64

definition empty_response :: event_response where
  "empty_response = \<lparr>er_kind = MALFORMED, er_event_id = [], er_server_seq = -1, er_error_code = [],
     er_error_message = [], er_snapshot = default_snapshot, er_current_state_version = 0\<rparr>"

definition parse_event_response_json :: "string \<Rightarrow> bool \<times> event_response" where
  "parse_event_response_json json =
     (if \<not> json_has_key json ''accepted'' then (False, empty_response)
      else
      let accepted = json_extract_bool json ''accepted'' False;
          out1 = empty_response\<lparr>er_event_id := json_extract_string json ''event_id'' [],
            er_server_seq := json_extract_int json ''server_seq'' (-1)\<rparr>;
          error_obj = json_extract_object json ''error'';
          out2 = (if error_obj = [] then out1
            else out1\<lparr>er_error_code := json_extract_string error_obj ''code'' [],
              er_error_message := json_extract_string error_obj ''message'' []\<rparr>);
          action = json_extract_string json ''action'' [] in
      if \<not> accepted \<and> er_error_code out2 = ''STATE_CONFLICT'' \<and> action = ''RESYNC''
      then (True, out2\<lparr>er_current_state_version := of_int (json_extract_int json ''current_state_version'' 0),
        er_kind := CONFLICT_RESYNC\<rparr>)
      else
      (case parse_state_snapshot_json json of
         None \<Rightarrow> (False, out2\<lparr>er_kind := MALFORMED\<rparr>)
       | Some snap \<Rightarrow> (True, out2\<lparr>er_snapshot := snap,
           er_kind := (if accepted then SUCCESS else BUSINESS_REJECTED)\<rparr>)))"

section \<open>The four shapes\<close>

definition conflict_body :: "string \<Rightarrow> bool" where
  "conflict_body json =
     (\<not> json_extract_bool json ''accepted'' False \<and>
      json_extract_object json ''error'' \<noteq> [] \<and>
      json_extract_string (json_extract_object json ''error'') ''code'' [] = ''STATE_CONFLICT'' \<and>
      json_extract_string json ''action'' [] = ''RESYNC'')"

text \<open>C13. Every body falls into exactly one shape: malformed when it has no
  \<^verbatim>\<open>accepted\<close> member or carries no snapshot and is no conflict, and then the
  parser says so; a conflict never brings a snapshot along; a success is
  accepted and a business rejection is not, and both carry exactly the
  snapshot in the body.\<close>

lemma response_shapes:
  "case parse_event_response_json json of (ok, r) \<Rightarrow>
     (ok = (er_kind r \<noteq> MALFORMED)) \<and>
     (er_kind r = MALFORMED) = (\<not> json_has_key json ''accepted'' \<or>
        \<not> conflict_body json \<and> parse_state_snapshot_json json = None) \<and>
     (er_kind r = CONFLICT_RESYNC) = (json_has_key json ''accepted'' \<and> conflict_body json) \<and>
     (er_kind r \<in> {MALFORMED, CONFLICT_RESYNC} \<longrightarrow> er_snapshot r = default_snapshot) \<and>
     (er_kind r = SUCCESS \<longrightarrow> json_extract_bool json ''accepted'' False) \<and>
     (er_kind r = BUSINESS_REJECTED \<longrightarrow> \<not> json_extract_bool json ''accepted'' False) \<and>
     (er_kind r \<in> {SUCCESS, BUSINESS_REJECTED} \<longrightarrow> parse_state_snapshot_json json = Some (er_snapshot r))"
  by (cases "json_has_key json ''accepted''"; cases "json_extract_bool json ''accepted'' False";
      cases "parse_state_snapshot_json json"; cases "json_extract_object json ''error'' = []")
    (simp_all add: parse_event_response_json_def conflict_body_def empty_response_def Let_def)

lemma sample_conflict:
  "er_kind (snd (parse_event_response_json
     (''{'' @ jkey ''accepted'' @ ''false,'' @ jkey ''error'' @ ''{'' @ jkey ''code'' @ jstr ''STATE_CONFLICT'' @ ''},''
        @ jkey ''action'' @ jstr ''RESYNC'' @ '',''  @ jkey ''current_state_version'' @ ''7}''))) = CONFLICT_RESYNC"
  by code_simp

lemma response_shapes_witness:
  "parse_state_snapshot_json [] = Some (er_snapshot (snd (parse_event_response_json []))) \<or>
   er_snapshot (snd (parse_event_response_json [])) = default_snapshot"
  using response_shapes [of "[]"] by (cases "er_kind (snd (parse_event_response_json []))") (simp_all add: split_beta)

end
