(* ===== verification/Retry_Policy.thy ===== *)
theory Retry_Policy
  imports Json_Text
begin

text \<open>
  \<^verbatim>\<open>protocol/retry_policy.h/.cpp\<close>: the taxonomy of HTTP results, the backoff
  between attempts and the \<^verbatim>\<open>Retry-After\<close> header.  The arithmetic is kept at
  its width: the exponential in 64 bits, the cap with jitter in 32.
\<close>

section \<open>Outcomes\<close>

record http_outcome =
  ho_ok :: bool
  ho_http_status :: int
  ho_error_code :: string
  ho_retryable :: bool
  ho_retry_after_s :: u32

definition default_outcome :: http_outcome where
  "default_outcome = \<lparr>ho_ok = False, ho_http_status = 0, ho_error_code = [], ho_retryable = False,
     ho_retry_after_s = 0\<rparr>"

definition dns_fail_marker :: int where
  "dns_fail_marker = -1000"

definition response_too_large_marker :: int where
  "response_too_large_marker = -1001"

definition transport_error_code :: "int \<Rightarrow> string" where
  "transport_error_code raw =
     (if raw = dns_fail_marker then ''DNS_FAIL''
      else if raw = -11 then ''HTTP_TIMEOUT''
      else if raw = -1 \<or> raw = -4 \<or> raw = -5 then ''TCP_CONNECT_FAIL''
      else if raw = 0 then ''HTTP_TIMEOUT'' else ''TCP_CONNECT_FAIL'')"

definition classify_http_result :: "int \<Rightarrow> int \<Rightarrow> http_outcome" where
  "classify_http_result raw retry_after =
     (let out = default_outcome\<lparr>ho_http_status := if raw > 0 then raw else 0\<rparr> in
      if raw \<ge> 200 \<and> raw < 300 then out\<lparr>ho_ok := True\<rparr>
      else if raw = response_too_large_marker
      then out\<lparr>ho_error_code := ''RESPONSE_TOO_LARGE'', ho_retryable := False\<rparr>
      else if raw \<le> 0 then out\<lparr>ho_error_code := transport_error_code raw, ho_retryable := True\<rparr>
      else if raw = 429
      then (let out' = out\<lparr>ho_error_code := ''API_RATE_LIMITED'', ho_retryable := True\<rparr>
            in if retry_after \<ge> 0 then out'\<lparr>ho_retry_after_s := of_int retry_after\<rparr> else out')
      else if raw \<ge> 500 \<and> raw < 600
      then out\<lparr>ho_error_code := ''HTTP_5XX'', ho_retryable := True\<rparr>
      else if raw \<ge> 400 \<and> raw < 500
      then out\<lparr>ho_error_code := ''HTTP_4XX'', ho_retryable := False\<rparr>
      else out\<lparr>ho_error_code := ''PROTOCOL_INVALID_RESPONSE'', ho_retryable := False\<rparr>)"

section \<open>Backoff\<close>

fun double_until :: "nat \<Rightarrow> u64 \<Rightarrow> u64 \<Rightarrow> u64" where
  "double_until 0 e m = e"
| "double_until (Suc n) e m = (if e < m then double_until n (e * 2) m else e)"

definition backoff_cap :: "u32 \<Rightarrow> u32 \<Rightarrow> u32" where
  "backoff_cap max_ms jitter_pct_max = max_ms + (max_ms * jitter_pct_max) div 100"

definition compute_backoff_ms :: "int \<Rightarrow> u32 \<Rightarrow> u32 \<Rightarrow> u32 \<Rightarrow> u32 \<Rightarrow> u32" where
  "compute_backoff_ms attempt0 base_ms max_ms jitter_pct_0_100 jitter_pct_max =
     (let attempt = (if attempt0 < 1 then 1 else attempt0);
          exp1 = double_until (nat (attempt - 1)) (ucast base_ms) (ucast max_ms);
          exp_ms = (if exp1 > ucast max_ms then ucast max_ms else exp1);
          jitter_pct = jitter_pct_0_100 mod (jitter_pct_max + 1);
          jitter_ms = (exp_ms * ucast jitter_pct) div 100;
          total1 = exp_ms + jitter_ms;
          total = (if total1 > ucast (backoff_cap max_ms jitter_pct_max)
            then ucast (backoff_cap max_ms jitter_pct_max) else total1)
      in ucast total)"

section \<open>The header\<close>

definition parse_retry_after :: "string \<Rightarrow> u32 option" where
  "parse_retry_after h =
     (if h = [] then None
      else if \<exists>c \<in> set h. \<not> is_digit c then None
      else Some (of_nat (min (digits_value h) 2147483647)))"

section \<open>Which results are tried again\<close>

text \<open>C29. The taxonomy is total and consistent: a result is fine exactly for a 2xx
  status, and exactly then it has no error code; it is retried exactly for a
  transport failure other than an oversized body, for 429 and for 5xx; a delay
  asked for by the server is kept exactly for 429.\<close>

theorem http_taxonomy:
  "ho_ok (classify_http_result raw ra) = (200 \<le> raw \<and> raw < 300) \<and>
   (ho_error_code (classify_http_result raw ra) = []) = (200 \<le> raw \<and> raw < 300) \<and>
   ho_retryable (classify_http_result raw ra)
     = (raw \<le> 0 \<and> raw \<noteq> response_too_large_marker \<or> raw = 429 \<or> 500 \<le> raw \<and> raw < 600) \<and>
   ho_http_status (classify_http_result raw ra) = max raw 0 \<and>
   ho_retry_after_s (classify_http_result raw ra) = (if raw = 429 \<and> 0 \<le> ra then of_int ra else 0)"
  by (simp add: classify_http_result_def default_outcome_def transport_error_code_def Let_def
      response_too_large_marker_def dns_fail_marker_def)

section \<open>The backoff is the capped exponential plus jitter\<close>

lemma unat_double_until:
  assumes "unat e < 2 ^ 33" "unat m < 2 ^ 32"
  shows "min (unat (double_until n e m)) (unat m) = min (unat e * 2 ^ n) (unat m)"
  using assms(1)
proof (induction n arbitrary: e)
  case (Suc n)
  show ?case
  proof (cases "e < m")
    case True
    then have lt: "unat e < unat m"
      by (simp add: word_less_nat_alt)
    then have "unat (e * 2) = unat e * 2"
      using assms(2) by (simp add: unat_word_ariths)
    then show ?thesis
      using Suc.IH [of "e * 2"] lt assms(2) True by (simp add: ac_simps)
  next
    case False
    then have "unat m \<le> unat e"
      by (simp add: word_less_nat_alt)
    moreover have "unat m \<le> unat e * 2 ^ Suc n"
    proof (rule order.trans [OF \<open>unat m \<le> unat e\<close>])
      have "unat e * 1 \<le> unat e * 2 ^ Suc n"
        by (rule mult_le_mono2) simp
      then show "unat e \<le> unat e * 2 ^ Suc n"
        by (simp only: mult_1_right)
    qed
    ultimately show ?thesis
      using False by (simp only: double_until.simps min_absorb2 if_False)
  qed
qed simp

text \<open>When the cap with its jitter fits in 32 bits, as it does for the
  constants of the firmware, the delay is the base doubled once per attempt and
  capped, plus the given percentage of it: no overflow on the way, whatever the
  attempt number; so it never passes the cap by more than the jitter allowed.\<close>

lemma backoff_formula:
  assumes "unat max_ms * (100 + unat jm) < 2 ^ 32"
  shows "unat (compute_backoff_ms attempt base max_ms j jm) =
      (let e = min (unat base * 2 ^ (nat attempt - 1)) (unat max_ms)
       in e + e * (unat j mod (unat jm + 1)) div 100) \<and>
    unat (compute_backoff_ms attempt base max_ms j jm) \<le> unat max_ms + unat max_ms * unat jm div 100"
proof -
  define n where "n = nat ((if attempt < 1 then 1 else attempt) - 1)"
  have n: "n = nat attempt - 1"
    by (cases "attempt < 1") (simp_all add: n_def nat_diff_distrib)
  define M where "M = unat max_ms"
  define e1 where "e1 = double_until n (ucast base) (ucast max_ms)"
  define e where "e = min (unat base * 2 ^ n) M"
  define p where "p = unat j mod (unat jm + 1)"
  show ?thesis
  proof (cases "M = 0")
    case True
    then have "max_ms = 0"
      by (simp add: M_def unat_eq_0)
    then show ?thesis
      by (simp add: compute_backoff_ms_def Let_def backoff_cap_def word_gt_0)
  next
    case False
    have jm: "unat jm < 2 ^ 32 - 100"
      using assms False unfolding M_def by (cases "unat max_ms") auto
    have p: "unat (j mod (jm + 1)) = p" "p \<le> unat jm"
    proof -
      have "unat (jm + 1) = unat jm + 1"
        using jm by (simp add: unat_word_ariths)
      then show "unat (j mod (jm + 1)) = p"
        by (simp add: p_def unat_mod)
      show "p \<le> unat jm"
        unfolding p_def by (metis Suc_eq_plus1 less_Suc_eq_le mod_less_divisor zero_less_Suc)
    qed
    have emin: "unat (if e1 > ucast max_ms then ucast max_ms else e1) = e"
    proof -
      have "min (unat e1) M = e"
        using unat_double_until [of "ucast base" "ucast max_ms" n]
        by (simp add: e1_def e_def M_def unat_ucast_u32_u64) (use unat_u32_lt [of base] unat_u32_lt [of max_ms] in simp)
      then show ?thesis
        by (simp add: M_def word_less_nat_alt unat_ucast_u32_u64 min_def split: if_splits)
    qed
    have eM: "e \<le> M" "M * (100 + unat jm) < 2 ^ 32"
      using assms by (simp_all add: e_def M_def)
    have prod: "e * p \<le> M * unat jm"
      using eM(1) p(2) by (rule mult_le_mono)
    have split: "100 * M + M * unat jm < 2 ^ 32"
      using eM(2) by (simp add: algebra_simps)
    then have small: "M * unat jm < 2 ^ 32"
      by (rule order.strict_trans1 [rotated]) simp
    have "M + M * unat jm div 100 \<le> 100 * M + M * unat jm"
      by (rule add_mono) simp_all
    then have small2: "M + M * unat jm div 100 < 2 ^ 32"
      using split by (rule order.strict_trans1)
    have mj: "unat (max_ms * jm) = M * unat jm"
      using small by (simp only: unat_word_ariths M_def) simp
    have cap: "unat (backoff_cap max_ms jm) = M + M * unat jm div 100"
      using small2 by (simp only: backoff_cap_def unat_word_ariths(1) unat_div mj) (simp add: M_def)
    have jit: "e * p div 100 \<le> M * unat jm div 100"
      using prod by (rule div_le_mono)
    define E where "E = (if e1 > ucast max_ms then ucast max_ms else e1)"
    have E: "unat E = e" using emin by (simp add: E_def)
    define J :: u64 where "J = ucast (j mod (jm + 1))"
    have J: "unat J = p"
      using p(1) by (simp only: J_def unat_ucast_u32_u64)
    have "e * p < 2 ^ 32"
      using prod small by (rule order.strict_trans1)
    then have EJ: "unat (E * J) = e * p"
      by (simp only: unat_word_ariths E J) simp
    have sum: "e + e * p div 100 \<le> M + M * unat jm div 100"
      using eM(1) jit by (rule add_mono)
    then have le: "e + e * p div 100 < 2 ^ 32"
      using small2 by (rule order.strict_trans1)
    then have t: "unat (E + E * J div 100) = e + e * p div 100"
      by (simp only: unat_word_ariths(1) unat_div E EJ) simp
    have "\<not> E + E * J div 100 > ucast (backoff_cap max_ms jm)"
      using sum by (simp only: word_less_nat_alt unat_ucast_u32_u64 t cap not_less)
    then have "compute_backoff_ms attempt base max_ms j jm = ucast (E + E * J div 100)"
      by (simp only: compute_backoff_ms_def Let_def E_def e1_def n_def J_def if_False)
    then have "unat (compute_backoff_ms attempt base max_ms j jm) = e + e * p div 100"
      using le t by (simp add: unsigned_ucast_eq take_bit_nat_eq_self)
    then show ?thesis
      using sum by (simp only: Let_def e_def p_def n M_def)
  qed
qed

lemma backoff_formula_witness:
  "unat (compute_backoff_ms 4 2000 60000 13 25) \<le> 60000 + 60000 * 25 div 100"
  using backoff_formula [of 60000 25 4 2000 13] by simp

end
