(* ===== verification/Policies.thy ===== *)
theory Policies
  imports State_Projection
begin

text \<open>
  The pure decisions of the firmware, each with its specification:
  \<^verbatim>\<open>network/network_state\<close>, \<^verbatim>\<open>runtime/ui_timeout_policy\<close>,
  \<^verbatim>\<open>health/low_memory_supervisor\<close> and \<^verbatim>\<open>protocol/environment_label\<close>.
\<close>

section \<open>Network state\<close>

datatype network_state = ONLINE | DEGRADED | OFFLINE_WIFI | OFFLINE_SERVER | AUTH_BLOCKED

definition network_state_to_string :: "network_state \<Rightarrow> string" where
  "network_state_to_string s =
     (case s of
        ONLINE \<Rightarrow> ''ONLINE''
      | DEGRADED \<Rightarrow> ''DEGRADED''
      | OFFLINE_WIFI \<Rightarrow> ''OFFLINE_WIFI''
      | OFFLINE_SERVER \<Rightarrow> ''OFFLINE_SERVER''
      | AUTH_BLOCKED \<Rightarrow> ''AUTH_BLOCKED'')"

definition offline_server_streak_threshold :: u32 where
  "offline_server_streak_threshold = 2"

record network_state_inputs =
  ni_wifi_connected :: bool
  ni_last_request_ok :: bool
  ni_last_http_status :: int
  ni_consecutive_failures :: u32

definition classify_network_state :: "network_state_inputs \<Rightarrow> network_state" where
  "classify_network_state i =
     (if \<not> ni_wifi_connected i then OFFLINE_WIFI
      else if ni_last_http_status i = 401 \<or> ni_last_http_status i = 403 then AUTH_BLOCKED
      else if \<not> ni_last_request_ok i
      then (if ni_consecutive_failures i \<ge> offline_server_streak_threshold then OFFLINE_SERVER else DEGRADED)
      else ONLINE)"

section \<open>Inactivity timeouts\<close>

definition ui_timeout_ms_for_state :: "business_state \<Rightarrow> u32" where
  "ui_timeout_ms_for_state s =
     (case s of WAIT_OPERATION \<Rightarrow> 20000 | QUANTITY_INPUT \<Rightarrow> 60000 | _ \<Rightarrow> 0)"

definition ui_state_should_timeout :: "business_state \<Rightarrow> u32 \<Rightarrow> bool" where
  "ui_state_should_timeout s elapsed_ms =
     (let limit = ui_timeout_ms_for_state s in if limit = 0 then False else elapsed_ms \<ge> limit)"

lemma should_timeout_iff:
  "ui_state_should_timeout s t \<longleftrightarrow>
     (s = WAIT_OPERATION \<and> 20000 \<le> t) \<or> (s = QUANTITY_INPUT \<and> 60000 \<le> t)"
  by (cases s) (simp_all add: ui_state_should_timeout_def ui_timeout_ms_for_state_def)

section \<open>Low memory\<close>

datatype low_memory_level = MEM_NORMAL | MEM_WARNING | MEM_CRITICAL

definition low_memory_warning_bytes :: u32 where
  "low_memory_warning_bytes = 18000"

definition low_memory_critical_bytes :: u32 where
  "low_memory_critical_bytes = 9000"

definition classify_low_memory :: "u32 \<Rightarrow> low_memory_level" where
  "classify_low_memory largest =
     (if largest \<le> low_memory_critical_bytes then MEM_CRITICAL
      else if largest \<le> low_memory_warning_bytes then MEM_WARNING
      else MEM_NORMAL)"

definition low_memory_level_to_string :: "low_memory_level \<Rightarrow> string" where
  "low_memory_level_to_string l =
     (case l of MEM_NORMAL \<Rightarrow> ''NORMAL'' | MEM_WARNING \<Rightarrow> ''WARNING'' | MEM_CRITICAL \<Rightarrow> ''CRITICAL'')"

instantiation low_memory_level :: linorder
begin

fun severity :: "low_memory_level \<Rightarrow> nat" where
  "severity MEM_NORMAL = 0"
| "severity MEM_WARNING = 1"
| "severity MEM_CRITICAL = 2"

definition less_eq_low_memory_level :: "low_memory_level \<Rightarrow> low_memory_level \<Rightarrow> bool" where
  "a \<le> b \<longleftrightarrow> severity a \<le> severity b"

definition less_low_memory_level :: "low_memory_level \<Rightarrow> low_memory_level \<Rightarrow> bool" where
  "a < b \<longleftrightarrow> severity a < severity b"

instance
proof
  fix a b :: low_memory_level
  show "a = b" if "a \<le> b" "b \<le> a"
    using that by (cases a; cases b) (simp_all add: less_eq_low_memory_level_def)
qed (auto simp: less_eq_low_memory_level_def less_low_memory_level_def)

end

lemma low_memory_antimono: "a \<le> b \<Longrightarrow> classify_low_memory b \<le> classify_low_memory a"
  by (auto simp: classify_low_memory_def less_eq_low_memory_level_def low_memory_critical_bytes_def
      low_memory_warning_bytes_def)

section \<open>Environment labels\<close>

datatype environment = ENV_DEV | ENV_TEST | ENV_PROD | ENV_UNKNOWN

definition environment_to_string :: "environment \<Rightarrow> string" where
  "environment_to_string e = (case e of ENV_DEV \<Rightarrow> ''DEV'' | ENV_TEST \<Rightarrow> ''TEST'' | ENV_PROD \<Rightarrow> ''PROD'' | ENV_UNKNOWN \<Rightarrow> ''UNKNOWN'')"

definition environment_from_server_role :: "string \<Rightarrow> environment" where
  "environment_from_server_role r =
     (if r = ''DEV'' then ENV_DEV else if r = ''PRODUCTION_TEST'' then ENV_TEST
      else if r = ''PRODUCTION'' then ENV_PROD else ENV_UNKNOWN)"

definition upper_char :: "char \<Rightarrow> char" where
  "upper_char c = (if 97 \<le> (of_char c :: nat) \<and> (of_char c :: nat) \<le> 122 then char_of (of_char c - 32 :: nat) else c)"

definition environment_from_config_string :: "string \<Rightarrow> environment" where
  "environment_from_config_string s =
     (let upper = map upper_char s in
      if upper = ''DEV'' then ENV_DEV else if upper = ''TEST'' then ENV_TEST
      else if upper = ''PROD'' then ENV_PROD else ENV_UNKNOWN)"

definition environment_matches :: "environment \<Rightarrow> environment \<Rightarrow> bool" where
  "environment_matches expected actual =
     (if expected = ENV_UNKNOWN \<or> actual = ENV_UNKNOWN then False else expected = actual)"

lemma environment_matches_iff [simp]: "environment_matches e a \<longleftrightarrow> e = a \<and> e \<noteq> ENV_UNKNOWN"
  by (auto simp: environment_matches_def)

lemma config_string_labels: "environment_from_config_string (environment_to_string e) = e"
  by (cases e) (simp_all add: environment_from_config_string_def environment_to_string_def upper_char_def)

lemma upper_char_idem: "upper_char (upper_char c) = upper_char c"
  by (auto simp: upper_char_def)

text \<open>A configured environment is recognised whatever the case it is typed in,
  and it matches the server's role exactly when the two name the same of the
  three known environments.\<close>

theorem environment_safety:
  "environment_from_config_string (map upper_char s) = environment_from_config_string s \<and>
   environment_matches (environment_from_config_string s) (environment_from_server_role r) =
     ((map upper_char s, r) \<in> {(''DEV'', ''DEV''), (''TEST'', ''PRODUCTION_TEST''), (''PROD'', ''PRODUCTION'')})"
proof
  have "upper_char \<circ> upper_char = upper_char"
    by (rule ext) (simp add: upper_char_idem)
  then show "environment_from_config_string (map upper_char s) = environment_from_config_string s"
    by (simp add: environment_from_config_string_def)
qed (auto simp: environment_from_config_string_def environment_from_server_role_def Let_def)

end
