(* ===== verification/Backend_Url.thy ===== *)
theory Backend_Url
  imports Policies
begin

text \<open>
  \<^verbatim>\<open>protocol/backend_url_validation\<close>, \<^verbatim>\<open>network/endpoint_utils.h\<close> and
  \<^verbatim>\<open>protocol/ap_ssid\<close>.  Positions are integers with -1 for absent, as in
  \<^verbatim>\<open>String::indexOf\<close>.
\<close>

section \<open>Searching a string\<close>

fun index_of :: "string \<Rightarrow> string \<Rightarrow> int" where
  "index_of p [] = (if p = [] then 0 else -1)"
| "index_of p (c # s) = (if has_prefix p (c # s) then 0
     else let i = index_of p s in if i < 0 then -1 else i + 1)"

fun last_index_of :: "char \<Rightarrow> string \<Rightarrow> int" where
  "last_index_of c [] = -1"
| "last_index_of c (x # s) = (let i = last_index_of c s in
     if i \<ge> 0 then i + 1 else if x = c then 0 else -1)"

lemma last_index_absent [simp]: "c \<notin> set s \<Longrightarrow> last_index_of c s = -1"
  by (induction s) auto

lemma last_index_split: "c \<notin> set t \<Longrightarrow> last_index_of c (s @ c # t) = int (length s)"
  by (induction s) simp_all

lemma index_char: "index_of [c] (s @ c # t) \<ge> 0"
  by (induction s) (auto simp: Let_def)

lemma index_char_first: "c \<notin> set s \<Longrightarrow> index_of [c] (s @ c # t) = int (length s)"
  by (induction s) (auto simp: Let_def)

lemma index_char_absent: "c \<notin> set s \<Longrightarrow> index_of [c] s = -1"
  by (induction s) (auto simp: Let_def)

section \<open>Validation\<close>

datatype backend_url_validation = URL_OK | URL_EMPTY | URL_TOO_LONG | URL_BAD_SCHEME | URL_MISSING_HOST

definition validate_backend_url :: "string \<Rightarrow> bool \<Rightarrow> int \<Rightarrow> backend_url_validation" where
  "validate_backend_url url allow_http max_length =
     (if url = [] then URL_EMPTY
      else if int (length url) > max_length then URL_TOO_LONG
      else
      let is_https = has_prefix ''https://'' url;
          is_http = has_prefix ''http://'' url in
      if \<not> is_https \<and> \<not> (is_http \<and> allow_http) then URL_BAD_SCHEME
      else
      let scheme_len = (if is_https then 8 else 7 :: nat);
          slash = index_of ''/'' (drop scheme_len url);
          host_end = (if slash < 0 then int (length url) else int scheme_len + slash) in
      if host_end \<le> int scheme_len then URL_MISSING_HOST else URL_OK)"

definition backend_url_validation_to_string :: "backend_url_validation \<Rightarrow> string" where
  "backend_url_validation_to_string v =
     (case v of URL_OK \<Rightarrow> ''OK'' | URL_EMPTY \<Rightarrow> ''CONFIG_BACKEND_NOT_SET''
      | URL_TOO_LONG \<Rightarrow> ''CONFIG_BACKEND_INVALID'' | URL_BAD_SCHEME \<Rightarrow> ''CONFIG_BACKEND_INVALID''
      | URL_MISSING_HOST \<Rightarrow> ''CONFIG_BACKEND_INVALID'')"

definition derive_sibling_endpoint :: "string \<Rightarrow> string \<Rightarrow> string" where
  "derive_sibling_endpoint events_url name =
     (let scheme_end = index_of ''://'' events_url;
          min_slash = (if scheme_end < 0 then -1 else scheme_end + 2);
          last_slash = last_index_of (CHR ''/'') events_url in
      if last_slash < 0 \<or> last_slash \<le> min_slash then []
      else take (nat (last_slash + 1)) events_url @ name)"

lemma has_prefixE: "has_prefix p s \<Longrightarrow> \<exists>r. s = p @ r"
  by (induction p s rule: has_prefix.induct) auto

definition schemes :: "bool \<Rightarrow> string set" where
  "schemes allow_http = {''https://''} \<union> (if allow_http then {''http://''} else {})"

lemma validate_okD:
  assumes "validate_backend_url url allow m = URL_OK"
  shows "has_prefix ''https://'' url \<or> allow \<and> has_prefix ''http://'' url"
    "drop (if has_prefix ''https://'' url then 8 else 7) url = r \<Longrightarrow> r \<noteq> [] \<and> hd r \<noteq> CHR ''/''"
proof -
  show "has_prefix ''https://'' url \<or> allow \<and> has_prefix ''http://'' url"
    using assms by (auto simp: validate_backend_url_def Let_def simp del: has_prefix.simps split: if_splits)
  define n where "n = (if has_prefix ''https://'' url then 8 else 7 :: nat)"
  assume "drop (if has_prefix ''https://'' url then 8 else 7) url = r"
  then have d: "drop n url = r"
    by (simp add: n_def)
  have "\<not> (if index_of ''/'' r < 0 then int (length url) else int n + index_of ''/'' r) \<le> int n"
    using assms
    by (simp add: validate_backend_url_def Let_def n_def [symmetric] d del: has_prefix.simps split: if_splits)
  then show "r \<noteq> [] \<and> hd r \<noteq> CHR ''/''"
    using d by (cases r) (auto split: if_splits)
qed

lemma validated:
  assumes "validate_backend_url url allow m = URL_OK"
  shows "\<exists>scheme host path. url = scheme @ host @ path \<and> scheme \<in> schemes allow \<and> host \<noteq> [] \<and>
    CHR ''/'' \<notin> set host \<and> (path = [] \<or> hd path = CHR ''/'')"
proof -
  define scheme where "scheme = (if has_prefix ''https://'' url then ''https://'' else ''http://'')"
  have "has_prefix scheme url" "scheme \<in> schemes allow"
    using validate_okD(1) [OF assms] by (auto simp: scheme_def schemes_def simp del: has_prefix.simps)
  then obtain r where url: "url = scheme @ r"
    using has_prefixE by blast
  have "drop (if has_prefix ''https://'' url then 8 else 7) url = r"
    by (subst (2) url) (simp add: scheme_def del: has_prefix.simps)
  note r = validate_okD(2) [OF assms this]
  let ?p = "\<lambda>c. c \<noteq> CHR ''/''"
  have "takeWhile ?p r \<noteq> []"
    using r by (cases r) auto
  moreover have "CHR ''/'' \<notin> set (takeWhile ?p r)"
    by (auto dest: set_takeWhileD)
  moreover have "dropWhile ?p r = [] \<or> hd (dropWhile ?p r) = CHR ''/''"
    using hd_dropWhile [of ?p r] by auto
  ultimately show ?thesis
    using url \<open>scheme \<in> schemes allow\<close> takeWhile_dropWhile_id [of ?p r] by metis
qed

lemma scheme_cases:
  assumes "scheme \<in> schemes allow"
  obtains "scheme = ''https://''" | "scheme = ''http://''" "allow"
  using assms by (auto simp: schemes_def split: if_splits)

lemma index_scheme:
  assumes "scheme \<in> schemes allow"
  shows "index_of ''://'' (scheme @ r) = int (length scheme) - 3" "length scheme \<ge> 3"
  using assms by (rule scheme_cases, simp_all)+

lemma last_index_scheme:
  assumes "scheme \<in> schemes allow" "CHR ''/'' \<notin> set host"
  shows "last_index_of (CHR ''/'') (scheme @ host) = int (length scheme) - 1"
  using assms(1) by (rule scheme_cases) (simp_all add: assms(2))

lemma no_path_no_sibling:
  assumes "scheme \<in> schemes allow" "CHR ''/'' \<notin> set host"
  shows "derive_sibling_endpoint (scheme @ host) name = []"
  using index_scheme [OF assms(1)] last_index_scheme [OF assms]
  by (simp add: derive_sibling_endpoint_def Let_def)

lemma derive_with_path:
  assumes "scheme \<in> schemes allow" "host \<noteq> []" "CHR ''/'' \<notin> set seg"
  shows "derive_sibling_endpoint (scheme @ host @ dir @ ''/'' @ seg) name = scheme @ host @ dir @ ''/'' @ name"
proof -
  have "last_index_of (CHR ''/'') (scheme @ host @ dir @ ''/'' @ seg) = int (length (scheme @ host @ dir))"
    using last_index_split [OF assms(3), of "scheme @ host @ dir"] by simp
  moreover have "0 < length host"
    using assms(2) by simp
  moreover have "take (Suc (length scheme + (length host + length dir))) (scheme @ host @ dir @ ''/'' @ seg)
      = scheme @ host @ dir @ ''/''"
    using take_append_exact [of "scheme @ host @ dir @ ''/''" "Suc (length scheme + (length host + length dir))" seg]
    by simp
  ultimately show ?thesis
    using index_scheme [OF assms(1)]
    by (simp add: derive_sibling_endpoint_def Let_def nat_add_distrib nat_int_add)
qed

lemma validate_okI:
  assumes "scheme \<in> schemes allow" "host \<noteq> []" "CHR ''/'' \<notin> set host" "path = [] \<or> hd path = CHR ''/''"
    "int (length (scheme @ host @ path)) \<le> m"
  shows "validate_backend_url (scheme @ host @ path) allow m = URL_OK"
proof -
  have i: "index_of ''/'' (host @ path) = (if path = [] then -1 else int (length host))"
    using assms(3,4) index_char_first [of "CHR ''/''" host "tl path"]
    by (cases path) (auto simp: index_char_absent)
  from assms(1) show ?thesis
    by (rule scheme_cases) (use assms(2,5) i in \<open>auto simp: validate_backend_url_def Let_def split: if_splits\<close>)
qed

text \<open>A validated URL is a permitted scheme, a host and a path.  Without a
  path no sibling endpoint is derived; with one, exactly what follows the last
  slash is replaced, and the result is again a valid URL.\<close>

lemma sibling_of_validated:
  assumes "validate_backend_url url allow m = URL_OK"
  shows "\<exists>scheme host path. url = scheme @ host @ path \<and> scheme \<in> schemes allow \<and> host \<noteq> [] \<and>
    CHR ''/'' \<notin> set host \<and>
    (path = [] \<and> derive_sibling_endpoint url name = [] \<or>
     (\<exists>dir seg. path = dir @ ''/'' @ seg \<and> CHR ''/'' \<notin> set seg \<and>
        derive_sibling_endpoint url name = scheme @ host @ dir @ ''/'' @ name \<and>
        validate_backend_url (derive_sibling_endpoint url name) allow (m + int (length name)) = URL_OK))"
proof -
  obtain scheme host path where p: "url = scheme @ host @ path" "scheme \<in> schemes allow" "host \<noteq> []"
      "CHR ''/'' \<notin> set host" "path = [] \<or> hd path = CHR ''/''"
    using validated [OF assms] by blast
  show ?thesis
  proof (cases "path = []")
    case True
    then have "derive_sibling_endpoint url name = []"
      using no_path_no_sibling [OF p(2,4)] p(1) by simp
    then show ?thesis
      using True p by blast
  next
    case False
    then have "CHR ''/'' \<in> set path"
      using p(5) by (cases path) auto
    then obtain dir seg where d: "path = dir @ CHR ''/'' # seg" "CHR ''/'' \<notin> set seg"
      using split_list_last by metis
    have der: "derive_sibling_endpoint url name = scheme @ host @ dir @ ''/'' @ name"
      using derive_with_path [OF p(2,3) d(2)] p(1) d(1) by simp
    have "int (length url) \<le> m"
      using assms by (auto simp: validate_backend_url_def split: if_splits)
    then have "validate_backend_url (scheme @ host @ (dir @ ''/'' @ name)) allow (m + int (length name)) = URL_OK"
      using p d by (intro validate_okI) (auto simp: hd_append)
    then show ?thesis
      using p(1-4) d der by (intro exI [of _ scheme] exI [of _ host] exI [of _ path]) auto
  qed
qed

lemma sibling_of_validated_witness:
  "derive_sibling_endpoint ''https://h'' ''state'' = [] \<or>
   validate_backend_url (derive_sibling_endpoint ''https://h'' ''state'') False 160 = URL_OK"
proof -
  have "validate_backend_url ''https://h'' False 155 = URL_OK"
    by (simp add: validate_backend_url_def)
  from sibling_of_validated [OF this, of "''state''"] show ?thesis
    by auto
qed

section \<open>The name of the setup access point\<close>

definition is_alnum :: "char \<Rightarrow> bool" where
  "is_alnum c = (is_digit c \<or> (65 \<le> (of_char c :: nat) \<and> (of_char c :: nat) \<le> 90)
     \<or> (97 \<le> (of_char c :: nat) \<and> (of_char c :: nat) \<le> 122))"

definition compute_setup_ap_ssid :: "string \<Rightarrow> string" where
  "compute_setup_ap_ssid identity_name =
     (let alnum = filter is_alnum identity_name;
          suffix = (if length alnum \<ge> 4 then drop (length alnum - 4) alnum
            else replicate (4 - length alnum) (CHR ''0'') @ alnum)
      in ''MesflowKiosk-'' @ map upper_char suffix)"

lemma is_alnum_upper_char: "is_alnum c \<Longrightarrow> is_alnum (upper_char c)"
  by (auto simp: is_alnum_def upper_char_def is_digit_def)

lemma ssid_shape:
  "\<exists>suffix. compute_setup_ap_ssid name = ''MesflowKiosk-'' @ suffix \<and> length suffix = 4 \<and>
     (\<forall>c\<in>set suffix. is_alnum c \<and> upper_char c = c)"
proof -
  have "set (drop n (filter is_alnum name)) \<subseteq> {c. is_alnum c}" for n
    using set_drop_subset [of n "filter is_alnum name"] by auto
  moreover have "is_alnum (CHR ''0'')"
    by (simp add: is_alnum_def is_digit_def)
  ultimately show ?thesis
    by (auto simp: compute_setup_ap_ssid_def Let_def upper_char_idem intro!: is_alnum_upper_char)
qed

text \<open>The suffix is taken after punctuation is stripped, so it is not the last
  four characters of the name.\<close>

lemma ssid_strips_punctuation: "compute_setup_ap_ssid ''KIOSK-R-01'' = ''MesflowKiosk-KR01''"
  by (simp add: compute_setup_ap_ssid_def is_alnum_def is_digit_def upper_char_def)

end
