(* ===== verification/Device_Config.thy ===== *)
theory Device_Config
  imports Storage_Api Backend_Url
begin

text \<open>
  \<^verbatim>\<open>storage/config_store\<close> and \<^verbatim>\<open>security/device_identity\<close>: the settings and the
  identity of the device, kept in two NVS namespaces.  The classes hold no
  state of their own, so an operation is a function of the NVS; an operation of
  either class is a \<open>config_op\<close> and a history a list of them.
\<close>

section \<open>Settings\<close>

definition config_namespace :: string where
  "config_namespace = ''kiosk_v2''"

definition backend_url_max_length :: int where
  "backend_url_max_length = 160"

definition backend_url_allow_http :: bool where
  "backend_url_allow_http = True"

definition config_wifi_ssid :: "'n nvs_ops \<Rightarrow> 'n \<Rightarrow> string" where
  "config_wifi_ssid nv n = nv_get_string nv n config_namespace ''wifi_ssid'' []"

definition config_wifi_password :: "'n nvs_ops \<Rightarrow> 'n \<Rightarrow> string" where
  "config_wifi_password nv n = nv_get_string nv n config_namespace ''wifi_pass'' []"

definition config_api_endpoint :: "'n nvs_ops \<Rightarrow> 'n \<Rightarrow> string" where
  "config_api_endpoint nv n = nv_get_string nv n config_namespace ''api_endpoint'' []"

definition config_expected_environment :: "'n nvs_ops \<Rightarrow> 'n \<Rightarrow> string" where
  "config_expected_environment nv n = nv_get_string nv n config_namespace ''expected_env'' []"

definition set_expected_environment :: "'n nvs_ops \<Rightarrow> string \<Rightarrow> 'n \<Rightarrow> 'n" where
  "set_expected_environment nv env n = snd (nv_put_string nv n config_namespace ''expected_env'' env)"

definition set_wifi_credentials :: "'n nvs_ops \<Rightarrow> string \<Rightarrow> string \<Rightarrow> 'n \<Rightarrow> 'n" where
  "set_wifi_credentials nv ssid password n =
     (let n1 = snd (nv_put_string nv n config_namespace ''wifi_ssid'' ssid)
      in snd (nv_put_string nv n1 config_namespace ''wifi_pass'' password))"

definition set_api_endpoint :: "'n nvs_ops \<Rightarrow> string \<Rightarrow> 'n \<Rightarrow> backend_url_validation \<times> 'n" where
  "set_api_endpoint nv url n =
     (let result = validate_backend_url url backend_url_allow_http backend_url_max_length in
      if result \<noteq> URL_OK then (result, n)
      else (URL_OK, snd (nv_put_string nv n config_namespace ''api_endpoint'' url)))"

definition config_scanner_baud :: "'n nvs_ops \<Rightarrow> 'n \<Rightarrow> int" where
  "config_scanner_baud nv n = sint (nv_get_int nv n config_namespace ''scanner_baud'' 0)"

definition scanner_bauds :: "int list" where
  "scanner_bauds = [1200, 2400, 4800, 9600, 19200, 38400, 57600, 115200]"

definition set_scanner_baud :: "'n nvs_ops \<Rightarrow> int \<Rightarrow> 'n \<Rightarrow> bool \<times> 'n" where
  "set_scanner_baud nv baud n =
     (if baud \<notin> set scanner_bauds then (False, n)
      else (True, snd (nv_put_int nv n config_namespace ''scanner_baud'' (of_int baud))))"

section \<open>Identity\<close>

datatype provisioning_state = UNPROVISIONED | PROVISIONING | ACTIVE | SUSPENDED | REVOKED

definition provisioning_state_to_string :: "provisioning_state \<Rightarrow> string" where
  "provisioning_state_to_string s =
     (case s of
        UNPROVISIONED \<Rightarrow> ''UNPROVISIONED''
      | PROVISIONING \<Rightarrow> ''PROVISIONING''
      | ACTIVE \<Rightarrow> ''ACTIVE''
      | SUSPENDED \<Rightarrow> ''SUSPENDED''
      | REVOKED \<Rightarrow> ''REVOKED'')"

definition provisioning_state_from_string :: "string \<Rightarrow> provisioning_state" where
  "provisioning_state_from_string s =
     (if s = ''PROVISIONING'' then PROVISIONING
      else if s = ''ACTIVE'' then ACTIVE
      else if s = ''SUSPENDED'' then SUSPENDED
      else if s = ''REVOKED'' then REVOKED
      else UNPROVISIONED)"

definition identity_namespace :: string where
  "identity_namespace = ''kiosk_identity''"

fun hex_upper :: "nat \<Rightarrow> nat \<Rightarrow> string" where
  "hex_upper 0 n = (if n = 0 then [] else hex_upper 0 (n div 16) @ [''0123456789ABCDEF'' ! (n mod 16)])"
| "hex_upper (Suc w) n = hex_upper w (n div 16) @ [''0123456789ABCDEF'' ! (n mod 16)]"

definition identity_hardware_id :: "u64 \<Rightarrow> string" where
  "identity_hardware_id mac = take 23 (''esp32s3-'' @ hex_upper 12 (unat mac))"

definition identity_device_id :: "'n nvs_ops \<Rightarrow> 'n \<Rightarrow> string" where
  "identity_device_id nv n = nv_get_string nv n identity_namespace ''device_id'' []"

definition identity_state :: "'n nvs_ops \<Rightarrow> 'n \<Rightarrow> provisioning_state" where
  "identity_state nv n =
     (if identity_device_id nv n = [] then UNPROVISIONED
      else provisioning_state_from_string (nv_get_string nv n identity_namespace ''state'' ''ACTIVE''))"

definition identity_provision :: "'n nvs_ops \<Rightarrow> string \<Rightarrow> 'n \<Rightarrow> bool \<times> 'n" where
  "identity_provision nv device_id n =
     (if device_id = [] then (False, n)
      else
      let (stored, n1) = nv_put_string nv n identity_namespace ''device_id'' device_id
      in (0 < stored, snd (nv_put_string nv n1 identity_namespace ''state'' ''ACTIVE'')))"

definition identity_set_state :: "'n nvs_ops \<Rightarrow> provisioning_state \<Rightarrow> 'n \<Rightarrow> 'n" where
  "identity_set_state nv s n = snd (nv_put_string nv n identity_namespace ''state'' (provisioning_state_to_string s))"

definition identity_kiosk_token :: "'n nvs_ops \<Rightarrow> 'n \<Rightarrow> string" where
  "identity_kiosk_token nv n = nv_get_string nv n identity_namespace ''kiosk_token'' []"

definition identity_set_kiosk_token :: "'n nvs_ops \<Rightarrow> string \<Rightarrow> 'n \<Rightarrow> bool \<times> 'n" where
  "identity_set_kiosk_token nv token n =
     (let (stored, n1) = nv_put_string nv n identity_namespace ''kiosk_token'' token
      in (0 < stored \<or> token = [], n1))"

lemma provisioning_state_reread [simp]:
  "provisioning_state_from_string (provisioning_state_to_string s) = s"
  by (cases s) (simp_all add: provisioning_state_from_string_def provisioning_state_to_string_def)

section \<open>Histories\<close>

datatype config_op =
    SetWifi string string
  | SetApiEndpoint string
  | SetExpectedEnvironment string
  | SetScannerBaud int
  | Provision string
  | SetIdentityState provisioning_state
  | SetKioskToken string

fun config_step :: "'n nvs_ops \<Rightarrow> config_op \<Rightarrow> 'n \<Rightarrow> 'n" where
  "config_step nv (SetWifi s p) n = set_wifi_credentials nv s p n"
| "config_step nv (SetApiEndpoint u) n = snd (set_api_endpoint nv u n)"
| "config_step nv (SetExpectedEnvironment e) n = set_expected_environment nv e n"
| "config_step nv (SetScannerBaud b) n = snd (set_scanner_baud nv b n)"
| "config_step nv (Provision i) n = snd (identity_provision nv i n)"
| "config_step nv (SetIdentityState s) n = identity_set_state nv s n"
| "config_step nv (SetKioskToken t) n = snd (identity_set_kiosk_token nv t n)"

definition config_ok :: "'n nvs_ops \<Rightarrow> 'n \<Rightarrow> bool" where
  "config_ok nv n =
     ((config_api_endpoint nv n = [] \<or>
       validate_backend_url (config_api_endpoint nv n) backend_url_allow_http backend_url_max_length = URL_OK) \<and>
      config_scanner_baud nv n \<in> {0} \<union> set scanner_bauds)"

lemmas config_defs = config_wifi_ssid_def config_wifi_password_def config_api_endpoint_def
  config_expected_environment_def config_scanner_baud_def set_wifi_credentials_def set_api_endpoint_def
  set_expected_environment_def set_scanner_baud_def identity_device_id_def identity_state_def
  identity_provision_def identity_set_state_def identity_kiosk_token_def identity_set_kiosk_token_def
  config_namespace_def identity_namespace_def

context nvs begin

lemma put_string_other:
  assumes "ns \<noteq> ns' \<or> k \<noteq> k'"
  shows "nv_get_string ops (snd (nv_put_string ops s ns k v)) ns' k' d = nv_get_string ops s ns' k' d"
    "nv_get_int ops (snd (nv_put_string ops s ns k v)) ns' k' i = nv_get_int ops s ns' k' i"
proof -
  obtain l s' where p: "nv_put_string ops s ns k v = (l, s')"
    by fastforce
  have "vals s' (ns', k') = vals s (ns', k')"
    using put_string [OF p] assms by (auto split: if_splits)
  then show "nv_get_string ops (snd (nv_put_string ops s ns k v)) ns' k' d = nv_get_string ops s ns' k' d"
      "nv_get_int ops (snd (nv_put_string ops s ns k v)) ns' k' i = nv_get_int ops s ns' k' i"
    by (simp_all only: p snd_conv get_string get_int)
qed

lemma put_string_same:
  "nv_get_string ops (snd (nv_put_string ops s ns k v)) ns k d
     = (if 0 < fst (nv_put_string ops s ns k v) then v else nv_get_string ops s ns k d)"
  using put_string [of s ns k v] by (cases "nv_put_string ops s ns k v") (simp add: get_string)

lemma put_int_other:
  assumes "ns \<noteq> ns' \<or> k \<noteq> k'"
  shows "nv_get_string ops (snd (nv_put_int ops s ns k v)) ns' k' d = nv_get_string ops s ns' k' d"
proof -
  obtain l s' where p: "nv_put_int ops s ns k v = (l, s')"
    by fastforce
  have "vals s' (ns', k') = vals s (ns', k')"
    using put_int [OF p] assms by (auto split: if_splits)
  then show ?thesis
    by (simp only: p snd_conv get_string)
qed

lemma put_int_same:
  "nv_get_int ops (snd (nv_put_int ops s ns k v)) ns k d
     = (if 0 < fst (nv_put_int ops s ns k v) then v else nv_get_int ops s ns k d)"
  using put_int [of s ns k v] by (cases "nv_put_int ops s ns k v") (simp add: get_int)

lemmas nvs_frame = put_string_other put_string_same put_int_other put_int_same

lemma config_step_ok [inv_intros]:
  assumes "config_ok ops n"
  shows "config_ok ops (config_step ops c n)"
proof (cases c)
  case (SetScannerBaud b)
  have "sint (of_int b :: u32) = b" if "b \<in> set scanner_bauds"
    using that by (auto simp: scanner_bauds_def)
  then show ?thesis
    using assms SetScannerBaud by (auto simp: config_ok_def config_defs nvs_frame)
next
  case (Provision i)
  then show ?thesis
    using assms by (auto simp: config_ok_def config_defs nvs_frame split_beta)
next
  case (SetKioskToken t)
  then show ?thesis
    using assms by (auto simp: config_ok_def config_defs nvs_frame split_beta)
qed (use assms in \<open>auto simp: config_ok_def config_defs nvs_frame Let_def\<close>)

lemma config_run_ok: "config_ok ops n \<Longrightarrow> config_ok ops (fold (config_step ops) cs n)"
  by (induction cs arbitrary: n) (auto intro: inv_intros)

lemma config_isolated:
  "identity_state ops (config_step ops (SetApiEndpoint u) n) = identity_state ops n"
  "identity_kiosk_token ops (config_step ops (SetApiEndpoint u) n) = identity_kiosk_token ops n"
  by (auto simp: config_defs nvs_frame Let_def)

lemma provisioned:
  assumes "identity_provision ops i n = (True, n')"
  shows "identity_device_id ops n' = i \<and> i \<noteq> [] \<and>
    identity_state ops n' \<in> {ACTIVE, provisioning_state_from_string (nv_get_string ops n identity_namespace ''state'' ''ACTIVE'')}"
  using assms by (auto simp: config_defs nvs_frame split_beta provisioning_state_from_string_def split: if_splits)

end

text \<open>C30. Whatever settings operations run in whatever order, and whichever of
  their NVS writes fail: the backend URL in use is unset or a valid one, and
  the scanner baud is unset or one the scanner supports.\<close>

theorem settings_always_valid:
  assumes "nvs nv vals" "config_ok nv n"
  shows "config_ok nv (fold (config_step nv) cs n)"
  using nvs.config_run_ok [OF assms] .

theorem settings_always_valid_witness:
  "config_ok (ram_nvs_ops False) (fold (config_step (ram_nvs_ops False))
     [SetApiEndpoint ''http://host/events'', SetApiEndpoint ''ftp://x'', SetScannerBaud 7]
     \<lparr>rn_vals = Map.empty, rn_power = 3\<rparr>)"
  by (rule settings_always_valid [OF nvs_ram])
    (simp add: config_ok_def config_defs ram_nvs_ops_def)

text \<open>Provisioning writes the state even when the id could not be stored: a
  suspended device whose id is not replaced becomes active again although
  \<^verbatim>\<open>provision\<close> reports failure.\<close>

lemma failed_provision_reactivates:
  assumes "nv_put_string nv n identity_namespace ''device_id'' i = (0, n)" "nvs nv vals"
    "0 < fst (nv_put_string nv n identity_namespace ''state'' ''ACTIVE'')" "i \<noteq> []"
    "identity_device_id nv n \<noteq> []"
  shows "\<exists>n'. identity_provision nv i n = (False, n') \<and> identity_state nv n' = ACTIVE"
  using assms nvs.nvs_frame [OF assms(2)]
  by (simp add: config_defs provisioning_state_from_string_def)

end
