(* ===== verification/Time_Sync.thy ===== *)
theory Time_Sync
  imports Event_Codec
begin

text \<open>
  \<^verbatim>\<open>network/time_sync\<close>: the trust state of the wall clock.  The millisecond
  counter and the epoch clock are arguments; a call of \<^verbatim>\<open>configTime\<close> is counted
  in the state.  The calendar conversion of the C library is written out over
  the integers.
\<close>

section \<open>State\<close>

record time_sync =
  ts_status :: time_sync_status
  ts_last_sync_uptime_ms :: u32
  ts_last_attempt_uptime_ms :: u32
  ts_begun :: bool
  ts_config_calls :: nat

definition new_time_sync :: time_sync where
  "new_time_sync = \<lparr>ts_status = UNSYNCED, ts_last_sync_uptime_ms = 0, ts_last_attempt_uptime_ms = 0,
     ts_begun = False, ts_config_calls = 0\<rparr>"

definition plausible_epoch_floor :: int where
  "plausible_epoch_floor = 1704067200"

definition time_sync_stale_after_s :: u32 where
  "time_sync_stale_after_s = 86400"

definition time_sync_retry_interval_ms :: u32 where
  "time_sync_retry_interval_ms = 60000"

definition time_sync_local_utc_offset_s :: int where
  "time_sync_local_utc_offset_s = 25200"

definition config_time :: "time_sync \<Rightarrow> time_sync" where
  "config_time t = t\<lparr>ts_config_calls := Suc (ts_config_calls t)\<rparr>"

definition time_sync_begin :: "u32 \<Rightarrow> time_sync \<Rightarrow> time_sync" where
  "time_sync_begin now t =
     config_time (t\<lparr>ts_begun := True, ts_status := SYNCING, ts_last_attempt_uptime_ms := now\<rparr>)"

definition sync_age_s :: "u32 \<Rightarrow> time_sync \<Rightarrow> u32" where
  "sync_age_s now t = (if ts_last_sync_uptime_ms t = 0 then 0 else (now - ts_last_sync_uptime_ms t) div 1000)"

definition clock_trusted :: "time_sync \<Rightarrow> bool" where
  "clock_trusted t = (ts_status t = SYNCED \<or> ts_status t = STALE)"

definition poll_plausible :: "u32 \<Rightarrow> time_sync \<Rightarrow> time_sync" where
  "poll_plausible now t =
     (let t1 = (if \<not> clock_trusted t then t\<lparr>ts_last_sync_uptime_ms := now\<rparr> else t);
          t2 = t1\<lparr>ts_status := if sync_age_s now t1 > time_sync_stale_after_s then STALE else SYNCED\<rparr>
      in if ts_status t2 = STALE \<and> now - ts_last_attempt_uptime_ms t2 \<ge> time_sync_retry_interval_ms
         then config_time (t2\<lparr>ts_last_attempt_uptime_ms := now\<rparr>) else t2)"

definition time_sync_poll :: "u32 \<Rightarrow> int \<Rightarrow> time_sync \<Rightarrow> time_sync" where
  "time_sync_poll now epoch t =
     (if \<not> ts_begun t then t
      else if epoch \<ge> plausible_epoch_floor then poll_plausible now t
      else
      let t1 = (if ts_status t = SYNCED then t\<lparr>ts_status := SYNC_FAILED\<rparr> else t)
      in if now - ts_last_attempt_uptime_ms t1 \<ge> time_sync_retry_interval_ms
         then config_time (t1\<lparr>ts_last_attempt_uptime_ms := now, ts_status := SYNCING\<rparr>) else t1)"

section \<open>Reading the clock\<close>

text \<open>Days since 1970-01-01 to year, month and day, as \<^verbatim>\<open>gmtime_r\<close> has them.\<close>

definition civil_from_days :: "int \<Rightarrow> int \<times> int \<times> int" where
  "civil_from_days days =
     (let z = days + 719468; era = z div 146097; doe = z - era * 146097;
          yoe = (doe - doe div 1460 + doe div 36524 - doe div 146096) div 365;
          doy = doe - (365 * yoe + yoe div 4 - yoe div 100);
          mp = (5 * doy + 2) div 153; d = doy - (153 * mp + 2) div 5 + 1;
          m = (if mp < 10 then mp + 3 else mp - 9)
      in (yoe + era * 400 + (if m \<le> 2 then 1 else 0), m, d))"

definition two_digits :: "int \<Rightarrow> string" where
  "two_digits i = [digit_char (nat i div 10), digit_char (nat i mod 10)]"

definition iso8601_now :: "int \<Rightarrow> time_sync \<Rightarrow> string" where
  "iso8601_now epoch t =
     (if \<not> clock_trusted t then []
      else
      let (y, m, d) = civil_from_days (epoch div 86400); s = epoch mod 86400
      in dec_int y @ ''-'' @ two_digits m @ ''-'' @ two_digits d @ ''T'' @ two_digits (s div 3600) @ '':'' @
         two_digits (s div 60 mod 60) @ '':'' @ two_digits (s mod 60) @ ''Z'')"

definition local_hhmm :: "int \<Rightarrow> time_sync \<Rightarrow> string" where
  "local_hhmm epoch t =
     (if \<not> clock_trusted t then []
      else
      let s = (epoch + time_sync_local_utc_offset_s) mod 86400
      in two_digits (s div 3600) @ '':'' @ two_digits (s div 60 mod 60))"

lemma civil_examples:
  "civil_from_days 0 = (1970, 1, 1)" "civil_from_days 19723 = (2024, 1, 1)" "civil_from_days 19782 = (2024, 2, 29)"
  by code_simp+

section \<open>Trust\<close>

lemmas poll_defs = time_sync_poll_def poll_plausible_def config_time_def clock_trusted_def Let_def

definition time_sync_ok :: "time_sync \<Rightarrow> bool" where
  "time_sync_ok t = (\<not> ts_begun t \<longrightarrow> ts_status t = UNSYNCED \<and> ts_config_calls t = 0)"

lemma poll_begun [simp]: "ts_begun (time_sync_poll now epoch t) = ts_begun t"
  by (simp add: poll_defs)

lemma time_sync_ok_steps [inv_intros]:
  "time_sync_ok new_time_sync"
  "time_sync_ok (time_sync_begin now t)"
  "time_sync_ok t \<Longrightarrow> time_sync_ok (time_sync_poll now epoch t)"
  by (simp_all add: time_sync_ok_def new_time_sync_def time_sync_begin_def config_time_def)
    (simp add: time_sync_poll_def)

lemma dec_int_not_Nil [simp]: "dec_int i \<noteq> []"
  by (simp add: dec_int_def)

lemma iso8601_shown [simp]: "iso8601_now e t = [] \<longleftrightarrow> \<not> clock_trusted t"
  by (simp add: iso8601_now_def split_beta Let_def)

lemma hhmm_shown [simp]: "local_hhmm e t = [] \<longleftrightarrow> \<not> clock_trusted t"
  by (simp add: local_hhmm_def two_digits_def Let_def)

lemma poll_plausible_status:
  "ts_status (poll_plausible now t) = (if sync_age_s now (poll_plausible now t) > time_sync_stale_after_s
     then STALE else SYNCED)"
  by (simp add: poll_plausible_def config_time_def sync_age_s_def Let_def)



section \<open>A stale sync stays stale\<close>

lemma stale_poll:
  assumes "ts_status t = STALE" "ts_begun t" "epoch \<ge> plausible_epoch_floor"
    "sync_age_s now t > time_sync_stale_after_s"
  shows "ts_status (time_sync_poll now epoch t) = STALE \<and> ts_begun (time_sync_poll now epoch t) \<and>
    ts_last_sync_uptime_ms (time_sync_poll now epoch t) = ts_last_sync_uptime_ms t"
  using assms by (simp add: time_sync_poll_def poll_plausible_def config_time_def clock_trusted_def
      sync_age_s_def Let_def)

text \<open>C20. Once STALE, the retries of \<^verbatim>\<open>configTime\<close> never lead back to SYNCED: as
  long as the clock stays plausible and the age above the limit, every poll
  leaves STALE and the time of the last sync in place, however often the
  client is restarted.\<close>

theorem stale_never_reconfirmed:
  assumes "ts_status t = STALE" "ts_begun t"
    "\<forall>(now, epoch) \<in> set polls. epoch \<ge> plausible_epoch_floor \<and> sync_age_s now t > time_sync_stale_after_s"
  shows "ts_status (fold (\<lambda>(now, epoch). time_sync_poll now epoch) polls t) = STALE"
proof -
  have "ts_status (fold (\<lambda>(now, epoch). time_sync_poll now epoch) polls t) = STALE \<and>
      ts_last_sync_uptime_ms (fold (\<lambda>(now, epoch). time_sync_poll now epoch) polls t) = ts_last_sync_uptime_ms t"
    using assms
  proof (induction polls arbitrary: t)
    case (Cons p polls)
    obtain now epoch where p: "p = (now, epoch)"
      by fastforce
    have s: "ts_status (time_sync_poll now epoch t) = STALE" "ts_begun (time_sync_poll now epoch t)"
        "ts_last_sync_uptime_ms (time_sync_poll now epoch t) = ts_last_sync_uptime_ms t"
      using stale_poll [of t epoch now] Cons.prems p by auto
    then have age: "sync_age_s n (time_sync_poll now epoch t) = sync_age_s n t" for n
      by (simp add: sync_age_s_def)
    show ?case
      using Cons.IH [OF s(1,2)] Cons.prems(3) s(3) by (auto simp: p age)
  qed simp
  then show ?thesis by blast
qed

definition stale_example :: time_sync where
  "stale_example = \<lparr>ts_status = STALE, ts_last_sync_uptime_ms = 5, ts_last_attempt_uptime_ms = 0,
     ts_begun = True, ts_config_calls = 1\<rparr>"

theorem stale_never_reconfirmed_witness:
  "ts_status (fold (\<lambda>(now, epoch). time_sync_poll now epoch)
     [(90000000, 1800000000), (90100000, 1800000100)] stale_example) = STALE"
  by (rule stale_never_reconfirmed)
    (simp_all add: stale_example_def plausible_epoch_floor_def sync_age_s_def time_sync_stale_after_s_def)

end
