(* ===== verification/Bootstrap.thy ===== *)
theory Bootstrap
  imports State_Projection Event_Codec
begin

text \<open>
  \<^verbatim>\<open>network/bootstrap_client\<close>: the body of the bootstrap request and the reading
  of the response, both without I/O.
\<close>

datatype bootstrap_status = BS_NOT_ATTEMPTED | BS_OK | BS_REJECTED | BS_FAILED

definition bootstrap_status_to_string :: "bootstrap_status \<Rightarrow> string" where
  "bootstrap_status_to_string s =
     (case s of BS_NOT_ATTEMPTED \<Rightarrow> ''NOT_ATTEMPTED'' | BS_OK \<Rightarrow> ''OK'' | BS_REJECTED \<Rightarrow> ''REJECTED''
      | BS_FAILED \<Rightarrow> ''FAILED'')"

record bootstrap_result =
  br_status :: bootstrap_status
  br_last_ok_uptime_ms :: u32
  br_accepted_protocol_version :: u32
  br_device_status :: string
  br_state_name :: string
  br_has_snapshot :: bool
  br_snapshot :: state_snapshot
  br_ui_bundle_version :: u32
  br_ui_bundle_hash :: string
  br_server_environment :: string
  br_server_role :: string
  br_server_version :: string
  br_reject_message :: string

definition new_bootstrap_result :: bootstrap_result where
  "new_bootstrap_result = \<lparr>br_status = BS_NOT_ATTEMPTED, br_last_ok_uptime_ms = 0,
     br_accepted_protocol_version = 0, br_device_status = [], br_state_name = [], br_has_snapshot = False,
     br_snapshot = default_snapshot, br_ui_bundle_version = 0, br_ui_bundle_hash = [],
     br_server_environment = [], br_server_role = [], br_server_version = [], br_reject_message = []\<rparr>"

definition build_request_body :: "string \<Rightarrow> string \<Rightarrow> string \<Rightarrow> u32 \<Rightarrow> string" where
  "build_request_body device_id hardware_id boot_id last_device_seq =
     ''{'' @ jkey ''device_id'' @ jstr device_id @ '','' @ jkey ''hardware_id'' @ jstr hardware_id @
     '','' @ jkey ''boot_id'' @ jstr boot_id @
     '','' @ jkey ''runtime'' @ ''{'' @ jkey ''version'' @ jstr ''0.16.0'' @ '','' @ jkey ''protocol_version'' @ ''1},'' @
     jkey ''hardware'' @ ''{'' @ jkey ''chip'' @ jstr ''ESP32-S3'' @ '','' @ jkey ''flash_mb'' @ ''16,'' @
     jkey ''psram_mb'' @ ''8,'' @ jkey ''display'' @ jstr ''ILI9341'' @ '','' @ jkey ''scanner'' @ jstr ''GM65'' @
     '','' @ jkey ''keypad'' @ jstr ''PCF8574'' @ ''},'' @
     jkey ''current'' @ ''{'' @ jkey ''ui_bundle'' @ ''0,'' @ jkey ''workflow'' @ ''0,'' @
     jkey ''state_version'' @ ''0,'' @ jkey ''last_device_seq'' @ dec (unat last_device_seq) @ ''}}''"

definition parse_response :: "u32 \<Rightarrow> int \<Rightarrow> string \<Rightarrow> bootstrap_result" where
  "parse_response now http_status body =
     (let result = new_bootstrap_result in
      if http_status \<le> 0 then result\<lparr>br_status := BS_FAILED\<rparr>
      else
      let accepted = json_extract_bool body ''accepted'' False;
          protocol_obj = json_extract_object body ''protocol'';
          accepted_version = (if protocol_obj = [] then 0 else json_extract_int protocol_obj ''accepted_version'' 0) in
      if \<not> accepted \<or> (accepted_version \<noteq> 0 \<and> accepted_version \<noteq> 1)
      then result\<lparr>br_status := BS_REJECTED, br_accepted_protocol_version := of_int accepted_version,
             br_reject_message := json_extract_string body ''message'' []\<rparr>
      else
      let state_obj = json_extract_object body ''state'';
          snap = parse_state_snapshot_json body;
          desired_obj = json_extract_object body ''desired'' in
      result\<lparr>br_status := BS_OK, br_last_ok_uptime_ms := now,
        br_accepted_protocol_version := (if accepted_version \<noteq> 0 then of_int accepted_version else 1),
        br_device_status := json_extract_string body ''device_status'' [],
        br_state_name := (if state_obj = [] then [] else json_extract_string state_obj ''name'' []),
        br_has_snapshot := snap \<noteq> None,
        br_snapshot := (case snap of None \<Rightarrow> default_snapshot | Some s \<Rightarrow> s),
        br_ui_bundle_version := (if desired_obj = [] then 0
          else of_int (json_extract_int desired_obj ''ui_bundle_version'' 0)),
        br_ui_bundle_hash := (if desired_obj = [] then [] else json_extract_string desired_obj ''ui_bundle_hash'' []),
        br_server_environment := json_extract_string body ''environment'' [],
        br_server_role := json_extract_string body ''server_role'' [],
        br_server_version := json_extract_string body ''version'' []\<rparr>)"

section \<open>The request can be read back\<close>

lemma bootstrap_keys [simp]:
  "simple_key ''runtime''" "simple_key ''version''" "simple_key ''hardware''" "simple_key ''chip''"
  "simple_key ''flash_mb''" "simple_key ''psram_mb''" "simple_key ''display''" "simple_key ''scanner''"
  "simple_key ''keypad''" "simple_key ''current''" "simple_key ''ui_bundle''" "simple_key ''workflow''"
  "simple_key ''state_version''" "simple_key ''last_device_seq''"
  by (simp_all add: simple_key_def)

lemma request_lookups:
  "\<exists>r. find_value_start (build_request_body d h b n) ''device_id'' = Some (jstr d @ r)"
  "\<exists>r. find_value_start (build_request_body d h b n) ''hardware_id'' = Some (jstr h @ r)"
  "\<exists>r. find_value_start (build_request_body d h b n) ''boot_id'' = Some (jstr b @ r)"
  "find_value_start (build_request_body d h b n) ''last_device_seq'' = Some (dec (unat n) @ ''}}'')"
  by (simp_all add: build_request_body_def find_simps)

text \<open>The server reads back from the bootstrap request exactly the identity
  the device put in, quotes and backslashes included, and the last sequence
  number.\<close>

theorem bootstrap_request_roundtrip:
  assumes "plain d" "plain h" "plain b"
  shows "json_extract_string (build_request_body d h b n) ''device_id'' [] = d \<and>
    json_extract_string (build_request_body d h b n) ''hardware_id'' [] = h \<and>
    json_extract_string (build_request_body d h b n) ''boot_id'' [] = b \<and>
    json_extract_int (build_request_body d h b n) ''last_device_seq'' (-1) = int (unat n)"
proof (intro conjI)
  show "json_extract_string (build_request_body d h b n) ''device_id'' [] = d"
    "json_extract_string (build_request_body d h b n) ''hardware_id'' [] = h"
    "json_extract_string (build_request_body d h b n) ''boot_id'' [] = b"
    using request_lookups [of d h b n] assms extract_string_value by blast+
  show "json_extract_int (build_request_body d h b n) ''last_device_seq'' (-1) = int (unat n)"
    using extract_int_value [OF request_lookups(4) [of d h b n, simplified]] unsigned_less [where 'a = int, of n]
    by (simp add: is_digit_def)
qed

theorem bootstrap_request_roundtrip_witness:
  "json_extract_string (build_request_body [dq, CHR ''a''] ''hw'' ''b1'' 7) ''device_id'' [] = [dq, CHR ''a'']"
  using bootstrap_request_roundtrip [of "[dq, CHR ''a'']" "''hw''" "''b1''" 7]
  by (simp add: plain_def is_ctrl_def)

section \<open>The response\<close>

lemma bootstrap_outcome:
  "br_status (parse_response now st body) = BS_OK \<longleftrightarrow> 0 < st \<and> json_extract_bool body ''accepted'' False \<and>
     (json_extract_object body ''protocol'' = [] \<or>
      json_extract_int (json_extract_object body ''protocol'') ''accepted_version'' 0 \<in> {0, 1})"
  "br_status (parse_response now st body) \<noteq> BS_OK \<Longrightarrow> \<not> br_has_snapshot (parse_response now st body)"
  by (auto simp: parse_response_def new_bootstrap_result_def Let_def)

end
