(* ===== verification/Ui_Bundle.thy ===== *)
theory Ui_Bundle
  imports State_Projection
begin

text \<open>
  \<^verbatim>\<open>protocol/ui_bundle\<close>: screens as data, their parser, the lookup of a screen,
  the substitution of tokens and the decision whether to fetch a new bundle.
  A position in a template is the text from there on.
\<close>

section \<open>Data\<close>

datatype ui_component_type = UI_TEXT | UI_RECT | UI_LINE | UI_UNSUPPORTED

definition ui_component_type_to_string :: "ui_component_type \<Rightarrow> string" where
  "ui_component_type_to_string t =
     (case t of UI_TEXT \<Rightarrow> ''text'' | UI_RECT \<Rightarrow> ''rect'' | UI_LINE \<Rightarrow> ''line'' | UI_UNSUPPORTED \<Rightarrow> ''unsupported'')"

definition ui_component_type_from_string :: "string \<Rightarrow> ui_component_type" where
  "ui_component_type_from_string s =
     (if s = ''text'' then UI_TEXT else if s = ''rect'' then UI_RECT
      else if s = ''line'' then UI_LINE else UI_UNSUPPORTED)"

record ui_component =
  uc_type :: ui_component_type
  uc_x :: u16
  uc_y :: u16
  uc_w :: u16
  uc_h :: u16
  uc_font_size :: u8
  uc_color :: string
  uc_text :: string
  uc_align :: string

record ui_screen =
  us_screen_id :: string
  us_components :: "ui_component list"

record ui_bundle_manifest =
  um_version :: u32
  um_sha256 :: string
  um_schema_version :: u32
  um_min_runtime_version :: string

record ui_bundle =
  ub_manifest :: ui_bundle_manifest
  ub_screens :: "ui_screen list"

definition empty_bundle :: ui_bundle where
  "empty_bundle = \<lparr>ub_manifest = \<lparr>um_version = 0, um_sha256 = [], um_schema_version = 0,
     um_min_runtime_version = []\<rparr>, ub_screens = []\<rparr>"

section \<open>Parsing\<close>

definition parse_component :: "string \<Rightarrow> ui_component option" where
  "parse_component json =
     (let t = ui_component_type_from_string (json_extract_string json ''type'' []) in
      if t = UI_UNSUPPORTED then None
      else Some \<lparr>uc_type = t,
        uc_x = of_int (json_extract_int json ''x'' 0), uc_y = of_int (json_extract_int json ''y'' 0),
        uc_w = of_int (json_extract_int json ''w'' 0), uc_h = of_int (json_extract_int json ''h'' 0),
        uc_font_size = of_int (json_extract_int json ''font_size'' 1),
        uc_color = json_extract_string json ''color'' ''#FFFFFF'',
        uc_text = json_extract_string json ''text'' [],
        uc_align = json_extract_string json ''align'' ''left''\<rparr>)"

definition parse_screen :: "string \<Rightarrow> ui_screen option" where
  "parse_screen json =
     (let i = json_extract_string json ''id'' [] in
      if i = [] then None
      else Some \<lparr>us_screen_id = i,
        us_components = List.map_filter parse_component (json_extract_object_array json ''components'')\<rparr>)"

text \<open>The C++ function returns false and leaves \<open>out\<close> filled up to the point of
  failure; no caller looks at it then.\<close>

definition parse_ui_bundle_json :: "string \<Rightarrow> ui_bundle option" where
  "parse_ui_bundle_json json =
     (let manifest_json = json_extract_object json ''manifest'' in
      if manifest_json = [] then None
      else if \<not> json_has_key manifest_json ''version'' \<or> \<not> json_has_key manifest_json ''schema_version'' then None
      else
      let manifest = \<lparr>um_version = of_int (json_extract_int manifest_json ''version'' 0),
            um_sha256 = json_extract_string manifest_json ''sha256'' [],
            um_schema_version = of_int (json_extract_int manifest_json ''schema_version'' 0),
            um_min_runtime_version = json_extract_string manifest_json ''min_runtime_version'' []\<rparr>;
          screen_jsons = json_extract_object_array json ''screens'' in
      if screen_jsons = [] then None
      else
      let screens = List.map_filter parse_screen screen_jsons in
      if screens = [] then None else Some \<lparr>ub_manifest = manifest, ub_screens = screens\<rparr>)"

definition find_ui_screen :: "ui_bundle \<Rightarrow> string \<Rightarrow> ui_screen option" where
  "find_ui_screen b i = find (\<lambda>s. us_screen_id s = i) (ub_screens b)"

section \<open>Tokens\<close>

definition token_value :: "view_model \<Rightarrow> string \<Rightarrow> string \<Rightarrow> string" where
  "token_value v digits token =
     (if token = ''employee_name'' then (if vm_has_employee_name v then vm_employee_name v else [])
      else if token = ''operation_code'' then (if vm_has_operation_code v then vm_operation_code v else [])
      else if token = ''operation_name'' then (if vm_has_operation_name v then vm_operation_name v else [])
      else if token = ''session_id'' then (if vm_has_session_id v then vm_session_id v else [])
      else if token = ''started_at'' then (if vm_has_started_at v then vm_started_at v else [])
      else if token = ''target_qty'' then (if vm_has_target_qty v then dec_int (sint (vm_target_qty v)) else [])
      else if token = ''produced_qty'' then (if vm_has_produced_qty v then dec_int (sint (vm_produced_qty v)) else [])
      else if token = ''local_digit_buffer'' then digits
      else [])"

text \<open>The text before the next two closing braces, and what follows them.\<close>

fun split_close :: "string \<Rightarrow> (string \<times> string) option" where
  "split_close [] = None"
| "split_close (c # s) =
     (if c = CHR ''}'' \<and> (\<exists>r. s = CHR ''}'' # r) then Some ([], tl s)
      else map_option (\<lambda>(a, b). (c # a, b)) (split_close s))"

lemma split_close_shorter: "split_close s = Some (a, b) \<Longrightarrow> length b < length s"
  by (induction s arbitrary: a) (auto split: if_splits)

function resolve_ui_tokens :: "view_model \<Rightarrow> string \<Rightarrow> string \<Rightarrow> string" where
  "resolve_ui_tokens v digits text =
     (case text of
        [] \<Rightarrow> []
      | c # s \<Rightarrow>
          if c = CHR ''{'' \<and> s \<noteq> [] \<and> hd s = CHR ''{'' then
            (case split_close (tl s) of
               None \<Rightarrow> text
             | Some (token, rest) \<Rightarrow> token_value v digits token @ resolve_ui_tokens v digits rest)
          else c # resolve_ui_tokens v digits s)"
  by pat_completeness auto
termination
proof (relation "measure (\<lambda>(v, d, t). length t)", goal_cases)
  case (2 v d tx c s a token rest)
  then show ?case
    using split_close_shorter [of "tl s" token rest] by (cases s) auto
qed auto

declare resolve_ui_tokens.simps [simp del]

definition ui_bundle_needs_sync :: "u32 \<Rightarrow> string \<Rightarrow> u32 \<Rightarrow> string \<Rightarrow> bool" where
  "ui_bundle_needs_sync local_version local_hash desired_version desired_hash =
     (if desired_version = 0 \<and> desired_hash = [] then False
      else if local_version \<noteq> desired_version then True
      else if desired_hash \<noteq> [] \<and> local_hash \<noteq> desired_hash then True
      else False)"

section \<open>What parsing guarantees\<close>

lemma parsed_components:
  "parse_screen json = Some s \<Longrightarrow> us_screen_id s \<noteq> [] \<and> (\<forall>c\<in>set (us_components s). uc_type c \<noteq> UI_UNSUPPORTED)"
  by (auto simp: parse_screen_def parse_component_def Let_def List.map_filter_def split: if_splits)

lemma parsed_bundle:
  assumes "parse_ui_bundle_json json = Some b"
  shows "ub_screens b \<noteq> [] \<and> (\<forall>s\<in>set (ub_screens b). us_screen_id s \<noteq> [] \<and>
    (\<forall>c\<in>set (us_components s). uc_type c \<noteq> UI_UNSUPPORTED))"
  using assms parsed_components
  by (fastforce simp: parse_ui_bundle_json_def Let_def List.map_filter_def split: if_splits)

section \<open>What substitution does\<close>

lemma split_close_token: "CHR ''}'' \<notin> set token \<Longrightarrow> split_close (token @ ''}}'' @ rest) = Some (token, rest)"
  by (induction token) auto

lemma resolve_literal: "CHR ''{'' \<notin> set s \<Longrightarrow> resolve_ui_tokens v d (s @ t) = s @ resolve_ui_tokens v d t"
  by (induction s) (auto simp: resolve_ui_tokens.simps [of _ _ "_ # _"])

lemma resolve_token:
  "CHR ''}'' \<notin> set token \<Longrightarrow>
     resolve_ui_tokens v d (''{{'' @ token @ ''}}'' @ rest) = token_value v d token @ resolve_ui_tokens v d rest"
  by (subst resolve_ui_tokens.simps) (simp add: split_close_token [simplified])

text \<open>A template is a list of literals and tokens.\<close>

datatype piece = Lit string | Token string

fun piece_text :: "piece \<Rightarrow> string" where
  "piece_text (Lit s) = s"
| "piece_text (Token t) = ''{{'' @ t @ ''}}''"

fun piece_value :: "view_model \<Rightarrow> string \<Rightarrow> piece \<Rightarrow> string" where
  "piece_value v d (Lit s) = s"
| "piece_value v d (Token t) = token_value v d t"

fun piece_ok :: "piece \<Rightarrow> bool" where
  "piece_ok (Lit s) = (CHR ''{'' \<notin> set s)"
| "piece_ok (Token t) = (CHR ''}'' \<notin> set t)"

text \<open>Substitution replaces every token of a template by its value, absent
  fields and unknown tokens by nothing, and leaves the rest alone; values are
  not scanned again, so a name that contains braces cannot inject a token.\<close>

lemma tokens_resolved:
  assumes "\<forall>p\<in>set ps. piece_ok p"
  shows "resolve_ui_tokens v d (concat (map piece_text ps)) = concat (map (piece_value v d) ps)"
  using assms
proof (induction ps)
  case Nil
  then show ?case by (simp add: resolve_ui_tokens.simps)
next
  case (Cons p ps)
  then show ?case
    by (cases p) (simp_all add: resolve_literal resolve_token [simplified])
qed

lemma tokens_resolved_witness:
  "resolve_ui_tokens (empty_view\<lparr>vm_has_employee_name := True, vm_employee_name := ''{{session_id}}''\<rparr>) ''12''
     (concat (map piece_text [Lit ''NV: '', Token ''employee_name'', Lit '' / '', Token ''nope'']))
   = ''NV: {{session_id}} / ''"
  by (subst tokens_resolved) (simp_all add: token_value_def)

end
