(* ===== verification/Ui_Bundle_Store.thy ===== *)
theory Ui_Bundle_Store
  imports Storage_Api Ui_Bundle
begin

text \<open>
  \<^verbatim>\<open>storage/ui_bundle_store\<close>: two slots for a UI bundle, the raw JSON of each in
  a SPIFFS file and its metadata in NVS, and one NVS key that names the active
  slot.  SHA-256 is a parameter.  What the next boot would load is a function
  of the files and the NVS alone (\<open>boot_bundle\<close>); the theorems say how staging
  and activating move it, whatever operation fails.
\<close>

section \<open>State\<close>

datatype ui_sync_state =
  SY_IDLE | SY_UPDATE_AVAILABLE | SY_DOWNLOADING | SY_VERIFYING | SY_STAGED | SY_ACTIVATING | SY_ACTIVE
  | SY_UPDATE_FAILED

definition ui_sync_state_to_string :: "ui_sync_state \<Rightarrow> string" where
  "ui_sync_state_to_string s =
     (case s of SY_IDLE \<Rightarrow> ''IDLE'' | SY_UPDATE_AVAILABLE \<Rightarrow> ''UPDATE_AVAILABLE''
      | SY_DOWNLOADING \<Rightarrow> ''DOWNLOADING'' | SY_VERIFYING \<Rightarrow> ''VERIFYING'' | SY_STAGED \<Rightarrow> ''STAGED''
      | SY_ACTIVATING \<Rightarrow> ''ACTIVATING'' | SY_ACTIVE \<Rightarrow> ''ACTIVE'' | SY_UPDATE_FAILED \<Rightarrow> ''UPDATE_FAILED'')"

datatype ui_stage_result =
  STAGE_OK | STAGE_HASH_MISMATCH | STAGE_PARSE_FAILED | STAGE_SCHEMA_UNSUPPORTED | STAGE_STORAGE_FAILED

definition ui_stage_result_to_string :: "ui_stage_result \<Rightarrow> string" where
  "ui_stage_result_to_string r =
     (case r of STAGE_OK \<Rightarrow> ''STAGED'' | STAGE_HASH_MISMATCH \<Rightarrow> ''HASH_MISMATCH''
      | STAGE_PARSE_FAILED \<Rightarrow> ''PARSE_FAILED'' | STAGE_SCHEMA_UNSUPPORTED \<Rightarrow> ''SCHEMA_UNSUPPORTED''
      | STAGE_STORAGE_FAILED \<Rightarrow> ''STORAGE_FAILED'')"

record ui_store =
  us_has_active :: bool
  us_active_bundle :: ui_bundle
  us_active_version :: u32
  us_active_hash :: string
  us_active_schema_version :: u32
  us_active_slot :: char
  us_last_good_version :: u32
  us_staged :: bool
  us_staged_slot :: char
  us_staged_version :: u32
  us_sync_state :: ui_sync_state
  us_last_update_error :: string

definition new_ui_store :: ui_store where
  "new_ui_store = \<lparr>us_has_active = False, us_active_bundle = empty_bundle, us_active_version = 0,
     us_active_hash = [], us_active_schema_version = 0, us_active_slot = CHR ''A'', us_last_good_version = 0,
     us_staged = False, us_staged_slot = CHR ''B'', us_staged_version = 0, us_sync_state = SY_IDLE,
     us_last_update_error = []\<rparr>"

definition ui_namespace :: string where
  "ui_namespace = ''ui_bundle''"

definition spiffs_path_for :: "char \<Rightarrow> string" where
  "spiffs_path_for slot = (if slot = CHR ''A'' then ''/ui_bundle_a.json'' else ''/ui_bundle_b.json'')"

definition ui_schema_supported_min :: u32 where
  "ui_schema_supported_min = 1"

definition ui_schema_supported_max :: u32 where
  "ui_schema_supported_max = 1"

section \<open>Files\<close>

text \<open>The read loop runs while \<open>available\<close> is positive; the first argument bounds
  it by the length found at the start.\<close>

fun read_chars :: "'d spiffs_ops \<Rightarrow> string \<Rightarrow> 'd \<Rightarrow> nat \<Rightarrow> nat \<Rightarrow> bytes" where
  "read_chars ops p d 0 pos = []"
| "read_chars ops p d (Suc k) pos =
     (if fs_available ops d p pos = 0 then []
      else (case fs_read ops d p pos 1 of [] \<Rightarrow> 0xFF | b # _ \<Rightarrow> b) # read_chars ops p d k (Suc pos))"

definition read_spiffs_file :: "'d spiffs_ops \<Rightarrow> string \<Rightarrow> 'd \<Rightarrow> string \<times> 'd" where
  "read_spiffs_file ops p d =
     (if \<not> fs_exists ops d p then ([], d)
      else
      let (ok, d1) = fs_open ops d p MODE_READ in
      if \<not> ok then ([], d1)
      else (string_of (read_chars ops p d1 (fs_available ops d1 p 0) 0), d1))"

definition write_spiffs_file :: "'d spiffs_ops \<Rightarrow> string \<Rightarrow> string \<Rightarrow> 'd \<Rightarrow> bool \<times> 'd" where
  "write_spiffs_file ops p data d =
     (let (ok, d1) = fs_open ops d p MODE_WRITE in
      if \<not> ok then (False, d1)
      else
      let (n, d2) = fs_write ops d1 p (bytes_of data) in (n = length data, d2))"

definition sha256_hex :: "(string \<Rightarrow> bytes) \<Rightarrow> string \<Rightarrow> string" where
  "sha256_hex sha data = concat (map (\<lambda>b. [hex_char (unat b div 16), hex_char (unat b mod 16)]) (sha data))"

definition lower_char :: "char \<Rightarrow> char" where
  "lower_char c = (if 65 \<le> (of_char c :: nat) \<and> (of_char c :: nat) \<le> 90 then char_of (of_char c + 32 :: nat) else c)"

definition to_lower :: "string \<Rightarrow> string" where
  "to_lower s = map lower_char s"

section \<open>Operations\<close>

definition meta_key :: "string \<Rightarrow> char \<Rightarrow> string" where
  "meta_key prefix slot = prefix @ [slot]"

definition load_active_from_nvs :: "'d spiffs_ops \<Rightarrow> 'n nvs_ops \<Rightarrow> 'n \<Rightarrow> ui_store \<times> 'd \<Rightarrow> ui_store \<times> 'd" where
  "load_active_from_nvs ops nv n = (\<lambda>(st, d).
     (let slot = nv_get_string nv n ui_namespace ''meta_slot'' [];
          st1 = st\<lparr>us_last_good_version := nv_get_uint nv n ui_namespace ''last_good_ver'' 0\<rparr> in
      if slot = [] then (st1\<lparr>us_has_active := False\<rparr>, d)
      else
      let c = hd slot;
          st2 = st1\<lparr>us_active_slot := c,
            us_active_version := nv_get_uint nv n ui_namespace (meta_key ''meta_ver_'' c) 0,
            us_active_hash := nv_get_string nv n ui_namespace (meta_key ''meta_hash_'' c) [],
            us_active_schema_version := nv_get_uint nv n ui_namespace (meta_key ''meta_schema_'' c) 0\<rparr>;
          (raw_json, d1) = read_spiffs_file ops (spiffs_path_for c) d in
      if raw_json = [] then (st2\<lparr>us_has_active := False\<rparr>, d1)
      else
      (case parse_ui_bundle_json (c_str raw_json) of
         None \<Rightarrow> (st2\<lparr>us_has_active := False\<rparr>, d1)
       | Some parsed \<Rightarrow> (st2\<lparr>us_active_bundle := parsed, us_has_active := True, us_sync_state := SY_ACTIVE\<rparr>, d1))))"

definition ui_store_init :: "'d spiffs_ops \<Rightarrow> 'n nvs_ops \<Rightarrow> 'n \<Rightarrow> ui_store \<times> 'd \<Rightarrow> ui_store \<times> 'd" where
  "ui_store_init ops nv n = (\<lambda>(st, d). load_active_from_nvs ops nv n (st, snd (fs_begin ops d)))"

definition stage_target :: "ui_store \<Rightarrow> char" where
  "stage_target st = (if us_active_slot st = CHR ''A'' then CHR ''B'' else CHR ''A'')"

definition stage_failed :: "string \<Rightarrow> ui_store \<Rightarrow> ui_store" where
  "stage_failed e st = st\<lparr>us_last_update_error := e, us_sync_state := SY_UPDATE_FAILED\<rparr>"

definition write_meta :: "'n nvs_ops \<Rightarrow> char \<Rightarrow> u32 \<Rightarrow> string \<Rightarrow> u32 \<Rightarrow> 'n \<Rightarrow> bool \<times> 'n" where
  "write_meta nv slot version hash schema n =
     (let (l1, n1) = nv_put_uint nv n ui_namespace (meta_key ''meta_ver_'' slot) version in
      if l1 = 0 then (False, n1)
      else
      let (l2, n2) = nv_put_string nv n1 ui_namespace (meta_key ''meta_hash_'' slot) hash in
      if l2 = 0 then (False, n2)
      else
      let (l3, n3) = nv_put_uint nv n2 ui_namespace (meta_key ''meta_schema_'' slot) schema in (0 < l3, n3))"

definition stage :: "'d spiffs_ops \<Rightarrow> 'n nvs_ops \<Rightarrow> (string \<Rightarrow> bytes) \<Rightarrow> string \<Rightarrow> u32 \<Rightarrow> string \<Rightarrow>
    ui_store \<times> 'd \<times> 'n \<Rightarrow> ui_stage_result \<times> ui_store \<times> 'd \<times> 'n" where
  "stage ops nv sha raw_json version expected_sha256_hex = (\<lambda>(st0, d, n).
     (let st = st0\<lparr>us_sync_state := SY_VERIFYING\<rparr>;
          actual_hash = sha256_hex sha raw_json in
      if expected_sha256_hex \<noteq> [] \<and> to_lower actual_hash \<noteq> to_lower expected_sha256_hex
      then (STAGE_HASH_MISMATCH, stage_failed ''HASH_MISMATCH'' st, d, n)
      else
      (case parse_ui_bundle_json raw_json of
         None \<Rightarrow> (STAGE_PARSE_FAILED, stage_failed ''PARSE_FAILED'' st, d, n)
       | Some parsed \<Rightarrow>
      if um_schema_version (ub_manifest parsed) < ui_schema_supported_min
         \<or> um_schema_version (ub_manifest parsed) > ui_schema_supported_max
      then (STAGE_SCHEMA_UNSUPPORTED, stage_failed ''SCHEMA_UNSUPPORTED'' st, d, n)
      else
      let target_slot = stage_target st;
          (written, d1) = write_spiffs_file ops (spiffs_path_for target_slot) raw_json d;
          (ok, n1) = (if written then write_meta nv target_slot version actual_hash
            (um_schema_version (ub_manifest parsed)) n else (False, n)) in
      if \<not> ok then (STAGE_STORAGE_FAILED, stage_failed ''STORAGE_FAILED'' st, d1, n1)
      else (STAGE_OK, st\<lparr>us_staged := True, us_staged_slot := target_slot, us_staged_version := version,
        us_last_update_error := [], us_sync_state := SY_STAGED\<rparr>, d1, n1))))"

definition activate_staged :: "'d spiffs_ops \<Rightarrow> 'n nvs_ops \<Rightarrow> ui_store \<times> 'd \<times> 'n \<Rightarrow> bool \<times> ui_store \<times> 'd \<times> 'n" where
  "activate_staged ops nv = (\<lambda>(st0, d, n).
     (if \<not> us_staged st0 then (False, st0, d, n)
      else
      let st = st0\<lparr>us_sync_state := SY_ACTIVATING\<rparr>;
          (l1, n1) = nv_put_string nv n ui_namespace ''meta_slot'' [us_staged_slot st];
          (ok, n2) = (if 0 < l1
            then (let (l2, n2) = nv_put_uint nv n1 ui_namespace ''last_good_ver'' (us_staged_version st) in (0 < l2, n2))
            else (False, n1)) in
      if \<not> ok then (False, st\<lparr>us_sync_state := SY_UPDATE_FAILED, us_last_update_error := ''ACTIVATE_STORAGE_FAILED''\<rparr>, d, n2)
      else
      let (st1, d1) = load_active_from_nvs ops nv n2 (st\<lparr>us_staged := False\<rparr>, d) in
      (True, st1\<lparr>us_sync_state := SY_ACTIVE\<rparr>, d1, n2)))"

section \<open>What the next boot loads\<close>

definition nvs_string :: "nvs_map \<Rightarrow> string \<Rightarrow> string" where
  "nvs_string vs k = (case vs (ui_namespace, k) of Some (NvString v) \<Rightarrow> v | _ \<Rightarrow> [])"

definition nvs_uint :: "nvs_map \<Rightarrow> string \<Rightarrow> u32" where
  "nvs_uint vs k = (case vs (ui_namespace, k) of Some (NvUint v) \<Rightarrow> v | _ \<Rightarrow> 0)"

definition boot_slot :: "nvs_map \<Rightarrow> char option" where
  "boot_slot vs = (case nvs_string vs ''meta_slot'' of [] \<Rightarrow> None | c # _ \<Rightarrow> Some c)"

definition boot_bundle :: "files \<Rightarrow> nvs_map \<Rightarrow> (u32 \<times> string \<times> ui_bundle) option" where
  "boot_bundle fs vs =
     (case boot_slot vs of
        None \<Rightarrow> None
      | Some c \<Rightarrow>
          (let raw = string_of (file_bytes fs (spiffs_path_for c)) in
           if raw = [] then None
           else map_option (\<lambda>b. (nvs_uint vs (meta_key ''meta_ver_'' c), nvs_string vs (meta_key ''meta_hash_'' c), b))
             (parse_ui_bundle_json (c_str raw))))"

definition loaded :: "ui_store \<Rightarrow> (u32 \<times> string \<times> ui_bundle) option" where
  "loaded st = (if us_has_active st then Some (us_active_version st, us_active_hash st, us_active_bundle st) else None)"

definition slot_synced :: "ui_store \<Rightarrow> nvs_map \<Rightarrow> bool" where
  "slot_synced st vs = (boot_slot vs \<in> {None, Some (us_active_slot st)})"

definition readable :: "'d spiffs_ops \<Rightarrow> ('d \<Rightarrow> files) \<Rightarrow> bool" where
  "readable ops files = (\<forall>d p. files d p \<noteq> None \<longrightarrow> fst (fs_open ops d p MODE_READ))"

lemma bundle_keys [simp]:
  "meta_key ''meta_ver_'' c \<noteq> ''meta_slot''" "meta_key ''meta_hash_'' c \<noteq> ''meta_slot''"
  "meta_key ''meta_schema_'' c \<noteq> ''meta_slot''" "meta_key ''meta_ver_'' c \<noteq> ''last_good_ver''"
  "meta_key ''meta_hash_'' c \<noteq> ''last_good_ver''" "meta_key ''meta_schema_'' c \<noteq> ''last_good_ver''"
  "meta_key ''meta_ver_'' c \<noteq> meta_key ''meta_hash_'' c'" "meta_key ''meta_ver_'' c \<noteq> meta_key ''meta_schema_'' c'"
  "meta_key ''meta_hash_'' c \<noteq> meta_key ''meta_schema_'' c'" "meta_key ''meta_hash_'' c \<noteq> meta_key ''meta_ver_'' c'"
  "meta_key ''meta_schema_'' c \<noteq> meta_key ''meta_ver_'' c'" "meta_key ''meta_schema_'' c \<noteq> meta_key ''meta_hash_'' c'"
  "meta_key p c = meta_key p c' \<longleftrightarrow> c = c'"
  by (simp_all add: meta_key_def)

lemma meta_slot_keys [simp]:
  "''meta_slot'' \<noteq> meta_key ''meta_ver_'' c" "''meta_slot'' \<noteq> meta_key ''meta_hash_'' c"
  "''meta_slot'' \<noteq> meta_key ''meta_schema_'' c"
  by (simp_all add: meta_key_def)

lemma stage_target_other [simp]:
  "stage_target st \<noteq> us_active_slot st" "us_active_slot st \<noteq> stage_target st"
  "spiffs_path_for (stage_target st) \<noteq> spiffs_path_for (us_active_slot st)"
  "spiffs_path_for (us_active_slot st) \<noteq> spiffs_path_for (stage_target st)"
  by (auto simp: stage_target_def spiffs_path_for_def)

lemma sync_state_irrelevant [simp]:
  "loaded (st\<lparr>us_sync_state := s\<rparr>) = loaded st" "slot_synced (st\<lparr>us_sync_state := s\<rparr>) vs = slot_synced st vs"
  by (simp_all add: loaded_def slot_synced_def)

text \<open>A change confined to the other slot does not change what boots.\<close>

lemma boot_bundle_cong:
  assumes "nvs_string vs' ''meta_slot'' = nvs_string vs ''meta_slot''"
    "\<And>c. boot_slot vs = Some c \<Longrightarrow> fs' (spiffs_path_for c) = fs (spiffs_path_for c) \<and>
       nvs_uint vs' (meta_key ''meta_ver_'' c) = nvs_uint vs (meta_key ''meta_ver_'' c) \<and>
       nvs_string vs' (meta_key ''meta_hash_'' c) = nvs_string vs (meta_key ''meta_hash_'' c)"
  shows "boot_bundle fs' vs' = boot_bundle fs vs"
proof -
  have "boot_slot vs' = boot_slot vs"
    using assms(1) by (simp add: boot_slot_def)
  then show ?thesis
    using assms(2) by (cases "boot_slot vs") (simp_all add: boot_bundle_def file_bytes_def Let_def)
qed

locale bundle_storage = spiffs ops files + nvs nv vals
  for ops :: "'d spiffs_ops" and files and nv :: "'n nvs_ops" and vals
begin

lemma read_chars_spec:
  "files d p = Some c \<Longrightarrow> pos \<le> length c \<Longrightarrow> read_chars ops p d (length c - pos) pos = drop pos c"
proof (induction "length c - pos" arbitrary: pos)
  case (Suc k)
  then have lt: "pos < length c"
    by simp
  obtain j where j: "fs_read ops d p pos 1 = take j (drop pos c)" "j \<le> 1" "0 < j"
    using read_data [OF Suc.prems(1), of pos 1] lt by auto
  have "fs_read ops d p pos 1 = [c ! pos]"
    using j lt by (cases j) (auto simp: take_Suc_conv_app_nth Cons_nth_drop_Suc [symmetric])
  moreover have "length c - pos = Suc (length c - Suc pos)"
    using lt by simp
  ultimately show ?case
    using Suc.hyps(1) [of "Suc pos"] Suc.hyps(2) Suc.prems(1) lt available [OF Suc.prems(1), of pos]
    by (simp add: Cons_nth_drop_Suc)
qed simp

lemma read_spiffs_file_spec:
  assumes "read_spiffs_file ops p d = (raw, d')"
  shows "files d' = files d" "raw = [] \<or> raw = string_of (file_bytes (files d) p)"
    "readable ops files \<Longrightarrow> raw = string_of (file_bytes (files d) p)"
proof -
  obtain ok d1 where o: "fs_open ops d p MODE_READ = (ok, d1)"
    by fastforce
  note f1 = open_read [OF o]
  show "files d' = files d"
    using assms f1 o by (auto simp: read_spiffs_file_def split: if_splits)
  have full: "raw = string_of (file_bytes (files d) p)" if "fs_exists ops d p" "ok"
  proof -
    have "files d p \<noteq> None"
      using that(1) exists_iff [of d p] by blast
    then obtain c where c: "files d p = Some c" "files d1 p = Some c"
      using f1 by auto
    then have "read_chars ops p d1 (fs_available ops d1 p 0) 0 = c"
      using read_chars_spec [OF c(2), of 0] available [OF c(2), of 0] by simp
    then show ?thesis
      using assms that o c by (simp add: read_spiffs_file_def)
  qed
  then show "raw = [] \<or> raw = string_of (file_bytes (files d) p)"
    using assms o by (auto simp: read_spiffs_file_def split: if_splits)
  show "raw = string_of (file_bytes (files d) p)" if "readable ops files"
  proof (cases "files d p")
    case None
    then show ?thesis
      using assms exists_iff by (simp add: read_spiffs_file_def)
  next
    case (Some c)
    then have "fs_exists ops d p" "ok"
      using that o exists_iff by (auto simp: readable_def dest!: spec [of _ d])
    then show ?thesis by (rule full)
  qed
qed

lemma nvs_reads:
  "nv_get_string nv n ui_namespace k [] = nvs_string (vals n) k"
  "nv_get_uint nv n ui_namespace k 0 = nvs_uint (vals n) k"
  by (simp_all add: get_string get_uint nvs_string_def nvs_uint_def)

lemma load_spec:
  assumes "load_active_from_nvs ops nv n (st, d) = (st', d')"
  shows "files d' = files d" "slot_synced st' (vals n)"
    "us_has_active st' \<Longrightarrow> loaded st' = boot_bundle (files d) (vals n)"
    "readable ops files \<Longrightarrow> loaded st' = boot_bundle (files d) (vals n)"
    "us_staged st' = us_staged st" "us_staged_slot st' = us_staged_slot st"
proof -
  have "files d' = files d \<and> slot_synced st' (vals n) \<and>
    (us_has_active st' \<longrightarrow> loaded st' = boot_bundle (files d) (vals n)) \<and>
    (readable ops files \<longrightarrow> loaded st' = boot_bundle (files d) (vals n)) \<and>
    us_staged st' = us_staged st \<and> us_staged_slot st' = us_staged_slot st"
  proof (cases "nvs_string (vals n) ''meta_slot''")
    case Nil
    then show ?thesis
      using assms
      by (auto simp: load_active_from_nvs_def nvs_reads slot_synced_def boot_slot_def loaded_def boot_bundle_def)
  next
    case (Cons c cs)
    obtain raw d1 where r: "read_spiffs_file ops (spiffs_path_for c) d = (raw, d1)"
      by fastforce
    note rs = read_spiffs_file_spec [OF r]
    show ?thesis
      using assms Cons r rs
      by (auto simp: load_active_from_nvs_def nvs_reads slot_synced_def boot_slot_def loaded_def boot_bundle_def Let_def
          split: if_splits option.splits)
  qed
  then show "files d' = files d" "slot_synced st' (vals n)"
    "us_has_active st' \<Longrightarrow> loaded st' = boot_bundle (files d) (vals n)"
    "readable ops files \<Longrightarrow> loaded st' = boot_bundle (files d) (vals n)"
    "us_staged st' = us_staged st" "us_staged_slot st' = us_staged_slot st"
    by blast+
qed

lemma write_spiffs_file_spec:
  assumes "write_spiffs_file ops p data d = (ok, d')"
  shows "q \<noteq> p \<Longrightarrow> files d' q = files d q" "ok \<Longrightarrow> files d' p = Some (bytes_of data)"
proof -
  obtain o1 d1 where o: "fs_open ops d p MODE_WRITE = (o1, d1)"
    by fastforce
  obtain m d2 where w: "fs_write ops d1 p (bytes_of data) = (m, d2)"
    by fastforce
  have d': "d' = (if o1 then d2 else d1)" "ok = (o1 \<and> m = length data)"
    using assms o w by (cases o1; simp add: write_spiffs_file_def)+
  have f1: "q \<noteq> p \<Longrightarrow> files d1 q = files d q" "o1 \<Longrightarrow> files d1 p = Some []" for q
    using open_write [OF o] by (auto split: if_splits)
  have f2: "q \<noteq> p \<Longrightarrow> files d2 q = files d1 q" for q
    using write_data [OF w] by (cases "files d1 p") auto
  show "q \<noteq> p \<Longrightarrow> files d' q = files d q"
    using d'(1) f1(1) f2 by simp
  show "files d' p = Some (bytes_of data)" if ok
    using that d' f1(2) write_data [OF w] by simp
qed

lemma put_uint_frame:
  assumes "nv_put_uint nv n ui_namespace k v = (l, n')"
  shows "k' \<noteq> k \<Longrightarrow> nvs_uint (vals n') k' = nvs_uint (vals n) k'" "k' \<noteq> k \<Longrightarrow> nvs_string (vals n') k' = nvs_string (vals n) k'"
    "0 < l \<Longrightarrow> nvs_uint (vals n') k = v"
  using put_uint [OF assms] by (simp_all add: nvs_uint_def nvs_string_def)

lemma put_string_frame:
  assumes "nv_put_string nv n ui_namespace k v = (l, n')"
  shows "k' \<noteq> k \<Longrightarrow> nvs_uint (vals n') k' = nvs_uint (vals n) k'" "k' \<noteq> k \<Longrightarrow> nvs_string (vals n') k' = nvs_string (vals n) k'"
    "0 < l \<Longrightarrow> nvs_string (vals n') k = v" "l = 0 \<Longrightarrow> vals n' = vals n"
  using put_string [OF assms] by (simp_all add: nvs_uint_def nvs_string_def)

lemma write_meta_spec:
  assumes "write_meta nv slot version hash schema n = (ok, n')"
  shows "k \<notin> {meta_key ''meta_ver_'' slot, meta_key ''meta_hash_'' slot, meta_key ''meta_schema_'' slot} \<Longrightarrow>
      nvs_uint (vals n') k = nvs_uint (vals n) k \<and> nvs_string (vals n') k = nvs_string (vals n) k"
    "ok \<Longrightarrow> nvs_uint (vals n') (meta_key ''meta_ver_'' slot) = version \<and>
      nvs_string (vals n') (meta_key ''meta_hash_'' slot) = hash"
proof -
  obtain l1 n1 where p1: "nv_put_uint nv n ui_namespace (meta_key ''meta_ver_'' slot) version = (l1, n1)"
    by fastforce
  obtain l2 n2 where p2: "nv_put_string nv n1 ui_namespace (meta_key ''meta_hash_'' slot) hash = (l2, n2)"
    by fastforce
  obtain l3 n3 where p3: "nv_put_uint nv n2 ui_namespace (meta_key ''meta_schema_'' slot) schema = (l3, n3)"
    by fastforce
  have w: "ok = (0 < l1 \<and> 0 < l2 \<and> 0 < l3)" "n' = (if l1 = 0 then n1 else if l2 = 0 then n2 else n3)"
    using assms p1 p2 p3 by (auto simp: write_meta_def split: if_splits)
  note f = put_uint_frame [OF p1] put_string_frame [OF p2] put_uint_frame [OF p3]
  show "nvs_uint (vals n') k = nvs_uint (vals n) k \<and> nvs_string (vals n') k = nvs_string (vals n) k"
    if "k \<notin> {meta_key ''meta_ver_'' slot, meta_key ''meta_hash_'' slot, meta_key ''meta_schema_'' slot}"
    using that w(2) f by simp
  show "nvs_uint (vals n') (meta_key ''meta_ver_'' slot) = version \<and>
      nvs_string (vals n') (meta_key ''meta_hash_'' slot) = hash" if ok
    using that w f by simp
qed

lemma stage_spec:
  assumes "stage ops nv sha raw version expected (st, d, n) = (r, st', d', n')"
  shows "us_active_slot st' = us_active_slot st" "loaded st' = loaded st"
    "q \<noteq> spiffs_path_for (stage_target st) \<Longrightarrow> files d' q = files d q"
    "k \<notin> {meta_key ''meta_ver_'' (stage_target st), meta_key ''meta_hash_'' (stage_target st),
        meta_key ''meta_schema_'' (stage_target st)} \<Longrightarrow>
      nvs_uint (vals n') k = nvs_uint (vals n) k \<and> nvs_string (vals n') k = nvs_string (vals n) k"
    "r = STAGE_OK \<Longrightarrow> us_staged st' \<and> us_staged_slot st' = stage_target st \<and>
       parse_ui_bundle_json raw \<noteq> None \<and>
       files d' (spiffs_path_for (stage_target st)) = Some (bytes_of raw) \<and>
       nvs_uint (vals n') (meta_key ''meta_ver_'' (stage_target st)) = version \<and>
       nvs_string (vals n') (meta_key ''meta_hash_'' (stage_target st)) = sha256_hex sha raw"
proof -
  let ?t = "stage_target st"
  have t: "stage_target (st\<lparr>us_sync_state := SY_VERIFYING\<rparr>) = ?t"
    by (simp add: stage_target_def)
  obtain w d1 where w: "write_spiffs_file ops (spiffs_path_for ?t) raw d = (w, d1)"
    by fastforce
  obtain ok n1 where m: "write_meta nv ?t version (sha256_hex sha raw)
      (um_schema_version (ub_manifest (the (parse_ui_bundle_json raw)))) n = (ok, n1)"
    by fastforce
  consider
      (early) "r \<noteq> STAGE_OK" "d' = d" "n' = n"
    | (late) "r = (if w \<and> ok then STAGE_OK else STAGE_STORAGE_FAILED)" "d' = d1" "n' = (if w then n1 else n)"
      "parse_ui_bundle_json raw \<noteq> None"
      "r = STAGE_OK \<longrightarrow> us_staged st' \<and> us_staged_slot st' = ?t"
    using assms w m by (auto simp: stage_def Let_def t split: if_splits option.splits prod.splits)
  note c = this
  show "us_active_slot st' = us_active_slot st" "loaded st' = loaded st"
    using assms by (auto simp: stage_def stage_failed_def loaded_def Let_def split: if_splits option.splits prod.splits)
  note ws = write_spiffs_file_spec [OF w] write_meta_spec [OF m]
  show "q \<noteq> spiffs_path_for ?t \<Longrightarrow> files d' q = files d q"
    by (rule c) (use ws in auto)
  show "nvs_uint (vals n') k = nvs_uint (vals n) k \<and> nvs_string (vals n') k = nvs_string (vals n) k"
    if "k \<notin> {meta_key ''meta_ver_'' ?t, meta_key ''meta_hash_'' ?t, meta_key ''meta_schema_'' ?t}"
    using that by (rule_tac c) (use ws(3) in auto)
  show "us_staged st' \<and> us_staged_slot st' = ?t \<and> parse_ui_bundle_json raw \<noteq> None \<and>
       files d' (spiffs_path_for ?t) = Some (bytes_of raw) \<and>
       nvs_uint (vals n') (meta_key ''meta_ver_'' ?t) = version \<and>
       nvs_string (vals n') (meta_key ''meta_hash_'' ?t) = sha256_hex sha raw" if "r = STAGE_OK"
    by (rule c) (use ws that in \<open>auto split: if_splits\<close>)
qed

lemma activate_spec:
  assumes "activate_staged ops nv (st, d, n) = (ok, st', d', n')" "us_staged st"
  shows "files d' = files d"
    "k \<noteq> ''meta_slot'' \<Longrightarrow> k \<noteq> ''last_good_ver'' \<Longrightarrow>
       nvs_uint (vals n') k = nvs_uint (vals n) k \<and> nvs_string (vals n') k = nvs_string (vals n) k"
    "boot_slot (vals n') = (if 0 < fst (nv_put_string nv n ui_namespace ''meta_slot'' [us_staged_slot st])
       then Some (us_staged_slot st) else boot_slot (vals n))"
    "ok \<Longrightarrow> 0 < fst (nv_put_string nv n ui_namespace ''meta_slot'' [us_staged_slot st])"
    "ok \<Longrightarrow> slot_synced st' (vals n') \<and> (readable ops files \<longrightarrow> loaded st' = boot_bundle (files d') (vals n'))"
    "\<not> ok \<Longrightarrow> us_active_slot st' = us_active_slot st \<and> loaded st' = loaded st"
    "\<not> 0 < fst (nv_put_string nv n ui_namespace ''meta_slot'' [us_staged_slot st]) \<Longrightarrow> vals n' = vals n"
proof -
  let ?t = "us_staged_slot st" and ?A = "st\<lparr>us_sync_state := SY_ACTIVATING, us_staged := False\<rparr>"
  obtain l1 n1 where p1: "nv_put_string nv n ui_namespace ''meta_slot'' [?t] = (l1, n1)"
    by fastforce
  obtain l2 n2 where p2: "nv_put_uint nv n1 ui_namespace ''last_good_ver'' (us_staged_version st) = (l2, n2)"
    by fastforce
  obtain s d2 where ld: "load_active_from_nvs ops nv n2 (?A, d) = (s, d2)"
    by fastforce
  have A: "st\<lparr>us_sync_state := SY_ACTIVATING, us_staged := False\<rparr> =
      (st\<lparr>us_sync_state := SY_ACTIVATING\<rparr>)\<lparr>us_staged := False\<rparr>" by simp
  have ok: "ok = (0 < l1 \<and> 0 < l2)"
    and n': "n' = (if 0 < l1 then n2 else n1)"
    and good: "0 < l1 \<and> 0 < l2 \<longrightarrow> st' = s\<lparr>us_sync_state := SY_ACTIVE\<rparr> \<and> d' = d2"
    and bad: "\<not> (0 < l1 \<and> 0 < l2) \<longrightarrow> d' = d \<and> us_active_slot st' = us_active_slot st \<and> loaded st' = loaded st"
    by (use assms p1 p2 ld in \<open>cases "0 < l1"; cases "0 < l2"; auto simp: activate_staged_def Let_def loaded_def\<close>)+
  note ls = load_spec [OF ld]
  note f1 = put_string_frame [OF p1] and f2 = put_uint_frame [OF p2]
  show "files d' = files d"
    using good bad ls(1) by (cases "0 < l1 \<and> 0 < l2") simp_all
  show "nvs_uint (vals n') k = nvs_uint (vals n) k \<and> nvs_string (vals n') k = nvs_string (vals n) k"
    if "k \<noteq> ''meta_slot''" "k \<noteq> ''last_good_ver''"
    using that n' f1 f2 by simp
  show "boot_slot (vals n') = (if 0 < fst (nv_put_string nv n ui_namespace ''meta_slot'' [?t])
       then Some ?t else boot_slot (vals n))"
    using n' f1 f2(2) [of "''meta_slot''"] p1 by (simp add: boot_slot_def)
  show "0 < fst (nv_put_string nv n ui_namespace ''meta_slot'' [?t])" if ok
    using that ok p1 by simp
  show "slot_synced st' (vals n') \<and> (readable ops files \<longrightarrow> loaded st' = boot_bundle (files d') (vals n'))" if ok
    using that ok good n' ls by auto
  show "us_active_slot st' = us_active_slot st \<and> loaded st' = loaded st" if "\<not> ok"
    using that ok bad by simp
  show "vals n' = vals n" if "\<not> 0 < fst (nv_put_string nv n ui_namespace ''meta_slot'' [?t])"
    using that n' p1 f1(4) by simp
qed

lemma stage_keeps_boot:
  assumes "stage ops nv sha raw version expected (st, d, n) = (r, st', d', n')" "slot_synced st (vals n)"
  shows "boot_bundle (files d') (vals n') = boot_bundle (files d) (vals n)" "slot_synced st' (vals n')"
    "boot_slot (vals n') = boot_slot (vals n)"
proof -
  note sp = stage_spec [OF assms(1)]
  have slot: "nvs_string (vals n') ''meta_slot'' = nvs_string (vals n) ''meta_slot''"
    using sp(4) by simp
  show bs: "boot_slot (vals n') = boot_slot (vals n)"
    using slot by (simp add: boot_slot_def)
  show "boot_bundle (files d') (vals n') = boot_bundle (files d) (vals n)"
  proof (rule boot_bundle_cong [OF slot])
    fix c
    assume "boot_slot (vals n) = Some c"
    then have c: "c = us_active_slot st"
      using assms(2) by (simp add: slot_synced_def)
    show "files d' (spiffs_path_for c) = files d (spiffs_path_for c) \<and>
        nvs_uint (vals n') (meta_key ''meta_ver_'' c) = nvs_uint (vals n) (meta_key ''meta_ver_'' c) \<and>
        nvs_string (vals n') (meta_key ''meta_hash_'' c) = nvs_string (vals n) (meta_key ''meta_hash_'' c)"
      unfolding c using sp(3) sp(4) by auto
  qed
  show "slot_synced st' (vals n')"
    using assms(2) bs sp(1) by (simp add: slot_synced_def)
qed

lemma parse_nothing: "parse_ui_bundle_json [] = None"
  by (simp add: parse_ui_bundle_json_def json_extract_object_def find_value_start_def needle_def find_after.simps)

lemma update_atomic:
  assumes "slot_synced st (vals n)" "CHR 0x00 \<notin> set raw"
    "stage ops nv sha raw version expected (st, d, n) = (STAGE_OK, st1, d1, n1)"
    "activate_staged ops nv (st1, d1, n1) = (ok, st2, d2, n2)"
  shows "boot_bundle (files d1) (vals n1) = boot_bundle (files d) (vals n) \<and>
    (\<exists>b. parse_ui_bundle_json raw = Some b \<and>
      boot_bundle (files d2) (vals n2) \<in> {boot_bundle (files d) (vals n), Some (version, sha256_hex sha raw, b)} \<and>
      (ok \<longrightarrow> boot_bundle (files d2) (vals n2) = Some (version, sha256_hex sha raw, b) \<and> slot_synced st2 (vals n2) \<and>
         (readable ops files \<longrightarrow> loaded st2 = Some (version, sha256_hex sha raw, b))))"
proof -
  let ?t = "stage_target st"
  note keep = stage_keeps_boot [OF assms(3,1)]
  have st: "us_staged st1" "us_staged_slot st1 = ?t" "parse_ui_bundle_json raw \<noteq> None"
      "files d1 (spiffs_path_for ?t) = Some (bytes_of raw)"
      "nvs_uint (vals n1) (meta_key ''meta_ver_'' ?t) = version"
      "nvs_string (vals n1) (meta_key ''meta_hash_'' ?t) = sha256_hex sha raw"
    using stage_spec(5) [OF assms(3)] by simp_all
  note ac = activate_spec [OF assms(4) st(1)]
  obtain b where b: "parse_ui_bundle_json raw = Some b"
    using st(3) by blast
  have raw: "raw \<noteq> []" "c_str raw = raw"
    using b parse_nothing assms(2) by (auto simp: c_str_def takeWhile_eq_all_conv)
  let ?f = "0 < fst (nv_put_string nv n1 ui_namespace ''meta_slot'' [us_staged_slot st1])"
  have new: "boot_bundle (files d2) (vals n2) = Some (version, sha256_hex sha raw, b)" if ?f
    using that ac(1-3) st b raw by (simp add: boot_bundle_def)
  have old: "boot_bundle (files d2) (vals n2) = boot_bundle (files d1) (vals n1)" if "\<not> ?f"
    using ac(1) ac(7) [OF that] by simp
  show ?thesis
    using b keep(1) new old ac(4,5) by (cases ?f; cases ok) auto
qed

lemma failed_flip:
  assumes "stage ops nv sha raw version expected (st, d, n) = (STAGE_OK, st1, d1, n1)"
    "activate_staged ops nv (st1, d1, n1) = (False, st2, d2, n2)"
    "0 < fst (nv_put_string nv n1 ui_namespace ''meta_slot'' [us_staged_slot st1])"
  shows "boot_slot (vals n2) = Some (stage_target st2)"
proof -
  have st: "us_staged st1" "us_staged_slot st1 = stage_target st"
    using stage_spec(5) [OF assms(1)] by simp_all
  note ac = activate_spec [OF assms(2) st(1)]
  show ?thesis
    using ac(3,6) assms(3) st(2) stage_spec(1) [OF assms(1)] by (simp add: stage_target_def)
qed

end

lemma bundle_storage_ram: "bundle_storage (ram_ops m) rd_files (ram_nvs_ops m') rn_vals"
  by (intro bundle_storage.intro spiffs_ram nvs_ram)

interpretation ram_bundles: bundle_storage "ram_ops m" rd_files "ram_nvs_ops m'" rn_vals for m m'
  by (rule bundle_storage_ram)

section \<open>Updating is atomic\<close>


definition sample_bundle :: string where
  "sample_bundle = ''{'' @ jkey ''manifest'' @ ''{'' @ jkey ''version'' @ ''2,'' @ jkey ''schema_version'' @ ''1},'' @
     jkey ''screens'' @ ''[{'' @ jkey ''id'' @ jstr ''state_maintenance'' @ ''}]}''"

definition blank_disk :: ram_disk where
  "blank_disk = \<lparr>rd_files = Map.empty, rd_power = 0\<rparr>"

definition blank_nvs :: "nat \<Rightarrow> ram_nvs" where
  "blank_nvs k = \<lparr>rn_vals = Map.empty, rn_power = k\<rparr>"

lemma sample_bundle_parses:
  "map_option (\<lambda>b. um_schema_version (ub_manifest b)) (parse_ui_bundle_json sample_bundle) = Some 1"
  by code_simp

lemma sample_bundle_no_nul: "CHR 0x00 \<notin> set sample_bundle"
  by code_simp

lemma sample_stage:
  "fst (stage (ram_ops True) (ram_nvs_ops m) (\<lambda>s. [171]) sample_bundle 2 [] (new_ui_store, blank_disk, blank_nvs 4))
     = STAGE_OK"
proof -
  obtain b where b: "parse_ui_bundle_json sample_bundle = Some b" "um_schema_version (ub_manifest b) = 1"
    using sample_bundle_parses by auto
  have w: "write_spiffs_file (ram_ops True) p s blank_disk = (True, \<lparr>rd_files = [p \<mapsto> bytes_of s], rd_power = 0\<rparr>)" for p s
    by (simp add: write_spiffs_file_def ram_ops_def rd_open_def rd_modify_def blank_disk_def)
  have m: "fst (write_meta (ram_nvs_ops m) c v [x, y] u (blank_nvs 4))" for c v x y u
    by (simp add: write_meta_def ram_nvs_ops_def rn_put_def blank_nvs_def)
  show ?thesis
    using b m by (simp add: stage_def Let_def w sha256_hex_def ui_schema_supported_min_def ui_schema_supported_max_def
        split: prod.split) (metis fst_conv)
qed


section \<open>A failed activation can leave the slots crossed\<close>

text \<open>When the write that flips the slot succeeds and the one after it
  fails, activation reports failure and keeps the old slot in memory, but the
  next boot reads the new one; so the next staging writes into the very slot
  the next boot reads.\<close>

lemma failed_activation_crosses_slots:
  assumes "spiffs ops files" "nvs nv vals"
    "stage ops nv sha raw version expected (st, d, n) = (STAGE_OK, st1, d1, n1)"
    "activate_staged ops nv (st1, d1, n1) = (False, st2, d2, n2)"
    "0 < fst (nv_put_string nv n1 ui_namespace ''meta_slot'' [us_staged_slot st1])"
  shows "boot_slot (vals n2) = Some (stage_target st2)"
  using bundle_storage.failed_flip [OF bundle_storage.intro, OF assms] .

lemma failed_activation_crosses_slots_witness:
  "\<exists>(st2 :: ui_store) (n2 :: ram_nvs). boot_slot (rn_vals n2) = Some (stage_target st2)"
proof -
  obtain st1 d1 n1 where s: "stage (ram_ops True) (ram_nvs_ops False) (\<lambda>s. [171]) sample_bundle 2 []
      (new_ui_store, blank_disk, blank_nvs 4) = (STAGE_OK, st1, d1, n1)"
    using sample_stage by (metis prod_cases4 fst_conv)
  obtain b where b: "parse_ui_bundle_json sample_bundle = Some b" "um_schema_version (ub_manifest b) = 1"
    using sample_bundle_parses by auto
  have p: "rn_power n1 = 1"
    using s b
    by (auto simp: stage_def Let_def sha256_hex_def write_meta_def ram_nvs_ops_def rn_put_def blank_nvs_def
        ui_schema_supported_min_def ui_schema_supported_max_def split: if_splits prod.splits)
  have st: "us_staged st1"
    using bundle_storage.stage_spec(5) [OF bundle_storage_ram s] by simp
  obtain ok st2 d2 n2 where a: "activate_staged (ram_ops True) (ram_nvs_ops False) (st1, d1, n1) = (ok, st2, d2, n2)"
    using prod_cases4 by blast
  have "\<not> ok"
    using a p st by (auto simp: activate_staged_def Let_def ram_nvs_ops_def rn_put_def split: if_splits prod.splits)
  then have "activate_staged (ram_ops True) (ram_nvs_ops False) (st1, d1, n1) = (False, st2, d2, n2)"
    using a by simp
  moreover have "0 < fst (nv_put_string (ram_nvs_ops False) n1 ui_namespace ''meta_slot'' [us_staged_slot st1])"
    using p by (simp add: ram_nvs_ops_def rn_put_def)
  ultimately have "boot_slot (rn_vals n2) = Some (stage_target st2)"
    using failed_activation_crosses_slots [OF spiffs_ram nvs_ram s] by blast
  then show ?thesis by blast
qed

end
