(* ===== verification/Recovery_Supervisor.thy ===== *)
theory Recovery_Supervisor
  imports Storage_Api
begin

text \<open>
  \<^verbatim>\<open>health/recovery_supervisor\<close>: the ring of recovery events and the detection
  of reboot loops over NVS.  The ring refines a list that keeps the last eight
  events; the persisted streak refines the length of the current run of equal
  fault codes.  A controlled reboot ends the life of the RAM state; the next
  boot starts from \<open>new_recovery\<close> and the NVS.
\<close>

section \<open>State\<close>

datatype recovery_code =
  LOW_MEMORY | JOURNAL_PRESSURE | TASK_CREATE_FAILED | NETWORK_TIMEOUT | STATE_DESYNC | UI_STALL | WATCHDOG
  | REBOOT_LOOP | SCANNER_REINIT | KEYPAD_REINIT

definition recovery_code_to_string :: "recovery_code \<Rightarrow> string" where
  "recovery_code_to_string c =
     (case c of
        LOW_MEMORY \<Rightarrow> ''RECOVERY_LOW_MEMORY''
      | JOURNAL_PRESSURE \<Rightarrow> ''RECOVERY_JOURNAL_PRESSURE''
      | TASK_CREATE_FAILED \<Rightarrow> ''RECOVERY_TASK_CREATE_FAILED''
      | NETWORK_TIMEOUT \<Rightarrow> ''RECOVERY_NETWORK_TIMEOUT''
      | STATE_DESYNC \<Rightarrow> ''RECOVERY_STATE_DESYNC''
      | UI_STALL \<Rightarrow> ''RECOVERY_UI_STALL''
      | WATCHDOG \<Rightarrow> ''RECOVERY_WATCHDOG''
      | REBOOT_LOOP \<Rightarrow> ''RECOVERY_REBOOT_LOOP''
      | SCANNER_REINIT \<Rightarrow> ''RECOVERY_SCANNER_REINIT''
      | KEYPAD_REINIT \<Rightarrow> ''RECOVERY_KEYPAD_REINIT'')"

record recovery_event =
  rv_code :: recovery_code
  rv_detail :: string
  rv_uptime_ms :: u32
  rv_journal_pressure :: u8
  rv_memory_free :: u32
  rv_memory_largest :: u32

definition no_event :: recovery_event where
  "no_event = \<lparr>rv_code = LOW_MEMORY, rv_detail = [], rv_uptime_ms = 0, rv_journal_pressure = 0,
     rv_memory_free = 0, rv_memory_largest = 0\<rparr>"

definition recovery_history_capacity :: nat where
  "recovery_history_capacity = 8"

record recovery_state =
  rc_history :: "recovery_event list"
  rc_history_count :: nat
  rc_history_next :: nat
  rc_safe_mode :: bool
  rc_same_fault_streak :: u32
  rc_marked_stable :: bool
  rc_safe_mode_reason :: string

definition new_recovery :: recovery_state where
  "new_recovery = \<lparr>rc_history = replicate recovery_history_capacity no_event, rc_history_count = 0,
     rc_history_next = 0, rc_safe_mode = False, rc_same_fault_streak = 0, rc_marked_stable = False,
     rc_safe_mode_reason = []\<rparr>"

definition safe_mode_threshold :: u32 where
  "safe_mode_threshold = 3"

definition recovery_namespace :: string where
  "recovery_namespace = ''recovery''"

section \<open>The ring\<close>

definition record_recovery_event :: "u32 \<Rightarrow> recovery_code \<Rightarrow> string \<Rightarrow> u8 \<Rightarrow> u32 \<Rightarrow> u32 \<Rightarrow> recovery_state \<Rightarrow> recovery_state" where
  "record_recovery_event now code detail pressure mem_free mem_largest s =
     (let e = \<lparr>rv_code = code, rv_detail = take 63 detail, rv_uptime_ms = now, rv_journal_pressure = pressure,
            rv_memory_free = mem_free, rv_memory_largest = mem_largest\<rparr>
      in s\<lparr>rc_history := (rc_history s)[rc_history_next s := e],
           rc_history_next := (rc_history_next s + 1) mod recovery_history_capacity,
           rc_history_count := (if rc_history_count s < recovery_history_capacity then rc_history_count s + 1
             else rc_history_count s)\<rparr>)"

definition recovery_history_at :: "recovery_state \<Rightarrow> nat \<Rightarrow> recovery_event" where
  "recovery_history_at s index =
     (let start = (if rc_history_count s < recovery_history_capacity then 0 else rc_history_next s)
      in rc_history s ! ((start + index) mod recovery_history_capacity))"

section \<open>Reboot loops\<close>

definition recovery_supervisor_init :: "'n nvs_ops \<Rightarrow> 'n \<Rightarrow> recovery_state \<Rightarrow> recovery_state" where
  "recovery_supervisor_init nv n s =
     (if \<not> nv_begin nv n recovery_namespace True then s\<lparr>rc_same_fault_streak := 0, rc_safe_mode := False\<rparr>
      else
      let streak = nv_get_uint nv n recovery_namespace ''streak'' 0 in
      s\<lparr>rc_same_fault_streak := streak,
        rc_safe_mode_reason := nv_get_string nv n recovery_namespace ''last_code'' [],
        rc_safe_mode := streak \<ge> safe_mode_threshold\<rparr>)"

definition recovery_supervisor_mark_stable :: "'n nvs_ops \<Rightarrow> recovery_state \<times> 'n \<Rightarrow> recovery_state \<times> 'n" where
  "recovery_supervisor_mark_stable nv = (\<lambda>(s, n).
     (if rc_marked_stable s then (s, n)
      else
      let s1 = s\<lparr>rc_marked_stable := True\<rparr> in
      if rc_same_fault_streak s1 = 0 then (s1, n)
      else
      let n1 = (if nv_begin nv n recovery_namespace False then snd (nv_put_uint nv n recovery_namespace ''streak'' 0) else n)
      in (s1\<lparr>rc_same_fault_streak := 0, rc_safe_mode := False\<rparr>, n1)))"

text \<open>The state and NVS at the moment of the restart.\<close>

definition request_controlled_reboot :: "'n nvs_ops \<Rightarrow> u32 \<Rightarrow> recovery_code \<Rightarrow> string \<Rightarrow> u8 \<Rightarrow> u32 \<Rightarrow> u32 \<Rightarrow>
    recovery_state \<times> 'n \<Rightarrow> recovery_state \<times> 'n" where
  "request_controlled_reboot nv now code detail pressure mem_free mem_largest = (\<lambda>(s0, n).
     (let s = record_recovery_event now code detail pressure mem_free mem_largest s0 in
      if \<not> nv_begin nv n recovery_namespace False then (s, n)
      else
      let last_code = nv_get_string nv n recovery_namespace ''last_code'' [];
          this_code = recovery_code_to_string code;
          streak0 = nv_get_uint nv n recovery_namespace ''streak'' 0;
          streak = (if last_code = this_code then streak0 + 1 else 1);
          n1 = snd (nv_put_string nv n recovery_namespace ''last_code'' this_code);
          n2 = snd (nv_put_uint nv n1 recovery_namespace ''streak'' streak);
          n3 = snd (nv_put_string nv n2 recovery_namespace ''last_detail'' detail);
          n4 = snd (nv_put_uint nv n3 recovery_namespace ''last_uptime_ms'' now)
      in (s\<lparr>rc_same_fault_streak := streak, rc_safe_mode := streak \<ge> safe_mode_threshold\<rparr>, n4)))"

definition force_safe_mode_for_test :: "'n nvs_ops \<Rightarrow> u32 \<Rightarrow> recovery_code \<Rightarrow> 'n \<Rightarrow> 'n" where
  "force_safe_mode_for_test nv now code n =
     (if \<not> nv_begin nv n recovery_namespace False then n
      else
      let n1 = snd (nv_put_string nv n recovery_namespace ''last_code'' (recovery_code_to_string code));
          n2 = snd (nv_put_uint nv n1 recovery_namespace ''streak'' safe_mode_threshold);
          n3 = snd (nv_put_string nv n2 recovery_namespace ''last_detail'' ''forced by DEV test hook (force-safe-mode)'')
      in snd (nv_put_uint nv n3 recovery_namespace ''last_uptime_ms'' now))"

section \<open>The ring refines the list of the last eight events\<close>

definition ring_ok :: "recovery_state \<Rightarrow> bool" where
  "ring_ok s = (length (rc_history s) = 8 \<and> rc_history_count s \<le> 8 \<and> rc_history_next s < 8 \<and>
     (rc_history_count s < 8 \<longrightarrow> rc_history_next s = rc_history_count s))"

definition history_abs :: "recovery_state \<Rightarrow> recovery_event list" where
  "history_abs s = map (recovery_history_at s) [0..<rc_history_count s]"

definition last8 :: "'a list \<Rightarrow> 'a list" where
  "last8 xs = drop (length xs - 8) xs"

lemma ring_ok_new [inv_intros]: "ring_ok new_recovery"
  by (simp add: ring_ok_def new_recovery_def recovery_history_capacity_def)

lemma ring_ok_record [inv_intros]: "ring_ok s \<Longrightarrow> ring_ok (record_recovery_event t c d p f l s)"
  by (auto simp: ring_ok_def record_recovery_event_def recovery_history_capacity_def Let_def)

lemma ring_step:
  assumes "x < 8" "i < (8 :: nat)"
  shows "(x + Suc i) mod 8 = x \<longleftrightarrow> i = 7"
proof -
  have "(x + Suc i) mod 8 = (if x + Suc i < 8 then x + Suc i else x + Suc i - 8)"
    using assms by (simp add: le_mod_geq)
  then show ?thesis
    using assms by (cases "x + Suc i < 8") auto
qed

lemma abs_unwrapped:
  assumes "ring_ok s" "rc_history_count s < 8 \<or> rc_history_next s = 0"
  shows "history_abs s = take (rc_history_count s) (rc_history s)"
  by (rule nth_equalityI)
    (use assms in \<open>auto simp: ring_ok_def history_abs_def recovery_history_at_def recovery_history_capacity_def\<close>)

lemma record_fields:
  "rc_history (record_recovery_event t c d p f l s) = (rc_history s)[rc_history_next s :=
     \<lparr>rv_code = c, rv_detail = take 63 d, rv_uptime_ms = t, rv_journal_pressure = p, rv_memory_free = f,
       rv_memory_largest = l\<rparr>]"
  "rc_history_next (record_recovery_event t c d p f l s) = (rc_history_next s + 1) mod 8"
  "rc_history_count (record_recovery_event t c d p f l s) = (if rc_history_count s < 8
     then rc_history_count s + 1 else rc_history_count s)"
  by (simp_all add: record_recovery_event_def recovery_history_capacity_def Let_def)

text \<open>The ring holds exactly the last eight events, oldest first, whatever
  it held before and however often it has wrapped.\<close>

lemma history_keeps_last8:
  assumes "ring_ok s"
  shows "history_abs (record_recovery_event t c d p f l s) =
    last8 (history_abs s @ [\<lparr>rv_code = c, rv_detail = take 63 d, rv_uptime_ms = t, rv_journal_pressure = p,
      rv_memory_free = f, rv_memory_largest = l\<rparr>])"
proof -
  define e where "e = \<lparr>rv_code = c, rv_detail = take 63 d, rv_uptime_ms = t, rv_journal_pressure = p,
      rv_memory_free = f, rv_memory_largest = l\<rparr>"
  obtain h where h: "rc_history s = h" "length h = 8"
    using assms by (simp add: ring_ok_def)
  have "history_abs (record_recovery_event t c d p f l s) = last8 (history_abs s @ [e])"
  proof (cases "rc_history_count s < 8")
    case True
    then have n: "rc_history_next s = rc_history_count s"
      using assms by (simp add: ring_ok_def)
    have "history_abs (record_recovery_event t c d p f l s)
        = take (Suc (rc_history_count s)) (h[rc_history_count s := e])"
      using True n h abs_unwrapped [OF ring_ok_record [OF assms], of t c d p f l]
      by (cases "rc_history_count s = 7") (simp_all add: record_fields e_def)
    also have "\<dots> = take (rc_history_count s) h @ [e]"
      using True h(2) by (simp add: take_Suc_conv_app_nth)
    also have "\<dots> = last8 (history_abs s @ [e])"
      using True h abs_unwrapped [OF assms] by (simp add: last8_def)
    finally show ?thesis .
  next
    case False
    then have c: "rc_history_count s = 8" "rc_history_next s < 8"
      using assms by (simp_all add: ring_ok_def)
    show ?thesis
    proof (rule nth_equalityI)
      fix i
      assume "i < length (history_abs (record_recovery_event t c d p f l s))"
      then have i: "i < 8"
        using c by (simp add: history_abs_def record_recovery_event_def recovery_history_capacity_def)
      let ?j = "(rc_history_next s + Suc i) mod 8"
      have m: "((rc_history_next s + 1) mod 8 + i) mod 8 = ?j"
        by (simp add: mod_simps)
      have j: "?j = rc_history_next s \<longleftrightarrow> i = 7" "?j < 8"
        using ring_step [OF c(2) i] by simp_all
      have L: "history_abs (record_recovery_event t c d p f l s) ! i = h[rc_history_next s := e] ! ?j"
        using i c(1) h(1) m
        by (simp add: history_abs_def recovery_history_at_def recovery_history_capacity_def record_fields e_def)
      have R: "last8 (history_abs s @ [e]) ! i = (if i = 7 then e else h ! ?j)"
        using i c(1) h(1)
        by (simp add: last8_def history_abs_def nth_append recovery_history_at_def recovery_history_capacity_def)
      show "history_abs (record_recovery_event t c d p f l s) ! i = last8 (history_abs s @ [e]) ! i"
        unfolding L R using j h(2) c(2) by (auto simp: nth_list_update)
    qed (use c in \<open>simp add: history_abs_def record_recovery_event_def recovery_history_capacity_def last8_def\<close>)
  qed
  then show ?thesis
    by (simp add: e_def)
qed

lemma history_keeps_last8_witness:
  "length (history_abs (record_recovery_event 1 UI_STALL ''x'' 0 0 0 new_recovery)) = 1"
  using history_keeps_last8 [OF ring_ok_new, of 1 UI_STALL "''x''" 0 0 0]
  by (simp add: history_abs_def new_recovery_def last8_def)

section \<open>The streak refines the run of equal faults\<close>

text \<open>A boot that ends in a controlled reboot, or one that has been marked
  stable before it ends in one.\<close>

datatype life = Fault recovery_code | StableThenFault recovery_code

fun live :: "'n nvs_ops \<Rightarrow> life \<Rightarrow> 'n \<Rightarrow> 'n" where
  "live nv (Fault c) n =
     snd (request_controlled_reboot nv 0 c [] 0 0 0 (recovery_supervisor_init nv n new_recovery, n))"
| "live nv (StableThenFault c) n =
     snd (request_controlled_reboot nv 0 c [] 0 0 0
       (recovery_supervisor_mark_stable nv (recovery_supervisor_init nv n new_recovery, n)))"

text \<open>The specification: the code of the last fault and how many lives in a row
  have ended with it since the last stable one.\<close>

type_synonym fault_run = "recovery_code option \<times> nat"

fun run_step :: "life \<Rightarrow> fault_run \<Rightarrow> fault_run" where
  "run_step (Fault c) (lc, k) = (Some c, if lc = Some c then Suc k else 1)"
| "run_step (StableThenFault c) (lc, k) = (Some c, 1)"

definition streak_in :: "'n nvs_ops \<Rightarrow> 'n \<Rightarrow> u32" where
  "streak_in nv n = nv_get_uint nv n recovery_namespace ''streak'' 0"

definition code_in :: "'n nvs_ops \<Rightarrow> 'n \<Rightarrow> string" where
  "code_in nv n = nv_get_string nv n recovery_namespace ''last_code'' []"

definition run_abs :: "'n nvs_ops \<Rightarrow> 'n \<Rightarrow> fault_run \<Rightarrow> bool" where
  "run_abs nv n r = (streak_in nv n = of_nat (snd r) \<and>
     code_in nv n = (case fst r of None \<Rightarrow> [] | Some c \<Rightarrow> recovery_code_to_string c))"

lemma recovery_code_inj [simp]: "recovery_code_to_string a = recovery_code_to_string b \<longleftrightarrow> a = b"
  by (cases a; cases b) (simp_all add: recovery_code_to_string_def)

lemma recovery_code_not_Nil [simp]: "recovery_code_to_string c \<noteq> []" "[] \<noteq> recovery_code_to_string c"
  by (cases c; simp add: recovery_code_to_string_def)+

locale recovery_nvs = nvs +
  assumes begin_ok: "nv_begin ops s ns ro"
    and put_uint_ok: "0 < fst (nv_put_uint ops s ns k u)"
    and put_string_ok: "v \<noteq> [] \<Longrightarrow> 0 < fst (nv_put_string ops s ns k v)"
begin

lemma put_uint_vals: "vals (snd (nv_put_uint ops s ns k u)) = (vals s)((ns, k) \<mapsto> NvUint u)"
  using put_uint [of s ns k u] put_uint_ok [of s ns k u] by (cases "nv_put_uint ops s ns k u") simp

lemma put_code_vals:
  "vals (snd (nv_put_string ops s ns k (recovery_code_to_string c)))
     = (vals s)((ns, k) \<mapsto> NvString (recovery_code_to_string c))"
  using put_string [of s ns k] put_string_ok [of "recovery_code_to_string c" s ns k]
  by (cases "nv_put_string ops s ns k (recovery_code_to_string c)") simp

lemma put_detail_other:
  assumes "k \<noteq> ''last_detail''"
  shows "vals (snd (nv_put_string ops s ns ''last_detail'' v)) (ns, k) = vals s (ns, k)"
  using put_string [of s ns "''last_detail''" v] assms by (cases "nv_put_string ops s ns ''last_detail'' v") simp

lemma reboot_persists:
  assumes "request_controlled_reboot ops t c d p f l (s, n) = (s', n')"
  shows "streak_in ops n' = (if code_in ops n = recovery_code_to_string c then streak_in ops n + 1 else 1)"
    "code_in ops n' = recovery_code_to_string c"
  using assms
  by (auto simp: request_controlled_reboot_def begin_ok streak_in_def code_in_def Let_def get_uint get_string
      put_uint_vals put_code_vals put_detail_other)

lemma stable_clears:
  assumes "recovery_supervisor_mark_stable ops (recovery_supervisor_init ops n new_recovery, n) = (s', n')"
  shows "streak_in ops n' = 0" "code_in ops n' = code_in ops n"
  using assms
  by (auto simp: recovery_supervisor_mark_stable_def recovery_supervisor_init_def begin_ok new_recovery_def
      streak_in_def code_in_def Let_def get_uint get_string put_uint_vals split: if_splits)

lemma live_refines:
  assumes "run_abs ops n r"
  shows "run_abs ops (live ops e n) (run_step e r)"
proof -
  obtain lc k where r: "r = (lc, k)"
    by fastforce
  have a: "streak_in ops n = of_nat k" "code_in ops n = (case lc of None \<Rightarrow> [] | Some c \<Rightarrow> recovery_code_to_string c)"
    using assms by (simp_all add: run_abs_def r)
  show ?thesis
  proof (cases e)
    case (Fault c)
    obtain s' n' where q: "request_controlled_reboot ops 0 c [] 0 0 0
        (recovery_supervisor_init ops n new_recovery, n) = (s', n')"
      by fastforce
    show ?thesis
      using reboot_persists [OF q] a q Fault by (cases lc) (auto simp: run_abs_def r)
  next
    case (StableThenFault c)
    obtain s1 n1 where m: "recovery_supervisor_mark_stable ops (recovery_supervisor_init ops n new_recovery, n) = (s1, n1)"
      by fastforce
    obtain s' n' where q: "request_controlled_reboot ops 0 c [] 0 0 0 (s1, n1) = (s', n')"
      by fastforce
    show ?thesis
      using reboot_persists [OF q] stable_clears [OF m] q m StableThenFault
      by (auto simp: run_abs_def r)
  qed
qed

lemma lives_refine: "run_abs ops n r \<Longrightarrow> run_abs ops (fold (live ops) es n) (fold run_step es r)"
proof (induction es arbitrary: n r)
  case (Cons e es)
  show ?case
    using Cons.IH [OF live_refines [OF Cons.prems]] by simp
qed simp

lemma run_length_bound: "snd (fold run_step es r) \<le> snd r + length es + 1"
proof (induction es arbitrary: r)
  case (Cons e es)
  have "snd (run_step e r) \<le> snd r + 1"
    by (cases "(e, r)" rule: run_step.cases) auto
  then show ?case
    using Cons.IH [of "run_step e r"] by simp
qed simp

lemma safe_mode_at_boot:
  assumes "run_abs ops n (None, 0)" "length es < 2 ^ 32 - 1"
  shows "rc_safe_mode (recovery_supervisor_init ops (fold (live ops) es n) new_recovery) \<longleftrightarrow>
    3 \<le> snd (fold run_step es (None, 0))"
proof -
  define k where "k = snd (fold run_step es (None :: recovery_code option, 0))"
  have "k < 2 ^ 32"
    using run_length_bound [of es "(None, 0)"] assms(2) by (simp add: k_def)
  then have u: "unat (of_nat k :: u32) = k"
    by (rule unat_of_nat_u32)
  have "streak_in ops (fold (live ops) es n) = of_nat k"
    using lives_refine [OF assms(1), of es] by (simp add: run_abs_def k_def)
  then show ?thesis
    using u by (simp add: recovery_supervisor_init_def begin_ok streak_in_def Let_def safe_mode_threshold_def
        word_le_nat_alt k_def [symmetric])
qed

end

lemma recovery_ram: "recovery_nvs (ram_nvs_ops True) rn_vals"
  by (intro recovery_nvs.intro nvs_ram recovery_nvs_axioms.intro) (auto simp: ram_nvs_ops_def rn_put_def)

interpretation ram_recovery: recovery_nvs "ram_nvs_ops True" rn_vals
  by (rule recovery_ram)

text \<open>C32. A device boots into safe mode exactly when its last three lives or
  more ended in a controlled reboot for the same reason with no stable one in
  between, whatever happened before.\<close>

theorem safe_mode_iff_fault_run:
  assumes "recovery_nvs nv vals" "run_abs nv n (None, 0)" "length es < 2 ^ 32 - 1"
  shows "rc_safe_mode (recovery_supervisor_init nv (fold (live nv) es n) new_recovery) \<longleftrightarrow>
    3 \<le> snd (fold run_step es (None, 0))"
  using recovery_nvs.safe_mode_at_boot [OF assms] .

theorem safe_mode_iff_fault_run_witness:
  "rc_safe_mode (recovery_supervisor_init (ram_nvs_ops True) (fold (live (ram_nvs_ops True))
     [Fault LOW_MEMORY, Fault UI_STALL, Fault UI_STALL, Fault UI_STALL] \<lparr>rn_vals = Map.empty, rn_power = 0\<rparr>) new_recovery)"
  by (subst safe_mode_iff_fault_run [OF recovery_ram])
    (simp_all add: run_abs_def streak_in_def code_in_def ram_nvs_ops_def)

end
