(* ===== verification/Network_Worker.thy ===== *)
theory Network_Worker
  imports Retry_Policy Backend_Url
begin

text \<open>
  \<^verbatim>\<open>network/network_worker\<close>: one task that executes HTTP requests from two
  bounded queues, and the single slot its results pass through.  Wi-Fi, DNS,
  the HTTP client, the clock and the random source are a parameter
  (\<open>net_ops\<close> over a state of the outside world).  The main loop and the task
  interleave: their actions are the steps of \<open>worker_run\<close>, which records a
  trace; execution itself may overlap any number of main-loop actions.
\<close>

section \<open>Requests and results\<close>

datatype network_request_kind = BUSINESS_EVENT | OFFLINE_REPLAY | STATE_FETCH | BOOTSTRAP | HEARTBEAT | UI_BUNDLE_FETCH

datatype network_priority_tier = PRIORITY_HIGH | PRIORITY_LOW

definition max_queued_url_bytes :: nat where "max_queued_url_bytes = 160"
definition max_queued_body_bytes :: nat where "max_queued_body_bytes = 2560"
definition max_queued_event_id_bytes :: nat where "max_queued_event_id_bytes = 40"
definition max_queued_token_bytes :: nat where "max_queued_token_bytes = 64"

record network_request =
  nq_kind :: network_request_kind
  nq_url :: string
  nq_event_id :: string
  nq_device_seq :: u64
  nq_body :: string
  nq_kiosk_token :: string

definition new_request :: "network_request_kind \<Rightarrow> network_request" where
  "new_request k = \<lparr>nq_kind = k, nq_url = [], nq_event_id = [], nq_device_seq = 0, nq_body = [], nq_kiosk_token = []\<rparr>"

record network_result =
  nr_kind :: network_request_kind
  nr_outcome :: http_outcome
  nr_total_latency_ms :: u32
  nr_attempts :: int
  nr_event_id :: string
  nr_device_seq :: u64
  nr_response_body :: string

definition new_result :: network_result where
  "new_result = \<lparr>nr_kind = BUSINESS_EVENT, nr_outcome = default_outcome, nr_total_latency_ms = 0, nr_attempts = 0,
     nr_event_id = [], nr_device_seq = 0, nr_response_body = []\<rparr>"

section \<open>The worker's shared state\<close>

record network_worker =
  nw_high :: "network_request list"
  nw_low :: "network_request list"
  nw_executing :: "network_request option"
  nw_result_ready :: bool
  nw_pending_result :: network_result

definition high_queue_depth :: nat where "high_queue_depth = 3"
definition low_queue_depth :: nat where "low_queue_depth = 2"

definition worker_begin :: network_worker where
  "worker_begin = \<lparr>nw_high = [], nw_low = [], nw_executing = None, nw_result_ready = False,
     nw_pending_result = new_result\<rparr>"

definition enqueue :: "network_priority_tier \<Rightarrow> network_request \<Rightarrow> network_worker \<Rightarrow> bool \<times> network_worker" where
  "enqueue tier req w =
     (case tier of
        PRIORITY_HIGH \<Rightarrow>
          if length (nw_high w) < high_queue_depth then (True, w\<lparr>nw_high := nw_high w @ [req]\<rparr>) else (False, w)
      | PRIORITY_LOW \<Rightarrow>
          if length (nw_low w) < low_queue_depth then (True, w\<lparr>nw_low := nw_low w @ [req]\<rparr>) else (False, w))"

text \<open>A fixed buffer keeps what \<^verbatim>\<open>strncpy\<close> or \<^verbatim>\<open>memcpy\<close> puts into it: a prefix.\<close>

definition buffer :: "nat \<Rightarrow> string \<Rightarrow> string" where
  "buffer n s = take (n - 1) (c_str s)"

definition fill_body :: "string \<Rightarrow> string" where
  "fill_body body = take (max_queued_body_bytes - 1) body"

definition enqueue_business_event :: "string \<Rightarrow> u64 \<Rightarrow> string \<Rightarrow> string \<Rightarrow> string \<Rightarrow> network_worker \<Rightarrow> bool \<times> network_worker" where
  "enqueue_business_event event_id device_seq url payload token w =
     enqueue PRIORITY_HIGH ((new_request BUSINESS_EVENT)\<lparr>nq_url := buffer max_queued_url_bytes url,
       nq_event_id := buffer max_queued_event_id_bytes event_id, nq_device_seq := device_seq,
       nq_body := fill_body payload, nq_kiosk_token := buffer max_queued_token_bytes token\<rparr>) w"

definition enqueue_offline_replay :: "string \<Rightarrow> u64 \<Rightarrow> string \<Rightarrow> string \<Rightarrow> string \<Rightarrow> network_worker \<Rightarrow> bool \<times> network_worker" where
  "enqueue_offline_replay event_id device_seq url payload token w =
     enqueue PRIORITY_LOW ((new_request OFFLINE_REPLAY)\<lparr>nq_url := buffer max_queued_url_bytes url,
       nq_event_id := buffer max_queued_event_id_bytes event_id, nq_device_seq := device_seq,
       nq_body := fill_body payload, nq_kiosk_token := buffer max_queued_token_bytes token\<rparr>) w"

definition enqueue_state_fetch :: "string \<Rightarrow> string \<Rightarrow> network_worker \<Rightarrow> bool \<times> network_worker" where
  "enqueue_state_fetch url token w =
     enqueue PRIORITY_HIGH ((new_request STATE_FETCH)\<lparr>nq_url := buffer max_queued_url_bytes url,
       nq_kiosk_token := buffer max_queued_token_bytes token\<rparr>) w"

definition enqueue_ui_bundle_fetch :: "string \<Rightarrow> network_worker \<Rightarrow> bool \<times> network_worker" where
  "enqueue_ui_bundle_fetch url w =
     enqueue PRIORITY_LOW ((new_request UI_BUNDLE_FETCH)\<lparr>nq_url := buffer max_queued_url_bytes url\<rparr>) w"

definition enqueue_bootstrap :: "string \<Rightarrow> string \<Rightarrow> network_worker \<Rightarrow> bool \<times> network_worker" where
  "enqueue_bootstrap url body w =
     enqueue PRIORITY_HIGH ((new_request BOOTSTRAP)\<lparr>nq_url := buffer max_queued_url_bytes url,
       nq_body := fill_body body\<rparr>) w"

definition enqueue_heartbeat :: "string \<Rightarrow> string \<Rightarrow> network_worker \<Rightarrow> bool \<times> network_worker" where
  "enqueue_heartbeat url body w =
     enqueue PRIORITY_LOW ((new_request HEARTBEAT)\<lparr>nq_url := buffer max_queued_url_bytes url,
       nq_body := fill_body body\<rparr>) w"

definition high_priority_busy :: "network_worker \<Rightarrow> bool" where
  "high_priority_busy w = (nw_executing w \<noteq> None \<or> nw_high w \<noteq> [])"

definition worker_busy :: "network_worker \<Rightarrow> bool" where
  "worker_busy w = (nw_executing w \<noteq> None \<or> nw_high w \<noteq> [] \<or> nw_low w \<noteq> [])"

definition deposit_result :: "network_result \<Rightarrow> network_worker \<Rightarrow> network_worker" where
  "deposit_result r w = w\<lparr>nw_pending_result := r, nw_result_ready := True\<rparr>"

definition worker_poll :: "network_worker \<Rightarrow> network_result option \<times> network_worker" where
  "worker_poll w =
     (if nw_result_ready w then (Some (nw_pending_result w), w\<lparr>nw_result_ready := False\<rparr>) else (None, w))"

section \<open>One HTTP attempt\<close>

record http_call =
  hc_url :: string
  hc_token :: "string option"
  hc_body :: "string option"

record http_reply =
  hr_status :: int
  hr_retry_after :: string
  hr_size :: int
  hr_body :: string

record 'h net_ops =
  no_wifi_connected :: "'h \<Rightarrow> bool"
  no_host_by_name :: "'h \<Rightarrow> string \<Rightarrow> bool \<times> 'h"
  no_begin :: "'h \<Rightarrow> string \<Rightarrow> bool"
  no_request :: "'h \<Rightarrow> http_call \<Rightarrow> http_reply \<times> 'h"
  no_millis :: "'h \<Rightarrow> u32"
  no_random :: "'h \<Rightarrow> u32 \<times> 'h"
  no_delay :: "'h \<Rightarrow> u32 \<Rightarrow> 'h"

definition substring :: "int \<Rightarrow> int \<Rightarrow> string \<Rightarrow> string" where
  "substring a b s = take (nat (b - a)) (drop (nat a) s)"

definition extract_host :: "string \<Rightarrow> string" where
  "extract_host u =
     (let i = index_of ''://'' u;
          host_start = (if i < 0 then 0 else i + 3);
          rest = drop (nat host_start) u;
          j = index_of ''/'' rest;
          host_and_port = (if j < 0 then rest else substring 0 j rest);
          colon = index_of '':'' host_and_port
      in if colon < 0 then host_and_port else substring 0 colon host_and_port)"

definition max_response_body_bytes :: int where
  "max_response_body_bytes = 16384"

text \<open>The status, the response body if one was stored, the \<^verbatim>\<open>Retry-After\<close> text.\<close>

definition perform_http_attempt :: "'h net_ops \<Rightarrow> string \<Rightarrow> string option \<Rightarrow> string \<Rightarrow> 'h \<Rightarrow>
    (int \<times> string option \<times> string) \<times> 'h" where
  "perform_http_attempt ops url body token h =
     (let (resolved, h1) = no_host_by_name ops h (extract_host url) in
      if \<not> resolved then ((dns_fail_marker, None, []), h1)
      else if \<not> no_begin ops h1 url then ((-1, None, []), h1)
      else
      let (reply, h2) = no_request ops h1 \<lparr>hc_url = url, hc_token = (if token \<noteq> [] then Some token else None),
            hc_body = body\<rparr>;
          retry_after = (if hr_status reply = 429 then hr_retry_after reply else []) in
      if hr_status reply > 0 then
        (if hr_size reply < 0 \<or> hr_size reply > max_response_body_bytes
         then ((response_too_large_marker, None, retry_after), h2)
         else ((hr_status reply, Some (c_str (hr_body reply)), retry_after), h2))
      else ((hr_status reply, None, retry_after), h2))"

section \<open>Executing a request\<close>

definition max_attempts :: int where
  "max_attempts = 2"

definition retry_delay :: "int \<Rightarrow> http_outcome \<Rightarrow> u32 \<Rightarrow> u32" where
  "retry_delay attempt outcome random =
     (if ho_error_code outcome = ''API_RATE_LIMITED'' \<and> ho_retry_after_s outcome > 0
      then ho_retry_after_s outcome * 1000
      else compute_backoff_ms attempt 1000 30000 (random mod 101) 25)"

function send_loop :: "'h net_ops \<Rightarrow> network_request \<Rightarrow> int \<Rightarrow> string \<Rightarrow> 'h \<Rightarrow> (http_outcome \<times> int \<times> string) \<times> 'h" where
  "send_loop ops req attempt last_body h =
     (let ((status, body, header), h1) = perform_http_attempt ops (nq_url req) (Some (c_str (nq_body req))) (nq_kiosk_token req) h;
          last_body1 = (case body of None \<Rightarrow> last_body | Some b \<Rightarrow> b);
          outcome = classify_http_result status
            (case parse_retry_after (c_str header) of None \<Rightarrow> -1 | Some s \<Rightarrow> sint s) in
      if ho_ok outcome \<or> \<not> ho_retryable outcome \<or> attempt \<ge> max_attempts then ((outcome, attempt, last_body1), h1)
      else
      let (random, h2) = no_random ops h1
      in send_loop ops req (attempt + 1) last_body1 (no_delay ops h2 (retry_delay attempt outcome random)))"
  by pat_completeness auto
termination
  by (relation "measure (\<lambda>(ops, req, attempt, b, h). nat (max_attempts - attempt))") (auto simp: max_attempts_def)

declare send_loop.simps [simp del]

definition wifi_down_outcome :: http_outcome where
  "wifi_down_outcome = default_outcome\<lparr>ho_ok := False, ho_error_code := ''WIFI_DOWN'', ho_retryable := True\<rparr>"

definition execute :: "'h net_ops \<Rightarrow> network_request \<Rightarrow> 'h \<Rightarrow> network_result \<times> 'h" where
  "execute ops req h =
     (let result = new_result\<lparr>nr_kind := nq_kind req\<rparr>; start_ms = no_millis ops h in
      if \<not> no_wifi_connected ops h
      then (result\<lparr>nr_outcome := wifi_down_outcome, nr_event_id := nq_event_id req, nr_device_seq := nq_device_seq req,
              nr_attempts := 0, nr_total_latency_ms := no_millis ops h - start_ms\<rparr>, h)
      else if nq_kind req = BUSINESS_EVENT \<or> nq_kind req = OFFLINE_REPLAY
      then (let ((outcome, attempts, body), h1) = send_loop ops req 1 [] h
            in (result\<lparr>nr_event_id := nq_event_id req, nr_device_seq := nq_device_seq req, nr_outcome := outcome,
                  nr_attempts := attempts, nr_response_body := body,
                  nr_total_latency_ms := no_millis ops h1 - start_ms\<rparr>, h1))
      else
      let is_get = (nq_kind req = STATE_FETCH \<or> nq_kind req = UI_BUNDLE_FETCH);
          body = (if is_get then None else Some (c_str (nq_body req)));
          ((status, response, header), h1) = perform_http_attempt ops (nq_url req) body (nq_kiosk_token req) h
      in (result\<lparr>nr_outcome := classify_http_result status (-1), nr_attempts := 1,
            nr_response_body := (case response of None \<Rightarrow> [] | Some b \<Rightarrow> b),
            nr_total_latency_ms := no_millis ops h1 - start_ms\<rparr>, h1))"

text \<open>The loop of the task: it takes from HIGH, and from LOW only when HIGH is
  empty; then it executes and deposits.\<close>

definition task_take :: "network_worker \<Rightarrow> (network_request \<times> network_worker) option" where
  "task_take w =
     (if nw_executing w \<noteq> None then None
      else (case nw_high w of
          r # rs \<Rightarrow> Some (r, w\<lparr>nw_high := rs, nw_executing := Some r\<rparr>)
        | [] \<Rightarrow>
            (case nw_low w of
               r # rs \<Rightarrow> Some (r, w\<lparr>nw_low := rs, nw_executing := Some r\<rparr>)
             | [] \<Rightarrow> None)))"

definition task_finish :: "network_result \<Rightarrow> network_worker \<Rightarrow> network_worker" where
  "task_finish result w = deposit_result result (w\<lparr>nw_executing := None\<rparr>)"

section \<open>Results belong to their requests\<close>

definition for_event :: "network_request \<Rightarrow> bool" where
  "for_event req = (nq_kind req = BUSINESS_EVENT \<or> nq_kind req = OFFLINE_REPLAY)"

lemma send_loop_second: "fst (snd (fst (send_loop ops req 2 b h))) = 2"
  by (subst send_loop.simps) (simp add: Let_def split_beta max_attempts_def)

lemma send_loop_attempts: "fst (snd (fst (send_loop ops req 1 b h))) \<in> {1, 2}"
  by (subst send_loop.simps) (simp add: Let_def split_beta send_loop_second)

lemma execute_spec:
  assumes "execute ops req h = (r, h')"
  shows "nr_kind r = nq_kind req"
    "for_event req \<Longrightarrow> nr_event_id r = nq_event_id req \<and> nr_device_seq r = nq_device_seq req"
    "0 \<le> nr_attempts r \<and> nr_attempts r \<le> 2"
    "nr_attempts r = 0 \<longleftrightarrow> \<not> no_wifi_connected ops h"
proof -
  have "nr_kind r = nq_kind req \<and>
    (for_event req \<longrightarrow> nr_event_id r = nq_event_id req \<and> nr_device_seq r = nq_device_seq req) \<and>
    0 \<le> nr_attempts r \<and> nr_attempts r \<le> 2 \<and> (nr_attempts r = 0 \<longleftrightarrow> \<not> no_wifi_connected ops h)"
  proof (cases "no_wifi_connected ops h")
    case False
    then show ?thesis
      using assms by (auto simp: execute_def Let_def)
  next
    case True
    obtain oc n b h1 where s: "send_loop ops req 1 [] h = ((oc, n, b), h1)"
      by (metis surj_pair)
    show ?thesis
      using assms True s send_loop_attempts [of ops req "[]" h]
      by (auto simp: execute_def Let_def for_event_def new_result_def split: if_splits prod.splits)
  qed
  then show "nr_kind r = nq_kind req"
    "for_event req \<Longrightarrow> nr_event_id r = nq_event_id req \<and> nr_device_seq r = nq_device_seq req"
    "0 \<le> nr_attempts r \<and> nr_attempts r \<le> 2"
    "nr_attempts r = 0 \<longleftrightarrow> \<not> no_wifi_connected ops h"
    by blast+
qed

text \<open>C33. A result belongs to its request: the same kind, and for events the
  same id and sequence number; there are at most two attempts, none exactly
  when Wi-Fi is down.\<close>

theorem result_of_request:
  assumes "execute ops req h = (r, h')"
  shows "nr_kind r = nq_kind req \<and>
    (for_event req \<longrightarrow> nr_event_id r = nq_event_id req \<and> nr_device_seq r = nq_device_seq req) \<and>
    0 \<le> nr_attempts r \<and> nr_attempts r \<le> 2 \<and> (nr_attempts r = 0) = (\<not> no_wifi_connected ops h)"
  using execute_spec [OF assms] by blast

section \<open>The main loop and the task\<close>

datatype worker_event =
    Accepted network_priority_tier network_request
  | Refused network_priority_tier
  | Taken network_priority_tier network_request
  | Deposited network_result
  | Polled network_result

inductive worker_run :: "'h net_ops \<Rightarrow> network_worker \<times> 'h \<Rightarrow> worker_event list \<Rightarrow> network_worker \<times> 'h \<Rightarrow> bool"
  for ops where
  run_begin: "worker_run ops s [] s"
| run_enqueue: "worker_run ops s tr (w, h) \<Longrightarrow> enqueue tier req w = (ok, w') \<Longrightarrow>
    worker_run ops s (tr @ [if ok then Accepted tier req else Refused tier]) (w', h)"
| run_take: "worker_run ops s tr (w, h) \<Longrightarrow> task_take w = Some (req, w') \<Longrightarrow>
    worker_run ops s (tr @ [Taken (if nw_high w = [] then PRIORITY_LOW else PRIORITY_HIGH) req]) (w', h)"
| run_finish: "worker_run ops s tr (w, h) \<Longrightarrow> nw_executing w = Some req \<Longrightarrow> execute ops req h = (r, h') \<Longrightarrow>
    worker_run ops s (tr @ [Deposited r]) (task_finish r w, h')"
| run_poll: "worker_run ops s tr (w, h) \<Longrightarrow> worker_poll w = (Some r, w') \<Longrightarrow>
    worker_run ops s (tr @ [Polled r]) (w', h)"
| run_world: "worker_run ops s tr (w, h) \<Longrightarrow> worker_run ops s tr (w, h')"

inductive_cases worker_run_elims: "worker_run ops s tr (w, h)"

fun accepted :: "network_priority_tier \<Rightarrow> worker_event \<Rightarrow> network_request list" where
  "accepted t (Accepted t' r) = (if t = t' then [r] else [])"
| "accepted t _ = []"

fun taken :: "network_priority_tier \<Rightarrow> worker_event \<Rightarrow> network_request list" where
  "taken t (Taken t' r) = (if t = t' then [r] else [])"
| "taken t _ = []"

fun taken_any :: "worker_event \<Rightarrow> network_request list" where
  "taken_any (Taken t' r) = [r]"
| "taken_any _ = []"

fun deposited :: "worker_event \<Rightarrow> network_result list" where
  "deposited (Deposited r) = [r]"
| "deposited _ = []"

fun polled :: "worker_event \<Rightarrow> network_result list" where
  "polled (Polled r) = [r]"
| "polled _ = []"

definition along :: "(worker_event \<Rightarrow> 'a list) \<Rightarrow> worker_event list \<Rightarrow> 'a list" where
  "along f tr = concat (map f tr)"

lemma along_simps [simp]: "along f [] = []" "along f (tr @ [e]) = along f tr @ f e"
  by (simp_all add: along_def)

definition queue :: "network_priority_tier \<Rightarrow> network_worker \<Rightarrow> network_request list" where
  "queue t w = (case t of PRIORITY_HIGH \<Rightarrow> nw_high w | PRIORITY_LOW \<Rightarrow> nw_low w)"

definition worker_ok :: "worker_event list \<Rightarrow> network_worker \<Rightarrow> bool" where
  "worker_ok tr w =
     ((\<forall>t. along (accepted t) tr = along (taken t) tr @ queue t w) \<and>
      length (nw_high w) \<le> 3 \<and> length (nw_low w) \<le> 2 \<and>
      map nq_kind (along taken_any tr) = map nr_kind (along deposited tr) @
        (case nw_executing w of None \<Rightarrow> [] | Some r \<Rightarrow> [nq_kind r]))"

lemma queue_simps [simp]:
  "queue PRIORITY_HIGH w = nw_high w" "queue PRIORITY_LOW w = nw_low w"
  by (simp_all add: queue_def)

lemma all_tiers: "(\<forall>t. P t) \<longleftrightarrow> P PRIORITY_HIGH \<and> P PRIORITY_LOW"
  by (metis network_priority_tier.exhaust)

lemma worker_ok_begin: "worker_ok [] worker_begin"
  by (simp add: worker_ok_def worker_begin_def all_tiers)

lemma worker_ok_enqueue:
  assumes "worker_ok tr w" "enqueue tier req w = (ok, w')"
  shows "worker_ok (tr @ [if ok then Accepted tier req else Refused tier]) w'"
proof (cases tier)
  case PRIORITY_HIGH
  then show ?thesis
    using assms by (cases "length (nw_high w) < 3")
      (auto simp: enqueue_def worker_ok_def all_tiers high_queue_depth_def)
next
  case PRIORITY_LOW
  then show ?thesis
    using assms by (cases "length (nw_low w) < 2")
      (auto simp: enqueue_def worker_ok_def all_tiers low_queue_depth_def)
qed

lemma worker_ok_take:
  assumes "worker_ok tr w" "task_take w = Some (req, w')"
  shows "worker_ok (tr @ [Taken (if nw_high w = [] then PRIORITY_LOW else PRIORITY_HIGH) req]) w'"
proof -
  have e: "nw_executing w = None"
    using assms(2) by (auto simp: task_take_def split: if_splits)
  show ?thesis
  proof (cases "nw_high w")
    case (Cons r rs)
    then show ?thesis
      using assms e by (auto simp: task_take_def worker_ok_def all_tiers)
  next
    case Nil
    then show ?thesis
      using assms e by (cases "nw_low w") (auto simp: task_take_def worker_ok_def all_tiers)
  qed
qed

lemma worker_ok_finish:
  assumes "worker_ok tr w" "nw_executing w = Some req" "execute ops req h = (r, h')"
  shows "worker_ok (tr @ [Deposited r]) (task_finish r w)"
  using assms(1,2) execute_spec(1) [OF assms(3)]
  by (simp add: task_finish_def deposit_result_def worker_ok_def all_tiers)

lemma worker_ok_poll:
  assumes "worker_ok tr w" "worker_poll w = (Some r, w')"
  shows "worker_ok (tr @ [Polled r]) w'"
  using assms by (cases "nw_result_ready w") (auto simp: worker_poll_def worker_ok_def all_tiers)

lemma worker_ok_run:
  assumes "worker_run ops s tr (w, h)" "s = (worker_begin, h0)"
  shows "worker_ok tr w"
  using assms
proof (induction s tr "(w, h)" arbitrary: w h rule: worker_run.induct)
  case (run_enqueue s tr w h tier req ok w')
  then show ?case using worker_ok_enqueue by blast
next
  case (run_finish s tr w h req r h')
  show ?case
    by (rule worker_ok_finish [OF _ run_finish.hyps(3,4)]) (use run_finish in simp)
qed (simp_all add: worker_ok_begin worker_ok_take worker_ok_poll)

text \<open>C11. However the main loop and the task interleave: each tier is a FIFO
  whose accepted requests are taken in order, each once, with nothing lost in
  between; both queues stay within their depth; and every request taken
  deposits one result of its kind, in order, except the one being executed.\<close>

theorem worker_is_fifo:
  assumes "worker_run ops (worker_begin, h0) tr (w, h)"
  shows "(\<forall>t. along (accepted t) tr = along (taken t) tr @ queue t w) \<and>
    length (nw_high w) \<le> 3 \<and> length (nw_low w) \<le> 2 \<and>
    map nq_kind (along taken_any tr) = map nr_kind (along deposited tr) @
      (case nw_executing w of None \<Rightarrow> [] | Some r \<Rightarrow> [nq_kind r])"
  using worker_ok_run [OF assms refl] by (simp add: worker_ok_def)

section \<open>The result slot\<close>

text \<open>Nothing keeps the task from depositing a result before the main loop has
  polled the one before it.\<close>

lemma unpolled_result_is_overwritten:
  "worker_poll (task_finish r2 (task_finish r1 w)) = (Some r2, (task_finish r2 (task_finish r1 w))\<lparr>nw_result_ready := False\<rparr>)"
  by (simp add: worker_poll_def task_finish_def deposit_result_def)

section \<open>A world without Wi-Fi, to run the model on\<close>

definition offline_ops :: "unit net_ops" where
  "offline_ops = \<lparr>no_wifi_connected = (\<lambda>h. False), no_host_by_name = (\<lambda>h s. (False, h)), no_begin = (\<lambda>h s. False),
     no_request = (\<lambda>h c. (\<lparr>hr_status = -1, hr_retry_after = [], hr_size = 0, hr_body = []\<rparr>, h)),
     no_millis = (\<lambda>h. 0), no_random = (\<lambda>h. (0, h)), no_delay = (\<lambda>h d. h)\<rparr>"

theorem result_of_request_witness:
  "nr_event_id (fst (execute offline_ops ((new_request BUSINESS_EVENT)\<lparr>nq_event_id := ''e1''\<rparr>) ())) = ''e1''"
proof -
  obtain r h where e: "execute offline_ops ((new_request BUSINESS_EVENT)\<lparr>nq_event_id := ''e1''\<rparr>) () = (r, h)"
    by (metis surj_pair)
  show ?thesis
    using result_of_request [OF e] e by (simp add: for_event_def new_request_def)
qed

definition two_requests :: network_worker where
  "two_requests = worker_begin\<lparr>nw_high := [new_request BOOTSTRAP], nw_low := [new_request HEARTBEAT]\<rparr>"

lemma two_requests_reached:
  "worker_run offline_ops (worker_begin, ()) [Accepted PRIORITY_LOW (new_request HEARTBEAT),
     Accepted PRIORITY_HIGH (new_request BOOTSTRAP)] (two_requests, ())"
proof -
  have "enqueue PRIORITY_LOW (new_request HEARTBEAT) worker_begin =
      (True, worker_begin\<lparr>nw_low := [new_request HEARTBEAT]\<rparr>)"
    by (simp add: enqueue_def worker_begin_def low_queue_depth_def)
  from run_enqueue [OF run_begin this, of offline_ops "()"]
  have "worker_run offline_ops (worker_begin, ()) [Accepted PRIORITY_LOW (new_request HEARTBEAT)]
      (worker_begin\<lparr>nw_low := [new_request HEARTBEAT]\<rparr>, ())"
    by simp
  moreover have "enqueue PRIORITY_HIGH (new_request BOOTSTRAP) (worker_begin\<lparr>nw_low := [new_request HEARTBEAT]\<rparr>) =
      (True, two_requests)"
    by (simp add: enqueue_def worker_begin_def high_queue_depth_def two_requests_def)
  ultimately show ?thesis
    using run_enqueue by fastforce
qed

theorem worker_is_fifo_witness:
  "along (accepted PRIORITY_LOW) [Accepted PRIORITY_LOW (new_request HEARTBEAT),
     Accepted PRIORITY_HIGH (new_request BOOTSTRAP)] = nw_low two_requests"
  using worker_is_fifo [OF two_requests_reached] by (simp add: all_tiers along_def)

lemma high_before_low:
  "task_take w = Some (req, w') \<Longrightarrow> nw_high w \<noteq> [] \<Longrightarrow> req = hd (nw_high w) \<and> nw_low w' = nw_low w"
  by (cases "nw_high w") (auto simp: task_take_def split: if_splits)

end
