(* ===== verification/Kiosk_State.thy ===== *)
theory Kiosk_State
  imports Event_Journal Sequence_Reservation Event_Response Time_Sync Bootstrap Ui_Bundle_Store
    Recovery_Supervisor Network_Worker Device_Config
begin

text \<open>
  The state of \<^verbatim>\<open>KioskRuntime\<close> (runtime/kiosk_runtime.h, .cpp) and of the components
  it holds references to, and the choice of the screen.  The members of the
  class are grouped the way the header groups them: \<open>quantity_flow\<close> is the
  local good / defect / rework entry, \<open>request_status\<close> the outcome of the last
  event, \<open>presentation\<close> the error view and the finish banner with the values
  last rendered, \<open>server_identity\<close> the environment the server reported,
  \<open>replay_queue\<close> the ids of the offline replay and \<open>result_stash\<close> the results
  kept for other components.  \<open>screen\<close> has one constructor per draw call; what
  the renderer makes of it on the display is not modelled.

  SPIFFS and NVS are parameters (\<open>platform\<close>); the disk is the journal's, the
  preferences are those the device sequence holds.  \<open>moment\<close> is what a call
  reads from outside: the millisecond counter, which does not advance within
  one call, the system clock, the random words and the heap statistics.
\<close>

section \<open>Data\<close>

datatype wifi_indicator = WIFI_UNKNOWN | WIFI_DISCONNECTED | WIFI_CONNECTING | WIFI_CONNECTED

datatype qty_step = GOOD | DEFECT | REWORK_DECISION | REWORK | SUMMARY

record quantity_flow =
  qf_step :: qty_step
  qf_good :: u32
  qf_defect :: u32
  qf_rework :: u32
  qf_buffer :: string
  qf_timeout_warned :: bool

definition new_quantity_flow :: quantity_flow where
  "new_quantity_flow = \<lparr>qf_step = GOOD, qf_good = 0, qf_defect = 0, qf_rework = 0, qf_buffer = [],
     qf_timeout_warned = False\<rparr>"

record request_status =
  rq_has_scanned :: bool
  rq_backend_ok :: bool
  rq_http_status :: int
  rq_error_code :: string
  rq_latency_ms :: u32
  rq_retry_count :: int
  rq_event_id :: string
  rq_event_type :: event_type
  rq_scan_pending :: bool
  rq_pending_raw_code :: string
  rq_tcp_connect_fail :: u32
  rq_request_failures :: u32
  rq_scan_received_ms :: u32
  rq_scan_dispatch_ms :: u32

definition new_request_status :: request_status where
  "new_request_status = \<lparr>rq_has_scanned = False, rq_backend_ok = False, rq_http_status = 0, rq_error_code = [],
     rq_latency_ms = 0, rq_retry_count = 0, rq_event_id = [], rq_event_type = SCAN, rq_scan_pending = False,
     rq_pending_raw_code = [], rq_tcp_connect_fail = 0, rq_request_failures = 0, rq_scan_received_ms = 0,
     rq_scan_dispatch_ms = 0\<rparr>"

record presentation =
  pv_showing_error :: bool
  pv_error_shown_at_ms :: u32
  pv_hold_active :: bool
  pv_hold_until_ms :: u32
  pv_employee_name :: string
  pv_operation_code :: string
  pv_good :: u32
  pv_defect :: u32
  pv_rework :: u32
  pv_rendered_queue :: u32
  pv_rendered_clock :: string

definition new_presentation :: presentation where
  "new_presentation = \<lparr>pv_showing_error = False, pv_error_shown_at_ms = 0, pv_hold_active = False,
     pv_hold_until_ms = 0, pv_employee_name = [], pv_operation_code = [], pv_good = 0, pv_defect = 0,
     pv_rework = 0, pv_rendered_queue = 0, pv_rendered_clock = []\<rparr>"

record server_identity =
  se_environment :: environment
  se_version :: string
  se_last_sync_iso :: string
  se_mismatch :: bool
  se_mismatch_expected :: environment

definition new_server_identity :: server_identity where
  "new_server_identity = \<lparr>se_environment = ENV_UNKNOWN, se_version = [], se_last_sync_iso = [],
     se_mismatch = False, se_mismatch_expected = ENV_UNKNOWN\<rparr>"

record replay_queue =
  rp_event_ids :: "string list"
  rp_next :: nat
  rp_replaying :: bool
  rp_fallback_check_ms :: u32

definition new_replay_queue :: replay_queue where
  "new_replay_queue = \<lparr>rp_event_ids = [], rp_next = 0, rp_replaying = False, rp_fallback_check_ms = 0\<rparr>"

record result_stash =
  st_bootstrap :: "network_result option"
  st_ui_bundle :: "network_result option"

section \<open>What the display shows\<close>

text \<open>The texts the code passes on: one constructor per fixed Vietnamese text.\<close>

datatype ui_message =
    No_message
  | Server_text string
  | Msg_backend_not_set
  | Msg_journal_full
  | Msg_sending
  | Msg_saved_will_sync
  | Msg_enter_quantity
  | Msg_rework_too_large
  | Msg_no_wifi
  | Msg_not_allowed
  | Msg_server_error
  | Msg_connection_error
  | Msg_bad_response
  | Msg_state_unsupported
  | Msg_device_rejected
  | Msg_not_ready

definition shown :: "ui_message \<Rightarrow> bool" where
  "shown m = (m \<noteq> No_message \<and> m \<noteq> Server_text [])"

datatype screen =
    No_screen
  | Scan_received string
  | Scan_result string ui_message string
  | Waiting
  | Resyncing
  | Safe_mode string
  | Server_mismatch environment environment
  | Identity provisioning_state string
  | Error_view ui_message bool
  | Finish_result string string u32 u32 u32
  | From_bundle ui_screen view_model string ui_message bool
  | Business state_snapshot ui_message bool
  | Quantity_input view_model string ui_message bool
  | Quantity_defect view_model string u32 ui_message bool
  | Quantity_rework_decision view_model u32 u32 ui_message bool
  | Quantity_rework view_model string u32 ui_message bool
  | Quantity_summary view_model u32 u32 u32 ui_message bool

section \<open>The kiosk\<close>

record ('d, 'n) platform =
  pf_fs :: "'d spiffs_ops"
  pf_nv :: "'n nvs_ops"
  pf_mac :: u64

record moment =
  m_now :: u32
  m_epoch :: int
  m_randoms :: "u32 list"
  m_mem_free :: u32
  m_mem_largest :: u32

record ('d, 'n) kiosk =
  k_journal :: "'d event_journal"
  k_seq :: "'n device_sequence"
  k_net :: network_worker
  k_projection :: state_projection
  k_time :: time_sync
  k_ui :: ui_store
  k_recovery :: recovery_state
  k_overlay :: bool
  k_device_id :: string
  k_hardware_id :: string
  k_boot_id :: string
  k_api_endpoint :: string
  k_wifi :: wifi_indicator
  k_last_scan :: string
  k_last_key :: char
  k_requests :: request_status
  k_stash :: result_stash
  k_resyncing :: bool
  k_last_server_seq :: int
  k_quantity :: quantity_flow
  k_view :: presentation
  k_last_activity_ms :: u32
  k_server :: server_identity
  k_replay :: replay_queue
  k_screen :: screen
  k_screen_wifi :: wifi_indicator
  k_logged_network_state :: network_state

definition new_kiosk :: "'d \<Rightarrow> 'n \<Rightarrow> ('d, 'n) kiosk" where
  "new_kiosk d n = \<lparr>k_journal = new_journal d, k_seq = \<lparr>dq_reservation = None, dq_nvs = n\<rparr>,
     k_net = worker_begin, k_projection = new_projection, k_time = new_time_sync, k_ui = new_ui_store,
     k_recovery = new_recovery, k_overlay = False, k_device_id = [], k_hardware_id = [], k_boot_id = [],
     k_api_endpoint = [], k_wifi = WIFI_UNKNOWN, k_last_scan = [], k_last_key = CHR 0x00,
     k_requests = new_request_status, k_stash = \<lparr>st_bootstrap = None, st_ui_bundle = None\<rparr>,
     k_resyncing = False, k_last_server_seq = -1, k_quantity = new_quantity_flow, k_view = new_presentation,
     k_last_activity_ms = 0, k_server = new_server_identity, k_replay = new_replay_queue,
     k_screen = No_screen, k_screen_wifi = WIFI_UNKNOWN, k_logged_network_state = ONLINE\<rparr>"

definition k_nvs :: "('d, 'n) kiosk \<Rightarrow> 'n" where
  "k_nvs k = dq_nvs (k_seq k)"

abbreviation k_state :: "('d, 'n) kiosk \<Rightarrow> business_state" where
  "k_state k \<equiv> ss_state (sp_current (k_projection k))"

definition identity_active :: "('d, 'n) platform \<Rightarrow> ('d, 'n) kiosk \<Rightarrow> bool" where
  "identity_active p k = (identity_state (pf_nv p) (k_nvs k) = ACTIVE)"

text \<open>What every business operation tests first.\<close>

definition business_allowed :: "('d, 'n) platform \<Rightarrow> ('d, 'n) kiosk \<Rightarrow> bool" where
  "business_allowed p k =
     (\<not> rc_safe_mode (k_recovery k) \<and> \<not> se_mismatch (k_server k) \<and> identity_active p k)"

section \<open>Choosing the screen\<close>

definition draw :: "screen \<Rightarrow> ('d, 'n) kiosk \<Rightarrow> ('d, 'n) kiosk" where
  "draw s k = k\<lparr>k_screen := s, k_screen_wifi := k_wifi k\<rparr>"

definition bundle_screen :: "('d, 'n) kiosk \<Rightarrow> ui_screen option" where
  "bundle_screen k =
     (if us_has_active (k_ui k)
      then find_ui_screen (us_active_bundle (k_ui k)) (screen_id_for_business_state (k_state k))
      else None)"

definition quantity_screen :: "ui_message \<Rightarrow> bool \<Rightarrow> view_model \<Rightarrow> quantity_flow \<Rightarrow> screen option" where
  "quantity_screen msg is_error v q =
     (case qf_step q of
        DEFECT \<Rightarrow> Some (Quantity_defect v (qf_buffer q) (qf_good q) msg is_error)
      | REWORK_DECISION \<Rightarrow> Some (Quantity_rework_decision v (qf_good q) (qf_defect q) msg is_error)
      | REWORK \<Rightarrow> Some (Quantity_rework v (qf_buffer q) (qf_defect q) msg is_error)
      | SUMMARY \<Rightarrow> Some (Quantity_summary v (qf_good q) (qf_defect q) (qf_rework q) msg is_error)
      | GOOD \<Rightarrow> None)"

definition business_screen :: "ui_message \<Rightarrow> bool \<Rightarrow> ('d, 'n) kiosk \<Rightarrow> screen" where
  "business_screen msg is_error k =
     (let snap = sp_current (k_projection k) in
      case (if ss_state snap = QUANTITY_INPUT then quantity_screen msg is_error (ss_view snap) (k_quantity k) else None) of
        Some s \<Rightarrow> s
      | None \<Rightarrow>
          (case bundle_screen k of
             Some u \<Rightarrow> From_bundle u (ss_view snap) (qf_buffer (k_quantity k)) msg is_error
           | None \<Rightarrow>
               if ss_state snap = QUANTITY_INPUT
               then Quantity_input (ss_view snap) (qf_buffer (k_quantity k)) msg is_error
               else Business snap msg is_error))"

definition finish_screen :: "presentation \<Rightarrow> screen" where
  "finish_screen v = Finish_result (pv_employee_name v) (pv_operation_code v) (pv_good v) (pv_defect v) (pv_rework v)"

definition render :: "('d, 'n) platform \<Rightarrow> moment \<Rightarrow> ui_message \<Rightarrow> bool \<Rightarrow> bool \<Rightarrow> ('d, 'n) kiosk \<Rightarrow> ('d, 'n) kiosk" where
  "render p m msg is_error is_network_error k0 =
     (let was_showing = pv_showing_error (k_view k0);
          k = k0\<lparr>k_view := (k_view k0)\<lparr>pv_showing_error := False\<rparr>\<rparr>;
          ident = identity_state (pf_nv p) (k_nvs k) in
      if rc_safe_mode (k_recovery k) then draw (Safe_mode (rc_safe_mode_reason (k_recovery k))) k
      else if se_mismatch (k_server k)
      then draw (Server_mismatch (se_mismatch_expected (k_server k)) (se_environment (k_server k))) k
      else if ident \<noteq> ACTIVE then draw (Identity ident (k_hardware_id k)) k
      else if k_resyncing k then draw Resyncing k
      else if \<not> sp_has_snapshot (k_projection k) then draw Waiting k
      else if pv_hold_active (k_view k) \<and> \<not> is_error then draw (finish_screen (k_view k)) k
      else if is_error \<and> shown msg then
        draw (Error_view msg is_network_error)
          (k\<lparr>k_view := (k_view k)\<lparr>pv_showing_error := True,
             pv_error_shown_at_ms := (if was_showing then pv_error_shown_at_ms (k_view k) else m_now m)\<rparr>\<rparr>)
      else draw (business_screen msg is_error k) k)"

abbreviation refresh :: "('d, 'n) platform \<Rightarrow> moment \<Rightarrow> ('d, 'n) kiosk \<Rightarrow> ('d, 'n) kiosk" where
  "refresh p m \<equiv> render p m No_message False False"

definition refresh_idle_screen :: "('d, 'n) platform \<Rightarrow> moment \<Rightarrow> ('d, 'n) kiosk \<Rightarrow> ('d, 'n) kiosk" where
  "refresh_idle_screen p m k = refresh p m k"

end
