(* ===== verification/Kiosk_Runtime.thy ===== *)
theory Kiosk_Runtime
  imports Kiosk_State Backend_Url Retry_Policy
begin

text \<open>
  The handlers of \<^verbatim>\<open>KioskRuntime\<close> (runtime/kiosk_runtime.cpp): boot, the
  bootstrap result, scans and keys, the local quantity entry, sending a business
  event through the journal and the network worker, the response of the server,
  resynchronisation, offline replay, the presentation timeouts and \<open>poll\<close>.
  Every handler is a function from the state before the call to the state after
  it.  The structured log and the memory snapshots are left out; the two
  millisecond stamps kept only to log the latency of a scan are modelled, the
  log line is not.
\<close>

section \<open>Constants and small functions\<close>

definition error_view_timeout_ms :: u32 where
  "error_view_timeout_ms = 20000"

definition finish_result_hold_ms :: u32 where
  "finish_result_hold_ms = 7000"

definition replay_fallback_check_interval_ms :: u32 where
  "replay_fallback_check_interval_ms = 30000"

definition max_quantity_digits :: nat where
  "max_quantity_digits = 6"

definition identity_error_code :: "provisioning_state \<Rightarrow> string" where
  "identity_error_code s =
     (case s of
        UNPROVISIONED \<Rightarrow> ''IDENTITY_NOT_PROVISIONED''
      | PROVISIONING \<Rightarrow> ''IDENTITY_NOT_PROVISIONED''
      | SUSPENDED \<Rightarrow> ''IDENTITY_INVALID''
      | REVOKED \<Rightarrow> ''IDENTITY_REVOKED''
      | ACTIVE \<Rightarrow> [])"

definition kiosk_network_state :: "('d, 'n) kiosk \<Rightarrow> network_state" where
  "kiosk_network_state k =
     classify_network_state \<lparr>ni_wifi_connected = (k_wifi k = WIFI_CONNECTED),
       ni_last_request_ok = (\<not> rq_has_scanned (k_requests k) \<or> rq_backend_ok (k_requests k)),
       ni_last_http_status = rq_http_status (k_requests k),
       ni_consecutive_failures = rq_request_failures (k_requests k)\<rparr>"

definition offline_queue_size :: "('d, 'n) kiosk \<Rightarrow> u32" where
  "offline_queue_size k =
     (let c = index_counts (ej_index (k_journal k)) in jc_pending c + jc_in_flight c)"

definition state_endpoint_url :: "('d, 'n) kiosk \<Rightarrow> string" where
  "state_endpoint_url k =
     (let base = derive_sibling_endpoint (k_api_endpoint k) ''state'' in
      if base = [] then [] else base @ ''?device_id='' @ k_device_id k)"

text \<open>The enumeration as the number \<^verbatim>\<open>static_cast<uint8_t>\<close> makes of it.\<close>

definition pressure_code :: "journal_pressure \<Rightarrow> u8" where
  "pressure_code p =
     (case p of PRESSURE_NORMAL \<Rightarrow> 0 | PRESSURE_WARNING \<Rightarrow> 1 | PRESSURE_RESTRICTED \<Rightarrow> 2 | PRESSURE_FULL \<Rightarrow> 3)"

text \<open>\<^verbatim>\<open>strtol\<close> on a buffer of digits; \<^verbatim>\<open>long\<close> has 32 bits on the target and
  \<^verbatim>\<open>strtol\<close> saturates.\<close>

definition strtol_digits :: "string \<Rightarrow> u32" where
  "strtol_digits ds = of_int (min (2 ^ 31 - 1) (int (digits_value ds)))"

definition hex8 :: "u32 \<Rightarrow> string" where
  "hex8 w = hex4 (unat w div 65536) @ hex4 (unat w mod 65536)"

section \<open>The journal, the worker and the state machine as seen from the kiosk\<close>

definition journal_event ::
  "('d, 'n) platform \<Rightarrow> journal_record \<Rightarrow> ('d, 'n) kiosk \<Rightarrow> bool \<times> ('d, 'n) kiosk" where
  "journal_event p r k =
     (let (ok, j) = append_event (pf_fs p) r (k_journal k) in (ok, k\<lparr>k_journal := j\<rparr>))"

definition journal_status ::
  "('d, 'n) platform \<Rightarrow> string \<Rightarrow> sync_status \<Rightarrow> u32 \<Rightarrow> u32 \<Rightarrow> string \<Rightarrow> ('d, 'n) kiosk \<Rightarrow> ('d, 'n) kiosk" where
  "journal_status p event_id status retries now error_code k =
     k\<lparr>k_journal := snd (append_transition (pf_fs p) \<lparr>jt_event_id = event_id, jt_sync_status = status,
        jt_retry_count = retries, jt_last_attempt_uptime_ms = now, jt_last_error_code = error_code\<rparr> (k_journal k))\<rparr>"

definition kiosk_token :: "('d, 'n) platform \<Rightarrow> ('d, 'n) kiosk \<Rightarrow> string" where
  "kiosk_token p k = identity_kiosk_token (pf_nv p) (k_nvs k)"

definition start_resync :: "('d, 'n) platform \<Rightarrow> ('d, 'n) kiosk \<Rightarrow> ('d, 'n) kiosk" where
  "start_resync p k =
     (let k1 = draw Resyncing (k\<lparr>k_resyncing := True\<rparr>);
          (queued, w) = enqueue_state_fetch (state_endpoint_url k1) (kiosk_token p k1) (k_net k1) in
      k1\<lparr>k_net := w\<rparr>)"

definition request_manual_resync :: "('d, 'n) platform \<Rightarrow> ('d, 'n) kiosk \<Rightarrow> ('d, 'n) kiosk" where
  "request_manual_resync p k = (if \<not> identity_active p k then k else start_resync p k)"

definition apply_snapshot :: "state_snapshot \<Rightarrow> ('d, 'n) kiosk \<Rightarrow> apply_result \<times> ('d, 'n) kiosk" where
  "apply_snapshot s k =
     (let (r, sp) = projection_apply s (k_projection k) in (r, k\<lparr>k_projection := sp\<rparr>))"

section \<open>Boot and bootstrap\<close>

definition kiosk_begin :: "('d, 'n) platform \<Rightarrow> moment \<Rightarrow> string \<Rightarrow> ('d, 'n) kiosk \<Rightarrow> ('d, 'n) kiosk" where
  "kiosk_begin p m boot_id k =
     (let k1 = k\<lparr>k_seq := device_sequence_init (pf_nv p) (k_seq k)\<rparr>;
          k2 = k1\<lparr>k_device_id := identity_device_id (pf_nv p) (k_nvs k1),
                 k_hardware_id := identity_hardware_id (pf_mac p),
                 k_boot_id := boot_id,
                 k_api_endpoint := config_api_endpoint (pf_nv p) (k_nvs k1)\<rparr>
      in refresh_idle_screen p m k2)"

definition apply_server_environment ::
  "('d, 'n) platform \<Rightarrow> moment \<Rightarrow> bootstrap_result \<Rightarrow> ('d, 'n) kiosk \<Rightarrow> bool \<times> ('d, 'n) kiosk" where
  "apply_server_environment p m r k =
     (let actual = environment_from_server_role (c_str (br_server_role r));
          expected = environment_from_config_string (c_str (config_expected_environment (pf_nv p) (k_nvs k)));
          k1 = k\<lparr>k_server := (k_server k)\<lparr>se_environment := actual, se_version := br_server_version r\<rparr>\<rparr> in
      if expected \<noteq> ENV_UNKNOWN \<and> actual \<noteq> ENV_UNKNOWN \<and> expected \<noteq> actual
      then (False, refresh p m (k1\<lparr>k_server := (k_server k1)\<lparr>se_mismatch := True, se_mismatch_expected := expected\<rparr>\<rparr>))
      else (True, k1\<lparr>k_server := (k_server k1)\<lparr>se_mismatch := False,
                 se_last_sync_iso := iso8601_now (m_epoch m) (k_time k1)\<rparr>\<rparr>))"

definition on_bootstrap_result ::
  "('d, 'n) platform \<Rightarrow> moment \<Rightarrow> bootstrap_result \<Rightarrow> ('d, 'n) kiosk \<Rightarrow> ('d, 'n) kiosk" where
  "on_bootstrap_result p m r k =
     (if br_status r = BS_REJECTED
      then draw (Error_view (if br_reject_message r \<noteq> [] then Server_text (br_reject_message r)
             else Msg_device_rejected) False) k
      else if br_status r \<noteq> BS_OK then k
      else
      let (fits, k1) = apply_server_environment p m r k in
      if \<not> fits then k1
      else if \<not> br_has_snapshot r then k1
      else
      let (a, k2) = apply_snapshot (br_snapshot r) k1 in
      if a = APPLIED \<or> a = APPLIED_IDENTICAL
      then refresh_idle_screen p m (k2\<lparr>k_last_activity_ms := m_now m\<rparr>)
      else k2)"

definition handle_resync_result ::
  "('d, 'n) platform \<Rightarrow> moment \<Rightarrow> network_result \<Rightarrow> ('d, 'n) kiosk \<Rightarrow> ('d, 'n) kiosk" where
  "handle_resync_result p m r k =
     (if \<not> ho_ok (nr_outcome r) then k
      else
      (case parse_state_snapshot_json (nr_response_body r) of
         None \<Rightarrow> k
       | Some s \<Rightarrow>
           (let (a, k1) = apply_snapshot s k in
            if a = APPLIED \<or> a = APPLIED_IDENTICAL
            then refresh p m (k1\<lparr>k_resyncing := False, k_quantity := (k_quantity k1)\<lparr>qf_buffer := []\<rparr>,
                   k_last_activity_ms := m_now m\<rparr>)
            else k1)))"

section \<open>Sending a business event\<close>

definition make_event ::
  "moment \<Rightarrow> event_type \<Rightarrow> string \<Rightarrow> optional_quantity \<Rightarrow> optional_quantity \<Rightarrow> optional_quantity \<Rightarrow>
    string \<Rightarrow> u64 \<Rightarrow> ('d, 'n) kiosk \<Rightarrow> kiosk_event" where
  "make_event m type raw good defect rework event_id device_seq k = \<lparr>
     ke_protocol_version = 1,
     ke_device = \<lparr>ed_device_id = c_str (k_device_id k), ed_hardware_id = c_str (k_hardware_id k),
       ed_boot_id = c_str (k_boot_id k)\<rparr>,
     ke_event = \<lparr>ei_event_id = event_id, ei_device_seq = device_seq, ei_type = type\<rparr>,
     ke_time = \<lparr>et_timestamp_device_iso = iso8601_now (m_epoch m) (k_time k), et_uptime_ms = ucast (m_now m),
       et_sync_status = ts_status (k_time k), et_sync_age_s = sync_age_s (m_now m) (k_time k)\<rparr>,
     ke_context = \<lparr>
       ec_expected_state_version = (if sp_has_snapshot (k_projection k)
         then ss_state_version (sp_current (k_projection k)) else 0),
       ec_workflow_version = (if sp_has_snapshot (k_projection k)
         then ss_workflow_version (sp_current (k_projection k)) else 0),
       ec_ui_bundle_version = 0\<rparr>,
     ke_payload = \<lparr>sp_source = (if type = SCAN then ''GM65'' else ''KEYPAD''), sp_raw = c_str raw\<rparr>,
     ke_quantity_good = good, ke_quantity_defect = defect, ke_quantity_rework = rework\<rparr>"

definition event_record :: "kiosk_event \<Rightarrow> string \<Rightarrow> ('d, 'n) kiosk \<Rightarrow> journal_record" where
  "event_record ev json k = \<lparr>
     jr_record_version = 1,
     jr_event_id = ei_event_id (ke_event ev),
     jr_device_seq = ei_device_seq (ke_event ev),
     jr_boot_id = c_str (k_boot_id k),
     jr_event_type = event_type_to_string (ei_type (ke_event ev)),
     jr_payload = json,
     jr_payload_hash = hex8 (crc32 (bytes_of json)),
     jr_expected_state_version = ec_expected_state_version (ke_context ev),
     jr_created_uptime_ms = ucast (et_uptime_ms (ke_time ev)),
     jr_time_sync_status = time_sync_status_to_string (et_sync_status (ke_time ev)),
     jr_retry_count = 0, jr_last_attempt_uptime_ms = 0, jr_last_error_code = [],
     jr_sync_status = PENDING\<rparr>"

definition send_business_event ::
  "('d, 'n) platform \<Rightarrow> moment \<Rightarrow> event_type \<Rightarrow> string \<Rightarrow> optional_quantity \<Rightarrow> optional_quantity \<Rightarrow>
    optional_quantity \<Rightarrow> ('d, 'n) kiosk \<Rightarrow> ('d, 'n) kiosk" where
  "send_business_event p m type raw good defect rework k0 =
     (let k = k0\<lparr>k_view := (k_view k0)\<lparr>pv_hold_active := False\<rparr>\<rparr> in
      if k_api_endpoint k = [] then render p m Msg_backend_not_set True True k
      else
      let event_id = generate_random_hex_id (take 16 (m_randoms m));
          (device_seq, q) = device_sequence_next (pf_nv p) (k_seq k);
          k1 = k\<lparr>k_seq := q\<rparr>;
          event = make_event m type raw good defect rework event_id device_seq k1;
          json = encode_event_json event;
          (journaled, k2) = journal_event p (event_record event json k1) k1 in
      if \<not> journaled then render p m Msg_journal_full True True k2
      else
      let k3 = k2\<lparr>k_requests := (k_requests k2)\<lparr>rq_scan_pending := True, rq_pending_raw_code := raw,
             rq_event_id := event_id, rq_event_type := type\<rparr>\<rparr>;
          k4 = (if type \<noteq> SCAN then render p m Msg_sending False False k3 else k3);
          k5 = k4\<lparr>k_requests := (k_requests k4)\<lparr>rq_scan_dispatch_ms := m_now m\<rparr>\<rparr>;
          (queued, w) = enqueue_business_event event_id device_seq (k_api_endpoint k5) json (kiosk_token p k5) (k_net k5);
          k6 = k5\<lparr>k_net := w\<rparr> in
      if queued then journal_status p event_id IN_FLIGHT 0 (m_now m) [] k6
      else render p m Msg_saved_will_sync False False
             (k6\<lparr>k_requests := (k_requests k6)\<lparr>rq_scan_pending := False\<rparr>\<rparr>))"

section \<open>Scans\<close>

definition handle_scan :: "('d, 'n) platform \<Rightarrow> moment \<Rightarrow> string \<Rightarrow> ('d, 'n) kiosk \<Rightarrow> ('d, 'n) kiosk" where
  "handle_scan p m raw k =
     (if rc_safe_mode (k_recovery k) then k
      else if se_mismatch (k_server k) then k
      else
      let k1 = draw (Scan_received raw) (k\<lparr>k_last_scan := raw, k_last_activity_ms := m_now m\<rparr>);
          k2 = (if rq_scan_pending (k_requests k1) then k1
                else k1\<lparr>k_requests := (k_requests k1)\<lparr>rq_scan_received_ms := m_now m\<rparr>\<rparr>);
          ident = identity_state (pf_nv p) (k_nvs k2) in
      if ident \<noteq> ACTIVE then draw (Scan_result raw Msg_not_ready (identity_error_code ident)) k2
      else send_business_event p m SCAN raw no_quantity no_quantity no_quantity k2)"

section \<open>Keys\<close>

definition reset_quantity_flow :: "('d, 'n) kiosk \<Rightarrow> ('d, 'n) kiosk" where
  "reset_quantity_flow k = k\<lparr>k_quantity := new_quantity_flow\<rparr>"

definition present_quantity :: "u32 \<Rightarrow> optional_quantity" where
  "present_quantity v = \<lparr>oq_present = True, oq_value = v\<rparr>"

definition submit_final_quantity ::
  "('d, 'n) platform \<Rightarrow> moment \<Rightarrow> u32 \<Rightarrow> u32 \<Rightarrow> u32 \<Rightarrow> ('d, 'n) kiosk \<Rightarrow> ('d, 'n) kiosk" where
  "submit_final_quantity p m good defect rework k =
     send_business_event p m QUANTITY_SUBMITTED [] (present_quantity good) (present_quantity defect)
       (present_quantity rework) k"

definition upd_quantity :: "(quantity_flow \<Rightarrow> quantity_flow) \<Rightarrow> ('d, 'n) kiosk \<Rightarrow> ('d, 'n) kiosk" where
  "upd_quantity f k = k\<lparr>k_quantity := f (k_quantity k)\<rparr>"

definition confirm_value :: "('d, 'n) platform \<Rightarrow> moment \<Rightarrow> ('d, 'n) kiosk \<Rightarrow> ('d, 'n) kiosk" where
  "confirm_value p m k =
     (let q = k_quantity k;
          v = (if qf_buffer q = [] then 0 else strtol_digits (qf_buffer q)) in
      case qf_step q of
        GOOD \<Rightarrow> refresh p m (upd_quantity (\<lambda>q. q\<lparr>qf_good := v, qf_buffer := [], qf_step := DEFECT\<rparr>) k)
      | DEFECT \<Rightarrow>
          if v = 0
          then refresh p m (upd_quantity (\<lambda>q. q\<lparr>qf_defect := v, qf_buffer := [], qf_rework := 0, qf_step := SUMMARY\<rparr>) k)
          else refresh p m (upd_quantity (\<lambda>q. q\<lparr>qf_defect := v, qf_buffer := [], qf_step := REWORK_DECISION\<rparr>) k)
      | REWORK \<Rightarrow>
          if sint v > sint (qf_defect q)
          then render p m Msg_rework_too_large True False (upd_quantity (\<lambda>q. q\<lparr>qf_buffer := []\<rparr>) k)
          else refresh p m (upd_quantity (\<lambda>q. q\<lparr>qf_rework := v, qf_buffer := [], qf_step := SUMMARY\<rparr>) k)
      | REWORK_DECISION \<Rightarrow> k
      | SUMMARY \<Rightarrow> k)"

definition quantity_key :: "('d, 'n) platform \<Rightarrow> moment \<Rightarrow> char \<Rightarrow> ('d, 'n) kiosk \<Rightarrow> ('d, 'n) kiosk" where
  "quantity_key p m key k =
     (let q = k_quantity k in
      case qf_step q of
        SUMMARY \<Rightarrow>
          if key = CHR ''#'' then submit_final_quantity p m (qf_good q) (qf_defect q) (qf_rework q) k
          else if key = CHR ''0'' then refresh p m (reset_quantity_flow k)
          else k
      | REWORK_DECISION \<Rightarrow>
          if key = CHR ''1'' then refresh p m (upd_quantity (\<lambda>q. q\<lparr>qf_step := REWORK, qf_buffer := []\<rparr>) k)
          else if key = CHR ''2'' \<or> key = CHR ''#''
          then refresh p m (upd_quantity (\<lambda>q. q\<lparr>qf_rework := 0, qf_step := SUMMARY\<rparr>) k)
          else k
      | _ \<Rightarrow>
          if is_digit key then
            refresh p m (if length (qf_buffer q) < max_quantity_digits
              then upd_quantity (\<lambda>q. q\<lparr>qf_buffer := qf_buffer q @ [key]\<rparr>) k else k)
          else if key = CHR ''*'' then refresh p m (upd_quantity (\<lambda>q. q\<lparr>qf_buffer := []\<rparr>) k)
          else if key = CHR ''#'' then confirm_value p m k
          else k)"

definition handle_business_key :: "('d, 'n) platform \<Rightarrow> moment \<Rightarrow> char \<Rightarrow> ('d, 'n) kiosk \<Rightarrow> ('d, 'n) kiosk" where
  "handle_business_key p m key k =
     (if rc_safe_mode (k_recovery k) then k
      else if se_mismatch (k_server k) then k
      else if \<not> identity_active p k then k
      else if \<not> sp_has_snapshot (k_projection k) \<or> k_resyncing k then k
      else
      let k1 = k\<lparr>k_last_activity_ms := m_now m\<rparr>; state = k_state k1 in
      if state = WAIT_OPERATION \<and> key = CHR ''#''
      then send_business_event p m CANCEL_REQUESTED [] no_quantity no_quantity no_quantity k1
      else if state = QUANTITY_INPUT then quantity_key p m key k1
      else if state = SESSION_ACTIVE \<and> key = CHR ''#''
      then send_business_event p m FINISH_REQUESTED [] no_quantity no_quantity no_quantity k1
      else k1)"

section \<open>Events of the local bus\<close>

text \<open>\<^verbatim>\<open>LocalEvent\<close>: each kind with the members it uses.\<close>

datatype local_event =
    Scan_event string
  | Keypad_raw u8
  | Key_down char
  | Key_up char
  | Wifi_state string
  | Wifi_recovery_state string

definition wifi_of_text :: "string \<Rightarrow> wifi_indicator \<Rightarrow> wifi_indicator" where
  "wifi_of_text t w =
     (if t = ''CONNECTED'' then WIFI_CONNECTED
      else if t = ''CONNECTING'' then WIFI_CONNECTING
      else if t = ''DISCONNECTED'' then WIFI_DISCONNECTED
      else w)"

definition handle_local_event ::
  "('d, 'n) platform \<Rightarrow> moment \<Rightarrow> local_event \<Rightarrow> ('d, 'n) kiosk \<Rightarrow> ('d, 'n) kiosk" where
  "handle_local_event p m e k =
     (case e of
        Scan_event raw \<Rightarrow> handle_scan p m raw k
      | Keypad_raw b \<Rightarrow> k
      | Key_down key \<Rightarrow>
          (let k1 = k\<lparr>k_last_key := key\<rparr> in
           if key \<noteq> CHR ''*'' \<and> \<not> k_overlay k1 then handle_business_key p m key k1 else k1)
      | Key_up key \<Rightarrow> k\<lparr>k_last_key := key\<rparr>
      | Wifi_state t \<Rightarrow>
          (let k1 = k\<lparr>k_wifi := wifi_of_text t (k_wifi k)\<rparr> in
           if rq_scan_pending (k_requests k1) then k1 else refresh_idle_screen p m k1)
      | Wifi_recovery_state t \<Rightarrow> k)"

section \<open>The server's answer\<close>

definition finish_accepted :: "bool \<Rightarrow> event_type \<Rightarrow> business_state \<Rightarrow> business_state \<Rightarrow> bool" where
  "finish_accepted ok type old new =
     (ok \<and> type = QUANTITY_SUBMITTED \<and> old = QUANTITY_INPUT \<and> new \<noteq> QUANTITY_INPUT)"

definition arm_finish_hold :: "moment \<Rightarrow> view_model \<Rightarrow> ('d, 'n) kiosk \<Rightarrow> ('d, 'n) kiosk" where
  "arm_finish_hold m v k =
     k\<lparr>k_view := (k_view k)\<lparr>
        pv_employee_name := (if vm_has_employee_name v then c_str (vm_employee_name v) else []),
        pv_operation_code := (if vm_has_operation_code v then c_str (vm_operation_code v) else []),
        pv_good := qf_good (k_quantity k), pv_defect := qf_defect (k_quantity k),
        pv_rework := qf_rework (k_quantity k),
        pv_hold_active := True, pv_hold_until_ms := m_now m + finish_result_hold_ms\<rparr>\<rparr>"

definition show_applied ::
  "('d, 'n) platform \<Rightarrow> moment \<Rightarrow> event_response \<Rightarrow> business_state \<Rightarrow> view_model \<Rightarrow> ('d, 'n) kiosk \<Rightarrow> ('d, 'n) kiosk" where
  "show_applied p m resp prev_state prev_view k =
     (let ok = (er_kind resp \<noteq> BUSINESS_REJECTED);
          new_state = ss_state (er_snapshot resp);
          k1 = k\<lparr>k_server := (k_server k)\<lparr>se_last_sync_iso := iso8601_now (m_epoch m) (k_time k)\<rparr>\<rparr>;
          k2 = (if new_state = QUANTITY_INPUT \<and> prev_state \<noteq> QUANTITY_INPUT then reset_quantity_flow k1 else k1);
          k3 = (if finish_accepted ok (rq_event_type (k_requests k2)) prev_state new_state
                then arm_finish_hold m prev_view k2 else k2);
          msg = (if ok then No_message
                 else Server_text (c_str (if er_error_message resp = [] then er_error_code resp
                   else er_error_message resp)))
      in render p m msg (\<not> ok) False k3)"

definition apply_event_response ::
  "('d, 'n) platform \<Rightarrow> moment \<Rightarrow> bool \<Rightarrow> event_response \<Rightarrow> string \<Rightarrow> ('d, 'n) kiosk \<Rightarrow> ('d, 'n) kiosk" where
  "apply_event_response p m parsed resp event_id k0 =
     (let k = k0\<lparr>k_last_activity_ms := m_now m\<rparr> in
      if \<not> parsed \<or> er_kind resp = MALFORMED
      then render p m Msg_bad_response True True
             (journal_status p event_id PENDING 0 (m_now m) ''EVENT_RESPONSE_MALFORMED'' k)
      else
      let k1 = (if er_server_seq resp \<ge> 0 then k\<lparr>k_last_server_seq := er_server_seq resp\<rparr> else k) in
      if er_kind resp = CONFLICT_RESYNC
      then start_resync p (journal_status p event_id CONFLICT 0 (m_now m) ''STATE_CONFLICT'' k1)
      else
      let has = sp_has_snapshot (k_projection k1);
          prev_state = (if has then k_state k1 else WAIT_EMPLOYEE);
          prev_view = (if has then ss_view (sp_current (k_projection k1)) else empty_view);
          (a, k2) = apply_snapshot (er_snapshot resp) k1;
          ok = (er_kind resp \<noteq> BUSINESS_REJECTED);
          k3 = journal_status p event_id (if ok then ACKED else REJECTED) 0 (m_now m)
                 (if ok then [] else er_error_code resp) k2;
          k4 = upd_quantity (\<lambda>q. q\<lparr>qf_buffer := []\<rparr>) k3 in
      (case a of
         APPLIED \<Rightarrow> show_applied p m resp prev_state prev_view k4
       | APPLIED_IDENTICAL \<Rightarrow> show_applied p m resp prev_state prev_view k4
       | REJECTED_STALE \<Rightarrow> start_resync p k4
       | REJECTED_INCONSISTENT \<Rightarrow> start_resync p k4
       | REJECTED_UNSUPPORTED \<Rightarrow> render p m Msg_state_unsupported True True k4))"

definition failure_message :: "http_outcome \<Rightarrow> ui_message" where
  "failure_message oc =
     (if ho_error_code oc = ''WIFI_DOWN'' then Msg_no_wifi
      else if ho_http_status oc = 401 \<or> ho_http_status oc = 403 then Msg_not_allowed
      else if ho_error_code oc = ''HTTP_5XX'' then Msg_server_error
      else Msg_connection_error)"

definition note_result :: "network_result \<Rightarrow> request_status \<Rightarrow> request_status" where
  "note_result r q =
     (let oc = nr_outcome r in
      q\<lparr>rq_scan_pending := False, rq_has_scanned := True, rq_backend_ok := ho_ok oc,
        rq_http_status := ho_http_status oc, rq_error_code := ho_error_code oc,
        rq_latency_ms := nr_total_latency_ms r,
        rq_retry_count := (if nr_attempts r > 0 then nr_attempts r - 1 else 0),
        rq_tcp_connect_fail := (if \<not> ho_ok oc \<and> ho_error_code oc = ''TCP_CONNECT_FAIL''
          then rq_tcp_connect_fail q + 1 else 0),
        rq_request_failures := (if \<not> ho_ok oc then rq_request_failures q + 1 else 0)\<rparr>)"

definition is_timed_scan :: "network_result \<Rightarrow> request_status \<Rightarrow> bool" where
  "is_timed_scan r q = (rq_event_type q = SCAN \<and> nr_event_id r = rq_event_id q \<and> rq_scan_received_ms q \<noteq> 0)"

definition stop_scan_timer :: "bool \<Rightarrow> ('d, 'n) kiosk \<Rightarrow> ('d, 'n) kiosk" where
  "stop_scan_timer timed k =
     (if timed then k\<lparr>k_requests := (k_requests k)\<lparr>rq_scan_received_ms := 0\<rparr>\<rparr> else k)"

definition handle_event_result ::
  "('d, 'n) platform \<Rightarrow> moment \<Rightarrow> bool \<Rightarrow> network_result \<Rightarrow> ('d, 'n) kiosk \<Rightarrow> ('d, 'n) kiosk" where
  "handle_event_result p m was_replay r k =
     (let k1 = (if was_replay
                then k\<lparr>k_replay := (k_replay k)\<lparr>rp_replaying := False, rp_next := rp_next (k_replay k) + 1\<rparr>\<rparr> else k);
          k2 = k1\<lparr>k_requests := note_result r (k_requests k1)\<rparr>;
          timed = is_timed_scan r (k_requests k2);
          oc = nr_outcome r in
      if \<not> ho_ok oc
      then stop_scan_timer timed (render p m (failure_message oc) True True
             (journal_status p (nr_event_id r) (if ho_retryable oc then PENDING else HUMAN_REVIEW)
               (of_int (rq_retry_count (k_requests k2))) (m_now m) (ho_error_code oc) k2))
      else
      let (parsed, resp) = parse_event_response_json (nr_response_body r) in
      stop_scan_timer timed (apply_event_response p m parsed resp (nr_event_id r) k2))"

section \<open>Offline replay\<close>

definition start_offline_replay_if_needed :: "('d, 'n) kiosk \<Rightarrow> ('d, 'n) kiosk" where
  "start_offline_replay_if_needed k =
     (if rp_replaying (k_replay k) \<or> rp_next (k_replay k) < length (rp_event_ids (k_replay k)) then k
      else
      let pending = pending_in_device_seq_order (ej_index (k_journal k)) in
      if pending = [] then k
      else k\<lparr>k_replay := (k_replay k)\<lparr>rp_event_ids := map jr_event_id pending, rp_next := 0\<rparr>\<rparr>)"

definition check_offline_replay :: "('d, 'n) platform \<Rightarrow> ('d, 'n) kiosk \<Rightarrow> ('d, 'n) kiosk" where
  "check_offline_replay p k =
     (let q = k_replay k in
      if rp_next q \<ge> length (rp_event_ids q) then k
      else if rp_replaying q then k
      else if high_priority_busy (k_net k) then k
      else if \<not> identity_active p k \<or> se_mismatch (k_server k) then k
      else
      (case index_find (ej_index (k_journal k)) (rp_event_ids q ! rp_next q) of
         None \<Rightarrow> k\<lparr>k_replay := q\<lparr>rp_next := rp_next q + 1\<rparr>\<rparr>
       | Some r \<Rightarrow>
           (let (queued, w) = enqueue_offline_replay (jr_event_id r) (jr_device_seq r) (k_api_endpoint k)
                  (jr_payload r) (kiosk_token p k) (k_net k) in
            if queued then k\<lparr>k_net := w, k_replay := q\<lparr>rp_replaying := True\<rparr>\<rparr> else k)))"

section \<open>Timeouts\<close>

definition check_error_view_timeout :: "('d, 'n) platform \<Rightarrow> moment \<Rightarrow> ('d, 'n) kiosk \<Rightarrow> ('d, 'n) kiosk" where
  "check_error_view_timeout p m k =
     (if \<not> pv_showing_error (k_view k) then k
      else if m_now m - pv_error_shown_at_ms (k_view k) < error_view_timeout_ms then k
      else refresh_idle_screen p m
        (k\<lparr>k_recovery := record_recovery_event (m_now m) UI_STALL
             ''error view auto-timeout -- returning to current authoritative state''
             (pressure_code (index_pressure (ej_index (k_journal k)))) (m_mem_free m) (m_mem_largest m)
             (k_recovery k)\<rparr>))"

definition check_finish_result_hold_timeout ::
  "('d, 'n) platform \<Rightarrow> moment \<Rightarrow> ('d, 'n) kiosk \<Rightarrow> ('d, 'n) kiosk" where
  "check_finish_result_hold_timeout p m k =
     (if \<not> pv_hold_active (k_view k) then k
      else if sint (m_now m - pv_hold_until_ms (k_view k)) < 0 then k
      else refresh_idle_screen p m (k\<lparr>k_view := (k_view k)\<lparr>pv_hold_active := False\<rparr>\<rparr>))"

definition check_ui_timeout :: "('d, 'n) platform \<Rightarrow> moment \<Rightarrow> ('d, 'n) kiosk \<Rightarrow> ('d, 'n) kiosk" where
  "check_ui_timeout p m k =
     (if rc_safe_mode (k_recovery k) then k
      else if se_mismatch (k_server k) then k
      else if \<not> identity_active p k then k
      else if \<not> sp_has_snapshot (k_projection k) \<or> k_resyncing k then k
      else if high_priority_busy (k_net k) then k
      else if ui_timeout_ms_for_state (k_state k) = 0 then k
      else if \<not> ui_state_should_timeout (k_state k) (m_now m - k_last_activity_ms k) then k
      else
      let k1 = k\<lparr>k_last_activity_ms := m_now m\<rparr> in
      if k_state k = WAIT_OPERATION
      then send_business_event p m CANCEL_REQUESTED [] no_quantity no_quantity no_quantity k1
      else if k_state k = QUANTITY_INPUT
      then (if \<not> qf_timeout_warned (k_quantity k1)
            then render p m Msg_enter_quantity False False (upd_quantity (\<lambda>q. q\<lparr>qf_timeout_warned := True\<rparr>) k1)
            else refresh_idle_screen p m k1)
      else k)"

section \<open>The poll of the main loop\<close>

definition dispatch_result ::
  "('d, 'n) platform \<Rightarrow> moment \<Rightarrow> bool \<Rightarrow> network_result \<Rightarrow> ('d, 'n) kiosk \<Rightarrow> ('d, 'n) kiosk" where
  "dispatch_result p m was_replay r k =
     (case nr_kind r of
        STATE_FETCH \<Rightarrow> handle_resync_result p m r k
      | BOOTSTRAP \<Rightarrow> k\<lparr>k_stash := (k_stash k)\<lparr>st_bootstrap := Some r\<rparr>\<rparr>
      | UI_BUNDLE_FETCH \<Rightarrow> k\<lparr>k_stash := (k_stash k)\<lparr>st_ui_bundle := Some r\<rparr>\<rparr>
      | HEARTBEAT \<Rightarrow> k
      | BUSINESS_EVENT \<Rightarrow> handle_event_result p m was_replay r k
      | OFFLINE_REPLAY \<Rightarrow> handle_event_result p m was_replay r k)"

definition take_result :: "('d, 'n) platform \<Rightarrow> moment \<Rightarrow> ('d, 'n) kiosk \<Rightarrow> ('d, 'n) kiosk" where
  "take_result p m k =
     (let was_replay = rp_replaying (k_replay k); (result, w) = worker_poll (k_net k); k1 = k\<lparr>k_net := w\<rparr> in
      case result of None \<Rightarrow> k1 | Some r \<Rightarrow> dispatch_result p m was_replay r k1)"

definition check_replay_fallback :: "moment \<Rightarrow> ('d, 'n) kiosk \<Rightarrow> ('d, 'n) kiosk" where
  "check_replay_fallback m k =
     (if m_now m - rp_fallback_check_ms (k_replay k) \<ge> replay_fallback_check_interval_ms
      then start_offline_replay_if_needed (k\<lparr>k_replay := (k_replay k)\<lparr>rp_fallback_check_ms := m_now m\<rparr>\<rparr>)
      else k)"

definition refresh_queue_count :: "('d, 'n) platform \<Rightarrow> moment \<Rightarrow> ('d, 'n) kiosk \<Rightarrow> ('d, 'n) kiosk" where
  "refresh_queue_count p m k =
     (if offline_queue_size k = pv_rendered_queue (k_view k) then k
      else
      let k1 = k\<lparr>k_view := (k_view k)\<lparr>pv_rendered_queue := offline_queue_size k\<rparr>\<rparr> in
      if \<not> pv_showing_error (k_view k1) \<and> \<not> pv_hold_active (k_view k1) then refresh_idle_screen p m k1 else k1)"

definition refresh_clock :: "('d, 'n) platform \<Rightarrow> moment \<Rightarrow> ('d, 'n) kiosk \<Rightarrow> ('d, 'n) kiosk" where
  "refresh_clock p m k =
     (let now = local_hhmm (m_epoch m) (k_time k) in
      if now = pv_rendered_clock (k_view k) then k
      else
      let k1 = k\<lparr>k_view := (k_view k)\<lparr>pv_rendered_clock := now\<rparr>\<rparr>;
          idle = (sp_has_snapshot (k_projection k1) \<and> k_state k1 = WAIT_EMPLOYEE) in
      if idle \<and> \<not> pv_showing_error (k_view k1) \<and> \<not> pv_hold_active (k_view k1)
      then refresh_idle_screen p m k1 else k1)"

definition log_network_state :: "('d, 'n) kiosk \<Rightarrow> ('d, 'n) kiosk" where
  "log_network_state k = k\<lparr>k_logged_network_state := kiosk_network_state k\<rparr>"

definition kiosk_poll :: "('d, 'n) platform \<Rightarrow> moment \<Rightarrow> ('d, 'n) kiosk \<Rightarrow> ('d, 'n) kiosk" where
  "kiosk_poll p m k =
     (let k1 = take_result p m k;
          k2 = check_error_view_timeout p m k1;
          k3 = check_finish_result_hold_timeout p m k2;
          k4 = check_ui_timeout p m k3;
          k5 = check_replay_fallback m k4;
          k6 = check_offline_replay p k5;
          k7 = refresh_queue_count p m k6;
          k8 = refresh_clock p m k7
      in log_network_state k8)"

section \<open>Results kept for other components\<close>

definition take_bootstrap_result :: "('d, 'n) kiosk \<Rightarrow> network_result option \<times> ('d, 'n) kiosk" where
  "take_bootstrap_result k = (st_bootstrap (k_stash k), k\<lparr>k_stash := (k_stash k)\<lparr>st_bootstrap := None\<rparr>\<rparr>)"

definition take_ui_bundle_fetch_result :: "('d, 'n) kiosk \<Rightarrow> network_result option \<times> ('d, 'n) kiosk" where
  "take_ui_bundle_fetch_result k = (st_ui_bundle (k_stash k), k\<lparr>k_stash := (k_stash k)\<lparr>st_ui_bundle := None\<rparr>\<rparr>)"

definition kiosk_enqueue_bootstrap :: "string \<Rightarrow> string \<Rightarrow> ('d, 'n) kiosk \<Rightarrow> bool \<times> ('d, 'n) kiosk" where
  "kiosk_enqueue_bootstrap url body k =
     (let (ok, w) = enqueue_bootstrap url body (k_net k) in (ok, k\<lparr>k_net := w\<rparr>))"

definition kiosk_enqueue_ui_bundle_fetch :: "string \<Rightarrow> ('d, 'n) kiosk \<Rightarrow> bool \<times> ('d, 'n) kiosk" where
  "kiosk_enqueue_ui_bundle_fetch url k =
     (let (ok, w) = enqueue_ui_bundle_fetch url (k_net k) in (ok, k\<lparr>k_net := w\<rparr>))"

end
