(* ===== verification/Kiosk_Facts.thy ===== *)
theory Kiosk_Facts
  imports Kiosk_Runtime
begin

text \<open>
  What each handler of the kiosk leaves alone: the frame lemmas the properties
  of the runtime rest on.  \<open>kiosk_ops\<close> collects the definitions of the handlers,
  \<open>kiosk_frame\<close> the frame lemmas.
\<close>

named_theorems kiosk_frame \<open>what a handler leaves alone\<close>

section \<open>Drawing\<close>

lemma draw_frame [simp]:
  "k_journal (draw s k) = k_journal k" "k_seq (draw s k) = k_seq k" "k_net (draw s k) = k_net k"
  "k_projection (draw s k) = k_projection k" "k_quantity (draw s k) = k_quantity k"
  "k_recovery (draw s k) = k_recovery k" "k_server (draw s k) = k_server k" "k_replay (draw s k) = k_replay k"
  "k_requests (draw s k) = k_requests k" "k_resyncing (draw s k) = k_resyncing k"
  "k_api_endpoint (draw s k) = k_api_endpoint k" "k_view (draw s k) = k_view k" "k_time (draw s k) = k_time k"
  "k_ui (draw s k) = k_ui k" "k_overlay (draw s k) = k_overlay k" "k_stash (draw s k) = k_stash k"
  "k_device_id (draw s k) = k_device_id k" "k_boot_id (draw s k) = k_boot_id k"
  "k_hardware_id (draw s k) = k_hardware_id k" "k_last_activity_ms (draw s k) = k_last_activity_ms k"
  "k_wifi (draw s k) = k_wifi k" "k_screen (draw s k) = s"
  by (simp_all add: draw_def)

lemma draw_nvs [simp]: "k_nvs (draw s k) = k_nvs k"
  by (simp add: k_nvs_def)

lemma render_frame [simp]:
  "k_journal (render p m msg e n k) = k_journal k" "k_seq (render p m msg e n k) = k_seq k"
  "k_net (render p m msg e n k) = k_net k" "k_projection (render p m msg e n k) = k_projection k"
  "k_quantity (render p m msg e n k) = k_quantity k" "k_recovery (render p m msg e n k) = k_recovery k"
  "k_server (render p m msg e n k) = k_server k" "k_replay (render p m msg e n k) = k_replay k"
  "k_requests (render p m msg e n k) = k_requests k" "k_resyncing (render p m msg e n k) = k_resyncing k"
  "k_api_endpoint (render p m msg e n k) = k_api_endpoint k" "k_time (render p m msg e n k) = k_time k"
  "k_ui (render p m msg e n k) = k_ui k" "k_overlay (render p m msg e n k) = k_overlay k"
  "k_stash (render p m msg e n k) = k_stash k" "k_device_id (render p m msg e n k) = k_device_id k"
  "k_boot_id (render p m msg e n k) = k_boot_id k" "k_hardware_id (render p m msg e n k) = k_hardware_id k"
  "k_last_activity_ms (render p m msg e n k) = k_last_activity_ms k" "k_wifi (render p m msg e n k) = k_wifi k"
  "pv_hold_active (k_view (render p m msg e n k)) = pv_hold_active (k_view k)"
  "pv_hold_until_ms (k_view (render p m msg e n k)) = pv_hold_until_ms (k_view k)"
  by (simp_all add: render_def Let_def)

lemma render_nvs [simp]: "k_nvs (render p m msg e n k) = k_nvs k"
  by (simp add: k_nvs_def)

lemma refresh_idle_frame [simp]:
  "refresh_idle_screen p m k = refresh p m k"
  by (simp add: refresh_idle_screen_def)

section \<open>Journal and resynchronisation\<close>

lemma journal_status_frame [simp]:
  "k_seq (journal_status p i s r t e k) = k_seq k" "k_net (journal_status p i s r t e k) = k_net k"
  "k_projection (journal_status p i s r t e k) = k_projection k"
  "k_quantity (journal_status p i s r t e k) = k_quantity k" "k_view (journal_status p i s r t e k) = k_view k"
  "k_recovery (journal_status p i s r t e k) = k_recovery k" "k_server (journal_status p i s r t e k) = k_server k"
  "k_replay (journal_status p i s r t e k) = k_replay k" "k_requests (journal_status p i s r t e k) = k_requests k"
  "k_resyncing (journal_status p i s r t e k) = k_resyncing k" "k_stash (journal_status p i s r t e k) = k_stash k"
  "k_api_endpoint (journal_status p i s r t e k) = k_api_endpoint k" "k_time (journal_status p i s r t e k) = k_time k"
  by (simp_all add: journal_status_def)

lemma journal_status_nvs [simp]: "k_nvs (journal_status p i s r t e k) = k_nvs k"
  by (simp add: k_nvs_def)

lemma start_resync_frame [simp]:
  "k_journal (start_resync p k) = k_journal k" "k_seq (start_resync p k) = k_seq k"
  "k_projection (start_resync p k) = k_projection k" "k_quantity (start_resync p k) = k_quantity k"
  "k_recovery (start_resync p k) = k_recovery k" "k_server (start_resync p k) = k_server k"
  "k_replay (start_resync p k) = k_replay k" "k_requests (start_resync p k) = k_requests k"
  "k_resyncing (start_resync p k)" "k_view (start_resync p k) = k_view k"
  "nw_low (k_net (start_resync p k)) = nw_low (k_net k)"
  "nw_executing (k_net (start_resync p k)) = nw_executing (k_net k)"
  "k_stash (start_resync p k) = k_stash k"
  by (simp_all add: start_resync_def Let_def split_beta enqueue_state_fetch_def enqueue_def)

lemma apply_snapshot_frame:
  assumes "apply_snapshot s k = (a, k')"
  shows "k' = k\<lparr>k_projection := snd (projection_apply s (k_projection k))\<rparr>"
    "a = fst (projection_apply s (k_projection k))"
  using assms by (auto simp: apply_snapshot_def split_beta Let_def)

section \<open>Sending\<close>

text \<open>The event and the record \<open>send_business_event\<close> makes.\<close>

definition next_event_id :: "moment \<Rightarrow> string" where
  "next_event_id m = generate_random_hex_id (take 16 (m_randoms m))"

definition pending_event ::
  "('d, 'n) platform \<Rightarrow> moment \<Rightarrow> event_type \<Rightarrow> string \<Rightarrow> optional_quantity \<Rightarrow> optional_quantity \<Rightarrow>
    optional_quantity \<Rightarrow> ('d, 'n) kiosk \<Rightarrow> kiosk_event" where
  "pending_event p m type raw good defect rework k =
     make_event m type raw good defect rework (next_event_id m) (fst (device_sequence_next (pf_nv p) (k_seq k))) k"

definition pending_record ::
  "('d, 'n) platform \<Rightarrow> moment \<Rightarrow> event_type \<Rightarrow> string \<Rightarrow> optional_quantity \<Rightarrow> optional_quantity \<Rightarrow>
    optional_quantity \<Rightarrow> ('d, 'n) kiosk \<Rightarrow> journal_record" where
  "pending_record p m type raw good defect rework k =
     (let ev = pending_event p m type raw good defect rework k in event_record ev (encode_event_json ev) k)"

lemma make_event_cong:
  "k_device_id k = k_device_id k' \<Longrightarrow> k_hardware_id k = k_hardware_id k' \<Longrightarrow> k_boot_id k = k_boot_id k' \<Longrightarrow>
   k_time k = k_time k' \<Longrightarrow> k_projection k = k_projection k' \<Longrightarrow>
   make_event m type raw g d w i s k = make_event m type raw g d w i s k'"
  by (simp add: make_event_def)

lemma event_record_cong: "k_boot_id k = k_boot_id k' \<Longrightarrow> event_record ev json k = event_record ev json k'"
  by (simp add: event_record_def)

lemma pending_record_fields [simp]:
  "jr_event_id (pending_record p m type raw g d w k) = next_event_id m"
  "jr_device_seq (pending_record p m type raw g d w k) = fst (device_sequence_next (pf_nv p) (k_seq k))"
  "jr_payload (pending_record p m type raw g d w k) = encode_event_json (pending_event p m type raw g d w k)"
  "jr_sync_status (pending_record p m type raw g d w k) = PENDING"
  by (simp_all add: pending_record_def Let_def event_record_def pending_event_def make_event_def)

text \<open>The request the worker is given for a record of the journal.\<close>

definition request_for :: "network_request_kind \<Rightarrow> string \<Rightarrow> string \<Rightarrow> journal_record \<Rightarrow> network_request" where
  "request_for kind url token r = (new_request kind)\<lparr>nq_url := buffer max_queued_url_bytes url,
     nq_event_id := buffer max_queued_event_id_bytes (jr_event_id r), nq_device_seq := jr_device_seq r,
     nq_body := fill_body (jr_payload r), nq_kiosk_token := buffer max_queued_token_bytes token\<rparr>"

lemma enqueue_business_event_is:
  "enqueue_business_event (jr_event_id r) (jr_device_seq r) url (jr_payload r) token w =
   enqueue PRIORITY_HIGH (request_for BUSINESS_EVENT url token r) w"
  by (simp add: enqueue_business_event_def request_for_def)

lemma enqueue_offline_replay_is:
  "enqueue_offline_replay (jr_event_id r) (jr_device_seq r) url (jr_payload r) token w =
   enqueue PRIORITY_LOW (request_for OFFLINE_REPLAY url token r) w"
  by (simp add: enqueue_offline_replay_def request_for_def)

definition in_flight :: "moment \<Rightarrow> journal_transition" where
  "in_flight m = \<lparr>jt_event_id = next_event_id m, jt_sync_status = IN_FLIGHT, jt_retry_count = 0,
     jt_last_attempt_uptime_ms = m_now m, jt_last_error_code = []\<rparr>"

text \<open>The state in which the worker is asked: everything but the queue is settled.\<close>

lemma send_cases:
  fixes k :: "('d, 'n) kiosk" and p :: "('d, 'n) platform" and m type raw g d w
  defines "k' \<equiv> send_business_event p m type raw g d w k"
    and "r \<equiv> pending_record p m type raw g d w k"
    and "q \<equiv> snd (device_sequence_next (pf_nv p) (k_seq k))"
  obtains (no_backend) "k_api_endpoint k = []" "k_journal k' = k_journal k" "k_net k' = k_net k"
      "k_seq k' = k_seq k"
    | (refused) j where "k_api_endpoint k \<noteq> []" "append_event (pf_fs p) r (k_journal k) = (False, j)"
      "k_journal k' = j" "k_net k' = k_net k" "k_seq k' = q"
    | (sent) j u where "k_api_endpoint k \<noteq> []" "append_event (pf_fs p) r (k_journal k) = (True, j)"
      "enqueue PRIORITY_HIGH (request_for BUSINESS_EVENT (k_api_endpoint k) u r) (k_net k) = (True, k_net k')"
      "k_journal k' = snd (append_transition (pf_fs p) (in_flight m) j)" "k_seq k' = q"
      "u = identity_kiosk_token (pf_nv p) (dq_nvs q)"
    | (kept) j u where "k_api_endpoint k \<noteq> []" "append_event (pf_fs p) r (k_journal k) = (True, j)"
      "enqueue PRIORITY_HIGH (request_for BUSINESS_EVENT (k_api_endpoint k) u r) (k_net k) = (False, k_net k')"
      "k_net k' = k_net k" "k_journal k' = j" "k_seq k' = q"
proof -
  let ?k0 = "k\<lparr>k_view := (k_view k)\<lparr>pv_hold_active := False\<rparr>\<rparr>"
  obtain s where s: "device_sequence_next (pf_nv p) (k_seq k) = (s, q)"
    unfolding q_def by (metis surj_pair snd_conv)
  let ?k1 = "?k0\<lparr>k_seq := q\<rparr>"
  have ev: "make_event m type raw g d w (next_event_id m) s ?k1 = pending_event p m type raw g d w k"
    unfolding pending_event_def by (simp add: s) (rule make_event_cong; simp)
  have re: "event_record (pending_event p m type raw g d w k) (encode_event_json (pending_event p m type raw g d w k)) ?k1 = r"
    unfolding r_def pending_record_def Let_def by (rule event_record_cong) simp
  obtain ok j where a: "append_event (pf_fs p) r (k_journal k) = (ok, j)"
    by fastforce
  define u where "u = identity_kiosk_token (pf_nv p) (dq_nvs q)"
  obtain ok2 w2 where e: "enqueue PRIORITY_HIGH (request_for BUSINESS_EVENT (k_api_endpoint k) u r) (k_net k) = (ok2, w2)"
    by fastforce
  have e': "enqueue_business_event (next_event_id m) s (k_api_endpoint k)
      (encode_event_json (pending_event p m type raw g d w k)) u (k_net k) = (ok2, w2)"
    using e by (simp add: enqueue_business_event_def request_for_def r_def s)
  have w2: "\<not> ok2 \<Longrightarrow> w2 = k_net k"
    using e by (simp add: enqueue_def split: if_splits)
  show thesis
  proof (cases "k_api_endpoint k = []")
    case True
    then show thesis
      using no_backend by (simp add: k'_def send_business_event_def)
  next
    case api: False
    have un: "k' = (let (journaled, k2) = (ok, ?k1\<lparr>k_journal := j\<rparr>) in
      if \<not> journaled then render p m Msg_journal_full True True k2
      else
      let k3 = k2\<lparr>k_requests := (k_requests k2)\<lparr>rq_scan_pending := True, rq_pending_raw_code := raw,
             rq_event_id := next_event_id m, rq_event_type := type\<rparr>\<rparr>;
          k4 = (if type \<noteq> SCAN then render p m Msg_sending False False k3 else k3);
          k5 = k4\<lparr>k_requests := (k_requests k4)\<lparr>rq_scan_dispatch_ms := m_now m\<rparr>\<rparr>;
          k6 = k5\<lparr>k_net := w2\<rparr> in
      if ok2 then journal_status p (next_event_id m) IN_FLIGHT 0 (m_now m) [] k6
      else render p m Msg_saved_will_sync False False
             (k6\<lparr>k_requests := (k_requests k6)\<lparr>rq_scan_pending := False\<rparr>\<rparr>))"
      using api ev re a e' s
      by (cases "type = SCAN") (simp_all add: k'_def send_business_event_def next_event_id_def [symmetric]
          journal_event_def kiosk_token_def k_nvs_def u_def Let_def)
    show thesis
    proof (cases ok)
      case False
      then show thesis
        using refused [OF api] a un by simp
    next
      case ok: True
      show thesis
      proof (cases ok2)
        case True
        then show thesis
          using sent [OF api] a e un ok u_def
          by (simp add: Let_def journal_status_def in_flight_def)
      next
        case False
        then show thesis
          using kept [OF api] a e un ok w2 by (simp add: Let_def)
      qed
    qed
  qed
qed

lemma send_frame [simp]:
  "k_projection (send_business_event p m type raw g d w k) = k_projection k"
  "k_quantity (send_business_event p m type raw g d w k) = k_quantity k"
  "k_recovery (send_business_event p m type raw g d w k) = k_recovery k"
  "k_server (send_business_event p m type raw g d w k) = k_server k"
  "k_replay (send_business_event p m type raw g d w k) = k_replay k"
  "k_resyncing (send_business_event p m type raw g d w k) = k_resyncing k"
  "k_stash (send_business_event p m type raw g d w k) = k_stash k"
  "k_api_endpoint (send_business_event p m type raw g d w k) = k_api_endpoint k"
  "\<not> pv_hold_active (k_view (send_business_event p m type raw g d w k))"
  by (simp_all add: send_business_event_def journal_event_def split_beta Let_def)

section \<open>The quantity keys\<close>

lemma upd_quantity_frame [simp]:
  "k_journal (upd_quantity f k) = k_journal k" "k_seq (upd_quantity f k) = k_seq k"
  "k_net (upd_quantity f k) = k_net k" "k_projection (upd_quantity f k) = k_projection k"
  "k_recovery (upd_quantity f k) = k_recovery k" "k_server (upd_quantity f k) = k_server k"
  "k_replay (upd_quantity f k) = k_replay k" "k_resyncing (upd_quantity f k) = k_resyncing k"
  "k_quantity (upd_quantity f k) = f (k_quantity k)" "k_view (upd_quantity f k) = k_view k"
  "k_requests (upd_quantity f k) = k_requests k" "k_stash (upd_quantity f k) = k_stash k"
  "k_api_endpoint (upd_quantity f k) = k_api_endpoint k" "k_time (upd_quantity f k) = k_time k"
  by (simp_all add: upd_quantity_def)

lemma reset_quantity_frame [simp]:
  "k_journal (reset_quantity_flow k) = k_journal k" "k_seq (reset_quantity_flow k) = k_seq k"
  "k_net (reset_quantity_flow k) = k_net k" "k_projection (reset_quantity_flow k) = k_projection k"
  "k_recovery (reset_quantity_flow k) = k_recovery k" "k_server (reset_quantity_flow k) = k_server k"
  "k_replay (reset_quantity_flow k) = k_replay k" "k_resyncing (reset_quantity_flow k) = k_resyncing k"
  "k_quantity (reset_quantity_flow k) = new_quantity_flow" "k_view (reset_quantity_flow k) = k_view k"
  "k_requests (reset_quantity_flow k) = k_requests k" "k_stash (reset_quantity_flow k) = k_stash k"
  by (simp_all add: reset_quantity_flow_def)

lemma confirm_value_frame [simp]:
  "k_journal (confirm_value p m k) = k_journal k" "k_seq (confirm_value p m k) = k_seq k"
  "k_net (confirm_value p m k) = k_net k" "k_projection (confirm_value p m k) = k_projection k"
  "k_recovery (confirm_value p m k) = k_recovery k" "k_server (confirm_value p m k) = k_server k"
  "k_replay (confirm_value p m k) = k_replay k" "k_resyncing (confirm_value p m k) = k_resyncing k"
  "k_stash (confirm_value p m k) = k_stash k" "k_api_endpoint (confirm_value p m k) = k_api_endpoint k"
  by (simp_all add: confirm_value_def Let_def split: qty_step.split)

lemma quantity_key_frame [simp]:
  "k_projection (quantity_key p m c k) = k_projection k" "k_recovery (quantity_key p m c k) = k_recovery k"
  "k_server (quantity_key p m c k) = k_server k" "k_replay (quantity_key p m c k) = k_replay k"
  "k_resyncing (quantity_key p m c k) = k_resyncing k" "k_stash (quantity_key p m c k) = k_stash k"
  by (simp_all add: quantity_key_def submit_final_quantity_def Let_def split: qty_step.split)

lemma handle_business_key_frame [simp]:
  "k_projection (handle_business_key p m c k) = k_projection k"
  "k_recovery (handle_business_key p m c k) = k_recovery k"
  "k_server (handle_business_key p m c k) = k_server k" "k_replay (handle_business_key p m c k) = k_replay k"
  "k_resyncing (handle_business_key p m c k) = k_resyncing k"
  "k_stash (handle_business_key p m c k) = k_stash k"
  by (simp_all add: handle_business_key_def Let_def)

lemma handle_scan_frame [simp]:
  "k_projection (handle_scan p m raw k) = k_projection k" "k_recovery (handle_scan p m raw k) = k_recovery k"
  "k_server (handle_scan p m raw k) = k_server k" "k_replay (handle_scan p m raw k) = k_replay k"
  "k_resyncing (handle_scan p m raw k) = k_resyncing k" "k_quantity (handle_scan p m raw k) = k_quantity k"
  "k_stash (handle_scan p m raw k) = k_stash k"
  by (simp_all add: handle_scan_def Let_def)

lemma handle_local_event_frame [simp]:
  "k_projection (handle_local_event p m e k) = k_projection k"
  "k_recovery (handle_local_event p m e k) = k_recovery k"
  "k_server (handle_local_event p m e k) = k_server k" "k_replay (handle_local_event p m e k) = k_replay k"
  "k_resyncing (handle_local_event p m e k) = k_resyncing k" "k_stash (handle_local_event p m e k) = k_stash k"
  by (simp_all add: handle_local_event_def Let_def split: local_event.split)

section \<open>Timeouts, replay and the end of a poll\<close>

lemma timeout_frame [simp]:
  "k_projection (check_error_view_timeout p m k) = k_projection k"
  "k_projection (check_finish_result_hold_timeout p m k) = k_projection k"
  "k_projection (check_ui_timeout p m k) = k_projection k"
  "k_projection (start_offline_replay_if_needed k) = k_projection k"
  "k_projection (check_replay_fallback m k) = k_projection k"
  "k_projection (check_offline_replay p k) = k_projection k"
  "k_projection (refresh_queue_count p m k) = k_projection k"
  "k_projection (refresh_clock p m k) = k_projection k"
  "k_projection (log_network_state k) = k_projection k"
  by (simp_all add: check_error_view_timeout_def check_finish_result_hold_timeout_def check_ui_timeout_def
      start_offline_replay_if_needed_def check_replay_fallback_def check_offline_replay_def
      refresh_queue_count_def refresh_clock_def log_network_state_def Let_def split_beta split: option.split)

lemma timeout_quantity [simp]:
  "k_quantity (check_error_view_timeout p m k) = k_quantity k"
  "k_quantity (check_finish_result_hold_timeout p m k) = k_quantity k"
  "k_quantity (start_offline_replay_if_needed k) = k_quantity k"
  "k_quantity (check_replay_fallback m k) = k_quantity k"
  "k_quantity (check_offline_replay p k) = k_quantity k"
  "k_quantity (refresh_queue_count p m k) = k_quantity k"
  "k_quantity (refresh_clock p m k) = k_quantity k"
  "k_quantity (log_network_state k) = k_quantity k"
  by (simp_all add: check_error_view_timeout_def check_finish_result_hold_timeout_def
      start_offline_replay_if_needed_def check_replay_fallback_def check_offline_replay_def
      refresh_queue_count_def refresh_clock_def log_network_state_def Let_def split_beta split: option.split)

lemma timeout_resyncing [simp]:
  "k_resyncing (check_error_view_timeout p m k) = k_resyncing k"
  "k_resyncing (check_finish_result_hold_timeout p m k) = k_resyncing k"
  "k_resyncing (check_ui_timeout p m k) = k_resyncing k"
  "k_resyncing (start_offline_replay_if_needed k) = k_resyncing k"
  "k_resyncing (check_replay_fallback m k) = k_resyncing k"
  "k_resyncing (check_offline_replay p k) = k_resyncing k"
  "k_resyncing (refresh_queue_count p m k) = k_resyncing k"
  "k_resyncing (refresh_clock p m k) = k_resyncing k"
  "k_resyncing (log_network_state k) = k_resyncing k"
  by (simp_all add: check_error_view_timeout_def check_finish_result_hold_timeout_def check_ui_timeout_def
      start_offline_replay_if_needed_def check_replay_fallback_def check_offline_replay_def
      refresh_queue_count_def refresh_clock_def log_network_state_def Let_def split_beta split: option.split)

section \<open>A kiosk to run the model on\<close>

definition ram_platform :: "(ram_disk, ram_nvs) platform" where
  "ram_platform = \<lparr>pf_fs = ram_ops True, pf_nv = ram_nvs_ops True, pf_mac = 0x112233445566\<rparr>"

definition ram_prefs :: ram_nvs where
  "ram_prefs = \<lparr>rn_vals = [(identity_namespace, ''device_id'') \<mapsto> NvString ''K7'',
     (config_namespace, ''api_endpoint'') \<mapsto> NvString ''http://h/api/events''], rn_power = 0\<rparr>"

definition ram_journal :: "ram_disk event_journal" where
  "ram_journal = (new_journal \<lparr>rd_files = [journal_path \<mapsto> []], rd_power = 0\<rparr>)
     \<lparr>ej_index := new_index 100000, ej_init_ok := True\<rparr>"

definition some_moment :: moment where
  "some_moment = \<lparr>m_now = 50000, m_epoch = 0, m_randoms = replicate 16 171, m_mem_free = 0, m_mem_largest = 0\<rparr>"

text \<open>An active kiosk that has a backend, a journal and a snapshot of version 3.\<close>

definition ready_kiosk :: "business_state \<Rightarrow> (ram_disk, ram_nvs) kiosk" where
  "ready_kiosk s = (new_kiosk \<lparr>rd_files = Map.empty, rd_power = 0\<rparr> ram_prefs)
     \<lparr>k_journal := ram_journal, k_api_endpoint := ''http://h/api/events'', k_device_id := ''K7'',
      k_boot_id := ''b1'', k_wifi := WIFI_CONNECTED,
      k_projection := \<lparr>sp_has_snapshot = True, sp_current = default_snapshot\<lparr>ss_state := s, ss_state_version := 3\<rparr>\<rparr>\<rparr>"

lemma ready_kiosk_simps [simp]:
  "k_projection (ready_kiosk s) = \<lparr>sp_has_snapshot = True,
     sp_current = default_snapshot\<lparr>ss_state := s, ss_state_version := 3\<rparr>\<rparr>"
  "k_quantity (ready_kiosk s) = new_quantity_flow" "k_resyncing (ready_kiosk s) = False"
  "rc_safe_mode (k_recovery (ready_kiosk s)) = False" "se_mismatch (k_server (ready_kiosk s)) = False"
  "k_journal (ready_kiosk s) = ram_journal" "k_net (ready_kiosk s) = worker_begin"
  "k_api_endpoint (ready_kiosk s) = ''http://h/api/events''" "k_view (ready_kiosk s) = new_presentation"
  "k_boot_id (ready_kiosk s) = ''b1''" "k_requests (ready_kiosk s) = new_request_status"
  "k_replay (ready_kiosk s) = new_replay_queue" "k_time (ready_kiosk s) = new_time_sync"
  "k_overlay (ready_kiosk s) = False"
  by (simp_all add: ready_kiosk_def new_kiosk_def new_recovery_def new_server_identity_def)

lemma ready_kiosk_active: "identity_active ram_platform (ready_kiosk s)"
  by (simp add: identity_active_def ready_kiosk_def new_kiosk_def k_nvs_def ram_platform_def identity_state_def
      identity_device_id_def ram_nvs_ops_def ram_prefs_def provisioning_state_from_string_def
      identity_namespace_def config_namespace_def)

lemma ready_kiosk_allowed: "business_allowed ram_platform (ready_kiosk s)"
  by (simp add: business_allowed_def ready_kiosk_active)

end
