(* ===== verification/Kiosk_Quantity.thy ===== *)
theory Kiosk_Quantity
  imports Kiosk_Facts
begin

text \<open>
  The local entry of the three quantities.  \<open>flow_key\<close> is what a key means to
  \<open>quantity_flow\<close> alone; the handler refines it.  Then: what is typed is what the
  summary holds, the three values are always within bounds, and only the key
  that confirms the summary sends anything.
\<close>

section \<open>Numbers typed\<close>

lemma digits_value_snoc: "digits_value (ds @ [c]) = 10 * digits_value ds + digit_value c"
  by (simp add: digits_value_def)

lemma digit_value_le: "is_digit c \<Longrightarrow> digit_value c \<le> 9"
  by (auto simp: is_digit_def digit_value_def)

lemma digits_value_less: "list_all is_digit ds \<Longrightarrow> digits_value ds < 10 ^ length ds"
proof (induction ds rule: rev_induct)
  case (snoc c ds)
  then show ?case
    using digit_value_le [of c] by (simp add: digits_value_snoc)
qed (simp add: digits_value_def)

lemma digits_value_bound:
  assumes "list_all is_digit ds" "length ds \<le> 6"
  shows "digits_value ds < 1000000"
proof -
  have "digits_value ds < 10 ^ length ds"
    by (rule digits_value_less [OF assms(1)])
  also have "(10 :: nat) ^ length ds \<le> 10 ^ 6"
    using assms(2) by (intro power_increasing) simp_all
  finally show ?thesis
    by simp
qed

definition typed :: "string \<Rightarrow> nat" where
  "typed ds = digits_value (take 6 ds)"

lemma typed_bound: "list_all is_digit ds \<Longrightarrow> typed ds < 1000000"
  unfolding typed_def by (rule digits_value_bound) (auto dest: in_set_takeD simp: list_all_iff)

lemma strtol_digits_value:
  assumes "digits_value ds < 1000000"
  shows "strtol_digits ds = of_nat (digits_value ds)"
  using assms by (simp add: strtol_digits_def)

lemma unat_of_nat_small: "n < 1000000 \<Longrightarrow> unat (of_nat n :: u32) = n"
  by (simp add: unat_of_nat_u32)

lemma sint_of_nat_small: "n < 1000000 \<Longrightarrow> sint (of_nat n :: u32) = int n"
  by (simp add: sint_of_nat_u32)

section \<open>A key, as the quantity flow sees it\<close>

definition flow_value :: "quantity_flow \<Rightarrow> u32" where
  "flow_value q = (if qf_buffer q = [] then 0 else strtol_digits (qf_buffer q))"

definition flow_confirm :: "quantity_flow \<Rightarrow> quantity_flow" where
  "flow_confirm q =
     (case qf_step q of
        GOOD \<Rightarrow> q\<lparr>qf_good := flow_value q, qf_buffer := [], qf_step := DEFECT\<rparr>
      | DEFECT \<Rightarrow> q\<lparr>qf_defect := flow_value q, qf_buffer := [],
          qf_rework := (if flow_value q = 0 then 0 else qf_rework q),
          qf_step := (if flow_value q = 0 then SUMMARY else REWORK_DECISION)\<rparr>
      | REWORK \<Rightarrow> (if sint (flow_value q) > sint (qf_defect q) then q\<lparr>qf_buffer := []\<rparr>
          else q\<lparr>qf_rework := flow_value q, qf_buffer := [], qf_step := SUMMARY\<rparr>)
      | _ \<Rightarrow> q)"

definition flow_key :: "char \<Rightarrow> quantity_flow \<Rightarrow> quantity_flow" where
  "flow_key c q =
     (case qf_step q of
        SUMMARY \<Rightarrow> if c = CHR ''0'' then new_quantity_flow else q
      | REWORK_DECISION \<Rightarrow>
          if c = CHR ''1'' then q\<lparr>qf_step := REWORK, qf_buffer := []\<rparr>
          else if c = CHR ''2'' \<or> c = CHR ''#'' then q\<lparr>qf_rework := 0, qf_step := SUMMARY\<rparr>
          else q
      | _ \<Rightarrow>
          if is_digit c then (if length (qf_buffer q) < 6 then q\<lparr>qf_buffer := qf_buffer q @ [c]\<rparr> else q)
          else if c = CHR ''*'' then q\<lparr>qf_buffer := []\<rparr>
          else if c = CHR ''#'' then flow_confirm q
          else q)"

lemma confirm_value_refines: "k_quantity (confirm_value p m k) = flow_confirm (k_quantity k)"
  by (simp add: confirm_value_def flow_confirm_def flow_value_def Let_def split: qty_step.split)

lemma quantity_key_refines: "k_quantity (quantity_key p m c k) = flow_key c (k_quantity k)"
  by (simp add: quantity_key_def flow_key_def confirm_value_refines submit_final_quantity_def
      max_quantity_digits_def Let_def split: qty_step.split)

definition entering :: "('d, 'n) platform \<Rightarrow> ('d, 'n) kiosk \<Rightarrow> bool" where
  "entering p k = (business_allowed p k \<and> sp_has_snapshot (k_projection k) \<and> \<not> k_resyncing k \<and>
     k_state k = QUANTITY_INPUT)"

lemma handle_business_key_quantity:
  "k_quantity (handle_business_key p m c k) =
     (if entering p k then flow_key c (k_quantity k) else k_quantity k)"
  by (auto simp: handle_business_key_def entering_def business_allowed_def Let_def quantity_key_refines)

section \<open>Bounds\<close>

definition quantity_ok :: "quantity_flow \<Rightarrow> bool" where
  "quantity_ok q = (list_all is_digit (qf_buffer q) \<and> length (qf_buffer q) \<le> 6 \<and>
     unat (qf_good q) < 1000000 \<and> unat (qf_defect q) < 1000000 \<and> unat (qf_rework q) < 1000000 \<and>
     (qf_step q = SUMMARY \<longrightarrow> qf_rework q \<le> qf_defect q))"

lemma quantity_ok_new [simp]: "quantity_ok new_quantity_flow"
  by (simp add: quantity_ok_def new_quantity_flow_def)

lemma flow_value_bound:
  assumes "quantity_ok q"
  shows "unat (flow_value q) < 1000000"
proof (cases "qf_buffer q = []")
  case False
  have b: "digits_value (qf_buffer q) < 1000000"
    using assms by (intro digits_value_bound) (simp_all add: quantity_ok_def)
  then show ?thesis
    using False by (simp add: flow_value_def strtol_digits_value unat_of_nat_small)
qed (simp add: flow_value_def)

lemma sint_less_small:
  "unat (x :: u32) < 1000000 \<Longrightarrow> unat (y :: u32) < 1000000 \<Longrightarrow> sint x < sint y \<longleftrightarrow> x < y"
  using sint_of_nat_small [of "unat x"] sint_of_nat_small [of "unat y"] by (simp add: word_less_def)

lemma sint_le_small:
  "unat (x :: u32) < 1000000 \<Longrightarrow> unat (y :: u32) < 1000000 \<Longrightarrow> sint x \<le> sint y \<longleftrightarrow> x \<le> y"
  using sint_less_small [of y x] by (simp add: not_less [symmetric])

lemma flow_confirm_ok [inv_intros]:
  assumes "quantity_ok q"
  shows "quantity_ok (flow_confirm q)"
proof -
  note v = flow_value_bound [OF assms]
  have r: "flow_value q \<le> qf_defect q" if "\<not> sint (flow_value q) > sint (qf_defect q)"
    using that v assms by (simp add: sint_le_small quantity_ok_def not_less)
  show ?thesis
  proof (cases "qf_step q")
    case REWORK
    then show ?thesis
      using assms v r
      by (cases "sint (flow_value q) > sint (qf_defect q)") (simp_all add: flow_confirm_def quantity_ok_def)
  qed (use assms v in \<open>simp_all add: flow_confirm_def quantity_ok_def\<close>)
qed

lemma flow_digit_ok:
  "quantity_ok q \<Longrightarrow> is_digit c \<Longrightarrow> length (qf_buffer q) < 6 \<Longrightarrow> quantity_ok (q\<lparr>qf_buffer := qf_buffer q @ [c]\<rparr>)"
  by (simp add: quantity_ok_def)

lemma flow_clear_ok: "quantity_ok q \<Longrightarrow> quantity_ok (q\<lparr>qf_buffer := []\<rparr>)"
  by (simp add: quantity_ok_def)

lemma flow_key_ok [inv_intros]:
  assumes "quantity_ok q"
  shows "quantity_ok (flow_key c q)"
proof (cases "qf_step q")
  case REWORK_DECISION
  then show ?thesis
    using assms by (simp add: flow_key_def quantity_ok_def)
next
  case SUMMARY
  then show ?thesis
    using assms by (simp add: flow_key_def)
qed (use assms in \<open>simp_all add: flow_key_def flow_confirm_ok flow_digit_ok flow_clear_ok\<close>)

section \<open>Typing\<close>

lemma flow_digits:
  assumes "list_all is_digit ds" "qf_step q \<in> {GOOD, DEFECT, REWORK}" "length (qf_buffer q) \<le> 6"
  shows "fold flow_key ds q = q\<lparr>qf_buffer := take 6 (qf_buffer q @ ds)\<rparr>"
  using assms
proof (induction ds arbitrary: q)
  case (Cons c ds)
  have "flow_key c q = q\<lparr>qf_buffer := take 6 (qf_buffer q @ [c])\<rparr>"
    using Cons.prems by (auto simp: flow_key_def split: qty_step.split)
  moreover have "fold flow_key ds (q\<lparr>qf_buffer := take 6 (qf_buffer q @ [c])\<rparr>) =
      q\<lparr>qf_buffer := take 6 (take 6 (qf_buffer q @ [c]) @ ds)\<rparr>"
    using Cons.prems by (subst Cons.IH) auto
  moreover have "take 6 (take 6 (qf_buffer q @ [c]) @ ds) = take 6 (qf_buffer q @ c # ds)"
    using Cons.prems(3) by (cases "length (qf_buffer q) = 6") (auto simp: min_def)
  ultimately show ?case
    by simp
qed simp

lemma typed_value:
  assumes "list_all is_digit ds" "qf_buffer q = take 6 ds"
  shows "flow_value q = of_nat (typed ds)"
proof -
  have "digits_value (take 6 ds) < 1000000"
    using typed_bound [OF assms(1)] by (simp add: typed_def)
  then show ?thesis
    by (simp add: flow_value_def typed_def strtol_digits_value assms(2)) (simp add: digits_value_def)
qed

lemma not_digit [simp]: "\<not> is_digit CHR ''#''" "\<not> is_digit CHR ''*''"
  by (simp_all add: is_digit_def)

lemma flow_number:
  assumes "list_all is_digit ds" "qf_step q \<in> {GOOD, DEFECT, REWORK}" "qf_buffer q = []"
  shows "fold flow_key (ds @ [CHR ''#'']) q = flow_confirm (q\<lparr>qf_buffer := take 6 ds\<rparr>)"
  using assms flow_digits [OF assms(1,2)] by (auto simp: flow_key_def split: qty_step.split)

lemma typed_flow_value:
  "list_all is_digit ds \<Longrightarrow> flow_value (q\<lparr>qf_buffer := take 6 ds\<rparr>) = of_nat (typed ds)"
  by (rule typed_value) simp_all

lemma of_nat_zero_small: "n < 1000000 \<Longrightarrow> (of_nat n :: u32) = 0 \<longleftrightarrow> n = 0"
  using unat_of_nat_small [of n] by (auto simp: unat_eq_0 [symmetric])

lemma flow_good:
  assumes "list_all is_digit g" "qf_step q = GOOD" "qf_buffer q = []"
  shows "fold flow_key (g @ [CHR ''#'']) q = q\<lparr>qf_good := of_nat (typed g), qf_step := DEFECT\<rparr>"
proof -
  have "fold flow_key (g @ [CHR ''#'']) q = q\<lparr>qf_good := of_nat (typed g), qf_buffer := [], qf_step := DEFECT\<rparr>"
    using assms by (simp add: flow_number flow_confirm_def typed_flow_value del: fold_append)
  then show ?thesis
    using assms(3) by (cases q) simp
qed

lemma flow_defect:
  assumes "list_all is_digit d" "qf_step q = DEFECT" "qf_buffer q = []" "qf_rework q = 0"
  shows "fold flow_key (d @ [CHR ''#'']) q =
    q\<lparr>qf_defect := of_nat (typed d), qf_step := if typed d = 0 then SUMMARY else REWORK_DECISION\<rparr>"
proof -
  have "fold flow_key (d @ [CHR ''#'']) q = q\<lparr>qf_defect := of_nat (typed d), qf_buffer := [],
      qf_rework := (if typed d = 0 then 0 else qf_rework q),
      qf_step := if typed d = 0 then SUMMARY else REWORK_DECISION\<rparr>"
    using assms typed_bound [OF assms(1)]
    by (simp add: flow_number flow_confirm_def typed_flow_value of_nat_zero_small del: fold_append)
  then show ?thesis
    using assms(3,4) by (cases q) simp
qed

lemma flow_rework:
  assumes "list_all is_digit n" "qf_step q = REWORK" "qf_buffer q = []" "qf_defect q = of_nat D" "D < 1000000"
  shows "fold flow_key (n @ [CHR ''#'']) q =
    (if typed n > D then q else q\<lparr>qf_rework := of_nat (typed n), qf_step := SUMMARY\<rparr>)"
proof -
  have "fold flow_key (n @ [CHR ''#'']) q =
    (if typed n > D then q\<lparr>qf_buffer := []\<rparr>
     else q\<lparr>qf_rework := of_nat (typed n), qf_buffer := [], qf_step := SUMMARY\<rparr>)"
    using assms typed_bound [OF assms(1)]
    by (simp add: flow_number flow_confirm_def typed_flow_value sint_of_nat_small del: fold_append)
  then show ?thesis
    using assms(3) by (cases q) simp
qed

text \<open>The keys of one complete entry: good, defect, and what follows when there
  are defects.\<close>

definition entry_keys :: "string \<Rightarrow> string \<Rightarrow> string option \<Rightarrow> string" where
  "entry_keys g d r = g @ [CHR ''#''] @ d @ [CHR ''#''] @
     (if typed d = 0 then [] else case r of None \<Rightarrow> [CHR ''2''] | Some n \<Rightarrow> [CHR ''1''] @ n @ [CHR ''#''])"

definition entered :: "string \<Rightarrow> string \<Rightarrow> string option \<Rightarrow> quantity_flow" where
  "entered g d r =
     (let rework = (if typed d = 0 then 0 else case r of None \<Rightarrow> 0 | Some n \<Rightarrow> typed n) in
      new_quantity_flow\<lparr>qf_good := of_nat (typed g), qf_defect := of_nat (typed d),
        qf_step := if rework > typed d then REWORK else SUMMARY,
        qf_rework := if rework > typed d then 0 else of_nat rework\<rparr>)"

lemma flow_entry:
  assumes "list_all is_digit g" "list_all is_digit d" "list_all is_digit (case r of None \<Rightarrow> [] | Some n \<Rightarrow> n)"
  shows "fold flow_key (entry_keys g d r) new_quantity_flow = entered g d r"
proof -
  let ?q1 = "new_quantity_flow\<lparr>qf_good := of_nat (typed g), qf_step := DEFECT\<rparr>"
  let ?q2 = "?q1\<lparr>qf_defect := of_nat (typed d), qf_step := if typed d = 0 then SUMMARY else REWORK_DECISION\<rparr>"
  have s1: "fold flow_key (g @ [CHR ''#'']) new_quantity_flow = ?q1"
    by (rule flow_good [OF assms(1)]) (simp_all add: new_quantity_flow_def)
  have s2: "fold flow_key (d @ [CHR ''#'']) ?q1 = ?q2"
    by (rule flow_defect [OF assms(2)]) (simp_all add: new_quantity_flow_def)
  have two: "fold flow_key (g @ [CHR ''#''] @ d @ [CHR ''#''] @ rest) new_quantity_flow = fold flow_key rest ?q2" for rest
    using s1 s2 by simp
  consider (none) "typed d = 0" | (no) "typed d \<noteq> 0" "r = None" | (yes) n where "typed d \<noteq> 0" "r = Some n"
    by (cases r) auto
  then show ?thesis
  proof cases
    case none
    then show ?thesis
      unfolding entry_keys_def two by (simp add: entered_def new_quantity_flow_def)
  next
    case no
    then show ?thesis
      unfolding entry_keys_def two by (simp add: entered_def flow_key_def new_quantity_flow_def)
  next
    case yes
    let ?q3 = "?q2\<lparr>qf_step := REWORK\<rparr>"
    have "flow_key CHR ''1'' ?q2 = ?q3"
      using yes(1) by (simp add: flow_key_def new_quantity_flow_def)
    moreover have "fold flow_key (n @ [CHR ''#'']) ?q3 =
        (if typed n > typed d then ?q3 else ?q3\<lparr>qf_rework := of_nat (typed n), qf_step := SUMMARY\<rparr>)"
      by (rule flow_rework) (use assms(3) yes typed_bound [OF assms(2)] in \<open>simp_all add: new_quantity_flow_def\<close>)
    ultimately show ?thesis
      using yes unfolding entry_keys_def two by (simp add: entered_def new_quantity_flow_def)
  qed
qed

section \<open>Pressing keys on the kiosk\<close>

definition press :: "('d, 'n) platform \<Rightarrow> (moment \<times> char) list \<Rightarrow> ('d, 'n) kiosk \<Rightarrow> ('d, 'n) kiosk" where
  "press p ks k = fold (\<lambda>(m, c). handle_business_key p m c) ks k"

text \<open>Only \<open>#\<close> on the summary sends.\<close>

fun quiet :: "string \<Rightarrow> quantity_flow \<Rightarrow> bool" where
  "quiet [] q = True"
| "quiet (c # cs) q = (\<not> (qf_step q = SUMMARY \<and> c = CHR ''#'') \<and> quiet cs (flow_key c q))"

lemma quiet_append: "quiet (xs @ ys) q \<longleftrightarrow> quiet xs q \<and> quiet ys (fold flow_key xs q)"
  by (induction xs arbitrary: q) auto

lemma quiet_digits: "list_all is_digit ds \<Longrightarrow> quiet ds q"
  by (induction ds arbitrary: q) auto

lemma quiet_number:
  assumes "list_all is_digit ds" "qf_step q \<in> {GOOD, DEFECT, REWORK}" "qf_buffer q = []"
  shows "quiet (ds @ [CHR ''#'']) q"
  using assms by (auto simp: quiet_append quiet_digits flow_digits)

lemma quiet_key_local:
  assumes "\<not> (qf_step (k_quantity k) = SUMMARY \<and> c = CHR ''#'')"
  shows "k_journal (quantity_key p m c k) = k_journal k \<and> k_net (quantity_key p m c k) = k_net k \<and>
    k_seq (quantity_key p m c k) = k_seq k"
  using assms by (simp add: quantity_key_def Let_def split: qty_step.split)

lemma quiet_key:
  fixes m :: moment
  assumes "entering p k" "\<not> (qf_step (k_quantity k) = SUMMARY \<and> c = CHR ''#'')"
  defines "k' \<equiv> handle_business_key p m c k"
  shows "k_journal k' = k_journal k \<and> k_net k' = k_net k \<and> k_seq k' = k_seq k \<and> entering p k' \<and>
    k_quantity k' = flow_key c (k_quantity k)"
proof -
  have un: "k' = quantity_key p m c (k\<lparr>k_last_activity_ms := m_now m\<rparr>)"
    using assms(1) by (simp add: k'_def handle_business_key_def entering_def business_allowed_def)
  have l: "k_journal k' = k_journal k \<and> k_net k' = k_net k \<and> k_seq k' = k_seq k"
    using quiet_key_local [of "k\<lparr>k_last_activity_ms := m_now m\<rparr>" c p m] assms(2) un by simp
  moreover have "entering p k'"
    using assms(1) l by (simp add: un entering_def business_allowed_def identity_active_def k_nvs_def)
  moreover have "k_quantity k' = flow_key c (k_quantity k)"
    using assms(1) by (simp add: k'_def handle_business_key_quantity)
  ultimately show ?thesis
    by blast
qed

lemma press_quiet:
  assumes "entering p k" "quiet (map snd ks) (k_quantity k)"
  shows "k_journal (press p ks k) = k_journal k \<and> k_net (press p ks k) = k_net k \<and>
    entering p (press p ks k) \<and> k_quantity (press p ks k) = fold flow_key (map snd ks) (k_quantity k)"
  using assms
proof (induction ks arbitrary: k)
  case (Cons a ks)
  obtain m c where a: "a = (m, c)"
    by fastforce
  have q: "\<not> (qf_step (k_quantity k) = SUMMARY \<and> c = CHR ''#'')"
    using Cons.prems(2) a by auto
  note k = quiet_key [OF Cons.prems(1) q, of m]
  have "press p (a # ks) k = press p ks (handle_business_key p m c k)"
    by (simp add: press_def a)
  then show ?case
    using Cons.IH [of "handle_business_key p m c k"] k Cons.prems(2) a by simp
qed (simp add: press_def)

lemma quiet_entry:
  assumes "list_all is_digit g" "list_all is_digit d" "list_all is_digit (case r of None \<Rightarrow> [] | Some n \<Rightarrow> n)"
  shows "quiet (entry_keys g d r) new_quantity_flow"
proof -
  let ?q1 = "new_quantity_flow\<lparr>qf_good := of_nat (typed g), qf_step := DEFECT\<rparr>"
  let ?q2 = "?q1\<lparr>qf_defect := of_nat (typed d), qf_step := if typed d = 0 then SUMMARY else REWORK_DECISION\<rparr>"
  have s1: "fold flow_key (g @ [CHR ''#'']) new_quantity_flow = ?q1"
    by (rule flow_good [OF assms(1)]) (simp_all add: new_quantity_flow_def)
  have s2: "fold flow_key (d @ [CHR ''#'']) ?q1 = ?q2"
    by (rule flow_defect [OF assms(2)]) (simp_all add: new_quantity_flow_def)
  have q1: "quiet (g @ [CHR ''#'']) new_quantity_flow"
    by (rule quiet_number [OF assms(1)]) (simp_all add: new_quantity_flow_def)
  have q2: "quiet (d @ [CHR ''#'']) ?q1"
    by (rule quiet_number [OF assms(2)]) (simp_all add: new_quantity_flow_def)
  have two: "quiet (g @ [CHR ''#''] @ d @ [CHR ''#''] @ rest) new_quantity_flow = quiet rest ?q2" for rest
    using q1 q2 s1 s2 quiet_append [of "g @ [CHR ''#'']" "(d @ [CHR ''#'']) @ rest"]
      quiet_append [of "d @ [CHR ''#'']" rest] by simp
  consider (none) "typed d = 0" | (no) "typed d \<noteq> 0" "r = None" | (yes) n where "typed d \<noteq> 0" "r = Some n"
    by (cases r) auto
  then show ?thesis
  proof cases
    case yes
    let ?q3 = "?q2\<lparr>qf_step := REWORK\<rparr>"
    have "flow_key CHR ''1'' ?q2 = ?q3"
      using yes(1) by (simp add: flow_key_def new_quantity_flow_def)
    moreover have "quiet (n @ [CHR ''#'']) ?q3"
      by (rule quiet_number) (use assms(3) yes in \<open>simp_all add: new_quantity_flow_def\<close>)
    ultimately show ?thesis
      using yes unfolding entry_keys_def two by simp
  next
    case none
    then show ?thesis
      unfolding entry_keys_def two by simp
  next
    case no
    then show ?thesis
      unfolding entry_keys_def two by simp
  qed
qed

text \<open>C8. What is typed is what is submitted: from a fresh quantity screen the
  keys of an entry (good, \<open>#\<close>, defect, \<open>#\<close>, and for a defect either 2, or 1 and
  the rework and \<open>#\<close>), pressed at any moments, leave exactly the numbers typed
  (the first six digits of each), with the summary shown unless more rework
  than defects was asked for, which is refused; nothing is journalled or sent
  on the way; and \<open>#\<close> on the summary sends one event that carries the three
  numbers.\<close>

theorem quantity_entry:
  assumes "entering p k" "k_quantity k = new_quantity_flow"
    and "list_all is_digit g" "list_all is_digit d" "list_all is_digit (case r of None \<Rightarrow> [] | Some n \<Rightarrow> n)"
    and "map snd ks = entry_keys g d r"
  shows "k_quantity (press p ks k) = entered g d r \<and>
    k_journal (press p ks k) = k_journal k \<and> k_net (press p ks k) = k_net k \<and>
    (qf_step (entered g d r) = SUMMARY \<longrightarrow>
       handle_business_key p m CHR ''#'' (press p ks k) =
       send_business_event p m QUANTITY_SUBMITTED [] (present_quantity (of_nat (typed g)))
         (present_quantity (of_nat (typed d))) (present_quantity (qf_rework (entered g d r)))
         ((press p ks k)\<lparr>k_last_activity_ms := m_now m\<rparr>))"
proof -
  note k = press_quiet [of p k ks] and e = flow_entry [OF assms(3-5)] and q = quiet_entry [OF assms(3-5)]
  have l: "k_journal (press p ks k) = k_journal k \<and> k_net (press p ks k) = k_net k \<and>
      entering p (press p ks k) \<and> k_quantity (press p ks k) = entered g d r"
    using k assms(1,2,6) e q by simp
  moreover have "qf_good (entered g d r) = of_nat (typed g)" "qf_defect (entered g d r) = of_nat (typed d)"
    by (simp_all add: entered_def Let_def new_quantity_flow_def)
  ultimately show ?thesis
    by (auto simp: handle_business_key_def entering_def business_allowed_def quantity_key_def
        submit_final_quantity_def)
qed

theorem quantity_entry_witness:
  "k_quantity (press ram_platform (map (Pair some_moment) ''12#3#13#'') (ready_kiosk QUANTITY_INPUT)) =
     new_quantity_flow\<lparr>qf_good := 12, qf_defect := 3, qf_rework := 3, qf_step := SUMMARY\<rparr>"
proof -
  have e: "entering ram_platform (ready_kiosk QUANTITY_INPUT)"
    by (simp add: entering_def ready_kiosk_allowed)
  have t: "typed ''12'' = 12" "typed ''3'' = 3"
    by (simp_all add: typed_def digits_value_def digit_value_def)
  have d: "list_all is_digit ''12''" "list_all is_digit ''3''"
    by (simp_all add: is_digit_def)
  have r: "list_all is_digit (case Some ''3'' of None \<Rightarrow> [] | Some n \<Rightarrow> n)"
    using d(2) by simp
  have "map snd (map (Pair some_moment) ''12#3#13#'') = entry_keys ''12'' ''3'' (Some ''3'')"
    by (simp add: entry_keys_def t)
  from quantity_entry [OF e ready_kiosk_simps(2) d r this, THEN conjunct1]
  have "k_quantity (press ram_platform (map (Pair some_moment) ''12#3#13#'') (ready_kiosk QUANTITY_INPUT)) =
      entered ''12'' ''3'' (Some ''3'')" .
  then show ?thesis
    by (simp add: entered_def t new_quantity_flow_def)
qed

end
