(* ===== verification/Kiosk_Run.thy ===== *)
theory Kiosk_Run
  imports Kiosk_Quantity
begin

text \<open>
  The operations other components call on the kiosk as one type, the runs they
  make together with the network task and the rest of the firmware, and what
  holds along every run: the bounds of the quantities, the projection that only
  the server moves, silence of a blocked kiosk, and the limits of the error
  view and of the finish banner.
\<close>

section \<open>Runs\<close>

datatype kiosk_op =
    Op_begin moment string
  | Op_local moment local_event
  | Op_poll moment
  | Op_bootstrap_result moment bootstrap_result
  | Op_reconnected
  | Op_manual_resync
  | Op_refresh moment
  | Op_take_bootstrap
  | Op_take_ui_bundle
  | Op_enqueue_bootstrap string string
  | Op_enqueue_ui_bundle string

fun kiosk_apply :: "('d, 'n) platform \<Rightarrow> kiosk_op \<Rightarrow> ('d, 'n) kiosk \<Rightarrow> ('d, 'n) kiosk" where
  "kiosk_apply p (Op_begin m b) k = kiosk_begin p m b k"
| "kiosk_apply p (Op_local m e) k = handle_local_event p m e k"
| "kiosk_apply p (Op_poll m) k = kiosk_poll p m k"
| "kiosk_apply p (Op_bootstrap_result m r) k = on_bootstrap_result p m r k"
| "kiosk_apply p Op_reconnected k = start_offline_replay_if_needed k"
| "kiosk_apply p Op_manual_resync k = request_manual_resync p k"
| "kiosk_apply p (Op_refresh m) k = refresh_idle_screen p m k"
| "kiosk_apply p Op_take_bootstrap k = snd (take_bootstrap_result k)"
| "kiosk_apply p Op_take_ui_bundle k = snd (take_ui_bundle_fetch_result k)"
| "kiosk_apply p (Op_enqueue_bootstrap u b) k = snd (kiosk_enqueue_bootstrap u b k)"
| "kiosk_apply p (Op_enqueue_ui_bundle u) k = snd (kiosk_enqueue_ui_bundle_fetch u k)"

text \<open>The steps of a run: an operation of the kiosk, the network task taking a
  request or depositing any result, a heartbeat queued, and the other components
  changing what they own (the journal compacted, preferences written, the clock polled, a
  bundle activated, the overlay shown, recovery state changed).\<close>

inductive kiosk_run :: "('d, 'n) platform \<Rightarrow> ('d, 'n) kiosk \<Rightarrow> ('d, 'n) kiosk \<Rightarrow> bool" for p k0 where
  run_start: "kiosk_run p k0 k0"
| run_op: "kiosk_run p k0 k \<Longrightarrow> kiosk_run p k0 (kiosk_apply p op k)"
| run_take: "kiosk_run p k0 k \<Longrightarrow> task_take (k_net k) = Some (req, w) \<Longrightarrow> kiosk_run p k0 (k\<lparr>k_net := w\<rparr>)"
| run_deposit: "kiosk_run p k0 k \<Longrightarrow> kiosk_run p k0 (k\<lparr>k_net := task_finish r (k_net k)\<rparr>)"
| run_heartbeat: "kiosk_run p k0 k \<Longrightarrow> kiosk_run p k0 (k\<lparr>k_net := snd (enqueue_heartbeat url body (k_net k))\<rparr>)"
| run_others: "kiosk_run p k0 k \<Longrightarrow>
    kiosk_run p k0 (k\<lparr>k_journal := j, k_seq := (k_seq k)\<lparr>dq_nvs := n\<rparr>, k_time := t, k_ui := u, k_recovery := rc,
      k_overlay := ov\<rparr>)"

section \<open>The quantities\<close>

lemma handle_local_event_quantity:
  "k_quantity (handle_local_event p m e k) \<in> insert (k_quantity k) (range (\<lambda>c. flow_key c (k_quantity k)))"
  by (cases e) (auto simp: handle_local_event_def Let_def handle_business_key_quantity)

lemma stop_scan_timer_frame [simp]:
  "k_projection (stop_scan_timer b k) = k_projection k" "k_quantity (stop_scan_timer b k) = k_quantity k"
  "k_journal (stop_scan_timer b k) = k_journal k" "k_net (stop_scan_timer b k) = k_net k"
  "k_view (stop_scan_timer b k) = k_view k" "k_resyncing (stop_scan_timer b k) = k_resyncing k"
  "k_seq (stop_scan_timer b k) = k_seq k" "k_replay (stop_scan_timer b k) = k_replay k"
  by (simp_all add: stop_scan_timer_def)

lemma arm_finish_hold_frame [simp]:
  "k_projection (arm_finish_hold m v k) = k_projection k" "k_quantity (arm_finish_hold m v k) = k_quantity k"
  "k_journal (arm_finish_hold m v k) = k_journal k" "k_net (arm_finish_hold m v k) = k_net k"
  "k_resyncing (arm_finish_hold m v k) = k_resyncing k" "k_seq (arm_finish_hold m v k) = k_seq k"
  "k_replay (arm_finish_hold m v k) = k_replay k" "k_requests (arm_finish_hold m v k) = k_requests k"
  by (simp_all add: arm_finish_hold_def)

lemma show_applied_frame [simp]:
  "k_projection (show_applied p m r s v k) = k_projection k" "k_journal (show_applied p m r s v k) = k_journal k"
  "k_net (show_applied p m r s v k) = k_net k" "k_resyncing (show_applied p m r s v k) = k_resyncing k"
  "k_seq (show_applied p m r s v k) = k_seq k" "k_replay (show_applied p m r s v k) = k_replay k"
  by (simp_all add: show_applied_def Let_def)

lemma show_applied_quantity:
  "k_quantity (show_applied p m r s v k) \<in> {k_quantity k, new_quantity_flow}"
  by (simp add: show_applied_def Let_def)

text \<open>The ways a response goes: the state after noting it, and after writing its
  verdict.\<close>

definition resp_noted :: "moment \<Rightarrow> event_response \<Rightarrow> ('d, 'n) kiosk \<Rightarrow> ('d, 'n) kiosk" where
  "resp_noted m r k = (if er_server_seq r \<ge> 0 then k\<lparr>k_last_activity_ms := m_now m, k_last_server_seq := er_server_seq r\<rparr>
     else k\<lparr>k_last_activity_ms := m_now m\<rparr>)"

definition resp_judged :: "('d, 'n) platform \<Rightarrow> moment \<Rightarrow> event_response \<Rightarrow> string \<Rightarrow> ('d, 'n) kiosk \<Rightarrow> ('d, 'n) kiosk" where
  "resp_judged p m r i k =
     upd_quantity (\<lambda>q. q\<lparr>qf_buffer := []\<rparr>)
       (journal_status p i (if er_kind r \<noteq> BUSINESS_REJECTED then ACKED else REJECTED) 0 (m_now m)
         (if er_kind r \<noteq> BUSINESS_REJECTED then [] else er_error_code r)
         ((resp_noted m r k)\<lparr>k_projection := snd (projection_apply (er_snapshot r) (k_projection k))\<rparr>))"

lemma resp_noted_frame [simp]:
  "k_projection (resp_noted m r k) = k_projection k" "k_quantity (resp_noted m r k) = k_quantity k"
  "k_journal (resp_noted m r k) = k_journal k" "k_net (resp_noted m r k) = k_net k"
  "k_view (resp_noted m r k) = k_view k" "k_resyncing (resp_noted m r k) = k_resyncing k"
  "k_seq (resp_noted m r k) = k_seq k" "k_requests (resp_noted m r k) = k_requests k"
  "k_replay (resp_noted m r k) = k_replay k"
  by (simp_all add: resp_noted_def)

lemma resp_judged_frame [simp]:
  "k_projection (resp_judged p m r i k) = snd (projection_apply (er_snapshot r) (k_projection k))"
  "k_quantity (resp_judged p m r i k) = (k_quantity k)\<lparr>qf_buffer := []\<rparr>"
  "k_net (resp_judged p m r i k) = k_net k" "k_view (resp_judged p m r i k) = k_view k"
  "k_resyncing (resp_judged p m r i k) = k_resyncing k" "k_seq (resp_judged p m r i k) = k_seq k"
  "k_requests (resp_judged p m r i k) = k_requests k" "k_replay (resp_judged p m r i k) = k_replay k"
  by (simp_all add: resp_judged_def)

lemma response_cases:
  obtains (malformed) "\<not> b \<or> er_kind r = MALFORMED"
      "apply_event_response p m b r i k = render p m Msg_bad_response True True
         (journal_status p i PENDING 0 (m_now m) ''EVENT_RESPONSE_MALFORMED'' (k\<lparr>k_last_activity_ms := m_now m\<rparr>))"
    | (conflict) "b" "er_kind r = CONFLICT_RESYNC"
      "apply_event_response p m b r i k =
         start_resync p (journal_status p i CONFLICT 0 (m_now m) ''STATE_CONFLICT'' (resp_noted m r k))"
    | (applied) ps pv where "b" "er_kind r = SUCCESS \<or> er_kind r = BUSINESS_REJECTED"
      "fst (projection_apply (er_snapshot r) (k_projection k)) \<in> {APPLIED, APPLIED_IDENTICAL}"
      "apply_event_response p m b r i k = show_applied p m r ps pv (resp_judged p m r i k)"
    | (stale) "b" "er_kind r = SUCCESS \<or> er_kind r = BUSINESS_REJECTED"
      "fst (projection_apply (er_snapshot r) (k_projection k)) \<in> {REJECTED_STALE, REJECTED_INCONSISTENT}"
      "apply_event_response p m b r i k = start_resync p (resp_judged p m r i k)"
    | (unsupported) "b" "er_kind r = SUCCESS \<or> er_kind r = BUSINESS_REJECTED"
      "fst (projection_apply (er_snapshot r) (k_projection k)) = REJECTED_UNSUPPORTED"
      "apply_event_response p m b r i k = render p m Msg_state_unsupported True True (resp_judged p m r i k)"
proof (cases "\<not> b \<or> er_kind r = MALFORMED")
  case True
  then show thesis
    by (intro malformed) (auto simp: apply_event_response_def)
next
  case ok: False
  show thesis
  proof (cases "er_kind r = CONFLICT_RESYNC")
    case True
    then show thesis
      using ok by (intro conflict) (simp_all add: apply_event_response_def resp_noted_def)
  next
    case False
    have kind: "er_kind r = SUCCESS \<or> er_kind r = BUSINESS_REJECTED"
      using ok False by (cases "er_kind r") simp_all
    define ps where "ps = (if sp_has_snapshot (k_projection k) then k_state k else WAIT_EMPLOYEE)"
    define pv where "pv = (if sp_has_snapshot (k_projection k) then ss_view (sp_current (k_projection k)) else empty_view)"
    obtain a sp where a: "projection_apply (er_snapshot r) (k_projection k) = (a, sp)"
      by fastforce
    note un = apply_event_response_def apply_snapshot_def ps_def pv_def resp_judged_def resp_noted_def Let_def
    have prem: "b" "er_kind r \<noteq> MALFORMED" "er_kind r \<noteq> CONFLICT_RESYNC"
      using ok False by simp_all
    show thesis
    proof (cases a)
      case APPLIED
      then show thesis
        using prem kind a by (intro applied [of ps pv]) (simp_all add: un)
    next
      case APPLIED_IDENTICAL
      then show thesis
        using prem kind a by (intro applied [of ps pv]) (simp_all add: un)
    next
      case REJECTED_STALE
      then show thesis
        using prem kind a by (intro stale) (simp_all add: un)
    next
      case REJECTED_INCONSISTENT
      then show thesis
        using prem kind a by (intro stale) (simp_all add: un)
    next
      case REJECTED_UNSUPPORTED
      then show thesis
        using prem kind a by (intro unsupported) (simp_all add: un)
    qed
  qed
qed

lemma apply_event_response_quantity:
  "k_quantity (apply_event_response p m b r i k) \<in> {k_quantity k, (k_quantity k)\<lparr>qf_buffer := []\<rparr>, new_quantity_flow}"
proof (cases rule: response_cases [of b r p m i k])
  case (applied ps pv)
  then show ?thesis
    using show_applied_quantity [of p m r ps pv "resp_judged p m r i k"] by auto
qed simp_all

text \<open>The state in which an event's result is judged, and the two ways it goes.\<close>

definition event_base :: "bool \<Rightarrow> network_result \<Rightarrow> ('d, 'n) kiosk \<Rightarrow> ('d, 'n) kiosk" where
  "event_base b r k =
     (if b then k\<lparr>k_replay := (k_replay k)\<lparr>rp_replaying := False, rp_next := rp_next (k_replay k) + 1\<rparr>\<rparr> else k)
       \<lparr>k_requests := note_result r (k_requests k)\<rparr>"

lemma event_base_frame [simp]:
  "k_projection (event_base b r k) = k_projection k" "k_quantity (event_base b r k) = k_quantity k"
  "k_journal (event_base b r k) = k_journal k" "k_net (event_base b r k) = k_net k"
  "k_view (event_base b r k) = k_view k" "k_resyncing (event_base b r k) = k_resyncing k"
  "k_seq (event_base b r k) = k_seq k" "k_requests (event_base b r k) = note_result r (k_requests k)"
  "k_recovery (event_base b r k) = k_recovery k" "k_server (event_base b r k) = k_server k"
  by (simp_all add: event_base_def)

lemma event_result_failed:
  assumes "\<not> ho_ok (nr_outcome r)"
  shows "handle_event_result p m b r k = stop_scan_timer (is_timed_scan r (note_result r (k_requests k)))
    (render p m (failure_message (nr_outcome r)) True True
      (journal_status p (nr_event_id r) (if ho_retryable (nr_outcome r) then PENDING else HUMAN_REVIEW)
        (of_int (rq_retry_count (note_result r (k_requests k)))) (m_now m) (ho_error_code (nr_outcome r))
        (event_base b r k)))"
  using assms by (cases b) (simp_all add: handle_event_result_def event_base_def Let_def)

lemma event_result_ok:
  assumes "ho_ok (nr_outcome r)" "parse_event_response_json (nr_response_body r) = (parsed, resp)"
  shows "handle_event_result p m b r k = stop_scan_timer (is_timed_scan r (note_result r (k_requests k)))
    (apply_event_response p m parsed resp (nr_event_id r) (event_base b r k))"
  using assms by (cases b) (simp_all add: handle_event_result_def event_base_def Let_def)

lemma take_result_cases:
  obtains (none) w where "worker_poll (k_net k) = (None, w)" "take_result p m k = k\<lparr>k_net := w\<rparr>"
    | (some) r w where "worker_poll (k_net k) = (Some r, w)"
        "take_result p m k = dispatch_result p m (rp_replaying (k_replay k)) r (k\<lparr>k_net := w\<rparr>)"
proof -
  obtain res w where w: "worker_poll (k_net k) = (res, w)"
    by fastforce
  show thesis
    using w none some by (cases res) (simp_all add: take_result_def Let_def)
qed

lemma dispatch_cases:
  obtains (resync) "dispatch_result p m b r k = handle_resync_result p m r k" "nr_kind r = STATE_FETCH"
    | (event) "dispatch_result p m b r k = handle_event_result p m b r k"
        "nr_kind r = BUSINESS_EVENT \<or> nr_kind r = OFFLINE_REPLAY"
    | (stash) s where "dispatch_result p m b r k = k\<lparr>k_stash := s\<rparr>"
        "nr_kind r = BOOTSTRAP \<or> nr_kind r = UI_BUNDLE_FETCH"
    | (ignored) "dispatch_result p m b r k = k" "nr_kind r = HEARTBEAT"
proof (cases "nr_kind r")
  case BUSINESS_EVENT
  then show thesis by (intro event) (simp_all add: dispatch_result_def)
next
  case OFFLINE_REPLAY
  then show thesis by (intro event) (simp_all add: dispatch_result_def)
next
  case STATE_FETCH
  then show thesis by (intro resync) (simp_all add: dispatch_result_def)
next
  case BOOTSTRAP
  then show thesis by (intro stash) (simp_all add: dispatch_result_def)
next
  case HEARTBEAT
  then show thesis by (intro ignored) (simp_all add: dispatch_result_def)
next
  case UI_BUNDLE_FETCH
  then show thesis by (intro stash) (simp_all add: dispatch_result_def)
qed

lemma event_result_quantity:
  "k_quantity (handle_event_result p m b r k) \<in> {k_quantity k, (k_quantity k)\<lparr>qf_buffer := []\<rparr>, new_quantity_flow}"
proof (cases "ho_ok (nr_outcome r)")
  case True
  obtain parsed resp where e: "parse_event_response_json (nr_response_body r) = (parsed, resp)"
    by fastforce
  show ?thesis
    using apply_event_response_quantity [of p m parsed resp "nr_event_id r" "event_base b r k"]
    by (simp add: event_result_ok [OF True e])
qed (simp add: event_result_failed)

lemma resync_result_quantity:
  "k_quantity (handle_resync_result p m r k) \<in> {k_quantity k, (k_quantity k)\<lparr>qf_buffer := []\<rparr>}"
  by (simp add: handle_resync_result_def apply_snapshot_def Let_def split_beta split: option.split)

lemma take_result_quantity:
  "k_quantity (take_result p m k) \<in> {k_quantity k, (k_quantity k)\<lparr>qf_buffer := []\<rparr>, new_quantity_flow}"
proof (cases rule: take_result_cases [of k p m])
  case (some r w)
  show ?thesis
  proof (cases rule: dispatch_cases [of p m "rp_replaying (k_replay k)" r "k\<lparr>k_net := w\<rparr>"])
    case resync
    then show ?thesis
      using some resync_result_quantity [of p m r "k\<lparr>k_net := w\<rparr>"] by auto
  next
    case event
    then show ?thesis
      using some event_result_quantity [of p m "rp_replaying (k_replay k)" r "k\<lparr>k_net := w\<rparr>"] by simp
  qed (use some in simp_all)
qed simp

lemma check_ui_timeout_quantity:
  "k_quantity (check_ui_timeout p m k) \<in> {k_quantity k, (k_quantity k)\<lparr>qf_timeout_warned := True\<rparr>}"
  by (simp add: check_ui_timeout_def Let_def)

lemma kiosk_poll_quantity: "quantity_ok (k_quantity k) \<Longrightarrow> quantity_ok (k_quantity (kiosk_poll p m k))"
proof -
  assume q: "quantity_ok (k_quantity k)"
  have "quantity_ok (k_quantity (take_result p m k))"
    using take_result_quantity [of p m k] q flow_clear_ok by auto
  moreover have "quantity_ok q' \<Longrightarrow> quantity_ok (q'\<lparr>qf_timeout_warned := True\<rparr>)" for q'
    by (simp add: quantity_ok_def)
  ultimately show ?thesis
    using check_ui_timeout_quantity [of p m "check_finish_result_hold_timeout p m
      (check_error_view_timeout p m (take_result p m k))"]
    by (auto simp: kiosk_poll_def)
qed

lemma kiosk_apply_quantity [inv_intros]:
  assumes "quantity_ok (k_quantity k)"
  shows "quantity_ok (k_quantity (kiosk_apply p op k))"
proof (cases op)
  case (Op_local m e)
  then show ?thesis
    using handle_local_event_quantity [of p m e k] flow_key_ok assms by auto
next
  case (Op_poll m)
  then show ?thesis
    using kiosk_poll_quantity [OF assms] by simp
qed (use assms in \<open>simp_all add: kiosk_begin_def on_bootstrap_result_def apply_server_environment_def apply_snapshot_def
    request_manual_resync_def take_bootstrap_result_def take_ui_bundle_fetch_result_def kiosk_enqueue_bootstrap_def
    kiosk_enqueue_ui_bundle_fetch_def Let_def split_beta\<close>)

text \<open>Whatever is scanned, pressed, answered or timed out, in whatever order:
  the digits being typed are at most six digits, the three quantities are at
  most 999999, and a summary never holds more rework than defects.\<close>

lemma quantities_always_valid:
  assumes "kiosk_run p k0 k" "k_quantity k0 = new_quantity_flow"
  shows "list_all is_digit (qf_buffer (k_quantity k)) \<and> length (qf_buffer (k_quantity k)) \<le> 6 \<and>
    unat (qf_good (k_quantity k)) < 1000000 \<and> unat (qf_defect (k_quantity k)) < 1000000 \<and>
    unat (qf_rework (k_quantity k)) < 1000000 \<and>
    (qf_step (k_quantity k) = SUMMARY \<longrightarrow> qf_rework (k_quantity k) \<le> qf_defect (k_quantity k))"
proof -
  have "quantity_ok (k_quantity k)"
    using assms by (induction rule: kiosk_run.induct) (simp_all add: kiosk_apply_quantity)
  then show ?thesis
    by (simp add: quantity_ok_def)
qed

lemma quantities_always_valid_witness:
  "qf_buffer (k_quantity (handle_local_event ram_platform some_moment (Key_down CHR ''7'') (ready_kiosk QUANTITY_INPUT))) =
     ''7'' \<and>
   length (qf_buffer (k_quantity (handle_local_event ram_platform some_moment (Key_down CHR ''7'')
     (ready_kiosk QUANTITY_INPUT)))) \<le> 6"
proof -
  let ?k = "ready_kiosk QUANTITY_INPUT"
  have "kiosk_run ram_platform ?k (kiosk_apply ram_platform (Op_local some_moment (Key_down CHR ''7'')) ?k)"
    by (intro run_op run_start)
  from quantities_always_valid [OF this ready_kiosk_simps(2)]
  have "length (qf_buffer (k_quantity (handle_local_event ram_platform some_moment (Key_down CHR ''7'') ?k))) \<le> 6"
    by simp
  moreover have "\<not> k_overlay ?k"
    by (simp add: ready_kiosk_def new_kiosk_def)
  moreover have "entering ram_platform (?k\<lparr>k_last_key := CHR ''7''\<rparr>)"
    using ready_kiosk_allowed [of QUANTITY_INPUT]
    by (simp add: entering_def business_allowed_def identity_active_def k_nvs_def)
  ultimately show ?thesis
    by (simp add: handle_local_event_def handle_business_key_quantity flow_key_def new_quantity_flow_def is_digit_def)
qed

section \<open>The server owns the business state\<close>

lemma parsed_snapshot:
  assumes "parse_event_response_json body = (True, r)" "er_kind r = SUCCESS \<or> er_kind r = BUSINESS_REJECTED"
  shows "parse_state_snapshot_json body = Some (er_snapshot r)"
  using assms by (auto simp: parse_event_response_json_def empty_response_def Let_def split: if_splits option.splits)

lemma response_projection:
  "k_projection (apply_event_response p m b r i k) =
     (if b \<and> (er_kind r = SUCCESS \<or> er_kind r = BUSINESS_REJECTED)
      then snd (projection_apply (er_snapshot r) (k_projection k)) else k_projection k)"
  by (cases rule: response_cases [of b r p m i k]) auto

definition server_snapshot :: "network_result \<Rightarrow> state_snapshot option" where
  "server_snapshot r =
     (if \<not> ho_ok (nr_outcome r) then None
      else if nr_kind r = STATE_FETCH then parse_state_snapshot_json (nr_response_body r)
      else if nr_kind r = BUSINESS_EVENT \<or> nr_kind r = OFFLINE_REPLAY then
        (let (parsed, resp) = parse_event_response_json (nr_response_body r) in
         if parsed \<and> (er_kind resp = SUCCESS \<or> er_kind resp = BUSINESS_REJECTED) then Some (er_snapshot resp) else None)
      else None)"

definition moved_by :: "state_snapshot option \<Rightarrow> state_projection \<Rightarrow> state_projection" where
  "moved_by s sp = (case s of None \<Rightarrow> sp | Some s \<Rightarrow> snd (projection_apply s sp))"

lemma event_result_projection:
  assumes "nr_kind r = BUSINESS_EVENT \<or> nr_kind r = OFFLINE_REPLAY"
  shows "k_projection (handle_event_result p m b r k) = moved_by (server_snapshot r) (k_projection k)"
proof (cases "ho_ok (nr_outcome r)")
  case True
  obtain parsed resp where e: "parse_event_response_json (nr_response_body r) = (parsed, resp)"
    by fastforce
  show ?thesis
    using assms True by (auto simp: event_result_ok [OF True e] response_projection server_snapshot_def moved_by_def e)
qed (simp add: event_result_failed server_snapshot_def moved_by_def)

lemma resync_result_projection:
  "nr_kind r = STATE_FETCH \<Longrightarrow>
   k_projection (handle_resync_result p m r k) = moved_by (server_snapshot r) (k_projection k)"
  by (simp add: handle_resync_result_def server_snapshot_def moved_by_def apply_snapshot_def Let_def split_beta
      split: option.split)

lemma dispatch_projection:
  "k_projection (dispatch_result p m b r k) = moved_by (server_snapshot r) (k_projection k)"
proof (cases rule: dispatch_cases [of p m b r k])
  case resync
  then show ?thesis by (simp add: resync_result_projection)
next
  case event
  then show ?thesis by (simp add: event_result_projection)
qed (auto simp: server_snapshot_def moved_by_def)

lemma poll_projection:
  "k_projection (kiosk_poll p m k) =
     (case fst (worker_poll (k_net k)) of None \<Rightarrow> k_projection k
      | Some r \<Rightarrow> moved_by (server_snapshot r) (k_projection k))"
proof -
  have "k_projection (kiosk_poll p m k) = k_projection (take_result p m k)"
    by (simp add: kiosk_poll_def)
  then show ?thesis
    by (cases rule: take_result_cases [of k p m]) (simp_all add: dispatch_projection)
qed

definition bootstrap_snapshot :: "('d, 'n) platform \<Rightarrow> moment \<Rightarrow> bootstrap_result \<Rightarrow> ('d, 'n) kiosk \<Rightarrow> state_snapshot option" where
  "bootstrap_snapshot p m r k =
     (if br_status r = BS_OK \<and> fst (apply_server_environment p m r k) \<and> br_has_snapshot r
      then Some (br_snapshot r) else None)"

lemma environment_frame [simp]:
  "k_projection (snd (apply_server_environment p m r k)) = k_projection k"
  "k_journal (snd (apply_server_environment p m r k)) = k_journal k"
  "k_net (snd (apply_server_environment p m r k)) = k_net k"
  "k_seq (snd (apply_server_environment p m r k)) = k_seq k"
  "k_replay (snd (apply_server_environment p m r k)) = k_replay k"
  by (simp_all add: apply_server_environment_def Let_def)

lemma bootstrap_projection:
  "k_projection (on_bootstrap_result p m r k) = moved_by (bootstrap_snapshot p m r k) (k_projection k)"
  by (cases "br_status r")
    (simp_all add: on_bootstrap_result_def bootstrap_snapshot_def moved_by_def apply_snapshot_def Let_def split_beta)

lemma apply_projection:
  "\<exists>s. k_projection (kiosk_apply p op k) = moved_by s (k_projection k)"
proof (cases op)
  case (Op_poll m)
  then show ?thesis
    by (auto simp: poll_projection moved_by_def intro: exI [of _ None] split: option.split)
next
  case (Op_bootstrap_result m r)
  then show ?thesis
    by (auto simp: bootstrap_projection)
qed (auto simp: moved_by_def kiosk_begin_def request_manual_resync_def take_bootstrap_result_def
    take_ui_bundle_fetch_result_def kiosk_enqueue_bootstrap_def kiosk_enqueue_ui_bundle_fetch_def Let_def split_beta
    intro: exI [of _ None])

lemma kiosk_run_trans: "kiosk_run p k1 k2 \<Longrightarrow> kiosk_run p k0 k1 \<Longrightarrow> kiosk_run p k0 k2"
  by (induction rule: kiosk_run.induct) (blast intro: kiosk_run.intros)+

lemma run_quantity: "kiosk_run p k0 k \<Longrightarrow> quantity_ok (k_quantity k0) \<Longrightarrow> quantity_ok (k_quantity k)"
  by (induction rule: kiosk_run.induct) (simp_all add: kiosk_apply_quantity)

lemma run_projection: "kiosk_run p k0 k \<Longrightarrow> projection_steps (k_projection k0) (k_projection k)"
proof (induction rule: kiosk_run.induct)
  case (run_op k op)
  obtain s where "k_projection (kiosk_apply p op k) = moved_by s (k_projection k)"
    using apply_projection by blast
  then show ?case
    using run_op.IH by (cases s) (simp_all add: moved_by_def steps_apply)
qed (simp_all add: steps_refl)

end
