(* ===== verification/Kiosk_Props.thy ===== *)
theory Kiosk_Props
  imports Kiosk_Run
begin

text \<open>
  What the runtime promises: the server alone moves the business state, a
  blocked kiosk neither records nor sends, the verdict of the server is what
  the journal is told, no error view and no finish banner outlives its time,
  and what happens to a resynchronisation that fails.
\<close>

text \<open>C6. The server owns the business state: no scan, key, Wi-Fi event or timeout
  moves it; a poll moves it by exactly the snapshot the polled response carries
  and a bootstrap by the snapshot it carries when the environment fits; along
  every run an unknown state is never held, a snapshot once held stays, its
  version never goes back, and the content stays while the version does.\<close>

theorem server_owns_state:
  assumes "kiosk_run p k0 k" "projection_ok (k_projection k0)"
  shows "k_projection (handle_local_event p m e k) = k_projection k \<and>
    k_projection (check_ui_timeout p m k) = k_projection k \<and>
    k_projection (kiosk_poll p m k) =
      (case fst (worker_poll (k_net k)) of None \<Rightarrow> k_projection k
       | Some r \<Rightarrow> moved_by (server_snapshot r) (k_projection k)) \<and>
    k_projection (on_bootstrap_result p m b k) = moved_by (bootstrap_snapshot p m b k) (k_projection k) \<and>
    projection_ok (k_projection k) \<and>
    (sp_has_snapshot (k_projection k0) \<longrightarrow> sp_has_snapshot (k_projection k) \<and>
       ss_state_version (sp_current (k_projection k0)) \<le> ss_state_version (sp_current (k_projection k)) \<and>
       (ss_state_version (sp_current (k_projection k)) = ss_state_version (sp_current (k_projection k0)) \<longrightarrow>
          sp_current (k_projection k) = sp_current (k_projection k0)))"
  using projection_steps_mono [OF run_projection [OF assms(1)] assms(2)]
  by (simp add: poll_projection bootstrap_projection)

theorem server_owns_state_witness:
  "sp_has_snapshot (k_projection (kiosk_poll ram_platform some_moment (ready_kiosk WAIT_EMPLOYEE)))"
proof -
  have "kiosk_run ram_platform (ready_kiosk WAIT_EMPLOYEE)
      (kiosk_apply ram_platform (Op_poll some_moment) (ready_kiosk WAIT_EMPLOYEE))"
    by (intro run_op run_start)
  from server_owns_state [OF this] show ?thesis
    by (simp add: projection_ok_def)
qed

section \<open>Blocked\<close>

lemma blocked_key: "\<not> business_allowed p k \<Longrightarrow> handle_business_key p m c k = k"
  by (auto simp: handle_business_key_def business_allowed_def)

lemma blocked_scan:
  assumes "\<not> business_allowed p k"
  shows "k_journal (handle_scan p m raw k) = k_journal k" "k_net (handle_scan p m raw k) = k_net k"
    "k_seq (handle_scan p m raw k) = k_seq k"
  using assms
  by (auto simp: handle_scan_def business_allowed_def identity_active_def k_nvs_def Let_def)

lemma not_allowed_last_key: "\<not> business_allowed p k \<Longrightarrow> \<not> business_allowed p (k\<lparr>k_last_key := c\<rparr>)"
  by (simp add: business_allowed_def identity_active_def k_nvs_def)

lemma blocked_event:
  assumes "\<not> business_allowed p k"
  shows "k_journal (handle_local_event p m e k) = k_journal k \<and> k_net (handle_local_event p m e k) = k_net k \<and>
    k_seq (handle_local_event p m e k) = k_seq k \<and> k_quantity (handle_local_event p m e k) = k_quantity k"
  using assms
  by (cases e) (simp_all add: handle_local_event_def Let_def blocked_key blocked_scan not_allowed_last_key)

text \<open>C20. A kiosk in safe mode, in front of a server of another environment, or
  whose identity is not active does no business: no scan, key, Wi-Fi event or
  idle timeout changes the journal, the network queues, the sequence or the
  quantities; without an active identity or with a mismatch nothing is
  replayed either; and a bootstrap that reveals a mismatch applies no
  snapshot.\<close>

theorem blocked_kiosk_is_silent:
  assumes "\<not> business_allowed p k"
  shows "k_journal (handle_local_event p m e k) = k_journal k \<and> k_net (handle_local_event p m e k) = k_net k \<and>
    k_seq (handle_local_event p m e k) = k_seq k \<and> k_quantity (handle_local_event p m e k) = k_quantity k \<and>
    check_ui_timeout p m k = k \<and>
    (\<not> identity_active p k \<or> se_mismatch (k_server k) \<longrightarrow> check_offline_replay p k = k) \<and>
    (\<not> fst (apply_server_environment p m b k) \<longrightarrow>
       k_projection (on_bootstrap_result p m b k) = k_projection k \<and>
       (br_status b = BS_OK \<longrightarrow> se_mismatch (k_server (on_bootstrap_result p m b k))))"
proof -
  have "\<not> identity_active p k \<or> se_mismatch (k_server k) \<longrightarrow> check_offline_replay p k = k"
    by (auto simp: check_offline_replay_def Let_def)
  moreover have "check_ui_timeout p m k = k"
    using assms by (auto simp: check_ui_timeout_def business_allowed_def)
  moreover have "\<not> fst (apply_server_environment p m b k) \<longrightarrow>
      se_mismatch (k_server (snd (apply_server_environment p m b k)))"
    by (simp add: apply_server_environment_def Let_def)
  ultimately show ?thesis
    using blocked_event [OF assms]
    by (simp add: bootstrap_projection bootstrap_snapshot_def moved_by_def on_bootstrap_result_def split_beta)
qed

definition suspended_kiosk :: "(ram_disk, ram_nvs) kiosk" where
  "suspended_kiosk = (ready_kiosk WAIT_OPERATION)\<lparr>k_recovery := new_recovery\<lparr>rc_safe_mode := True\<rparr>\<rparr>"

theorem blocked_kiosk_is_silent_witness:
  "k_net (handle_local_event ram_platform some_moment (Scan_event ''E1'') suspended_kiosk) = worker_begin"
proof -
  have "\<not> business_allowed ram_platform suspended_kiosk"
    by (simp add: business_allowed_def suspended_kiosk_def)
  from blocked_kiosk_is_silent [OF this, of some_moment "Scan_event ''E1''"] show ?thesis
    by (simp add: suspended_kiosk_def)
qed

text \<open>Safe mode alone does not stop the replay.\<close>

lemma replay_runs_in_safe_mode:
  assumes "rc_safe_mode (k_recovery k)" "identity_active p k" "\<not> se_mismatch (k_server k)"
    and "\<not> rp_replaying (k_replay k)" "rp_next (k_replay k) < length (rp_event_ids (k_replay k))"
    and "nw_executing (k_net k) = None" "nw_high (k_net k) = []" "length (nw_low (k_net k)) < 2"
    and "index_find (ej_index (k_journal k)) (rp_event_ids (k_replay k) ! rp_next (k_replay k)) = Some r"
  shows "nw_low (k_net (check_offline_replay p k)) = nw_low (k_net k) @
    [request_for OFFLINE_REPLAY (k_api_endpoint k) (kiosk_token p k) r]"
  using assms
  by (simp add: check_offline_replay_def high_priority_busy_def enqueue_offline_replay_is enqueue_def
      low_queue_depth_def Let_def)

section \<open>The verdict of the server\<close>

text \<open>What a result means for the record of its event.\<close>

definition verdict :: "moment \<Rightarrow> request_status \<Rightarrow> network_result \<Rightarrow> journal_transition" where
  "verdict m q r =
     (let t = (\<lambda>s n e. \<lparr>jt_event_id = nr_event_id r, jt_sync_status = s, jt_retry_count = n,
            jt_last_attempt_uptime_ms = m_now m, jt_last_error_code = e\<rparr>);
          (parsed, resp) = parse_event_response_json (nr_response_body r) in
      if \<not> ho_ok (nr_outcome r)
      then t (if ho_retryable (nr_outcome r) then PENDING else HUMAN_REVIEW)
             (of_int (rq_retry_count (note_result r q))) (ho_error_code (nr_outcome r))
      else if \<not> parsed then t PENDING 0 ''EVENT_RESPONSE_MALFORMED''
      else (case er_kind resp of
          MALFORMED \<Rightarrow> t PENDING 0 ''EVENT_RESPONSE_MALFORMED''
        | CONFLICT_RESYNC \<Rightarrow> t CONFLICT 0 ''STATE_CONFLICT''
        | BUSINESS_REJECTED \<Rightarrow> t REJECTED 0 (er_error_code resp)
        | SUCCESS \<Rightarrow> t ACKED 0 []))"

lemma journal_status_is:
  "k_journal (journal_status p i s n t e k) = snd (append_transition (pf_fs p)
     \<lparr>jt_event_id = i, jt_sync_status = s, jt_retry_count = n, jt_last_attempt_uptime_ms = t, jt_last_error_code = e\<rparr>
     (k_journal k))"
  by (simp add: journal_status_def)

lemma resp_judged_journal:
  "k_journal (resp_judged p m r i k) =
     k_journal (journal_status p i (if er_kind r \<noteq> BUSINESS_REJECTED then ACKED else REJECTED) 0 (m_now m)
       (if er_kind r \<noteq> BUSINESS_REJECTED then [] else er_error_code r) k)"
  by (simp add: resp_judged_def journal_status_is)

lemma event_result_journal:
  "k_journal (handle_event_result p m b r k) =
     snd (append_transition (pf_fs p) (verdict m (k_requests k) r) (k_journal k))"
proof (cases "ho_ok (nr_outcome r)")
  case True
  obtain parsed resp where e: "parse_event_response_json (nr_response_body r) = (parsed, resp)"
    by fastforce
  let ?b = "event_base b r k"
  have "k_journal (handle_event_result p m b r k) =
      k_journal (apply_event_response p m parsed resp (nr_event_id r) ?b)"
    by (simp add: event_result_ok [OF True e])
  also have "\<dots> = snd (append_transition (pf_fs p) (verdict m (k_requests k) r) (k_journal k))"
  proof (cases rule: response_cases [of parsed resp p m "nr_event_id r" ?b])
    case malformed
    then show ?thesis
      using True e by (auto simp: verdict_def journal_status_is split: event_outcome_kind.split)
  next
    case conflict
    then show ?thesis
      using True e by (simp add: verdict_def journal_status_is)
  next
    case (applied ps pv)
    then show ?thesis
      using True e by (auto simp: verdict_def resp_judged_journal journal_status_is)
  next
    case stale
    then show ?thesis
      using True e by (auto simp: verdict_def resp_judged_journal journal_status_is)
  next
    case unsupported
    then show ?thesis
      using True e by (auto simp: verdict_def resp_judged_journal journal_status_is)
  qed
  finally show ?thesis .
qed (simp add: event_result_failed verdict_def journal_status_is Let_def split_beta)

text \<open>C21. The journal hears exactly the server's verdict on the event, whatever
  becomes of the snapshot: one transition for the event of the result, ACKED
  when accepted, REJECTED when rejected, CONFLICT on a conflict, PENDING when
  the body cannot be understood or the failure is transient, HUMAN_REVIEW when
  and only when it is permanent.\<close>

theorem journal_hears_verdict:
  "k_journal (handle_event_result p m b r k) =
     snd (append_transition (pf_fs p) (verdict m (k_requests k) r) (k_journal k)) \<and>
   jt_event_id (verdict m (k_requests k) r) = nr_event_id r \<and>
   (jt_sync_status (verdict m (k_requests k) r) = HUMAN_REVIEW) =
     (\<not> ho_ok (nr_outcome r) \<and> \<not> ho_retryable (nr_outcome r)) \<and>
   (jt_sync_status (verdict m (k_requests k) r) \<in> {ACKED, REJECTED}) =
     (server_snapshot (r\<lparr>nr_kind := BUSINESS_EVENT\<rparr>) \<noteq> None) \<and>
   jt_sync_status (verdict m (k_requests k) r) \<noteq> IN_FLIGHT"
proof -
  obtain parsed resp where e: "parse_event_response_json (nr_response_body r) = (parsed, resp)"
    by fastforce
  show ?thesis
    by (cases "er_kind resp") (simp_all add: event_result_journal verdict_def server_snapshot_def e)
qed

section \<open>Nothing stays on the screen for ever\<close>

definition error_fresh :: "moment \<Rightarrow> ('d, 'n) kiosk \<Rightarrow> bool" where
  "error_fresh m k = (pv_showing_error (k_view k) \<longrightarrow>
     m_now m - pv_error_shown_at_ms (k_view k) < error_view_timeout_ms)"

definition hold_fresh :: "moment \<Rightarrow> ('d, 'n) kiosk \<Rightarrow> bool" where
  "hold_fresh m k = (pv_hold_active (k_view k) \<longrightarrow> sint (m_now m - pv_hold_until_ms (k_view k)) < 0)"

lemma error_fresh_view: "k_view k = k_view k' \<Longrightarrow> error_fresh m k = error_fresh m k'"
  by (simp add: error_fresh_def)

lemma hold_fresh_view: "k_view k = k_view k' \<Longrightarrow> hold_fresh m k = hold_fresh m k'"
  by (simp add: hold_fresh_def)

lemma render_error_fresh [inv_intros]: "error_fresh m k \<Longrightarrow> error_fresh m (render p m msg e n k)"
  by (simp add: error_fresh_def render_def error_view_timeout_ms_def Let_def)

lemma refresh_clears_error [simp]: "\<not> pv_showing_error (k_view (render p m msg False n k))"
  by (simp add: render_def Let_def)

lemma render_hold_fresh [simp]: "hold_fresh m (render p m msg e n k) = hold_fresh m k"
  by (simp add: hold_fresh_def)

lemma check_error_view_fresh: "error_fresh m (check_error_view_timeout p m k)"
  by (simp add: check_error_view_timeout_def error_fresh_def)

lemma check_hold_fresh:
  "hold_fresh m (check_finish_result_hold_timeout p m k)"
  "error_fresh m k \<Longrightarrow> error_fresh m (check_finish_result_hold_timeout p m k)"
  by (simp_all add: check_finish_result_hold_timeout_def hold_fresh_def error_fresh_def)

lemma send_hold_fresh: "hold_fresh m (send_business_event p m type raw g d w k)"
  by (simp add: hold_fresh_def)

lemma error_fresh_simps [simp]:
  "error_fresh m (k\<lparr>k_seq := q\<rparr>) = error_fresh m k" "error_fresh m (k\<lparr>k_net := w\<rparr>) = error_fresh m k"
  "error_fresh m (k\<lparr>k_journal := j\<rparr>) = error_fresh m k" "error_fresh m (k\<lparr>k_requests := rq\<rparr>) = error_fresh m k"
  "error_fresh m (k\<lparr>k_view := (k_view k)\<lparr>pv_hold_active := h\<rparr>\<rparr>) = error_fresh m k"
  "error_fresh m (k\<lparr>k_last_activity_ms := t\<rparr>) = error_fresh m k"
  "error_fresh m (journal_status p i s n t e k) = error_fresh m k"
  "error_fresh m (upd_quantity f k) = error_fresh m k"
  by (simp_all add: error_fresh_def)

lemma send_error_fresh:
  assumes "error_fresh m k"
  shows "error_fresh m (send_business_event p m type raw g d w k)"
  using assms by (simp add: send_business_event_def journal_event_def render_error_fresh split_beta Let_def)

lemma check_ui_timeout_fresh:
  assumes "error_fresh m k" "hold_fresh m k"
  shows "error_fresh m (check_ui_timeout p m k)" "hold_fresh m (check_ui_timeout p m k)"
proof -
  have h: "hold_fresh m (upd_quantity f (k\<lparr>k_last_activity_ms := t\<rparr>))" "hold_fresh m (k\<lparr>k_last_activity_ms := t\<rparr>)" for f t
    using assms(2) by (simp_all add: hold_fresh_def)
  show "error_fresh m (check_ui_timeout p m k)" "hold_fresh m (check_ui_timeout p m k)"
    using assms h by (simp_all add: check_ui_timeout_def send_error_fresh send_hold_fresh render_error_fresh Let_def)
qed

lemma replay_view [simp]:
  "k_view (check_replay_fallback m k) = k_view k" "k_view (check_offline_replay p k) = k_view k"
  "k_view (log_network_state k) = k_view k"
  by (simp_all add: check_replay_fallback_def start_offline_replay_if_needed_def check_offline_replay_def
      log_network_state_def Let_def split_beta split: option.split)

lemma queue_count_fresh:
  assumes "error_fresh m k" "hold_fresh m k"
  shows "error_fresh m (refresh_queue_count p m k)" "hold_fresh m (refresh_queue_count p m k)"
  using assms by (simp_all add: refresh_queue_count_def error_fresh_def hold_fresh_def Let_def)

lemma clock_fresh:
  assumes "error_fresh m k" "hold_fresh m k"
  shows "error_fresh m (refresh_clock p m k)" "hold_fresh m (refresh_clock p m k)"
  using assms by (simp_all add: refresh_clock_def error_fresh_def hold_fresh_def Let_def)


definition error_kiosk :: "(ram_disk, ram_nvs) kiosk" where
  "error_kiosk = (ready_kiosk WAIT_EMPLOYEE)
     \<lparr>k_view := new_presentation\<lparr>pv_showing_error := True, pv_error_shown_at_ms := 45000\<rparr>\<rparr>"

lemma idle_poll:
  "take_result ram_platform some_moment error_kiosk = error_kiosk"
  "k_view (kiosk_poll ram_platform some_moment error_kiosk) = k_view error_kiosk"
proof -
  let ?m = some_moment and ?p = ram_platform
  have idle: "worker_poll worker_begin = (None, worker_begin)"
    by (simp add: worker_poll_def worker_begin_def)
  have net: "k_net error_kiosk = worker_begin"
    by (simp add: error_kiosk_def)
  show t: "take_result ?p ?m error_kiosk = error_kiosk"
    using idle net by (simp add: take_result_def)
  have e: "check_error_view_timeout ?p ?m error_kiosk = error_kiosk"
    by (simp add: check_error_view_timeout_def error_kiosk_def some_moment_def error_view_timeout_ms_def)
  have h: "check_finish_result_hold_timeout ?p ?m error_kiosk = error_kiosk"
    by (simp add: check_finish_result_hold_timeout_def error_kiosk_def new_presentation_def)
  have u: "check_ui_timeout ?p ?m error_kiosk = error_kiosk"
    by (simp add: check_ui_timeout_def error_kiosk_def ui_timeout_ms_for_state_def)
  let ?k = "check_offline_replay ?p (check_replay_fallback ?m error_kiosk)"
  have j: "k_journal ?k = ram_journal" "k_time ?k = new_time_sync" "k_view ?k = k_view error_kiosk"
    by (simp_all add: check_replay_fallback_def start_offline_replay_if_needed_def check_offline_replay_def
        pending_in_device_seq_order_def ram_journal_def new_index_def om_empty_def error_kiosk_def
        new_replay_queue_def Let_def)
  have q: "refresh_queue_count ?p ?m ?k = ?k"
    using j by (simp add: refresh_queue_count_def offline_queue_size_def ram_journal_def new_index_def om_empty_def
        index_counts_def no_counts_def error_kiosk_def new_presentation_def)
  have c: "refresh_clock ?p ?m ?k = ?k"
    using j by (simp add: refresh_clock_def local_hhmm_def clock_trusted_def new_time_sync_def error_kiosk_def
        new_presentation_def)
  show "k_view (kiosk_poll ?p ?m error_kiosk) = k_view error_kiosk"
    by (simp add: kiosk_poll_def t e h u q c Let_def)
qed


section \<open>A resynchronisation that fails\<close>

lemma event_result_resyncing: "k_resyncing k \<Longrightarrow> k_resyncing (handle_event_result p m b r k)"
proof (cases "ho_ok (nr_outcome r)")
  case True
  assume k: "k_resyncing k"
  obtain parsed resp where e: "parse_event_response_json (nr_response_body r) = (parsed, resp)"
    by fastforce
  show ?thesis
    using k by (cases rule: response_cases [of parsed resp p m "nr_event_id r" "event_base b r k"])
      (simp_all add: event_result_ok [OF True e])
qed (simp add: event_result_failed)

lemma poll_resyncing: "k_resyncing (kiosk_poll p m k) = k_resyncing (take_result p m k)"
  by (simp add: kiosk_poll_def Let_def)

lemma take_result_resyncing:
  assumes "k_resyncing k" "\<not> k_resyncing (take_result p m k)"
  shows "\<exists>r. fst (worker_poll (k_net k)) = Some r \<and> nr_kind r = STATE_FETCH \<and> ho_ok (nr_outcome r)"
proof (cases rule: take_result_cases [of k p m])
  case (some r w)
  show ?thesis
  proof (cases rule: dispatch_cases [of p m "rp_replaying (k_replay k)" r "k\<lparr>k_net := w\<rparr>"])
    case resync
    then show ?thesis
      using some assms by (cases "ho_ok (nr_outcome r)") (simp_all add: handle_resync_result_def)
  next
    case event
    then show ?thesis
      using some assms event_result_resyncing [of "k\<lparr>k_net := w\<rparr>"] by simp
  qed (use some assms in simp_all)
qed (use assms in simp)

lemma tail_high [simp]:
  "k_net (check_error_view_timeout p m k) = k_net k" "k_net (check_finish_result_hold_timeout p m k) = k_net k"
  "k_net (check_replay_fallback m k) = k_net k" "nw_high (k_net (check_offline_replay p k)) = nw_high (k_net k)"
  "k_net (refresh_queue_count p m k) = k_net k" "k_net (refresh_clock p m k) = k_net k"
  "k_net (log_network_state k) = k_net k"
  by (simp_all add: check_error_view_timeout_def check_finish_result_hold_timeout_def check_replay_fallback_def
      start_offline_replay_if_needed_def check_offline_replay_def refresh_queue_count_def refresh_clock_def
      log_network_state_def enqueue_offline_replay_is enqueue_def Let_def split_beta split: option.split)

lemma check_ui_timeout_resyncing: "k_resyncing k \<Longrightarrow> check_ui_timeout p m k = k"
  by (simp add: check_ui_timeout_def)

lemma worker_poll_none: "fst (worker_poll w) = None \<Longrightarrow> snd (worker_poll w) = w"
  by (simp add: worker_poll_def split: if_splits)

text \<open>A failed resynchronisation is not retried on its own: while the kiosk is
  resynchronising, every business key is ignored; a failed fetch changes
  nothing; a poll without a result asks for nothing of the foreground; and only
  a successful fetch ends the state, an accepted event does not.\<close>

lemma failed_resync_is_not_retried:
  assumes "k_resyncing k"
  shows "handle_business_key p m c k = k \<and>
    (\<not> ho_ok (nr_outcome r) \<longrightarrow> handle_resync_result p m r k = k) \<and>
    (fst (worker_poll (k_net k)) = None \<longrightarrow> nw_high (k_net (kiosk_poll p m k)) = nw_high (k_net k)) \<and>
    k_resyncing (handle_event_result p m b r k) \<and>
    (\<not> k_resyncing (kiosk_poll p m k) \<longrightarrow>
       (\<exists>r. fst (worker_poll (k_net k)) = Some r \<and> nr_kind r = STATE_FETCH \<and> ho_ok (nr_outcome r)))"
proof -
  have "nw_high (k_net (kiosk_poll p m k)) = nw_high (k_net k)" if n: "fst (worker_poll (k_net k)) = None"
  proof -
    have t: "take_result p m k = k\<lparr>k_net := k_net k\<rparr>"
      using n worker_poll_none [OF n] by (cases rule: take_result_cases [of k p m]) simp_all
    then show ?thesis
      using assms by (simp add: kiosk_poll_def check_ui_timeout_resyncing Let_def)
  qed
  then show ?thesis
    using assms take_result_resyncing [OF assms, of p m] event_result_resyncing [OF assms]
    by (simp add: handle_business_key_def handle_resync_result_def poll_resyncing)
qed

lemma failed_resync_is_not_retried_witness:
  "k_resyncing ((ready_kiosk QUANTITY_INPUT)\<lparr>k_resyncing := True\<rparr>) \<and>
   handle_business_key ram_platform some_moment CHR ''5'' ((ready_kiosk QUANTITY_INPUT)\<lparr>k_resyncing := True\<rparr>) =
     (ready_kiosk QUANTITY_INPUT)\<lparr>k_resyncing := True\<rparr>"
  using failed_resync_is_not_retried [of "(ready_kiosk QUANTITY_INPUT)\<lparr>k_resyncing := True\<rparr>" ram_platform some_moment] by simp

section \<open>The offline replay\<close>

text \<open>While a replayed event is under way, the result of a live event is taken for
  the replayed one's: the queue moves on although the replay has not been
  answered.\<close>

lemma live_result_advances_replay:
  assumes "rp_replaying (k_replay k)" "fst (worker_poll (k_net k)) = Some r" "nr_kind r = BUSINESS_EVENT"
  shows "k_replay (take_result p m k) =
    (k_replay k)\<lparr>rp_replaying := False, rp_next := rp_next (k_replay k) + 1\<rparr>"
proof -
  have rb: "k_replay (event_base True r k') = (k_replay k')\<lparr>rp_replaying := False, rp_next := rp_next (k_replay k') + 1\<rparr>"
    for k' :: "('a, 'b) kiosk"
    by (simp add: event_base_def)
  have ev: "k_replay (handle_event_result p m True r k') =
      (k_replay k')\<lparr>rp_replaying := False, rp_next := rp_next (k_replay k') + 1\<rparr>" for k' :: "('a, 'b) kiosk"
  proof (cases "ho_ok (nr_outcome r)")
    case True
    obtain parsed resp where e: "parse_event_response_json (nr_response_body r) = (parsed, resp)"
      by fastforce
    show ?thesis
      by (cases rule: response_cases [of parsed resp p m "nr_event_id r" "event_base True r k'"])
        (simp_all add: event_result_ok [OF True e] rb)
  qed (simp add: event_result_failed rb)
  obtain w where "worker_poll (k_net k) = (Some r, w)"
    using assms(2) by (metis prod.collapse)
  then show ?thesis
    using assms by (simp add: take_result_def dispatch_result_def ev)
qed

lemma pending_set:
  assumes "index_wf idx"
  shows "set (map jr_event_id (pending_in_device_seq_order idx)) =
    {i. \<exists>r. index_find idx i = Some r \<and> (jr_sync_status r = PENDING \<or> jr_sync_status r = IN_FLIGHT)}"
proof -
  have "om_get (ji_records idx) i = Some r \<longleftrightarrow> (i, r) \<in> set (ji_records idx)" for i r
    using assms by (auto simp: index_wf_def simp flip: om.entries_get)
  then show ?thesis
    using index_wf_get [OF assms]
    by (auto simp: pending_in_device_seq_order_def index_find_def image_iff) (metis snd_conv)+
qed

lemma pending_find:
  assumes "index_wf idx" "r \<in> set (pending_in_device_seq_order idx)"
  shows "index_find idx (jr_event_id r) = Some r"
proof -
  obtain i where "(i, r) \<in> set (ji_records idx)"
    using assms(2) by (auto simp: pending_in_device_seq_order_def)
  then have "om_get (ji_records idx) i = Some r"
    using assms(1) by (simp add: index_wf_def om.entries_get)
  then show ?thesis
    using index_wf_get [OF assms(1)] by (simp add: index_find_def)
qed


definition backlog_kiosk :: "(ram_disk, ram_nvs) kiosk" where
  "backlog_kiosk = (ready_kiosk WAIT_EMPLOYEE)
     \<lparr>k_journal := ram_journal\<lparr>ej_index := record_appended_event sample_record 100 (new_index 1000)\<rparr>\<rparr>"


end
