(* ===== verification/Kiosk_Durable.thy ===== *)
theory Kiosk_Durable
  imports Kiosk_Props
begin

text \<open>
  Recorded before sent: an event the kiosk hands to the network worker is on the
  disk already, and a boot after a loss of power at any later point finds it
  there, not yet settled, with the very payload that was sent.  And every
  request for an event that any operation of the kiosk puts into a queue is a
  record of the journal.
\<close>

section \<open>The encoder writes plain text\<close>

lemma plain_append [simp]: "plain (s @ t) \<longleftrightarrow> plain s \<and> plain t"
  by (simp add: plain_def)

lemma plain_Nil [simp]: "plain []"
  by (simp add: plain_def)

lemma plain_Cons: "plain (c # s) \<longleftrightarrow> \<not> (is_ctrl c \<and> c \<notin> {CHR 0x0A, CHR 0x0D, CHR 0x09}) \<and> plain s"
  by (auto simp: plain_def)

lemma hex_char_plain: "d < 16 \<Longrightarrow> \<not> is_ctrl (hex_char d)"
  by (auto simp: hex_char_def is_ctrl_def)

lemma plain_hex4 [simp]: "plain (hex4 n)"
  by (simp add: hex4_def plain_Cons hex_char_plain)

lemma plain_hex8 [simp]: "plain (hex8 w)"
  by (simp add: hex8_def)

lemma not_ctrl [simp]:
  "\<not> is_ctrl dq" "\<not> is_ctrl bslash" "\<not> is_ctrl CHR ''n''" "\<not> is_ctrl CHR ''r''" "\<not> is_ctrl CHR ''t''"
  "\<not> is_ctrl CHR ''u''"
  by (simp_all add: is_ctrl_def)

lemma plain_escape_char: "plain (escape_char c)"
  by (simp add: escape_char_def plain_Cons)

lemma plain_json_escape [simp]: "plain (json_escape s)"
  by (induction s) (simp_all add: plain_escape_char)

lemma plain_jstr [simp]: "plain (jstr s)"
  by (simp add: jstr_def plain_Cons)

lemma plain_dec [simp]: "plain (dec n)"
proof -
  have "\<not> is_ctrl c" if "c \<in> set (dec n)" for c
    using is_digit_dec that by (fastforce simp: is_digit_def is_ctrl_def)
  then show ?thesis
    by (auto simp: plain_def list_all_iff)
qed

lemma plain_dec_int [simp]: "plain (dec_int i)"
  by (simp add: dec_int_def plain_Cons is_ctrl_def)

lemma plain_jkey: "plain k \<Longrightarrow> plain (jkey k)"
  by (simp add: jkey_def plain_Cons) (simp add: is_ctrl_def)

lemma plain_event_type [simp]: "plain (event_type_to_string t)"
  by (cases t) (simp_all add: event_type_to_string_def plain_Cons is_ctrl_def)

lemma plain_time_status [simp]: "plain (time_sync_status_to_string t)"
  by (cases t) (simp_all add: time_sync_status_to_string_def plain_Cons is_ctrl_def)

lemma plain_encode_event [simp]: "plain (encode_event_json ev)"
proof -
  have q: "plain (encode_quantity k x)" if "plain k" for k x
    using that by (simp add: encode_quantity_def plain_jkey plain_Cons is_ctrl_def)
  have q3: "plain (encode_quantity ''quantity_good'' x)" "plain (encode_quantity ''quantity_defect'' x)"
      "plain (encode_quantity ''quantity_rework'' x)" for x
    by (intro q; simp add: plain_Cons is_ctrl_def)+
  have k: "plain (jkey ''protocol_version'')" "plain (jkey ''device'')" "plain (jkey ''event'')" "plain (jkey ''time'')"
      "plain (jkey ''context'')" "plain (jkey ''payload'')" "plain (jkey ''source'')" "plain (jkey ''raw'')"
      "plain (jkey ''device_id'')" "plain (jkey ''hardware_id'')" "plain (jkey ''boot_id'')" "plain (jkey ''event_id'')"
      "plain (jkey ''device_seq'')" "plain (jkey ''type'')" "plain (jkey ''timestamp_device'')" "plain (jkey ''uptime_ms'')"
      "plain (jkey ''sync_status'')" "plain (jkey ''sync_age_s'')" "plain (jkey ''expected_state_version'')"
      "plain (jkey ''workflow_version'')" "plain (jkey ''ui_bundle_version'')"
    by (simp_all add: plain_jkey plain_Cons is_ctrl_def)
  show ?thesis
    by (simp add: encode_event_json_def encode_device_def encode_info_def encode_time_def encode_context_def k q3
        plain_Cons) (simp_all add: is_ctrl_def)
qed

section \<open>Event ids\<close>

lemma hex_digit_index: "unat ((x :: u8) AND 15) < 16"
proof -
  have "x AND 15 \<le> 15"
    by (rule word_and_le1)
  then show ?thesis
    by (simp add: word_le_nat_alt)
qed

lemma hex_digit_in: "hex_digits ! unat ((x :: u8) AND 15) \<in> set hex_digits"
  using hex_digit_index [of x] by (intro nth_mem) (simp add: hex_digits_def)

lemma hex_id_chars: "set (generate_random_hex_id rs) \<subseteq> set hex_digits"
  using hex_digit_in by (auto simp: generate_random_hex_id_def Let_def)

lemma plain_hex_id [simp]: "plain (generate_random_hex_id rs)"
proof -
  have "list_all (\<lambda>c. \<not> is_ctrl c) hex_digits"
    by (simp add: hex_digits_def is_ctrl_def)
  then show ?thesis
    using hex_id_chars [of rs] by (auto simp: plain_def list_all_iff)
qed

lemma json_escape_hex_id [simp]: "json_escape (generate_random_hex_id rs) = generate_random_hex_id rs"
proof -
  have h: "\<forall>c\<in>set hex_digits. escape_char c = [c]"
    by (simp add: hex_digits_def escape_char_def is_ctrl_def)
  have "json_escape s = s" if "set s \<subseteq> set hex_digits" for s
    using that h by (induction s) auto
  then show ?thesis
    using hex_id_chars by blast
qed

lemma length_dec:
  assumes "n < 10 ^ k" "0 < k"
  shows "length (dec n) \<le> k"
  using assms
proof (induction k arbitrary: n)
  case (Suc k)
  show ?case
  proof (cases "n < 10")
    case True
    then show ?thesis by (simp add: dec.simps)
  next
    case False
    then have "0 < k"
      using Suc.prems by (cases k) auto
    moreover have "n div 10 < 10 ^ k"
      using Suc.prems by (simp add: less_mult_imp_div_less mult.commute)
    ultimately have "length (dec (n div 10)) \<le> k"
      using Suc.IH by blast
    then show ?thesis
      using False by (subst dec.simps) simp
  qed
qed simp

lemma in_flight_small: "length (encode_journal_transition (in_flight m)) < 2 ^ 31"
proof -
  have l: "length (next_event_id m) \<le> 32"
    by (simp add: next_event_id_def length_generate_random_hex_id)
  have d: "length (dec (unat (m_now m))) \<le> 10"
    using unat_u32_lt [of "m_now m"] by (intro length_dec) simp_all
  have z: "length (dec 0) = 1"
    by (simp add: dec.simps)
  have "json_escape (next_event_id m) = next_event_id m"
    by (simp add: next_event_id_def)
  then show ?thesis
    using l d z by (simp add: encode_journal_transition_def in_flight_def jstr_def jkey_def sync_status_to_string_def)
qed

lemma next_event_id_nonempty: "m_randoms m \<noteq> [] \<Longrightarrow> next_event_id m \<noteq> []"
  using length_generate_random_hex_id [of "take 16 (m_randoms m)"] by (cases "m_randoms m") (auto simp: next_event_id_def)

lemma wf_in_flight: "m_randoms m \<noteq> [] \<Longrightarrow> wf_transition (in_flight m)"
  using next_event_id_nonempty by (simp add: wf_transition_def in_flight_def) (simp add: next_event_id_def)

lemma wf_pending_record:
  assumes "m_randoms m \<noteq> []" "plain (c_str (k_boot_id k))"
    and "unat (fst (device_sequence_next (pf_nv p) (k_seq k))) < 2 ^ 63"
    and "unat (ss_state_version (sp_current (k_projection k))) < 2 ^ 63"
  shows "wf_record (pending_record p m type raw g d w k)"
proof -
  have "next_event_id m \<noteq> []"
    by (rule next_event_id_nonempty [OF assms(1)])
  moreover have "event_type_to_string type \<noteq> []"
    by (cases type) (simp_all add: event_type_to_string_def)
  ultimately show ?thesis
    using assms(2-4)
    by (simp add: wf_record_def pending_record_def event_record_def pending_event_def make_event_def
        next_event_id_def Let_def)
qed

section \<open>The size of a record\<close>

lemma length_escape_char: "length (escape_char c) \<le> 6"
  by (simp add: escape_char_def hex4_def)

lemma length_json_escape: "length (json_escape s) \<le> 6 * length s"
proof (induction s)
  case (Cons c s)
  then show ?case
    using length_escape_char [of c] by simp
qed simp

lemma length_jstr: "length (jstr s) \<le> 6 * length s + 2"
  using length_json_escape [of s] by (simp add: jstr_def)

lemma length_jkey: "length (jkey k) = length k + 3"
  by (simp add: jkey_def)

lemma length_dec_u64: "length (dec (unat (x :: u64))) \<le> 20"
  using unsigned_less [where 'a = nat, of x] by (intro length_dec) simp_all

lemma length_dec_u32: "length (dec (unat (x :: u32))) \<le> 10"
  using unat_u32_lt [of x] by (intro length_dec) simp_all

lemma length_dec_u8: "length (dec (unat (x :: u8))) \<le> 3"
  using unsigned_less [where 'a = nat, of x] by (intro length_dec) simp_all

lemma length_dec_int: "length (dec_int (sint (x :: u32))) \<le> 11"
proof -
  have b: "- (2 ^ 31) \<le> sint x" "sint x < 2 ^ 31"
    using sint_ge [of x] sint_lt [of x] by simp_all
  have "nat (sint x) < 10 ^ 10"
    using b(2) by (simp add: nat_less_iff)
  moreover have "nat (- sint x) < 10 ^ 10"
    using b(1) by (simp add: nat_less_iff)
  ultimately show ?thesis
    using length_dec [of "nat (sint x)" 10] length_dec [of "nat (- sint x)" 10] by (simp add: dec_int_def)
qed

lemma length_event_type: "length (event_type_to_string t) \<le> 18"
  by (cases t) (simp_all add: event_type_to_string_def)

lemma length_time_status: "length (time_sync_status_to_string s) \<le> 8"
  by (cases s) (simp_all add: time_sync_status_to_string_def)

lemma length_sync_status: "length (sync_status_to_string st) \<le> 12"
  by (cases st) (simp_all add: sync_status_to_string_def)

lemmas length_names = length_event_type length_time_status length_sync_status

lemma length_encode_quantity: "length (encode_quantity k q) \<le> length k + 15"
  using length_dec_int [of "oq_value q"] by (simp add: encode_quantity_def length_jkey)

lemma length_encode_event:
  "length (encode_event_json ev) \<le> 800 + 6 * (length (ed_device_id (ke_device ev)) +
     length (ed_hardware_id (ke_device ev)) + length (ed_boot_id (ke_device ev)) +
     length (ei_event_id (ke_event ev)) + length (et_timestamp_device_iso (ke_time ev)) +
     length (sp_source (ke_payload ev)) + length (sp_raw (ke_payload ev)))"
proof -
  have d: "length (encode_device x) \<le> 60 + 6 * (length (ed_device_id x) + length (ed_hardware_id x) + length (ed_boot_id x))" for x
    using length_jstr [of "ed_device_id x"] length_jstr [of "ed_hardware_id x"] length_jstr [of "ed_boot_id x"]
    by (simp add: encode_device_def length_jkey)
  have i: "length (encode_info x) \<le> 100 + 6 * length (ei_event_id x)" for x
    using length_jstr [of "ei_event_id x"] length_dec_u64 [of "ei_device_seq x"] length_names(1) [of "ei_type x"]
    by (simp add: encode_info_def length_jkey)
  have t: "length (encode_time x) \<le> 130 + 6 * length (et_timestamp_device_iso x)" for x
    using length_jstr [of "et_timestamp_device_iso x"] length_dec_u64 [of "et_uptime_ms x"]
      length_dec_u32 [of "et_sync_age_s x"] length_names(2) [of "et_sync_status x"]
    by (simp add: encode_time_def length_jkey)
  have c: "length (encode_context x) \<le> 130" for x
    using length_dec_u64 [of "ec_expected_state_version x"] length_dec_u32 [of "ec_workflow_version x"]
      length_dec_u32 [of "ec_ui_bundle_version x"]
    by (simp add: encode_context_def length_jkey)
  show ?thesis
    using d [of "ke_device ev"] i [of "ke_event ev"] t [of "ke_time ev"] c [of "ke_context ev"]
      length_jstr [of "sp_source (ke_payload ev)"] length_jstr [of "sp_raw (ke_payload ev)"]
      length_dec_u32 [of "ke_protocol_version ev"]
      length_encode_quantity [of "''quantity_good''" "ke_quantity_good ev"]
      length_encode_quantity [of "''quantity_defect''" "ke_quantity_defect ev"]
      length_encode_quantity [of "''quantity_rework''" "ke_quantity_rework ev"]
    by (simp add: encode_event_json_def length_jkey)
qed

lemma length_encode_record:
  "length (encode_journal_event r) \<le> 500 + 6 * (length (jr_event_id r) + length (jr_boot_id r) +
     length (jr_event_type r) + length (jr_payload r) + length (jr_payload_hash r) +
     length (jr_time_sync_status r) + length (jr_last_error_code r))"
  using length_jstr [of "jr_event_id r"] length_jstr [of "jr_boot_id r"] length_jstr [of "jr_event_type r"]
    length_jstr [of "jr_payload r"] length_jstr [of "jr_payload_hash r"] length_jstr [of "jr_time_sync_status r"]
    length_jstr [of "jr_last_error_code r"] length_dec_u8 [of "jr_record_version r"]
    length_dec_u64 [of "jr_device_seq r"] length_dec_u64 [of "jr_expected_state_version r"]
    length_dec_u32 [of "jr_created_uptime_ms r"] length_dec_u32 [of "jr_retry_count r"]
    length_dec_u32 [of "jr_last_attempt_uptime_ms r"] length_names(3) [of "jr_sync_status r"]
  by (simp add: encode_journal_event_def length_jkey)

text \<open>What an event carries besides numbers.\<close>

definition event_text :: "moment \<Rightarrow> string \<Rightarrow> ('d, 'n) kiosk \<Rightarrow> nat" where
  "event_text m raw k = length (k_device_id k) + length (k_hardware_id k) + length (k_boot_id k) +
     length raw + length (iso8601_now (m_epoch m) (k_time k))"

lemma length_c_str: "length (c_str s) \<le> length s"
  by (simp add: c_str_def length_takeWhile_le)

lemma length_pending_record:
  "length (encode_journal_event (pending_record p m type raw g d w k)) \<le> 10000 + 42 * event_text m raw k"
proof -
  let ?ev = "pending_event p m type raw g d w k" and ?r = "pending_record p m type raw g d w k"
  have id: "length (next_event_id m) \<le> 32"
    by (simp add: next_event_id_def length_generate_random_hex_id)
  obtain src where src: "sp_source (ke_payload ?ev) = src" "length src \<le> 6"
    by (auto simp: pending_event_def make_event_def)
  have parts: "ed_device_id (ke_device ?ev) = c_str (k_device_id k)" "ed_hardware_id (ke_device ?ev) = c_str (k_hardware_id k)"
      "ed_boot_id (ke_device ?ev) = c_str (k_boot_id k)" "ei_event_id (ke_event ?ev) = next_event_id m"
      "et_timestamp_device_iso (ke_time ?ev) = iso8601_now (m_epoch m) (k_time k)" "sp_raw (ke_payload ?ev) = c_str raw"
    by (simp_all add: pending_event_def make_event_def)
  have "length (encode_event_json ?ev) \<le> 800 + 6 * (length (c_str (k_device_id k)) +
      length (c_str (k_hardware_id k)) + length (c_str (k_boot_id k)) + length (next_event_id m) +
      length (iso8601_now (m_epoch m) (k_time k)) + length src + length (c_str raw))"
    using length_encode_event [of ?ev] by (simp only: parts src)
  also have "\<dots> \<le> 1028 + 6 * event_text m raw k"
    using id src(2) length_c_str [of "k_device_id k"] length_c_str [of "k_hardware_id k"] length_c_str [of "k_boot_id k"]
      length_c_str [of raw] by (simp add: event_text_def)
  finally have ev: "length (encode_event_json ?ev) \<le> 1028 + 6 * event_text m raw k" .
  have f: "jr_boot_id ?r = c_str (k_boot_id k)" "jr_event_type ?r = event_type_to_string type"
      "jr_payload_hash ?r = hex8 (crc32 (bytes_of (encode_event_json ?ev)))" "jr_last_error_code ?r = []"
      "jr_time_sync_status ?r = time_sync_status_to_string (ts_status (k_time k))"
    by (simp_all add: pending_record_def event_record_def pending_event_def make_event_def Let_def)
  have h: "length (hex8 x) = 8" for x
    by (simp add: hex8_def hex4_def)
  have b: "length (c_str (k_boot_id k)) \<le> event_text m raw k"
    using length_c_str [of "k_boot_id k"] by (simp add: event_text_def)
  show ?thesis
    using length_encode_record [of ?r] ev id b length_names(1) [of type] length_names(2) [of "ts_status (k_time k)"]
    by (simp add: f h)
qed

section \<open>Recorded before sent\<close>

lemma find_after_event:
  "index_wf idx \<Longrightarrow> index_find (record_appended_event r n idx) i =
     (if i = jr_event_id r then Some r else index_find idx i)"
  by (simp add: record_appended_event_def index_find_def om.get_put index_wf_def)

lemma find_after_transition:
  "index_wf idx \<Longrightarrow> index_find (record_appended_transition t n idx) i =
     (if i = jt_event_id t then map_option (apply_transition t) (index_find idx i) else index_find idx i)"
  by (auto simp: record_appended_transition_def index_find_def om.get_put index_wf_def Let_def split: option.split)

lemma enqueued_high: "enqueue PRIORITY_HIGH req w = (True, w') \<Longrightarrow> nw_high w' = nw_high w @ [req]"
  by (auto simp: enqueue_def split: if_splits)

text \<open>C1. An event is on the disk before it is sent: whenever sending puts a request
  into the foreground queue, the request carries the payload of the event's
  journal record, and a boot from the disk as it then is, whatever file
  operation failed on the way, finds that record under the event's id, still to
  be delivered.\<close>

theorem event_on_disk_before_sent:
  assumes "spiffs (pf_fs p) files" "spiffs ops2 files" "healthy ops2 files"
    and "journal_holds files bs (k_journal k)" "files (ej_disk (k_journal k)) journal_old_path = None"
    and "m_randoms m \<noteq> []" "plain (c_str (k_boot_id k))"
    and "unat (fst (device_sequence_next (pf_nv p) (k_seq k))) < 2 ^ 63"
    and "unat (ss_state_version (sp_current (k_projection k))) < 2 ^ 63"
    and "event_text m raw k < 1000000"
    and "nw_high (k_net (send_business_event p m type raw g d w k)) \<noteq> nw_high (k_net k)"
  shows "\<exists>u ej2 r2. nw_high (k_net (send_business_event p m type raw g d w k)) = nw_high (k_net k) @
      [request_for BUSINESS_EVENT (k_api_endpoint k) u (pending_record p m type raw g d w k)] \<and>
    journal_init ops2 (ji_capacity_bytes (ej_index (k_journal k)))
      (new_journal (ej_disk (k_journal (send_business_event p m type raw g d w k)))) = Some ej2 \<and>
    index_find (ej_index ej2) (next_event_id m) = Some r2 \<and>
    jr_payload r2 = encode_event_json (pending_event p m type raw g d w k) \<and>
    jr_sync_status r2 \<in> {PENDING, IN_FLIGHT}"
proof -
  let ?r = "pending_record p m type raw g d w k" and ?k' = "send_business_event p m type raw g d w k"
  let ?cap = "ji_capacity_bytes (ej_index (k_journal k))"
  note wf = wf_pending_record [OF assms(6-9), of type raw g d w]
  have len: "length (encode_journal_event ?r) < 2 ^ 31"
    using length_pending_record [of p m type raw g d w k] assms(10) by simp
  show ?thesis
  proof (cases rule: send_cases [of k p m type raw g d w])
    case (sent j u)
    note ev = spiffs.append_event_spec [OF assms(1,4) wf len sent(2)]
    let ?idx = "ej_index j"
    have hold: "journal_holds files (bs @ [encode_journal_event ?r]) j"
      using ev(1) by simp
    have idx: "?idx = record_appended_event ?r (of_nat (length (encode_journal_event ?r) + 9)) (ej_index (k_journal k))"
      using ev(3) by simp
    have w: "index_wf (ej_index (k_journal k))" "index_wf ?idx"
      using journal_holds_wf [OF assms(4)] journal_holds_wf [OF hold] by simp_all
    have cap: "ji_capacity_bytes ?idx = ?cap"
      by (simp add: idx record_appended_event_def)
    obtain ok j2 where a: "append_transition (pf_fs p) (in_flight m) j = (ok, j2)"
      by fastforce
    have tr: "log_index ?cap (file_bytes (files (ej_disk j2)) journal_path) \<in>
        {?idx, record_appended_transition (in_flight m) (of_nat (length (encode_journal_transition (in_flight m)) + 9)) ?idx}"
      "\<forall>q. q \<noteq> journal_path \<longrightarrow> files (ej_disk j2) q = files (ej_disk j) q"
      using spiffs.append_transition_spec [OF assms(1) hold wf_in_flight [OF assms(6)] in_flight_small a] cap by auto
    have old: "files (ej_disk j2) journal_old_path = None"
      using tr(2) spiffs.append_event_others [OF assms(1) sent(2) len, of journal_old_path] assms(5) by simp
    obtain ej2 where b: "journal_init ops2 ?cap (new_journal (ej_disk j2)) = Some ej2"
        "ej_index ej2 = log_index ?cap (boot_bytes (files (ej_disk j2)))"
      using spiffs.journal_init_spec [OF assms(2,3), of ?cap "new_journal (ej_disk j2)"]
      by (auto simp: new_journal_def)
    have f: "index_find ?idx (next_event_id m) = Some ?r"
      using find_after_event [OF w(1)] by (simp add: idx)
    have id: "jt_event_id (in_flight m) = next_event_id m"
      by (simp add: in_flight_def)
    have two: "index_find (ej_index ej2) (next_event_id m) \<in> {Some ?r, Some (apply_transition (in_flight m) ?r)}"
      using tr(1) f find_after_transition [OF w(2)] by (auto simp: b(2) boot_bytes_no_old [of "files (ej_disk j2)", OF old] id)
    have q: "nw_high (k_net ?k') = nw_high (k_net k) @ [request_for BUSINESS_EVENT (k_api_endpoint k) u ?r]"
      by (rule enqueued_high [OF sent(3)])
    have j2: "k_journal ?k' = j2"
      using sent(4) a by simp
    obtain r2 where r2: "index_find (ej_index ej2) (next_event_id m) = Some r2"
        "r2 \<in> {?r, apply_transition (in_flight m) ?r}"
      using two by blast
    have "jr_payload r2 = encode_event_json (pending_event p m type raw g d w k)"
        "jr_sync_status r2 \<in> {PENDING, IN_FLIGHT}"
      using r2(2) by (auto simp: apply_transition_def in_flight_def)
    then show ?thesis
      using q b(1) r2(1) j2 by blast
  qed (use assms(11) in simp_all)
qed

text \<open>The ready kiosk accepts a scan: its journal and its queue are empty.\<close>

lemma ready_texts [simp]: "k_device_id (ready_kiosk s) = ''K7''" "k_hardware_id (ready_kiosk s) = []"
  "dq_reservation (k_seq (ready_kiosk s)) = None"
  by (simp_all add: ready_kiosk_def new_kiosk_def)

lemma ready_text: "event_text some_moment raw (ready_kiosk s) = 4 + length raw"
  by (simp add: event_text_def new_time_sync_def iso8601_now_def clock_trusted_def)

lemma ready_journal: "journal_holds rd_files [] ram_journal"
  by (simp add: journal_holds_def ram_journal_def new_journal_def new_index_def file_bytes_def log_bytes_def
      small_bodies_def)

text \<open>Sending from a kiosk whose journal and queue have room.\<close>

lemma roomy_sends:
  assumes "k_api_endpoint k \<noteq> []" "k_net k = worker_begin" "event_text m raw k < 1000"
    and "ej_init_ok (k_journal k)" "ji_used_bytes (ej_index (k_journal k)) \<le> 1000"
    and "ji_capacity_bytes (ej_index (k_journal k)) = 100000"
    and "\<not> has_event (ej_index (k_journal k)) (next_event_id m)" and "pf_fs p = ram_ops True"
  shows "\<exists>u. nw_high (k_net (send_business_event p m type raw g d w k)) =
    [request_for BUSINESS_EVENT (k_api_endpoint k) u (pending_record p m type raw g d w k)]"
proof -
  let ?r = "pending_record p m type raw g d w k" and ?idx = "ej_index (k_journal k)"
  let ?n = "length (encode_journal_event ?r)"
  have len: "?n \<le> 60000"
    using length_pending_record [of p m type raw g d w k] assms(3) by simp
  have fr: "frame_overhead + of_nat ?n \<le> (60009 :: u32)"
    using len unfolding body_frame_size by (simp add: word_le_nat_alt unat_of_nat_u32 del: of_nat_add)
  then have "\<not> ji_used_bytes ?idx + (frame_overhead + of_nat ?n) > ji_capacity_bytes ?idx"
    using assms(5,6) by unat_arith
  then have "decide_append ?idx (jr_event_id ?r) (frame_overhead + of_nat ?n) = APPEND_OK"
    using assms(7) by (simp add: decide_append_def has_event_def)
  then have "fst (append_event (pf_fs p) ?r (k_journal k))"
    using ram_append_to_ok [of "encode_journal_event ?r" journal_path "ej_disk (k_journal k)"] len assms(4,8)
    by (simp add: append_event_def Let_def split: prod.split) auto
  moreover have "enqueue PRIORITY_HIGH req worker_begin = (True, worker_begin\<lparr>nw_high := [req]\<rparr>)" for req
    by (simp add: enqueue_def worker_begin_def high_queue_depth_def)
  ultimately show ?thesis
    using assms(1,2) by (cases rule: send_cases [of k p m type raw g d w]) (auto dest!: sym [of _ "k_net _"])
qed

theorem event_on_disk_before_sent_witness:
  "\<exists>u ej2 r2. nw_high (k_net (send_business_event ram_platform some_moment SCAN ''E1'' no_quantity no_quantity no_quantity (ready_kiosk WAIT_EMPLOYEE))) =
      [request_for BUSINESS_EVENT ''http://h/api/events'' u (pending_record ram_platform some_moment SCAN ''E1'' no_quantity no_quantity no_quantity (ready_kiosk WAIT_EMPLOYEE))] \<and>
    journal_init (ram_ops True) 100000 (new_journal (ej_disk (k_journal
      (send_business_event ram_platform some_moment SCAN ''E1'' no_quantity no_quantity no_quantity (ready_kiosk WAIT_EMPLOYEE))))) = Some ej2 \<and>
    index_find (ej_index ej2) (next_event_id some_moment) = Some r2 \<and> jr_sync_status r2 \<in> {PENDING, IN_FLIGHT}"
proof -
  let ?k = "ready_kiosk WAIT_EMPLOYEE"
  let ?k' = "send_business_event ram_platform some_moment SCAN ''E1'' no_quantity no_quantity no_quantity ?k"
  have fs: "spiffs (pf_fs ram_platform) rd_files"
    by (simp add: ram_platform_def spiffs_ram)
  have j: "journal_holds rd_files [] (k_journal ?k)" "rd_files (ej_disk (k_journal ?k)) journal_old_path = None"
    by (simp add: ready_journal) (simp add: ram_journal_def new_journal_def)
  have m: "m_randoms some_moment \<noteq> []" "plain (c_str (k_boot_id ?k))"
      "unat (fst (device_sequence_next (pf_nv ram_platform) (k_seq ?k))) < 2 ^ 63"
      "unat (ss_state_version (sp_current (k_projection ?k))) < 2 ^ 63" "event_text some_moment ''E1'' ?k < 1000000"
    by (simp add: some_moment_def) (simp_all add: device_sequence_next_def ready_text plain_def is_ctrl_def c_str_def)
  have s: "nw_high (k_net ?k') \<noteq> nw_high (k_net ?k)"
    using roomy_sends [of ?k some_moment "''E1''" ram_platform SCAN no_quantity no_quantity no_quantity]
    by (auto simp: ready_text ram_journal_def new_index_def worker_begin_def ram_platform_def has_event_def
        om.get_empty)
  show ?thesis
    using event_on_disk_before_sent [OF fs spiffs_ram healthy_ram j m s]
    by (simp add: worker_begin_def ram_journal_def new_index_def) blast
qed

section \<open>Every queued event is a record of the journal\<close>

definition same_event :: "journal_record \<Rightarrow> journal_record \<Rightarrow> bool" where
  "same_event r r' = (jr_event_id r = jr_event_id r' \<and> jr_device_seq r = jr_device_seq r' \<and> jr_payload r = jr_payload r')"

definition queued :: "('d, 'n) kiosk \<Rightarrow> network_request set" where
  "queued k = set (nw_high (k_net k)) \<union> set (nw_low (k_net k))"

definition recorded :: "('d, 'n) kiosk \<Rightarrow> network_request \<Rightarrow> bool" where
  "recorded k req = (\<exists>kind url token r. index_find (ej_index (k_journal k)) (jr_event_id r) = Some r \<and>
     req = request_for kind url token r)"

text \<open>What a step may do: keep every record, up to its status, and queue events
  only with their record.\<close>

definition honest :: "('d, 'n) kiosk \<Rightarrow> ('d, 'n) kiosk \<Rightarrow> bool" where
  "honest k k' = (index_wf (ej_index (k_journal k)) \<longrightarrow>
     index_wf (ej_index (k_journal k')) \<and>
     (\<forall>i r. index_find (ej_index (k_journal k)) i = Some r \<longrightarrow>
        (\<exists>r'. index_find (ej_index (k_journal k')) i = Some r' \<and> same_event r r')) \<and>
     (\<forall>req\<in>queued k' - queued k. for_event req \<longrightarrow> recorded k' req))"

lemma request_for_same: "same_event r r' \<Longrightarrow> request_for kind u t r = request_for kind u t r'"
  by (simp add: same_event_def request_for_def)

lemma same_event_trans: "same_event a b \<Longrightarrow> same_event b c \<Longrightarrow> same_event a c"
  by (simp add: same_event_def)

lemma honest_refl: "k_journal k' = k_journal k \<Longrightarrow> queued k' = queued k \<Longrightarrow> honest k k'"
  by (auto simp: honest_def same_event_def)

lemma recorded_kept:
  assumes "\<forall>i r. index_find (ej_index (k_journal k)) i = Some r \<longrightarrow>
      (\<exists>r'. index_find (ej_index (k_journal k')) i = Some r' \<and> same_event r r')"
    and "recorded k req"
  shows "recorded k' req"
proof -
  obtain kind url token r where r: "index_find (ej_index (k_journal k)) (jr_event_id r) = Some r"
      "req = request_for kind url token r"
    using assms(2) by (auto simp: recorded_def)
  obtain r' where r': "index_find (ej_index (k_journal k')) (jr_event_id r) = Some r'" "same_event r r'"
    using assms(1) r(1) by blast
  then show ?thesis
    unfolding recorded_def using r(2) request_for_same [OF r'(2)] by (metis same_event_def)
qed

lemma honest_trans [trans]:
  assumes "honest a b" "honest b c"
  shows "honest a c"
  unfolding honest_def
proof (intro impI)
  assume w: "index_wf (ej_index (k_journal a))"
  note ab = assms(1) [unfolded honest_def, rule_format, OF w]
  then have bw: "index_wf (ej_index (k_journal b))"
    by blast
  note bc = assms(2) [unfolded honest_def, rule_format, OF bw]
  have keep: "\<exists>r'. index_find (ej_index (k_journal c)) i = Some r' \<and> same_event r r'"
    if "index_find (ej_index (k_journal a)) i = Some r" for i r
    using ab bc that same_event_trans by meson
  have "recorded c req" if "req \<in> queued c - queued a" "for_event req" for req
  proof (cases "req \<in> queued b")
    case True
    then have "recorded b req"
      using ab that by blast
    then show ?thesis
      using recorded_kept bc by blast
  next
    case False
    then show ?thesis
      using bc that by blast
  qed
  then show "index_wf (ej_index (k_journal c)) \<and>
     (\<forall>i r. index_find (ej_index (k_journal a)) i = Some r \<longrightarrow>
        (\<exists>r'. index_find (ej_index (k_journal c)) i = Some r' \<and> same_event r r')) \<and>
     (\<forall>req\<in>queued c - queued a. for_event req \<longrightarrow> recorded c req)"
    using bc keep by blast
qed

lemma append_event_index:
  assumes "append_event fs r j = (ok, j')"
  shows "ej_index j' = (if ok then record_appended_event r (frame_overhead + of_nat (length (encode_journal_event r)))
    (ej_index j) else ej_index j)" "ok \<Longrightarrow> \<not> has_event (ej_index j) (jr_event_id r)"
  using assms
  by (auto simp: append_event_def decide_append_def has_event_def Let_def
      split: if_splits append_decision.splits prod.splits)

lemma append_transition_index:
  "ej_index (snd (append_transition fs t j)) \<in> {ej_index j, record_appended_transition t
     (frame_overhead + of_nat (length (encode_journal_transition t))) (ej_index j)}"
  by (auto simp: append_transition_def Let_def split: prod.split)

lemma transition_keeps:
  assumes "index_wf idx" "idx' \<in> {idx, record_appended_transition t n idx}"
  shows "index_wf idx'" "index_find idx i = Some r \<Longrightarrow> \<exists>r'. index_find idx' i = Some r' \<and> same_event r r'"
  using assms find_after_transition [OF assms(1), of t n i]
  by (auto simp: index_wf_record_transition same_event_def apply_transition_def)

lemma transition_honest:
  assumes "k_journal k' = snd (append_transition fs t (k_journal k))" "queued k' = queued k"
  shows "honest k k'"
  using assms append_transition_index [of fs t "k_journal k"] transition_keeps
  unfolding honest_def by (metis Diff_cancel empty_iff)

lemma queued_frame [simp]:
  "queued (render p m msg e n k) = queued k" "queued (draw s k) = queued k"
  "queued (journal_status p i st n1 t er k) = queued k" "queued (stop_scan_timer b k) = queued k"
  "queued (event_base b nr k) = queued k" "queued (resp_noted m rr k) = queued k"
  "queued (resp_judged p m rr i k) = queued k" "queued (show_applied p m rr s2 v k) = queued k"
  by (simp_all add: queued_def)

lemma enqueued_set:
  "enqueue t req w = (ok, w') \<Longrightarrow>
   set (nw_high w') \<union> set (nw_low w') \<subseteq> insert req (set (nw_high w) \<union> set (nw_low w))"
  by (cases t) (auto simp: enqueue_def split: if_splits)

lemma start_resync_queue:
  "queued (start_resync p k) \<subseteq> insert ((new_request STATE_FETCH)
     \<lparr>nq_url := buffer max_queued_url_bytes (state_endpoint_url k),
      nq_kiosk_token := buffer max_queued_token_bytes (kiosk_token p k)\<rparr>) (queued k)"
proof -
  have u: "state_endpoint_url (draw Resyncing (k\<lparr>k_resyncing := True\<rparr>)) = state_endpoint_url k"
      "kiosk_token p (draw Resyncing (k\<lparr>k_resyncing := True\<rparr>)) = kiosk_token p k"
    by (simp_all add: state_endpoint_url_def kiosk_token_def draw_def k_nvs_def Let_def)
  show ?thesis
    by (auto simp: start_resync_def queued_def enqueue_state_fetch_def enqueue_def u Let_def split: if_splits)
qed

lemma resync_honest: "honest k (start_resync p k)"
  using start_resync_queue [of p k] by (auto simp: honest_def same_event_def for_event_def new_request_def)

lemma send_honest: "honest k (send_business_event p m type raw g d w k)"
proof (cases rule: send_cases [of k p m type raw g d w])
  case no_backend
  then show ?thesis by (intro honest_refl) (simp_all add: queued_def)
next
  case (refused j)
  then show ?thesis
    using append_event_index(1) [OF refused(2)] by (auto simp: honest_def queued_def same_event_def)
next
  case (sent j u)
  let ?r = "pending_record p m type raw g d w k" and ?k' = "send_business_event p m type raw g d w k"
  let ?k1 = "k\<lparr>k_journal := j, k_net := k_net ?k'\<rparr>"
  note i = append_event_index [OF sent(2), simplified]
  have "honest k ?k1"
    unfolding honest_def
  proof (intro impI)
    assume wf: "index_wf (ej_index (k_journal k))"
    note f = find_after_event [OF wf, of ?r]
    have "recorded ?k1 (request_for BUSINESS_EVENT (k_api_endpoint k) u ?r)"
      unfolding recorded_def by (intro exI [of _ BUSINESS_EVENT] exI [of _ "k_api_endpoint k"] exI [of _ u] exI [of _ ?r])
        (simp add: i f)
    moreover have "queued ?k1 \<subseteq> insert (request_for BUSINESS_EVENT (k_api_endpoint k) u ?r) (queued k)"
      using enqueued_set [OF sent(3)] by (simp add: queued_def)
    moreover have "index_wf (ej_index (k_journal ?k1))"
      using wf by (simp add: i index_wf_record_event)
    moreover have "\<exists>r'. index_find (ej_index (k_journal ?k1)) x = Some r' \<and> same_event r r'"
      if "index_find (ej_index (k_journal k)) x = Some r" for x r
    proof -
      have "x \<noteq> next_event_id m"
        using i(2) that by (auto simp: has_event_def index_find_def)
      then show ?thesis
        using that by (simp add: i(1) f same_event_def)
    qed
    ultimately show "index_wf (ej_index (k_journal ?k1)) \<and>
       (\<forall>x r. index_find (ej_index (k_journal k)) x = Some r \<longrightarrow>
          (\<exists>r'. index_find (ej_index (k_journal ?k1)) x = Some r' \<and> same_event r r')) \<and>
       (\<forall>req\<in>queued ?k1 - queued k. for_event req \<longrightarrow> recorded ?k1 req)"
      by blast
  qed
  also have "honest ?k1 ?k'"
    by (rule transition_honest) (use sent(4) in \<open>simp_all add: queued_def\<close>)
  finally show ?thesis .
next
  case (kept j u)
  note i = append_event_index [OF kept(2), simplified]
  show ?thesis
    using kept i find_after_event [of "ej_index (k_journal k)"]
    by (auto simp: honest_def queued_def same_event_def index_wf_record_event has_event_def index_find_def)
qed

lemma event_result_honest: "honest k (handle_event_result p m b r k)"
proof (cases "ho_ok (nr_outcome r)")
  case True
  obtain parsed resp where e: "parse_event_response_json (nr_response_body r) = (parsed, resp)"
    by fastforce
  let ?i = "nr_event_id r" and ?b = "event_base b r k"
  let ?a = "apply_event_response p m parsed resp ?i ?b"
  have judged: "honest k (resp_judged p m resp ?i ?b)"
    by (rule transition_honest) (simp_all add: resp_judged_journal journal_status_is)
  have "honest k ?a"
  proof (cases rule: response_cases [of parsed resp p m ?i ?b])
    case malformed
    then show ?thesis
      by (intro transition_honest) (simp_all add: journal_status_is, simp add: queued_def)
  next
    case conflict
    have "honest k (journal_status p ?i CONFLICT 0 (m_now m) ''STATE_CONFLICT'' (resp_noted m resp ?b))"
      by (rule transition_honest) (simp_all add: journal_status_is)
    also note resync_honest [of _ p]
    finally show ?thesis
      by (simp only: conflict(3))
  next
    case (applied ps pv)
    note judged
    also have "honest (resp_judged p m resp ?i ?b) ?a"
      unfolding applied(4) by (rule honest_refl) simp_all
    finally show ?thesis .
  next
    case stale
    note judged
    also note resync_honest [of _ p]
    finally show ?thesis
      by (simp only: stale(4))
  next
    case unsupported
    note judged
    also have "honest (resp_judged p m resp ?i ?b) ?a"
      unfolding unsupported(4) by (rule honest_refl) simp_all
    finally show ?thesis .
  qed
  also have "honest ?a (handle_event_result p m b r k)"
    by (rule honest_refl) (simp_all add: event_result_ok [OF True e])
  finally show ?thesis .
next
  case False
  then show ?thesis
    by (intro transition_honest) (simp_all add: event_result_failed journal_status_is)
qed

lemma take_result_honest: "honest k (take_result p m k)"
proof -
  have w: "queued (k\<lparr>k_net := w\<rparr>) = queued k" if "worker_poll (k_net k) = (x, w)" for x w
    using that by (auto simp: worker_poll_def queued_def split: if_splits)
  show ?thesis
  proof (cases rule: take_result_cases [of k p m])
    case (none v)
    then show ?thesis
      using w by (intro honest_refl) simp_all
  next
    case (some r v)
    have "honest k (k\<lparr>k_net := v\<rparr>)"
      using w [OF some(1)] by (intro honest_refl) simp_all
    also have "honest (k\<lparr>k_net := v\<rparr>) (take_result p m k)"
    proof (cases rule: dispatch_cases [of p m "rp_replaying (k_replay k)" r "k\<lparr>k_net := v\<rparr>"])
      case resync
      have "honest k' (handle_resync_result p m r k')" for k' :: "('a, 'b) kiosk"
        by (rule honest_refl) (simp_all add: handle_resync_result_def apply_snapshot_def queued_def Let_def split_beta
            split: option.split)
      then show ?thesis
        using some resync by simp
    next
      case event
      then show ?thesis
        using some event_result_honest by simp
    next
      case (stash s)
      then show ?thesis
        using some by (intro honest_refl) (simp_all add: queued_def)
    next
      case ignored
      then show ?thesis
        using some by (intro honest_refl) simp_all
    qed
    finally show ?thesis .
  qed
qed

lemma ui_timeout_honest: "honest k (check_ui_timeout p m k)"
proof -
  have s: "honest k (send_business_event p m type raw g d w (k\<lparr>k_last_activity_ms := t\<rparr>))" for type raw g d w t
  proof -
    have "honest k (k\<lparr>k_last_activity_ms := t\<rparr>)"
      by (rule honest_refl) (simp_all add: queued_def)
    also note send_honest
    finally show ?thesis .
  qed
  have r: "honest k k'" if "k_journal k' = k_journal k" "k_net k' = k_net k" for k'
    using that by (intro honest_refl) (simp_all add: queued_def)
  show ?thesis
    by (simp add: check_ui_timeout_def s r Let_def)
qed

lemma offline_replay_honest: "honest k (check_offline_replay p k)"
proof -
  have r: "honest k k'" if "k_journal k' = k_journal k" "k_net k' = k_net k" for k'
    using that by (intro honest_refl) (simp_all add: queued_def)
  show ?thesis
  proof (cases "k_net (check_offline_replay p k) = k_net k")
    case True
    then show ?thesis
      by (intro r) (simp_all add: check_offline_replay_def Let_def split_beta split: option.split)
  next
    case False
    let ?i = "rp_event_ids (k_replay k) ! rp_next (k_replay k)"
    obtain x where x: "index_find (ej_index (k_journal k)) ?i = Some x"
        "k_net (check_offline_replay p k) = snd (enqueue PRIORITY_LOW
           (request_for OFFLINE_REPLAY (k_api_endpoint k) (kiosk_token p k) x) (k_net k))"
        "k_journal (check_offline_replay p k) = k_journal k"
      using False
      by (auto simp: check_offline_replay_def enqueue_offline_replay_is Let_def split_beta
          split: if_splits option.splits)
    obtain ok v where e: "enqueue PRIORITY_LOW (request_for OFFLINE_REPLAY (k_api_endpoint k) (kiosk_token p k) x)
        (k_net k) = (ok, v)"
      by fastforce
    have q: "queued (check_offline_replay p k) \<subseteq>
        insert (request_for OFFLINE_REPLAY (k_api_endpoint k) (kiosk_token p k) x) (queued k)"
      using enqueued_set [OF e] x(2) e by (simp add: queued_def)
    have "recorded (check_offline_replay p k) (request_for OFFLINE_REPLAY (k_api_endpoint k) (kiosk_token p k) x)"
      if "index_wf (ej_index (k_journal k))"
    proof -
      have "jr_event_id x = ?i"
        using index_wf_get [OF that] x(1) by (simp add: index_find_def)
      then show ?thesis
        unfolding recorded_def using x(1,3) by (intro exI [of _ OFFLINE_REPLAY] exI [of _ "k_api_endpoint k"]
            exI [of _ "kiosk_token p k"] exI [of _ x]) simp
    qed
    then show ?thesis
      using q x(3) by (auto simp: honest_def same_event_def)
  qed
qed

lemma tail_journal [simp]:
  "k_journal (check_error_view_timeout p m k) = k_journal k"
  "k_journal (check_finish_result_hold_timeout p m k) = k_journal k"
  "k_journal (check_replay_fallback m k) = k_journal k" "k_journal (refresh_queue_count p m k) = k_journal k"
  "k_journal (refresh_clock p m k) = k_journal k" "k_journal (log_network_state k) = k_journal k"
  "k_journal (start_offline_replay_if_needed k) = k_journal k" "k_net (start_offline_replay_if_needed k) = k_net k"
  by (simp_all add: check_error_view_timeout_def check_finish_result_hold_timeout_def check_replay_fallback_def
      start_offline_replay_if_needed_def refresh_queue_count_def refresh_clock_def log_network_state_def Let_def)

lemma poll_honest: "honest k (kiosk_poll p m k)"
proof -
  note same = honest_refl [unfolded queued_def]
  let ?k1 = "take_result p m k"
  let ?k3 = "check_finish_result_hold_timeout p m (check_error_view_timeout p m ?k1)"
  let ?k4 = "check_ui_timeout p m ?k3"
  let ?k5 = "check_replay_fallback m ?k4"
  let ?k6 = "check_offline_replay p ?k5"
  have "honest k ?k1" by (rule take_result_honest)
  also have "honest ?k1 ?k3" by (rule same) simp_all
  also have "honest ?k3 ?k4" by (rule ui_timeout_honest)
  also have "honest ?k4 ?k5" by (rule same) simp_all
  also have "honest ?k5 ?k6" by (rule offline_replay_honest)
  also have "honest ?k6 (kiosk_poll p m k)" by (rule same) (simp_all add: kiosk_poll_def Let_def)
  finally show ?thesis .
qed

lemma send_from: "k_journal k' = k_journal k \<Longrightarrow> k_net k' = k_net k \<Longrightarrow> honest k (send_business_event p m t r g d w k')"
proof -
  assume "k_journal k' = k_journal k" "k_net k' = k_net k"
  then have "honest k k'"
    by (intro honest_refl) (simp_all add: queued_def)
  also note send_honest
  finally show ?thesis .
qed

lemma local_honest: "honest k (handle_local_event p m e k)"
proof -
  have same: "honest k k'" if "k_journal k' = k_journal k" "k_net k' = k_net k" for k'
    using that by (intro honest_refl) (simp_all add: queued_def)
  have scan: "honest k (handle_scan p m raw k)" for raw
    by (simp add: handle_scan_def Let_def same send_from)
  have qk: "honest k (quantity_key p m c k')" if "k_journal k' = k_journal k" "k_net k' = k_net k" for c k'
    using that by (simp add: quantity_key_def submit_final_quantity_def Let_def same send_from split: qty_step.split)
  have key: "honest k (handle_business_key p m c k')" if "k_journal k' = k_journal k" "k_net k' = k_net k" for c k'
    using that by (simp add: handle_business_key_def Let_def same send_from qk)
  show ?thesis
    by (cases e) (simp_all add: handle_local_event_def Let_def scan same key)
qed


lemma scan_sends:
  assumes "\<not> rc_safe_mode (k_recovery k)" "\<not> se_mismatch (k_server k)" "identity_active p k"
  obtains k' where "handle_scan p m raw k = send_business_event p m SCAN raw no_quantity no_quantity no_quantity k'"
    "k_journal k' = k_journal k" "k_net k' = k_net k" "k_api_endpoint k' = k_api_endpoint k"
    "event_text m raw k' = event_text m raw k"
  using assms by (cases "rq_scan_pending (k_requests k)")
    (auto simp: handle_scan_def Let_def identity_active_def event_text_def k_nvs_def draw_def)

definition busy_kiosk :: "(ram_disk, ram_nvs) kiosk" where
  "busy_kiosk = (ready_kiosk WAIT_EMPLOYEE)
     \<lparr>k_journal := ram_journal\<lparr>ej_index := record_appended_event sample_record 100 (new_index 100000)\<rparr>\<rparr>"


end
