(* ===== verification/Wifi_Station.thy ===== *)
theory Wifi_Station
  imports Kiosk_Runtime Backend_Url
begin

text \<open>
  The Wi-Fi station and the setup portal: \<^verbatim>\<open>WifiManager\<close> (network/wifi_manager.h,
  .cpp) and \<^verbatim>\<open>WifiSetupPortal\<close> (network/wifi_setup_portal.h, .cpp).  Every operation
  returns the calls it makes to the radio (\<open>radio_call\<close>) and the events it
  publishes, in order; what the radio reports (\<^verbatim>\<open>WiFi.status() == WL_CONNECTED\<close>), what
  a client of the portal asks for and the networks a scan finds are arguments.
  The HTML of the setup page and the DNS server are not modelled.
\<close>

section \<open>The station\<close>

datatype wifi_state = W_DISCONNECTED | W_CONNECTING | W_CONNECTED

datatype radio_call =
    Radio_mode_sta
  | Radio_no_sleep
  | Radio_begin string string
  | Radio_disconnect
  | Radio_mode_ap_sta
  | Radio_soft_ap string
  | Radio_soft_ap_off

definition retry_cooldown_ms :: u32 where
  "retry_cooldown_ms = 10000"

definition wifi_connect_timeout_ms :: u32 where
  "wifi_connect_timeout_ms = 15000"

definition wifi_state_name :: "wifi_state \<Rightarrow> string" where
  "wifi_state_name s =
     (case s of
        W_DISCONNECTED \<Rightarrow> ''DISCONNECTED''
      | W_CONNECTING \<Rightarrow> ''CONNECTING''
      | W_CONNECTED \<Rightarrow> ''CONNECTED'')"

record wifi_manager =
  wm_state :: wifi_state
  wm_ssid :: string
  wm_password :: string
  wm_connect_started_ms :: u32
  wm_next_retry_ms :: u32
  wm_reconnect_count :: u32
  wm_ever_connected :: bool

definition new_wifi_manager :: wifi_manager where
  "new_wifi_manager = \<lparr>wm_state = W_DISCONNECTED, wm_ssid = [], wm_password = [], wm_connect_started_ms = 0,
     wm_next_retry_ms = 0, wm_reconnect_count = 0, wm_ever_connected = False\<rparr>"

definition wifi_set_state :: "wifi_state \<Rightarrow> wifi_manager \<Rightarrow> local_event list \<times> wifi_manager" where
  "wifi_set_state s w =
     (if s = wm_state w then ([], w)
      else
      let w1 = w\<lparr>wm_state := s\<rparr>;
          w2 = (if s = W_CONNECTED
                then if wm_ever_connected w1 then w1\<lparr>wm_reconnect_count := wm_reconnect_count w1 + 1\<rparr>
                     else w1\<lparr>wm_ever_connected := True\<rparr>
                else w1) in
      ([Wifi_state (wifi_state_name s)], w2))"

definition wifi_begin ::
  "u32 \<Rightarrow> string \<Rightarrow> string \<Rightarrow> wifi_manager \<Rightarrow> radio_call list \<times> local_event list \<times> wifi_manager" where
  "wifi_begin now ssid password w0 =
     (let w = w0\<lparr>wm_ssid := ssid, wm_password := password\<rparr> in
      if wm_ssid w = [] then ([], [], w)
      else ([Radio_mode_sta, Radio_no_sleep, Radio_begin ssid password],
            wifi_set_state W_CONNECTING (w\<lparr>wm_connect_started_ms := now\<rparr>)))"

definition wifi_poll :: "u32 \<Rightarrow> bool \<Rightarrow> wifi_manager \<Rightarrow> radio_call list \<times> local_event list \<times> wifi_manager" where
  "wifi_poll now up w =
     (if wm_ssid w = [] then ([], [], w)
      else if wm_state w = W_CONNECTING then
        (if up then ([], wifi_set_state W_CONNECTED w)
         else if now - wm_connect_started_ms w > wifi_connect_timeout_ms then
           (let (es, w1) = wifi_set_state W_DISCONNECTED w in
            ([Radio_disconnect], es, w1\<lparr>wm_next_retry_ms := now + retry_cooldown_ms\<rparr>))
         else ([], [], w))
      else if wm_state w = W_CONNECTED then
        (if \<not> up then
           (let (es, w1) = wifi_set_state W_DISCONNECTED w in
            ([], es, w1\<lparr>wm_next_retry_ms := now + retry_cooldown_ms\<rparr>))
         else ([], [], w))
      else if now \<ge> wm_next_retry_ms w then
        ([Radio_begin (wm_ssid w) (wm_password w)],
         wifi_set_state W_CONNECTING (w\<lparr>wm_connect_started_ms := now\<rparr>))
      else ([], [], w))"

definition wifi_retry_now :: "u32 \<Rightarrow> wifi_manager \<Rightarrow> wifi_manager" where
  "wifi_retry_now now w = (if wm_state w \<noteq> W_DISCONNECTED then w else w\<lparr>wm_next_retry_ms := now\<rparr>)"

definition wifi_force_reconnect ::
  "u32 \<Rightarrow> wifi_manager \<Rightarrow> radio_call list \<times> local_event list \<times> wifi_manager" where
  "wifi_force_reconnect now w =
     (let (es, w1) = wifi_set_state W_DISCONNECTED w in
      ([Radio_disconnect], es, w1\<lparr>wm_next_retry_ms := now\<rparr>))"

section \<open>What the station does\<close>

text \<open>An event is published exactly when the state changes, and names the new one.\<close>

lemma wifi_events_are_changes:
  assumes "wifi_poll now up w = (rs, es, w')"
  shows "es = (if wm_state w' = wm_state w then [] else [Wifi_state (wifi_state_name (wm_state w'))])"
  using assms
  by (auto simp: wifi_poll_def wifi_set_state_def Let_def split: if_splits prod.splits)

lemma wifi_reconnects_counted:
  assumes "wifi_poll now up w = (rs, es, w')"
  shows "wm_reconnect_count w' = wm_reconnect_count w +
      (if wm_state w \<noteq> W_CONNECTED \<and> wm_state w' = W_CONNECTED \<and> wm_ever_connected w then 1 else 0) \<and>
    (wm_ever_connected w' \<longleftrightarrow> wm_ever_connected w \<or> (wm_state w \<noteq> W_CONNECTED \<and> wm_state w' = W_CONNECTED))"
  using assms
  by (auto simp: wifi_poll_def wifi_set_state_def Let_def split: if_splits prod.splits)

text \<open>A lost station tries again, with the stored credentials, at the first poll from the
  end of the cooldown on.\<close>

lemma wifi_retries:
  assumes "wm_ssid w \<noteq> []" "wm_state w = W_DISCONNECTED" "wm_next_retry_ms w \<le> now"
  shows "wifi_poll now up w = ([Radio_begin (wm_ssid w) (wm_password w)], [Wifi_state ''CONNECTING''],
    w\<lparr>wm_connect_started_ms := now, wm_state := W_CONNECTING\<rparr>)"
  using assms by (simp add: wifi_poll_def wifi_set_state_def wifi_state_name_def)

text \<open>The end of the cooldown is compared as a number and not as a difference: a
  reconnect forced just before the millisecond counter wraps is not tried again
  by any poll after the wrap, until the counter comes round to that value.\<close>

fun wifi_polls :: "(u32 \<times> bool) list \<Rightarrow> wifi_manager \<Rightarrow> wifi_manager" where
  "wifi_polls [] w = w"
| "wifi_polls ((now, up) # ps) w = wifi_polls ps (snd (snd (wifi_poll now up w)))"

lemma wifi_retry_missed_at_wrap:
  assumes "\<forall>(now, up)\<in>set ps. now < t"
  shows "wifi_polls ps (snd (snd (wifi_force_reconnect t w))) = snd (snd (wifi_force_reconnect t w))"
proof -
  have stuck: "wifi_polls ps v = v" if "wm_state v = W_DISCONNECTED" "wm_next_retry_ms v = t" for v
    using assms
  proof (induction ps)
    case (Cons p ps)
    then have "wifi_poll (fst p) (snd p) v = ([], [], v)"
      using that by (cases p) (auto simp: wifi_poll_def)
    then show ?case
      using Cons by (cases p) simp
  qed simp
  show ?thesis
    by (rule stuck) (simp_all add: wifi_force_reconnect_def wifi_set_state_def Let_def)
qed

section \<open>The setup portal\<close>

datatype portal_state = P_INACTIVE | P_AP_ACTIVE | P_TESTING | P_FAILED

definition portal_state_name :: "portal_state \<Rightarrow> string" where
  "portal_state_name s =
     (case s of
        P_INACTIVE \<Rightarrow> ''INACTIVE''
      | P_AP_ACTIVE \<Rightarrow> ''AP_ACTIVE''
      | P_TESTING \<Rightarrow> ''TESTING''
      | P_FAILED \<Rightarrow> ''FAILED'')"

definition wifi_recovery_test_timeout_ms :: u32 where
  "wifi_recovery_test_timeout_ms = 15000"

definition wifi_recovery_portal_timeout_ms :: u32 where
  "wifi_recovery_portal_timeout_ms = 720000"

record setup_portal =
  po_state :: portal_state
  po_ap_ssid :: string
  po_pending_ssid :: string
  po_pending_password :: string
  po_last_activity_ms :: u32
  po_testing_started_ms :: u32
  po_failed_once :: bool

definition new_portal :: setup_portal where
  "new_portal = \<lparr>po_state = P_INACTIVE, po_ap_ssid = [], po_pending_ssid = [], po_pending_password = [],
     po_last_activity_ms = 0, po_testing_started_ms = 0, po_failed_once = False\<rparr>"

definition portal_active :: "setup_portal \<Rightarrow> bool" where
  "portal_active po = (po_state po \<noteq> P_INACTIVE)"

definition portal_set_state :: "portal_state \<Rightarrow> setup_portal \<Rightarrow> local_event list \<times> setup_portal" where
  "portal_set_state s po =
     (if s = po_state po then ([], po) else ([Wifi_recovery_state (portal_state_name s)], po\<lparr>po_state := s\<rparr>))"

definition compute_ap_credentials :: "'n nvs_ops \<Rightarrow> u64 \<Rightarrow> 'n \<Rightarrow> setup_portal \<Rightarrow> setup_portal" where
  "compute_ap_credentials nv mac n po =
     (let device_id = identity_device_id nv n;
          name = (if device_id \<noteq> [] then device_id else identity_hardware_id mac) in
      po\<lparr>po_ap_ssid := compute_setup_ap_ssid name\<rparr>)"

definition portal_start ::
  "'n nvs_ops \<Rightarrow> u64 \<Rightarrow> u32 \<Rightarrow> 'n \<Rightarrow> setup_portal \<Rightarrow> radio_call list \<times> local_event list \<times> setup_portal" where
  "portal_start nv mac now n po =
     (if portal_active po then ([], [], po)
      else
      let po1 = compute_ap_credentials nv mac n po in
      ([Radio_mode_ap_sta, Radio_soft_ap (po_ap_ssid po1)],
       portal_set_state P_AP_ACTIVE (po1\<lparr>po_last_activity_ms := now\<rparr>)))"

definition portal_stop :: "setup_portal \<Rightarrow> radio_call list \<times> local_event list \<times> setup_portal" where
  "portal_stop po =
     (if \<not> portal_active po then ([], [], po)
      else ([Radio_soft_ap_off, Radio_mode_sta], portal_set_state P_INACTIVE po))"

text \<open>A request of a client of the portal.\<close>

datatype portal_request =
    Req_root
  | Req_scan
  | Req_save string string
  | Req_cancel
  | Req_redirect

definition trim_spaces :: "string \<Rightarrow> string" where
  "trim_spaces s = rev (dropWhile is_space (rev (dropWhile is_space s)))"

definition portal_save ::
  "u32 \<Rightarrow> string \<Rightarrow> string \<Rightarrow> setup_portal \<Rightarrow> radio_call list \<times> local_event list \<times> setup_portal" where
  "portal_save now ssid_arg password po0 =
     (let po = po0\<lparr>po_last_activity_ms := now\<rparr>; ssid = trim_spaces ssid_arg in
      if ssid = [] then ([], [], po)
      else
      let po1 = po\<lparr>po_pending_ssid := ssid, po_pending_password := password, po_testing_started_ms := now\<rparr> in
      ([Radio_begin ssid password], portal_set_state P_TESTING po1))"

definition portal_request ::
  "u32 \<Rightarrow> portal_request option \<Rightarrow> setup_portal \<Rightarrow> radio_call list \<times> local_event list \<times> setup_portal" where
  "portal_request now req po =
     (case req of
        None \<Rightarrow> ([], [], po)
      | Some (Req_save ssid password) \<Rightarrow> portal_save now ssid password po
      | Some Req_cancel \<Rightarrow> portal_stop (po\<lparr>po_last_activity_ms := now\<rparr>)
      | Some _ \<Rightarrow> ([], [], po\<lparr>po_last_activity_ms := now\<rparr>))"

text \<open>The flag says that the device restarts.\<close>

definition portal_poll ::
  "'n nvs_ops \<Rightarrow> u32 \<Rightarrow> portal_request option \<Rightarrow> bool \<Rightarrow> 'n \<Rightarrow> setup_portal \<Rightarrow>
    bool \<times> radio_call list \<times> local_event list \<times> setup_portal \<times> 'n" where
  "portal_poll nv now req up n po =
     (if \<not> portal_active po then (False, [], [], po, n)
      else
      let (rs, es, po1) = portal_request now req po in
      if po_state po1 = P_TESTING then
        (if up then (True, rs, es, po1, set_wifi_credentials nv (po_pending_ssid po1) (po_pending_password po1) n)
         else if now - po_testing_started_ms po1 > wifi_recovery_test_timeout_ms then
           (let (es2, po2) = portal_set_state P_FAILED (po1\<lparr>po_failed_once := True\<rparr>) in
            (False, rs @ [Radio_disconnect], es @ es2, po2, n))
         else (False, rs, es, po1, n))
      else if now - po_last_activity_ms po1 > wifi_recovery_portal_timeout_ms then
        (let (rs2, es2, po2) = portal_stop po1 in (False, rs @ rs2, es @ es2, po2, n))
      else (False, rs, es, po1, n))"

text \<open>The networks a scan found, as the portal reports them: at most the first thirty
  entries, those without a name left out.\<close>

record scan_network =
  sn_ssid :: string
  sn_rssi :: int
  sn_secure :: bool

definition scan_entry :: "scan_network \<Rightarrow> string" where
  "scan_entry w =
     ''{'' @ jkey ''ssid'' @ jstr (sn_ssid w) @ '','' @ jkey ''rssi'' @ dec_int (sn_rssi w) @ '','' @
     jkey ''secure'' @ (if sn_secure w then ''true'' else ''false'') @ ''}''"

fun join_commas :: "string list \<Rightarrow> string" where
  "join_commas [] = []"
| "join_commas [x] = x"
| "join_commas (x # xs) = x @ '','' @ join_commas xs"

definition scan_body :: "scan_network list \<Rightarrow> string" where
  "scan_body ws = ''['' @ join_commas (map scan_entry (filter (\<lambda>w. sn_ssid w \<noteq> []) (take 30 ws))) @ '']''"

section \<open>Test before commit\<close>

text \<open>The stored credentials change only to those of the pending request, when the radio
  reports a connection, and the device then restarts; the request under test
  always names a network.\<close>

definition portal_ok :: "setup_portal \<Rightarrow> bool" where
  "portal_ok po = (po_state po = P_TESTING \<longrightarrow> po_pending_ssid po \<noteq> [])"

lemma portal_start_ok: "portal_ok po \<Longrightarrow> portal_ok (snd (snd (portal_start nv mac now n po)))"
  by (simp add: portal_start_def portal_set_state_def portal_ok_def compute_ap_credentials_def Let_def)

lemma portal_stop_ok: "portal_ok po \<Longrightarrow> portal_ok (snd (snd (portal_stop po)))"
  by (simp add: portal_stop_def portal_set_state_def portal_ok_def)

lemma portal_save_ok: "portal_ok po \<Longrightarrow> portal_ok (snd (snd (portal_save now s pw po)))"
  by (simp add: portal_save_def portal_set_state_def portal_ok_def Let_def)

lemma portal_request_ok: "portal_ok po \<Longrightarrow> portal_ok (snd (snd (portal_request now req po)))"
  using portal_save_ok portal_stop_ok [of "po\<lparr>po_last_activity_ms := now\<rparr>"]
  by (auto simp: portal_request_def portal_ok_def split: option.split portal_request.split)

lemma portal_commits_tested:
  assumes "portal_ok po" "portal_poll nv now req up n po = (restart, rs, es, po', n')"
  shows "portal_ok po' \<and> (restart \<longleftrightarrow> up \<and> po_state po' = P_TESTING) \<and> (\<not> restart \<longrightarrow> n' = n) \<and>
    (restart \<longrightarrow> po_pending_ssid po' \<noteq> [] \<and> n' = set_wifi_credentials nv (po_pending_ssid po') (po_pending_password po') n)"
proof -
  obtain rs1 es1 po1 where q: "portal_request now req po = (rs1, es1, po1)"
    by (metis prod_cases3)
  have ok: "portal_ok po1"
    using portal_request_ok [OF assms(1), of now req] q by simp
  have stop: "portal_ok (snd (snd (portal_stop po1)))" "po_state (snd (snd (portal_stop po1))) = P_INACTIVE"
    using portal_stop_ok [OF ok] by (simp_all add: portal_stop_def portal_active_def portal_set_state_def)
  consider (off) "\<not> portal_active po" | (test) "portal_active po" "po_state po1 = P_TESTING"
    | (idle) "portal_active po" "po_state po1 \<noteq> P_TESTING"
    by blast
  then show ?thesis
  proof cases
    case off
    then show ?thesis
      using assms by (auto simp: portal_poll_def portal_active_def)
  next
    case test
    then show ?thesis
      using assms(2) q ok
      by (auto simp: portal_poll_def portal_ok_def portal_set_state_def Let_def split: if_splits)
  next
    case idle
    then show ?thesis
      using assms(2) q ok stop
      by (auto simp: portal_poll_def Let_def split: if_splits prod.splits)
  qed
qed

text \<open>The status is read in the very poll that takes the request: while the radio still
  reports the old connection, a request is committed without having been
  tried.\<close>

lemma commit_trusts_old_connection:
  assumes "portal_active po" "trim_spaces ssid \<noteq> []"
  shows "fst (portal_poll nv now (Some (Req_save ssid pw)) True n po) \<and>
    snd (snd (snd (snd (portal_poll nv now (Some (Req_save ssid pw)) True n po)))) =
      set_wifi_credentials nv (trim_spaces ssid) pw n"
  using assms
  by (auto simp: portal_poll_def portal_request_def portal_save_def portal_set_state_def Let_def split: if_splits)

text \<open>A test that does not succeed ends at the first poll after its time, with the portal
  still open and the preferences untouched.\<close>

lemma portal_test_fails:
  assumes "po_state po = P_TESTING" "now - po_testing_started_ms po > wifi_recovery_test_timeout_ms"
  shows "portal_poll nv now None False n po =
    (False, [Radio_disconnect], [Wifi_recovery_state ''FAILED''], po\<lparr>po_failed_once := True, po_state := P_FAILED\<rparr>, n)"
  using assms by (simp add: portal_poll_def portal_active_def portal_request_def portal_set_state_def portal_state_name_def)

end
