(* ===== verification/Recovery_Menu.thy ===== *)
theory Recovery_Menu
  imports Wifi_Station
begin

text \<open>
  The recovery controller (runtime/wifi_recovery_controller.h, .cpp): the hold of
  the star key, the recovery menu and the device information screen, and what
  it does on the events of the setup portal.  A handler returns what it makes
  the rest of the device do, in order (\<open>panel_action\<close>), its new state, and whether
  it starts the portal, which is always the last thing it does.  Whether the
  portal is active and the name of its network are arguments.
\<close>

section \<open>State and actions\<close>

definition recovery_menu_hold_ms :: u32 where
  "recovery_menu_hold_ms = 5000"

definition wifi_recovery_hold_ms :: u32 where
  "wifi_recovery_hold_ms = 10000"

record recovery_menu =
  rm_star_held :: bool
  rm_star_down_ms :: u32
  rm_last_shown :: int
  rm_menu_active :: bool
  rm_device_info_active :: bool
  rm_wifi :: wifi_indicator

definition new_recovery_menu :: recovery_menu where
  "new_recovery_menu = \<lparr>rm_star_held = False, rm_star_down_ms = 0, rm_last_shown = -1, rm_menu_active = False,
     rm_device_info_active = False, rm_wifi = WIFI_UNKNOWN\<rparr>"

datatype panel_action =
    Overlay bool
  | Do_retry_network
  | Do_resync
  | Do_return_to_state
  | Do_show_device_info
  | Do_reboot
  | Draw_menu
  | Draw_hold_progress int
  | Draw_portal_active string
  | Draw_portal_testing string
  | Draw_portal_failed
  | Draw_waiting

type_synonym menu_result = "panel_action list \<times> recovery_menu \<times> string option"

section \<open>The menu\<close>

definition enter_menu :: "recovery_menu \<Rightarrow> menu_result" where
  "enter_menu rm = ([Overlay True, Draw_menu], rm\<lparr>rm_menu_active := True\<rparr>, None)"

definition exit_menu_to_current_state :: "bool \<Rightarrow> panel_action list" where
  "exit_menu_to_current_state active = Overlay active # (if \<not> active then [Do_return_to_state] else [])"

definition handle_menu_selection :: "bool \<Rightarrow> char \<Rightarrow> recovery_menu \<Rightarrow> menu_result" where
  "handle_menu_selection active key rm0 =
     (let rm = rm0\<lparr>rm_star_held := False, rm_last_shown := -1\<rparr> in
      if key = CHR ''1'' then
        (Do_retry_network # exit_menu_to_current_state active, rm\<lparr>rm_menu_active := False\<rparr>, None)
      else if key = CHR ''2'' then ([Do_resync, Overlay active], rm\<lparr>rm_menu_active := False\<rparr>, None)
      else if key = CHR ''3'' then ([], rm\<lparr>rm_menu_active := False\<rparr>, Some ''recovery_menu'')
      else if key = CHR ''4'' then (exit_menu_to_current_state active, rm\<lparr>rm_menu_active := False\<rparr>, None)
      else if key = CHR ''5'' then ([Do_reboot], rm, None)
      else if key = CHR ''6'' then
        ([Do_show_device_info], rm\<lparr>rm_menu_active := False, rm_device_info_active := True\<rparr>, None)
      else ([], rm, None))"

section \<open>Events\<close>

definition portal_inactive_event :: "recovery_menu \<Rightarrow> menu_result" where
  "portal_inactive_event rm = ([Overlay False, Do_return_to_state], rm, None)"

definition star_event :: "u32 \<Rightarrow> bool \<Rightarrow> recovery_menu \<Rightarrow> menu_result" where
  "star_event stamp down rm =
     (if down then ([], rm\<lparr>rm_star_held := True, rm_star_down_ms := stamp, rm_last_shown := -1\<rparr>, None)
      else
      (if rm_menu_active rm then []
       else if rm_star_held rm \<and> rm_last_shown rm \<ge> 0 then [Draw_waiting] else [],
       rm\<lparr>rm_star_held := False, rm_last_shown := -1\<rparr>, None))"

definition menu_handle_event :: "u32 \<Rightarrow> bool \<Rightarrow> string \<Rightarrow> local_event \<Rightarrow> recovery_menu \<Rightarrow> menu_result" where
  "menu_handle_event stamp active ap_ssid e rm =
     (case e of
        Wifi_state t \<Rightarrow> ([], rm\<lparr>rm_wifi := wifi_of_text t (rm_wifi rm)\<rparr>, None)
      | Wifi_recovery_state t \<Rightarrow>
          if active then
            (if t = ''AP_ACTIVE'' then ([Draw_portal_active ap_ssid], rm, None)
             else if t = ''TESTING'' then ([Draw_portal_testing ap_ssid], rm, None)
             else if t = ''FAILED'' then ([Draw_portal_failed], rm, None)
             else if t = ''INACTIVE'' then portal_inactive_event rm
             else ([], rm, None))
          else if t = ''INACTIVE'' then portal_inactive_event rm
          else ([], rm, None)
      | Key_down key \<Rightarrow>
          if active then ([], rm, None)
          else if rm_device_info_active rm then
            ([Draw_menu], rm\<lparr>rm_device_info_active := False, rm_menu_active := True\<rparr>, None)
          else if rm_menu_active rm \<and> CHR ''1'' \<le> key \<and> key \<le> CHR ''6'' then handle_menu_selection active key rm
          else if key \<noteq> CHR ''*'' then ([], rm, None)
          else star_event stamp True rm
      | Key_up key \<Rightarrow>
          if active \<or> key \<noteq> CHR ''*'' then ([], rm, None) else star_event stamp False rm
      | Scan_event raw \<Rightarrow> ([], rm, None)
      | Keypad_raw b \<Rightarrow> ([], rm, None))"

section \<open>The hold\<close>

text \<open>One tick while the portal is not active; while it is, the tick only polls it.\<close>

definition menu_tick :: "u32 \<Rightarrow> recovery_menu \<Rightarrow> menu_result" where
  "menu_tick now rm =
     (if rm_menu_active rm then ([], rm, None)
      else if \<not> rm_star_held rm then ([], rm, None)
      else
      let held_ms = now - rm_star_down_ms rm in
      if held_ms \<ge> wifi_recovery_hold_ms then
        ([Overlay True], rm\<lparr>rm_star_held := False, rm_menu_active := False\<rparr>, Some ''held_star_10s'')
      else if held_ms \<ge> recovery_menu_hold_ms then enter_menu rm
      else
      let seconds_held = int (unat held_ms div 1000);
          shown_now = (if seconds_held < 3 then 0 else seconds_held) in
      if shown_now \<noteq> rm_last_shown rm
      then ([Draw_hold_progress shown_now], rm\<lparr>rm_last_shown := shown_now\<rparr>, None)
      else ([], rm, None))"

text \<open>Ticks with no event between them, until one starts the portal.\<close>

fun menu_ticks :: "u32 list \<Rightarrow> recovery_menu \<Rightarrow> recovery_menu \<times> string option" where
  "menu_ticks [] rm = (rm, None)"
| "menu_ticks (t # ts) rm =
     (case menu_tick t rm of
        (as, rm', Some reason) \<Rightarrow> (rm', Some reason)
      | (as, rm', None) \<Rightarrow> menu_ticks ts rm')"

lemma menu_tick_early:
  assumes "rm_star_held rm" "\<not> rm_menu_active rm" "t - rm_star_down_ms rm < 5000"
  shows "\<exists>as n. menu_tick t rm = (as, rm\<lparr>rm_last_shown := n\<rparr>, None)"
proof -
  have late: "\<not> 10000 \<le> t - rm_star_down_ms rm" "\<not> 5000 \<le> t - rm_star_down_ms rm"
    using assms(3) by (simp_all add: not_le order.strict_trans [OF assms(3)])
  define s where "s = (let x = int (unat (t - rm_star_down_ms rm) div 1000) in if x < 3 then 0 else x)"
  have "menu_tick t rm = (if s \<noteq> rm_last_shown rm then ([Draw_hold_progress s], rm\<lparr>rm_last_shown := s\<rparr>, None) else ([], rm, None))"
    using assms(1,2) late by (simp only: menu_tick_def wifi_recovery_hold_ms_def recovery_menu_hold_ms_def Let_def s_def
        if_True if_False simp_thms)
  moreover have "rm = rm\<lparr>rm_last_shown := rm_last_shown rm\<rparr>"
    by simp
  ultimately show ?thesis
    by metis
qed

lemma menu_ticks_open: "rm_menu_active rm \<Longrightarrow> menu_ticks ts rm = (rm, None)"
  by (induction ts) (simp_all add: menu_tick_def)

text \<open>Holding the star key opens the menu, and then nothing more: if the ticks that
  follow the press come at least once between five and ten seconds after it, no
  number of further ticks, however long the key is held, starts the setup
  portal; the menu is open instead.\<close>

lemma held_star_never_opens_portal:
  assumes "rm_star_held rm" "\<not> rm_menu_active rm"
    and "\<forall>t\<in>set before. t - rm_star_down_ms rm < 5000"
    and "5000 \<le> t - rm_star_down_ms rm" "t - rm_star_down_ms rm < 10000"
  shows "snd (menu_ticks (before @ t # after) rm) = None \<and> rm_menu_active (fst (menu_ticks (before @ t # after) rm))"
  using assms
proof (induction before arbitrary: rm)
  case Nil
  then have "menu_tick t rm = ([Overlay True, Draw_menu], rm\<lparr>rm_menu_active := True\<rparr>, None)"
    by (simp add: menu_tick_def enter_menu_def wifi_recovery_hold_ms_def recovery_menu_hold_ms_def Let_def)
  then show ?case
    by (simp add: menu_ticks_open)
next
  case (Cons s before)
  obtain as n where "menu_tick s rm = (as, rm\<lparr>rm_last_shown := n\<rparr>, None)"
    using menu_tick_early [of rm s] Cons.prems(1-3) by auto
  then show ?case
    using Cons.IH [of "rm\<lparr>rm_last_shown := n\<rparr>"] Cons.prems by simp
qed

text \<open>Four ticks a second apart around the threshold.\<close>

lemma held_star_never_opens_portal_witness:
  "snd (menu_ticks ([1000, 4000] @ 5200 # [9000, 12000, 60000]) (new_recovery_menu\<lparr>rm_star_held := True\<rparr>)) = None"
proof -
  have "rm_star_held (new_recovery_menu\<lparr>rm_star_held := True\<rparr>)" "\<not> rm_menu_active (new_recovery_menu\<lparr>rm_star_held := True\<rparr>)"
    and "\<forall>t\<in>set [1000, 4000]. t - rm_star_down_ms (new_recovery_menu\<lparr>rm_star_held := True\<rparr>) < 5000"
    and "5000 \<le> 5200 - rm_star_down_ms (new_recovery_menu\<lparr>rm_star_held := True\<rparr>)"
      "5200 - rm_star_down_ms (new_recovery_menu\<lparr>rm_star_held := True\<rparr>) < 10000"
    by (simp_all add: new_recovery_menu_def)
  from held_star_never_opens_portal [OF this, of "[9000, 12000, 60000]"] show ?thesis
    by simp
qed

text \<open>Only a tick that comes ten seconds after the press, with none in the five seconds
  before, starts it.\<close>

lemma late_tick_opens_portal:
  assumes "rm_star_held rm" "\<not> rm_menu_active rm" "10000 \<le> t - rm_star_down_ms rm"
  shows "snd (snd (menu_tick t rm)) = Some ''held_star_10s''"
  using assms by (simp add: menu_tick_def wifi_recovery_hold_ms_def Let_def)

text \<open>Selecting an entry ends the hold.\<close>

lemma selection_ends_hold: "\<not> rm_star_held (fst (snd (handle_menu_selection active key rm)))"
  by (simp add: handle_menu_selection_def Let_def)

end
