(* ===== verification/Front_Panel.thy ===== *)
theory Front_Panel
  imports Kiosk_Durable Recovery_Menu
begin

text \<open>
  The front panel: the runtime, the recovery controller, the setup portal and the
  Wi-Fi station, connected by the event bus (runtime/event_bus.h, .cpp) and by
  the callbacks the sketch passes to the controller.  The bus calls the
  subscribers in the order of their subscription: the runtime first, then the
  controller.  An overlay (menu, device information, portal) keeps the keys from
  the business logic.
\<close>

section \<open>The overlay flag belongs to the controller\<close>

lemma overlay_upd_quantity [simp]: "k_overlay (upd_quantity f k) = k_overlay k"
  by (simp add: upd_quantity_def)

lemma overlay_journal_status [simp]: "k_overlay (journal_status p i s r t e k) = k_overlay k"
  by (simp add: journal_status_def)

lemma overlay_start_resync [simp]: "k_overlay (start_resync p k) = k_overlay k"
  by (simp add: start_resync_def Let_def split: prod.split)

lemma overlay_apply_snapshot [simp]: "k_overlay (snd (apply_snapshot s k)) = k_overlay k"
  by (simp add: apply_snapshot_def split_beta Let_def)

lemma overlay_send [simp]: "k_overlay (send_business_event p m t r g d w k) = k_overlay k"
  by (simp add: send_business_event_def journal_event_def Let_def split_beta)

lemma overlay_confirm [simp]: "k_overlay (confirm_value p m k) = k_overlay k"
  by (simp add: confirm_value_def upd_quantity_def Let_def split: qty_step.split)

lemma overlay_quantity_key [simp]: "k_overlay (quantity_key p m c k) = k_overlay k"
  by (simp add: quantity_key_def submit_final_quantity_def upd_quantity_def reset_quantity_flow_def Let_def
      split: qty_step.split)

lemma overlay_business_key [simp]: "k_overlay (handle_business_key p m c k) = k_overlay k"
  by (simp add: handle_business_key_def Let_def)

lemma overlay_scan [simp]: "k_overlay (handle_scan p m raw k) = k_overlay k"
  by (simp add: handle_scan_def Let_def)

lemma overlay_local [simp]: "k_overlay (handle_local_event p m e k) = k_overlay k"
  by (cases e) (simp_all add: handle_local_event_def Let_def)

lemma overlay_response [simp]: "k_overlay (apply_event_response p m parsed resp i k) = k_overlay k"
proof -
  have a: "k_overlay (show_applied p m resp s v k) = k_overlay k" for s v k
    by (simp add: show_applied_def arm_finish_hold_def reset_quantity_flow_def Let_def)
  have n: "k_overlay (resp_noted m resp k) = k_overlay k" "k_overlay (resp_judged p m resp i k) = k_overlay k"
    by (simp_all add: resp_noted_def resp_judged_def upd_quantity_def)
  show ?thesis
    by (cases rule: response_cases [of parsed resp p m i k]) (simp_all add: a n)
qed

lemma overlay_event_result [simp]: "k_overlay (handle_event_result p m b r k) = k_overlay k"
  by (cases "ho_ok (nr_outcome r)"; cases "parse_event_response_json (nr_response_body r)")
    (simp_all add: event_result_ok event_result_failed stop_scan_timer_def event_base_def note_result_def Let_def)

lemma overlay_resync_result [simp]: "k_overlay (handle_resync_result p m r k) = k_overlay k"
  by (simp add: handle_resync_result_def Let_def split_beta split: option.split)

lemma overlay_take_result [simp]: "k_overlay (take_result p m k) = k_overlay k"
proof (cases rule: take_result_cases [of k p m])
  case (none v)
  then show ?thesis by simp
next
  case (some r v)
  show ?thesis
    using some
    by (cases rule: dispatch_cases [of p m "rp_replaying (k_replay k)" r "k\<lparr>k_net := v\<rparr>"]) simp_all
qed

lemma overlay_poll [simp]: "k_overlay (kiosk_poll p m k) = k_overlay k"
proof -
  have t: "k_overlay (check_error_view_timeout p m k) = k_overlay k"
    "k_overlay (check_finish_result_hold_timeout p m k) = k_overlay k"
    "k_overlay (check_ui_timeout p m k) = k_overlay k" "k_overlay (check_replay_fallback m k) = k_overlay k"
    "k_overlay (check_offline_replay p k) = k_overlay k" "k_overlay (refresh_queue_count p m k) = k_overlay k"
    "k_overlay (refresh_clock p m k) = k_overlay k" "k_overlay (log_network_state k) = k_overlay k" for k :: "('a, 'b) kiosk"
    by (simp_all add: check_error_view_timeout_def check_finish_result_hold_timeout_def check_ui_timeout_def
        check_replay_fallback_def start_offline_replay_if_needed_def check_offline_replay_def refresh_queue_count_def
        refresh_clock_def log_network_state_def Let_def split_beta split: option.split)
  show ?thesis
    by (simp add: kiosk_poll_def Let_def t)
qed

lemma overlay_environment [simp]: "k_overlay (snd (apply_server_environment p m r k)) = k_overlay k"
  by (simp add: apply_server_environment_def Let_def)

lemma overlay_bootstrap [simp]: "k_overlay (on_bootstrap_result p m r k) = k_overlay k"
  by (cases "br_status r") (simp_all add: on_bootstrap_result_def Let_def split_beta)

lemma overlay_manual_resync [simp]: "k_overlay (request_manual_resync p k) = k_overlay k"
  by (simp add: request_manual_resync_def)

lemma overlay_apply [simp]: "k_overlay (kiosk_apply p op k) = k_overlay k"
  by (cases op) (simp_all add: kiosk_begin_def start_offline_replay_if_needed_def take_bootstrap_result_def
      take_ui_bundle_fetch_result_def kiosk_enqueue_bootstrap_def kiosk_enqueue_ui_bundle_fetch_def Let_def
      split: prod.split)

section \<open>The panel\<close>

record ('d, 'n) panel =
  fp_kiosk :: "('d, 'n) kiosk"
  fp_menu :: recovery_menu
  fp_portal :: setup_portal
  fp_wifi :: wifi_manager
  fp_restarting :: bool

text \<open>The callbacks of the controller; what it draws itself is not kept.\<close>

definition panel_act ::
  "('d, 'n) platform \<Rightarrow> moment \<Rightarrow> panel_action \<Rightarrow> ('d, 'n) panel \<Rightarrow> ('d, 'n) panel" where
  "panel_act p m a fp =
     (case a of
        Overlay b \<Rightarrow> fp\<lparr>fp_kiosk := (fp_kiosk fp)\<lparr>k_overlay := b\<rparr>\<rparr>
      | Do_retry_network \<Rightarrow> fp\<lparr>fp_wifi := wifi_retry_now (m_now m) (fp_wifi fp)\<rparr>
      | Do_resync \<Rightarrow> fp\<lparr>fp_kiosk := request_manual_resync p (fp_kiosk fp)\<rparr>
      | Do_return_to_state \<Rightarrow> fp\<lparr>fp_kiosk := refresh_idle_screen p m (fp_kiosk fp)\<rparr>
      | Do_reboot \<Rightarrow> fp\<lparr>fp_restarting := True\<rparr>
      | _ \<Rightarrow> fp)"

definition panel_acts ::
  "('d, 'n) platform \<Rightarrow> moment \<Rightarrow> panel_action list \<Rightarrow> ('d, 'n) panel \<Rightarrow> ('d, 'n) panel" where
  "panel_acts p m as fp = fold (panel_act p m) as fp"

text \<open>Publishing an event: the runtime's handler, then the controller's.\<close>

definition publish_to_both ::
  "('d, 'n) platform \<Rightarrow> moment \<Rightarrow> local_event \<Rightarrow> ('d, 'n) panel \<Rightarrow> ('d, 'n) panel \<times> string option" where
  "publish_to_both p m e fp =
     (let fp1 = fp\<lparr>fp_kiosk := handle_local_event p m e (fp_kiosk fp)\<rparr>;
          (as, rm, start) = menu_handle_event (m_now m) (portal_active (fp_portal fp1)) (po_ap_ssid (fp_portal fp1)) e
            (fp_menu fp1) in
      (panel_acts p m as (fp1\<lparr>fp_menu := rm\<rparr>), start))"

text \<open>The portal's own events never start it again.\<close>

definition publish_recovery ::
  "('d, 'n) platform \<Rightarrow> moment \<Rightarrow> local_event list \<Rightarrow> ('d, 'n) panel \<Rightarrow> ('d, 'n) panel" where
  "publish_recovery p m es fp = fold (\<lambda>e fp. fst (publish_to_both p m e fp)) es fp"

definition panel_start_portal :: "('d, 'n) platform \<Rightarrow> moment \<Rightarrow> ('d, 'n) panel \<Rightarrow> ('d, 'n) panel" where
  "panel_start_portal p m fp =
     (let (rs, es, po) = portal_start (pf_nv p) (pf_mac p) (m_now m) (k_nvs (fp_kiosk fp)) (fp_portal fp) in
      publish_recovery p m es (fp\<lparr>fp_portal := po\<rparr>))"

definition panel_finish ::
  "('d, 'n) platform \<Rightarrow> moment \<Rightarrow> ('d, 'n) panel \<times> string option \<Rightarrow> ('d, 'n) panel" where
  "panel_finish p m r = (case r of (fp, None) \<Rightarrow> fp | (fp, Some reason) \<Rightarrow> panel_start_portal p m fp)"

definition panel_publish ::
  "('d, 'n) platform \<Rightarrow> moment \<Rightarrow> local_event \<Rightarrow> ('d, 'n) panel \<Rightarrow> ('d, 'n) panel" where
  "panel_publish p m e fp = panel_finish p m (publish_to_both p m e fp)"

definition panel_tick ::
  "('d, 'n) platform \<Rightarrow> moment \<Rightarrow> portal_request option \<Rightarrow> bool \<Rightarrow> ('d, 'n) panel \<Rightarrow> ('d, 'n) panel" where
  "panel_tick p m req up fp =
     (if portal_active (fp_portal fp) then
        (let (restart, rs, es, po, n) = portal_poll (pf_nv p) (m_now m) req up (k_nvs (fp_kiosk fp)) (fp_portal fp);
             k = fp_kiosk fp in
         publish_recovery p m es (fp\<lparr>fp_portal := po, fp_restarting := (fp_restarting fp \<or> restart),
           fp_kiosk := k\<lparr>k_seq := (k_seq k)\<lparr>dq_nvs := n\<rparr>\<rparr>\<rparr>))
      else
      let (as, rm, start) = menu_tick (m_now m) (fp_menu fp) in
      panel_finish p m (panel_acts p m as (fp\<lparr>fp_menu := rm\<rparr>), start))"

definition panel_wifi :: "('d, 'n) platform \<Rightarrow> moment \<Rightarrow> bool \<Rightarrow> ('d, 'n) panel \<Rightarrow> ('d, 'n) panel" where
  "panel_wifi p m up fp =
     (if portal_active (fp_portal fp) then fp
      else
      let (rs, es, w) = wifi_poll (m_now m) up (fp_wifi fp) in
      fold (panel_publish p m) es (fp\<lparr>fp_wifi := w\<rparr>))"

text \<open>The end of \<^verbatim>\<open>setup()\<close>: without credentials the portal opens at once.\<close>

definition panel_boot :: "('d, 'n) platform \<Rightarrow> moment \<Rightarrow> ('d, 'n) panel \<Rightarrow> ('d, 'n) panel" where
  "panel_boot p m fp =
     (if config_wifi_ssid (pf_nv p) (k_nvs (fp_kiosk fp)) = [] then panel_start_portal p m fp else fp)"

section \<open>An open overlay keeps the keys\<close>

definition overlay_open :: "('d, 'n) panel \<Rightarrow> bool" where
  "overlay_open fp =
     (rm_menu_active (fp_menu fp) \<or> rm_device_info_active (fp_menu fp) \<or> portal_active (fp_portal fp))"

definition panel_ok :: "('d, 'n) panel \<Rightarrow> bool" where
  "panel_ok fp =
     (k_overlay (fp_kiosk fp) = overlay_open fp \<and>
      \<not> (rm_menu_active (fp_menu fp) \<and> rm_device_info_active (fp_menu fp)) \<and>
      \<not> (rm_device_info_active (fp_menu fp) \<and> rm_star_held (fp_menu fp)) \<and>
      (portal_active (fp_portal fp) \<longrightarrow> \<not> rm_menu_active (fp_menu fp) \<and> \<not> rm_device_info_active (fp_menu fp)))"

lemma panel_acts_simps [simp]:
  "panel_acts p m [] fp = fp" "panel_acts p m (a # as) fp = panel_acts p m as (panel_act p m a fp)"
  by (simp_all add: panel_acts_def)

lemma panel_act_frame [simp]:
  "fp_menu (panel_act p m a fp) = fp_menu fp" "fp_portal (panel_act p m a fp) = fp_portal fp"
  "k_overlay (fp_kiosk (panel_act p m a fp)) = (case a of Overlay b \<Rightarrow> b | _ \<Rightarrow> k_overlay (fp_kiosk fp))"
  by (cases a; simp add: panel_act_def refresh_idle_screen_def)+

text \<open>An event that is not the portal's own keeps the panel in order, up to the portal it
  starts.\<close>

lemma publish_ok:
  assumes "panel_ok fp" "\<And>t. e \<noteq> Wifi_recovery_state t" "publish_to_both p m e fp = (fp', start)"
  shows "if start = None then panel_ok fp'
    else k_overlay (fp_kiosk fp') \<and> \<not> overlay_open fp'"
proof (cases e)
  case (Key_down key)
  then show ?thesis
    using assms(1,3)
    by (auto simp: publish_to_both_def menu_handle_event_def handle_menu_selection_def exit_menu_to_current_state_def
        star_event_def panel_ok_def overlay_open_def Let_def split: if_splits)
next
  case (Key_up key)
  then show ?thesis
    using assms(1,3)
    by (auto simp: publish_to_both_def menu_handle_event_def star_event_def panel_ok_def overlay_open_def Let_def
        split: if_splits)
qed (use assms in \<open>auto simp: publish_to_both_def menu_handle_event_def panel_ok_def overlay_open_def Let_def\<close>)

lemma recovery_event_fields:
  "fp_menu (fst (publish_to_both p m (Wifi_recovery_state t) fp)) = fp_menu fp"
  "fp_portal (fst (publish_to_both p m (Wifi_recovery_state t) fp)) = fp_portal fp"
  "k_overlay (fp_kiosk (fst (publish_to_both p m (Wifi_recovery_state t) fp))) =
    (k_overlay (fp_kiosk fp) \<and> t \<noteq> ''INACTIVE'')"
  by (auto simp: publish_to_both_def menu_handle_event_def portal_inactive_event_def Let_def)

lemma publish_recovery_fields:
  assumes "\<forall>e\<in>set es. \<exists>t. e = Wifi_recovery_state t"
  shows "fp_menu (publish_recovery p m es fp) = fp_menu fp \<and> fp_portal (publish_recovery p m es fp) = fp_portal fp \<and>
    k_overlay (fp_kiosk (publish_recovery p m es fp)) =
      (k_overlay (fp_kiosk fp) \<and> Wifi_recovery_state ''INACTIVE'' \<notin> set es)"
  using assms
proof (induction es arbitrary: fp)
  case (Cons e es)
  then obtain t where e: "e = Wifi_recovery_state t"
    by auto
  let ?fp = "fst (publish_to_both p m e fp)"
  have "publish_recovery p m (e # es) fp = publish_recovery p m es ?fp"
    by (simp add: publish_recovery_def)
  then show ?case
    using Cons.IH [of ?fp] Cons.prems recovery_event_fields [of p m t fp] by (auto simp: e)
qed (simp add: publish_recovery_def)

lemma portal_set_state_events:
  "portal_set_state s po = (es, po') \<Longrightarrow>
   es = (if s = po_state po then [] else [Wifi_recovery_state (portal_state_name s)]) \<and> po_state po' = s"
  by (auto simp: portal_set_state_def split: if_splits)

lemma portal_start_events:
  assumes "\<not> portal_active po" "portal_start nv mac now n po = (rs, es, po')"
  shows "portal_active po' \<and> es = [Wifi_recovery_state ''AP_ACTIVE'']"
  using assms
  by (auto simp: portal_start_def portal_active_def portal_set_state_def portal_state_name_def compute_ap_credentials_def
      Let_def)

lemma start_portal_ok:
  assumes "k_overlay (fp_kiosk fp)" "\<not> overlay_open fp"
  shows "panel_ok (panel_start_portal p m fp)"
proof -
  obtain rs es po where s: "portal_start (pf_nv p) (pf_mac p) (m_now m) (k_nvs (fp_kiosk fp)) (fp_portal fp) = (rs, es, po)"
    by (metis prod_cases3)
  have e: "portal_active po" "es = [Wifi_recovery_state ''AP_ACTIVE'']"
    using portal_start_events [OF _ s] assms(2) by (simp_all add: overlay_open_def)
  show ?thesis
    using assms publish_recovery_fields [of es p m "fp\<lparr>fp_portal := po\<rparr>"] e
    by (simp add: panel_start_portal_def s panel_ok_def overlay_open_def)
qed

lemma finish_ok:
  assumes "if snd r = None then panel_ok (fst r) else k_overlay (fp_kiosk (fst r)) \<and> \<not> overlay_open (fst r)"
  shows "panel_ok (panel_finish p m r)"
  using assms start_portal_ok [of "fst r"]
  by (cases r; cases "snd r") (simp_all add: panel_finish_def)

lemma panel_publish_ok: "panel_ok fp \<Longrightarrow> (\<And>t. e \<noteq> Wifi_recovery_state t) \<Longrightarrow> panel_ok (panel_publish p m e fp)"
  unfolding panel_publish_def
  by (rule finish_ok) (use publish_ok [of fp e p m "fst (publish_to_both p m e fp)" "snd (publish_to_both p m e fp)"] in simp)

lemma portal_request_events:
  assumes "portal_active po" "portal_request now req po = (rs, es, po')"
  shows "(portal_active po' \<and> es \<in> {[], [Wifi_recovery_state ''TESTING'']}) \<or>
    (\<not> portal_active po' \<and> es = [Wifi_recovery_state ''INACTIVE''] \<and> po_last_activity_ms po' = now)"
  using assms
  by (auto simp: portal_request_def portal_save_def portal_stop_def portal_active_def portal_set_state_def
      portal_state_name_def Let_def split: option.splits portal_request.splits if_splits)

lemma portal_poll_events:
  assumes "portal_active po" "portal_poll nv now req up n po = (restart, rs, es, po', n')"
  shows "(portal_active po' \<and> Wifi_recovery_state ''INACTIVE'' \<notin> set es \<or>
      \<not> portal_active po' \<and> Wifi_recovery_state ''INACTIVE'' \<in> set es) \<and>
    (\<forall>e\<in>set es. \<exists>t. e = Wifi_recovery_state t)"
proof -
  obtain rs1 es1 po1 where q: "portal_request now req po = (rs1, es1, po1)"
    by (metis prod_cases3)
  note r = portal_request_events [OF assms(1) q]
  show ?thesis
    using assms r
    by (auto simp: portal_poll_def q portal_active_def portal_stop_def portal_set_state_def portal_state_name_def
        wifi_recovery_portal_timeout_ms_def Let_def split: if_splits)
qed

lemma panel_tick_ok:
  assumes "panel_ok fp"
  shows "panel_ok (panel_tick p m req up fp)"
proof (cases "portal_active (fp_portal fp)")
  case True
  obtain restart rs es po n where s: "portal_poll (pf_nv p) (m_now m) req up (k_nvs (fp_kiosk fp)) (fp_portal fp) =
      (restart, rs, es, po, n)"
    by (metis prod_cases5)
  note e = portal_poll_events [OF True s]
  let ?fp = "fp\<lparr>fp_portal := po, fp_restarting := (fp_restarting fp \<or> restart),
      fp_kiosk := (fp_kiosk fp)\<lparr>k_seq := (k_seq (fp_kiosk fp))\<lparr>dq_nvs := n\<rparr>\<rparr>\<rparr>"
  have "panel_tick p m req up fp = publish_recovery p m es ?fp"
    using True s by (simp add: panel_tick_def Let_def)
  then show ?thesis
    using publish_recovery_fields [of es p m ?fp] e assms True
    by (auto simp: panel_ok_def overlay_open_def)
next
  case False
  obtain as rm start where s: "menu_tick (m_now m) (fp_menu fp) = (as, rm, start)"
    by (metis prod_cases3)
  have "if start = None then panel_ok (panel_acts p m as (fp\<lparr>fp_menu := rm\<rparr>))
      else k_overlay (fp_kiosk (panel_acts p m as (fp\<lparr>fp_menu := rm\<rparr>))) \<and> \<not> overlay_open (panel_acts p m as (fp\<lparr>fp_menu := rm\<rparr>))"
    using s assms False
    by (auto simp: menu_tick_def enter_menu_def panel_ok_def overlay_open_def Let_def split: if_splits)
  then show ?thesis
    using False s by (simp add: panel_tick_def finish_ok)
qed


lemma panel_wifi_ok: "panel_ok fp \<Longrightarrow> panel_ok (panel_wifi p m up fp)"
proof -
  assume ok: "panel_ok fp"
  obtain rs es w where s: "wifi_poll (m_now m) up (fp_wifi fp) = (rs, es, w)"
    by (metis prod_cases3)
  have "panel_ok (fold (panel_publish p m) es fp')" if "panel_ok fp'" "\<forall>e\<in>set es. \<exists>t. e = Wifi_state t" for fp'
    using that by (induction es arbitrary: fp') (auto intro!: panel_publish_ok)
  moreover have "\<forall>e\<in>set es. \<exists>t. e = Wifi_state t"
    using wifi_events_are_changes [OF s] by auto
  moreover have "panel_ok (fp\<lparr>fp_wifi := w\<rparr>)"
    using ok by (simp add: panel_ok_def overlay_open_def)
  ultimately show ?thesis
    using ok s by (simp add: panel_wifi_def)
qed

section \<open>Runs of the panel\<close>

text \<open>The drivers publish an event, the loop lets the controller, the station and the
  runtime work, and the other components change what they own.\<close>

inductive panel_run :: "('d, 'n) platform \<Rightarrow> ('d, 'n) panel \<Rightarrow> ('d, 'n) panel \<Rightarrow> bool" for p fp0 where
  panel_start: "panel_run p fp0 fp0"
| panel_event: "panel_run p fp0 fp \<Longrightarrow> (\<And>t. e \<noteq> Wifi_recovery_state t) \<Longrightarrow> panel_run p fp0 (panel_publish p m e fp)"
| panel_ticks: "panel_run p fp0 fp \<Longrightarrow> panel_run p fp0 (panel_tick p m req up fp)"
| panel_station: "panel_run p fp0 fp \<Longrightarrow> panel_run p fp0 (panel_wifi p m up fp)"
| panel_kiosk: "panel_run p fp0 fp \<Longrightarrow> panel_run p fp0 (fp\<lparr>fp_kiosk := kiosk_apply p op (fp_kiosk fp)\<rparr>)"
| panel_others: "panel_run p fp0 fp \<Longrightarrow>
    panel_run p fp0 (fp\<lparr>fp_wifi := w, fp_kiosk := (fp_kiosk fp)\<lparr>k_net := net, k_journal := j,
      k_seq := (k_seq (fp_kiosk fp))\<lparr>dq_nvs := n\<rparr>, k_time := t, k_ui := u, k_recovery := rc\<rparr>\<rparr>)"

lemma panel_run_ok: "panel_run p fp0 fp \<Longrightarrow> panel_ok fp0 \<Longrightarrow> panel_ok fp"
proof (induction rule: panel_run.induct)
  case (panel_event fp e m)
  then show ?case by (simp add: panel_publish_ok)
next
  case (panel_ticks fp m req up)
  then show ?case by (simp add: panel_tick_ok)
next
  case (panel_station fp m up)
  then show ?case by (simp add: panel_wifi_ok)
next
  case (panel_kiosk fp op)
  then show ?case by (simp add: panel_ok_def overlay_open_def)
next
  case (panel_others fp w net j n t u rc)
  then show ?case by (simp add: panel_ok_def overlay_open_def)
qed simp

text \<open>What a key does while an overlay is open.\<close>

definition business_untouched :: "('d, 'n) kiosk \<Rightarrow> ('d, 'n) kiosk \<Rightarrow> bool" where
  "business_untouched k k' =
     (k_journal k' = k_journal k \<and> k_quantity k' = k_quantity k \<and> k_projection k' = k_projection k \<and>
      k_seq k' = k_seq k \<and> (\<forall>req\<in>queued k' - queued k. \<not> for_event req))"

lemma untouched_trans: "business_untouched a b \<Longrightarrow> business_untouched b c \<Longrightarrow> business_untouched a c"
  by (auto simp: business_untouched_def)

lemma untouched_resync: "business_untouched k (request_manual_resync p k)"
  using start_resync_queue [of p k]
  by (auto simp: request_manual_resync_def business_untouched_def for_event_def new_request_def)

lemma untouched_act: "business_untouched (fp_kiosk fp) (fp_kiosk (panel_act p m a fp))"
  by (cases a) (simp_all add: panel_act_def untouched_resync, simp_all add: business_untouched_def queued_def)

lemma untouched_acts: "business_untouched (fp_kiosk fp) (fp_kiosk (panel_acts p m as fp))"
proof (induction as arbitrary: fp)
  case (Cons a as)
  have "business_untouched (fp_kiosk fp) (fp_kiosk (panel_acts p m as (panel_act p m a fp)))"
    by (rule untouched_trans [OF untouched_act Cons.IH])
  then show ?case
    by simp
qed (simp add: business_untouched_def)

lemma untouched_recovery:
  "business_untouched (fp_kiosk fp) (fp_kiosk (fst (publish_to_both p m (Wifi_recovery_state t) fp)))"
proof -
  obtain as rm start where m: "menu_handle_event (m_now m) (portal_active (fp_portal fp)) (po_ap_ssid (fp_portal fp))
      (Wifi_recovery_state t) (fp_menu fp) = (as, rm, start)"
    by (metis prod_cases3)
  show ?thesis
    using m untouched_acts [of "fp\<lparr>fp_menu := rm\<rparr>" p m as]
    by (simp add: publish_to_both_def handle_local_event_def Let_def)
qed

lemma untouched_start: "business_untouched (fp_kiosk fp) (fp_kiosk (panel_start_portal p m fp))"
proof (cases "portal_active (fp_portal fp)")
  case True
  then show ?thesis
    by (simp add: panel_start_portal_def portal_start_def publish_recovery_def business_untouched_def)
next
  case False
  obtain rs es po where s: "portal_start (pf_nv p) (pf_mac p) (m_now m) (k_nvs (fp_kiosk fp)) (fp_portal fp) = (rs, es, po)"
    by (metis prod_cases3)
  show ?thesis
    using portal_start_events [OF False s] untouched_recovery [of "fp\<lparr>fp_portal := po\<rparr>"]
    by (simp add: panel_start_portal_def s publish_recovery_def)
qed

lemma untouched_finish: "business_untouched k (fp_kiosk (fst r)) \<Longrightarrow> business_untouched k (fp_kiosk (panel_finish p m r))"
  using untouched_trans [OF _ untouched_start]
  by (cases r; cases "snd r") (simp_all add: panel_finish_def)


definition ready_panel :: "business_state \<Rightarrow> (ram_disk, ram_nvs) panel" where
  "ready_panel s = \<lparr>fp_kiosk = ready_kiosk s, fp_menu = new_recovery_menu, fp_portal = new_portal,
     fp_wifi = new_wifi_manager, fp_restarting = False\<rparr>"

text \<open>The star key is pressed, and held for six seconds.\<close>

definition held_panel :: "(ram_disk, ram_nvs) panel" where
  "held_panel =
     panel_tick ram_platform (some_moment\<lparr>m_now := 56000\<rparr>) None True
       (panel_publish ram_platform some_moment (Key_down CHR ''*'') (ready_panel WAIT_EMPLOYEE))"

lemma ready_panel_ok: "panel_ok (ready_panel s)"
  by (simp add: ready_panel_def panel_ok_def overlay_open_def new_recovery_menu_def new_portal_def portal_active_def)

lemma held_panel_open: "overlay_open held_panel"
  by (simp add: held_panel_def panel_tick_def panel_publish_def panel_finish_def publish_to_both_def menu_handle_event_def
      star_event_def handle_local_event_def ready_panel_def new_recovery_menu_def new_portal_def portal_active_def
      menu_tick_def enter_menu_def overlay_open_def some_moment_def wifi_recovery_hold_ms_def recovery_menu_hold_ms_def
      Let_def)


section \<open>What the panel does not keep apart\<close>

text \<open>The portal opened at the end of \<^verbatim>\<open>setup()\<close> does not set the flag: the panel is not
  in order, and the keys reach the business logic under the portal's screen.\<close>

lemma boot_portal_leaves_keys:
  assumes "panel_ok fp" "\<not> overlay_open fp" "config_wifi_ssid (pf_nv p) (k_nvs (fp_kiosk fp)) = []"
  shows "portal_active (fp_portal (panel_boot p m fp)) \<and> \<not> k_overlay (fp_kiosk (panel_boot p m fp)) \<and>
    (\<forall>key. key \<noteq> CHR ''*'' \<longrightarrow>
      handle_local_event p m (Key_down key) (fp_kiosk (panel_boot p m fp)) =
        handle_business_key p m key ((fp_kiosk (panel_boot p m fp))\<lparr>k_last_key := key\<rparr>))"
proof -
  obtain rs es po where s: "portal_start (pf_nv p) (pf_mac p) (m_now m) (k_nvs (fp_kiosk fp)) (fp_portal fp) = (rs, es, po)"
    by (metis prod_cases3)
  have e: "portal_active po" "es = [Wifi_recovery_state ''AP_ACTIVE'']"
    using portal_start_events [OF _ s] assms(2) by (simp_all add: overlay_open_def)
  have b: "panel_boot p m fp = publish_recovery p m es (fp\<lparr>fp_portal := po\<rparr>)"
    using assms(3) s by (simp add: panel_boot_def panel_start_portal_def)
  have "portal_active (fp_portal (panel_boot p m fp))" "\<not> k_overlay (fp_kiosk (panel_boot p m fp))"
    using publish_recovery_fields [of es p m "fp\<lparr>fp_portal := po\<rparr>"] e assms(1,2) by (simp_all add: b panel_ok_def)
  then show ?thesis
    by (simp add: handle_local_event_def Let_def)
qed

text \<open>The state of the station redraws the screen whether or not an overlay is open.\<close>

lemma station_redraws_over_overlay:
  assumes "\<not> rq_scan_pending (k_requests k)"
  shows "handle_local_event p m (Wifi_state t) k = refresh_idle_screen p m (k\<lparr>k_wifi := wifi_of_text t (k_wifi k)\<rparr>)"
  using assms by (simp add: handle_local_event_def Let_def)

end
