(* ===== verification/Scanner.thy ===== *)
theory Scanner
  imports Kiosk_Runtime
begin

text \<open>
  The barcode scanner's framing (hardware/scanner_gm65.h, .cpp).  The characters that
  are available on the serial line are an argument of a poll; setting up the
  UART has no failure and no effect on the state beyond the baud rate.
\<close>

definition max_line_length :: nat where
  "max_line_length = 128"

definition line_timeout_ms :: u32 where
  "line_timeout_ms = 200"

definition scanner_duplicate_suppress_ms :: u32 where
  "scanner_duplicate_suppress_ms = 1500"

record scanner =
  sc_baud :: int
  sc_buffer :: string
  sc_last_byte_ms :: u32
  sc_last_line :: string
  sc_last_emitted_ms :: u32

definition new_scanner :: "int \<Rightarrow> scanner" where
  "new_scanner baud = \<lparr>sc_baud = baud, sc_buffer = [], sc_last_byte_ms = 0, sc_last_line = [], sc_last_emitted_ms = 0\<rparr>"

definition scanner_init :: "int \<Rightarrow> scanner \<Rightarrow> bool \<times> scanner" where
  "scanner_init baud sc = (True, sc\<lparr>sc_baud := baud\<rparr>)"

definition scanner_reinit :: "scanner \<Rightarrow> scanner" where
  "scanner_reinit sc = snd (scanner_init (sc_baud sc) (sc\<lparr>sc_buffer := []\<rparr>))"

definition scanner_set_baud :: "int \<Rightarrow> scanner \<Rightarrow> scanner" where
  "scanner_set_baud baud sc = snd (scanner_init baud (sc\<lparr>sc_buffer := []\<rparr>))"

definition emit_if_new :: "u32 \<Rightarrow> string \<Rightarrow> scanner \<Rightarrow> local_event list \<times> scanner" where
  "emit_if_new now line sc =
     (if line = sc_last_line sc \<and> now - sc_last_emitted_ms sc < scanner_duplicate_suppress_ms then ([], sc)
      else ([Scan_event line], sc\<lparr>sc_last_line := line, sc_last_emitted_ms := now\<rparr>))"

definition scanner_flush :: "u32 \<Rightarrow> scanner \<Rightarrow> local_event list \<times> scanner" where
  "scanner_flush now sc = (let (es, sc1) = emit_if_new now (sc_buffer sc) sc in (es, sc1\<lparr>sc_buffer := []\<rparr>))"

definition scanner_char :: "u32 \<Rightarrow> char \<Rightarrow> scanner \<Rightarrow> local_event list \<times> scanner" where
  "scanner_char now c sc0 =
     (let sc = sc0\<lparr>sc_last_byte_ms := now\<rparr> in
      if c = CHR 0x0D \<or> c = CHR 0x0A then
        (if sc_buffer sc \<noteq> [] then scanner_flush now sc else ([], sc))
      else if length (sc_buffer sc) \<ge> max_line_length then ([], sc\<lparr>sc_buffer := []\<rparr>)
      else ([], sc\<lparr>sc_buffer := sc_buffer sc @ [c]\<rparr>))"

fun scanner_chars :: "u32 \<Rightarrow> string \<Rightarrow> scanner \<Rightarrow> local_event list \<times> scanner" where
  "scanner_chars now [] sc = ([], sc)"
| "scanner_chars now (c # cs) sc =
     (let (es, sc1) = scanner_char now c sc; (es', sc2) = scanner_chars now cs sc1 in (es @ es', sc2))"

definition scanner_poll :: "u32 \<Rightarrow> string \<Rightarrow> scanner \<Rightarrow> local_event list \<times> scanner" where
  "scanner_poll now available sc =
     (let (es, sc1) =
        (if sc_buffer sc \<noteq> [] \<and> now - sc_last_byte_ms sc > line_timeout_ms then scanner_flush now sc else ([], sc));
          (es', sc2) = scanner_chars now available sc1 in
      (es @ es', sc2))"

section \<open>Lines\<close>

lemma scanner_chars_append:
  "scanner_chars now (cs @ ds) sc =
   (let (es, sc1) = scanner_chars now cs sc; (es', sc2) = scanner_chars now ds sc1 in (es @ es', sc2))"
  by (induction cs arbitrary: sc) (simp_all add: Let_def split_beta)

definition line_text :: "string \<Rightarrow> bool" where
  "line_text l = list_all (\<lambda>c. c \<noteq> CHR 0x0D \<and> c \<noteq> CHR 0x0A) l"

lemma buffer_grows:
  assumes "line_text l" "length (sc_buffer sc) + length l \<le> max_line_length"
  shows "scanner_chars now l sc =
    ([], if l = [] then sc else sc\<lparr>sc_last_byte_ms := now, sc_buffer := sc_buffer sc @ l\<rparr>)"
  using assms
  by (induction l arbitrary: sc) (auto simp: line_text_def scanner_char_def Let_def)

lemma whole_line:
  assumes "line_text l" "l \<noteq> []" "length l \<le> max_line_length" "sc_buffer sc = []" "l \<noteq> sc_last_line sc"
  shows "scanner_chars now (l @ [CHR 0x0D, CHR 0x0A]) sc =
    ([Scan_event l], sc\<lparr>sc_last_byte_ms := now, sc_last_line := l, sc_last_emitted_ms := now\<rparr>)"
  using assms buffer_grows [of l sc now]
  by (simp add: scanner_chars_append scanner_char_def scanner_flush_def emit_if_new_def Let_def)

fun changing :: "string \<Rightarrow> string list \<Rightarrow> bool" where
  "changing prev [] = True"
| "changing prev (l # ls) = (prev \<noteq> l \<and> changing l ls)"

text \<open>Lines of at most 128 characters that each differ from the one before arrive as they
  are, one scan each.\<close>

lemma scanner_reads_lines:
  assumes "list_all (\<lambda>l. line_text l \<and> l \<noteq> [] \<and> length l \<le> max_line_length) ls" "changing (sc_last_line sc) ls"
    and "sc_buffer sc = []"
  shows "fst (scanner_chars now (concat (map (\<lambda>l. l @ [CHR 0x0D, CHR 0x0A]) ls)) sc) = map Scan_event ls"
  using assms
proof (induction ls arbitrary: sc)
  case (Cons l ls)
  let ?sc = "sc\<lparr>sc_last_byte_ms := now, sc_last_line := l, sc_last_emitted_ms := now\<rparr>"
  have "scanner_chars now (l @ [CHR 0x0D, CHR 0x0A]) sc = ([Scan_event l], ?sc)"
    using Cons.prems by (intro whole_line) auto
  moreover have "fst (scanner_chars now (concat (map (\<lambda>l. l @ [CHR 0x0D, CHR 0x0A]) ls)) ?sc) = map Scan_event ls"
    using Cons.prems by (intro Cons.IH) auto
  ultimately show ?case
    using scanner_chars_append [of now "l @ [CHR 0x0D, CHR 0x0A]" "concat (map (\<lambda>l. l @ [CHR 0x0D, CHR 0x0A]) ls)" sc]
    by (simp add: split_beta Let_def)
qed simp

lemma scanner_buffer_bounded:
  "length (sc_buffer sc) \<le> max_line_length \<Longrightarrow> length (sc_buffer (snd (scanner_chars now cs sc))) \<le> max_line_length"
proof (induction cs arbitrary: sc)
  case (Cons c cs)
  have "length (sc_buffer (snd (scanner_char now c sc))) \<le> max_line_length"
    using Cons.prems by (auto simp: scanner_char_def scanner_flush_def Let_def split_beta)
  then show ?case
    using Cons.IH by (simp add: split_beta Let_def)
qed simp

text \<open>A line that is too long is not dropped: its first 129 characters are, and what
  follows them is emitted as a scan.\<close>

lemma long_line_emits_tail:
  assumes "line_text (head @ c # tail)" "length head = max_line_length" "tail \<noteq> []" "length tail \<le> max_line_length"
    and "sc_buffer sc = []" "tail \<noteq> sc_last_line sc"
  shows "fst (scanner_chars now (head @ c # tail @ [CHR 0x0D, CHR 0x0A]) sc) = [Scan_event tail]"
proof -
  have t: "line_text head" "line_text tail" "c \<noteq> CHR 0x0D" "c \<noteq> CHR 0x0A"
    using assms(1) by (simp_all add: line_text_def)
  have h: "scanner_chars now head sc = ([], sc\<lparr>sc_last_byte_ms := now, sc_buffer := head\<rparr>)"
    using buffer_grows [OF t(1), of sc now] assms(2,5) by (auto simp: max_line_length_def)
  have c: "scanner_char now c (sc\<lparr>sc_last_byte_ms := now, sc_buffer := head\<rparr>) = ([], sc\<lparr>sc_last_byte_ms := now, sc_buffer := []\<rparr>)"
    using t(3,4) assms(2) by (simp add: scanner_char_def Let_def)
  have "fst (scanner_chars now (tail @ [CHR 0x0D, CHR 0x0A]) (sc\<lparr>sc_last_byte_ms := now, sc_buffer := []\<rparr>)) = [Scan_event tail]"
    using whole_line [OF t(2) assms(3,4), of "sc\<lparr>sc_last_byte_ms := now, sc_buffer := []\<rparr>"] assms(6) by simp
  then show ?thesis
    using scanner_chars_append [of now head "c # tail @ [CHR 0x0D, CHR 0x0A]" sc] h c by (simp add: split_beta Let_def)
qed

text \<open>The same line again within the window is suppressed, after it the line is a new
  scan.\<close>

lemma repeated_line:
  "emit_if_new t line sc = (es, sc') \<Longrightarrow> es = [Scan_event line] \<Longrightarrow>
   fst (emit_if_new u line sc') = (if u - t < scanner_duplicate_suppress_ms then [] else [Scan_event line])"
  by (auto simp: emit_if_new_def split: if_splits)

end
