(* ===== verification/Keypad.thy ===== *)
theory Keypad
  imports Kiosk_Runtime
begin

text \<open>
  The keypad driver (hardware/keypad_pcf8574.h, .cpp): the scan of the lines over
  I2C, the mapping of line pairs to keys, the check of a calibration and its
  storage, the debouncing that turns scans into key events, and the guided
  calibration.  The I2C bus is a parameter (\<open>wire_ops\<close>), as is the blob part of the
  preferences (\<open>blob_ops\<close>).  The calibration blocks until keys are pressed: its
  loops read one scan at a time from a list of scans with their times, and are
  still waiting (\<open>None\<close>) when it is used up.
\<close>

section \<open>The bus\<close>

record 'b wire_ops =
  wi_begin :: "'b \<Rightarrow> 'b"
  wi_probe :: "'b \<Rightarrow> u8 \<Rightarrow> bool \<times> 'b"
  wi_write :: "'b \<Rightarrow> u8 \<Rightarrow> u8 \<Rightarrow> bool \<times> 'b"
  wi_request :: "'b \<Rightarrow> u8 \<Rightarrow> u8 option \<times> 'b"

record 'n blob_ops =
  bo_length :: "'n \<Rightarrow> string \<Rightarrow> string \<Rightarrow> nat"
  bo_get :: "'n \<Rightarrow> string \<Rightarrow> string \<Rightarrow> nat \<Rightarrow> bytes"
  bo_put :: "'n \<Rightarrow> string \<Rightarrow> string \<Rightarrow> bytes \<Rightarrow> nat \<times> 'n"

section \<open>The driver\<close>

definition key_layout :: string where
  "key_layout = ''123456789*0#''"

definition kp_poll_interval_ms :: u32 where
  "kp_poll_interval_ms = 12"

definition kp_stable_ms :: u32 where
  "kp_stable_ms = 40"

definition kp_release_stable_ms :: u32 where
  "kp_release_stable_ms = 100"

definition keypad_namespace :: string where
  "keypad_namespace = ''kiosk_keypad''"

definition kp_mapping_magic :: u32 where
  "kp_mapping_magic = 0x4B505031"

definition i2c_error_reinit_threshold :: int where
  "i2c_error_reinit_threshold = 50"

record keypad =
  kp_found :: bool
  kp_address :: u8
  kp_calibrated :: bool
  kp_pairs :: "u8 list"
  kp_candidate :: int
  kp_since :: u32
  kp_stable :: int
  kp_last_poll :: u32
  kp_errors :: int

definition new_keypad :: keypad where
  "new_keypad = \<lparr>kp_found = False, kp_address = 0, kp_calibrated = False, kp_pairs = replicate 12 0,
     kp_candidate = -1, kp_since = 0, kp_stable = -1, kp_last_poll = 0, kp_errors = 0\<rparr>"

definition i2c_write_read :: "'b wire_ops \<Rightarrow> u8 \<Rightarrow> u8 \<Rightarrow> 'b \<Rightarrow> u8 option \<times> 'b" where
  "i2c_write_read wi addr drive b =
     (let (ok, b1) = wi_write wi b addr drive in
      if \<not> ok then (None, b1) else wi_request wi b1 addr)"

definition release_all :: "'b wire_ops \<Rightarrow> u8 \<Rightarrow> 'b \<Rightarrow> 'b" where
  "release_all wi addr b = snd (i2c_write_read wi addr 0xFF b)"

definition read_line :: "nat \<Rightarrow> u8 \<Rightarrow> int \<times> u8 \<Rightarrow> int \<times> u8" where
  "read_line first sample acc =
     fold (\<lambda>second (found, count).
       if sample AND push_bit second 1 = 0 then (int (push_bit 4 first OR second), count + 1) else (found, count))
     [first + 1..<8] acc"

fun scan_lines :: "'b wire_ops \<Rightarrow> u8 \<Rightarrow> nat list \<Rightarrow> int \<times> u8 \<Rightarrow> 'b \<Rightarrow> (int \<times> u8) option \<times> 'b" where
  "scan_lines wi addr [] acc b = (Some acc, b)"
| "scan_lines wi addr (first # rest) acc b =
     (case i2c_write_read wi addr (0xFF AND NOT (push_bit first 1)) b of
        (None, b1) \<Rightarrow> (None, b1)
      | (Some sample, b1) \<Rightarrow> scan_lines wi addr rest (read_line first sample acc) b1)"

definition scan_pair :: "'b wire_ops \<Rightarrow> u8 \<Rightarrow> 'b \<Rightarrow> int \<times> 'b" where
  "scan_pair wi addr b =
     (case scan_lines wi addr [0..<8] (-1, 0) b of
        (None, b1) \<Rightarrow> (-3, release_all wi addr b1)
      | (Some (found, count), b1) \<Rightarrow>
          (if count = 0 then -1 else if count = 1 then found else -2, release_all wi addr b1))"

definition pair_to_key :: "u8 list \<Rightarrow> int \<Rightarrow> char" where
  "pair_to_key pairs p =
     (if p < 0 then CHR 0x00
      else case find (\<lambda>(q, c). q = word_of_int p) (zip pairs key_layout) of
             Some (q, c) \<Rightarrow> c | None \<Rightarrow> CHR 0x00)"

definition line_a :: "u8 \<Rightarrow> nat" where
  "line_a q = unat (drop_bit 4 q)"

definition line_b :: "u8 \<Rightarrow> nat" where
  "line_b q = unat (q AND 0x0F)"

definition line_degree :: "u8 list \<Rightarrow> nat \<Rightarrow> nat" where
  "line_degree pairs pin = length (filter (\<lambda>q. line_a q = pin) pairs) + length (filter (\<lambda>q. line_b q = pin) pairs)"

definition validate_matrix_shape :: "u8 list \<Rightarrow> bool" where
  "validate_matrix_shape pairs =
     (list_all (\<lambda>q. line_a q < 8 \<and> line_b q < 8 \<and> line_a q \<noteq> line_b q) pairs \<and> distinct pairs \<and>
      (let ds = map (line_degree pairs) [0..<8] in
       list_all (\<lambda>d. d \<in> {3, 4, 0}) ds \<and>
       length (filter ((=) 3) ds) = 4 \<and> length (filter ((=) 4) ds) = 3 \<and> length (filter ((=) 0) ds) = 1))"

section \<open>Calibration in the preferences\<close>

definition load_calibration :: "'n nvs_ops \<Rightarrow> 'n blob_ops \<Rightarrow> 'n \<Rightarrow> keypad \<Rightarrow> keypad" where
  "load_calibration nv bo n kp =
     (let present = (nv_get_uint nv n keypad_namespace ''magic'' 0 = kp_mapping_magic \<and>
            bo_length bo n keypad_namespace ''pairs'' = 12);
          kp1 = (if present then kp\<lparr>kp_pairs := bo_get bo n keypad_namespace ''pairs'' 12\<rparr> else kp) in
      kp1\<lparr>kp_calibrated := present \<and> validate_matrix_shape (kp_pairs kp1)\<rparr>)"

definition save_calibration :: "'n nvs_ops \<Rightarrow> 'n blob_ops \<Rightarrow> keypad \<Rightarrow> 'n \<Rightarrow> bool \<times> keypad \<times> 'n" where
  "save_calibration nv bo kp n =
     (if \<not> validate_matrix_shape (kp_pairs kp) then (False, kp, n)
      else if \<not> nv_begin nv n keypad_namespace False then (False, kp, n)
      else
      let (pair_bytes, n1) = bo_put bo n keypad_namespace ''pairs'' (kp_pairs kp);
          (magic_bytes, n2) = nv_put_uint nv n1 keypad_namespace ''magic'' kp_mapping_magic;
          ok = (pair_bytes = 12 \<and> magic_bytes = 4) in
      (ok, kp\<lparr>kp_calibrated := ok\<rparr>, n2))"

fun find_address :: "'b wire_ops \<Rightarrow> u8 list \<Rightarrow> 'b \<Rightarrow> u8 option \<times> 'b" where
  "find_address wi [] b = (None, b)"
| "find_address wi (addr # rest) b =
     (let (ok, b1) = wi_probe wi b addr in if ok then (Some addr, b1) else find_address wi rest b1)"

definition keypad_init ::
  "'b wire_ops \<Rightarrow> 'n nvs_ops \<Rightarrow> 'n blob_ops \<Rightarrow> 'n \<Rightarrow> keypad \<Rightarrow> 'b \<Rightarrow> bool \<times> keypad \<times> 'b" where
  "keypad_init wi nv bo n kp b =
     (case find_address wi [0x20, 0x21, 0x22, 0x23, 0x24, 0x25, 0x26, 0x27] (wi_begin wi b) of
        (None, b1) \<Rightarrow> (False, kp, b1)
      | (Some addr, b1) \<Rightarrow>
          (True, load_calibration nv bo n (kp\<lparr>kp_address := addr, kp_found := True\<rparr>), release_all wi addr b1))"

definition reinit_bus :: "'b wire_ops \<Rightarrow> u8 \<Rightarrow> 'b \<Rightarrow> 'b" where
  "reinit_bus wi addr b = release_all wi addr (wi_begin wi b)"

section \<open>Polling\<close>

text \<open>What one scan that worked means for the keys: the events it publishes and the
  new state.\<close>

definition key_edges :: "keypad \<Rightarrow> int \<Rightarrow> local_event list \<times> keypad" where
  "key_edges kp p =
     (if \<not> kp_calibrated kp then
        (if p \<ge> 0 \<and> p \<noteq> kp_stable kp then [Keypad_raw (word_of_int p)] else [], kp\<lparr>kp_stable := p\<rparr>)
      else if p \<ge> 0 \<and> kp_stable kp \<noteq> p then
        (let key = pair_to_key (kp_pairs kp) p in
         if key \<noteq> CHR 0x00 then ([Key_down key], kp\<lparr>kp_stable := p\<rparr>) else ([], kp))
      else if p = -1 \<and> kp_stable kp \<noteq> -1 then
        (let key = pair_to_key (kp_pairs kp) (kp_stable kp) in
         (if key \<noteq> CHR 0x00 then [Key_up key] else [], kp\<lparr>kp_stable := -1\<rparr>))
      else ([], kp))"

definition debounce :: "u32 \<Rightarrow> int \<Rightarrow> keypad \<Rightarrow> local_event list \<times> keypad" where
  "debounce now p kp =
     (if p \<noteq> kp_candidate kp then ([], kp\<lparr>kp_candidate := p, kp_since := now\<rparr>)
      else if now - kp_since kp < (if p = -1 then kp_release_stable_ms else kp_stable_ms) then ([], kp)
      else key_edges kp p)"

text \<open>The flag says that the bus was set up again, which the caller records.\<close>

definition keypad_poll ::
  "'b wire_ops \<Rightarrow> u32 \<Rightarrow> keypad \<Rightarrow> 'b \<Rightarrow> local_event list \<times> bool \<times> keypad \<times> 'b" where
  "keypad_poll wi now kp b =
     (if \<not> kp_found kp then ([], False, kp, b)
      else if now - kp_last_poll kp < kp_poll_interval_ms then ([], False, kp, b)
      else
      let kp1 = kp\<lparr>kp_last_poll := now\<rparr>; (p, b1) = scan_pair wi (kp_address kp1) b in
      if p = -3 then
        (if kp_errors kp1 + 1 \<ge> i2c_error_reinit_threshold
         then ([], True, kp1\<lparr>kp_errors := 0\<rparr>, reinit_bus wi (kp_address kp1) b1)
         else ([], False, kp1\<lparr>kp_errors := kp_errors kp1 + 1\<rparr>, b1))
      else
      let (es, kp2) = debounce now p (kp1\<lparr>kp_errors := 0\<rparr>) in (es, False, kp2, b1))"

section \<open>Guided calibration\<close>

type_synonym scans = "(int \<times> u32) list"

fun wait_release :: "scans \<Rightarrow> scans option" where
  "wait_release [] = None"
| "wait_release ((p, t) # ss) = (if p = -1 then Some ss else wait_release ss)"

fun wait_press :: "int \<Rightarrow> u32 \<Rightarrow> scans \<Rightarrow> (int \<times> scans) option" where
  "wait_press cand since [] = None"
| "wait_press cand since ((p, t) # ss) =
     (if p \<ge> 0 then
        (if p \<noteq> cand then wait_press p t ss
         else if t - since \<ge> 60 then Some (cand, ss)
         else wait_press cand since ss)
      else wait_press (-1) since ss)"

lemma wait_release_shorter: "wait_release ss = Some r \<Longrightarrow> length r < length ss"
  by (induction ss rule: wait_release.induct) (auto split: if_splits)

lemma wait_press_shorter: "wait_press c s ss = Some (p, r) \<Longrightarrow> length r < length ss"
  by (induction c s ss rule: wait_press.induct) (fastforce split: if_splits)+

function cal_keys :: "nat \<Rightarrow> u8 list \<Rightarrow> scans \<Rightarrow> u8 list option" where
  "cal_keys index new_pairs ss =
     (if index \<ge> 12 then Some new_pairs
      else case wait_press (-1) 0 ss of
             None \<Rightarrow> None
           | Some (cand, ss1) \<Rightarrow>
               (case wait_release ss1 of
                  None \<Rightarrow> None
                | Some ss2 \<Rightarrow>
                    (if word_of_int cand \<in> set (take index new_pairs) then cal_keys index new_pairs ss2
                     else cal_keys (index + 1) (new_pairs[index := word_of_int cand]) ss2)))"
  by pat_completeness auto

termination
  by (relation "measure (\<lambda>(index, new_pairs, ss). length ss)")
    (auto dest!: wait_release_shorter wait_press_shorter)

declare cal_keys.simps [simp del]

definition run_calibration ::
  "'n nvs_ops \<Rightarrow> 'n blob_ops \<Rightarrow> scans \<Rightarrow> keypad \<Rightarrow> 'n \<Rightarrow> (bool \<times> keypad \<times> 'n) option" where
  "run_calibration nv bo ss kp n =
     (if \<not> kp_found kp then Some (False, kp, n)
      else case wait_release ss of
             None \<Rightarrow> None
           | Some ss1 \<Rightarrow>
               (case cal_keys 0 (replicate 12 0xFF) ss1 of
                  None \<Rightarrow> None
                | Some new_pairs \<Rightarrow>
                    (let kp1 = kp\<lparr>kp_pairs := new_pairs\<rparr> in
                     if \<not> validate_matrix_shape (kp_pairs kp1) then Some (False, kp1, n)
                     else
                     let (ok, kp2, n1) = save_calibration nv bo kp1 n in Some (ok, kp2, n1))))"

section \<open>The scan reads the pressed pair\<close>

text \<open>What the electrical side does: the expander answers, and a line reads high
  exactly if it is driven high and no line that is driven low is shorted to it.\<close>

definition lines_read :: "'b wire_ops \<Rightarrow> u8 \<Rightarrow> (nat \<Rightarrow> nat \<Rightarrow> bool) \<Rightarrow> bool" where
  "lines_read wi addr shorted =
     (\<forall>b drive. \<exists>sample b'. i2c_write_read wi addr drive b = (Some sample, b') \<and>
        (\<forall>j<8. bit sample j = (bit drive j \<and> \<not> (\<exists>i<8. \<not> bit drive i \<and> shorted i j))))"

definition pressed_pairs :: "(nat \<Rightarrow> nat \<Rightarrow> bool) \<Rightarrow> (nat \<times> nat) list" where
  "pressed_pairs shorted = concat (map (\<lambda>i. map (Pair i) (filter (shorted i) [i + 1..<8])) [0..<8])"

definition pair_code :: "nat \<times> nat \<Rightarrow> int" where
  "pair_code ij = int (16 * fst ij + snd ij)"

lemma or_code:
  assumes "i < 8" "j < 8"
  shows "push_bit 4 i OR j = (16 * i + j :: nat)"
proof -
  have "list_all (\<lambda>i. list_all (\<lambda>j. push_bit 4 i OR j = (16 * i + j :: nat)) [0..<8]) [0..<8]"
    by code_simp
  then show ?thesis
    using assms by (simp add: list_all_iff)
qed

lemma fold_found:
  "fold (\<lambda>s (f, c). if P s then (g s, c + 1) else (f, c)) xs (f, c) =
   (if filter P xs = [] then f else g (last (filter P xs)), c + of_nat (length (filter P xs)) :: u8)"
  by (induction xs arbitrary: f c) (auto simp: add.assoc)

definition scan_acc :: "(nat \<times> nat) list \<Rightarrow> int \<times> u8" where
  "scan_acc ps = (if ps = [] then -1 else pair_code (last ps), of_nat (length ps))"

lemma read_line_acc:
  assumes "first < 8" "\<forall>j<8. first < j \<longrightarrow> bit sample j = (\<not> shorted first j)"
  shows "read_line first sample (scan_acc ps) = scan_acc (ps @ map (Pair first) (filter (shorted first) [first + 1..<8]))"
proof -
  let ?js = "[first + 1..<8]"
  have f: "filter (\<lambda>j. sample AND push_bit j 1 = 0) ?js = filter (shorted first) ?js"
    using assms(2) by (intro filter_cong) (auto simp: and_exp_eq_0_iff_not_bit push_bit_eq_mult)
  let ?hit = "filter (shorted first) ?js"
  have "read_line first sample (scan_acc ps) =
      (if ?hit = [] then fst (scan_acc ps) else int (push_bit 4 first OR last ?hit),
       snd (scan_acc ps) + of_nat (length ?hit))"
    using fold_found [of "\<lambda>j. sample AND push_bit j 1 = 0" "\<lambda>j. int (push_bit 4 first OR j)" ?js
        "fst (scan_acc ps)" "snd (scan_acc ps)"] unfolding f prod.collapse by (simp only: read_line_def)
  moreover have "int (push_bit 4 first OR last ?hit) = pair_code (first, last ?hit)" if "?hit \<noteq> []"
  proof -
    have "last ?hit \<in> set ?hit"
      using that by (rule last_in_set)
    then show ?thesis
      using or_code [OF assms(1), of "last ?hit"] by (simp add: pair_code_def)
  qed
  ultimately show ?thesis
    by (auto simp: scan_acc_def last_map)
qed

lemma drive_bit: "i < 8 \<Longrightarrow> j < 8 \<Longrightarrow> bit (0xFF AND NOT (push_bit i 1) :: u8) j = (j \<noteq> i)"
proof -
  assume "i < 8" "j < 8"
  moreover have "list_all (\<lambda>i. list_all (\<lambda>j. bit (0xFF AND NOT (push_bit i 1) :: u8) j = (j \<noteq> i)) [0..<8]) [0..<8]"
    by code_simp
  ultimately show ?thesis
    by (simp add: list_all_iff)
qed

lemma scan_lines_acc:
  assumes "lines_read wi addr shorted" "\<forall>i\<in>set is. i < 8"
  shows "\<exists>b'. scan_lines wi addr is (scan_acc ps) b =
    (Some (scan_acc (ps @ concat (map (\<lambda>i. map (Pair i) (filter (shorted i) [i + 1..<8])) is))), b')"
  using assms(2)
proof (induction "is" arbitrary: ps b)
  case (Cons i "is")
  obtain sample b1 where x: "i2c_write_read wi addr (0xFF AND NOT (push_bit i 1)) b = (Some sample, b1)"
      "\<forall>j<8. bit sample j = (bit (0xFF AND NOT (push_bit i 1) :: u8) j \<and>
         \<not> (\<exists>i'<8. \<not> bit (0xFF AND NOT (push_bit i 1) :: u8) i' \<and> shorted i' j))"
    using assms(1) unfolding lines_read_def by blast
  have "\<forall>j<8. i < j \<longrightarrow> bit sample j = (\<not> shorted i j)"
    using x(2) Cons.prems by (auto simp: drive_bit simp del: push_bit_of_1)
  then have "read_line i sample (scan_acc ps) = scan_acc (ps @ map (Pair i) (filter (shorted i) [i + 1..<8]))"
    using Cons.prems by (intro read_line_acc) simp_all
  then show ?case
    using Cons.IH [of "ps @ map (Pair i) (filter (shorted i) [i + 1..<8])" b1] Cons.prems x(1) by simp
qed simp

lemma length_pressed: "length (pressed_pairs shorted) \<le> 28"
proof -
  have "length (pressed_pairs shorted) \<le> (\<Sum>i\<leftarrow>[0..<8]. length [i + 1..<8])"
    unfolding pressed_pairs_def length_concat by (simp only: map_map, rule sum_list_mono) (simp del: length_upt)
  also have "\<dots> = 28"
    by code_simp
  finally show ?thesis .
qed

lemma scan_pair_reads:
  assumes "lines_read wi addr shorted"
  shows "fst (scan_pair wi addr b) = (case pressed_pairs shorted of [] \<Rightarrow> -1 | [p] \<Rightarrow> pair_code p | _ \<Rightarrow> -2)"
proof -
  obtain b' where s: "scan_lines wi addr [0..<8] (-1, 0) b = (Some (scan_acc (pressed_pairs shorted)), b')"
    using scan_lines_acc [OF assms, of "[0..<8]" "[]" b] by (auto simp: scan_acc_def pressed_pairs_def)
  let ?n = "length (pressed_pairs shorted)"
  have "unat (of_nat ?n :: u8) = ?n"
    using length_pressed [of shorted] by (simp add: unat_of_nat take_bit_nat_eq_self)
  then have n: "(of_nat ?n :: u8) = 0 \<longleftrightarrow> ?n = 0" "(of_nat ?n :: u8) = 1 \<longleftrightarrow> ?n = 1"
    using \<open>unat (of_nat ?n :: u8) = ?n\<close> unfolding word_unat_eq_iff by (simp_all only: unat_0 unat_1)
  have "fst (scan_pair wi addr b) = (if ?n = 0 then -1 else if ?n = 1 then fst (scan_acc (pressed_pairs shorted)) else -2)"
    unfolding scan_pair_def s by (simp add: scan_acc_def n)
  also have "\<dots> = (case pressed_pairs shorted of [] \<Rightarrow> -1 | [p] \<Rightarrow> pair_code p | _ \<Rightarrow> -2)"
    by (simp add: scan_acc_def split: list.split)
  finally show ?thesis .
qed

lemma read_line_range: "first < 8 \<Longrightarrow> fst acc < 128 \<Longrightarrow> fst (read_line first sample acc) < 128"
proof -
  assume "first < 8" "fst acc < 128"
  then have "fst (fold (\<lambda>s (f, c). if sample AND push_bit s 1 = 0 then (int (push_bit 4 first OR s), c + 1) else (f, c)) xs acc) < 128"
    if "\<forall>s\<in>set xs. s < 8" for xs
    using that by (induction xs arbitrary: acc) (auto simp: or_code split: prod.splits)
  then show ?thesis
    by (simp add: read_line_def)
qed

lemma scan_lines_range:
  "scan_lines wi addr is acc b = (Some acc', b') \<Longrightarrow> \<forall>i\<in>set is. i < 8 \<Longrightarrow> fst acc < 128 \<Longrightarrow> fst acc' < 128"
proof (induction wi addr "is" acc b rule: scan_lines.induct)
  case (2 wi addr first rest acc b)
  then show ?case
    by (auto split: prod.splits option.splits simp: read_line_range)
qed simp

lemma scan_pair_range: "fst (scan_pair wi addr b) < 128"
  using scan_lines_range [of wi addr "[0..<8]" "(-1, 0)" b]
  by (auto simp: scan_pair_def split: prod.splits option.splits) 

section \<open>From scans to keys\<close>

text \<open>A sequence of polls: the scans that worked, with their times, and the events
  published.\<close>

type_synonym scan_log = "(u32 \<times> int) list"

definition scan_made :: "'b wire_ops \<Rightarrow> u32 \<Rightarrow> keypad \<Rightarrow> 'b \<Rightarrow> scan_log" where
  "scan_made wi now kp b =
     (let p = fst (scan_pair wi (kp_address kp) b) in
      if kp_found kp \<and> \<not> now - kp_last_poll kp < kp_poll_interval_ms \<and> p \<noteq> -3 then [(now, p)] else [])"

fun keypad_run :: "'b wire_ops \<Rightarrow> u32 list \<Rightarrow> keypad \<Rightarrow> 'b \<Rightarrow> scan_log \<times> local_event list \<times> keypad \<times> 'b" where
  "keypad_run wi [] kp b = ([], [], kp, b)"
| "keypad_run wi (t # ts) kp b =
     (let (es, r, kp1, b1) = keypad_poll wi t kp b; (lg, es', kp2, b2) = keypad_run wi ts kp1 b1 in
      (scan_made wi t kp b @ lg, es @ es', kp2, b2))"

text \<open>Every release is that of the key last pressed, and no key is pressed twice in a
  row.\<close>

fun key_trace :: "local_event \<Rightarrow> local_event list \<Rightarrow> bool" where
  "key_trace prev [] = True"
| "key_trace prev (e # es) =
     ((case e of Key_down c \<Rightarrow> prev \<noteq> Key_down c | Key_up c \<Rightarrow> prev = Key_down c | _ \<Rightarrow> False) \<and> key_trace e es)"

text \<open>The log shows the pair \<open>p\<close> for at least \<open>d\<close> milliseconds without anything else in
  between.\<close>

definition seen_for :: "scan_log \<Rightarrow> int \<Rightarrow> u32 \<Rightarrow> bool" where
  "seen_for lg p d =
     (\<exists>xs s ys t zs. lg = xs @ (s, p) # ys @ (t, p) # zs \<and> (\<forall>x\<in>set ys. snd x = p) \<and> d \<le> t - s)"

lemma seen_for_more: "seen_for lg p d \<Longrightarrow> seen_for (lg @ rest) p d"
  unfolding seen_for_def by (metis append.assoc append_Cons)

definition evidence :: "u8 list \<Rightarrow> scan_log \<Rightarrow> local_event \<Rightarrow> bool" where
  "evidence pairs lg e =
     (case e of
        Key_down c \<Rightarrow> (\<exists>p\<ge>0. pair_to_key pairs p = c \<and> seen_for lg p kp_stable_ms)
      | Key_up c \<Rightarrow> seen_for lg (-1) kp_release_stable_ms
      | _ \<Rightarrow> False)"

lemma evidence_more: "evidence pairs lg e \<Longrightarrow> evidence pairs (lg @ rest) e"
  by (cases e) (auto simp: evidence_def intro: seen_for_more)

text \<open>What the driver knows after a log: how long its candidate has been there, and
  which key is held.\<close>

definition last_or :: "'a \<Rightarrow> 'a list \<Rightarrow> 'a" where
  "last_or x xs = (if xs = [] then x else last xs)"

definition candidate_seen :: "scan_log \<Rightarrow> u32 \<Rightarrow> int \<Rightarrow> bool" where
  "candidate_seen lg since p =
     (if \<exists>x\<in>set lg. snd x \<noteq> -1 then \<exists>xs ys. lg = xs @ (since, p) # ys \<and> (\<forall>x\<in>set ys. snd x = p) else p = -1)"

definition tracks :: "u8 list \<Rightarrow> scan_log \<Rightarrow> local_event \<Rightarrow> keypad \<Rightarrow> bool" where
  "tracks pairs lg prev kp =
     (kp_calibrated kp \<and> kp_pairs kp = pairs \<and> candidate_seen lg (kp_since kp) (kp_candidate kp) \<and>
      kp_candidate kp < 128 \<and> kp_stable kp < 128 \<and>
      (if kp_stable kp = -1 then \<forall>c. prev \<noteq> Key_down c
       else kp_stable kp \<ge> 0 \<and> (\<exists>x\<in>set lg. snd x \<noteq> -1) \<and> pair_to_key pairs (kp_stable kp) \<noteq> CHR 0x00 \<and>
         prev = Key_down (pair_to_key pairs (kp_stable kp))))"

lemma candidate_seen_new:
  assumes "candidate_seen lg s q" "p \<noteq> q"
  shows "candidate_seen (lg @ [(now, p)]) now p"
proof -
  have "\<exists>xs ys. lg @ [(now, p)] = xs @ (now, p) # ys \<and> (\<forall>x\<in>set ys. snd x = p)"
    by (intro exI [of _ lg] exI [of _ "[]"]) simp
  moreover have "\<exists>x\<in>set (lg @ [(now, p)]). snd x \<noteq> -1"
    using assms by (auto simp: candidate_seen_def split: if_splits)
  ultimately show ?thesis
    unfolding candidate_seen_def by (simp only: if_True)
qed

lemma candidate_seen_same:
  assumes "candidate_seen lg s p"
  shows "candidate_seen (lg @ [(now, p)]) s p"
proof (cases "\<exists>x\<in>set lg. snd x \<noteq> -1")
  case True
  then obtain xs ys where "lg = xs @ (s, p) # ys" "\<forall>x\<in>set ys. snd x = p"
    using assms by (auto simp: candidate_seen_def)
  then have "\<exists>xs ys. lg @ [(now, p)] = xs @ (s, p) # ys \<and> (\<forall>x\<in>set ys. snd x = p)"
    by (intro exI [of _ xs] exI [of _ "ys @ [(now, p)]"]) auto
  then show ?thesis
    using True by (auto simp: candidate_seen_def)
next
  case False
  then show ?thesis
    using assms by (auto simp: candidate_seen_def)
qed

lemma candidate_seen_for:
  assumes "candidate_seen lg s p" "d \<le> now - s" "\<exists>x\<in>set lg. snd x \<noteq> -1"
  shows "seen_for (lg @ [(now, p)]) p d"
proof -
  obtain xs ys where l: "lg = xs @ (s, p) # ys" "\<forall>x\<in>set ys. snd x = p"
    using assms(1,3) by (auto simp: candidate_seen_def)
  then show ?thesis
    using assms(2) unfolding seen_for_def
    by (intro exI [of _ xs] exI [of _ s] exI [of _ ys] exI [of _ now] exI [of _ "[]"]) simp
qed

lemma zip_layout_find:
  assumes "pair_to_key pairs p = c" "c \<noteq> CHR 0x00" "p \<ge> 0"
  shows "(word_of_int p, c) \<in> set (zip pairs key_layout)"
proof -
  obtain q d where f: "find (\<lambda>(q, c). q = word_of_int p) (zip pairs key_layout) = Some (q, d)" "d = c"
    using assms by (auto simp: pair_to_key_def split: option.splits if_splits)
  then have "(q, d) \<in> set (zip pairs key_layout)" "q = word_of_int p"
    by (auto simp: find_Some_iff in_set_conv_nth)
  then show ?thesis
    using f(2) by simp
qed

lemma small_pair_inj: "0 \<le> p \<Longrightarrow> p < 128 \<Longrightarrow> 0 \<le> q \<Longrightarrow> q < 128 \<Longrightarrow> (word_of_int p :: u8) = word_of_int q \<Longrightarrow> p = q"
  by (simp add: word_of_int_eq_iff take_bit_int_eq_self)

lemma pair_to_key_inj:
  assumes "distinct pairs" "pair_to_key pairs p = pair_to_key pairs q" "pair_to_key pairs p \<noteq> CHR 0x00"
    and "0 \<le> p" "p < 128" "0 \<le> q" "q < 128"
  shows "p = q"
proof -
  let ?c = "pair_to_key pairs p"
  have "(word_of_int p, ?c) \<in> set (zip pairs key_layout)" "(word_of_int q, ?c) \<in> set (zip pairs key_layout)"
    using zip_layout_find assms by metis+
  then obtain i j where ij: "pairs ! i = word_of_int p" "key_layout ! i = ?c" "i < length key_layout"
      "pairs ! j = word_of_int q" "key_layout ! j = ?c" "j < length key_layout"
    by (auto simp: in_set_zip)
  moreover have "distinct key_layout"
    by (simp add: key_layout_def)
  ultimately have "i = j"
    by (simp add: nth_eq_iff_index_eq [symmetric])
  then have "(word_of_int p :: u8) = word_of_int q"
    using ij by simp
  then show ?thesis
    using small_pair_inj assms by blast
qed

lemma key_edges_cases:
  assumes "kp_calibrated kp"
  shows "(p \<ge> 0 \<and> kp_stable kp \<noteq> p \<and> pair_to_key (kp_pairs kp) p \<noteq> CHR 0x00 \<and>
      key_edges kp p = ([Key_down (pair_to_key (kp_pairs kp) p)], kp\<lparr>kp_stable := p\<rparr>)) \<or>
    (p = -1 \<and> kp_stable kp \<noteq> -1 \<and> (pair_to_key (kp_pairs kp) (kp_stable kp) \<noteq> CHR 0x00 \<longrightarrow>
      key_edges kp p = ([Key_up (pair_to_key (kp_pairs kp) (kp_stable kp))], kp\<lparr>kp_stable := -1\<rparr>))) \<or>
    key_edges kp p = ([], kp)"
  using assms by (simp add: key_edges_def Let_def)

lemma tracks_scan:
  assumes "tracks pairs lg prev kp" "distinct pairs" "p < 128" "debounce now p kp = (es, kp')"
  shows "key_trace prev es \<and> (\<forall>e\<in>set es. evidence pairs (lg @ [(now, p)]) e) \<and>
    tracks pairs (lg @ [(now, p)]) (last_or prev es) kp'"
proof (cases "p = kp_candidate kp")
  case False
  then have "candidate_seen (lg @ [(now, p)]) now p"
    using assms(1) candidate_seen_new by (auto simp: tracks_def)
  then show ?thesis
    using assms False by (auto simp: debounce_def tracks_def last_or_def)
next
  case True
  let ?lg = "lg @ [(now, p)]"
  have cand: "candidate_seen lg (kp_since kp) p"
    using assms(1) True by (simp add: tracks_def)
  note seen = candidate_seen_for [OF cand]
  have still: "tracks pairs ?lg prev kp"
    using assms(1) candidate_seen_same [OF cand] True by (auto simp: tracks_def)
  define d where "d = (if p = -1 then kp_release_stable_ms else kp_stable_ms)"
  show ?thesis
  proof (cases "now - kp_since kp < d")
    case True
    then show ?thesis
      using assms(4) still \<open>p = kp_candidate kp\<close> by (simp add: debounce_def d_def last_or_def)
  next
    case False
    then have e: "key_edges kp p = (es, kp')" and d: "d \<le> now - kp_since kp"
      using assms(4) \<open>p = kp_candidate kp\<close> by (simp_all add: debounce_def d_def)
    have cal: "kp_calibrated kp" "kp_pairs kp = pairs"
      using assms(1) by (simp_all add: tracks_def)
    consider (down) "p \<ge> 0" "kp_stable kp \<noteq> p" "pair_to_key pairs p \<noteq> CHR 0x00"
        "es = [Key_down (pair_to_key pairs p)]" "kp' = kp\<lparr>kp_stable := p\<rparr>"
      | (up) "p = -1" "kp_stable kp \<noteq> -1" "kp' = kp\<lparr>kp_stable := -1\<rparr>"
          "es = [Key_up (pair_to_key pairs (kp_stable kp))]"
      | (nothing) "es = []" "kp' = kp"
    proof -
      have k: "kp_stable kp \<noteq> -1 \<Longrightarrow> pair_to_key pairs (kp_stable kp) \<noteq> CHR 0x00"
        using assms(1) by (simp add: tracks_def)
      consider (1) "p \<ge> 0" "kp_stable kp \<noteq> p" "pair_to_key pairs p \<noteq> CHR 0x00"
          "(es, kp') = ([Key_down (pair_to_key pairs p)], kp\<lparr>kp_stable := p\<rparr>)"
        | (2) "p = -1" "kp_stable kp \<noteq> -1" "(es, kp') = ([Key_up (pair_to_key pairs (kp_stable kp))], kp\<lparr>kp_stable := -1\<rparr>)"
        | (3) "(es, kp') = ([], kp)"
        using key_edges_cases [OF cal(1), of p, unfolded e cal(2)] k by blast
      then show thesis
      proof cases
        case 1
        show thesis
          by (rule Pair_inject [OF 1(4)], rule down [OF 1(1-3)])
      next
        case 2
        show thesis
          by (rule Pair_inject [OF 2(3)], rule up [OF 2(1,2)])
      next
        case 3
        show thesis
          by (rule Pair_inject [OF 3], rule nothing)
      qed
    qed
    then show ?thesis
    proof cases
      case down
      have s: "\<exists>x\<in>set lg. snd x \<noteq> -1"
        using cand down(1) by (auto simp: candidate_seen_def split: if_splits)
      have "prev \<noteq> Key_down (pair_to_key pairs p)"
        using assms(1) pair_to_key_inj [OF assms(2), of p "kp_stable kp"] down(1-3) assms(3)
        by (auto simp: tracks_def split: if_splits)
      moreover have "evidence pairs ?lg (Key_down (pair_to_key pairs p))"
        using seen [OF _ s, of kp_stable_ms] d down(1) by (auto simp: evidence_def d_def)
      moreover have "tracks pairs ?lg (Key_down (pair_to_key pairs p)) kp'"
        using still down s assms(3) by (auto simp: tracks_def)
      ultimately show ?thesis
        using down(4) by (simp add: last_or_def)
    next
      case up
      have s: "\<exists>x\<in>set lg. snd x \<noteq> -1" and prev: "prev = Key_down (pair_to_key pairs (kp_stable kp))"
        using assms(1) up(2) by (auto simp: tracks_def split: if_splits)
      have "evidence pairs ?lg (Key_up c)" for c
        using seen [OF _ s, of kp_release_stable_ms] d up(1) by (simp add: evidence_def d_def)
      moreover have "tracks pairs ?lg (Key_up c) kp'" for c
        using still up(3) by (auto simp: tracks_def)
      ultimately show ?thesis
        using up(4) prev by (simp add: last_or_def)
    next
      case nothing
      then show ?thesis
        using still by (simp add: last_or_def)
    qed
  qed
qed

lemma key_trace_append: "key_trace prev (es @ es') = (key_trace prev es \<and> key_trace (last_or prev es) es')"
  by (induction es arbitrary: prev) (auto simp: last_or_def)

lemma last_or_append: "last_or prev (es @ es') = last_or (last_or prev es) es'"
  by (simp add: last_or_def)

lemma tracks_fields: "tracks pairs lg prev (kp\<lparr>kp_last_poll := t, kp_errors := n\<rparr>) = tracks pairs lg prev kp"
  "tracks pairs lg prev (kp\<lparr>kp_last_poll := t\<rparr>) = tracks pairs lg prev kp"
  by (simp_all add: tracks_def)

lemma tracks_poll:
  assumes "tracks pairs lg prev kp" "distinct pairs" "keypad_poll wi now kp b = (es, r, kp', b')"
  shows "key_trace prev es \<and> (\<forall>e\<in>set es. evidence pairs (lg @ scan_made wi now kp b) e) \<and>
    tracks pairs (lg @ scan_made wi now kp b) (last_or prev es) kp'"
proof (cases "kp_found kp \<and> \<not> now - kp_last_poll kp < kp_poll_interval_ms")
  case False
  then show ?thesis
    using assms(1,3) by (auto simp: keypad_poll_def scan_made_def last_or_def Let_def split: if_splits)
next
  case True
  obtain p b1 where p: "scan_pair wi (kp_address kp) b = (p, b1)"
    by fastforce
  show ?thesis
  proof (cases "p = -3")
    case True
    then show ?thesis
      using assms(1,3) p by (auto simp: keypad_poll_def scan_made_def last_or_def Let_def tracks_def split: if_splits)
  next
    case False
    have t: "tracks pairs lg prev (kp\<lparr>kp_last_poll := now, kp_errors := 0\<rparr>)"
      using assms(1) by (simp add: tracks_fields)
    have "debounce now p (kp\<lparr>kp_last_poll := now, kp_errors := 0\<rparr>) = (es, kp')"
      using assms(3) True False p by (simp add: keypad_poll_def Let_def split: prod.splits)
    from tracks_scan [OF t assms(2) _ this] show ?thesis
      using scan_pair_range [of wi "kp_address kp" b] True False p by (simp add: scan_made_def)
  qed
qed

lemma tracks_run:
  assumes "tracks pairs lg prev kp" "distinct pairs" "keypad_run wi ts kp b = (rest, es, kp', b')"
  shows "key_trace prev es \<and> (\<forall>e\<in>set es. evidence pairs (lg @ rest) e)"
  using assms(1,3)
proof (induction ts arbitrary: lg prev kp b rest es)
  case (Cons t ts)
  obtain es1 r kp1 b1 where s: "keypad_poll wi t kp b = (es1, r, kp1, b1)"
    by (metis prod_cases4)
  obtain rest2 es2 kp2 b2 where u: "keypad_run wi ts kp1 b1 = (rest2, es2, kp2, b2)"
    by (metis prod_cases4)
  have e: "rest = scan_made wi t kp b @ rest2" "es = es1 @ es2" "kp' = kp2" "b' = b2"
    using Cons.prems(2) s u by simp_all
  note one = tracks_poll [OF Cons.prems(1) assms(2) s]
  then have "key_trace (last_or prev es1) es2 \<and> (\<forall>e\<in>set es2. evidence pairs ((lg @ scan_made wi t kp b) @ rest2) e)"
    using Cons.IH u unfolding e(3,4) by blast
  then show ?case
    using one evidence_more [of pairs "lg @ scan_made wi t kp b" _ rest2] by (auto simp: e key_trace_append)
qed simp

definition idle_keypad :: "u8 list \<Rightarrow> keypad" where
  "idle_keypad pairs = new_keypad\<lparr>kp_found := True, kp_address := 0x20, kp_calibrated := True, kp_pairs := pairs\<rparr>"

text \<open>C9. Key events are debounced presses: with a valid calibration, whatever the bus
  returns over whatever polls, the events published are presses and releases
  only, a release is always that of the key pressed just before it, no key is
  pressed twice in a row, every press of a key comes from its pair being
  scanned for at least 40 ms with nothing else in between, and every release
  from no pair being scanned for at least 100 ms.\<close>

theorem keys_are_debounced:
  assumes "validate_matrix_shape (kp_pairs kp)" "kp_calibrated kp" "kp_candidate kp = -1" "kp_stable kp = -1"
    and "keypad_run wi ts kp b = (lg, es, kp', b')"
  shows "key_trace (Keypad_raw 0) es \<and>
    (\<forall>c. Key_down c \<in> set es \<longrightarrow> (\<exists>p\<ge>0. pair_to_key (kp_pairs kp) p = c \<and> seen_for lg p 40)) \<and>
    (\<forall>c. Key_up c \<in> set es \<longrightarrow> seen_for lg (-1) 100)"
proof -
  have "tracks (kp_pairs kp) [] (Keypad_raw 0) kp" "distinct (kp_pairs kp)"
    using assms(1-4) by (simp_all add: tracks_def validate_matrix_shape_def candidate_seen_def)
  from tracks_run [OF this assms(5)] show ?thesis
    by (auto simp: evidence_def kp_stable_ms_def kp_release_stable_ms_def)
qed

text \<open>A keypad wired with its rows on the lines 0 to 3 and its columns on 4 to 6, and a
  bus on which one key is held.\<close>

definition straight_pairs :: "u8 list" where
  "straight_pairs = [0x04, 0x05, 0x06, 0x14, 0x15, 0x16, 0x24, 0x25, 0x26, 0x34, 0x35, 0x36]"

definition held_bus :: "nat \<Rightarrow> nat \<Rightarrow> u8 wire_ops" where
  "held_bus i j = \<lparr>wi_begin = (\<lambda>b. b), wi_probe = (\<lambda>b a. (True, b)), wi_write = (\<lambda>b a v. (True, v)),
     wi_request = (\<lambda>b a. (Some (if bit b i \<and> bit b j then b else b AND NOT (push_bit i 1 OR push_bit j 1)), b))\<rparr>"

lemma straight_valid: "validate_matrix_shape straight_pairs"
  by code_simp

lemma held_five:
  "fst (snd (keypad_run (held_bus 1 5) [12, 30, 60] (idle_keypad straight_pairs) 0)) = [Key_down CHR ''5'']"
  by code_simp

theorem keys_are_debounced_witness:
  "\<exists>p\<ge>0. pair_to_key straight_pairs p = CHR ''5'' \<and>
    seen_for (fst (keypad_run (held_bus 1 5) [12, 30, 60] (idle_keypad straight_pairs) 0)) p 40"
proof -
  obtain lg es kp b where r: "keypad_run (held_bus 1 5) [12, 30, 60] (idle_keypad straight_pairs) 0 = (lg, es, kp, b)"
    by (metis prod_cases4)
  have "Key_down CHR ''5'' \<in> set es"
    using held_five r by simp
  moreover have "validate_matrix_shape (kp_pairs (idle_keypad straight_pairs))" "kp_calibrated (idle_keypad straight_pairs)"
      "kp_candidate (idle_keypad straight_pairs) = -1" "kp_stable (idle_keypad straight_pairs) = -1"
    using straight_valid by (simp_all add: idle_keypad_def new_keypad_def)
  ultimately have "\<exists>p\<ge>0. pair_to_key (kp_pairs (idle_keypad straight_pairs)) p = CHR ''5'' \<and> seen_for lg p 40"
    using keys_are_debounced [OF _ _ _ _ r] by blast
  then show ?thesis
    unfolding r by (simp add: idle_keypad_def)
qed

text \<open>A calibration that is refused is nevertheless in use afterwards: the pairs are
  overwritten before they are checked, and a keypad that was calibrated stays
  so.\<close>

lemma refused_calibration_is_used:
  assumes "kp_found kp" "wait_release ss = Some ss1" "cal_keys 0 (replicate 12 0xFF) ss1 = Some ps"
    and "\<not> validate_matrix_shape ps"
  shows "run_calibration nv bo ss kp n = Some (False, kp\<lparr>kp_pairs := ps\<rparr>, n)"
  using assms by (simp add: run_calibration_def Let_def)

text \<open>A calibration that ends records twelve different pairs or is refused.\<close>

lemma accepted_calibration_is_valid:
  assumes "run_calibration nv bo ss kp n = Some (True, kp', n')" "kp_found kp"
  shows "kp_calibrated kp' \<and> validate_matrix_shape (kp_pairs kp')"
  using assms
  by (auto simp: run_calibration_def save_calibration_def Let_def split: option.splits if_splits prod.splits)

text \<open>Sliding from one key to the next releases only the last.\<close>

lemma slide_releases_last_only:
  assumes "kp_calibrated kp" "kp_stable kp = p" "p \<ge> 0" "q \<ge> 0" "p \<noteq> q" "pair_to_key (kp_pairs kp) q \<noteq> CHR 0x00"
  shows "key_edges kp q = ([Key_down (pair_to_key (kp_pairs kp) q)], kp\<lparr>kp_stable := q\<rparr>) \<and>
    fst (key_edges (kp\<lparr>kp_stable := q\<rparr>) (-1)) = [Key_up (pair_to_key (kp_pairs kp) q)]"
  using assms by (simp add: key_edges_def Let_def)

end
