(* ===== verification/Ui_Sync.thy ===== *)
theory Ui_Sync
  imports Kiosk_Durable
begin

text \<open>
  The UI bundle update in the background: \<^verbatim>\<open>UiSyncController\<close>
  (runtime/ui_sync_controller.h, .cpp) over the kiosk, which carries its requests and
  results, and the bundle store.  SHA-256 is an argument, as in the store.
\<close>

section \<open>State and operations\<close>

record ui_sync =
  uy_in_flight :: bool
  uy_pending_version :: u32
  uy_last_desired_version :: u32

definition new_ui_sync :: ui_sync where
  "new_ui_sync = \<lparr>uy_in_flight = False, uy_pending_version = 0, uy_last_desired_version = 0\<rparr>"

definition upd_ui :: "(ui_store \<Rightarrow> ui_store) \<Rightarrow> ('d, 'n) kiosk \<Rightarrow> ('d, 'n) kiosk" where
  "upd_ui f k = k\<lparr>k_ui := f (k_ui k)\<rparr>"

definition set_sync_state :: "ui_sync_state \<Rightarrow> ui_store \<Rightarrow> ui_store" where
  "set_sync_state s st = st\<lparr>us_sync_state := s\<rparr>"

definition bundle_url :: "string \<Rightarrow> u32 \<Rightarrow> string" where
  "bundle_url base version = base @ ''/'' @ dec (unat version)"

definition ui_check_desired ::
  "string \<Rightarrow> u32 \<Rightarrow> string \<Rightarrow> ui_sync \<times> ('d, 'n) kiosk \<Rightarrow> ui_sync \<times> ('d, 'n) kiosk" where
  "ui_check_desired base_events_url desired_version desired_hash = (\<lambda>(uy0, k).
     (let uy = uy0\<lparr>uy_last_desired_version := desired_version\<rparr> in
      if uy_in_flight uy then (uy, k)
      else if \<not> ui_bundle_needs_sync (us_active_version (k_ui k)) (us_active_hash (k_ui k)) desired_version desired_hash
      then (uy, k)
      else
      let k1 = upd_ui (set_sync_state SY_UPDATE_AVAILABLE) k;
          base = derive_sibling_endpoint base_events_url ''ui-bundles'' in
      if base = [] then (uy, k1)
      else
      let (started, k2) = kiosk_enqueue_ui_bundle_fetch (bundle_url base desired_version)
            (upd_ui (set_sync_state SY_DOWNLOADING) k1) in
      (uy\<lparr>uy_pending_version := desired_version, uy_in_flight := started\<rparr>, k2)))"

definition declared_hash :: "string \<Rightarrow> string" where
  "declared_hash body = json_extract_string (json_extract_object body ''manifest'') ''sha256'' []"

text \<open>The store works on the disk and the preferences the kiosk holds.\<close>

definition install_bundle ::
  "('d, 'n) platform \<Rightarrow> (string \<Rightarrow> bytes) \<Rightarrow> string \<Rightarrow> u32 \<Rightarrow> ('d, 'n) kiosk \<Rightarrow> bool \<times> ('d, 'n) kiosk" where
  "install_bundle p sha body version k =
     (let (r, st, d, n) = stage (pf_fs p) (pf_nv p) sha body version (declared_hash body)
            (k_ui k, ej_disk (k_journal k), k_nvs k);
          (ok, st', d', n') = (if r = STAGE_OK then activate_staged (pf_fs p) (pf_nv p) (st, d, n) else (False, st, d, n)) in
      (ok, k\<lparr>k_ui := st', k_journal := (k_journal k)\<lparr>ej_disk := d'\<rparr>, k_seq := (k_seq k)\<lparr>dq_nvs := n'\<rparr>\<rparr>))"

definition ui_sync_poll ::
  "('d, 'n) platform \<Rightarrow> (string \<Rightarrow> bytes) \<Rightarrow> ui_sync \<times> ('d, 'n) kiosk \<Rightarrow> bool \<times> ui_sync \<times> ('d, 'n) kiosk" where
  "ui_sync_poll p sha = (\<lambda>(uy, k0).
     (let (result, k) = take_ui_bundle_fetch_result k0 in
      case result of
        None \<Rightarrow> (False, uy, k)
      | Some r \<Rightarrow>
          (let uy1 = uy\<lparr>uy_in_flight := False\<rparr> in
           if \<not> ho_ok (nr_outcome r) \<or> nr_response_body r = []
           then (False, uy1, upd_ui (set_sync_state SY_UPDATE_FAILED) k)
           else
           let (activated, k1) = install_bundle p sha (nr_response_body r) (uy_pending_version uy1) k in
           (activated, uy1, k1))))"

section \<open>What is installed\<close>

lemma one_u32: "x \<noteq> 0 \<Longrightarrow> x \<le> 1 \<Longrightarrow> x = (1 :: u32)"
  by uint_arith

lemma stage_verified:
  assumes "stage ops nv sha raw version expected (st, d, n) = (STAGE_OK, st', d', n')"
  shows "(expected = [] \<or> to_lower (sha256_hex sha raw) = to_lower expected) \<and>
    (\<exists>b. parse_ui_bundle_json raw = Some b \<and> um_schema_version (ub_manifest b) = 1)"
  using assms
  by (auto simp: stage_def ui_schema_supported_min_def ui_schema_supported_max_def Let_def not_less
      split: if_splits option.splits prod.splits intro: one_u32)

lemma poll_activates:
  assumes "ui_sync_poll p sha (uy, k) = (True, uy', k')"
  obtains r st1 d1 n1 st2 d2 n2
  where "st_ui_bundle (k_stash k) = Some r" "ho_ok (nr_outcome r)" "nr_response_body r \<noteq> []"
    "stage (pf_fs p) (pf_nv p) sha (nr_response_body r) (uy_pending_version uy) (declared_hash (nr_response_body r))
       (k_ui k, ej_disk (k_journal k), k_nvs k) = (STAGE_OK, st1, d1, n1)"
    "activate_staged (pf_fs p) (pf_nv p) (st1, d1, n1) = (True, st2, d2, n2)"
    "k_ui k' = st2" "ej_disk (k_journal k') = d2" "k_nvs k' = n2" "\<not> uy_in_flight uy'"
proof -
  obtain r where r: "st_ui_bundle (k_stash k) = Some r" "ho_ok (nr_outcome r)" "nr_response_body r \<noteq> []"
    using assms by (auto simp: ui_sync_poll_def take_ui_bundle_fetch_result_def Let_def split: option.splits if_splits)
  obtain q st1 d1 n1 where s: "stage (pf_fs p) (pf_nv p) sha (nr_response_body r) (uy_pending_version uy)
      (declared_hash (nr_response_body r)) (k_ui k, ej_disk (k_journal k), k_nvs k) = (q, st1, d1, n1)"
    using prod_cases4 by blast
  obtain ok st2 d2 n2 where a: "activate_staged (pf_fs p) (pf_nv p) (st1, d1, n1) = (ok, st2, d2, n2)"
    using prod_cases4 by blast
  have "q = STAGE_OK \<and> ok \<and> k_ui k' = st2 \<and> ej_disk (k_journal k') = d2 \<and> k_nvs k' = n2 \<and> \<not> uy_in_flight uy'"
    using assms r s a
    by (cases "q = STAGE_OK") (auto simp: ui_sync_poll_def take_ui_bundle_fetch_result_def install_bundle_def k_nvs_def Let_def)
  then show thesis
    using that [OF r, of st1 d1 n1 st2 d2 n2] s a by simp
qed

text \<open>C14. When a poll reports a new bundle, it is the body of the answer to the
  request, whole: it parses, has the supported schema and matches the hash it
  declares, if it declares one; it is what is shown now and what the next boot
  loads, under the version asked for and its own SHA-256, and a new request can
  be made.\<close>

theorem ui_update_verified:
  assumes "spiffs (pf_fs p) files" "nvs (pf_nv p) vals" "readable (pf_fs p) files"
    and "slot_synced (k_ui k) (vals (k_nvs k))"
    and "st_ui_bundle (k_stash k) = Some r" "CHR 0x00 \<notin> set (nr_response_body r)"
    and "ui_sync_poll p sha (uy, k) = (True, uy', k')"
  shows "\<exists>b. ho_ok (nr_outcome r) \<and>
    parse_ui_bundle_json (nr_response_body r) = Some b \<and> um_schema_version (ub_manifest b) = 1 \<and>
    (declared_hash (nr_response_body r) = [] \<or>
       to_lower (sha256_hex sha (nr_response_body r)) = to_lower (declared_hash (nr_response_body r))) \<and>
    loaded (k_ui k') = Some (uy_pending_version uy, sha256_hex sha (nr_response_body r), b) \<and>
    boot_bundle (files (ej_disk (k_journal k'))) (vals (k_nvs k')) = loaded (k_ui k') \<and>
    slot_synced (k_ui k') (vals (k_nvs k')) \<and> \<not> uy_in_flight uy'"
  using assms(7)
proof (rule poll_activates)
  fix r' st1 d1 n1 st2 d2 n2
  assume r: "st_ui_bundle (k_stash k) = Some r'" "ho_ok (nr_outcome r')"
    and s: "stage (pf_fs p) (pf_nv p) sha (nr_response_body r') (uy_pending_version uy) (declared_hash (nr_response_body r'))
      (k_ui k, ej_disk (k_journal k), k_nvs k) = (STAGE_OK, st1, d1, n1)"
    and a: "activate_staged (pf_fs p) (pf_nv p) (st1, d1, n1) = (True, st2, d2, n2)"
    and k': "k_ui k' = st2" "ej_disk (k_journal k') = d2" "k_nvs k' = n2" "\<not> uy_in_flight uy'"
  have e: "r' = r"
    using r(1) assms(5) by simp
  note u = bundle_storage.update_atomic [OF bundle_storage.intro, OF assms(1,2,4,6) s [unfolded e] a]
  show ?thesis
    using u stage_verified [OF s] r(2) k' assms(3) e by auto
qed

lemma ram_write_file: "fst (write_spiffs_file (ram_ops True) q s d)"
  by (simp add: write_spiffs_file_def ram_ops_def rd_open_def rd_modify_def bytes_of_def Let_def)

lemma ram_write_meta: "h \<noteq> [] \<Longrightarrow> fst (write_meta (ram_nvs_ops True) c v h u n)"
  by (simp add: write_meta_def ram_nvs_ops_def rn_put_def)

lemma ram_stage:
  assumes "parse_ui_bundle_json raw = Some b" "um_schema_version (ub_manifest b) = 1" "sha raw \<noteq> []"
  shows "fst (stage (ram_ops True) (ram_nvs_ops True) sha raw v [] (st, d, n)) = STAGE_OK"
proof -
  have h: "sha256_hex sha raw \<noteq> []"
    using assms(3) by (cases "sha raw") (simp_all add: sha256_hex_def)
  show ?thesis
    using assms(1,2)
    by (simp add: stage_def Let_def split_beta ram_write_file ram_write_meta [OF h] ui_schema_supported_min_def
        ui_schema_supported_max_def)
qed

lemma ram_activate: "us_staged st \<Longrightarrow> fst (activate_staged (ram_ops True) (ram_nvs_ops True) (st, d, n))"
  by (simp add: activate_staged_def ram_nvs_ops_def rn_put_def Let_def split_beta)

definition fetched_kiosk :: "(ram_disk, ram_nvs) kiosk" where
  "fetched_kiosk = (ready_kiosk WAIT_EMPLOYEE)\<lparr>k_stash := \<lparr>st_bootstrap = None, st_ui_bundle = Some
     (new_result\<lparr>nr_kind := UI_BUNDLE_FETCH, nr_outcome := wifi_down_outcome\<lparr>ho_ok := True\<rparr>,
        nr_response_body := sample_bundle\<rparr>)\<rparr>\<rparr>"

lemma sample_declares_nothing: "declared_hash sample_bundle = []"
  by code_simp

lemma fetched_activates:
  "fst (ui_sync_poll ram_platform (\<lambda>s. [171]) (new_ui_sync\<lparr>uy_pending_version := 2\<rparr>, fetched_kiosk))"
proof -
  obtain b where b: "parse_ui_bundle_json sample_bundle = Some b" "um_schema_version (ub_manifest b) = 1"
    using sample_bundle_parses by auto
  let ?s = "stage (ram_ops True) (ram_nvs_ops True) (\<lambda>s. [171]) sample_bundle 2 []
      (k_ui fetched_kiosk, ej_disk (k_journal fetched_kiosk), k_nvs fetched_kiosk)"
  obtain st d n where s: "?s = (STAGE_OK, st, d, n)"
    using ram_stage [OF b, of "\<lambda>s. [171]"] by (metis list.distinct(1) prod_cases4 fst_conv)
  have "us_staged st"
    using bundle_storage.stage_spec(5) [OF bundle_storage_ram s] by simp
  then obtain st' d' n' where a: "activate_staged (ram_ops True) (ram_nvs_ops True) (st, d, n) = (True, st', d', n')"
    using ram_activate by (metis prod_cases4 fst_conv)
  have "sample_bundle \<noteq> []"
    by (simp add: sample_bundle_def)
  then show ?thesis
    using s a
    by (simp add: ui_sync_poll_def take_ui_bundle_fetch_result_def fetched_kiosk_def install_bundle_def
        sample_declares_nothing ram_platform_def new_ui_sync_def k_nvs_def Let_def)
qed

definition updated_kiosk :: "(ram_disk, ram_nvs) kiosk" where
  "updated_kiosk = snd (snd (ui_sync_poll ram_platform (\<lambda>s. [171])
     (new_ui_sync\<lparr>uy_pending_version := 2\<rparr>, fetched_kiosk)))"

theorem ui_update_verified_witness:
  "\<exists>b. loaded (k_ui updated_kiosk) = Some (2, sha256_hex (\<lambda>s. [171]) sample_bundle, b) \<and>
     boot_bundle (rd_files (ej_disk (k_journal updated_kiosk))) (rn_vals (k_nvs updated_kiosk)) = loaded (k_ui updated_kiosk)"
proof -
  obtain uy' where p: "ui_sync_poll ram_platform (\<lambda>s. [171]) (new_ui_sync\<lparr>uy_pending_version := 2\<rparr>, fetched_kiosk)
      = (True, uy', updated_kiosk)"
    using fetched_activates unfolding updated_kiosk_def by (metis prod.collapse)
  have r: "readable (pf_fs ram_platform) rd_files"
    by (simp add: readable_def ram_platform_def ram_ops_def rd_open_def)
  have st: "st_ui_bundle (k_stash fetched_kiosk) = Some (new_result\<lparr>nr_kind := UI_BUNDLE_FETCH,
      nr_outcome := wifi_down_outcome\<lparr>ho_ok := True\<rparr>, nr_response_body := sample_bundle\<rparr>)"
    by (simp add: fetched_kiosk_def)
  have sl: "slot_synced (k_ui fetched_kiosk) (rn_vals (k_nvs fetched_kiosk))"
    by (simp add: fetched_kiosk_def ready_kiosk_def new_kiosk_def k_nvs_def slot_synced_def boot_slot_def nvs_string_def
        ram_prefs_def ui_namespace_def identity_namespace_def config_namespace_def)
  have l: "spiffs (pf_fs ram_platform) rd_files" "nvs (pf_nv ram_platform) rn_vals"
    using spiffs_ram nvs_ram by (simp_all add: ram_platform_def)
  show ?thesis
    using ui_update_verified [OF l r sl st _ p] sample_bundle_no_nul by (simp add: new_ui_sync_def) blast
qed

section \<open>What the update does not check, and how it stops\<close>

text \<open>The hash that the server asked for is not kept: without a declared hash no body
  is refused for its hash.  The hash is over the whole body, the declaration
  included.\<close>

lemma undeclared_hash_unchecked:
  "declared_hash body = [] \<Longrightarrow>
   fst (stage ops nv sha body v (declared_hash body) (st, d, n)) \<noteq> STAGE_HASH_MISMATCH"
  by (simp add: stage_def Let_def split: option.split prod.split)

lemma in_flight_blocks:
  "uy_in_flight uy \<Longrightarrow> ui_check_desired u v h (uy, k) = (uy\<lparr>uy_last_desired_version := v\<rparr>, k)"
  by (simp add: ui_check_desired_def)

lemma only_results_end_flight:
  "st_ui_bundle (k_stash k) = None \<Longrightarrow> fst (snd (ui_sync_poll p sha (uy, k))) = uy"
  by (simp add: ui_sync_poll_def take_ui_bundle_fetch_result_def)

text \<open>A request that is queued asks for the version wanted, under the sibling of the events
  endpoint; one that is not queued can be made again at the next check.\<close>

lemma check_asks_for_desired:
  assumes "\<not> uy_in_flight uy" "derive_sibling_endpoint u ''ui-bundles'' \<noteq> []"
    and "ui_bundle_needs_sync (us_active_version (k_ui k)) (us_active_hash (k_ui k)) v h"
    and "ui_check_desired u v h (uy, k) = (uy', k')"
  shows "uy_pending_version uy' = v \<and> uy_in_flight uy' = (length (nw_low (k_net k)) < 2) \<and>
    nw_low (k_net k') = nw_low (k_net k) @
      (if uy_in_flight uy'
       then [(new_request UI_BUNDLE_FETCH)\<lparr>nq_url := buffer max_queued_url_bytes
              (bundle_url (derive_sibling_endpoint u ''ui-bundles'') v)\<rparr>]
       else [])"
  using assms
  by (cases "length (nw_low (k_net k)) < 2")
    (auto simp: ui_check_desired_def kiosk_enqueue_ui_bundle_fetch_def enqueue_ui_bundle_fetch_def enqueue_def upd_ui_def
      low_queue_depth_def Let_def)

end
