(* ===== verification/Status_Report.thy ===== *)
theory Status_Report
  imports Kiosk_Durable Keypad Wifi_Station
begin

text \<open>
  The status report (runtime/status_snapshot.cpp), the figures it takes from the
  board (runtime/boot_diagnostics.cpp) and the heartbeat that sends it
  (network/heartbeat_client.cpp).  What the board reports (heap, signal, reset
  cause) and what the build injects (build id, profile) are arguments.  The report
  is one JSON text; the worker that carries it has a body buffer of fixed size.
\<close>

section \<open>The board\<close>

record board_reading =
  bd_wifi_up :: bool
  bd_ssid :: string
  bd_rssi :: int
  bd_ip :: string
  bd_free_heap :: u32
  bd_largest_block :: u32
  bd_psram_free :: u32

record build_info =
  bi_build_id :: string
  bi_profile :: string

record self_test =
  se_display_ok :: bool
  se_scanner_ok :: bool
  se_keypad_ok :: bool

datatype reset_cause =
  RST_UNKNOWN | RST_POWERON | RST_EXT | RST_SW | RST_PANIC | RST_INT_WDT | RST_TASK_WDT | RST_WDT | RST_DEEPSLEEP
  | RST_BROWNOUT | RST_SDIO | RST_OTHER

definition reset_reason_to_string :: "reset_cause \<Rightarrow> string" where
  "reset_reason_to_string r =
     (case r of
        RST_UNKNOWN \<Rightarrow> ''UNKNOWN'' | RST_POWERON \<Rightarrow> ''POWERON'' | RST_EXT \<Rightarrow> ''EXT'' | RST_SW \<Rightarrow> ''SW''
      | RST_PANIC \<Rightarrow> ''PANIC'' | RST_INT_WDT \<Rightarrow> ''INT_WDT'' | RST_TASK_WDT \<Rightarrow> ''TASK_WDT'' | RST_WDT \<Rightarrow> ''WDT''
      | RST_DEEPSLEEP \<Rightarrow> ''DEEPSLEEP'' | RST_BROWNOUT \<Rightarrow> ''BROWNOUT'' | RST_SDIO \<Rightarrow> ''SDIO'' | RST_OTHER \<Rightarrow> ''OTHER'')"

definition kiosk_runtime_version :: string where
  "kiosk_runtime_version = ''0.16.0''"

record boot_diagnostics =
  di_chip_model :: string
  di_chip_cores :: int
  di_flash_mb :: u32
  di_psram_total :: u32
  di_psram_free :: u32
  di_free_heap :: u32
  di_largest_block :: u32
  di_reset_reason :: string
  di_fw_version :: string
  di_build_id :: string
  di_boot_id :: string

definition refresh_memory_fields :: "board_reading \<Rightarrow> boot_diagnostics \<Rightarrow> boot_diagnostics" where
  "refresh_memory_fields bd d =
     d\<lparr>di_free_heap := bd_free_heap bd, di_largest_block := bd_largest_block bd, di_psram_free := bd_psram_free bd\<rparr>"

definition collect_boot_diagnostics ::
  "string \<Rightarrow> int \<Rightarrow> u32 \<Rightarrow> u32 \<Rightarrow> reset_cause \<Rightarrow> build_info \<Rightarrow> board_reading \<Rightarrow> string \<Rightarrow> boot_diagnostics" where
  "collect_boot_diagnostics chip cores flash_bytes psram_total cause bi bd boot_id =
     refresh_memory_fields bd
       \<lparr>di_chip_model = chip, di_chip_cores = cores, di_flash_mb = flash_bytes div (1024 * 1024),
        di_psram_total = psram_total, di_psram_free = 0, di_free_heap = 0, di_largest_block = 0,
        di_reset_reason = reset_reason_to_string cause, di_fw_version = kiosk_runtime_version,
        di_build_id = bi_build_id bi, di_boot_id = boot_id\<rparr>"

definition target_psram_free_pct_min :: u32 where
  "target_psram_free_pct_min = 25"

definition is_psram_headroom_low :: "boot_diagnostics \<Rightarrow> bool" where
  "is_psram_headroom_low d =
     (if di_psram_total d = 0 then False
      else (di_psram_free d * 100) div di_psram_total d < target_psram_free_pct_min)"

text \<open>The product has 32 bits: with enough memory free the percentage is that of a
  wrapped number.\<close>

lemma psram_headroom_exact:
  assumes "unat (di_psram_free d) * 100 < 2 ^ 32" "di_psram_total d \<noteq> 0"
  shows "is_psram_headroom_low d \<longleftrightarrow> unat (di_psram_free d) * 100 div unat (di_psram_total d) < 25"
proof -
  have "unat (di_psram_free d * 100) = unat (di_psram_free d) * 100"
    using assms(1) by (simp add: unat_word_ariths)
  then show ?thesis
    using assms(2) by (simp add: is_psram_headroom_low_def target_psram_free_pct_min_def word_less_nat_alt unat_div)
qed

section \<open>Pieces of text\<close>

definition num :: "'a::len word \<Rightarrow> string" where
  "num x = dec (unat x)"

definition jbool :: "bool \<Rightarrow> string" where
  "jbool b = (if b then ''true'' else ''false'')"

text \<open>A string the code writes between quotes without escaping it.\<close>

definition jraw :: "string \<Rightarrow> string" where
  "jraw s = dq # s @ [dq]"

definition jopt :: "string \<Rightarrow> string" where
  "jopt s = (if s = [] then ''null'' else jstr s)"

text \<open>\<^verbatim>\<open>%.2f\<close>: to hundredths, ties to even.  The percentage is a double that is exact,
  as the sketch makes the capacity a power of two.\<close>

definition round_even :: "rat \<Rightarrow> int" where
  "round_even q =
     (let f = \<lfloor>q\<rfloor>; r = q - of_int f in
      if r < 1 / 2 then f else if 1 / 2 < r then f + 1 else if even f then f else f + 1)"

definition fixed2 :: "rat \<Rightarrow> string" where
  "fixed2 q =
     (let n = nat (round_even (100 * q)) in
      dec (n div 100) @ ''.'' @ [digit_char (n mod 100 div 10), digit_char (n mod 10)])"

fun comma_sep :: "string list \<Rightarrow> string" where
  "comma_sep [] = []"
| "comma_sep (x # xs) = x @ concat (map (\<lambda>y. CHR '','' # y) xs)"

section \<open>The report\<close>

definition status_identity ::
  "build_info \<Rightarrow> u32 \<Rightarrow> provisioning_state \<Rightarrow> ('d, 'n) kiosk \<Rightarrow> string" where
  "status_identity bi now prov k =
     jkey ''device_id'' @ jstr (c_str (k_device_id k)) @ '','' @
     jkey ''hardware_id'' @ jstr (c_str (k_hardware_id k)) @ '','' @
     jkey ''boot_id'' @ jstr (c_str (k_boot_id k)) @ '','' @
     jkey ''provisioning_state'' @ jraw (provisioning_state_to_string prov) @ '','' @
     jkey ''firmware_version'' @ jraw kiosk_runtime_version @ '','' @
     jkey ''build_id'' @ jraw (bi_build_id bi) @ '','' @
     jkey ''profile'' @ jraw (bi_profile bi) @ '','' @
     jkey ''uptime_ms'' @ num now @ '',''"

definition status_network :: "board_reading \<Rightarrow> wifi_manager \<Rightarrow> ('d, 'n) kiosk \<Rightarrow> string" where
  "status_network bd w k =
     jkey ''network'' @ ''{'' @ jkey ''wifi_connected'' @ jbool (bd_wifi_up bd) @ '','' @
     jkey ''ssid'' @ jstr (c_str (bd_ssid bd)) @ '','' @
     jkey ''rssi'' @ dec_int (if bd_wifi_up bd then bd_rssi bd else 0) @ '','' @
     jkey ''ip'' @ jraw (bd_ip bd) @ '','' @
     jkey ''backend_reachable'' @
       (if rq_has_scanned (k_requests k) then jbool (rq_backend_ok (k_requests k)) else ''null'') @ '','' @
     jkey ''network_state'' @ jraw (network_state_to_string (kiosk_network_state k)) @ '','' @
     jkey ''reconnect_count'' @ num (wm_reconnect_count w) @ ''},''"

definition status_memory :: "boot_diagnostics \<Rightarrow> string" where
  "status_memory d =
     jkey ''memory'' @ ''{'' @ jkey ''heap_free'' @ num (di_free_heap d) @ '','' @
     jkey ''largest_heap_block'' @ num (di_largest_block d) @ '','' @ jkey ''psram_free'' @ num (di_psram_free d) @ ''},''"

definition status_hardware :: "self_test \<Rightarrow> keypad \<Rightarrow> string" where
  "status_hardware st kp =
     jkey ''hardware'' @ ''{'' @ jkey ''display'' @ jraw (if se_display_ok st then ''OK'' else ''FAIL'') @ '','' @
     jkey ''scanner'' @ jraw (if se_scanner_ok st then ''OK'' else ''FAIL'') @ '','' @
     jkey ''keypad'' @ jraw (if \<not> kp_found kp then ''NOT_FOUND'' else if kp_calibrated kp then ''OK'' else ''UNCALIBRATED'') @
     ''},''"

definition status_input :: "('d, 'n) kiosk \<Rightarrow> string" where
  "status_input k =
     jkey ''input'' @ ''{'' @ jkey ''last_key'' @ jstr (c_str [k_last_key k]) @ '','' @
     jkey ''last_scan'' @ (if k_last_scan k = [] then ''null'' else jstr (c_str (k_last_scan k))) @ ''},''"

definition status_protocol :: "bootstrap_result \<Rightarrow> ('d, 'n) kiosk \<Rightarrow> string" where
  "status_protocol br k =
     jkey ''protocol'' @ ''{'' @ jkey ''protocol_version'' @ ''1,'' @
     jkey ''device_seq'' @ num (device_sequence_current (k_seq k)) @ '','' @
     jkey ''last_event_id'' @ jstr (c_str (rq_event_id (k_requests k))) @ '','' @
     jkey ''last_event_type'' @ jraw (event_type_to_string (rq_event_type (k_requests k))) @ '','' @
     jkey ''last_http_status'' @ dec_int (rq_http_status (k_requests k)) @ '','' @
     jkey ''last_latency_ms'' @ num (rq_latency_ms (k_requests k)) @ '','' @
     jkey ''last_error'' @ jopt (c_str (rq_error_code (k_requests k))) @ '','' @
     jkey ''retry_count'' @ dec_int (rq_retry_count (k_requests k)) @ '','' @
     jkey ''bootstrap'' @ ''{'' @ jkey ''status'' @ jraw (bootstrap_status_to_string (br_status br)) @ '','' @
     jkey ''last_ok_uptime_ms'' @ num (br_last_ok_uptime_ms br) @ ''}},''"

definition status_server :: "('d, 'n) platform \<Rightarrow> ('d, 'n) kiosk \<Rightarrow> string" where
  "status_server p k =
     jkey ''server'' @ ''{'' @ jkey ''environment'' @ jraw (environment_to_string (se_environment (k_server k))) @ '','' @
     jkey ''version'' @ jstr (c_str (se_version (k_server k))) @ '','' @
     jkey ''expected_environment'' @ jstr (c_str (config_expected_environment (pf_nv p) (k_nvs k))) @ '','' @
     jkey ''mismatch'' @ jbool (se_mismatch (k_server k)) @ '','' @
     jkey ''last_sync'' @ (if se_last_sync_iso (k_server k) = [] then ''null'' else jstr (c_str (se_last_sync_iso (k_server k)))) @ '','' @
     jkey ''offline_queue'' @ num (offline_queue_size k) @ ''},''"

definition view_fields :: "view_model \<Rightarrow> string list" where
  "view_fields v =
     (if vm_has_employee_name v then [jkey ''employee_name'' @ jstr (vm_employee_name v)] else []) @
     (if vm_has_operation_code v then [jkey ''operation_code'' @ jstr (vm_operation_code v)] else []) @
     (if vm_has_operation_name v then [jkey ''operation_name'' @ jstr (vm_operation_name v)] else []) @
     (if vm_has_session_id v then [jkey ''session_id'' @ jstr (vm_session_id v)] else []) @
     (if vm_has_started_at v then [jkey ''started_at'' @ jstr (vm_started_at v)] else []) @
     (if vm_has_target_qty v then [jkey ''target_qty'' @ dec_int (sint (vm_target_qty v))] else []) @
     (if vm_has_produced_qty v then [jkey ''produced_qty'' @ dec_int (sint (vm_produced_qty v))] else [])"

definition status_state :: "('d, 'n) kiosk \<Rightarrow> string" where
  "status_state k =
     jkey ''state'' @ ''{'' @
     (if sp_has_snapshot (k_projection k) then
        (let s = sp_current (k_projection k) in
         jkey ''business'' @ jraw (business_state_to_string (ss_state s)) @ '','' @
         jkey ''state_version'' @ num (ss_state_version s) @ '','' @
         jkey ''workflow_version'' @ num (ss_workflow_version s) @ '','' @
         jkey ''resyncing'' @ jbool (k_resyncing k) @ '','' @
         jkey ''finish_result_hold_active'' @ jbool (pv_hold_active (k_view k)) @ '','' @
         jkey ''last_server_seq'' @ dec_int (k_last_server_seq k) @ '','' @
         jkey ''source'' @ jraw (if k_resyncing k then ''RESYNC_PENDING'' else ''SERVER'') @ '','' @
         jkey ''view'' @ ''{'' @ comma_sep (view_fields (ss_view s)) @ ''},'' @
         jkey ''local_quantity_buffer'' @ jstr (c_str (qf_buffer (k_quantity k))))
      else
        jkey ''business'' @ ''null,'' @ jkey ''state_version'' @ ''null,'' @ jkey ''workflow_version'' @ ''null,'' @
        jkey ''resyncing'' @ ''false,'' @ jkey ''last_server_seq'' @ dec_int (k_last_server_seq k) @ '','' @
        jkey ''source'' @ jraw ''NONE_YET'' @ '','' @ jkey ''view'' @ ''{},'' @ jkey ''local_quantity_buffer'' @ jraw []) @
     ''},''"

definition status_time :: "u32 \<Rightarrow> ('d, 'n) kiosk \<Rightarrow> string" where
  "status_time now k =
     jkey ''time'' @ ''{'' @ jkey ''sync_status'' @ jraw (time_sync_status_to_string (ts_status (k_time k))) @ '','' @
     jkey ''sync_age_s'' @ num (sync_age_s now (k_time k)) @ ''},''"

definition status_security :: "build_info \<Rightarrow> provisioning_state \<Rightarrow> string" where
  "status_security bi prov =
     jkey ''security'' @ ''{'' @ jkey ''profile'' @ jraw (bi_profile bi) @ '','' @
     jkey ''provisioning_state'' @ jraw (provisioning_state_to_string prov) @ '','' @
     jkey ''mtls'' @ jraw ''DESIGNED_NOT_ENABLED'' @ '','' @ jkey ''server_ca_loaded'' @ ''false,'' @
     jkey ''client_cert_loaded'' @ ''false,'' @ jkey ''certificate_status'' @ jraw ''NONE'' @ ''},''"

definition pressure_name :: "journal_pressure \<Rightarrow> string" where
  "pressure_name p =
     (case p of PRESSURE_NORMAL \<Rightarrow> ''NORMAL'' | PRESSURE_WARNING \<Rightarrow> ''WARNING'' | PRESSURE_RESTRICTED \<Rightarrow> ''RESTRICTED''
      | PRESSURE_FULL \<Rightarrow> ''FULL'')"

definition status_journal :: "u32 \<Rightarrow> 'd event_journal \<Rightarrow> string" where
  "status_journal now ej =
     (let idx = ej_index ej; c = index_counts idx; age = oldest_pending_age_ms idx now;
          cap = ji_capacity_bytes idx; used = ji_used_bytes idx in
      jkey ''journal'' @ ''{'' @ jkey ''init_ok'' @ jbool (ej_init_ok ej) @ '','' @
      jkey ''capacity_bytes'' @ num cap @ '','' @ jkey ''used_bytes'' @ num used @ '','' @
      jkey ''free_bytes'' @ num (if cap > used then cap - used else 0) @ '','' @
      jkey ''usage_pct'' @ fixed2 (usage_pct idx) @ '','' @
      jkey ''pressure'' @ jraw (pressure_name (index_pressure idx)) @ '','' @
      jkey ''records'' @ num (record_count idx) @ '','' @ jkey ''pending'' @ num (jc_pending c) @ '','' @
      jkey ''inflight'' @ num (jc_in_flight c) @ '','' @ jkey ''acked'' @ num (jc_acked c) @ '','' @
      jkey ''rejected'' @ num (jc_rejected c) @ '','' @ jkey ''conflicts'' @ num (jc_conflict c) @ '','' @
      jkey ''human_review'' @ num (jc_human_review c) @ '','' @
      jkey ''oldest_pending_age_s'' @ (if age = 0xFFFFFFFF then ''null'' else num (age div 1000)) @ '','' @
      jkey ''compaction_active'' @ jbool (ej_compaction_active ej) @ '','' @
      jkey ''compaction_records_processed'' @ num (of_nat (ej_compaction_write_index ej) :: u32) @ '','' @
      jkey ''compaction_records_total'' @ num (of_nat (length (ej_compaction_keep ej)) :: u32) @ '','' @
      jkey ''compaction_last_progress_ms'' @ num (ej_compaction_last_progress_ms ej) @ ''},'')"

definition recovery_entry :: "recovery_event \<Rightarrow> string" where
  "recovery_entry e =
     ''{'' @ jkey ''code'' @ jraw (recovery_code_to_string (rv_code e)) @ '','' @
     jkey ''detail'' @ jstr (rv_detail e) @ '','' @ jkey ''uptime_ms'' @ num (rv_uptime_ms e) @ '','' @
     jkey ''journal_pressure'' @ num (rv_journal_pressure e) @ '','' @
     jkey ''memory_free_bytes'' @ num (rv_memory_free e) @ '','' @
     jkey ''memory_largest_block_bytes'' @ num (rv_memory_largest e) @ ''}''"

definition status_recovery :: "string \<Rightarrow> recovery_state \<Rightarrow> string" where
  "status_recovery reason rc =
     jkey ''recovery'' @ ''{'' @ jkey ''reset_reason'' @ jstr (c_str reason) @ '','' @
     jkey ''safe_mode'' @ jbool (rc_safe_mode rc) @ '','' @
     jkey ''same_fault_streak'' @ num (rc_same_fault_streak rc) @ '','' @
     jkey ''history'' @ ''['' @
     comma_sep (map (\<lambda>i. recovery_entry (recovery_history_at rc i)) [0..<rc_history_count rc]) @ '']}''"

definition build_status_json ::
  "build_info \<Rightarrow> board_reading \<Rightarrow> u32 \<Rightarrow> self_test \<Rightarrow> keypad \<Rightarrow> bootstrap_result \<Rightarrow> wifi_manager \<Rightarrow> ('d, 'n) platform \<Rightarrow>
    boot_diagnostics \<times> ('d, 'n) kiosk \<Rightarrow> string \<times> boot_diagnostics" where
  "build_status_json bi bd now st kp br w p = (\<lambda>(d0, k).
     (let d = refresh_memory_fields bd d0; prov = identity_state (pf_nv p) (k_nvs k) in
      (''{'' @ status_identity bi now prov k @ status_network bd w k @ status_memory d @ status_hardware st kp @
       status_input k @ status_protocol br k @ status_server p k @ status_state k @ status_time now k @
       status_security bi prov @ status_journal now (k_journal k) @ status_recovery (di_reset_reason d) (k_recovery k) @
       ''}'', d)))"

section \<open>The heartbeat\<close>

definition heartbeat_interval_ms :: u32 where
  "heartbeat_interval_ms = 20000"

text \<open>The state of the client is the time of its last attempt; the report is only built
  when it is sent.\<close>

definition heartbeat_poll ::
  "u32 \<Rightarrow> bool \<Rightarrow> string \<Rightarrow> (boot_diagnostics \<times> ('d, 'n) kiosk \<Rightarrow> string \<times> boot_diagnostics) \<Rightarrow>
    u32 \<times> boot_diagnostics \<times> ('d, 'n) kiosk \<Rightarrow> u32 \<times> boot_diagnostics \<times> ('d, 'n) kiosk" where
  "heartbeat_poll now up backend_url report = (\<lambda>(last_attempt, d, k).
     (if now - last_attempt < heartbeat_interval_ms then (last_attempt, d, k)
      else if \<not> up \<or> backend_url = [] then (now, d, k)
      else if high_priority_busy (k_net k) then (now, d, k)
      else
      let url = derive_sibling_endpoint backend_url ''heartbeat'';
          (body, d1) = report (d, k);
          (enqueued, w) = enqueue_heartbeat url body (k_net k) in
      (now, d1, k\<lparr>k_net := w\<rparr>)))"

lemma heartbeat_paced:
  "now - t < heartbeat_interval_ms \<Longrightarrow> heartbeat_poll now up u report (t, d, k) = (t, d, k)"
  by (simp add: heartbeat_poll_def)

text \<open>A heartbeat only ever adds its own request to the low tier, and only while no
  foreground request waits.\<close>

lemma heartbeat_yields:
  assumes "heartbeat_poll now up u report (t, d, k) = (t', d', k')"
  shows "k' = k\<lparr>k_net := k_net k'\<rparr> \<and> nw_high (k_net k') = nw_high (k_net k) \<and>
    (nw_low (k_net k') = nw_low (k_net k) \<or>
     up \<and> \<not> high_priority_busy (k_net k) \<and> length (nw_low (k_net k)) < 2 \<and>
     nw_low (k_net k') = nw_low (k_net k) @ [(new_request HEARTBEAT)
       \<lparr>nq_url := buffer max_queued_url_bytes (derive_sibling_endpoint u ''heartbeat''),
        nq_body := fill_body (fst (report (d, k)))\<rparr>])"
  using assms
  by (cases "length (nw_low (k_net k)) < 2")
    (auto simp: heartbeat_poll_def enqueue_heartbeat_def enqueue_def low_queue_depth_def Let_def split: if_splits prod.splits)

section \<open>The report outgrows the buffer\<close>

lemma length_dec_pos: "Suc 0 \<le> length (dec n)"
  by (subst dec.simps) simp

lemma length_num: "Suc 0 \<le> length (num w)"
  by (simp add: num_def length_dec_pos)

lemma length_dec_int_pos: "Suc 0 \<le> length (dec_int i)"
  using length_dec_pos [of "nat i"] by (simp add: dec_int_def)

lemma json_escape_longer: "length s \<le> length (json_escape s)"
proof (induction s)
  case (Cons c s)
  have "1 \<le> length (escape_char c)"
    by (simp add: escape_char_def)
  then show ?case
    using Cons by simp
qed simp

lemma length_jpieces:
  "length (jkey k) = length k + 3" "length (jraw s) = length s + 2" "length (jstr s) = length (json_escape s) + 2"
  "4 \<le> length (jbool b)"
  by (simp_all add: jkey_def jraw_def jstr_def jbool_def)

lemma length_comma_sep: "xs \<noteq> [] \<Longrightarrow> length (comma_sep xs) + 1 = sum_list (map length xs) + length xs"
proof (induction xs)
  case (Cons x xs)
  have "length (concat (map (\<lambda>y. CHR '','' # y) xs)) = sum_list (map length xs) + length xs"
    by (induction xs) simp_all
  then show ?case
    by simp
qed simp

lemma sum_list_ge: "(\<And>x. x \<in> set (map length xs) \<Longrightarrow> c \<le> x) \<Longrightarrow> length xs * c \<le> sum_list (map length xs)"
  by (induction xs) (simp_all add: add_mono)

lemma length_code: "17 \<le> length (recovery_code_to_string c)"
  by (cases c) (simp_all add: recovery_code_to_string_def)

lemma length_entry: "128 + length (rv_detail e) \<le> length (recovery_entry e)"
proof -
  note l = length_num [of "rv_uptime_ms e"] length_num [of "rv_journal_pressure e"] length_num [of "rv_memory_free e"]
    length_num [of "rv_memory_largest e"] length_code [of "rv_code e"] json_escape_longer [of "rv_detail e"]
  show ?thesis
    using l by (simp add: recovery_entry_def length_jpieces)
qed

text \<open>What each section takes whatever the device reports.\<close>

lemma length_sections:
  "137 \<le> length (status_identity bi now prov k)"
  "115 \<le> length (status_network bd w k)"
  "60 \<le> length (status_memory d)"
  "50 \<le> length (status_hardware st kp)"
  "35 \<le> length (status_input k)"
  "200 \<le> length (status_protocol br k)"
  "110 \<le> length (status_server p k)"
  "150 \<le> length (status_state k)"
  "40 \<le> length (status_time now k)"
  "160 \<le> length (status_security bi prov)"
  "300 \<le> length (status_journal now ej)"
  by (simp_all add: status_identity_def status_network_def status_memory_def status_hardware_def status_input_def
      status_protocol_def status_server_def status_state_def status_time_def status_security_def status_journal_def
      length_jpieces Let_def kiosk_runtime_version_def)

lemma length_recovery:
  assumes "\<forall>i<rc_history_count rc. n \<le> length (rv_detail (recovery_history_at rc i))" "0 < rc_history_count rc"
  shows "70 + rc_history_count rc * (128 + n) \<le> length (status_recovery reason rc)"
proof -
  let ?es = "map (\<lambda>i. recovery_entry (recovery_history_at rc i)) [0..<rc_history_count rc]"
  have "length ?es * (128 + n) \<le> sum_list (map length ?es)"
  proof (rule sum_list_ge)
    fix x
    assume "x \<in> set (map length ?es)"
    then obtain i where "i < rc_history_count rc" "x = length (recovery_entry (recovery_history_at rc i))"
      by auto
    then show "128 + n \<le> x"
      using assms(1) length_entry [of "recovery_history_at rc i"] by fastforce
  qed
  moreover have "length (comma_sep ?es) + 1 = sum_list (map length ?es) + length ?es"
    using assms(2) by (intro length_comma_sep) simp
  moreover note length_jpieces(4) [of "rc_safe_mode rc"] length_num [of "rc_same_fault_streak rc"]
  ultimately show ?thesis
    by (simp add: status_recovery_def length_jpieces)
qed

lemma report_length:
  assumes "rc_history_count (k_recovery k) = 8"
    and "\<forall>i<8. 39 \<le> length (rv_detail (recovery_history_at (k_recovery k) i))"
  shows "2700 \<le> length (fst (build_status_json bi bd now st kp br w p (d, k)))"
proof -
  note length_recovery [of "k_recovery k" 39]
  then have r: "70 + 8 * 167 \<le> length (status_recovery reason (k_recovery k))" for reason
    using assms by simp
  note s = length_sections(1) [of bi now "identity_state (pf_nv p) (k_nvs k)" k] length_sections(2) [of bd w k]
    length_sections(3) [of "refresh_memory_fields bd d"] length_sections(4) [of st kp] length_sections(5) [of k]
    length_sections(6) [of br k] length_sections(7) [of p k] length_sections(8) [of k] length_sections(9) [of now k]
    length_sections(10) [of bi "identity_state (pf_nv p) (k_nvs k)"] length_sections(11) [of now "k_journal k"]
    r [of "di_reset_reason (refresh_memory_fields bd d)"]
  show ?thesis
    using s by (simp add: build_status_json_def Let_def)
qed

text \<open>When the recovery history holds eight events with details of ordinary
  length, every heartbeat that is sent is cut: the report is longer than the
  buffer of a request, whatever else the device reports, and what is queued is
  its first 2559 characters, without the end of the text.\<close>

lemma full_history_cuts_heartbeat:
  assumes "rc_history_count (k_recovery k) = 8"
    and "\<forall>i<8. 39 \<le> length (rv_detail (recovery_history_at (k_recovery k) i))"
    and "heartbeat_poll now up u (build_status_json bi bd now' st kp br w p) (t, d, k) = (t', d', k')"
    and "nw_low (k_net k') \<noteq> nw_low (k_net k)"
  shows "\<exists>req rest. nw_low (k_net k') = nw_low (k_net k) @ [req] \<and> nq_kind req = HEARTBEAT \<and> 100 < length rest \<and>
    fst (build_status_json bi bd now' st kp br w p (d, k)) = nq_body req @ rest \<and> length (nq_body req) = 2559"
proof -
  let ?b = "fst (build_status_json bi bd now' st kp br w p (d, k))"
  let ?req = "(new_request HEARTBEAT)\<lparr>nq_url := buffer max_queued_url_bytes (derive_sibling_endpoint u ''heartbeat''),
      nq_body := fill_body ?b\<rparr>"
  have "nw_low (k_net k') = nw_low (k_net k) @ [?req]"
    using heartbeat_yields [OF assms(3)] assms(4) by simp
  moreover have "nq_body ?req = take 2559 ?b"
    by (simp add: fill_body_def max_queued_body_bytes_def)
  moreover have "2700 \<le> length ?b"
    by (rule report_length [OF assms(1,2)])
  moreover have "nq_kind ?req = HEARTBEAT"
    by (simp add: new_request_def)
  ultimately show ?thesis
    by (intro exI [of _ ?req] exI [of _ "drop 2559 ?b"]) simp
qed

text \<open>Eight warnings about memory, as the main loop writes one a second.\<close>

definition warned :: "nat \<Rightarrow> recovery_state \<Rightarrow> recovery_state" where
  "warned n rc = (record_recovery_event 0 LOW_MEMORY ''internal SRAM WARNING -- largest contiguous block low'' 0 0 0 ^^ n) rc"

definition worried_kiosk :: "(ram_disk, ram_nvs) kiosk" where
  "worried_kiosk = (ready_kiosk WAIT_EMPLOYEE)\<lparr>k_recovery := warned 8 new_recovery\<rparr>"

definition low_memory_warning :: recovery_event where
  "low_memory_warning = \<lparr>rv_code = LOW_MEMORY, rv_detail = ''internal SRAM WARNING -- largest contiguous block low'',
     rv_uptime_ms = 0, rv_journal_pressure = 0, rv_memory_free = 0, rv_memory_largest = 0\<rparr>"

lemma warned_fills:
  "n \<le> 8 \<Longrightarrow> warned n new_recovery = new_recovery\<lparr>rc_history := replicate n low_memory_warning @ replicate (8 - n) no_event,
     rc_history_next := n mod 8, rc_history_count := n\<rparr>"
proof (induction n)
  case 0
  then show ?case
    by (simp add: warned_def new_recovery_def recovery_history_capacity_def)
next
  case (Suc n)
  then have n: "n < 8"
    by simp
  obtain k where k: "8 - n = Suc k" "8 - Suc n = k"
    using n by (cases "8 - n") auto
  have "warned (Suc n) new_recovery = record_recovery_event 0 LOW_MEMORY ''internal SRAM WARNING -- largest contiguous block low'' 0 0 0
      (warned n new_recovery)"
    by (simp add: warned_def)
  then show ?case
    using Suc n k
    by (simp add: record_recovery_event_def recovery_history_capacity_def low_memory_warning_def list_update_append
        replicate_app_Cons_same Let_def mod_Suc)
qed

lemma warned_history:
  "rc_history_count (warned 8 new_recovery) = 8"
  "rc_history_next (warned 8 new_recovery) = 0"
  "\<forall>e\<in>set (rc_history (warned 8 new_recovery)). length (rv_detail e) = 53"
  "length (rc_history (warned 8 new_recovery)) = 8"
  by (simp_all add: warned_fills low_memory_warning_def)

lemma worried_history:
  "rc_history_count (k_recovery worried_kiosk) = 8"
  "\<forall>i<8. 39 \<le> length (rv_detail (recovery_history_at (k_recovery worried_kiosk) i))"
proof -
  show "rc_history_count (k_recovery worried_kiosk) = 8"
    by (simp add: worried_kiosk_def warned_history)
  have "\<forall>i<8. length (rv_detail (rc_history (warned 8 new_recovery) ! i)) = 53"
    using warned_history(3,4) by (metis nth_mem)
  then show "\<forall>i<8. 39 \<le> length (rv_detail (recovery_history_at (k_recovery worried_kiosk) i))"
    by (simp add: worried_kiosk_def recovery_history_at_def warned_history recovery_history_capacity_def)
qed

definition no_reading :: board_reading where
  "no_reading = \<lparr>bd_wifi_up = True, bd_ssid = [], bd_rssi = 0, bd_ip = [], bd_free_heap = 0, bd_largest_block = 0,
     bd_psram_free = 0\<rparr>"

definition dev_build :: build_info where
  "dev_build = \<lparr>bi_build_id = ''unknown-build'', bi_profile = ''DEV''\<rparr>"

definition some_diagnostics :: boot_diagnostics where
  "some_diagnostics = collect_boot_diagnostics ''ESP32-S3'' 2 0x1000000 0x800000 RST_POWERON dev_build no_reading ''b1''"

lemma full_history_cuts_heartbeat_witness:
  "\<exists>req rest. nw_low (k_net (snd (snd (heartbeat_poll 60000 True ''http://h/api/events''
       (build_status_json dev_build no_reading 60000 \<lparr>se_display_ok = True, se_scanner_ok = True, se_keypad_ok = True\<rparr>
          new_keypad new_bootstrap_result new_wifi_manager ram_platform) (0, some_diagnostics, worried_kiosk))))) = [req] \<and>
     length (nq_body req) = 2559 \<and>
     fst (build_status_json dev_build no_reading 60000 \<lparr>se_display_ok = True, se_scanner_ok = True, se_keypad_ok = True\<rparr>
       new_keypad new_bootstrap_result new_wifi_manager ram_platform (some_diagnostics, worried_kiosk)) = nq_body req @ rest"
proof -
  let ?r = "build_status_json dev_build no_reading 60000 \<lparr>se_display_ok = True, se_scanner_ok = True, se_keypad_ok = True\<rparr>
      new_keypad new_bootstrap_result new_wifi_manager ram_platform"
  obtain t' d' k' where h: "heartbeat_poll 60000 True ''http://h/api/events'' ?r (0, some_diagnostics, worried_kiosk) = (t', d', k')"
    by (metis prod_cases3)
  have net: "k_net worried_kiosk = worker_begin"
    by (simp add: worried_kiosk_def)
  have "nw_low (k_net k') \<noteq> nw_low (k_net worried_kiosk)"
    using h
    by (auto simp: heartbeat_poll_def heartbeat_interval_ms_def high_priority_busy_def net worker_begin_def
        enqueue_heartbeat_def enqueue_def low_queue_depth_def Let_def split: prod.splits)
  from full_history_cuts_heartbeat [OF worried_history h this] show ?thesis
    using h by (auto simp: net worker_begin_def)
qed

end
