(* ===== verification/Serial_Console.thy ===== *)
theory Serial_Console
  imports Front_Panel Keypad
begin

text \<open>
  The serial provisioning console of the sketch (\<^verbatim>\<open>poll_serial_provisioning\<close> in
  kiosk_runtime_v2.ino): a line of at most 96 characters is collected and, at its
  end, carried out.  The commands are those of every build; the debugging
  commands that only a development build has are in \<open>Debug_Lab\<close>.  The drawing
  of the display diagnostics is not kept, the time they block the loop is.
\<close>

section \<open>Lines\<close>

definition console_line_limit :: nat where
  "console_line_limit = 96"

definition line_end :: "char \<Rightarrow> bool" where
  "line_end c = (c = CHR 0x0A \<or> c = CHR 0x0D)"

definition after_prefix :: "string \<Rightarrow> string \<Rightarrow> string" where
  "after_prefix p l = drop (length p) l"

section \<open>Commands\<close>

datatype console_command =
    Cmd_wifi string string
  | Cmd_calibrate
  | Cmd_api_endpoint string
  | Cmd_expected_env string
  | Cmd_provision string
  | Cmd_kiosk_token string
  | Cmd_suspend
  | Cmd_revoke
  | Cmd_recovery_info
  | Cmd_display_test
  | Cmd_backlight_test
  | Cmd_lcd_physical_test
  | Cmd_nothing

definition wifi_command :: "string \<Rightarrow> console_command" where
  "wifi_command rest =
     (let comma = index_of '','' rest in
      if comma > 0 then Cmd_wifi (take (nat comma) rest) (drop (nat comma + 1) rest) else Cmd_nothing)"

definition parse_command :: "string \<Rightarrow> console_command" where
  "parse_command l =
     (if has_prefix ''wifi:'' l then wifi_command (after_prefix ''wifi:'' l)
      else if l = ''keypad-calibrate'' then Cmd_calibrate
      else if has_prefix ''api-endpoint:'' l then Cmd_api_endpoint (trim_spaces (after_prefix ''api-endpoint:'' l))
      else if has_prefix ''expected-env:'' l then Cmd_expected_env (trim_spaces (after_prefix ''expected-env:'' l))
      else if has_prefix ''provision:'' l then Cmd_provision (trim_spaces (after_prefix ''provision:'' l))
      else if has_prefix ''kiosk-token:'' l then Cmd_kiosk_token (trim_spaces (after_prefix ''kiosk-token:'' l))
      else if l = ''suspend'' then Cmd_suspend
      else if l = ''revoke'' then Cmd_revoke
      else if l = ''recovery-info'' then Cmd_recovery_info
      else if l = ''display-test'' then Cmd_display_test
      else if l = ''backlight-test'' then Cmd_backlight_test
      else if l = ''lcd-physical-test'' then Cmd_lcd_physical_test
      else Cmd_nothing)"

definition upd_nvs :: "('n \<Rightarrow> 'n) \<Rightarrow> ('d, 'n) panel \<Rightarrow> ('d, 'n) panel" where
  "upd_nvs f fp = fp\<lparr>fp_kiosk := (fp_kiosk fp)\<lparr>k_seq := (k_seq (fp_kiosk fp))\<lparr>dq_nvs := f (k_nvs (fp_kiosk fp))\<rparr>\<rparr>\<rparr>"

definition panel_refresh :: "('d, 'n) platform \<Rightarrow> moment \<Rightarrow> ('d, 'n) panel \<Rightarrow> ('d, 'n) panel" where
  "panel_refresh p m fp = fp\<lparr>fp_kiosk := refresh_idle_screen p m (fp_kiosk fp)\<rparr>"

text \<open>The calibration reads scans until it has its keys; without an end of the scans that
  lead there it does not return.\<close>

definition run_command ::
  "'n blob_ops \<Rightarrow> scans \<Rightarrow> ('d, 'n) platform \<Rightarrow> moment \<Rightarrow> console_command \<Rightarrow>
    keypad \<times> ('d, 'n) panel \<Rightarrow> (keypad \<times> ('d, 'n) panel) option" where
  "run_command bo ss p m cmd = (\<lambda>(kp, fp).
     (case cmd of
        Cmd_wifi ssid pass \<Rightarrow> Some (kp, (upd_nvs (set_wifi_credentials (pf_nv p) ssid pass) fp)\<lparr>fp_restarting := True\<rparr>)
      | Cmd_calibrate \<Rightarrow>
          (case run_calibration (pf_nv p) bo ss kp (k_nvs (fp_kiosk fp)) of
             None \<Rightarrow> None
           | Some (ok, kp1, n) \<Rightarrow> Some (kp1, panel_refresh p m (upd_nvs (\<lambda>_. n) fp)))
      | Cmd_api_endpoint url \<Rightarrow>
          (let (result, n) = set_api_endpoint (pf_nv p) url (k_nvs (fp_kiosk fp)); fp1 = upd_nvs (\<lambda>_. n) fp in
           Some (kp, if result \<noteq> URL_OK then fp1 else fp1\<lparr>fp_restarting := True\<rparr>))
      | Cmd_expected_env env \<Rightarrow> Some (kp, (upd_nvs (set_expected_environment (pf_nv p) env) fp)\<lparr>fp_restarting := True\<rparr>)
      | Cmd_provision new_id \<Rightarrow>
          (let (ok, n) = identity_provision (pf_nv p) new_id (k_nvs (fp_kiosk fp)); fp1 = upd_nvs (\<lambda>_. n) fp in
           Some (kp, if ok then fp1\<lparr>fp_restarting := True\<rparr> else fp1))
      | Cmd_kiosk_token token \<Rightarrow> Some (kp, upd_nvs (\<lambda>n. snd (identity_set_kiosk_token (pf_nv p) token n)) fp)
      | Cmd_suspend \<Rightarrow> Some (kp, panel_refresh p m (upd_nvs (identity_set_state (pf_nv p) SUSPENDED) fp))
      | Cmd_revoke \<Rightarrow> Some (kp, panel_refresh p m (upd_nvs (identity_set_state (pf_nv p) REVOKED) fp))
      | Cmd_recovery_info \<Rightarrow>
          Some (kp, fp\<lparr>fp_portal := compute_ap_credentials (pf_nv p) (pf_mac p) (k_nvs (fp_kiosk fp)) (fp_portal fp)\<rparr>)
      | Cmd_display_test \<Rightarrow> Some (kp, panel_refresh p m fp)
      | Cmd_backlight_test \<Rightarrow> Some (kp, fp)
      | Cmd_lcd_physical_test \<Rightarrow> Some (kp, fp)
      | Cmd_nothing \<Rightarrow> Some (kp, fp)))"

text \<open>The characters available in one poll; a restart ends it.\<close>

fun console_poll ::
  "'n blob_ops \<Rightarrow> scans \<Rightarrow> ('d, 'n) platform \<Rightarrow> moment \<Rightarrow> string \<Rightarrow>
    string \<times> keypad \<times> ('d, 'n) panel \<Rightarrow> (string \<times> keypad \<times> ('d, 'n) panel) option" where
  "console_poll bo ss p m [] (l, kp, fp) = Some (l, kp, fp)"
| "console_poll bo ss p m (c # cs) (l, kp, fp) =
     (if line_end c then
        (case run_command bo ss p m (parse_command l) (kp, fp) of
           None \<Rightarrow> None
         | Some (kp1, fp1) \<Rightarrow>
             if fp_restarting fp1 then Some ([], kp1, fp1) else console_poll bo ss p m cs ([], kp1, fp1))
      else if length l < console_line_limit then console_poll bo ss p m cs (l @ [c], kp, fp)
      else console_poll bo ss p m cs (l, kp, fp))"

section \<open>Long lines are cut\<close>

lemma console_collects:
  assumes "list_all (\<lambda>c. \<not> line_end c) cs" "length l \<le> 96"
  shows "console_poll bo ss p m (cs @ ds) (l, kp, fp) = console_poll bo ss p m ds (take 96 (l @ cs), kp, fp)"
  using assms
proof (induction cs arbitrary: l)
  case (Cons c cs)
  then show ?case
    by (cases "length l < 96") (simp_all add: console_line_limit_def take_Cons')
qed simp

text \<open>A command line is carried out as its first 96 characters, whatever follows
  them: the rest is dropped without an error.\<close>

lemma long_command_is_cut:
  assumes "list_all (\<lambda>c. \<not> line_end c) cs" "line_end e"
  shows "console_poll bo ss p m (cs @ [e]) ([], kp, fp) =
    map_option (\<lambda>(kp', fp'). ([], kp', fp')) (run_command bo ss p m (parse_command (take 96 cs)) (kp, fp))"
proof -
  have "console_poll bo ss p m (cs @ [e]) ([], kp, fp) = console_poll bo ss p m [e] (take 96 cs, kp, fp)"
    using console_collects [OF assms(1), of "[]" bo ss p m "[e]" kp fp] by (simp only: append_Nil list.size)
  then show ?thesis
    using assms(2) by (simp split: option.split prod.split)
qed

text \<open>An endpoint of 110 characters, within the limit of 160 for an endpoint.\<close>

definition long_endpoint :: string where
  "long_endpoint = ''http://kiosk.example.com/plants/hanoi/lines/assembly/'' @ replicate 38 (CHR ''x'') @ ''/api/kiosk/v2/events''"

definition no_blobs :: "ram_nvs blob_ops" where
  "no_blobs = \<lparr>bo_length = (\<lambda>n ns k. 0), bo_get = (\<lambda>n ns k l. []), bo_put = (\<lambda>n ns k bs. (0, n))\<rparr>"

lemma long_endpoint_facts:
  "list_all (\<lambda>c. \<not> line_end c) (''api-endpoint:'' @ long_endpoint)"
  "validate_backend_url long_endpoint True backend_url_max_length = URL_OK"
  "parse_command (take 96 (''api-endpoint:'' @ long_endpoint)) = Cmd_api_endpoint (take 83 long_endpoint)"
  "validate_backend_url (take 83 long_endpoint) True backend_url_max_length = URL_OK"
  by code_simp+

text \<open>It is cut in the middle of its path, still valid, stored, and the device restarts
  with it.\<close>

lemma long_command_is_cut_witness:
  "map_option (\<lambda>(l, kp, fp). config_api_endpoint (pf_nv ram_platform) (k_nvs (fp_kiosk fp)))
     (console_poll no_blobs [] ram_platform some_moment (''api-endpoint:'' @ long_endpoint @ [CHR 0x0A])
       ([], new_keypad, ready_panel WAIT_EMPLOYEE)) = Some (take 83 long_endpoint)"
proof -
  have e: "line_end CHR 0x0A"
    by (simp add: line_end_def)
  have n: "take 83 long_endpoint \<noteq> []"
    by (simp add: long_endpoint_def)
  have c: "console_poll no_blobs [] ram_platform some_moment (''api-endpoint:'' @ long_endpoint @ [CHR 0x0A])
      ([], new_keypad, ready_panel WAIT_EMPLOYEE) =
    map_option (\<lambda>(kp', fp'). ([], kp', fp')) (run_command no_blobs [] ram_platform some_moment
      (Cmd_api_endpoint (take 83 long_endpoint)) (new_keypad, ready_panel WAIT_EMPLOYEE))"
    using long_command_is_cut [OF long_endpoint_facts(1) e, of no_blobs "[]" ram_platform some_moment new_keypad
        "ready_panel WAIT_EMPLOYEE"] by (simp only: append_assoc long_endpoint_facts(3))
  show ?thesis
    unfolding c using n long_endpoint_facts(4)
    by (simp add: run_command_def set_api_endpoint_def backend_url_allow_http_def upd_nvs_def
        k_nvs_def ram_platform_def ram_nvs_ops_def rn_put_def config_api_endpoint_def Let_def)
qed

section \<open>The diagnostics outlast the watchdog\<close>

definition task_watchdog_timeout_s :: nat where
  "task_watchdog_timeout_s = 15"

text \<open>The waits of each diagnostic, one after the other without feeding the watchdog.\<close>

definition display_test_delays :: "nat list" where
  "display_test_delays = [2500, 2500, 2500, 2500, 2500] @ [2500] @ [2500]"

definition backlight_test_delays :: "nat list" where
  "backlight_test_delays = [2000, 5000, 2000]"

definition lcd_physical_test_delays :: "nat list" where
  "lcd_physical_test_delays = [3000, 3000, 3000, 3000, 3000, 3000]"

lemma diagnostics_outlast_watchdog:
  "task_watchdog_timeout_s * 1000 < sum_list display_test_delays"
  "task_watchdog_timeout_s * 1000 < sum_list lcd_physical_test_delays"
  "sum_list backlight_test_delays < task_watchdog_timeout_s * 1000"
  by (simp_all add: task_watchdog_timeout_s_def display_test_delays_def lcd_physical_test_delays_def
      backlight_test_delays_def)

section \<open>What the console keeps\<close>

text \<open>No command touches the journal, the queues or the business state.\<close>

lemma command_untouched:
  assumes "run_command bo ss p m cmd (kp, fp) = Some (kp', fp')"
  shows "k_journal (fp_kiosk fp') = k_journal (fp_kiosk fp) \<and> k_net (fp_kiosk fp') = k_net (fp_kiosk fp) \<and>
    k_projection (fp_kiosk fp') = k_projection (fp_kiosk fp) \<and> k_quantity (fp_kiosk fp') = k_quantity (fp_kiosk fp)"
  using assms
  by (cases cmd) (auto simp: run_command_def upd_nvs_def panel_refresh_def refresh_idle_screen_def Let_def
      split: option.splits prod.splits)

end
