(* ===== verification/Loop_Policies.thy ===== *)
theory Loop_Policies
  imports Policies Bootstrap
begin

text \<open>
  The decisions the main loop of the sketch (kiosk_runtime_v2.ino) takes from its own
  counters: when to force the station to reconnect, when to ask for the bootstrap,
  when to start a compaction, when low memory or a screen that stands still ends in
  a restart.  Each is a function of the counters, written apart from the effects,
  which \<^verbatim>\<open>Main_Loop\<close> carries out.
\<close>

section \<open>Reconnecting after refused connections\<close>

definition network_stuck_reconnect_threshold :: u32 where
  "network_stuck_reconnect_threshold = 2"

definition network_stuck_reconnect_repeat :: u32 where
  "network_stuck_reconnect_repeat = 3"

text \<open>From the streak of refused connections and the streak at the last forced
  reconnect: whether to force one now, and the new mark.\<close>

definition network_self_recovery :: "u32 \<Rightarrow> u32 \<Rightarrow> bool \<times> u32" where
  "network_self_recovery streak mark =
     (if streak = 0 then (False, 0)
      else if streak \<ge> network_stuck_reconnect_threshold \<and>
        streak - mark \<ge> (if mark = 0 then network_stuck_reconnect_threshold else network_stuck_reconnect_repeat)
      then (True, streak)
      else (False, mark))"

fun forced_reconnects :: "u32 list \<Rightarrow> u32 \<Rightarrow> bool list" where
  "forced_reconnects [] mark = []"
| "forced_reconnects (s # ss) mark =
     (let (forced, mark') = network_self_recovery s mark in forced # forced_reconnects ss mark')"

text \<open>Streaks as the loop sees them: each is the one before, one more, or zero again.\<close>

fun streak_trace :: "nat \<Rightarrow> nat list \<Rightarrow> bool" where
  "streak_trace s [] = True"
| "streak_trace s (t # ts) = ((t = s \<or> t = s + 1 \<or> t = 0) \<and> t < 2 ^ 32 \<and> streak_trace t ts)"

text \<open>The streaks at which a reconnect is due: the second failure, and every third after
  it.\<close>

definition reconnect_due :: "nat \<Rightarrow> nat \<Rightarrow> bool" where
  "reconnect_due before s = (s \<noteq> before \<and> 2 \<le> s \<and> s mod 3 = 2)"

fun due_along :: "nat \<Rightarrow> nat list \<Rightarrow> bool list" where
  "due_along s [] = []"
| "due_along s (t # ts) = reconnect_due s t # due_along t ts"

definition mark_at :: "nat \<Rightarrow> nat" where
  "mark_at s = (if s < 2 then 0 else s - (s - 2) mod 3)"

lemma mark_at_simps: "mark_at 0 = 0" "mark_at (Suc 0) = 0" "mark_at (Suc (Suc r)) = Suc (Suc (r - r mod 3))"
  by (simp_all add: mark_at_def Suc_diff_le)

lemma mark_gap:
  "((if mark_at s = 0 then 2 else 3) \<le> Suc s - mark_at s \<and> 2 \<le> Suc s) = (1 \<le> s \<and> Suc s mod 3 = 2)"
proof (cases "s < 2")
  case True
  then have "s = 0 \<or> s = 1"
    by auto
  then show ?thesis
    by (auto simp: mark_at_simps)
next
  case False
  then obtain r where "s = Suc (Suc r)"
    by (metis One_nat_def Suc_1 less_Suc_eq_0_disj not0_implies_Suc)
  then show ?thesis
    by (simp add: mark_at_simps) presburger
qed

lemma mark_step: "mark_at (Suc s) = (if 1 \<le> s \<and> Suc s mod 3 = 2 then Suc s else mark_at s)"
proof (cases "s < 2")
  case True
  then have "s = 0 \<or> s = 1"
    by auto
  then show ?thesis
    by (auto simp: mark_at_simps numeral_2_eq_2)
next
  case False
  then obtain r where "s = Suc (Suc r)"
    by (metis One_nat_def Suc_1 less_Suc_eq_0_disj not0_implies_Suc)
  then show ?thesis
    by (simp add: mark_at_simps) presburger
qed

lemma self_recovery_step:
  assumes "t = s \<or> t = s + 1 \<or> t = 0" "t < 2 ^ 32"
  shows "network_self_recovery (of_nat t) (of_nat (mark_at s)) = (reconnect_due s t, of_nat (mark_at t))"
proof (cases "t = 0")
  case True
  then show ?thesis
    by (simp add: network_self_recovery_def reconnect_due_def mark_at_def)
next
  case False
  have m: "mark_at s \<le> t"
    using False assms(1) by (auto simp: mark_at_def)
  have w: "unat (of_nat t :: u32) = t" "unat (of_nat (mark_at s) :: u32) = mark_at s"
    "unat (of_nat (t - mark_at s) :: u32) = t - mark_at s"
    using assms(2) m by (simp_all only: unat_of_nat) (simp_all add: take_bit_nat_eq_self)
  have z: "(of_nat t :: u32) = 0 \<longleftrightarrow> t = 0" "(of_nat (mark_at s) :: u32) = 0 \<longleftrightarrow> mark_at s = 0"
    by (simp_all only: word_unat_eq_iff w unat_0)
  have ge: "(2 :: u32) \<le> of_nat t \<longleftrightarrow> 2 \<le> t"
    by (simp add: word_le_nat_alt w)
  have "(of_nat t :: u32) - of_nat (mark_at s) = of_nat (t - mark_at s)"
    using m by simp
  then have d: "c \<le> (of_nat t :: u32) - of_nat (mark_at s) \<longleftrightarrow> unat c \<le> t - mark_at s" for c
    by (simp add: word_le_nat_alt w)
  note defs = network_self_recovery_def reconnect_due_def network_stuck_reconnect_threshold_def
    network_stuck_reconnect_repeat_def
  show ?thesis
  proof (cases "t = s")
    case True
    have "t - mark_at s < 3" "mark_at s = 0 \<longrightarrow> t < 2"
      using True False by (auto simp: mark_at_def split: if_splits)
    then show ?thesis
      using z ge d False unfolding defs True by auto
  next
    case neq: False
    then have t: "t = Suc s"
      using False assms(1) by simp
    have "network_self_recovery (of_nat t) (of_nat (mark_at s)) =
        (if (if mark_at s = 0 then 2 else 3) \<le> t - mark_at s \<and> 2 \<le> t then (True, of_nat t)
         else (False, of_nat (mark_at s)))"
      using False by (auto simp: defs z ge d)
    then show ?thesis
      unfolding t mark_gap by (simp add: mark_step reconnect_due_def)
  qed
qed

text \<open>Over any streak of refused connections, a reconnect is forced exactly when the
  streak reaches its second, fifth, eighth failure and so on, once each, and a
  streak that ends starts the count anew.\<close>

lemma reconnect_rhythm:
  assumes "streak_trace 0 ss"
  shows "forced_reconnects (map of_nat ss) 0 = due_along 0 ss"
proof -
  have "forced_reconnects (map of_nat ss) (of_nat (mark_at s)) = due_along s ss" if "streak_trace s ss" for s
    using that
  proof (induction ss arbitrary: s)
    case (Cons t ts)
    then show ?case
      using self_recovery_step [of t s] by simp
  qed simp
  from this [of 0] assms show ?thesis
    by (simp add: mark_at_def)
qed

lemma reconnect_rhythm_witness:
  "forced_reconnects (map of_nat [0, 1, 1, 2, 3, 4, 5, 5, 6, 0, 1, 2]) 0 =
     [False, False, False, True, False, False, True, False, False, False, False, True]"
  using reconnect_rhythm [of "[0, 1, 1, 2, 3, 4, 5, 5, 6, 0, 1, 2]"] by (simp add: reconnect_due_def)

section \<open>The bootstrap\<close>

definition bootstrap_max_attempts :: int where
  "bootstrap_max_attempts = 2"

definition bootstrap_retry_cooldown_ms :: u32 where
  "bootstrap_retry_cooldown_ms = 3000"

record bootstrap_schedule =
  bo_attempted :: bool
  bo_inflight :: bool
  bo_count :: int
  bo_next_ms :: u32
  bo_last_reconnects :: u32

definition new_bootstrap_schedule :: bootstrap_schedule where
  "new_bootstrap_schedule = \<lparr>bo_attempted = False, bo_inflight = False, bo_count = 0, bo_next_ms = 0,
     bo_last_reconnects = 0\<rparr>"

text \<open>A reconnect that has not been seen yet arms the bootstrap again.\<close>

definition bootstrap_rearm :: "u32 \<Rightarrow> bootstrap_schedule \<Rightarrow> bool \<times> bootstrap_schedule" where
  "bootstrap_rearm reconnects b =
     (if reconnects = bo_last_reconnects b then (False, b)
      else (True, b\<lparr>bo_last_reconnects := reconnects, bo_attempted := False, bo_inflight := False, bo_count := 0,
              bo_next_ms := 0\<rparr>))"

definition bootstrap_due :: "u32 \<Rightarrow> bootstrap_schedule \<Rightarrow> bool" where
  "bootstrap_due now b = (\<not> bo_attempted b \<and> \<not> bo_inflight b \<and> now \<ge> bo_next_ms b)"

text \<open>Without an endpoint the attempt counts; the flag says that it was the last one.\<close>

definition bootstrap_no_endpoint :: "u32 \<Rightarrow> bootstrap_schedule \<Rightarrow> bool \<times> bootstrap_schedule" where
  "bootstrap_no_endpoint now b0 =
     (let b = b0\<lparr>bo_count := bo_count b0 + 1\<rparr> in
      if bo_count b \<ge> bootstrap_max_attempts then (True, b\<lparr>bo_attempted := True\<rparr>)
      else (False, b\<lparr>bo_next_ms := now + bootstrap_retry_cooldown_ms\<rparr>))"

definition bootstrap_enqueued :: "bool \<Rightarrow> bootstrap_schedule \<Rightarrow> bootstrap_schedule" where
  "bootstrap_enqueued ok b = (if ok then b\<lparr>bo_count := bo_count b + 1, bo_inflight := True\<rparr> else b)"

definition bootstrap_answered :: "u32 \<Rightarrow> bootstrap_status \<Rightarrow> bootstrap_schedule \<Rightarrow> bootstrap_schedule" where
  "bootstrap_answered now st b0 =
     (let b = b0\<lparr>bo_inflight := False\<rparr> in
      if st = BS_FAILED \<and> bo_count b < bootstrap_max_attempts
      then b\<lparr>bo_next_ms := now + bootstrap_retry_cooldown_ms\<rparr>
      else b\<lparr>bo_attempted := True\<rparr>)"

text \<open>At most two attempts between two reconnects, and after the second none is due.\<close>

definition schedule_ok :: "bootstrap_schedule \<Rightarrow> bool" where
  "schedule_ok b = (0 \<le> bo_count b \<and> bo_count b \<le> 2 \<and> (bo_count b = 2 \<longrightarrow> bo_attempted b \<or> bo_inflight b))"

lemma schedule_ok_new: "schedule_ok new_bootstrap_schedule"
  by (simp add: schedule_ok_def new_bootstrap_schedule_def)

lemma schedule_ok_rearm: "schedule_ok b \<Longrightarrow> schedule_ok (snd (bootstrap_rearm r b))"
  by (simp add: schedule_ok_def bootstrap_rearm_def)

lemma schedule_ok_enqueued: "schedule_ok b \<Longrightarrow> bootstrap_due now b \<Longrightarrow> schedule_ok (bootstrap_enqueued ok b)"
  by (auto simp: schedule_ok_def bootstrap_enqueued_def bootstrap_due_def)

lemma schedule_ok_no_endpoint:
  "schedule_ok b \<Longrightarrow> bootstrap_due now b \<Longrightarrow> schedule_ok (snd (bootstrap_no_endpoint now b))"
  by (auto simp: schedule_ok_def bootstrap_no_endpoint_def bootstrap_due_def bootstrap_max_attempts_def Let_def)

lemma schedule_ok_answered: "schedule_ok b \<Longrightarrow> schedule_ok (bootstrap_answered now st b)"
  by (auto simp: schedule_ok_def bootstrap_answered_def bootstrap_max_attempts_def Let_def)

text \<open>An answer that never comes, as when its result is overwritten before it is taken,
  holds every further attempt back until the station reconnects.\<close>

lemma inflight_holds_back: "bo_inflight b \<Longrightarrow> \<not> bootstrap_due now b"
  by (simp add: bootstrap_due_def)

section \<open>Low memory\<close>

definition critical_reboot_patience_checks :: u32 where
  "critical_reboot_patience_checks = 10"

text \<open>The count of critical checks after a check, and whether it asks for a restart.\<close>

definition low_memory_check :: "low_memory_level \<Rightarrow> u32 \<Rightarrow> bool \<times> u32" where
  "low_memory_check level count =
     (case level of
        MEM_WARNING \<Rightarrow> (False, count)
      | MEM_CRITICAL \<Rightarrow> (count + 1 \<ge> critical_reboot_patience_checks, count + 1)
      | MEM_NORMAL \<Rightarrow> (False, 0))"

fun low_memory_checks :: "low_memory_level list \<Rightarrow> u32 \<Rightarrow> bool \<times> u32" where
  "low_memory_checks [] count = (False, count)"
| "low_memory_checks (l # ls) count =
     (let (restart, count') = low_memory_check l count in
      if restart then (True, count') else low_memory_checks ls count')"

definition criticals :: "low_memory_level list \<Rightarrow> nat" where
  "criticals ls = length (filter ((=) MEM_CRITICAL) ls)"

text \<open>The checks since memory was last normal.\<close>

definition since_normal :: "low_memory_level list \<Rightarrow> low_memory_level list" where
  "since_normal ls = rev (takeWhile ((\<noteq>) MEM_NORMAL) (rev ls))"

lemma since_normal_simps:
  "since_normal (ls @ [MEM_NORMAL]) = []" "l \<noteq> MEM_NORMAL \<Longrightarrow> since_normal (ls @ [l]) = since_normal ls @ [l]"
  by (simp_all add: since_normal_def)

lemma low_memory_checks_append:
  "low_memory_checks (xs @ ys) c =
     (case low_memory_checks xs c of (True, c') \<Rightarrow> (True, c') | (False, c') \<Rightarrow> low_memory_checks ys c')"
  by (induction xs arbitrary: c) (auto simp: Let_def split: prod.split bool.split)

lemma tenth: "n < 10 \<Longrightarrow> (10 :: u32) \<le> of_nat n + 1 \<longleftrightarrow> n = 9"
proof -
  assume "n < 10"
  then have "n = 0 \<or> n = 1 \<or> n = 2 \<or> n = 3 \<or> n = 4 \<or> n = 5 \<or> n = 6 \<or> n = 7 \<or> n = 8 \<or> n = 9"
    by presburger
  then show ?thesis
    by (elim disjE) (simp_all add: word_le_def)
qed

lemma checks_count:
  "(\<not> fst (low_memory_checks ls 0) \<longrightarrow> criticals (since_normal ls) < 10 \<and>
      snd (low_memory_checks ls 0) = of_nat (criticals (since_normal ls)))"
proof (induction ls rule: rev_induct)
  case Nil
  then show ?case
    by (simp add: criticals_def since_normal_def)
next
  case (snoc l ls)
  show ?case
  proof (cases "fst (low_memory_checks ls 0)")
    case True
    then show ?thesis
      by (cases "low_memory_checks ls 0") (simp add: low_memory_checks_append)
  next
    case False
    then obtain c where c: "low_memory_checks ls 0 = (False, of_nat (criticals (since_normal ls)))"
        "criticals (since_normal ls) < 10"
      using snoc by (metis prod.collapse)
    show ?thesis
      using c tenth [OF c(2)]
      by (cases l) (auto simp: low_memory_checks_append low_memory_check_def since_normal_simps criticals_def
          critical_reboot_patience_checks_def Let_def since_normal_def add.commute)
  qed
qed

text \<open>Low memory restarts the device exactly at the tenth critical check since memory
  was last found normal; warnings in between neither count nor start the count
  anew, so the ten need not follow each other.\<close>

lemma restart_after_ten_criticals:
  assumes "\<not> fst (low_memory_checks ls 0)"
  shows "fst (low_memory_checks (ls @ [l]) 0) \<longleftrightarrow> l = MEM_CRITICAL \<and> criticals (since_normal ls) = 9"
proof -
  have c: "low_memory_checks ls 0 = (False, of_nat (criticals (since_normal ls)))" "criticals (since_normal ls) < 10"
    using checks_count [of ls] assms by (metis prod.collapse)+
  show ?thesis
    using c(1) tenth [OF c(2)] by (cases l) (simp_all add: low_memory_checks_append low_memory_check_def critical_reboot_patience_checks_def Let_def)
qed

lemma restart_after_ten_criticals_witness:
  "fst (low_memory_checks (concat (replicate 9 [MEM_CRITICAL, MEM_WARNING]) @ [MEM_CRITICAL]) 0)"
proof -
  have "\<not> fst (low_memory_checks (concat (replicate 9 [MEM_CRITICAL, MEM_WARNING])) 0)"
    "criticals (since_normal (concat (replicate 9 [MEM_CRITICAL, MEM_WARNING]))) = 9"
    by code_simp+
  then show ?thesis
    using restart_after_ten_criticals by blast
qed

section \<open>A screen that stands still\<close>

definition ui_stall_threshold_ms :: u32 where
  "ui_stall_threshold_ms = 300000"

record stall_watch =
  sw_frame_id :: u32
  sw_progress_ms :: u32
  sw_redraw_tried :: bool
  sw_reinit_tried :: bool

definition new_stall_watch :: stall_watch where
  "new_stall_watch = \<lparr>sw_frame_id = 0, sw_progress_ms = 0, sw_redraw_tried = False, sw_reinit_tried = False\<rparr>"

datatype stall_remedy = No_remedy | Redraw | Reinit_display | Restart_device

definition stall_check :: "u32 \<Rightarrow> u32 \<Rightarrow> stall_watch \<Rightarrow> stall_remedy \<times> stall_watch" where
  "stall_check now frame_id sw =
     (if frame_id \<noteq> sw_frame_id sw
      then (No_remedy, \<lparr>sw_frame_id = frame_id, sw_progress_ms = now, sw_redraw_tried = False, sw_reinit_tried = False\<rparr>)
      else if now - sw_progress_ms sw \<ge> ui_stall_threshold_ms then
        (if \<not> sw_redraw_tried sw then (Redraw, sw\<lparr>sw_redraw_tried := True\<rparr>)
         else if \<not> sw_reinit_tried sw then (Reinit_display, sw\<lparr>sw_reinit_tried := True\<rparr>)
         else (Restart_device, sw))
      else (No_remedy, sw))"

fun stall_checks :: "(u32 \<times> u32) list \<Rightarrow> stall_watch \<Rightarrow> stall_remedy list" where
  "stall_checks [] sw = []"
| "stall_checks ((now, frame_id) # cs) sw =
     (let (r, sw') = stall_check now frame_id sw in r # stall_checks cs sw')"

text \<open>A restart is the last of three steps: the screen was drawn again and the display set
  up again before, and no frame was finished since.\<close>

lemma restart_is_last_resort:
  assumes "stall_check now frame_id sw = (Restart_device, sw')"
  shows "sw_redraw_tried sw \<and> sw_reinit_tried sw \<and> frame_id = sw_frame_id sw \<and>
    ui_stall_threshold_ms \<le> now - sw_progress_ms sw"
  using assms by (auto simp: stall_check_def split: if_splits)

lemma stalled_screen_restarts:
  assumes "\<forall>(now, frame_id)\<in>set [c1, c2, c3]. frame_id = sw_frame_id sw \<and> ui_stall_threshold_ms \<le> now - sw_progress_ms sw"
    and "\<not> sw_redraw_tried sw" "\<not> sw_reinit_tried sw"
  shows "stall_checks [c1, c2, c3] sw = [Redraw, Reinit_display, Restart_device]"
  using assms by (cases c1; cases c2; cases c3) (simp add: stall_check_def)

text \<open>The remedies work if they finish a frame: the next check sees it and starts
  over.\<close>

lemma frame_ends_stall:
  "frame_id \<noteq> sw_frame_id sw \<Longrightarrow> fst (stall_check now frame_id sw) = No_remedy \<and>
   \<not> sw_redraw_tried (snd (stall_check now frame_id sw)) \<and> \<not> sw_reinit_tried (snd (stall_check now frame_id sw))"
  by (simp add: stall_check_def)

end
