(* ===== verification/Main_Loop.thy ===== *)
theory Main_Loop
  imports Front_Panel Scanner Keypad Ui_Sync Status_Report Serial_Console Loop_Policies
begin

text \<open>
  The whole device: \<^verbatim>\<open>setup()\<close> and \<^verbatim>\<open>loop()\<close> of the sketch
  (kiosk_runtime_v2.ino) over the panel, the drivers, the console, the bundle update, the
  heartbeat and the counters of the loop.  An iteration is a list of stages in the
  order of the source; once one of them restarts the device, the rest does not run.
  One moment serves a whole iteration.  What the drivers read, what the network task
  and the board report are arguments.
\<close>

section \<open>State\<close>

record ('d, 'n, 'b) firmware =
  fw_platform :: "('d, 'n) platform"
  fw_blobs :: "'n blob_ops"
  fw_wire :: "'b wire_ops"
  fw_sha :: "string \<Rightarrow> bytes"
  fw_build :: build_info

record ('d, 'n, 'b) device =
  dv_panel :: "('d, 'n) panel"
  dv_scanner :: scanner
  dv_keypad :: keypad
  dv_bus :: 'b
  dv_line :: string
  dv_ui_sync :: ui_sync
  dv_bootstrap :: bootstrap_result
  dv_self_test :: self_test
  dv_diagnostics :: boot_diagnostics
  dv_heartbeat_ms :: u32
  dv_reconnect_mark :: u32
  dv_schedule :: bootstrap_schedule
  dv_time_started :: bool
  dv_compaction_check_ms :: u32
  dv_compaction_was_active :: bool
  dv_memory_check_ms :: u32
  dv_criticals :: u32
  dv_diagnostics_ms :: u32
  dv_stall :: stall_watch

record loop_input =
  li_moment :: moment
  li_scanned :: string
  li_portal_request :: "portal_request option"
  li_wifi_up :: bool
  li_typed :: string
  li_scans :: scans
  li_board :: board_reading
  li_frame_id :: u32

abbreviation dv_kiosk :: "('d, 'n, 'b) device \<Rightarrow> ('d, 'n) kiosk" where
  "dv_kiosk d \<equiv> fp_kiosk (dv_panel d)"

abbreviation li_now :: "loop_input \<Rightarrow> u32" where
  "li_now i \<equiv> m_now (li_moment i)"

definition upd_kiosk :: "(('d, 'n) kiosk \<Rightarrow> ('d, 'n) kiosk) \<Rightarrow> ('d, 'n, 'b) device \<Rightarrow> ('d, 'n, 'b) device" where
  "upd_kiosk f d = d\<lparr>dv_panel := (dv_panel d)\<lparr>fp_kiosk := f (dv_kiosk d)\<rparr>\<rparr>"

definition publish_all ::
  "('d, 'n, 'b) firmware \<Rightarrow> moment \<Rightarrow> local_event list \<Rightarrow> ('d, 'n, 'b) device \<Rightarrow> ('d, 'n, 'b) device" where
  "publish_all fw m es d = d\<lparr>dv_panel := fold (panel_publish (fw_platform fw) m) es (dv_panel d)\<rparr>"

definition journal_pressure_code :: "('d, 'n) kiosk \<Rightarrow> u8" where
  "journal_pressure_code k = pressure_code (index_pressure (ej_index (k_journal k)))"

definition note_recovery ::
  "u32 \<Rightarrow> recovery_code \<Rightarrow> string \<Rightarrow> u8 \<Rightarrow> u32 \<Rightarrow> u32 \<Rightarrow> ('d, 'n, 'b) device \<Rightarrow> ('d, 'n, 'b) device" where
  "note_recovery now code detail pressure mem_free mem_largest =
     upd_kiosk (\<lambda>k. k\<lparr>k_recovery := record_recovery_event now code detail pressure mem_free mem_largest (k_recovery k)\<rparr>)"

definition reboot_device ::
  "('d, 'n, 'b) firmware \<Rightarrow> u32 \<Rightarrow> recovery_code \<Rightarrow> string \<Rightarrow> u8 \<Rightarrow> u32 \<Rightarrow> u32 \<Rightarrow>
    ('d, 'n, 'b) device \<Rightarrow> ('d, 'n, 'b) device" where
  "reboot_device fw now code detail pressure mem_free mem_largest d0 =
     (let d = upd_kiosk (\<lambda>k.
        let (rc, n) = request_controlled_reboot (pf_nv (fw_platform fw)) now code detail pressure mem_free mem_largest
              (k_recovery k, k_nvs k) in
        k\<lparr>k_recovery := rc, k_seq := (k_seq k)\<lparr>dq_nvs := n\<rparr>\<rparr>) d0 in
      d\<lparr>dv_panel := (dv_panel d)\<lparr>fp_restarting := True\<rparr>\<rparr>)"

definition safe_mode :: "('d, 'n, 'b) device \<Rightarrow> bool" where
  "safe_mode d = rc_safe_mode (k_recovery (dv_kiosk d))"

section \<open>Drivers, controller, station, console\<close>

definition scanner_stage ::
  "('d, 'n, 'b) firmware \<Rightarrow> loop_input \<Rightarrow> ('d, 'n, 'b) device \<Rightarrow> ('d, 'n, 'b) device" where
  "scanner_stage fw i d =
     (let (es, sc) = scanner_poll (li_now i) (li_scanned i) (dv_scanner d) in
      publish_all fw (li_moment i) es (d\<lparr>dv_scanner := sc\<rparr>))"

definition keypad_stage ::
  "('d, 'n, 'b) firmware \<Rightarrow> loop_input \<Rightarrow> ('d, 'n, 'b) device \<Rightarrow> ('d, 'n, 'b) device" where
  "keypad_stage fw i d =
     (let (es, reinit, kp, b) = keypad_poll (fw_wire fw) (li_now i) (dv_keypad d) (dv_bus d);
          d1 = publish_all fw (li_moment i) es (d\<lparr>dv_keypad := kp, dv_bus := b\<rparr>) in
      if reinit
      then note_recovery (li_now i) KEYPAD_REINIT ''sustained I2C errors -- re-initialized the bus'' 0 0 0 d1
      else d1)"

definition controller_stage ::
  "('d, 'n, 'b) firmware \<Rightarrow> loop_input \<Rightarrow> ('d, 'n, 'b) device \<Rightarrow> ('d, 'n, 'b) device" where
  "controller_stage fw i d =
     d\<lparr>dv_panel := panel_tick (fw_platform fw) (li_moment i) (li_portal_request i) (li_wifi_up i) (dv_panel d)\<rparr>"

definition station_stage ::
  "('d, 'n, 'b) firmware \<Rightarrow> loop_input \<Rightarrow> ('d, 'n, 'b) device \<Rightarrow> ('d, 'n, 'b) device" where
  "station_stage fw i d = d\<lparr>dv_panel := panel_wifi (fw_platform fw) (li_moment i) (li_wifi_up i) (dv_panel d)\<rparr>"

definition console_stage ::
  "('d, 'n, 'b) firmware \<Rightarrow> loop_input \<Rightarrow> ('d, 'n, 'b) device \<Rightarrow> ('d, 'n, 'b) device option" where
  "console_stage fw i d =
     map_option (\<lambda>(l, kp, fp). d\<lparr>dv_line := l, dv_keypad := kp, dv_panel := fp\<rparr>)
       (console_poll (fw_blobs fw) (li_scans i) (fw_platform fw) (li_moment i) (li_typed i)
         (dv_line d, dv_keypad d, dv_panel d))"

definition runtime_stage ::
  "('d, 'n, 'b) firmware \<Rightarrow> loop_input \<Rightarrow> ('d, 'n, 'b) device \<Rightarrow> ('d, 'n, 'b) device" where
  "runtime_stage fw i = upd_kiosk (kiosk_poll (fw_platform fw) (li_moment i))"

definition reconnect_stage ::
  "('d, 'n, 'b) firmware \<Rightarrow> loop_input \<Rightarrow> ('d, 'n, 'b) device \<Rightarrow> ('d, 'n, 'b) device" where
  "reconnect_stage fw i d0 =
     (let (forced, mark) = network_self_recovery (rq_tcp_connect_fail (k_requests (dv_kiosk d0))) (dv_reconnect_mark d0);
          d = d0\<lparr>dv_reconnect_mark := mark\<rparr> in
      if \<not> forced then d
      else
      let d1 = note_recovery (li_now i) NETWORK_TIMEOUT
            ''sustained TCP_CONNECT_FAIL despite Wi-Fi CONNECTED -- forcing reconnect'' 0 0 0 d;
          (rs, es, w) = wifi_force_reconnect (li_now i) (fp_wifi (dv_panel d1)) in
      publish_all fw (li_moment i) es (d1\<lparr>dv_panel := (dv_panel d1)\<lparr>fp_wifi := w\<rparr>\<rparr>))"

section \<open>While the station is connected\<close>

definition rearm_step :: "('d, 'n, 'b) device \<Rightarrow> ('d, 'n, 'b) device" where
  "rearm_step d =
     (let (rearmed, b) = bootstrap_rearm (wm_reconnect_count (fp_wifi (dv_panel d))) (dv_schedule d);
          d1 = d\<lparr>dv_schedule := b\<rparr> in
      if rearmed then upd_kiosk start_offline_replay_if_needed d1 else d1)"

definition clock_step :: "loop_input \<Rightarrow> ('d, 'n, 'b) device \<Rightarrow> ('d, 'n, 'b) device" where
  "clock_step i d =
     upd_kiosk (\<lambda>k.
       let t = (if dv_time_started d then k_time k else time_sync_begin (li_now i) (k_time k)) in
       k\<lparr>k_time := time_sync_poll (li_now i) (m_epoch (li_moment i)) t\<rparr>)
     (d\<lparr>dv_time_started := True\<rparr>)"

definition bootstrap_body :: "('d, 'n, 'b) firmware \<Rightarrow> ('d, 'n, 'b) device \<Rightarrow> string" where
  "bootstrap_body fw d =
     (let k = dv_kiosk d; p = fw_platform fw in
      build_request_body (identity_device_id (pf_nv p) (k_nvs k)) (identity_hardware_id (pf_mac p))
        (di_boot_id (dv_diagnostics d)) (ucast (device_sequence_current (k_seq k))))"

definition bootstrap_ask_step ::
  "('d, 'n, 'b) firmware \<Rightarrow> loop_input \<Rightarrow> ('d, 'n, 'b) device \<Rightarrow> ('d, 'n, 'b) device" where
  "bootstrap_ask_step fw i d =
     (let now = li_now i; p = fw_platform fw in
      if \<not> bootstrap_due now (dv_schedule d) then d
      else
      let url = derive_sibling_endpoint (config_api_endpoint (pf_nv p) (k_nvs (dv_kiosk d))) ''bootstrap'' in
      if url = [] then
        (let (gave_up, b) = bootstrap_no_endpoint now (dv_schedule d); d1 = d\<lparr>dv_schedule := b\<rparr> in
         if gave_up then upd_kiosk (on_bootstrap_result p (li_moment i) (new_bootstrap_result\<lparr>br_status := BS_FAILED\<rparr>)) d1
         else d1)
      else
      let (ok, k) = kiosk_enqueue_bootstrap url (bootstrap_body fw d) (dv_kiosk d) in
      upd_kiosk (\<lambda>_. k) (d\<lparr>dv_schedule := bootstrap_enqueued ok (dv_schedule d)\<rparr>))"

definition bootstrap_take_step ::
  "('d, 'n, 'b) firmware \<Rightarrow> loop_input \<Rightarrow> ('d, 'n, 'b) device \<Rightarrow> ('d, 'n, 'b) device" where
  "bootstrap_take_step fw i d0 =
     (let now = li_now i; p = fw_platform fw; (answer, k) = take_bootstrap_result (dv_kiosk d0);
          d = upd_kiosk (\<lambda>_. k) d0 in
      case answer of
        None \<Rightarrow> d
      | Some r \<Rightarrow>
          let res = parse_response now (ho_http_status (nr_outcome r)) (nr_response_body r);
              d1 = upd_kiosk (on_bootstrap_result p (li_moment i) res)
                (d\<lparr>dv_bootstrap := res, dv_schedule := bootstrap_answered now (br_status res) (dv_schedule d)\<rparr>);
              d2 = (if br_status res = BS_OK then upd_kiosk start_offline_replay_if_needed d1 else d1) in
          if safe_mode d2 then d2
          else
          let (uy, k2) = ui_check_desired (config_api_endpoint (pf_nv p) (k_nvs (dv_kiosk d2))) (br_ui_bundle_version res)
                (c_str (br_ui_bundle_hash res)) (dv_ui_sync d2, dv_kiosk d2) in
          upd_kiosk (\<lambda>_. k2) (d2\<lparr>dv_ui_sync := uy\<rparr>))"

definition heartbeat_step ::
  "('d, 'n, 'b) firmware \<Rightarrow> loop_input \<Rightarrow> ('d, 'n, 'b) device \<Rightarrow> ('d, 'n, 'b) device" where
  "heartbeat_step fw i d =
     (if safe_mode d then d
      else
      let p = fw_platform fw;
          report = build_status_json (fw_build fw) (li_board i) (li_now i) (dv_self_test d) (dv_keypad d)
            (dv_bootstrap d) (fp_wifi (dv_panel d)) p;
          (t, di, k) = heartbeat_poll (li_now i) (li_wifi_up i) (config_api_endpoint (pf_nv p) (k_nvs (dv_kiosk d)))
            report (dv_heartbeat_ms d, dv_diagnostics d, dv_kiosk d) in
      upd_kiosk (\<lambda>_. k) (d\<lparr>dv_heartbeat_ms := t, dv_diagnostics := di\<rparr>))"

definition online_stage ::
  "('d, 'n, 'b) firmware \<Rightarrow> loop_input \<Rightarrow> ('d, 'n, 'b) device \<Rightarrow> ('d, 'n, 'b) device" where
  "online_stage fw i d =
     (if wm_state (fp_wifi (dv_panel d)) \<noteq> W_CONNECTED then d
      else heartbeat_step fw i (bootstrap_take_step fw i (bootstrap_ask_step fw i (clock_step i (rearm_step d)))))"

definition bundle_stage ::
  "('d, 'n, 'b) firmware \<Rightarrow> loop_input \<Rightarrow> ('d, 'n, 'b) device \<Rightarrow> ('d, 'n, 'b) device" where
  "bundle_stage fw i d =
     (if safe_mode d then d
      else
      let p = fw_platform fw; (activated, uy, k) = ui_sync_poll p (fw_sha fw) (dv_ui_sync d, dv_kiosk d);
          d1 = upd_kiosk (\<lambda>_. k) (d\<lparr>dv_ui_sync := uy\<rparr>) in
      if activated then upd_kiosk (refresh_idle_screen p (li_moment i)) d1 else d1)"

section \<open>Housekeeping\<close>

definition compaction_check_interval_ms :: u32 where
  "compaction_check_interval_ms = 30000"

definition low_memory_check_interval_ms :: u32 where
  "low_memory_check_interval_ms = 1000"

definition diagnostics_print_interval_ms :: u32 where
  "diagnostics_print_interval_ms = 30000"

definition upd_journal :: "('d event_journal \<Rightarrow> 'd event_journal) \<Rightarrow> ('d, 'n, 'b) device \<Rightarrow> ('d, 'n, 'b) device" where
  "upd_journal f = upd_kiosk (\<lambda>k. k\<lparr>k_journal := f (k_journal k)\<rparr>)"

definition start_compaction ::
  "('d, 'n, 'b) firmware \<Rightarrow> u32 \<Rightarrow> ('d, 'n, 'b) device \<Rightarrow> ('d, 'n, 'b) device" where
  "start_compaction fw now = upd_journal (\<lambda>ej. snd (begin_compaction (pf_fs (fw_platform fw)) default_policy now ej))"

definition compaction_stage ::
  "('d, 'n, 'b) firmware \<Rightarrow> loop_input \<Rightarrow> ('d, 'n, 'b) device \<Rightarrow> ('d, 'n, 'b) device option" where
  "compaction_stage fw i d =
     (let now = li_now i; ej = k_journal (dv_kiosk d) in
      if ej_compaction_active ej then
        (case compact_tick (pf_fs (fw_platform fw)) now ej of
           None \<Rightarrow> None
         | Some ej1 \<Rightarrow> Some ((upd_journal (\<lambda>_. ej1) d)\<lparr>dv_compaction_was_active := True\<rparr>))
      else
      let d1 = d\<lparr>dv_compaction_was_active := False\<rparr> in
      if now - dv_compaction_check_ms d1 \<ge> compaction_check_interval_ms then
        (let d2 = d1\<lparr>dv_compaction_check_ms := now\<rparr> in
         Some (if should_consider_compaction (ej_index ej) then start_compaction fw now d2 else d2))
      else Some d1)"

definition relieve_memory ::
  "('d, 'n, 'b) firmware \<Rightarrow> u32 \<Rightarrow> ('d, 'n, 'b) device \<Rightarrow> ('d, 'n, 'b) device" where
  "relieve_memory fw now d =
     (let ej = k_journal (dv_kiosk d) in
      if \<not> ej_compaction_active ej \<and> record_count (ej_index ej) > 0 then start_compaction fw now d else d)"

definition memory_stage ::
  "('d, 'n, 'b) firmware \<Rightarrow> loop_input \<Rightarrow> ('d, 'n, 'b) device \<Rightarrow> ('d, 'n, 'b) device" where
  "memory_stage fw i d0 =
     (let now = li_now i; m = li_moment i in
      if now - dv_memory_check_ms d0 < low_memory_check_interval_ms then d0
      else
      let level = classify_low_memory (m_mem_largest m);
          (restart, count) = low_memory_check level (dv_criticals d0);
          d1 = d0\<lparr>dv_memory_check_ms := now, dv_criticals := count\<rparr>;
          d2 = (if level = MEM_NORMAL then d1 else relieve_memory fw now d1);
          pressure = journal_pressure_code (dv_kiosk d2) in
      case level of
        MEM_NORMAL \<Rightarrow> d2
      | MEM_WARNING \<Rightarrow>
          note_recovery now LOW_MEMORY ''internal SRAM WARNING -- largest contiguous block low''
            pressure (m_mem_free m) (m_mem_largest m) d2
      | MEM_CRITICAL \<Rightarrow>
          if restart then
            reboot_device fw now LOW_MEMORY
              ''internal SRAM stayed CRITICAL despite incremental journal compaction -- no more application-level relief available''
              pressure (m_mem_free m) (m_mem_largest m) d2
          else
            note_recovery now LOW_MEMORY ''internal SRAM CRITICAL -- incremental journal compaction running''
              pressure (m_mem_free m) (m_mem_largest m) d2)"

definition stall_step ::
  "('d, 'n, 'b) firmware \<Rightarrow> loop_input \<Rightarrow> ('d, 'n, 'b) device \<Rightarrow> ('d, 'n, 'b) device" where
  "stall_step fw i d0 =
     (let now = li_now i; m = li_moment i;
          (remedy, sw) = stall_check now (li_frame_id i) (dv_stall d0);
          d = d0\<lparr>dv_stall := sw\<rparr>; pressure = journal_pressure_code (dv_kiosk d);
          redraw = upd_kiosk (refresh_idle_screen (fw_platform fw) m) in
      case remedy of
        No_remedy \<Rightarrow> d
      | Redraw \<Rightarrow> redraw (note_recovery now UI_STALL ''no render in 5min -- forcing one redraw'' pressure 0 0 d)
      | Reinit_display \<Rightarrow>
          redraw (note_recovery now UI_STALL ''forced redraw didn't advance frame_id -- reinitializing display''
            pressure 0 0 d)
      | Restart_device \<Rightarrow>
          reboot_device fw now UI_STALL ''display reinit did not recover rendering -- unrecoverable at this layer''
            pressure (m_mem_free m) (m_mem_largest m) d)"

definition diagnostics_stage ::
  "('d, 'n, 'b) firmware \<Rightarrow> loop_input \<Rightarrow> ('d, 'n, 'b) device \<Rightarrow> ('d, 'n, 'b) device" where
  "diagnostics_stage fw i d =
     (let now = li_now i in
      if now - dv_diagnostics_ms d < diagnostics_print_interval_ms then d
      else
      let d1 = d\<lparr>dv_diagnostics_ms := now, dv_diagnostics := refresh_memory_fields (li_board i) (dv_diagnostics d)\<rparr>;
          d2 = upd_kiosk (\<lambda>k.
            let (rc, n) = recovery_supervisor_mark_stable (pf_nv (fw_platform fw)) (k_recovery k, k_nvs k) in
            k\<lparr>k_recovery := rc, k_seq := (k_seq k)\<lparr>dq_nvs := n\<rparr>\<rparr>) d1 in
      stall_step fw i d2)"

section \<open>The loop\<close>

fun run_stages ::
  "(('d, 'n, 'b) device \<Rightarrow> ('d, 'n, 'b) device option) list \<Rightarrow> ('d, 'n, 'b) device \<Rightarrow> ('d, 'n, 'b) device option" where
  "run_stages [] d = Some d"
| "run_stages (s # ss) d =
     (if fp_restarting (dv_panel d) then Some d
      else case s d of None \<Rightarrow> None | Some d1 \<Rightarrow> run_stages ss d1)"

definition device_loop ::
  "('d, 'n, 'b) firmware \<Rightarrow> loop_input \<Rightarrow> ('d, 'n, 'b) device \<Rightarrow> ('d, 'n, 'b) device option" where
  "device_loop fw i =
     run_stages [Some \<circ> scanner_stage fw i, Some \<circ> keypad_stage fw i, Some \<circ> controller_stage fw i,
       Some \<circ> station_stage fw i, console_stage fw i, Some \<circ> runtime_stage fw i, Some \<circ> reconnect_stage fw i,
       Some \<circ> online_stage fw i, Some \<circ> bundle_stage fw i, compaction_stage fw i, Some \<circ> memory_stage fw i,
       Some \<circ> diagnostics_stage fw i]"

section \<open>What a stage may do\<close>

text \<open>A change of the panel that keeps it in order and that the kiosk takes part in with
  its own operations only.\<close>

definition moves :: "('d, 'n) platform \<Rightarrow> ('d, 'n) panel \<Rightarrow> ('d, 'n) panel \<Rightarrow> bool" where
  "moves p fp fp' = ((panel_ok fp \<longrightarrow> panel_ok fp') \<and> kiosk_run p (fp_kiosk fp) (fp_kiosk fp'))"

named_theorems moving

lemma moves_refl [simp, moving]: "moves p fp fp"
  by (simp add: moves_def run_start)

lemma moves_trans: "moves p a b \<Longrightarrow> moves p b c \<Longrightarrow> moves p a c"
  by (auto simp: moves_def intro: kiosk_run_trans)

lemma run_changes:
  assumes "k' = k\<lparr>k_journal := k_journal k', k_seq := (k_seq k)\<lparr>dq_nvs := k_nvs k'\<rparr>, k_time := k_time k', k_ui := k_ui k',
    k_recovery := k_recovery k', k_overlay := k_overlay k'\<rparr>"
  shows "kiosk_run p k k'"
  by (subst assms) (intro run_others run_start)

lemma moves_kiosk:
  "kiosk_run p (fp_kiosk fp) k \<Longrightarrow> k_overlay k = k_overlay (fp_kiosk fp) \<Longrightarrow> moves p fp (fp\<lparr>fp_kiosk := k\<rparr>)"
  by (simp add: moves_def panel_ok_def overlay_open_def)

lemma moves_op: "k = kiosk_apply p op (fp_kiosk fp) \<Longrightarrow> moves p fp (fp\<lparr>fp_kiosk := k\<rparr>)"
  by (intro moves_kiosk) (auto intro: run_op run_start)

lemma run_act: "kiosk_run p (fp_kiosk fp) (fp_kiosk (panel_act p m a fp))"
proof (cases a)
  case (Overlay b)
  then show ?thesis
    by (cases "fp_kiosk fp") (simp add: panel_act_def k_nvs_def run_changes)
next
  case Do_resync
  then show ?thesis
    using run_op [OF run_start, of p "fp_kiosk fp" Op_manual_resync] by (simp add: panel_act_def)
next
  case Do_return_to_state
  then show ?thesis
    using run_op [OF run_start, of p "fp_kiosk fp" "Op_refresh m"] by (simp add: panel_act_def)
qed (simp_all add: panel_act_def run_start)

lemma run_acts: "kiosk_run p (fp_kiosk fp) (fp_kiosk (panel_acts p m as fp))"
proof (induction as arbitrary: fp)
  case (Cons a as)
  show ?case
    using kiosk_run_trans [OF Cons.IH run_act] by simp
qed (simp add: run_start)

lemma run_publish_both: "kiosk_run p (fp_kiosk fp) (fp_kiosk (fst (publish_to_both p m e fp)))"
proof -
  let ?fp = "fp\<lparr>fp_kiosk := handle_local_event p m e (fp_kiosk fp)\<rparr>"
  obtain as rm start where m: "menu_handle_event (m_now m) (portal_active (fp_portal fp)) (po_ap_ssid (fp_portal fp)) e
      (fp_menu fp) = (as, rm, start)"
    by (metis prod_cases3)
  have "kiosk_run p (fp_kiosk fp) (fp_kiosk ?fp)"
    using run_op [OF run_start, of p "fp_kiosk fp" "Op_local m e"] by simp
  moreover have "fp_kiosk (fst (publish_to_both p m e fp)) = fp_kiosk (panel_acts p m as (?fp\<lparr>fp_menu := rm\<rparr>))"
    using m by (simp add: publish_to_both_def)
  ultimately show ?thesis
    using kiosk_run_trans [OF run_acts [of p "?fp\<lparr>fp_menu := rm\<rparr>" m as]] by simp
qed

lemma run_publish_recovery: "kiosk_run p (fp_kiosk fp) (fp_kiosk (publish_recovery p m es fp))"
  unfolding publish_recovery_def
proof (induction es arbitrary: fp)
  case (Cons e es)
  show ?case
    using kiosk_run_trans [OF Cons.IH run_publish_both] by simp
qed (simp add: run_start)

lemma run_start_portal: "kiosk_run p (fp_kiosk fp) (fp_kiosk (panel_start_portal p m fp))"
proof -
  obtain rs es po where s: "portal_start (pf_nv p) (pf_mac p) (m_now m) (k_nvs (fp_kiosk fp)) (fp_portal fp) = (rs, es, po)"
    by (metis prod_cases3)
  show ?thesis
    using run_publish_recovery [of p "fp\<lparr>fp_portal := po\<rparr>" m es] by (simp add: panel_start_portal_def s)
qed

lemma run_finish: "kiosk_run p k (fp_kiosk (fst r)) \<Longrightarrow> kiosk_run p k (fp_kiosk (panel_finish p m r))"
  by (cases r; cases "snd r") (auto simp: panel_finish_def intro: kiosk_run_trans run_start_portal)

lemma run_publish: "kiosk_run p (fp_kiosk fp) (fp_kiosk (panel_publish p m e fp))"
  unfolding panel_publish_def by (rule run_finish) (rule run_publish_both)

lemma moves_publish [moving]: "(\<And>t. e \<noteq> Wifi_recovery_state t) \<Longrightarrow> moves p fp (panel_publish p m e fp)"
  by (simp add: moves_def panel_publish_ok run_publish)

lemma moves_publishes:
  "\<forall>e\<in>set es. \<forall>t. e \<noteq> Wifi_recovery_state t \<Longrightarrow> moves p fp (fold (panel_publish p m) es fp)"
proof (induction es arbitrary: fp)
  case (Cons e es)
  then show ?case
    using moves_trans [OF moves_publish] by (metis fold_simps(2) list.set_intros)
qed simp

lemma moves_tick [moving]: "moves p fp (panel_tick p m req up fp)"
proof -
  have "kiosk_run p (fp_kiosk fp) (fp_kiosk (panel_tick p m req up fp))"
  proof (cases "portal_active (fp_portal fp)")
    case True
    obtain restart rs es po n where s: "portal_poll (pf_nv p) (m_now m) req up (k_nvs (fp_kiosk fp)) (fp_portal fp) =
        (restart, rs, es, po, n)"
      by (metis prod_cases5)
    let ?k = "(fp_kiosk fp)\<lparr>k_seq := (k_seq (fp_kiosk fp))\<lparr>dq_nvs := n\<rparr>\<rparr>"
    have "kiosk_run p (fp_kiosk fp) ?k"
      by (rule run_changes) (simp add: k_nvs_def)
    then show ?thesis
      using True s kiosk_run_trans [OF run_publish_recovery [of p "fp\<lparr>fp_portal := po,
          fp_restarting := (fp_restarting fp \<or> restart), fp_kiosk := ?k\<rparr>" m es]]
      by (simp add: panel_tick_def Let_def)
  next
    case False
    obtain as rm start where s: "menu_tick (m_now m) (fp_menu fp) = (as, rm, start)"
      by (metis prod_cases3)
    show ?thesis
      using False s run_acts [of p "fp\<lparr>fp_menu := rm\<rparr>" m as] by (simp add: panel_tick_def run_finish)
  qed
  then show ?thesis
    by (simp add: moves_def panel_tick_ok)
qed

lemma moves_station [moving]: "moves p fp (panel_wifi p m up fp)"
proof -
  obtain rs es w where s: "wifi_poll (m_now m) up (fp_wifi fp) = (rs, es, w)"
    by (metis prod_cases3)
  have "moves p fp (fp\<lparr>fp_wifi := w\<rparr>)"
    by (simp add: moves_def panel_ok_def overlay_open_def run_start)
  moreover have "\<forall>e\<in>set es. \<forall>t. e \<noteq> Wifi_recovery_state t"
    using wifi_events_are_changes [OF s] by auto
  ultimately show ?thesis
    using s by (auto simp: panel_wifi_def intro: moves_trans moves_publishes)
qed


text \<open>A change of the kiosk alone.\<close>

definition calm :: "('d, 'n) platform \<Rightarrow> ('d, 'n) kiosk \<Rightarrow> ('d, 'n) kiosk \<Rightarrow> bool" where
  "calm p k k' = (kiosk_run p k k' \<and> k_overlay k' = k_overlay k)"

lemma calm_refl [simp]: "calm p k k"
  by (simp add: calm_def run_start)

lemma calm_trans: "calm p a b \<Longrightarrow> calm p b c \<Longrightarrow> calm p a c"
  by (auto simp: calm_def intro: kiosk_run_trans)

lemma calm_apply: "calm p k (kiosk_apply p op k)"
  by (simp add: calm_def run_op run_start)

lemmas calm_ops [simp] =
  calm_apply [where op = "Op_refresh m" for m, unfolded kiosk_apply.simps]
  calm_apply [where op = "Op_refresh m" for m, unfolded kiosk_apply.simps refresh_idle_screen_def]
  calm_apply [where op = "Op_poll m" for m, unfolded kiosk_apply.simps]
  calm_apply [where op = Op_reconnected, unfolded kiosk_apply.simps]
  calm_apply [where op = "Op_bootstrap_result m r" for m r, unfolded kiosk_apply.simps]
  calm_apply [where op = Op_take_bootstrap, unfolded kiosk_apply.simps]
  calm_apply [where op = Op_take_ui_bundle, unfolded kiosk_apply.simps]
  calm_apply [where op = "Op_enqueue_bootstrap u b" for u b, unfolded kiosk_apply.simps]
  calm_apply [where op = "Op_enqueue_ui_bundle u" for u, unfolded kiosk_apply.simps]
  calm_apply [where op = "Op_begin m s" for m s, unfolded kiosk_apply.simps]

lemma calm_parts [simp]:
  "calm p k (k\<lparr>k_journal := j\<rparr>)" "calm p k (k\<lparr>k_time := t\<rparr>)" "calm p k (k\<lparr>k_ui := u\<rparr>)"
  "calm p k (k\<lparr>k_recovery := rc\<rparr>)" "calm p k (k\<lparr>k_seq := (k_seq k)\<lparr>dq_nvs := n\<rparr>\<rparr>)"
  "calm p k (k\<lparr>k_recovery := rc, k_seq := (k_seq k)\<lparr>dq_nvs := n\<rparr>\<rparr>)"
  "calm p k (k\<lparr>k_ui := u, k_journal := j, k_seq := (k_seq k)\<lparr>dq_nvs := n\<rparr>\<rparr>)"
  by (cases k; simp add: k_nvs_def calm_def run_changes)+

lemma moves_calm: "moves p fp fp1 \<Longrightarrow> calm p (fp_kiosk fp1) k \<Longrightarrow> moves p fp (fp1\<lparr>fp_kiosk := k\<rparr>)"
  by (auto simp: calm_def intro: moves_trans moves_kiosk)

lemma moves_upd:
  "moves p fp (dv_panel d) \<Longrightarrow> calm p (dv_kiosk d) (f (dv_kiosk d)) \<Longrightarrow> moves p fp (dv_panel (upd_kiosk f d))"
  by (simp add: upd_kiosk_def moves_calm)

lemma moves_note [moving]:
  "moves p fp (dv_panel d) \<Longrightarrow> moves p fp (dv_panel (note_recovery now c s pr f l d))"
  unfolding note_recovery_def by (rule moves_upd) simp_all


lemma moves_restart: "moves p fp fp1 \<Longrightarrow> moves p fp (fp1\<lparr>fp_restarting := b\<rparr>)"
  by (simp add: moves_def panel_ok_def overlay_open_def)

lemma moves_wifi: "moves p fp fp1 \<Longrightarrow> moves p fp (fp1\<lparr>fp_wifi := w\<rparr>)"
  by (simp add: moves_def panel_ok_def overlay_open_def)

lemma moves_reboot [moving]:
  "moves p fp (dv_panel d) \<Longrightarrow> moves p fp (dv_panel (reboot_device fw now c s pr f l d))"
  by (auto simp: reboot_device_def split_beta Let_def intro!: moves_restart moves_upd)

lemma moves_publish_all:
  "\<forall>e\<in>set es. \<forall>t. e \<noteq> Wifi_recovery_state t \<Longrightarrow> moves (fw_platform fw) fp (dv_panel d) \<Longrightarrow>
   moves (fw_platform fw) fp (dv_panel (publish_all fw m es d))"
  by (auto simp: publish_all_def intro: moves_trans moves_publishes)

section \<open>Every stage does\<close>

definition stage_moves ::
  "('d, 'n, 'b) firmware \<Rightarrow> ('d, 'n, 'b) device \<Rightarrow> ('d, 'n, 'b) device \<Rightarrow> bool" where
  "stage_moves fw d d' = moves (fw_platform fw) (dv_panel d) (dv_panel d')"

lemma emit_events: "emit_if_new now l sc = (es, sc') \<Longrightarrow> \<forall>e\<in>set es. \<forall>t. e \<noteq> Wifi_recovery_state t"
  by (auto simp: emit_if_new_def split: if_splits)

lemma flush_events: "scanner_flush now sc = (es, sc') \<Longrightarrow> \<forall>e\<in>set es. \<forall>t. e \<noteq> Wifi_recovery_state t"
  by (auto simp: scanner_flush_def emit_if_new_def Let_def split: if_splits)

lemma char_events: "\<forall>e\<in>set (fst (scanner_char now c sc)). \<forall>t. e \<noteq> Wifi_recovery_state t"
  using flush_events [of now "sc\<lparr>sc_last_byte_ms := now\<rparr>"]
  by (cases "scanner_flush now (sc\<lparr>sc_last_byte_ms := now\<rparr>)") (simp add: scanner_char_def Let_def)

lemma chars_events: "\<forall>e\<in>set (fst (scanner_chars now cs sc)). \<forall>t. e \<noteq> Wifi_recovery_state t"
  using char_events by (induction cs arbitrary: sc) (fastforce simp: Let_def split_beta)+

lemma scanner_events: "\<forall>e\<in>set (fst (scanner_poll now cs sc)). \<forall>t. e \<noteq> Wifi_recovery_state t"
proof -
  have "\<forall>e\<in>set (fst (scanner_flush now sc)). \<forall>t. e \<noteq> Wifi_recovery_state t"
    using flush_events by (cases "scanner_flush now sc") simp
  then show ?thesis
    by (simp add: scanner_poll_def split_beta Let_def ball_Un chars_events)
qed

lemma keypad_events: "\<forall>e\<in>set (fst (keypad_poll wi now kp b)). \<forall>t. e \<noteq> Wifi_recovery_state t"
  by (auto simp: keypad_poll_def debounce_def key_edges_def Let_def split: if_splits prod.splits)

lemma scanner_stage_moves: "stage_moves fw d (scanner_stage fw i d)"
  using scanner_events [of "li_now i" "li_scanned i" "dv_scanner d"]
  by (auto simp: stage_moves_def scanner_stage_def split_beta Let_def intro!: moves_publish_all)

lemma keypad_stage_moves: "stage_moves fw d (keypad_stage fw i d)"
  using keypad_events [of "fw_wire fw" "li_now i" "dv_keypad d" "dv_bus d"]
  by (auto simp: stage_moves_def keypad_stage_def split_beta Let_def intro!: moves_publish_all moves_note)

lemma controller_stage_moves: "stage_moves fw d (controller_stage fw i d)"
  by (simp add: stage_moves_def controller_stage_def moves_tick)

lemma station_stage_moves: "stage_moves fw d (station_stage fw i d)"
  by (simp add: stage_moves_def station_stage_def moves_station)

lemma runtime_stage_moves: "stage_moves fw d (runtime_stage fw i d)"
  by (simp add: stage_moves_def runtime_stage_def moves_upd)

lemma reconnect_stage_moves: "stage_moves fw d (reconnect_stage fw i d)"
  by (auto simp: stage_moves_def reconnect_stage_def wifi_force_reconnect_def wifi_set_state_def split_beta Let_def
      intro!: moves_publish_all moves_wifi moves_note)

lemma nvs_changed: "moves p fp fp1 \<Longrightarrow> moves p fp (upd_nvs f fp1)"
  by (simp add: upd_nvs_def moves_calm)

lemma moves_portal_names: "moves p fp (fp\<lparr>fp_portal := compute_ap_credentials nv mac n (fp_portal fp)\<rparr>)"
  by (simp add: moves_def panel_ok_def overlay_open_def compute_ap_credentials_def portal_active_def run_start Let_def)

lemma moves_refreshed: "moves p fp fp1 \<Longrightarrow> moves p fp (panel_refresh p m fp1)"
  by (simp add: panel_refresh_def moves_calm)

lemma command_moves: "run_command bo ss p m cmd (kp, fp) = Some (kp', fp') \<Longrightarrow> moves p fp fp'"
  by (cases cmd)
    (auto simp: run_command_def moves_portal_names Let_def split: prod.splits option.splits if_splits
      intro!: moves_restart nvs_changed moves_refreshed)

lemma console_moves: "console_poll bo ss p m cs (l, kp, fp) = Some (l', kp', fp') \<Longrightarrow> moves p fp fp'"
proof (induction cs arbitrary: l kp fp)
  case (Cons c cs)
  then show ?case
    by (auto split: if_splits option.splits dest: command_moves intro: moves_trans)
qed simp

lemma console_stage_moves: "console_stage fw i d = Some d' \<Longrightarrow> stage_moves fw d d'"
  by (auto simp: console_stage_def stage_moves_def dest: console_moves)


lemma rearm_moves: "moves p fp (dv_panel d) \<Longrightarrow> moves p fp (dv_panel (rearm_step d))"
  by (auto simp: rearm_step_def split_beta Let_def intro!: moves_upd)

lemma clock_moves: "moves p fp (dv_panel d) \<Longrightarrow> moves p fp (dv_panel (clock_step i d))"
  by (auto simp: clock_step_def Let_def intro!: moves_upd)

lemma ask_moves:
  "moves (fw_platform fw) fp (dv_panel d) \<Longrightarrow> moves (fw_platform fw) fp (dv_panel (bootstrap_ask_step fw i d))"
  by (auto simp: bootstrap_ask_step_def split_beta Let_def intro!: moves_upd)

lemma check_desired_calm: "calm p k (snd (ui_check_desired url v h (uy, k)))"
proof -
  have a: "calm p k (upd_ui f k)" for f and k :: "('a, 'b) kiosk"
    by (simp add: upd_ui_def)
  have "calm p k (snd (kiosk_enqueue_ui_bundle_fetch u (upd_ui f (upd_ui g k))))" for u f g
    by (rule calm_trans [of _ _ "upd_ui f (upd_ui g k)"]) (rule calm_trans [OF a a], simp)
  then show ?thesis
    using a by (simp add: ui_check_desired_def Let_def split_beta)
qed

lemma take_moves:
  assumes "moves (fw_platform fw) fp (dv_panel d)"
  shows "moves (fw_platform fw) fp (dv_panel (bootstrap_take_step fw i d))"
proof -
  have "moves (fw_platform fw) fp (dv_panel (upd_kiosk (\<lambda>_. snd (take_bootstrap_result (dv_kiosk d))) d))"
    by (intro moves_upd assms) simp
  then show ?thesis
    by (auto simp: bootstrap_take_step_def check_desired_calm split_beta Let_def intro!: moves_upd split: option.split)
qed

lemma heartbeat_calm: "calm p k (snd (snd (heartbeat_poll now up url report (t, di, k))))"
proof -
  have "calm p k (k\<lparr>k_net := snd (enqueue_heartbeat u b (k_net k))\<rparr>)" for u b
    by (simp add: calm_def run_heartbeat run_start)
  then show ?thesis
    by (simp add: heartbeat_poll_def split_beta Let_def)
qed

lemma heartbeat_moves:
  "moves (fw_platform fw) fp (dv_panel d) \<Longrightarrow> moves (fw_platform fw) fp (dv_panel (heartbeat_step fw i d))"
  by (auto simp: heartbeat_step_def heartbeat_calm split_beta Let_def intro!: moves_upd)

lemma online_stage_moves: "stage_moves fw d (online_stage fw i d)"
  by (simp add: stage_moves_def online_stage_def heartbeat_moves take_moves ask_moves clock_moves rearm_moves)

lemma sync_poll_calm: "calm p k (snd (snd (ui_sync_poll p sha (uy, k))))"
proof -
  let ?k = "snd (take_ui_bundle_fetch_result k)"
  have i: "calm p k (snd (install_bundle p sha b v ?k))" for b v
    by (rule calm_trans [of _ _ ?k]) (simp_all add: install_bundle_def split_beta Let_def)
  have f: "calm p k (upd_ui g ?k)" for g
    by (rule calm_trans [of _ _ ?k]) (simp_all add: upd_ui_def)
  show ?thesis
    using i f by (simp add: ui_sync_poll_def split_beta Let_def split: option.split)
qed

lemma bundle_stage_moves: "stage_moves fw d (bundle_stage fw i d)"
  by (auto simp: stage_moves_def bundle_stage_def sync_poll_calm split_beta Let_def intro!: moves_upd)

lemma compaction_started_moves: "moves p fp (dv_panel d) \<Longrightarrow> moves p fp (dv_panel (start_compaction fw now d))"
  by (auto simp: start_compaction_def upd_journal_def intro!: moves_upd)

lemma compaction_stage_moves: "compaction_stage fw i d = Some d' \<Longrightarrow> stage_moves fw d d'"
  by (auto simp: stage_moves_def compaction_stage_def upd_journal_def Let_def split: if_splits option.splits
      intro!: compaction_started_moves moves_upd)

lemma memory_stage_moves: "stage_moves fw d (memory_stage fw i d)"
  by (auto simp: stage_moves_def memory_stage_def relieve_memory_def split_beta Let_def split: low_memory_level.split
      intro!: moves_note moves_reboot compaction_started_moves)

lemma diagnostics_stage_moves: "stage_moves fw d (diagnostics_stage fw i d)"
  by (auto simp: stage_moves_def diagnostics_stage_def stall_step_def split_beta Let_def split: stall_remedy.split
      intro!: moves_upd moves_note moves_reboot)

text \<open>What every stage keeps, an iteration keeps.\<close>

definition stage_keeps ::
  "(('d, 'n, 'b) device \<Rightarrow> bool) \<Rightarrow> (('d, 'n, 'b) device \<Rightarrow> ('d, 'n, 'b) device option) \<Rightarrow> bool" where
  "stage_keeps P s = (\<forall>d d'. P d \<longrightarrow> s d = Some d' \<longrightarrow> P d')"

lemma stage_keepsD: "stage_keeps P s \<Longrightarrow> P d \<Longrightarrow> s d = Some d' \<Longrightarrow> P d'"
  unfolding stage_keeps_def by blast

lemma stage_keepsI: "(\<And>d d'. P d \<Longrightarrow> s d = Some d' \<Longrightarrow> P d') \<Longrightarrow> stage_keeps P s"
  unfolding stage_keeps_def by blast

lemma stage_keeps_total: "(\<And>d. P d \<Longrightarrow> P (f d)) \<Longrightarrow> stage_keeps P (Some \<circ> f)"
  unfolding stage_keeps_def comp_def by blast

lemma stages_keep: "run_stages ss d = Some d' \<Longrightarrow> P d \<Longrightarrow> \<forall>s\<in>set ss. stage_keeps P s \<Longrightarrow> P d'"
proof (induction ss arbitrary: d)
  case (Cons s ss)
  show ?case
  proof (cases "fp_restarting (dv_panel d)")
    case True
    then show ?thesis
      using Cons.prems(1,2) by simp
  next
    case False
    then obtain d1 where d1: "s d = Some d1" "run_stages ss d1 = Some d'"
      using Cons.prems(1) by (auto split: option.splits)
    have "P d1"
      by (rule stage_keepsD [where P = P and s = s, OF _ Cons.prems(2) d1(1)]) (simp add: Cons.prems(3))
    then show ?thesis
      by (rule Cons.IH [OF d1(2)]) (simp add: Cons.prems(3))
  qed
qed simp

lemma loop_keeps:
  assumes "device_loop fw i d = Some d'" "P d"
    and "\<And>d. P d \<Longrightarrow> P (scanner_stage fw i d)" "\<And>d. P d \<Longrightarrow> P (keypad_stage fw i d)"
    "\<And>d. P d \<Longrightarrow> P (controller_stage fw i d)" "\<And>d. P d \<Longrightarrow> P (station_stage fw i d)"
    "\<And>d d'. P d \<Longrightarrow> console_stage fw i d = Some d' \<Longrightarrow> P d'"
    "\<And>d. P d \<Longrightarrow> P (runtime_stage fw i d)" "\<And>d. P d \<Longrightarrow> P (reconnect_stage fw i d)"
    "\<And>d. P d \<Longrightarrow> P (online_stage fw i d)" "\<And>d. P d \<Longrightarrow> P (bundle_stage fw i d)"
    "\<And>d d'. P d \<Longrightarrow> compaction_stage fw i d = Some d' \<Longrightarrow> P d'"
    "\<And>d. P d \<Longrightarrow> P (memory_stage fw i d)" "\<And>d. P d \<Longrightarrow> P (diagnostics_stage fw i d)"
  shows "P d'"
proof (rule stages_keep [where P = P, OF assms(1) [unfolded device_loop_def] assms(2)])
  note keeps = stage_keeps_total [where P = P, OF assms(3)] stage_keeps_total [where P = P, OF assms(4)] stage_keeps_total [where P = P, OF assms(5)] stage_keeps_total [where P = P, OF assms(6)] stage_keepsI [where P = P, OF assms(7)]
    stage_keeps_total [where P = P, OF assms(8)] stage_keeps_total [where P = P, OF assms(9)] stage_keeps_total [where P = P, OF assms(10)] stage_keeps_total [where P = P, OF assms(11)] stage_keepsI [where P = P, OF assms(12)]
    stage_keeps_total [where P = P, OF assms(13)] stage_keeps_total [where P = P, OF assms(14)]
  show "\<forall>s\<in>set [Some \<circ> scanner_stage fw i, Some \<circ> keypad_stage fw i, Some \<circ> controller_stage fw i,
      Some \<circ> station_stage fw i, console_stage fw i, Some \<circ> runtime_stage fw i, Some \<circ> reconnect_stage fw i,
      Some \<circ> online_stage fw i, Some \<circ> bundle_stage fw i, compaction_stage fw i, Some \<circ> memory_stage fw i,
      Some \<circ> diagnostics_stage fw i]. stage_keeps P s"
    by (simp add: keeps)
qed

lemmas all_stages_move = scanner_stage_moves keypad_stage_moves controller_stage_moves station_stage_moves
  console_stage_moves runtime_stage_moves reconnect_stage_moves online_stage_moves bundle_stage_moves
  compaction_stage_moves memory_stage_moves diagnostics_stage_moves

lemma device_loop_moves:
  assumes "device_loop fw i d = Some d'"
  shows "stage_moves fw d d'"
proof -
  have t: "moves (fw_platform fw) (dv_panel d) (dv_panel e')"
    if "moves (fw_platform fw) (dv_panel d) (dv_panel e)" "stage_moves fw e e'" for e e'
    using that moves_trans unfolding stage_moves_def by blast
  show ?thesis
    unfolding stage_moves_def
    by (rule loop_keeps [where P = "\<lambda>e. moves (fw_platform fw) (dv_panel d) (dv_panel e)", OF assms moves_refl])
      (erule t; simp add: all_stages_move)+
qed

end
