(* ===== verification/Device_Run.thy ===== *)
theory Device_Run
  imports Main_Loop
begin

text \<open>
  From power on to the next restart: \<^verbatim>\<open>setup()\<close> of the sketch, the runs that
  iterations of the loop and the network task make after it, and what holds along
  them.  An iteration returns unless the console waits for a calibration.
\<close>

section \<open>Setup\<close>

record boot_input =
  bt_moment :: moment
  bt_boot_id :: string
  bt_display_ok :: bool
  bt_chip :: string
  bt_cores :: int
  bt_flash_bytes :: u32
  bt_psram_total :: u32
  bt_cause :: reset_cause
  bt_board :: board_reading

definition journal_capacity_bytes :: u32 where
  "journal_capacity_bytes = 256 * 1024"

definition scanner_default_baud :: int where
  "scanner_default_baud = 9600"

text \<open>What is read from flash: the restart streak, the bundle shown last, the journal.\<close>

definition boot_storage :: "('d, 'n) platform \<Rightarrow> 'd \<Rightarrow> 'n \<Rightarrow> ('d, 'n) kiosk option" where
  "boot_storage p disk n =
     (let k0 = new_kiosk disk n;
          k1 = k0\<lparr>k_recovery := recovery_supervisor_init (pf_nv p) n (k_recovery k0)\<rparr>;
          (ui, disk1) = ui_store_init (pf_fs p) (pf_nv p) n (k_ui k1, ej_disk (k_journal k1)) in
      map_option (\<lambda>ej. k1\<lparr>k_ui := ui, k_journal := ej\<rparr>)
        (journal_init (pf_fs p) journal_capacity_bytes ((k_journal k1)\<lparr>ej_disk := disk1\<rparr>)))"

definition boot_panel :: "('d, 'n) platform \<Rightarrow> moment \<Rightarrow> string \<Rightarrow> ('d, 'n) kiosk \<Rightarrow> ('d, 'n) panel" where
  "boot_panel p m boot_id k0 =
     (let k = refresh_idle_screen p m (kiosk_begin p m boot_id k0);
          (rs, es, w) = wifi_begin (m_now m) (config_wifi_ssid (pf_nv p) (k_nvs k)) (config_wifi_password (pf_nv p) (k_nvs k))
            new_wifi_manager;
          fp = \<lparr>fp_kiosk = k, fp_menu = new_recovery_menu, fp_portal = new_portal, fp_wifi = w, fp_restarting = False\<rparr> in
      panel_boot p m (fold (panel_publish p m) es fp))"

definition device_setup ::
  "('d, 'n, 'b) firmware \<Rightarrow> boot_input \<Rightarrow> 'd \<Rightarrow> 'n \<Rightarrow> 'b \<Rightarrow> ('d, 'n, 'b) device option" where
  "device_setup fw bt disk n bus0 =
     (let p = fw_platform fw; m = bt_moment bt in
      case boot_storage p disk n of
        None \<Rightarrow> None
      | Some k \<Rightarrow>
          let baud = config_scanner_baud (pf_nv p) n;
              (scanner_ok, sc) = scanner_init (if baud \<noteq> 0 then baud else scanner_default_baud)
                (new_scanner scanner_default_baud);
              (keypad_ok, kp, bus) = keypad_init (fw_wire fw) (pf_nv p) (fw_blobs fw) n new_keypad bus0;
              di = collect_boot_diagnostics (bt_chip bt) (bt_cores bt) (bt_flash_bytes bt) (bt_psram_total bt)
                (bt_cause bt) (fw_build fw) (bt_board bt) (bt_boot_id bt) in
          Some \<lparr>dv_panel = boot_panel p m (bt_boot_id bt) k, dv_scanner = sc, dv_keypad = kp, dv_bus = bus,
            dv_line = [], dv_ui_sync = new_ui_sync, dv_bootstrap = new_bootstrap_result,
            dv_self_test = \<lparr>se_display_ok = bt_display_ok bt, se_scanner_ok = scanner_ok, se_keypad_ok = keypad_ok\<rparr>,
            dv_diagnostics = di, dv_heartbeat_ms = 0, dv_reconnect_mark = 0, dv_schedule = new_bootstrap_schedule,
            dv_time_started = False, dv_compaction_check_ms = 0, dv_compaction_was_active = False,
            dv_memory_check_ms = 0, dv_criticals = 0, dv_diagnostics_ms = 0, dv_stall = new_stall_watch\<rparr>)"

section \<open>Runs\<close>

text \<open>The network task works beside the loop, on the worker's queues and its result
  slot only; a run ends where the device restarts.\<close>

inductive device_run ::
  "('d, 'n, 'b) firmware \<Rightarrow> ('d, 'n, 'b) device \<Rightarrow> ('d, 'n, 'b) device \<Rightarrow> bool" for fw d0 where
  device_start: "device_run fw d0 d0"
| device_loops: "device_run fw d0 d \<Longrightarrow> \<not> fp_restarting (dv_panel d) \<Longrightarrow> device_loop fw i d = Some d' \<Longrightarrow>
    device_run fw d0 d'"
| device_takes: "device_run fw d0 d \<Longrightarrow> task_take (k_net (dv_kiosk d)) = Some (req, w) \<Longrightarrow>
    device_run fw d0 (upd_kiosk (\<lambda>k. k\<lparr>k_net := w\<rparr>) d)"
| device_finishes: "device_run fw d0 d \<Longrightarrow>
    device_run fw d0 (upd_kiosk (\<lambda>k. k\<lparr>k_net := task_finish r (k_net k)\<rparr>) d)"

lemma device_run_moves: "device_run fw d0 d \<Longrightarrow> stage_moves fw d0 d"
proof (induction rule: device_run.induct)
  case (device_loops d i d')
  then show ?case
    using device_loop_moves moves_trans unfolding stage_moves_def by blast
next
  case (device_takes d req w)
  have "calm (fw_platform fw) (dv_kiosk d) ((dv_kiosk d)\<lparr>k_net := w\<rparr>)"
    using device_takes.hyps(2) by (simp add: calm_def run_take [OF run_start])
  then show ?case
    using device_takes.IH unfolding stage_moves_def by (intro moves_upd) simp_all
next
  case (device_finishes d r)
  have "calm (fw_platform fw) (dv_kiosk d) ((dv_kiosk d)\<lparr>k_net := task_finish r (k_net (dv_kiosk d))\<rparr>)"
    by (simp add: calm_def run_deposit [OF run_start])
  then show ?case
    using device_finishes.IH unfolding stage_moves_def by (intro moves_upd) simp_all
qed (simp add: stage_moves_def)

section \<open>The bootstrap schedule\<close>

lemma upd_kiosk_fields [simp]:
  "dv_schedule (upd_kiosk f d) = dv_schedule d" "dv_schedule (publish_all fw m es d) = dv_schedule d"
  "dv_schedule (note_recovery now c s pr fr l d) = dv_schedule d"
  "dv_schedule (reboot_device fw now c s pr fr l d) = dv_schedule d"
  "dv_schedule (upd_journal g d) = dv_schedule d" "dv_schedule (start_compaction fw now d) = dv_schedule d"
  "dv_schedule (relieve_memory fw now d) = dv_schedule d"
  by (simp_all add: upd_kiosk_def publish_all_def note_recovery_def reboot_device_def upd_journal_def start_compaction_def
      relieve_memory_def Let_def)

lemma stages_keep_schedule:
  "dv_schedule (scanner_stage fw i d) = dv_schedule d" "dv_schedule (keypad_stage fw i d) = dv_schedule d"
  "dv_schedule (controller_stage fw i d) = dv_schedule d" "dv_schedule (station_stage fw i d) = dv_schedule d"
  "console_stage fw i d = Some d' \<Longrightarrow> dv_schedule d' = dv_schedule d"
  "dv_schedule (runtime_stage fw i d) = dv_schedule d" "dv_schedule (reconnect_stage fw i d) = dv_schedule d"
  "dv_schedule (bundle_stage fw i d) = dv_schedule d"
  "compaction_stage fw i d = Some d' \<Longrightarrow> dv_schedule d' = dv_schedule d"
  "dv_schedule (memory_stage fw i d) = dv_schedule d" "dv_schedule (diagnostics_stage fw i d) = dv_schedule d"
  by (auto simp: scanner_stage_def keypad_stage_def controller_stage_def station_stage_def console_stage_def
      runtime_stage_def reconnect_stage_def bundle_stage_def compaction_stage_def memory_stage_def diagnostics_stage_def
      stall_step_def split_beta Let_def split: option.splits if_splits low_memory_level.splits stall_remedy.splits)

lemma online_keeps_schedule_ok:
  assumes "schedule_ok (dv_schedule d)"
  shows "schedule_ok (dv_schedule (online_stage fw i d))"
proof -
  have r: "schedule_ok (dv_schedule (rearm_step d))"
    using schedule_ok_rearm [OF assms] by (simp add: rearm_step_def split_beta Let_def)
  have c: "dv_schedule (clock_step i e) = dv_schedule e" for e :: "('a, 'b, 'c) device"
    by (simp add: clock_step_def)
  have a: "schedule_ok (dv_schedule (bootstrap_ask_step fw i e))" if "schedule_ok (dv_schedule e)" for e
    using that by (simp add: bootstrap_ask_step_def schedule_ok_enqueued schedule_ok_no_endpoint split_beta Let_def)
  have t: "schedule_ok (dv_schedule (bootstrap_take_step fw i e))" if "schedule_ok (dv_schedule e)" for e
    using that
    by (simp add: bootstrap_take_step_def schedule_ok_answered split_beta Let_def split: option.split)
  have h: "dv_schedule (heartbeat_step fw i e) = dv_schedule e" for e
    by (simp add: heartbeat_step_def split_beta Let_def)
  show ?thesis
    using assms by (simp add: online_stage_def h t a c r)
qed

lemma loop_keeps_schedule_ok:
  assumes "schedule_ok (dv_schedule d)" "device_loop fw i d = Some d'"
  shows "schedule_ok (dv_schedule d')"
  by (rule loop_keeps [where P = "\<lambda>d. schedule_ok (dv_schedule d)", OF assms(2,1)])
    (simp_all add: stages_keep_schedule online_keeps_schedule_ok)

lemma run_keeps_schedule_ok: "device_run fw d0 d \<Longrightarrow> schedule_ok (dv_schedule d0) \<Longrightarrow> schedule_ok (dv_schedule d)"
  by (induction rule: device_run.induct) (auto intro: loop_keeps_schedule_ok)


section \<open>What setup leaves\<close>

lemma start_portal_active: "portal_active (fp_portal (panel_start_portal p m fp))"
proof (cases "portal_active (fp_portal fp)")
  case True
  then show ?thesis
    by (simp add: panel_start_portal_def portal_start_def publish_recovery_def)
next
  case False
  obtain rs es po where s: "portal_start (pf_nv p) (pf_mac p) (m_now m) (k_nvs (fp_kiosk fp)) (fp_portal fp) = (rs, es, po)"
    by (metis prod_cases3)
  show ?thesis
    using portal_start_events [OF False s] publish_recovery_fields [of es p m "fp\<lparr>fp_portal := po\<rparr>"]
    by (simp add: panel_start_portal_def s)
qed

lemma boot_without_portal: "\<not> portal_active (fp_portal (panel_boot p m fp)) \<Longrightarrow> panel_boot p m fp = fp"
  by (auto simp: panel_boot_def start_portal_active split: if_splits)

lemma boot_storage_run:
  assumes "boot_storage p disk n = Some k"
  shows "kiosk_run p (new_kiosk disk n) k \<and> \<not> k_overlay k"
proof -
  have "k = (new_kiosk disk n)\<lparr>k_recovery := k_recovery k, k_ui := k_ui k, k_journal := k_journal k\<rparr>"
    using assms by (auto simp: boot_storage_def split_beta Let_def)
  then obtain rc u j where k: "k = (new_kiosk disk n)\<lparr>k_recovery := rc, k_ui := u, k_journal := j\<rparr>"
    by blast
  show ?thesis
    unfolding k by (simp add: run_changes new_kiosk_def k_nvs_def)
qed

lemma boot_panel_ok:
  assumes "\<not> k_overlay k" "\<not> portal_active (fp_portal (boot_panel p m b k))"
  shows "panel_ok (boot_panel p m b k) \<and> kiosk_run p k (fp_kiosk (boot_panel p m b k))"
proof -
  let ?k = "refresh_idle_screen p m (kiosk_begin p m b k)"
  obtain rs es w where e: "wifi_begin (m_now m) (config_wifi_ssid (pf_nv p) (k_nvs ?k))
      (config_wifi_password (pf_nv p) (k_nvs ?k)) new_wifi_manager = (rs, es, w)"
    by (metis prod_cases3)
  let ?fp = "\<lparr>fp_kiosk = ?k, fp_menu = new_recovery_menu, fp_portal = new_portal, fp_wifi = w, fp_restarting = False\<rparr>"
  have b: "boot_panel p m b k = panel_boot p m (fold (panel_publish p m) es ?fp)"
    using e by (simp add: boot_panel_def)
  have "calm p k ?k"
    by (rule calm_trans [of _ _ "kiosk_begin p m b k"]) simp_all
  then have k: "kiosk_run p k ?k" "\<not> k_overlay ?k"
    using assms(1) by (simp_all add: calm_def)
  have "panel_ok ?fp"
    using k(2) by (simp add: panel_ok_def overlay_open_def new_recovery_menu_def new_portal_def portal_active_def)
  moreover have "moves p ?fp (fold (panel_publish p m) es ?fp)"
    using e by (intro moves_publishes) (auto simp: wifi_begin_def wifi_set_state_def Let_def split: if_splits)
  ultimately show ?thesis
    using boot_without_portal [of p m "fold (panel_publish p m) es ?fp"] assms(2) k(1)
    by (auto simp: b moves_def intro: kiosk_run_trans)
qed

definition device_ok :: "('d, 'n, 'b) device \<Rightarrow> bool" where
  "device_ok d =
     (panel_ok (dv_panel d) \<and> quantity_ok (k_quantity (dv_kiosk d)) \<and> projection_ok (k_projection (dv_kiosk d)) \<and>
      schedule_ok (dv_schedule d))"

lemma setup_ok:
  assumes "device_setup fw bt disk n bus = Some d" "\<not> portal_active (fp_portal (dv_panel d))"
  shows "device_ok d"
proof -
  obtain k where k: "boot_storage (fw_platform fw) disk n = Some k"
      "dv_panel d = boot_panel (fw_platform fw) (bt_moment bt) (bt_boot_id bt) k" "dv_schedule d = new_bootstrap_schedule"
    using assms(1) by (auto simp: device_setup_def split_beta Let_def split: option.splits)
  note r = boot_storage_run [OF k(1)]
  have p: "panel_ok (dv_panel d)" "kiosk_run (fw_platform fw) (new_kiosk disk n) (dv_kiosk d)"
    using boot_panel_ok r assms(2) kiosk_run_trans unfolding k(2) by blast+
  have "quantity_ok (k_quantity (dv_kiosk d))"
    by (rule run_quantity [OF p(2)]) (simp add: new_kiosk_def)
  moreover have "projection_ok (k_projection (dv_kiosk d))"
    using projection_steps_mono [OF run_projection [OF p(2)]] by (simp add: new_kiosk_def projection_ok_def new_projection_def)
  ultimately show ?thesis
    using p(1) k(3) by (simp add: device_ok_def schedule_ok_new)
qed

lemma run_ok:
  assumes "device_run fw d0 d" "device_ok d0"
  shows "device_ok d \<and> (sp_has_snapshot (k_projection (dv_kiosk d0)) \<longrightarrow> sp_has_snapshot (k_projection (dv_kiosk d)) \<and>
    ss_state_version (sp_current (k_projection (dv_kiosk d0))) \<le> ss_state_version (sp_current (k_projection (dv_kiosk d))))"
proof -
  have m: "moves (fw_platform fw) (dv_panel d0) (dv_panel d)"
    using device_run_moves [OF assms(1)] by (simp add: stage_moves_def)
  then have r: "kiosk_run (fw_platform fw) (dv_kiosk d0) (dv_kiosk d)"
    by (simp add: moves_def)
  have "quantity_ok (k_quantity (dv_kiosk d))"
    by (rule run_quantity [OF r]) (use assms(2) in \<open>simp add: device_ok_def\<close>)
  then show ?thesis
    using m assms(2) projection_steps_mono [OF run_projection [OF r]] run_keeps_schedule_ok [OF assms(1)]
    by (auto simp: device_ok_def moves_def)
qed

section \<open>An iteration returns\<close>

context spiffs begin

lemma scan_returns: "scan_journal (sj_ops ops) (new_sj_file d p) \<noteq> None"
  using scan_sj_spec [of d p] by (metis option.distinct(1))

lemma journal_init_returns: "journal_init ops cap ej \<noteq> None"
  by (auto simp: journal_init_def scan_returns split_beta Let_def split: option.split)

lemma compact_tick_returns: "compact_tick ops now ej \<noteq> None"
  by (auto simp: compact_tick_def finish_compaction_def scan_returns split_beta Let_def split: option.split)

end

text \<open>The operator gives the calibration what it waits for: all keys released, then
  presses until each of the twelve keys has a pair of its own.\<close>

definition calibration_answered :: "scans \<Rightarrow> bool" where
  "calibration_answered ss =
     (case wait_release ss of None \<Rightarrow> False | Some ss1 \<Rightarrow> cal_keys 0 (replicate 12 0xFF) ss1 \<noteq> None)"

lemma command_returns: "calibration_answered ss \<Longrightarrow> run_command bo ss p m cmd s \<noteq> None"
  by (cases s; cases cmd)
    (auto simp: run_command_def run_calibration_def calibration_answered_def split_beta Let_def split: option.splits)

lemma console_returns:
  "calibration_answered ss \<or> list_all (\<lambda>c. \<not> line_end c) cs \<Longrightarrow> console_poll bo ss p m cs (l, kp, fp) \<noteq> None"
proof (induction cs arbitrary: l kp fp)
  case (Cons c cs)
  then show ?case
    using command_returns [of ss bo p m "parse_command l" "(kp, fp)"]
    by (auto split: option.split prod.split)
qed simp

lemma stages_return: "\<forall>s\<in>set ss. \<forall>d. s d \<noteq> None \<Longrightarrow> run_stages ss d \<noteq> None"
proof (induction ss arbitrary: d)
  case (Cons s ss)
  then obtain e where "s d = Some e"
    by fastforce
  then show ?case
    using Cons by simp
qed simp

lemma loop_defined:
  assumes "spiffs (pf_fs (fw_platform fw)) files"
    and "calibration_answered (li_scans i) \<or> list_all (\<lambda>c. \<not> line_end c) (li_typed i)"
  shows "device_loop fw i d \<noteq> None"
proof -
  have "console_stage fw i d \<noteq> None" "compaction_stage fw i d \<noteq> None" for d
    by (auto simp: console_stage_def compaction_stage_def console_returns [OF assms(2)]
        spiffs.compact_tick_returns [OF assms(1)] Let_def split: option.split)
  then show ?thesis
    unfolding device_loop_def by (intro stages_return) auto
qed


section \<open>From power on\<close>


lemma publish_wifi_frame:
  "fp_portal (panel_publish p m (Wifi_state t) fp) = fp_portal fp"
  "fp_restarting (panel_publish p m (Wifi_state t) fp) = fp_restarting fp"
  "k_nvs (fp_kiosk (panel_publish p m (Wifi_state t) fp)) = k_nvs (fp_kiosk fp)"
  by (simp_all add: panel_publish_def panel_finish_def publish_to_both_def menu_handle_event_def handle_local_event_def
      k_nvs_def Let_def)

lemma refresh_nvs: "k_nvs (refresh_idle_screen p m k) = k_nvs k"
  by (simp add: k_nvs_def)

lemma boot_with_credentials:
  assumes "config_wifi_ssid (pf_nv p) (k_nvs (kiosk_begin p m b k)) \<noteq> []"
  shows "\<not> portal_active (fp_portal (boot_panel p m b k)) \<and> \<not> fp_restarting (boot_panel p m b k)"
  using assms
  by (simp add: boot_panel_def panel_boot_def wifi_begin_def wifi_set_state_def new_wifi_manager_def publish_wifi_frame
      new_portal_def portal_active_def refresh_nvs Let_def)

definition home_prefs :: ram_nvs where
  "home_prefs = ram_prefs\<lparr>rn_vals := (rn_vals ram_prefs)((config_namespace, ''wifi_ssid'') \<mapsto> NvString ''shop'')\<rparr>"

definition home_firmware :: "(ram_disk, ram_nvs, u8) firmware" where
  "home_firmware = \<lparr>fw_platform = ram_platform, fw_blobs = no_blobs, fw_wire = held_bus 0 4,
     fw_sha = (\<lambda>_. replicate 32 0), fw_build = dev_build\<rparr>"

definition home_boot :: boot_input where
  "home_boot = \<lparr>bt_moment = some_moment, bt_boot_id = ''b1'', bt_display_ok = True, bt_chip = ''ESP32-S3'', bt_cores = 2,
     bt_flash_bytes = 0x1000000, bt_psram_total = 0x800000, bt_cause = RST_POWERON, bt_board = no_reading\<rparr>"

definition home_input :: loop_input where
  "home_input = \<lparr>li_moment = some_moment, li_scanned = ''NV-1'' @ [CHR 0x0D], li_portal_request = None, li_wifi_up = True,
     li_typed = [], li_scans = [], li_board = no_reading, li_frame_id = 1\<rparr>"

lemma home_setup:
  "\<exists>d. device_setup home_firmware home_boot \<lparr>rd_files = Map.empty, rd_power = 0\<rparr> home_prefs 0 = Some d \<and>
     \<not> portal_active (fp_portal (dv_panel d)) \<and> \<not> fp_restarting (dv_panel d)"
proof -
  let ?disk = "\<lparr>rd_files = Map.empty, rd_power = 0\<rparr>"
  obtain k where k: "boot_storage ram_platform ?disk home_prefs = Some k"
    using spiffs.journal_init_returns [OF spiffs_ram]
    by (fastforce simp: boot_storage_def ram_platform_def split_beta Let_def)
  then have "k_seq k = \<lparr>dq_reservation = None, dq_nvs = home_prefs\<rparr>"
    by (auto simp: boot_storage_def new_kiosk_def split_beta Let_def)
  then have "config_wifi_ssid (pf_nv ram_platform) (k_nvs (kiosk_begin ram_platform m b k)) \<noteq> []" for m b
    by (simp add: kiosk_begin_def device_sequence_init_def make_reservation_def reserve_next_block_def nvs_persist_hwm_def ram_platform_def
        ram_nvs_ops_def rn_put_def home_prefs_def config_wifi_ssid_def config_namespace_def k_nvs_def split_beta Let_def)
  from boot_with_credentials [OF this] show ?thesis
    using k by (simp add: device_setup_def home_firmware_def split_beta Let_def)
qed


lemma home_loop: "\<exists>d'. device_loop home_firmware home_input d = Some d'"
  using loop_defined [of home_firmware rd_files home_input d]
  by (simp add: home_firmware_def home_input_def ram_platform_def spiffs_ram)


end
