(* ===== verification/Vn_Font.thy ===== *)
theory Vn_Font
  imports Prelude
begin

text \<open>
  The font core (protocol/vn_font_core.h, .cpp): decoding one UTF-8 code point,
  finding its glyph by binary search, and measuring a text.  A C string is the
  list of its bytes before the terminator, a cursor the bytes that remain;
  \<open>peek\<close> reads the terminator at the end.  The glyph table is the list the
  pointer and the count describe; \<open>Glyph_Tables\<close> holds the generated ones.
\<close>

section \<open>Data\<close>

record vn_glyph =
  vg_codepoint :: u32
  vg_bitmap_offset :: u32
  vg_width :: u8
  vg_height :: u8
  vg_advance :: u8
  vg_x_offset :: u8
  vg_y_offset :: u8

record vn_font_data =
  vf_bitmap :: bytes
  vf_glyphs :: "vn_glyph list"
  vf_ascent :: u8
  vf_descent :: u8

section \<open>Decoding\<close>

definition peek :: "bytes \<Rightarrow> u8" where
  "peek bs = (case bs of [] \<Rightarrow> 0 | b # _ \<Rightarrow> b)"

text \<open>The next byte's six bits and the rest, when it is a continuation byte.\<close>

definition continuation_byte :: "bytes \<Rightarrow> (u32 \<times> bytes) option" where
  "continuation_byte bs =
     (let b = peek bs in
      if b AND 0xC0 \<noteq> 0x80 \<or> b = 0 then None else Some (ucast (b AND 0x3F), tl bs))"

definition utf8_decode_next :: "bytes \<Rightarrow> u32 \<times> bytes" where
  "utf8_decode_next bs =
     (let a = peek bs; r = tl bs in
      if a = 0 then (0, bs)
      else if a < 0x80 then (ucast a, r)
      else if a AND 0xE0 = 0xC0 then
        (case continuation_byte r of
           None \<Rightarrow> (0xFFFD, r)
         | Some (b, r1) \<Rightarrow> (push_bit 6 (ucast (a AND 0x1F)) OR b, r1))
      else if a AND 0xF0 = 0xE0 then
        (case continuation_byte r of
           None \<Rightarrow> (0xFFFD, r)
         | Some (b, r1) \<Rightarrow>
             (case continuation_byte r1 of
                None \<Rightarrow> (0xFFFD, r1)
              | Some (c, r2) \<Rightarrow> (push_bit 12 (ucast (a AND 0x0F)) OR push_bit 6 b OR c, r2)))
      else if a AND 0xF8 = 0xF0 then
        (case continuation_byte r of
           None \<Rightarrow> (0xFFFD, r)
         | Some (b, r1) \<Rightarrow>
             (case continuation_byte r1 of
                None \<Rightarrow> (0xFFFD, r1)
              | Some (c, r2) \<Rightarrow>
                  (case continuation_byte r2 of
                     None \<Rightarrow> (0xFFFD, r2)
                   | Some (d, r3) \<Rightarrow>
                       (push_bit 18 (ucast (a AND 0x07)) OR push_bit 12 b OR push_bit 6 c OR d, r3))))
      else (0xFFFD, r))"

lemma continuation_byte_rest: "continuation_byte bs = Some (x, r) \<Longrightarrow> bs \<noteq> [] \<and> r = tl bs"
  by (cases bs) (auto simp: continuation_byte_def peek_def Let_def split: if_splits)

lemma length_tl_less: "bs \<noteq> [] \<Longrightarrow> length (tl bs) < length bs"
  by (cases bs) simp_all

lemma decode_consumes:
  "peek bs \<noteq> 0 \<Longrightarrow> length (snd (utf8_decode_next bs)) < length bs \<and>
     length bs \<le> length (snd (utf8_decode_next bs)) + 4"
  by (cases bs)
    (auto simp: utf8_decode_next_def Let_def peek_def dest!: continuation_byte_rest
      split: option.split prod.split)

section \<open>Glyphs\<close>

function find_loop :: "vn_glyph list \<Rightarrow> u32 \<Rightarrow> int \<Rightarrow> int \<Rightarrow> vn_glyph option" where
  "find_loop gs cp lo hi =
     (if lo > hi then None
      else
      let mid = (lo + hi) div 2; g = gs ! nat mid in
      if vg_codepoint g = cp then Some g
      else if vg_codepoint g < cp then find_loop gs cp (mid + 1) hi
      else find_loop gs cp lo (mid - 1))"
  by pat_completeness auto

termination
  by (relation "measure (\<lambda>(gs, cp, lo, hi). nat (hi - lo + 1))") auto

declare find_loop.simps [simp del]

definition find_glyph :: "vn_font_data \<Rightarrow> u32 \<Rightarrow> vn_glyph option" where
  "find_glyph font cp = find_loop (vf_glyphs font) cp 0 (int (length (vf_glyphs font)) - 1)"

definition glyph_advance :: "vn_font_data \<Rightarrow> u32 \<Rightarrow> u32" where
  "glyph_advance font cp =
     (case find_glyph font cp of Some g \<Rightarrow> ucast (vg_advance g) | None \<Rightarrow> ucast (vf_ascent font div 2))"

function measure_loop :: "vn_font_data \<Rightarrow> u32 \<Rightarrow> bytes \<Rightarrow> u32 \<Rightarrow> u32" where
  "measure_loop font scale bs w =
     (if peek bs = 0 then w
      else
      let (cp, r) = utf8_decode_next bs in
      if cp = 0 then w else measure_loop font scale r (w + glyph_advance font cp * scale))"
  by pat_completeness auto

termination
proof (relation "measure (\<lambda>(font, scale, bs, w). length bs)")
  fix font :: vn_font_data and scale w :: u32 and bs x cp r
  assume "peek bs \<noteq> 0" "x = utf8_decode_next bs" "(cp, r) = x"
  then show "((font, scale, r, w + glyph_advance font cp * scale), font, scale, bs, w)
      \<in> measure (\<lambda>(font, scale, bs, w). length bs)"
    using decode_consumes [of bs] by (metis (no_types, lifting) in_measure case_prod_conv snd_conv)
qed simp

declare measure_loop.simps [simp del]

definition measure_vn_text :: "vn_font_data \<Rightarrow> bytes option \<Rightarrow> u8 \<Rightarrow> u32" where
  "measure_vn_text font txt font_size =
     (case txt of None \<Rightarrow> 0
      | Some bs \<Rightarrow> measure_loop font (if font_size = 0 then 1 else ucast font_size) bs 0)"

section \<open>The search finds what is in the table\<close>

definition sorted_glyphs :: "vn_glyph list \<Rightarrow> bool" where
  "sorted_glyphs gs = sorted_wrt (\<lambda>g h. vg_codepoint g < vg_codepoint h) gs"

lemma sorted_glyphs_less: "sorted_glyphs gs \<Longrightarrow> i < j \<Longrightarrow> j < length gs \<Longrightarrow> vg_codepoint (gs ! i) < vg_codepoint (gs ! j)"
  using sorted_wrt_nth_less [of "\<lambda>g h. vg_codepoint g < vg_codepoint h" gs i j] by (simp add: sorted_glyphs_def)

lemma find_loop_in_range:
  assumes "sorted_glyphs gs" "0 \<le> lo" "hi < int (length gs)"
    and "\<forall>i<length gs. vg_codepoint (gs ! i) = cp \<longrightarrow> lo \<le> int i \<and> int i \<le> hi"
  shows "find_loop gs cp lo hi = find (\<lambda>g. vg_codepoint g = cp) gs"
  using assms
proof (induction gs cp lo hi rule: find_loop.induct)
  case (1 gs cp lo hi)
  let ?mid = "(lo + hi) div 2"
  show ?case
  proof (cases "lo > hi")
    case True
    then have "find (\<lambda>g. vg_codepoint g = cp) gs = None"
      using "1.prems"(4) by (fastforce simp: find_None_iff in_set_conv_nth)
    then show ?thesis
      using True by (simp add: find_loop.simps)
  next
    case False
    have mid: "lo \<le> ?mid" "?mid \<le> hi" "nat ?mid < length gs"
      using False "1.prems"(2,3) by auto
    have unique: "i = j" if "i < length gs" "j < length gs" "vg_codepoint (gs ! i) = vg_codepoint (gs ! j)" for i j
      using that sorted_glyphs_less [OF "1.prems"(1)] by (metis less_irrefl linorder_neqE_nat)
    consider (hit) "vg_codepoint (gs ! nat ?mid) = cp" | (right) "vg_codepoint (gs ! nat ?mid) < cp"
      | (left) "vg_codepoint (gs ! nat ?mid) > cp"
      by fastforce
    then show ?thesis
    proof cases
      case hit
      have "find (\<lambda>g. vg_codepoint g = cp) gs = Some (gs ! nat ?mid)"
        unfolding find_Some_iff using hit mid(3) unique by (metis nat_neq_iff order_less_trans)
      then show ?thesis
        using False hit by (subst find_loop.simps) (simp add: Let_def)
    next
      case right
      have "find_loop gs cp (?mid + 1) hi = find (\<lambda>g. vg_codepoint g = cp) gs"
      proof (rule "1.IH"(1) [OF _ refl refl _ right "1.prems"(1) _ "1.prems"(3)])
        show "\<forall>i<length gs. vg_codepoint (gs ! i) = cp \<longrightarrow> ?mid + 1 \<le> int i \<and> int i \<le> hi"
        proof (intro allI impI)
          fix i assume i: "i < length gs" "vg_codepoint (gs ! i) = cp"
          then have "\<not> i \<le> nat ?mid"
            using right sorted_glyphs_less [OF "1.prems"(1), of i "nat ?mid"] mid(3) by (fastforce simp: order_le_less)
          then show "?mid + 1 \<le> int i \<and> int i \<le> hi"
            using "1.prems"(4) i mid(1) "1.prems"(2) by auto
        qed
      qed (use False right mid "1.prems"(2) in auto)
      then show ?thesis
        using False right less_imp_neq by (subst find_loop.simps) (auto simp: Let_def)
    next
      case left
      have "find_loop gs cp lo (?mid - 1) = find (\<lambda>g. vg_codepoint g = cp) gs"
      proof (rule "1.IH"(2) [OF _ refl refl _ _ "1.prems"(1,2)])
        show "\<forall>i<length gs. vg_codepoint (gs ! i) = cp \<longrightarrow> lo \<le> int i \<and> int i \<le> ?mid - 1"
        proof (intro allI impI)
          fix i assume i: "i < length gs" "vg_codepoint (gs ! i) = cp"
          then have "\<not> nat ?mid \<le> i"
            using left sorted_glyphs_less [OF "1.prems"(1), of "nat ?mid" i] by (fastforce simp: order_le_less)
          then show "lo \<le> int i \<and> int i \<le> ?mid - 1"
            using "1.prems"(4) i by auto
        qed
      qed (use False left mid "1.prems"(3) in auto)
      then show ?thesis
        using False left less_imp_neq by (subst find_loop.simps) (auto simp: Let_def)
    qed
  qed
qed

lemma find_glyph_finds:
  "sorted_glyphs (vf_glyphs font) \<Longrightarrow> find_glyph font cp = find (\<lambda>g. vg_codepoint g = cp) (vf_glyphs font)"
  unfolding find_glyph_def by (rule find_loop_in_range) auto

section \<open>The decoder reads what UTF-8 writes\<close>

text \<open>The encoding of RFC 3629.\<close>

definition utf8_encode :: "nat \<Rightarrow> bytes" where
  "utf8_encode n =
     (if n < 0x80 then [of_nat n]
      else if n < 0x800 then [of_nat (0xC0 + n div 64), of_nat (0x80 + n mod 64)]
      else if n < 0x10000 then
        [of_nat (0xE0 + n div 4096), of_nat (0x80 + n div 64 mod 64), of_nat (0x80 + n mod 64)]
      else [of_nat (0xF0 + n div 262144), of_nat (0x80 + n div 4096 mod 64), of_nat (0x80 + n div 64 mod 64),
            of_nat (0x80 + n mod 64)])"

lemma all_below: "list_all P [0..<n] \<Longrightarrow> x < n \<Longrightarrow> P x"
  by (simp add: list_all_iff)

lemma continuation_encoded:
  assumes "x < 64"
  shows "continuation_byte (of_nat (0x80 + x) # r) = Some (of_nat x, r)"
proof -
  have "list_all (\<lambda>x. (of_nat (0x80 + x) :: u8) AND 0xC0 = 0x80 \<and> (of_nat (0x80 + x) :: u8) \<noteq> 0 \<and>
      (ucast ((of_nat (0x80 + x) :: u8) AND 0x3F) :: u32) = of_nat x) [0..<64]"
    by code_simp
  from all_below [OF this assms] show ?thesis
    by (simp add: continuation_byte_def peek_def Let_def)
qed

lemma lead_two:
  assumes "x < 32"
  shows "(of_nat (0xC0 + x) :: u8) AND 0xE0 = 0xC0" "\<not> (of_nat (0xC0 + x) :: u8) < 0x80"
    "(ucast ((of_nat (0xC0 + x) :: u8) AND 0x1F) :: u32) = of_nat x" "(of_nat (0xC0 + x) :: u8) \<noteq> 0"
proof -
  have "list_all (\<lambda>x. (of_nat (0xC0 + x) :: u8) AND 0xE0 = 0xC0 \<and> \<not> (of_nat (0xC0 + x) :: u8) < 0x80 \<and>
      (ucast ((of_nat (0xC0 + x) :: u8) AND 0x1F) :: u32) = of_nat x \<and> (of_nat (0xC0 + x) :: u8) \<noteq> 0) [0..<32]"
    by code_simp
  from all_below [OF this assms] show "(of_nat (0xC0 + x) :: u8) AND 0xE0 = 0xC0" "\<not> (of_nat (0xC0 + x) :: u8) < 0x80"
    "(ucast ((of_nat (0xC0 + x) :: u8) AND 0x1F) :: u32) = of_nat x" "(of_nat (0xC0 + x) :: u8) \<noteq> 0"
    by blast+
qed

lemma lead_three:
  assumes "x < 16"
  shows "(of_nat (0xE0 + x) :: u8) AND 0xE0 \<noteq> 0xC0" "(of_nat (0xE0 + x) :: u8) AND 0xF0 = 0xE0"
    "\<not> (of_nat (0xE0 + x) :: u8) < 0x80" "(ucast ((of_nat (0xE0 + x) :: u8) AND 0x0F) :: u32) = of_nat x"
    "(of_nat (0xE0 + x) :: u8) \<noteq> 0"
proof -
  have "list_all (\<lambda>x. (of_nat (0xE0 + x) :: u8) AND 0xE0 \<noteq> 0xC0 \<and> (of_nat (0xE0 + x) :: u8) AND 0xF0 = 0xE0 \<and>
      \<not> (of_nat (0xE0 + x) :: u8) < 0x80 \<and> (ucast ((of_nat (0xE0 + x) :: u8) AND 0x0F) :: u32) = of_nat x \<and>
      (of_nat (0xE0 + x) :: u8) \<noteq> 0) [0..<16]"
    by code_simp
  from all_below [OF this assms] show "(of_nat (0xE0 + x) :: u8) AND 0xE0 \<noteq> 0xC0"
    "(of_nat (0xE0 + x) :: u8) AND 0xF0 = 0xE0" "\<not> (of_nat (0xE0 + x) :: u8) < 0x80"
    "(ucast ((of_nat (0xE0 + x) :: u8) AND 0x0F) :: u32) = of_nat x" "(of_nat (0xE0 + x) :: u8) \<noteq> 0"
    by blast+
qed

lemma lead_four:
  assumes "x < 8"
  shows "(of_nat (0xF0 + x) :: u8) AND 0xE0 \<noteq> 0xC0" "(of_nat (0xF0 + x) :: u8) AND 0xF0 \<noteq> 0xE0"
    "(of_nat (0xF0 + x) :: u8) AND 0xF8 = 0xF0"
    "\<not> (of_nat (0xF0 + x) :: u8) < 0x80" "(ucast ((of_nat (0xF0 + x) :: u8) AND 0x07) :: u32) = of_nat x"
    "(of_nat (0xF0 + x) :: u8) \<noteq> 0"
proof -
  have "list_all (\<lambda>x. (of_nat (0xF0 + x) :: u8) AND 0xE0 \<noteq> 0xC0 \<and> (of_nat (0xF0 + x) :: u8) AND 0xF0 \<noteq> 0xE0 \<and>
      (of_nat (0xF0 + x) :: u8) AND 0xF8 = 0xF0 \<and>
      \<not> (of_nat (0xF0 + x) :: u8) < 0x80 \<and> (ucast ((of_nat (0xF0 + x) :: u8) AND 0x07) :: u32) = of_nat x \<and>
      (of_nat (0xF0 + x) :: u8) \<noteq> 0) [0..<8]"
    by code_simp
  from all_below [OF this assms] show "(of_nat (0xF0 + x) :: u8) AND 0xE0 \<noteq> 0xC0"
    "(of_nat (0xF0 + x) :: u8) AND 0xF0 \<noteq> 0xE0" "(of_nat (0xF0 + x) :: u8) AND 0xF8 = 0xF0"
    "\<not> (of_nat (0xF0 + x) :: u8) < 0x80"
    "(ucast ((of_nat (0xF0 + x) :: u8) AND 0x07) :: u32) = of_nat x" "(of_nat (0xF0 + x) :: u8) \<noteq> 0"
    by blast+
qed

lemma or_shifted:
  assumes "m < 2 ^ k" "k < 32"
  shows "push_bit k (of_nat q) OR (of_nat m :: u32) = of_nat (q * 2 ^ k + m)"
proof -
  have t: "take_bit k (of_nat m :: u32) = of_nat m"
    using assms by (simp add: take_bit_of_nat take_bit_nat_eq_self)
  have "push_bit k (of_nat q) AND (of_nat m :: u32) = 0"
    by (subst t [symmetric], rule bit_eqI) (auto simp: bit_simps)
  then have "push_bit k (of_nat q) OR (of_nat m :: u32) = push_bit k (of_nat q) + of_nat m"
    by (simp add: disjunctive_add_eq_or)
  then show ?thesis
    by (simp add: push_bit_eq_mult)
qed

lemma or_shifted_twice:
  assumes "y < 64" "z < 64"
  shows "push_bit 12 (of_nat x) OR push_bit 6 (of_nat y) OR (of_nat z :: u32) = of_nat ((x * 64 + y) * 64 + z)"
proof -
  have "push_bit 12 (of_nat x) OR push_bit 6 (of_nat y) =
      (push_bit 6 (push_bit 6 (of_nat x) OR of_nat y) :: u32)"
    by (simp add: push_bit_or)
  also have "push_bit 6 (of_nat x) OR (of_nat y :: u32) = of_nat (x * 64 + y)"
    using or_shifted [of y 6 x] assms(1) by simp
  finally have e: "push_bit 12 (of_nat x) OR push_bit 6 (of_nat y) = (push_bit 6 (of_nat (x * 64 + y)) :: u32)" .
  show ?thesis
    unfolding or.assoc [symmetric] e using or_shifted [of z 6 "x * 64 + y"] assms(2) by (simp del: of_nat_add of_nat_mult)
qed

lemma or_shifted_thrice:
  assumes "x < 64" "y < 64" "z < 64"
  shows "push_bit 18 (of_nat w) OR push_bit 12 (of_nat x) OR push_bit 6 (of_nat y) OR (of_nat z :: u32) =
    of_nat (((w * 64 + x) * 64 + y) * 64 + z)"
proof -
  have "push_bit 18 (of_nat w) OR push_bit 12 (of_nat x) = (push_bit 12 (push_bit 6 (of_nat w) OR of_nat x) :: u32)"
    by (simp add: push_bit_or)
  also have "push_bit 6 (of_nat w) OR (of_nat x :: u32) = of_nat (w * 64 + x)"
    using or_shifted [of x 6 w] assms(1) by simp
  finally have e: "push_bit 18 (of_nat w) OR push_bit 12 (of_nat x) = (push_bit 12 (of_nat (w * 64 + x)) :: u32)" .
  show ?thesis
    unfolding or.assoc [symmetric] e unfolding or.assoc by (rule or_shifted_twice [OF assms(2,3)])
qed

lemma digits64: "(n div 64) * 64 + n mod 64 = (n :: nat)"
  by simp

lemma utf8_decodes:
  assumes "0 < n" "n < 0x110000"
  shows "utf8_decode_next (utf8_encode n @ r) = (of_nat n, r)"
proof -
  have d: "n div 4096 = n div 64 div 64" "n div 262144 = n div 64 div 64 div 64"
    by (simp_all add: div_mult2_eq [symmetric])
  consider (one) "n < 0x80" | (two) "0x80 \<le> n" "n < 0x800" | (three) "0x800 \<le> n" "n < 0x10000" | (four) "0x10000 \<le> n"
    by linarith
  then show ?thesis
  proof cases
    case one
    have "list_all (\<lambda>n. n = 0 \<or> (of_nat n :: u8) \<noteq> 0 \<and> (of_nat n :: u8) < 0x80 \<and> (ucast (of_nat n :: u8) :: u32) = of_nat n) [0..<0x80]"
      by code_simp
    from all_below [OF this one] show ?thesis
      using assms one by (simp add: utf8_encode_def utf8_decode_next_def peek_def)
  next
    case two
    then have x: "n div 64 < 32" "n mod 64 < 64"
      by auto
    have "push_bit 6 (of_nat (n div 64)) OR (of_nat (n mod 64) :: u32) = of_nat n"
      using or_shifted [of "n mod 64" 6 "n div 64"] x(2) by (simp del: of_nat_add of_nat_mult)
    then show ?thesis
      using two continuation_encoded [OF x(2), of r] lead_two [OF x(1)]
      by (simp add: utf8_encode_def utf8_decode_next_def peek_def Let_def del: of_nat_add)
  next
    case three
    then have x: "n div 4096 < 16" "n div 64 mod 64 < 64" "n mod 64 < 64"
      by auto
    have "push_bit 12 (of_nat (n div 4096)) OR push_bit 6 (of_nat (n div 64 mod 64)) OR (of_nat (n mod 64) :: u32) = of_nat n"
      unfolding d(1) or_shifted_twice [OF x(2,3)] digits64 by (rule refl)
    then show ?thesis
      using three continuation_encoded [OF x(2)] continuation_encoded [OF x(3), of r] lead_three [OF x(1)]
      by (simp add: utf8_encode_def utf8_decode_next_def peek_def Let_def del: of_nat_add)
  next
    case four
    then have x: "n div 262144 < 8" "n div 4096 mod 64 < 64" "n div 64 mod 64 < 64" "n mod 64 < 64"
      using assms(2) by auto
    have "push_bit 18 (of_nat (n div 262144)) OR push_bit 12 (of_nat (n div 4096 mod 64)) OR
        push_bit 6 (of_nat (n div 64 mod 64)) OR (of_nat (n mod 64) :: u32) = of_nat n"
      using or_shifted_thrice [OF x(2,3,4), of "n div 262144"] unfolding d digits64 .
    then show ?thesis
      using four continuation_encoded [OF x(2)] continuation_encoded [OF x(3)] continuation_encoded [OF x(4), of r]
        lead_four [OF x(1)]
      by (simp add: utf8_encode_def utf8_decode_next_def peek_def Let_def del: of_nat_add)
  qed
qed

section \<open>Measuring\<close>

text \<open>What the text is made of, however broken its encoding.\<close>

lemma encode_starts: "0 < n \<Longrightarrow> n < 0x110000 \<Longrightarrow> peek (utf8_encode n @ r) \<noteq> 0"
proof
  assume n: "0 < n" "n < 0x110000" and z: "peek (utf8_encode n @ r) = 0"
  then have "utf8_decode_next (utf8_encode n @ r) = (0, utf8_encode n @ r)"
    by (simp add: utf8_decode_next_def Let_def)
  with utf8_decodes [OF n, of r] have "utf8_encode n = []"
    by simp
  then show False
    by (simp add: utf8_encode_def split: if_splits)
qed

definition plain_advance :: "vn_font_data \<Rightarrow> nat \<Rightarrow> u32" where
  "plain_advance font n =
     (case find (\<lambda>g. vg_codepoint g = of_nat n) (vf_glyphs font) of
        Some g \<Rightarrow> ucast (vg_advance g) | None \<Rightarrow> ucast (vf_ascent font div 2))"

lemma measure_loop_codes:
  assumes "sorted_glyphs (vf_glyphs font)" "list_all (\<lambda>n. 0 < n \<and> n < 0x110000) ns"
  shows "measure_loop font sc (concat (map utf8_encode ns) @ r) w =
    measure_loop font sc r (w + (\<Sum>n\<leftarrow>ns. plain_advance font n * sc))"
  using assms(2)
proof (induction ns arbitrary: w)
  case Nil
  then show ?case by simp
next
  case (Cons n ns)
  have n: "0 < n" "n < 0x110000" and z: "(of_nat n :: u32) \<noteq> 0"
    using Cons.prems by (simp_all add: word_of_nat_eq_0_iff nat_dvd_not_less)
  have "glyph_advance font (of_nat n) = plain_advance font n"
    by (simp add: glyph_advance_def plain_advance_def find_glyph_finds [OF assms(1)])
  then show ?case
    using Cons encode_starts [OF n] utf8_decodes [OF n] z
    by (subst measure_loop.simps) (simp add: add.assoc)
qed

text \<open>Measuring terminates on every byte string and, on the UTF-8 of any code
  points, adds up one advance per code point, times the font size: the advance
  of the glyph that a linear search of the table finds, or half the ascent
  where there is none.\<close>

lemma measure_adds_advances:
  assumes "sorted_glyphs (vf_glyphs font)" "list_all (\<lambda>n. 0 < n \<and> n < 0x110000) ns"
  shows "measure_vn_text font (Some (concat (map utf8_encode ns))) fs =
    (\<Sum>n\<leftarrow>ns. plain_advance font n * (if fs = 0 then 1 else ucast fs))"
  using measure_loop_codes [OF assms, of _ "[]" 0]
  by (simp add: measure_vn_text_def measure_loop.simps [of _ _ "[]"] peek_def)

definition tiny_font :: vn_font_data where
  "tiny_font = \<lparr>vf_bitmap = [], vf_glyphs =
     [\<lparr>vg_codepoint = 0x41, vg_bitmap_offset = 0, vg_width = 5, vg_height = 7, vg_advance = 6, vg_x_offset = 0, vg_y_offset = 0\<rparr>,
      \<lparr>vg_codepoint = 0x1EA1, vg_bitmap_offset = 7, vg_width = 5, vg_height = 7, vg_advance = 7, vg_x_offset = 0, vg_y_offset = 0\<rparr>],
     vf_ascent = 8, vf_descent = 2\<rparr>"

lemma measure_adds_advances_witness:
  "measure_vn_text tiny_font (Some (concat (map utf8_encode [0x41, 0x1EA1, 0x42]))) 2 = 34"
proof -
  have "sorted_glyphs (vf_glyphs tiny_font)" "list_all (\<lambda>n. 0 < n \<and> n < 0x110000) [0x41, 0x1EA1, 0x42 :: nat]"
    by (simp_all add: sorted_glyphs_def tiny_font_def)
  from measure_adds_advances [OF this, of 2] show ?thesis
    by (simp add: plain_advance_def tiny_font_def)
qed

text \<open>A malformed sequence takes the continuation bytes it has read with it: two
  bytes here, where the header promises one.\<close>

lemma malformed_advances_further: "utf8_decode_next [0xE1, 0xBA, 0x41] = (0xFFFD, [0x41])"
  by (simp add: utf8_decode_next_def continuation_byte_def peek_def Let_def)

end
