(* ===== verification/Glyph_Tables.thy ===== *)
theory Glyph_Tables
  imports Vn_Font
begin

text \<open>
  The generated font tables (ui/vn_font_data.h): for each of the three native
  sizes the packed bitmap, the glyph table and the font that joins them.  A
  bitmap is the concatenation of the rows of the source array, in blocks of a
  hundred rows; a glyph table is a list of the source's initialisers, read as
  integers and stored in the widths of \<^verbatim>\<open>VnGlyph\<close>.
\<close>

section \<open>Tables as the source writes them\<close>

type_synonym glyph_row = "int \<times> int \<times> int \<times> int \<times> int \<times> int \<times> int"

definition glyph_of_row :: "glyph_row \<Rightarrow> vn_glyph" where
  "glyph_of_row = (\<lambda>(cp, off, w, h, adv, xo, yo).
     \<lparr>vg_codepoint = of_int cp, vg_bitmap_offset = of_int off, vg_width = of_int w, vg_height = of_int h,
      vg_advance = of_int adv, vg_x_offset = of_int xo, vg_y_offset = of_int yo\<rparr>)"

section \<open>The small font\<close>

definition bitmap_small_1 :: "bytes list" where
  "bitmap_small_1 = [
  [0x66, 0x64, 0x44, 0x06, 0x60, 0x59, 0x24, 0x80, 0x00, 0x00, 0x00, 0x00, 0x24, 0x49, 0xF9, 0x22, 0x89, 0x3F, 0x24, 0x48],
  [0x10, 0xF9, 0x5E, 0x87, 0x07, 0x85, 0x8B, 0xD6, 0xF8, 0x40, 0x00, 0x62, 0x1E, 0xC3, 0xD0, 0x7E, 0x06, 0xB0, 0x3F, 0x05],
  [0xE1, 0xBC, 0x23, 0x00, 0x1C, 0x1B, 0x09, 0x87, 0x83, 0x13, 0xD9, 0x38, 0x8C, 0x3B, 0x80, 0x49, 0x00, 0x00, 0x00, 0x36],
  [0x64, 0x44, 0x44, 0x66, 0x30, 0xC6, 0x62, 0x22, 0x22, 0x66, 0xC0, 0x27, 0xDC, 0xA0, 0x00, 0x00, 0x00, 0x10, 0x23, 0xF8],
  [0x81, 0x00, 0x00, 0x00, 0x49, 0x20, 0xF0, 0x00, 0x48, 0x26, 0x44, 0x44, 0x4C, 0x80, 0x38, 0xD9, 0x12, 0x2C, 0x48, 0x91],
  [0x36, 0x38, 0x38, 0xF1, 0x60, 0xC1, 0x83, 0x06, 0x0C, 0x7C, 0x78, 0x98, 0x10, 0x61, 0xC7, 0x1C, 0x30, 0xFE, 0x78, 0x98],
  [0x10, 0x61, 0x80, 0x81, 0xE2, 0x78, 0x0C, 0x38, 0xF1, 0x64, 0xD9, 0xBF, 0x86, 0x0C, 0x7C, 0x81, 0x03, 0xE4, 0x40, 0xC1],
  [0xA2, 0x78, 0x38, 0xC9, 0x03, 0xEE, 0x58, 0xD1, 0xB2, 0x38, 0x7C, 0x08, 0x30, 0xC1, 0x86, 0x0C, 0x18, 0x30, 0x38, 0x89],
  [0x13, 0x23, 0x88, 0xB1, 0xA2, 0x7C, 0x38, 0x9B, 0x16, 0x24, 0xEF, 0x81, 0x26, 0x78, 0x66, 0x00, 0x06, 0x60, 0x66, 0x00],
  [0x06, 0x62, 0x40, 0x06, 0xFB, 0x03, 0xE0, 0x60, 0x00, 0x00, 0xFE, 0x00, 0x07, 0xF0, 0x00, 0x00, 0xC0, 0xF8, 0x1B, 0xEC],
  [0x00, 0x00, 0x00, 0x38, 0xD9, 0x10, 0x61, 0x82, 0x00, 0x18, 0x30, 0x0F, 0x81, 0x04, 0x20, 0x24, 0xEA, 0x49, 0xA5, 0x12],
  [0x51, 0x24, 0xFC, 0x40, 0x02, 0x08, 0x1F, 0x00, 0x18, 0x0C, 0x0F, 0x04, 0x82, 0x43, 0xF1, 0x98, 0x84, 0xC3, 0x00, 0x7C],
  [0x23, 0x11, 0x88, 0xC7, 0xE2, 0x11, 0x08, 0x8C, 0x7C, 0x00, 0x3C, 0x33, 0x10, 0xC8, 0x0C, 0x02, 0x01, 0x08, 0xCC, 0x3C],
  [0x00, 0x7C, 0x23, 0x10, 0x88, 0x44, 0x32, 0x11, 0x18, 0x8C, 0x7C, 0x00, 0x7C, 0x40, 0x40, 0x40, 0x7C, 0x40, 0x40, 0x40],
  [0x7E, 0x7C, 0x81, 0x02, 0x07, 0xC8, 0x10, 0x20, 0x40, 0x3C, 0x33, 0x10, 0x98, 0x0C, 0xE6, 0x11, 0x08, 0xCC, 0x3C, 0x00],
  [0x42, 0x21, 0x10, 0x88, 0x47, 0xE2, 0x11, 0x08, 0x84, 0x42, 0x00, 0x49, 0x24, 0x92, 0x40, 0x1C, 0x18, 0x30, 0x60, 0xC1],
  [0xB3, 0x26, 0x78, 0x46, 0x26, 0x13, 0x0B, 0x07, 0x83, 0x61, 0x30, 0x8C, 0x43, 0x00, 0x60, 0xC1, 0x83, 0x06, 0x0C, 0x18],
  [0x30, 0x7E, 0x61, 0x9C, 0xE5, 0x39, 0x4A, 0x52, 0x97, 0xA4, 0xC9, 0x32, 0x4C, 0x80, 0x62, 0x31, 0x1C, 0x8A, 0x45, 0xA2],
  [0x51, 0x38, 0x8C, 0x46, 0x00, 0x3E, 0x31, 0x98, 0xC8, 0x2C, 0x1A, 0x09, 0x8C, 0xC6, 0x3E, 0x00, 0x7C, 0x66, 0x63, 0x63],
  [0x66, 0x7C, 0x60, 0x60, 0x60, 0x3E, 0x31, 0x98, 0xC8, 0x2C, 0x1A, 0x09, 0x8C, 0xC6, 0x3E, 0x06, 0x01, 0xC0, 0x7C, 0x23],
  [0x10, 0x88, 0x44, 0x63, 0xE1, 0x30, 0x8C, 0x42, 0x00, 0x3C, 0x66, 0x40, 0x70, 0x3E, 0x06, 0x03, 0xC2, 0x7C, 0xFE, 0x10],
  [0x10, 0x10, 0x10, 0x10, 0x10, 0x10, 0x10, 0x42, 0x21, 0x10, 0x88, 0x44, 0x22, 0x11, 0x08, 0xCC, 0x3C, 0x00, 0xC3, 0x42],
  [0x66, 0x66, 0x24, 0x24, 0x3C, 0x18, 0x18, 0xC6, 0x3C, 0x63, 0x4F, 0x26, 0xF6, 0x69, 0x66, 0x96, 0x29, 0x43, 0x9C, 0x31],
  [0xC0, 0x42, 0x66, 0x3C, 0x3C, 0x18, 0x3C, 0x24, 0x66, 0xC3, 0xC6, 0x6C, 0x6C, 0x28, 0x38, 0x10, 0x10, 0x10, 0x10, 0x7C],
  [0x18, 0x20, 0xC3, 0x06, 0x18, 0x30, 0xFE, 0x74, 0x44, 0x44, 0x44, 0x44, 0x70, 0x8C, 0x44, 0x44, 0x46, 0x20, 0xE2, 0x22],
  [0x22, 0x22, 0x22, 0xE0, 0x38, 0x51, 0xB2, 0x2C, 0x60, 0x00, 0x00, 0x00, 0x00, 0xFE, 0xC6, 0x20, 0x00, 0x00, 0x00, 0x00],
  [0x38, 0xD8, 0x13, 0xEC, 0x59, 0x9D, 0x80, 0x40, 0x81, 0x73, 0x64, 0x48, 0xD1, 0x36, 0x5C, 0x3C, 0xC9, 0x06, 0x04, 0x0C],
  [0x8F, 0x00, 0x04, 0x09, 0xD3, 0x64, 0x58, 0x91, 0x36, 0x74, 0x38, 0xC9, 0x17, 0xF4, 0x0C, 0x8E, 0x00, 0x73, 0x3C, 0xC6],
  [0x31, 0x8C, 0x60, 0x74, 0xD9, 0x16, 0x24, 0x4D, 0x9D, 0x06, 0x78, 0x40, 0x81, 0x73, 0x64, 0x48, 0x91, 0x22, 0x44, 0x41],
  [0x24, 0x92, 0x40, 0x40, 0x44, 0x44, 0x44, 0x44, 0xC0, 0x60, 0xC1, 0x93, 0x67, 0x8F, 0x1B, 0x36, 0x66, 0x49, 0x24, 0x92],
  [0x40, 0x5D, 0xCD, 0xD9, 0x91, 0x32, 0x26, 0x44, 0xC8, 0x99, 0x10, 0x5C, 0xD9, 0x12, 0x24, 0x48, 0x91, 0x00, 0x38, 0xD9],
  [0x16, 0x34, 0x4D, 0x8E, 0x00, 0x5C, 0xD9, 0x12, 0x34, 0x4D, 0x97, 0x20, 0x40, 0x74, 0xD9, 0x16, 0x24, 0x4D, 0x9D, 0x02],
  [0x04, 0x5B, 0x18, 0xC6, 0x31, 0x80, 0x78, 0x89, 0x83, 0xE0, 0x48, 0x9F, 0x00, 0x6F, 0x66, 0x66, 0x67, 0x44, 0x89, 0x12],
  [0x24, 0x4D, 0x9D, 0x00, 0xCD, 0x99, 0x23, 0xC7, 0x86, 0x0C, 0x00, 0xCC, 0xD9, 0x99, 0x7A, 0x29, 0x47, 0x38, 0xE7, 0x0C],
  [0xC0, 0x44, 0xD8, 0xE1, 0xC2, 0x8D, 0xB1, 0x80, 0xCC, 0x91, 0x23, 0xC7, 0x86, 0x0C, 0x18, 0x60, 0x78, 0x61, 0x0C, 0x61],
  [0x8F, 0xC0, 0x39, 0x08, 0x46, 0x61, 0x84, 0x21, 0x0E, 0x49, 0x24, 0x92, 0x49, 0x20, 0xE1, 0x08, 0x43, 0x0C, 0xC4, 0x21],
  [0x38, 0xF3, 0x3C, 0x00, 0x00, 0x00, 0x10, 0x04, 0x00, 0x03, 0x01, 0x81, 0xE0, 0x90, 0x48, 0x7E, 0x33, 0x10, 0x98, 0x60],
  [0x04, 0x04, 0x00, 0x03, 0x01, 0x81, 0xE0, 0x90, 0x48, 0x7E, 0x33, 0x10, 0x98, 0x60, 0x18, 0x12, 0x00, 0x03, 0x01, 0x81],
  [0xE0, 0x90, 0x48, 0x7E, 0x33, 0x10, 0x98, 0x60, 0x34, 0x16, 0x00, 0x03, 0x01, 0x81, 0xE0, 0x90, 0x48, 0x7E, 0x33, 0x10],
  [0x98, 0x60, 0x10, 0x08, 0x00, 0x7C, 0x40, 0x40, 0x40, 0x7C, 0x40, 0x40, 0x40, 0x7E, 0x08, 0x10, 0x00, 0x7C, 0x40, 0x40],
  [0x40, 0x7C, 0x40, 0x40, 0x40, 0x7E, 0x18, 0x24, 0x00, 0x7C, 0x40, 0x40, 0x40, 0x7C, 0x40, 0x40, 0x40, 0x7E, 0x84, 0x04],
  [0x44, 0x44, 0x44, 0x44, 0x24, 0x04, 0x44, 0x44, 0x44, 0x44, 0x08, 0x02, 0x00, 0x07, 0xC6, 0x33, 0x19, 0x05, 0x83, 0x41],
  [0x31, 0x98, 0xC7, 0xC0, 0x04, 0x04, 0x00, 0x07, 0xC6, 0x33, 0x19, 0x05, 0x83, 0x41, 0x31, 0x98, 0xC7, 0xC0, 0x0C, 0x09],
  [0x00, 0x07, 0xC6, 0x33, 0x19, 0x05, 0x83, 0x41, 0x31, 0x98, 0xC7, 0xC0, 0x1A, 0x0B, 0x00, 0x07, 0xC6, 0x33, 0x19, 0x05],
  [0x83, 0x41, 0x31, 0x98, 0xC7, 0xC0, 0x10, 0x04, 0x00, 0x08, 0x44, 0x22, 0x11, 0x08, 0x84, 0x42, 0x21, 0x19, 0x87, 0x80],
  [0x04, 0x04, 0x00, 0x08, 0x44, 0x22, 0x11, 0x08, 0x84, 0x42, 0x21, 0x19, 0x87, 0x80, 0x08, 0x10, 0x00, 0xC6, 0x6C, 0x6C],
  [0x28, 0x38, 0x10, 0x10, 0x10, 0x10, 0x60, 0x60, 0x40, 0x03, 0x8D, 0x81, 0x3E, 0xC5, 0x99, 0xD8, 0x08, 0x30, 0x40, 0x03],
  [0x8D, 0x81, 0x3E, 0xC5, 0x99, 0xD8, 0x18, 0x28, 0x90, 0x03, 0x8D, 0x81, 0x3E, 0xC5, 0x99, 0xD8, 0x64, 0xB0, 0x01, 0xC6],
  [0xC0, 0x9F, 0x62, 0xCC, 0xEC, 0x30, 0x30, 0x20, 0x03, 0x8C, 0x91, 0x7F, 0x40, 0xC8, 0xE0, 0x08, 0x30, 0x40, 0x03, 0x8C],
  [0x91, 0x7F, 0x40, 0xC8, 0xE0, 0x18, 0x28, 0x90, 0x03, 0x8C, 0x91, 0x7F, 0x40, 0xC8, 0xE0, 0xC6, 0x20, 0x22, 0x22, 0x22],
  [0x20, 0x26, 0x40, 0x44, 0x44, 0x44, 0x40, 0x30, 0x30, 0x20, 0x03, 0x8D, 0x91, 0x63, 0x44, 0xD8, 0xE0, 0x08, 0x30, 0x40],
  [0x03, 0x8D, 0x91, 0x63, 0x44, 0xD8, 0xE0, 0x18, 0x28, 0x90, 0x03, 0x8D, 0x91, 0x63, 0x44, 0xD8, 0xE0, 0x32, 0x58, 0x01],
  [0xC6, 0xC8, 0xB1, 0xA2, 0x6C, 0x70, 0x60, 0x60, 0x40, 0x04, 0x48, 0x91, 0x22, 0x44, 0xD9, 0xD0, 0x08, 0x30, 0x40, 0x04],
  [0x48, 0x91, 0x22, 0x44, 0xD9, 0xD0, 0x08, 0x30, 0x40, 0x0C, 0xC9, 0x12, 0x3C, 0x78, 0x60, 0xC1, 0x86, 0x00, 0x24, 0x0C],
  [0x00, 0x03, 0x01, 0x81, 0xE0, 0x90, 0x48, 0x7E, 0x33, 0x10, 0x98, 0x60, 0x24, 0x58, 0x60, 0x03, 0x8D, 0x81, 0x3E, 0xC5],
  [0x99, 0xD8, 0x7C, 0x31, 0x98, 0xCC, 0x2F, 0x93, 0x09, 0x8C, 0xC6, 0x7C, 0x00, 0x04, 0x1E, 0x04, 0x74, 0x4C, 0xC4, 0xC4],
  [0x4C, 0x74, 0xD5, 0x80, 0x84, 0x21, 0x08, 0x42, 0x10, 0x80, 0xD5, 0x80, 0x84, 0x21, 0x08, 0x42, 0x00, 0x34, 0x16, 0x00],
  [0x08, 0x44, 0x22, 0x11, 0x08, 0x84, 0x42, 0x21, 0x19, 0x87, 0x80, 0x34, 0x58, 0x02, 0x24, 0x48, 0x91, 0x22, 0x6C, 0xE8],
  [0x3E, 0xCC, 0x79, 0x85, 0x20, 0xCC, 0x18, 0x83, 0x18, 0x43, 0x18, 0x3E, 0x00, 0x3D, 0xB3, 0xD1, 0xB8, 0x64, 0x63, 0x30],
  [0xF0, 0x43, 0xD0, 0xF4, 0x35, 0x0E, 0x43, 0x10, 0xC6, 0x31, 0x88, 0x3C, 0x00, 0x47, 0xA3, 0xD1, 0xA8, 0xE4, 0x63, 0x31],
  [0xF8, 0x18, 0x0C, 0x0F, 0x04, 0x82, 0x43, 0xF1, 0x98, 0x84, 0xC3, 0x00, 0x06, 0x00, 0x00, 0x38, 0xD8, 0x13, 0xEC, 0x59],
  [0x9D, 0x80, 0x18, 0x00, 0x1C, 0x04, 0x00, 0x03, 0x01, 0x81, 0xE0, 0x90, 0x48, 0x7E, 0x33, 0x10, 0x98, 0x60, 0x38, 0x20],
  [0x01, 0xC6, 0xC0, 0x9F, 0x62, 0xCC, 0xEC, 0x1A, 0x12, 0x00, 0x03, 0x01, 0x81, 0xE0, 0x90, 0x48, 0x7E, 0x33, 0x10, 0x98],
  [0x60, 0x1A, 0x48, 0x01, 0xC6, 0xC0, 0x9F, 0x62, 0xCC, 0xEC, 0x58, 0x12, 0x00, 0x03, 0x01, 0x81, 0xE0, 0x90, 0x48, 0x7E],
  [0x33, 0x10, 0x98, 0x60, 0x58, 0x48, 0x01, 0xC6, 0xC0, 0x9F, 0x62, 0xCC, 0xEC, 0x1A, 0x12, 0x00, 0x03, 0x01, 0x81, 0xE0],
  [0x90, 0x48, 0x7E, 0x33, 0x10, 0x98, 0x60, 0x06, 0x34, 0x90, 0x03, 0x8D, 0x81, 0x3E, 0xC5, 0x99, 0xD8, 0x34, 0x16, 0x06],
  [0x00, 0x01, 0x80, 0xC0, 0xF0, 0x48, 0x24, 0x3F, 0x19, 0x88, 0x4C, 0x30, 0x34, 0x58, 0x61, 0x20, 0x07, 0x1B, 0x02, 0x7D],
  [0x8B, 0x33, 0xB0, 0x18, 0x12, 0x00, 0x03, 0x01, 0x81, 0xE0, 0x90, 0x48, 0x7E, 0x33, 0x10, 0x98, 0x60, 0x00, 0xC0, 0x00],
  [0x18, 0x28, 0x90, 0x03, 0x8D, 0x81, 0x3E, 0xC5, 0x99, 0xD8, 0x01, 0x80, 0x00, 0x08, 0x1E, 0x00, 0x03, 0x01, 0x81, 0xE0],
  [0x90, 0x48, 0x7E, 0x33, 0x10, 0x98, 0x60, 0x0C, 0x10, 0x90, 0xC0, 0x07, 0x1B, 0x02, 0x7D, 0x8B, 0x33, 0xB0, 0x10, 0x1E],
  [0x00, 0x03, 0x01, 0x81, 0xE0, 0x90, 0x48, 0x7E, 0x33, 0x10, 0x98, 0x60, 0x30, 0x20, 0x90, 0xC0, 0x07, 0x1B, 0x02, 0x7D],
  [0x8B, 0x33, 0xB0, 0x18, 0x1E, 0x00, 0x03, 0x01, 0x81, 0xE0, 0x90, 0x48, 0x7E, 0x33, 0x10, 0x98, 0x60, 0x18, 0x10, 0x90],
  [0xC0, 0x07, 0x1B, 0x02, 0x7D, 0x8B, 0x33, 0xB0, 0x38, 0x0C, 0x00, 0x03, 0x01, 0x81, 0xE0, 0x90, 0x48, 0x7E, 0x33, 0x10],
  [0x98, 0x60, 0x34, 0x58, 0x90, 0xC0, 0x07, 0x1B, 0x02, 0x7D, 0x8B, 0x33, 0xB0, 0x24, 0x0C, 0x00, 0x03, 0x01, 0x81, 0xE0],
  [0x90, 0x48, 0x7E, 0x33, 0x10, 0x98, 0x60, 0x00, 0xC0, 0x00, 0x24, 0x58, 0x60, 0x03, 0x8D, 0x81, 0x3E, 0xC5, 0x99, 0xD8],
  [0x01, 0x80, 0x00, 0x7C, 0x40, 0x40, 0x40, 0x7C, 0x40, 0x40, 0x40, 0x7E, 0x00, 0x18, 0x00, 0x38, 0xC9, 0x17, 0xF4, 0x0C],
  [0x8E, 0x00, 0x18, 0x00, 0x1C, 0x08, 0x00, 0x7C, 0x40, 0x40, 0x40, 0x7C, 0x40, 0x40, 0x40, 0x7E, 0x1C, 0x10, 0x01, 0xC6],
  [0x48, 0xBF, 0xA0, 0x64, 0x70, 0x32, 0x2C, 0x00, 0x7C, 0x40, 0x40, 0x40, 0x7C, 0x40, 0x40, 0x40, 0x7E, 0x32, 0x58, 0x01],
  [0xC6, 0x48, 0xBF, 0xA0, 0x64, 0x70, 0x1A, 0x24, 0x00, 0x7C, 0x40, 0x40, 0x40, 0x7C, 0x40, 0x40, 0x40, 0x7E, 0x1A, 0x48],
  [0x01, 0xC6, 0x48, 0xBF, 0xA0, 0x64, 0x70, 0x58, 0x24, 0x00, 0x7C, 0x40, 0x40, 0x40, 0x7C, 0x40, 0x40, 0x40, 0x7E, 0x58],
  [0x48, 0x01, 0xC6, 0x48, 0xBF, 0xA0, 0x64, 0x70, 0x1A, 0x24, 0x00, 0x7C, 0x40, 0x40, 0x40, 0x7C, 0x40, 0x40, 0x40, 0x7E],
  [0x06, 0x34, 0x90, 0x03, 0x8C, 0x91, 0x7F, 0x40, 0xC8, 0xE0, 0x34, 0x2C, 0x18, 0x00, 0x7C, 0x40, 0x40, 0x40, 0x7C, 0x40],
  [0x40, 0x40, 0x7E, 0x34, 0x58, 0x61, 0x20, 0x07, 0x19, 0x22, 0xFE, 0x81, 0x91, 0xC0, 0x18, 0x24, 0x00, 0x7C, 0x40, 0x40],
  [0x40, 0x7C, 0x40, 0x40, 0x40, 0x7E, 0x00, 0x0C, 0x00, 0x18, 0x28, 0x90, 0x03, 0x8C, 0x91, 0x7F, 0x40, 0xC8, 0xE0, 0x01],
  [0x80, 0x00, 0x72, 0x04, 0x44, 0x44, 0x44, 0x44, 0xE4, 0x04, 0x44, 0x44, 0x44, 0x49, 0x24, 0x92, 0x41, 0x80, 0x41, 0x24],
  [0x92, 0x41, 0x80, 0x3E, 0x31, 0x98, 0xC8, 0x2C, 0x1A, 0x09, 0x8C, 0xC6, 0x3E, 0x00, 0x03, 0x00, 0x00, 0x38, 0xD9, 0x16],
  [0x34, 0x4D, 0x8E, 0x00, 0x18, 0x00, 0x0E, 0x02, 0x00, 0x07, 0xC6, 0x33, 0x19, 0x05, 0x83, 0x41, 0x31, 0x98, 0xC7, 0xC0],
  [0x38, 0x20, 0x01, 0xC6, 0xC8, 0xB1, 0xA2, 0x6C, 0x70, 0x0D, 0x09, 0x00, 0x07, 0xC6, 0x33, 0x19, 0x05, 0x83, 0x41, 0x31],
  [0x98, 0xC7, 0xC0, 0x1A, 0x48, 0x01, 0xC6, 0xC8, 0xB1, 0xA2, 0x6C, 0x70, 0x2C, 0x09, 0x00, 0x07, 0xC6, 0x33, 0x19, 0x05],
  [0x83, 0x41, 0x31, 0x98, 0xC7, 0xC0, 0x58, 0x48, 0x01, 0xC6, 0xC8, 0xB1, 0xA2, 0x6C, 0x70, 0x0D, 0x09, 0x00, 0x07, 0xC6],
  [0x33, 0x19, 0x05, 0x83, 0x41, 0x31, 0x98, 0xC7, 0xC0, 0x06, 0x34, 0x90, 0x03, 0x8D, 0x91, 0x63, 0x44, 0xD8, 0xE0, 0x1A],
  [0x0B, 0x03, 0x00, 0x03, 0xE3, 0x19, 0x8C, 0x82, 0xC1, 0xA0, 0x98, 0xCC, 0x63, 0xE0, 0x34, 0x58, 0x61, 0x20, 0x07, 0x1B],
  [0x22, 0xC6, 0x89, 0xB1, 0xC0, 0x0C, 0x09, 0x00, 0x07, 0xC6, 0x33, 0x19, 0x05, 0x83, 0x41, 0x31, 0x98, 0xC7, 0xC0, 0x00],
  [0x60, 0x00, 0x18, 0x28, 0x90, 0x03, 0x8D, 0x91, 0x63, 0x44, 0xD8, 0xE0, 0x01, 0x80, 0x00, 0x04, 0x01, 0x00, 0x00, 0x1F],
  [0x66, 0x3C, 0xC2, 0x90, 0x66, 0x0C, 0x41, 0x8C, 0x21, 0x8C, 0x1F, 0x00, 0x08, 0x0C, 0x04, 0x00, 0x03, 0xDB, 0x3D, 0x1B],
  [0x86, 0x46, 0x33, 0x0F, 0x00, 0x10, 0x01, 0x00, 0x00, 0x1F, 0x66, 0x3C, 0xC2, 0x90, 0x66, 0x0C, 0x41, 0x8C, 0x21, 0x8C],
  [0x1F, 0x00, 0x30, 0x0C, 0x02, 0x00, 0x03, 0xDB, 0x3D, 0x1B, 0x86, 0x46, 0x33, 0x0F, 0x00, 0x0E, 0x00, 0x80, 0x00, 0x1F],
  [0x66, 0x3C, 0xC2, 0x90, 0x66, 0x0C, 0x41, 0x8C, 0x21, 0x8C, 0x1F, 0x00, 0x1C, 0x04, 0x00, 0x07, 0xB6, 0x7A, 0x37, 0x0C],
  [0x8C, 0x66, 0x1E, 0x00, 0x1A, 0x02, 0xC0, 0x00, 0x1F, 0x66, 0x3C, 0xC2, 0x90, 0x66, 0x0C, 0x41, 0x8C, 0x21, 0x8C, 0x1F],
  [0x00, 0x32, 0x16, 0x00, 0x07, 0xB6, 0x7A, 0x37, 0x0C, 0x8C, 0x66, 0x1E, 0x00, 0x3E, 0xCC, 0x79, 0x85, 0x20, 0xCC, 0x18]]"

definition bitmap_small_2 :: "bytes list" where
  "bitmap_small_2 = [
  [0x83, 0x18, 0x43, 0x18, 0x3E, 0x00, 0x00, 0x30, 0x00, 0x00, 0x3D, 0xB3, 0xD1, 0xB8, 0x64, 0x63, 0x30, 0xF0, 0x00, 0x18],
  [0x00, 0x00, 0x42, 0x21, 0x10, 0x88, 0x44, 0x22, 0x11, 0x08, 0xCC, 0x3C, 0x00, 0x06, 0x00, 0x00, 0x44, 0x89, 0x12, 0x24],
  [0x4D, 0x9D, 0x00, 0x18, 0x00, 0x1C, 0x04, 0x00, 0x08, 0x44, 0x22, 0x11, 0x08, 0x84, 0x42, 0x21, 0x19, 0x87, 0x80, 0x38],
  [0x20, 0x02, 0x24, 0x48, 0x91, 0x22, 0x6C, 0xE8, 0x04, 0x02, 0x00, 0x01, 0x0F, 0x43, 0xD0, 0xD4, 0x39, 0x0C, 0x43, 0x18],
  [0xC6, 0x20, 0xF0, 0x04, 0x06, 0x02, 0x00, 0x04, 0x7A, 0x3D, 0x1A, 0x8E, 0x46, 0x33, 0x1F, 0x80, 0x10, 0x02, 0x00, 0x01],
  [0x0F, 0x43, 0xD0, 0xD4, 0x39, 0x0C, 0x43, 0x18, 0xC6, 0x20, 0xF0, 0x30, 0x0C, 0x02, 0x00, 0x04, 0x7A, 0x3D, 0x1A, 0x8E],
  [0x46, 0x33, 0x1F, 0x80, 0x1C, 0x02, 0x00, 0x01, 0x0F, 0x43, 0xD0, 0xD4, 0x39, 0x0C, 0x43, 0x18, 0xC6, 0x20, 0xF0, 0x1C],
  [0x04, 0x00, 0x08, 0xF4, 0x7A, 0x35, 0x1C, 0x8C, 0x66, 0x3F, 0x00, 0x1A, 0x05, 0x80, 0x01, 0x0F, 0x43, 0xD0, 0xD4, 0x39],
  [0x0C, 0x43, 0x18, 0xC6, 0x20, 0xF0, 0x32, 0x16, 0x00, 0x08, 0xF4, 0x7A, 0x35, 0x1C, 0x8C, 0x66, 0x3F, 0x00, 0x43, 0xD0],
  [0xF4, 0x35, 0x0E, 0x43, 0x10, 0xC6, 0x31, 0x88, 0x3C, 0x00, 0x00, 0xC0, 0x00, 0x47, 0xA3, 0xD1, 0xA8, 0xE4, 0x63, 0x31],
  [0xF8, 0x00, 0x18, 0x00, 0x00, 0x20, 0x10, 0x00, 0xC6, 0x6C, 0x6C, 0x28, 0x38, 0x10, 0x10, 0x10, 0x10, 0x60, 0x60, 0x40],
  [0x0C, 0xC9, 0x12, 0x3C, 0x78, 0x60, 0xC1, 0x86, 0x00, 0xC6, 0x6C, 0x6C, 0x28, 0x38, 0x10, 0x10, 0x10, 0x10, 0x00, 0x18],
  [0x00, 0xCC, 0x91, 0x23, 0xC7, 0x86, 0x0C, 0x18, 0x66, 0x00, 0x38, 0x10, 0x00, 0xC6, 0x6C, 0x6C, 0x28, 0x38, 0x10, 0x10],
  [0x10, 0x10, 0x38, 0x20, 0x06, 0x64, 0x89, 0x1E, 0x3C, 0x30, 0x60, 0xC3, 0x00, 0x34, 0x2C, 0x00, 0xC6, 0x6C, 0x6C, 0x28],
  [0x38, 0x10, 0x10, 0x10, 0x10, 0x64, 0xB0, 0x06, 0x64, 0x89, 0x1E, 0x3C, 0x30, 0x60, 0xC3, 0x00]]"

definition bitmap_small :: bytes where
  "bitmap_small = concat (bitmap_small_1 @ bitmap_small_2)"

definition glyph_rows_small :: "glyph_row list" where
  "glyph_rows_small = [
  (32, 0, 3, 0, 3, 0, 0), (33, 0, 4, 9, 4, 0, -9), (34, 5, 6, 9, 6, 0, -9),
  (35, 12, 7, 9, 7, 0, -9), (36, 20, 7, 12, 7, 0, -10), (37, 31, 11, 9, 11, 0, -9),
  (38, 44, 9, 9, 9, 0, -9), (39, 55, 3, 9, 3, 0, -9), (40, 59, 4, 11, 4, 0, -9),
  (41, 65, 4, 11, 4, 0, -9), (42, 71, 5, 9, 5, 0, -9), (43, 77, 7, 8, 7, 0, -8),
  (44, 84, 3, 4, 3, 0, -2), (45, 86, 4, 4, 4, 0, -4), (46, 88, 3, 2, 3, 0, -2),
  (47, 89, 4, 9, 3, 0, -9), (48, 94, 7, 9, 7, 0, -9), (49, 102, 7, 9, 7, 0, -9),
  (50, 110, 7, 9, 7, 0, -9), (51, 118, 7, 9, 7, 0, -9), (52, 126, 7, 9, 7, 0, -9),
  (53, 134, 7, 9, 7, 0, -9), (54, 142, 7, 9, 7, 0, -9), (55, 150, 7, 9, 7, 0, -9),
  (56, 158, 7, 9, 7, 0, -9), (57, 166, 7, 9, 7, 0, -9), (58, 174, 4, 7, 4, 0, -7),
  (59, 178, 4, 9, 4, 0, -7), (60, 183, 7, 7, 7, 0, -7), (61, 190, 7, 6, 7, 0, -6),
  (62, 196, 7, 7, 7, 0, -7), (63, 203, 7, 9, 7, 0, -9), (64, 211, 12, 11, 12, 0, -9),
  (65, 228, 9, 9, 9, 0, -9), (66, 239, 9, 9, 9, 0, -9), (67, 250, 9, 9, 9, 0, -9),
  (68, 261, 9, 9, 9, 0, -9), (69, 272, 8, 9, 8, 0, -9), (70, 281, 7, 9, 7, 0, -9),
  (71, 289, 9, 9, 9, 0, -9), (72, 300, 9, 9, 9, 0, -9), (73, 311, 3, 9, 3, 0, -9),
  (74, 315, 7, 9, 7, 0, -9), (75, 323, 9, 9, 9, 0, -9), (76, 334, 7, 9, 7, 0, -9),
  (77, 342, 10, 9, 10, 0, -9), (78, 354, 9, 9, 9, 0, -9), (79, 365, 9, 9, 9, 0, -9),
  (80, 376, 8, 9, 8, 0, -9), (81, 385, 9, 11, 9, 0, -9), (82, 398, 9, 9, 9, 0, -9),
  (83, 409, 8, 9, 8, 0, -9), (84, 418, 8, 9, 7, 0, -9), (85, 427, 9, 9, 9, 0, -9),
  (86, 438, 8, 9, 8, 0, -9), (87, 447, 12, 9, 11, 0, -9), (88, 461, 8, 9, 8, 0, -9),
  (89, 470, 8, 9, 8, 0, -9), (90, 479, 7, 9, 7, 0, -9), (91, 487, 4, 11, 4, 0, -9),
  (92, 493, 4, 9, 3, 0, -9), (93, 498, 4, 11, 4, 0, -9), (94, 504, 7, 9, 7, 0, -9),
  (95, 512, 8, 2, 7, -1, 0), (96, 514, 4, 11, 4, 0, -11), (97, 520, 7, 7, 7, 0, -7),
  (98, 527, 7, 9, 7, 0, -9), (99, 535, 7, 7, 7, 0, -7), (100, 542, 7, 9, 7, 0, -9),
  (101, 550, 7, 7, 7, 0, -7), (102, 557, 5, 9, 4, 0, -9), (103, 563, 7, 9, 7, 0, -7),
  (104, 571, 7, 9, 7, 0, -9), (105, 579, 3, 9, 3, 0, -9), (106, 583, 4, 11, 3, -1, -9),
  (107, 589, 7, 9, 7, 0, -9), (108, 597, 3, 9, 3, 0, -9), (109, 601, 11, 7, 11, 0, -7),
  (110, 611, 7, 7, 7, 0, -7), (111, 618, 7, 7, 7, 0, -7), (112, 625, 7, 9, 7, 0, -7),
  (113, 633, 7, 9, 7, 0, -7), (114, 641, 5, 7, 5, 0, -7), (115, 646, 7, 7, 7, 0, -7),
  (116, 653, 4, 8, 4, 0, -8), (117, 657, 7, 7, 7, 0, -7), (118, 664, 7, 7, 7, 0, -7),
  (119, 671, 11, 7, 9, -1, -7), (120, 681, 7, 7, 7, 0, -7), (121, 688, 7, 9, 7, 0, -7),
  (122, 696, 6, 7, 6, 0, -7), (123, 702, 5, 11, 5, 0, -9), (124, 709, 3, 12, 3, 0, -9),
  (125, 714, 5, 11, 5, 0, -9), (126, 721, 7, 5, 7, 0, -5), (192, 726, 9, 12, 9, 0, -12),
  (193, 740, 9, 12, 9, 0, -12), (194, 754, 9, 12, 9, 0, -12), (195, 768, 9, 12, 9, 0, -12),
  (200, 782, 8, 12, 8, 0, -12), (201, 794, 8, 12, 8, 0, -12), (202, 806, 8, 12, 8, 0, -12),
  (204, 818, 4, 12, 3, -1, -12), (205, 824, 4, 12, 3, 0, -12), (210, 830, 9, 12, 9, 0, -12),
  (211, 844, 9, 12, 9, 0, -12), (212, 858, 9, 12, 9, 0, -12), (213, 872, 9, 12, 9, 0, -12),
  (217, 886, 9, 12, 9, 0, -12), (218, 900, 9, 12, 9, 0, -12), (221, 914, 8, 12, 8, 0, -12),
  (224, 926, 7, 11, 7, 0, -11), (225, 936, 7, 11, 7, 0, -11), (226, 946, 7, 11, 7, 0, -11),
  (227, 956, 7, 10, 7, 0, -10), (232, 965, 7, 11, 7, 0, -11), (233, 975, 7, 11, 7, 0, -11),
  (234, 985, 7, 11, 7, 0, -11), (236, 995, 4, 11, 3, -1, -11), (237, 1001, 4, 11, 3, 0, -11),
  (242, 1007, 7, 11, 7, 0, -11), (243, 1017, 7, 11, 7, 0, -11), (244, 1027, 7, 11, 7, 0, -11),
  (245, 1037, 7, 10, 7, 0, -10), (249, 1046, 7, 11, 7, 0, -11), (250, 1056, 7, 11, 7, 0, -11),
  (253, 1066, 7, 13, 7, 0, -11), (258, 1078, 9, 12, 9, 0, -12), (259, 1092, 7, 11, 7, 0, -11),
  (272, 1102, 9, 9, 9, 0, -9), (273, 1113, 8, 9, 7, 0, -9), (296, 1122, 5, 12, 3, -1, -12),
  (297, 1130, 5, 10, 3, -1, -10), (360, 1137, 9, 12, 9, 0, -12), (361, 1151, 7, 10, 7, 0, -10),
  (416, 1160, 11, 9, 10, 0, -9), (417, 1173, 9, 7, 9, 0, -7), (431, 1181, 10, 9, 10, 0, -9),
  (432, 1193, 9, 7, 9, 0, -7), (7840, 1201, 9, 12, 9, 0, -9), (7841, 1215, 7, 10, 7, 0, -7),
  (7842, 1224, 9, 12, 9, 0, -12), (7843, 1238, 7, 10, 7, 0, -10), (7844, 1247, 9, 12, 9, 0, -12),
  (7845, 1261, 7, 10, 7, 0, -10), (7846, 1270, 9, 12, 9, 0, -12), (7847, 1284, 7, 10, 7, 0, -10),
  (7848, 1293, 9, 12, 9, 0, -12), (7849, 1307, 7, 11, 7, 0, -11), (7850, 1317, 9, 13, 9, 0, -13),
  (7851, 1332, 7, 12, 7, 0, -12), (7852, 1343, 9, 15, 9, 0, -12), (7853, 1360, 7, 14, 7, 0, -11),
  (7854, 1373, 9, 12, 9, 0, -12), (7855, 1387, 7, 12, 7, 0, -12), (7856, 1398, 9, 12, 9, 0, -12),
  (7857, 1412, 7, 12, 7, 0, -12), (7858, 1423, 9, 12, 9, 0, -12), (7859, 1437, 7, 12, 7, 0, -12),
  (7860, 1448, 9, 12, 9, 0, -12), (7861, 1462, 7, 12, 7, 0, -12), (7862, 1473, 9, 15, 9, 0, -12),
  (7863, 1490, 7, 14, 7, 0, -11), (7864, 1503, 8, 12, 8, 0, -9), (7865, 1515, 7, 10, 7, 0, -7),
  (7866, 1524, 8, 12, 8, 0, -12), (7867, 1536, 7, 10, 7, 0, -10), (7868, 1545, 8, 12, 8, 0, -12),
  (7869, 1557, 7, 10, 7, 0, -10), (7870, 1566, 8, 12, 8, 0, -12), (7871, 1578, 7, 10, 7, 0, -10),
  (7872, 1587, 8, 12, 8, 0, -12), (7873, 1599, 7, 10, 7, 0, -10), (7874, 1608, 8, 12, 8, 0, -12),
  (7875, 1620, 7, 11, 7, 0, -11), (7876, 1630, 8, 13, 8, 0, -13), (7877, 1643, 7, 12, 7, 0, -12),
  (7878, 1654, 8, 15, 8, 0, -12), (7879, 1669, 7, 14, 7, 0, -11), (7880, 1682, 4, 12, 3, 0, -12),
  (7881, 1688, 4, 10, 3, 0, -10), (7882, 1693, 3, 12, 3, 0, -9), (7883, 1698, 3, 12, 3, 0, -9),
  (7884, 1703, 9, 12, 9, 0, -9), (7885, 1717, 7, 10, 7, 0, -7), (7886, 1726, 9, 12, 9, 0, -12),
  (7887, 1740, 7, 10, 7, 0, -10), (7888, 1749, 9, 12, 9, 0, -12), (7889, 1763, 7, 10, 7, 0, -10),
  (7890, 1772, 9, 12, 9, 0, -12), (7891, 1786, 7, 10, 7, 0, -10), (7892, 1795, 9, 12, 9, 0, -12),
  (7893, 1809, 7, 11, 7, 0, -11), (7894, 1819, 9, 13, 9, 0, -13), (7895, 1834, 7, 12, 7, 0, -12),
  (7896, 1845, 9, 15, 9, 0, -12), (7897, 1862, 7, 14, 7, 0, -11), (7898, 1875, 11, 12, 10, 0, -12),
  (7899, 1892, 9, 11, 9, 0, -11), (7900, 1905, 11, 12, 10, 0, -12), (7901, 1922, 9, 11, 9, 0, -11),
  (7902, 1935, 11, 12, 10, 0, -12), (7903, 1952, 9, 10, 9, 0, -10), (7904, 1964, 11, 12, 10, 0, -12),
  (7905, 1981, 9, 10, 9, 0, -10), (7906, 1993, 11, 12, 10, 0, -9), (7907, 2010, 9, 10, 9, 0, -7),
  (7908, 2022, 9, 12, 9, 0, -9), (7909, 2036, 7, 10, 7, 0, -7), (7910, 2045, 9, 12, 9, 0, -12),
  (7911, 2059, 7, 10, 7, 0, -10), (7912, 2068, 10, 12, 10, 0, -12), (7913, 2083, 9, 11, 9, 0, -11),
  (7914, 2096, 10, 12, 10, 0, -12), (7915, 2111, 9, 11, 9, 0, -11), (7916, 2124, 10, 12, 10, 0, -12),
  (7917, 2139, 9, 10, 9, 0, -10), (7918, 2151, 10, 12, 10, 0, -12), (7919, 2166, 9, 10, 9, 0, -10),
  (7920, 2178, 10, 12, 10, 0, -9), (7921, 2193, 9, 10, 9, 0, -7), (7922, 2205, 8, 12, 8, 0, -12),
  (7923, 2217, 7, 13, 7, 0, -11), (7924, 2229, 8, 12, 8, 0, -9), (7925, 2241, 7, 10, 7, 0, -7),
  (7926, 2250, 8, 12, 8, 0, -12), (7927, 2262, 7, 12, 7, 0, -10), (7928, 2273, 8, 12, 8, 0, -12),
  (7929, 2285, 7, 12, 7, 0, -10)]"

definition vn_font_small :: vn_font_data where
  "vn_font_small = \<lparr>vf_bitmap = bitmap_small, vf_glyphs = map glyph_of_row glyph_rows_small, vf_ascent = 11, vf_descent = 3\<rparr>"

section \<open>The body font\<close>

definition bitmap_body_1 :: "bytes list" where
  "bitmap_body_1 = [
  [0x63, 0x18, 0xC6, 0x31, 0x8C, 0x60, 0x18, 0xC0, 0x66, 0x66, 0x66, 0x66, 0x00, 0x00, 0x00, 0x00, 0x00, 0x00, 0x00, 0x00],
  [0x11, 0x08, 0x84, 0xCF, 0xF2, 0x21, 0x10, 0x89, 0xFE, 0x64, 0x22, 0x11, 0x08, 0x80, 0x08, 0x1F, 0x1F, 0xCD, 0x66, 0x83],
  [0xC1, 0xF8, 0x3E, 0x0B, 0x84, 0xFA, 0xEF, 0xE3, 0xE0, 0x40, 0x00, 0x00, 0x38, 0x19, 0x10, 0xC4, 0x62, 0x31, 0x98, 0x46],
  [0xC1, 0x92, 0xF3, 0x92, 0x40, 0xD8, 0x06, 0x60, 0x11, 0x80, 0xC2, 0x46, 0x07, 0x0F, 0x01, 0xF8, 0x19, 0x81, 0x98, 0x1F],
  [0x03, 0xC4, 0x7C, 0x46, 0x6C, 0x63, 0xC6, 0x38, 0x7F, 0xE3, 0xE6, 0x66, 0x66, 0x00, 0x00, 0x00, 0x00, 0x38, 0xC3, 0x18],
  [0x61, 0x86, 0x18, 0x61, 0x86, 0x18, 0x30, 0xC3, 0x80, 0xE3, 0x18, 0x63, 0x18, 0xC6, 0x31, 0x8C, 0x66, 0x33, 0x80, 0x30],
  [0x6B, 0xF1, 0x87, 0x89, 0x00, 0x00, 0x00, 0x00, 0x00, 0x00, 0x08, 0x04, 0x02, 0x0F, 0xF7, 0xF8, 0x40, 0x20, 0x10, 0x00],
  [0x00, 0x00, 0x66, 0x26, 0x73, 0x80, 0x00, 0x00, 0x66, 0x31, 0x88, 0x46, 0x31, 0x8C, 0x42, 0x31, 0x80, 0x1C, 0x1F, 0x18],
  [0xCC, 0x66, 0x33, 0x19, 0x8C, 0xC6, 0x63, 0x31, 0x8F, 0x83, 0x80, 0x1C, 0x1E, 0x1B, 0x09, 0x80, 0xC0, 0x60, 0x30, 0x18],
  [0x0C, 0x06, 0x1F, 0xEF, 0xF0, 0x3E, 0x3F, 0x98, 0xC0, 0x60, 0x30, 0x30, 0x38, 0x30, 0x30, 0x30, 0x1F, 0xCF, 0xE0, 0x3E],
  [0x3F, 0x98, 0xC0, 0x60, 0x30, 0xF0, 0x78, 0x0E, 0x03, 0x71, 0x9F, 0xC7, 0xC0, 0x06, 0x07, 0x07, 0x83, 0xC3, 0x61, 0x31],
  [0x98, 0x8C, 0xFF, 0xFF, 0xC1, 0x80, 0xC0, 0x7F, 0x3F, 0x98, 0x0C, 0x07, 0xE3, 0xF8, 0x0C, 0x07, 0x03, 0xB1, 0x9F, 0xC7],
  [0xC0, 0x1E, 0x1F, 0x98, 0xCC, 0x07, 0xE3, 0xF9, 0x8C, 0xC6, 0x63, 0x31, 0x8F, 0xC3, 0xC0, 0x7F, 0x3F, 0x80, 0xC0, 0xC0],
  [0x60, 0x60, 0x30, 0x30, 0x18, 0x0C, 0x0E, 0x07, 0x00, 0x3E, 0x3F, 0x98, 0xCC, 0x66, 0x31, 0xF0, 0xF8, 0xC6, 0x63, 0x31],
  [0x9F, 0xC7, 0xC0, 0x3C, 0x3F, 0x18, 0xCC, 0x66, 0x33, 0x19, 0xFC, 0x7E, 0x03, 0x33, 0x9F, 0x87, 0x80, 0x31, 0x80, 0x00],
  [0x00, 0x06, 0x30, 0x31, 0x80, 0x00, 0x00, 0x06, 0x30, 0x8C, 0x01, 0x03, 0x8F, 0x8E, 0x04, 0x03, 0x80, 0xF8, 0x0E, 0x01],
  [0x00, 0x00, 0x7F, 0x3F, 0x80, 0x0F, 0xE7, 0xF0, 0x00, 0x00, 0x40, 0x38, 0x0F, 0x80, 0xE0, 0x10, 0x38, 0xF8, 0xE0, 0x40],
  [0x00, 0x00, 0x1E, 0x1F, 0xC6, 0x38, 0x06, 0x01, 0x80, 0xE0, 0x70, 0x30, 0x0C, 0x00, 0x01, 0xC0, 0x70, 0x03, 0xF0, 0x0C],
  [0x18, 0x18, 0x04, 0x31, 0xD6, 0x26, 0x72, 0x64, 0x22, 0x4C, 0x22, 0x4C, 0x22, 0x4C, 0x62, 0x4C, 0x64, 0x44, 0xE4, 0x27],
  [0x38, 0x30, 0x00, 0x18, 0x10, 0x07, 0xE0, 0x0E, 0x00, 0xE0, 0x1B, 0x01, 0xB0, 0x1B, 0x03, 0x18, 0x31, 0x83, 0xF8, 0x7F],
  [0xC6, 0x0C, 0x60, 0xC6, 0x0C, 0x7F, 0x87, 0xFC, 0x60, 0xE6, 0x0E, 0x60, 0xC7, 0xF8, 0x7F, 0xC6, 0x06, 0x60, 0x66, 0x06],
  [0x7F, 0xE7, 0xF8, 0x0F, 0x83, 0xFC, 0x70, 0xE7, 0x06, 0x60, 0x06, 0x00, 0x60, 0x06, 0x00, 0x70, 0x63, 0x8E, 0x3F, 0xC0],
  [0xF8, 0x7F, 0x07, 0xFC, 0x61, 0xC6, 0x0E, 0x60, 0x66, 0x06, 0x60, 0x66, 0x06, 0x60, 0xE6, 0x1C, 0x7F, 0xC7, 0xF0, 0x7F],
  [0xCF, 0xF9, 0x80, 0x30, 0x06, 0x00, 0xFF, 0x9F, 0xF3, 0x00, 0x60, 0x0C, 0x01, 0xFF, 0x3F, 0xE0, 0x7F, 0x9F, 0xE6, 0x01],
  [0x80, 0x60, 0x1F, 0xE7, 0xF9, 0x80, 0x60, 0x18, 0x06, 0x01, 0x80, 0x1F, 0x83, 0xFC, 0x70, 0xE6, 0x00, 0x60, 0x06, 0x00],
  [0x63, 0xE6, 0x3E, 0x60, 0x67, 0x06, 0x3F, 0xE1, 0xF8, 0x60, 0x66, 0x06, 0x60, 0x66, 0x06, 0x60, 0x67, 0xFE, 0x7F, 0xE6],
  [0x06, 0x60, 0x66, 0x06, 0x60, 0x66, 0x06, 0x66, 0x66, 0x66, 0x66, 0x66, 0x66, 0x1F, 0x0F, 0x80, 0xC0, 0x60, 0x30, 0x18],
  [0x0C, 0x06, 0x03, 0x73, 0x9F, 0x87, 0x80, 0x60, 0xE6, 0x1C, 0x63, 0x86, 0x70, 0x6E, 0x07, 0xE0, 0x7F, 0x07, 0x30, 0x63],
  [0x86, 0x1C, 0x60, 0xE6, 0x06, 0x60, 0x18, 0x06, 0x01, 0x80, 0x60, 0x18, 0x06, 0x01, 0x80, 0x60, 0x18, 0x07, 0xFD, 0xFF],
  [0x70, 0x73, 0xC7, 0x9E, 0x3C, 0xF1, 0xE6, 0x8B, 0x36, 0xD9, 0xB6, 0xCD, 0xB6, 0x65, 0x33, 0x39, 0x99, 0xCC, 0xC4, 0x60],
  [0x70, 0x67, 0x86, 0x78, 0x67, 0xC6, 0x6C, 0x66, 0x66, 0x66, 0x66, 0x36, 0x63, 0xE6, 0x1E, 0x61, 0xE6, 0x0E, 0x1F, 0x03],
  [0xFC, 0x70, 0xE6, 0x0E, 0x60, 0x66, 0x06, 0x60, 0x66, 0x06, 0x70, 0xE7, 0x0E, 0x3F, 0xC0, 0xF0, 0x7F, 0x8F, 0xF9, 0x83],
  [0x30, 0x66, 0x0C, 0xC1, 0x9F, 0xF3, 0xF8, 0x60, 0x0C, 0x01, 0x80, 0x30, 0x00, 0x0F, 0x03, 0xFC, 0x70, 0xE6, 0x0E, 0x60],
  [0x66, 0x06, 0x60, 0x66, 0x06, 0x60, 0xE7, 0x0E, 0x3F, 0xC1, 0xF8, 0x07, 0x00, 0x3C, 0x01, 0xC0, 0x7F, 0x87, 0xFE, 0x60],
  [0xE6, 0x06, 0x60, 0xE7, 0xFC, 0x7F, 0x86, 0x18, 0x61, 0xC6, 0x0C, 0x60, 0xE6, 0x06, 0x1F, 0x0F, 0xF9, 0x87, 0x30, 0x07],
  [0x80, 0x7E, 0x03, 0xF0, 0x0E, 0x00, 0xCC, 0x19, 0xFF, 0x1F, 0x80, 0xFF, 0xFF, 0xF0, 0xC0, 0x30, 0x0C, 0x03, 0x00, 0xC0],
  [0x30, 0x0C, 0x03, 0x00, 0xC0, 0x30, 0x60, 0x66, 0x06, 0x60, 0x66, 0x06, 0x60, 0x66, 0x06, 0x60, 0x66, 0x06, 0x70, 0xE7],
  [0x0E, 0x3F, 0xC1, 0xF8, 0xE0, 0xEC, 0x19, 0x83, 0x38, 0xE3, 0x18, 0x63, 0x0E, 0x60, 0xD8, 0x1B, 0x03, 0x60, 0x38, 0x07],
  [0x00, 0xC3, 0x86, 0xE3, 0x8E, 0x62, 0x8C, 0x62, 0xCC, 0x66, 0xCC, 0x66, 0xCC, 0x36, 0xD8, 0x34, 0xD8, 0x34, 0x78, 0x3C],
  [0x78, 0x3C, 0x78, 0x1C, 0x70, 0x60, 0xCE, 0x38, 0xC6, 0x0D, 0x81, 0xF0, 0x1C, 0x03, 0xC0, 0xD8, 0x3B, 0x86, 0x31, 0x83],
  [0x70, 0x70, 0x61, 0xCC, 0x30, 0xCE, 0x19, 0x81, 0xE0, 0x3C, 0x03, 0x00, 0x60, 0x0C, 0x01, 0x80, 0x30, 0x06, 0x00, 0x7F],
  [0x1F, 0xC0, 0x70, 0x18, 0x0E, 0x07, 0x01, 0x80, 0xE0, 0x30, 0x18, 0x0F, 0xFB, 0xFE, 0x79, 0x86, 0x18, 0x61, 0x86, 0x18],
  [0x61, 0x86, 0x18, 0x61, 0x87, 0x80, 0xC6, 0x10, 0x86, 0x31, 0x8C, 0x21, 0x0C, 0x60, 0xF1, 0x8C, 0x63, 0x18, 0xC6, 0x31],
  [0x8C, 0x63, 0x1B, 0xC0, 0x1C, 0x0A, 0x0D, 0x84, 0xC6, 0x33, 0x19, 0x04, 0x00, 0x00, 0x00, 0x00, 0x00, 0x00, 0x00, 0x1F],
  [0xF0, 0x63, 0x0C, 0x00, 0x00, 0x00, 0x00, 0x00, 0x00, 0x00, 0x3E, 0x3F, 0x99, 0xC0, 0x63, 0xF3, 0xFB, 0x8C, 0xFF, 0x7B],
  [0x80, 0x60, 0x18, 0x06, 0x01, 0xBC, 0x7F, 0x9C, 0x66, 0x19, 0x86, 0x61, 0x9C, 0xE7, 0xF9, 0xBC, 0x1E, 0x3F, 0x98, 0xCC],
  [0x06, 0x03, 0x01, 0x8C, 0xFE, 0x1E, 0x00, 0x01, 0x80, 0x60, 0x18, 0xF6, 0x7F, 0x9C, 0xE6, 0x19, 0x86, 0x61, 0x9C, 0xE7],
  [0xF8, 0xF6, 0x1E, 0x3F, 0x98, 0xCF, 0xE7, 0xF3, 0x01, 0x8C, 0xFE, 0x3E, 0x00, 0x39, 0xE7, 0x3E, 0xF9, 0xC7, 0x1C, 0x71],
  [0xC7, 0x1C, 0x3D, 0x9F, 0xE7, 0x39, 0x86, 0x61, 0x98, 0x67, 0x39, 0xFE, 0x3D, 0x80, 0xE7, 0xF0, 0xF8, 0x60, 0x18, 0x06],
  [0x01, 0xBC, 0x7F, 0x9C, 0xE6, 0x19, 0x86, 0x61, 0x98, 0x66, 0x19, 0x86, 0x66, 0x06, 0x66, 0x66, 0x66, 0x66, 0x63, 0x00],
  [0xC6, 0x31, 0x8C, 0x63, 0x18, 0xC6, 0x73, 0x80, 0x60, 0x30, 0x18, 0x0C, 0x66, 0x73, 0x71, 0xF0, 0xF8, 0x66, 0x33, 0x98],
  [0xCC, 0x70, 0x66, 0x66, 0x66, 0x66, 0x66, 0x66, 0x6E, 0x71, 0xFF, 0xE7, 0x39, 0x98, 0xC6, 0x63, 0x19, 0x8C, 0x66, 0x31],
  [0x98, 0xC6, 0x63, 0x18, 0x6F, 0x1F, 0xE7, 0x39, 0x86, 0x61, 0x98, 0x66, 0x19, 0x86, 0x61, 0x80, 0x1E, 0x0F, 0xE7, 0x39],
  [0x86, 0x61, 0x98, 0x67, 0x38, 0xFC, 0x1E, 0x00, 0x6F, 0x1F, 0xE7, 0x39, 0x86, 0x61, 0x98, 0x67, 0x39, 0xFE, 0x6F, 0x18],
  [0x06, 0x01, 0x80, 0x3D, 0x9F, 0xE7, 0x39, 0x86, 0x61, 0x98, 0x67, 0x39, 0xFE, 0x3D, 0x80, 0x60, 0x18, 0x06, 0x6D, 0xF7],
  [0x18, 0x61, 0x86, 0x18, 0x60, 0x3E, 0x3F, 0x98, 0xCF, 0x03, 0xF0, 0x39, 0x8C, 0xFE, 0x3E, 0x00, 0x21, 0x8F, 0xBE, 0x61],
  [0x86, 0x18, 0x61, 0xE3, 0x80, 0x61, 0x98, 0x66, 0x19, 0x86, 0x61, 0x98, 0x67, 0x39, 0xFE, 0x3D, 0x80, 0xE3, 0xB1, 0x98],
  [0xCC, 0x63, 0x61, 0xB0, 0xD8, 0x38, 0x1C, 0x00, 0xC7, 0x1B, 0x1C, 0x66, 0x53, 0x1B, 0x6C, 0x6D, 0xB1, 0xB6, 0xC2, 0x8A],
  [0x0E, 0x38, 0x38, 0xE0, 0x63, 0x3B, 0x8D, 0x83, 0x81, 0xC1, 0xF0, 0xD8, 0xC6, 0xE3, 0x80, 0xE3, 0xB1, 0x98, 0xCE, 0x63],
  [0x61, 0xB0, 0x58, 0x38, 0x1C, 0x0E, 0x1E, 0x0E, 0x00, 0x7F, 0x7F, 0x06, 0x0C, 0x1C, 0x38, 0x70, 0x7F, 0x7F, 0x1C, 0xC3],
  [0x0C, 0x30, 0xC3, 0x30, 0x30, 0xC3, 0x0C, 0x30, 0xC1, 0xC0, 0x66, 0x66, 0x66, 0x66, 0x66, 0x66, 0x66, 0x66, 0xE0, 0xC3],
  [0x0C, 0x30, 0xC3, 0x03, 0x30, 0xC3, 0x0C, 0x30, 0xCE, 0x00, 0x70, 0x3C, 0x93, 0xC0, 0xE0, 0x00, 0x00, 0x00, 0x00, 0x0C],
  [0x00, 0x60, 0x02, 0x00, 0x00, 0x0E, 0x00, 0xE0, 0x1B, 0x01, 0xB0, 0x1B, 0x03, 0x18, 0x31, 0x83, 0xF8, 0x7F, 0xC6, 0x0C],
  [0x60, 0xC6, 0x0C, 0x03, 0x00, 0x60, 0x04, 0x00, 0x00, 0x0E, 0x00, 0xE0, 0x1B, 0x01, 0xB0, 0x1B, 0x03, 0x18, 0x31, 0x83],
  [0xF8, 0x7F, 0xC6, 0x0C, 0x60, 0xC6, 0x0C, 0x0E, 0x00, 0xB0, 0x19, 0x00, 0x00, 0x0E, 0x00, 0xE0, 0x1B, 0x01, 0xB0, 0x1B],
  [0x03, 0x18, 0x31, 0x83, 0xF8, 0x7F, 0xC6, 0x0C, 0x60, 0xC6, 0x0C, 0x19, 0x01, 0x50, 0x13, 0x00, 0x00, 0x0E, 0x00, 0xE0],
  [0x1B, 0x01, 0xB0, 0x1B, 0x03, 0x18, 0x31, 0x83, 0xF8, 0x7F, 0xC6, 0x0C, 0x60, 0xC6, 0x0C, 0x0C, 0x00, 0xC0, 0x08, 0x00],
  [0x07, 0xFC, 0xFF, 0x98, 0x03, 0x00, 0x60, 0x0F, 0xF9, 0xFF, 0x30, 0x06, 0x00, 0xC0, 0x1F, 0xF3, 0xFE, 0x03, 0x00, 0xC0],
  [0x10, 0x00, 0x07, 0xFC, 0xFF, 0x98, 0x03, 0x00, 0x60, 0x0F, 0xF9, 0xFF, 0x30, 0x06, 0x00, 0xC0, 0x1F, 0xF3, 0xFE, 0x0E],
  [0x01, 0x60, 0x64, 0x00, 0x07, 0xFC, 0xFF, 0x98, 0x03, 0x00, 0x60, 0x0F, 0xF9, 0xFF, 0x30, 0x06, 0x00, 0xC0, 0x1F, 0xF3],
  [0xFE, 0xC3, 0x08, 0x06, 0x31, 0x8C, 0x63, 0x18, 0xC6, 0x31, 0x8C, 0x33, 0x10, 0x06, 0x31, 0x8C, 0x63, 0x18, 0xC6, 0x31],
  [0x8C, 0x06, 0x00, 0x30, 0x01, 0x00, 0x00, 0x1F, 0x03, 0xFC, 0x70, 0xE6, 0x0E, 0x60, 0x66, 0x06, 0x60, 0x66, 0x06, 0x70],
  [0xE7, 0x0E, 0x3F, 0xC0, 0xF0, 0x03, 0x00, 0x60, 0x04, 0x00, 0x00, 0x1F, 0x03, 0xFC, 0x70, 0xE6, 0x0E, 0x60, 0x66, 0x06],
  [0x60, 0x66, 0x06, 0x70, 0xE7, 0x0E, 0x3F, 0xC0, 0xF0, 0x07, 0x00, 0x58, 0x0C, 0x80, 0x00, 0x1F, 0x03, 0xFC, 0x70, 0xE6],
  [0x0E, 0x60, 0x66, 0x06, 0x60, 0x66, 0x06, 0x70, 0xE7, 0x0E, 0x3F, 0xC0, 0xF0, 0x0C, 0x80, 0xA8, 0x09, 0x80, 0x00, 0x1F],
  [0x03, 0xFC, 0x70, 0xE6, 0x0E, 0x60, 0x66, 0x06, 0x60, 0x66, 0x06, 0x70, 0xE7, 0x0E, 0x3F, 0xC0, 0xF0, 0x0C, 0x00, 0x60],
  [0x02, 0x00, 0x00, 0x60, 0x66, 0x06, 0x60, 0x66, 0x06, 0x60, 0x66, 0x06, 0x60, 0x66, 0x06, 0x70, 0xE7, 0x0E, 0x3F, 0xC1],
  [0xF8, 0x01, 0x80, 0x30, 0x02, 0x00, 0x00, 0x60, 0x66, 0x06, 0x60, 0x66, 0x06, 0x60, 0x66, 0x06, 0x60, 0x66, 0x06, 0x70],
  [0xE7, 0x0E, 0x3F, 0xC1, 0xF8, 0x03, 0x00, 0xC0, 0x10, 0x00, 0x06, 0x1C, 0xC3, 0x0C, 0xE1, 0x98, 0x1E, 0x03, 0xC0, 0x30],
  [0x06, 0x00, 0xC0, 0x18, 0x03, 0x00, 0x60, 0x18, 0x0C, 0x03, 0x00, 0x03, 0xE3, 0xF9, 0x9C, 0x06, 0x3F, 0x3F, 0xB8, 0xCF],
  [0xF7, 0xB8, 0x07, 0x03, 0x02, 0x00, 0x03, 0xE3, 0xF9, 0x9C, 0x06, 0x3F, 0x3F, 0xB8, 0xCF, 0xF7, 0xB8, 0x1C, 0x0B, 0x0C],
  [0x80, 0x03, 0xE3, 0xF9, 0x9C, 0x06, 0x3F, 0x3F, 0xB8, 0xCF, 0xF7, 0xB8, 0x11, 0x15, 0x09, 0x80, 0x03, 0xE3, 0xF9, 0x9C],
  [0x06, 0x3F, 0x3F, 0xB8, 0xCF, 0xF7, 0xB8, 0x18, 0x0C, 0x03, 0x00, 0x01, 0xE3, 0xF9, 0x8C, 0xFE, 0x7F, 0x30, 0x18, 0xCF],
  [0xE3, 0xE0, 0x07, 0x03, 0x02, 0x00, 0x01, 0xE3, 0xF9, 0x8C, 0xFE, 0x7F, 0x30, 0x18, 0xCF, 0xE3, 0xE0, 0x1C, 0x0B, 0x0C],
  [0x80, 0x01, 0xE3, 0xF9, 0x8C, 0xFE, 0x7F, 0x30, 0x18, 0xCF, 0xE3, 0xE0, 0x63, 0x0C, 0x03, 0x18, 0xC6, 0x31, 0x8C, 0x63],
  [0x00, 0x39, 0x90, 0x06, 0x31, 0x8C, 0x63, 0x18, 0xC6, 0x00, 0x0C, 0x03, 0x00, 0x60, 0x00, 0x1E, 0x0F, 0xE7, 0x39, 0x86],
  [0x61, 0x98, 0x67, 0x38, 0xFC, 0x1E, 0x00, 0x07, 0x01, 0x80, 0x80, 0x00, 0x1E, 0x0F, 0xE7, 0x39, 0x86, 0x61, 0x98, 0x67],
  [0x38, 0xFC, 0x1E, 0x00, 0x0E, 0x02, 0xC1, 0x90, 0x00, 0x1E, 0x0F, 0xE7, 0x39, 0x86, 0x61, 0x98, 0x67, 0x38, 0xFC, 0x1E],
  [0x00, 0x11, 0x0A, 0x82, 0x60, 0x00, 0x1E, 0x0F, 0xE7, 0x39, 0x86, 0x61, 0x98, 0x67, 0x38, 0xFC, 0x1E, 0x00, 0x18, 0x06],
  [0x00, 0xC0, 0x00, 0x61, 0x98, 0x66, 0x19, 0x86, 0x61, 0x98, 0x67, 0x39, 0xFE, 0x3D, 0x80, 0x07, 0x01, 0x80, 0x80, 0x00],
  [0x61, 0x98, 0x66, 0x19, 0x86, 0x61, 0x98, 0x67, 0x39, 0xFE, 0x3D, 0x80, 0x07, 0x03, 0x02, 0x00, 0x0E, 0x3B, 0x19, 0x8C],
  [0xE6, 0x36, 0x1B, 0x05, 0x83, 0x81, 0xC0, 0xE1, 0xE0, 0xE0, 0x11, 0x01, 0xB0, 0x0E, 0x00, 0x00, 0x0E, 0x00, 0xE0, 0x1B],
  [0x01, 0xB0, 0x1B, 0x03, 0x18, 0x31, 0x83, 0xF8, 0x7F, 0xC6, 0x0C, 0x60, 0xC6, 0x0C, 0x13, 0x09, 0x03, 0x80, 0x03, 0xE3],
  [0xF9, 0x9C, 0x06, 0x3F, 0x3F, 0xB8, 0xCF, 0xF7, 0xB8, 0x7F, 0x07, 0xFC, 0x61, 0xC6, 0x0E, 0x60, 0x6F, 0xC6, 0xFC, 0x66],
  [0x06, 0x60, 0xE6, 0x1C, 0x7F, 0xC7, 0xF0, 0x01, 0x83, 0xF0, 0xFC, 0x06, 0x3D, 0x9F, 0xE6, 0x39, 0x86, 0x61, 0x98, 0xE7],
  [0xF8, 0xF6, 0xC9, 0x52, 0x60, 0x06, 0x0C, 0x18, 0x30, 0x60, 0xC1, 0x83, 0x06, 0x0C, 0x18, 0x30, 0x45, 0x52, 0x60, 0x06],
  [0x0C, 0x18, 0x30, 0x60, 0xC1, 0x83, 0x06, 0x00, 0x0C, 0x80, 0xA8, 0x09, 0x80, 0x00, 0x60, 0x66, 0x06, 0x60, 0x66, 0x06],
  [0x60, 0x66, 0x06, 0x60, 0x66, 0x06, 0x70, 0xE7, 0x0E, 0x3F, 0xC1, 0xF8, 0x11, 0x0A, 0x82, 0x60, 0x00, 0x61, 0x98, 0x66],
  [0x19, 0x86, 0x61, 0x98, 0x67, 0x39, 0xFE, 0x3D, 0x80, 0x0F, 0x8C, 0xFF, 0xB7, 0x0E, 0x5C, 0x1F, 0x60, 0x39, 0x80, 0xC6],
  [0x03, 0x18, 0x0C, 0x70, 0x70, 0xE3, 0x83, 0xFC, 0x03, 0xE0, 0x1E, 0x67, 0xF6, 0x63, 0xA6, 0x3A, 0x61, 0xC6, 0x38, 0x63]]"

definition bitmap_body_2 :: "bytes list" where
  "bitmap_body_2 = [
  [0x87, 0xF0, 0x1E, 0x00, 0x60, 0xD9, 0x83, 0x66, 0x0C, 0x98, 0x36, 0x60, 0xF1, 0x83, 0x06, 0x0C, 0x18, 0x30, 0x60, 0xC1],
  [0xC7, 0x03, 0xF8, 0x07, 0xC0, 0x61, 0xB6, 0x1B, 0x61, 0x96, 0x1A, 0x61, 0xE6, 0x18, 0x73, 0x87, 0xF8, 0x3D, 0x80, 0x0E],
  [0x00, 0xE0, 0x1B, 0x01, 0xB0, 0x1B, 0x03, 0x18, 0x31, 0x83, 0xF8, 0x7F, 0xC6, 0x0C, 0x60, 0xC6, 0x0C, 0x00, 0x00, 0xC0],
  [0x0C, 0x00, 0x3E, 0x3F, 0x99, 0xC0, 0x63, 0xF3, 0xFB, 0x8C, 0xFF, 0x7B, 0x80, 0x03, 0x01, 0x80, 0x0E, 0x00, 0x30, 0x06],
  [0x00, 0x00, 0x0E, 0x00, 0xE0, 0x1B, 0x01, 0xB0, 0x1B, 0x03, 0x18, 0x31, 0x83, 0xF8, 0x7F, 0xC6, 0x0C, 0x60, 0xC6, 0x0C],
  [0x1C, 0x03, 0x03, 0x00, 0x03, 0xE3, 0xF9, 0x9C, 0x06, 0x3F, 0x3F, 0xB8, 0xCF, 0xF7, 0xB8, 0x00, 0xC0, 0x60, 0x09, 0x00],
  [0x00, 0x0E, 0x00, 0xE0, 0x1B, 0x01, 0xB0, 0x1B, 0x03, 0x18, 0x31, 0x83, 0xF8, 0x7F, 0xC6, 0x0C, 0x60, 0xC6, 0x0C, 0x0D],
  [0x8F, 0x0C, 0xC0, 0x03, 0xE3, 0xF9, 0x9C, 0x06, 0x3F, 0x3F, 0xB8, 0xCF, 0xF7, 0xB8, 0x30, 0x00, 0x60, 0x09, 0x00, 0x00],
  [0x0E, 0x00, 0xE0, 0x1B, 0x01, 0xB0, 0x1B, 0x03, 0x18, 0x31, 0x83, 0xF8, 0x7F, 0xC6, 0x0C, 0x60, 0xC6, 0x0C, 0x6C, 0x0F],
  [0x0C, 0xC0, 0x03, 0xE3, 0xF9, 0x9C, 0x06, 0x3F, 0x3F, 0xB8, 0xCF, 0xF7, 0xB8, 0x01, 0x80, 0x68, 0x09, 0x00, 0x00, 0x0E],
  [0x00, 0xE0, 0x1B, 0x01, 0xB0, 0x1B, 0x03, 0x18, 0x31, 0x83, 0xF8, 0x7F, 0xC6, 0x0C, 0x60, 0xC6, 0x0C, 0x03, 0x87, 0xC7],
  [0x86, 0x60, 0x01, 0xF1, 0xFC, 0xCE, 0x03, 0x1F, 0x9F, 0xDC, 0x67, 0xFB, 0xDC, 0x0C, 0x81, 0x30, 0x06, 0x00, 0x90, 0x00],
  [0x00, 0xE0, 0x0E, 0x01, 0xB0, 0x1B, 0x01, 0xB0, 0x31, 0x83, 0x18, 0x3F, 0x87, 0xFC, 0x60, 0xC6, 0x0C, 0x60, 0xC0, 0x19],
  [0x13, 0x00, 0x01, 0x83, 0x30, 0x00, 0xF8, 0xFE, 0x67, 0x01, 0x8F, 0xCF, 0xEE, 0x33, 0xFD, 0xEE, 0x0E, 0x00, 0xB0, 0x19],
  [0x00, 0x00, 0x0E, 0x00, 0xE0, 0x1B, 0x01, 0xB0, 0x1B, 0x03, 0x18, 0x31, 0x83, 0xF8, 0x7F, 0xC6, 0x0C, 0x60, 0xC6, 0x0C],
  [0x00, 0x00, 0xC0, 0x0C, 0x00, 0x1C, 0x0B, 0x0C, 0x80, 0x03, 0xE3, 0xF9, 0x9C, 0x06, 0x3F, 0x3F, 0xB8, 0xCF, 0xF7, 0xB8],
  [0x00, 0x30, 0x18, 0x02, 0x00, 0x90, 0x0F, 0x00, 0x00, 0x0E, 0x00, 0xE0, 0x1B, 0x01, 0xB0, 0x1B, 0x03, 0x18, 0x31, 0x83],
  [0xF8, 0x7F, 0xC6, 0x0C, 0x60, 0xC6, 0x0C, 0x06, 0x06, 0x0C, 0xC2, 0x41, 0xE0, 0x00, 0xF8, 0xFE, 0x67, 0x01, 0x8F, 0xCF],
  [0xEE, 0x33, 0xFD, 0xEE, 0x04, 0x00, 0x90, 0x0F, 0x00, 0x00, 0x0E, 0x00, 0xE0, 0x1B, 0x01, 0xB0, 0x1B, 0x03, 0x18, 0x31],
  [0x83, 0xF8, 0x7F, 0xC6, 0x0C, 0x60, 0xC6, 0x0C, 0x18, 0x04, 0x0C, 0xC2, 0x41, 0xE0, 0x00, 0xF8, 0xFE, 0x67, 0x01, 0x8F],
  [0xCF, 0xEE, 0x33, 0xFD, 0xEE, 0x06, 0x00, 0xB0, 0x0F, 0x00, 0x00, 0x0E, 0x00, 0xE0, 0x1B, 0x01, 0xB0, 0x1B, 0x03, 0x18],
  [0x31, 0x83, 0xF8, 0x7F, 0xC6, 0x0C, 0x60, 0xC6, 0x0C, 0x1E, 0x03, 0x00, 0x06, 0x61, 0xE0, 0x00, 0xF8, 0xFE, 0x67, 0x01],
  [0x8F, 0xCF, 0xEE, 0x33, 0xFD, 0xEE, 0x0F, 0x00, 0x90, 0x06, 0x00, 0x00, 0x0E, 0x00, 0xE0, 0x1B, 0x01, 0xB0, 0x1B, 0x03],
  [0x18, 0x31, 0x83, 0xF8, 0x7F, 0xC6, 0x0C, 0x60, 0xC6, 0x0C, 0x19, 0x13, 0x00, 0x06, 0x61, 0xE0, 0x00, 0xF8, 0xFE, 0x67],
  [0x01, 0x8F, 0xCF, 0xEE, 0x33, 0xFD, 0xEE, 0x11, 0x01, 0xB0, 0x0E, 0x00, 0x00, 0x0E, 0x00, 0xE0, 0x1B, 0x01, 0xB0, 0x1B],
  [0x03, 0x18, 0x31, 0x83, 0xF8, 0x7F, 0xC6, 0x0C, 0x60, 0xC6, 0x0C, 0x00, 0x00, 0xC0, 0x0C, 0x00, 0x13, 0x09, 0x03, 0x80],
  [0x03, 0xE3, 0xF9, 0x9C, 0x06, 0x3F, 0x3F, 0xB8, 0xCF, 0xF7, 0xB8, 0x00, 0x30, 0x18, 0x7F, 0xCF, 0xF9, 0x80, 0x30, 0x06],
  [0x00, 0xFF, 0x9F, 0xF3, 0x00, 0x60, 0x0C, 0x01, 0xFF, 0x3F, 0xE0, 0x00, 0x0C, 0x01, 0x80, 0x1E, 0x3F, 0x98, 0xCF, 0xE7],
  [0xF3, 0x01, 0x8C, 0xFE, 0x3E, 0x00, 0x03, 0x01, 0x80, 0x0E, 0x00, 0x60, 0x18, 0x00, 0x07, 0xFC, 0xFF, 0x98, 0x03, 0x00],
  [0x60, 0x0F, 0xF9, 0xFF, 0x30, 0x06, 0x00, 0xC0, 0x1F, 0xF3, 0xFE, 0x1C, 0x03, 0x03, 0x00, 0x01, 0xE3, 0xF9, 0x8C, 0xFE],
  [0x7F, 0x30, 0x18, 0xCF, 0xE3, 0xE0, 0x08, 0x82, 0xA0, 0x4C, 0x00, 0x07, 0xFC, 0xFF, 0x98, 0x03, 0x00, 0x60, 0x0F, 0xF9],
  [0xFF, 0x30, 0x06, 0x00, 0xC0, 0x1F, 0xF3, 0xFE, 0x11, 0x15, 0x09, 0x80, 0x01, 0xE3, 0xF9, 0x8C, 0xFE, 0x7F, 0x30, 0x18],
  [0xCF, 0xE3, 0xE0, 0x00, 0xC0, 0xC0, 0x24, 0x00, 0x07, 0xFC, 0xFF, 0x98, 0x03, 0x00, 0x60, 0x0F, 0xF9, 0xFF, 0x30, 0x06],
  [0x00, 0xC0, 0x1F, 0xF3, 0xFE, 0x0D, 0x8F, 0x0C, 0xC0, 0x01, 0xE3, 0xF9, 0x8C, 0xFE, 0x7F, 0x30, 0x18, 0xCF, 0xE3, 0xE0],
  [0x30, 0x00, 0xC0, 0x24, 0x00, 0x07, 0xFC, 0xFF, 0x98, 0x03, 0x00, 0x60, 0x0F, 0xF9, 0xFF, 0x30, 0x06, 0x00, 0xC0, 0x1F],
  [0xF3, 0xFE, 0x6C, 0x0F, 0x0C, 0xC0, 0x01, 0xE3, 0xF9, 0x8C, 0xFE, 0x7F, 0x30, 0x18, 0xCF, 0xE3, 0xE0, 0x01, 0x80, 0xD0],
  [0x24, 0x00, 0x07, 0xFC, 0xFF, 0x98, 0x03, 0x00, 0x60, 0x0F, 0xF9, 0xFF, 0x30, 0x06, 0x00, 0xC0, 0x1F, 0xF3, 0xFE, 0x03],
  [0x87, 0xC7, 0x86, 0x60, 0x00, 0xF1, 0xFC, 0xC6, 0x7F, 0x3F, 0x98, 0x0C, 0x67, 0xF1, 0xF0, 0x0C, 0x82, 0x60, 0x18, 0x04],
  [0x80, 0x00, 0xFF, 0x9F, 0xF3, 0x00, 0x60, 0x0C, 0x01, 0xFF, 0x3F, 0xE6, 0x00, 0xC0, 0x18, 0x03, 0xFE, 0x7F, 0xC0, 0x19],
  [0x13, 0x00, 0x01, 0x83, 0x30, 0x00, 0x78, 0xFE, 0x63, 0x3F, 0x9F, 0xCC, 0x06, 0x33, 0xF8, 0xF8, 0x0E, 0x01, 0x60, 0x64],
  [0x00, 0x07, 0xFC, 0xFF, 0x98, 0x03, 0x00, 0x60, 0x0F, 0xF9, 0xFF, 0x30, 0x06, 0x00, 0xC0, 0x1F, 0xF3, 0xFE, 0x00, 0x01],
  [0x80, 0x30, 0x00, 0x1C, 0x0B, 0x0C, 0x80, 0x01, 0xE3, 0xF9, 0x8C, 0xFE, 0x7F, 0x30, 0x18, 0xCF, 0xE3, 0xE0, 0x00, 0x60],
  [0x30, 0x70, 0xCC, 0x06, 0x31, 0x8C, 0x63, 0x18, 0xC6, 0x31, 0x8C, 0xE1, 0x98, 0x06, 0x31, 0x8C, 0x63, 0x18, 0xC6, 0x00],
  [0x66, 0x66, 0x66, 0x66, 0x66, 0x66, 0x06, 0x60, 0x66, 0x06, 0x66, 0x66, 0x66, 0x66, 0x06, 0x60, 0x1F, 0x03, 0xFC, 0x70],
  [0xE6, 0x0E, 0x60, 0x66, 0x06, 0x60, 0x66, 0x06, 0x70, 0xE7, 0x0E, 0x3F, 0xC0, 0xF0, 0x00, 0x00, 0x60, 0x06, 0x00, 0x1E],
  [0x0F, 0xE7, 0x39, 0x86, 0x61, 0x98, 0x67, 0x38, 0xFC, 0x1E, 0x00, 0x00, 0xC0, 0x30, 0x07, 0x00, 0x18, 0x03, 0x00, 0x00],
  [0x1F, 0x03, 0xFC, 0x70, 0xE6, 0x0E, 0x60, 0x66, 0x06, 0x60, 0x66, 0x06, 0x70, 0xE7, 0x0E, 0x3F, 0xC0, 0xF0, 0x0E, 0x00],
  [0xC0, 0x60, 0x00, 0x1E, 0x0F, 0xE7, 0x39, 0x86, 0x61, 0x98, 0x67, 0x38, 0xFC, 0x1E, 0x00, 0x00, 0xC0, 0x60, 0x09, 0x00],
  [0x00, 0x1F, 0x03, 0xFC, 0x70, 0xE6, 0x0E, 0x60, 0x66, 0x06, 0x60, 0x66, 0x06, 0x70, 0xE7, 0x0E, 0x3F, 0xC0, 0xF0, 0x0D],
  [0x87, 0x83, 0x30, 0x00, 0x1E, 0x0F, 0xE7, 0x39, 0x86, 0x61, 0x98, 0x67, 0x38, 0xFC, 0x1E, 0x00, 0x30, 0x00, 0x60, 0x09],
  [0x00, 0x00, 0x1F, 0x03, 0xFC, 0x70, 0xE6, 0x0E, 0x60, 0x66, 0x06, 0x60, 0x66, 0x06, 0x70, 0xE7, 0x0E, 0x3F, 0xC0, 0xF0],
  [0x6C, 0x07, 0x83, 0x30, 0x00, 0x1E, 0x0F, 0xE7, 0x39, 0x86, 0x61, 0x98, 0x67, 0x38, 0xFC, 0x1E, 0x00, 0x01, 0x80, 0x68],
  [0x09, 0x00, 0x00, 0x1F, 0x03, 0xFC, 0x70, 0xE6, 0x0E, 0x60, 0x66, 0x06, 0x60, 0x66, 0x06, 0x70, 0xE7, 0x0E, 0x3F, 0xC0],
  [0xF0, 0x03, 0x83, 0xE1, 0xE0, 0xCC, 0x00, 0x07, 0x83, 0xF9, 0xCE, 0x61, 0x98, 0x66, 0x19, 0xCE, 0x3F, 0x07, 0x80, 0x0C],
  [0x81, 0x30, 0x06, 0x00, 0x90, 0x00, 0x01, 0xF0, 0x3F, 0xC7, 0x0E, 0x60, 0xE6, 0x06, 0x60, 0x66, 0x06, 0x60, 0x67, 0x0E],
  [0x70, 0xE3, 0xFC, 0x0F, 0x00, 0x19, 0x09, 0x80, 0x00, 0x30, 0x33, 0x00, 0x01, 0xE0, 0xFE, 0x73, 0x98, 0x66, 0x19, 0x86],
  [0x73, 0x8F, 0xC1, 0xE0, 0x07, 0x00, 0x58, 0x0C, 0x80, 0x00, 0x1F, 0x03, 0xFC, 0x70, 0xE6, 0x0E, 0x60, 0x66, 0x06, 0x60],
  [0x66, 0x06, 0x70, 0xE7, 0x0E, 0x3F, 0xC0, 0xF0, 0x00, 0x00, 0x60, 0x06, 0x00, 0x0E, 0x02, 0xC1, 0x90, 0x00, 0x1E, 0x0F],
  [0xE7, 0x39, 0x86, 0x61, 0x98, 0x67, 0x38, 0xFC, 0x1E, 0x00, 0x00, 0xC0, 0x30, 0x01, 0x80, 0x0C, 0x00, 0x20, 0x00, 0x00],
  [0x0F, 0x8C, 0xFF, 0xB7, 0x0E, 0x5C, 0x1F, 0x60, 0x39, 0x80, 0xC6, 0x03, 0x18, 0x0C, 0x70, 0x70, 0xE3, 0x83, 0xFC, 0x03],
  [0xE0, 0x07, 0x00, 0x60, 0x08, 0x00, 0x00, 0x1E, 0x67, 0xF6, 0x63, 0xA6, 0x3A, 0x61, 0xC6, 0x38, 0x63, 0x87, 0xF0, 0x1E],
  [0x00, 0x06, 0x00, 0x0C, 0x00, 0x10, 0x00, 0x00, 0x0F, 0x8C, 0xFF, 0xB7, 0x0E, 0x5C, 0x1F, 0x60, 0x39, 0x80, 0xC6, 0x03],
  [0x18, 0x0C, 0x70, 0x70, 0xE3, 0x83, 0xFC, 0x03, 0xE0, 0x18, 0x01, 0x80, 0x0C, 0x00, 0x00, 0x1E, 0x67, 0xF6, 0x63, 0xA6],
  [0x3A, 0x61, 0xC6, 0x38, 0x63, 0x87, 0xF0, 0x1E, 0x00, 0x07, 0x00, 0x06, 0x00, 0x30, 0x00, 0x00, 0x0F, 0x8C, 0xFF, 0xB7],
  [0x0E, 0x5C, 0x1F, 0x60, 0x39, 0x80, 0xC6, 0x03, 0x18, 0x0C, 0x70, 0x70, 0xE3, 0x83, 0xFC, 0x03, 0xE0, 0x1C, 0x00, 0x60],
  [0x0C, 0x00, 0x00, 0x1E, 0x67, 0xF6, 0x63, 0xA6, 0x3A, 0x61, 0xC6, 0x38, 0x63, 0x87, 0xF0, 0x1E, 0x00, 0x0C, 0x80, 0x2A],
  [0x00, 0x98, 0x00, 0x00, 0x0F, 0x8C, 0xFF, 0xB7, 0x0E, 0x5C, 0x1F, 0x60, 0x39, 0x80, 0xC6, 0x03, 0x18, 0x0C, 0x70, 0x70],
  [0xE3, 0x83, 0xFC, 0x03, 0xE0, 0x11, 0x02, 0xA0, 0x26, 0x00, 0x00, 0x1E, 0x67, 0xF6, 0x63, 0xA6, 0x3A, 0x61, 0xC6, 0x38],
  [0x63, 0x87, 0xF0, 0x1E, 0x00, 0x0F, 0x8C, 0xFF, 0xB7, 0x0E, 0x5C, 0x1F, 0x60, 0x39, 0x80, 0xC6, 0x03, 0x18, 0x0C, 0x70],
  [0x70, 0xE3, 0x83, 0xFC, 0x03, 0xE0, 0x00, 0x00, 0x18, 0x00, 0x60, 0x00, 0x1E, 0x67, 0xF6, 0x63, 0xA6, 0x3A, 0x61, 0xC6],
  [0x38, 0x63, 0x87, 0xF0, 0x1E, 0x00, 0x00, 0x0C, 0x00, 0xC0, 0x60, 0x66, 0x06, 0x60, 0x66, 0x06, 0x60, 0x66, 0x06, 0x60],
  [0x66, 0x06, 0x70, 0xE7, 0x0E, 0x3F, 0xC1, 0xF8, 0x00, 0x00, 0x60, 0x06, 0x00, 0x61, 0x98, 0x66, 0x19, 0x86, 0x61, 0x98],
  [0x67, 0x39, 0xFE, 0x3D, 0x80, 0x00, 0xC0, 0x30, 0x0E, 0x00, 0x30, 0x06, 0x00, 0x00, 0x60, 0x66, 0x06, 0x60, 0x66, 0x06],
  [0x60, 0x66, 0x06, 0x60, 0x66, 0x06, 0x70, 0xE7, 0x0E, 0x3F, 0xC1, 0xF8, 0x1C, 0x01, 0x80, 0xC0, 0x00, 0x61, 0x98, 0x66],
  [0x19, 0x86, 0x61, 0x98, 0x67, 0x39, 0xFE, 0x3D, 0x80, 0x03, 0x00, 0x18, 0x00, 0x40, 0x00, 0x00, 0x60, 0xD9, 0x83, 0x66],
  [0x0C, 0x98, 0x36, 0x60, 0xF1, 0x83, 0x06, 0x0C, 0x18, 0x30, 0x60, 0xC1, 0xC7, 0x03, 0xF8, 0x07, 0xC0, 0x07, 0x00, 0x60],
  [0x08, 0x00, 0x00, 0x61, 0xB6, 0x1B, 0x61, 0x96, 0x1A, 0x61, 0xE6, 0x18, 0x73, 0x87, 0xF8, 0x3D, 0x80, 0x0C, 0x00, 0x18],
  [0x00, 0x20, 0x00, 0x00, 0x60, 0xD9, 0x83, 0x66, 0x0C, 0x98, 0x36, 0x60, 0xF1, 0x83, 0x06, 0x0C, 0x18, 0x30, 0x60, 0xC1],
  [0xC7, 0x03, 0xF8, 0x07, 0xC0, 0x18, 0x01, 0x80, 0x0C, 0x00, 0x00, 0x61, 0xB6, 0x1B, 0x61, 0x96, 0x1A, 0x61, 0xE6, 0x18],
  [0x73, 0x87, 0xF8, 0x3D, 0x80, 0x0E, 0x00, 0x0C, 0x00, 0x60, 0x00, 0x00, 0x60, 0xD9, 0x83, 0x66, 0x0C, 0x98, 0x36, 0x60],
  [0xF1, 0x83, 0x06, 0x0C, 0x18, 0x30, 0x60, 0xC1, 0xC7, 0x03, 0xF8, 0x07, 0xC0, 0x0E, 0x00, 0x30, 0x06, 0x00, 0x00, 0x61],
  [0xB6, 0x1B, 0x61, 0x96, 0x1A, 0x61, 0xE6, 0x18, 0x73, 0x87, 0xF8, 0x3D, 0x80, 0x19, 0x00, 0x54, 0x01, 0x30, 0x00, 0x00],
  [0x60, 0xD9, 0x83, 0x66, 0x0C, 0x98, 0x36, 0x60, 0xF1, 0x83, 0x06, 0x0C, 0x18, 0x30, 0x60, 0xC1, 0xC7, 0x03, 0xF8, 0x07],
  [0xC0, 0x08, 0x81, 0x50, 0x13, 0x00, 0x00, 0x61, 0xB6, 0x1B, 0x61, 0x96, 0x1A, 0x61, 0xE6, 0x18, 0x73, 0x87, 0xF8, 0x3D],
  [0x80, 0x60, 0xD9, 0x83, 0x66, 0x0C, 0x98, 0x36, 0x60, 0xF1, 0x83, 0x06, 0x0C, 0x18, 0x30, 0x60, 0xC1, 0xC7, 0x03, 0xF8],
  [0x07, 0xC0, 0x00, 0x00, 0x18, 0x00, 0x60, 0x00, 0x61, 0xB6, 0x1B, 0x61, 0x96, 0x1A, 0x61, 0xE6, 0x18, 0x73, 0x87, 0xF8],
  [0x3D, 0x80, 0x00, 0x0C, 0x00, 0xC0, 0x18, 0x01, 0x80, 0x10, 0x00, 0x06, 0x1C, 0xC3, 0x0C, 0xE1, 0x98, 0x1E, 0x03, 0xC0],
  [0x30, 0x06, 0x00, 0xC0, 0x18, 0x03, 0x00, 0x60, 0x18, 0x0C, 0x03, 0x00, 0x0E, 0x3B, 0x19, 0x8C, 0xE6, 0x36, 0x1B, 0x05],
  [0x83, 0x81, 0xC0, 0xE1, 0xE0, 0xE0, 0x61, 0xCC, 0x30, 0xCE, 0x19, 0x81, 0xE0, 0x3C, 0x03, 0x00, 0x60, 0x0C, 0x01, 0x80],
  [0x30, 0x06, 0x00, 0x00, 0x18, 0x03, 0x00, 0xE3, 0xB1, 0x98, 0xCE, 0x63, 0x61, 0xB0, 0x58, 0x38, 0x1C, 0x0E, 0x1E, 0xCE],
  [0x60, 0x1C, 0x00, 0xC0, 0x30, 0x00, 0x06, 0x1C, 0xC3, 0x0C, 0xE1, 0x98, 0x1E, 0x03, 0xC0, 0x30, 0x06, 0x00, 0xC0, 0x18],
  [0x03, 0x00, 0x60, 0x1C, 0x03, 0x03, 0x00, 0x0E, 0x3B, 0x19, 0x8C, 0xE6, 0x36, 0x1B, 0x05, 0x83, 0x81, 0xC0, 0xE1, 0xE0],
  [0xE0, 0x19, 0x02, 0xA0, 0x4C, 0x00, 0x06, 0x1C, 0xC3, 0x0C, 0xE1, 0x98, 0x1E, 0x03, 0xC0, 0x30, 0x06, 0x00, 0xC0, 0x18],
  [0x03, 0x00, 0x60, 0x11, 0x15, 0x09, 0x80, 0x0E, 0x3B, 0x19, 0x8C, 0xE6, 0x36, 0x1B, 0x05, 0x83, 0x81, 0xC0, 0xE1, 0xE0],
  [0xE0]]"

definition bitmap_body :: bytes where
  "bitmap_body = concat (bitmap_body_1 @ bitmap_body_2)"

definition glyph_rows_body :: "glyph_row list" where
  "glyph_rows_body = [
  (32, 0, 4, 0, 4, 0, 0), (33, 0, 5, 12, 5, 0, -12), (34, 8, 8, 12, 8, 0, -12),
  (35, 20, 9, 12, 9, 0, -12), (36, 34, 9, 16, 9, 0, -14), (37, 52, 14, 12, 14, 0, -12),
  (38, 73, 12, 12, 12, 0, -12), (39, 91, 4, 12, 4, 0, -12), (40, 97, 6, 15, 5, 0, -12),
  (41, 109, 5, 15, 5, 0, -12), (42, 119, 7, 12, 6, 0, -12), (43, 130, 9, 10, 9, 0, -10),
  (44, 142, 4, 4, 4, 0, -2), (45, 144, 5, 5, 5, 0, -5), (46, 148, 4, 2, 4, 0, -2),
  (47, 149, 5, 12, 4, 0, -12), (48, 157, 9, 12, 9, 0, -12), (49, 171, 9, 12, 9, 0, -12),
  (50, 185, 9, 12, 9, 0, -12), (51, 199, 9, 12, 9, 0, -12), (52, 213, 9, 12, 9, 0, -12),
  (53, 227, 9, 12, 9, 0, -12), (54, 241, 9, 12, 9, 0, -12), (55, 255, 9, 12, 9, 0, -12),
  (56, 269, 9, 12, 9, 0, -12), (57, 283, 9, 12, 9, 0, -12), (58, 297, 5, 9, 5, 0, -9),
  (59, 303, 5, 11, 5, 0, -9), (60, 310, 9, 10, 9, 0, -10), (61, 322, 9, 7, 9, 0, -7),
  (62, 330, 9, 10, 9, 0, -10), (63, 342, 10, 12, 10, 0, -12), (64, 357, 16, 15, 16, 0, -12),
  (65, 387, 12, 12, 12, 0, -12), (66, 405, 12, 12, 12, 0, -12), (67, 423, 12, 12, 12, 0, -12),
  (68, 441, 12, 12, 12, 0, -12), (69, 459, 11, 12, 11, 0, -12), (70, 476, 10, 12, 10, 0, -12),
  (71, 491, 12, 12, 12, 0, -12), (72, 509, 12, 12, 12, 0, -12), (73, 527, 4, 12, 4, 0, -12),
  (74, 533, 9, 12, 9, 0, -12), (75, 547, 12, 12, 12, 0, -12), (76, 565, 10, 12, 10, 0, -12),
  (77, 580, 13, 12, 13, 0, -12), (78, 600, 12, 12, 12, 0, -12), (79, 618, 12, 12, 12, 0, -12),
  (80, 636, 11, 12, 11, 0, -12), (81, 653, 12, 15, 12, 0, -12), (82, 676, 12, 12, 12, 0, -12),
  (83, 694, 11, 12, 11, 0, -12), (84, 711, 10, 12, 10, 0, -12), (85, 726, 12, 12, 12, 0, -12),
  (86, 744, 11, 12, 11, 0, -12), (87, 761, 16, 12, 15, 0, -12), (88, 785, 11, 12, 11, 0, -12),
  (89, 802, 11, 12, 11, 0, -12), (90, 819, 10, 12, 10, 0, -12), (91, 834, 6, 15, 5, 0, -12),
  (92, 846, 5, 12, 4, 0, -12), (93, 854, 5, 15, 5, 0, -12), (94, 864, 9, 12, 9, 0, -12),
  (95, 878, 11, 2, 9, -1, 0), (96, 881, 5, 13, 5, 0, -13), (97, 890, 9, 9, 9, 0, -9),
  (98, 901, 10, 12, 10, 0, -12), (99, 916, 9, 9, 9, 0, -9), (100, 927, 10, 12, 10, 0, -12),
  (101, 942, 9, 9, 9, 0, -9), (102, 953, 6, 12, 5, 0, -12), (103, 962, 10, 12, 10, 0, -9),
  (104, 977, 10, 12, 10, 0, -12), (105, 992, 4, 12, 4, 0, -12), (106, 998, 5, 15, 4, -1, -12),
  (107, 1008, 9, 12, 9, 0, -12), (108, 1022, 4, 12, 4, 0, -12), (109, 1028, 14, 9, 14, 0, -9),
  (110, 1044, 10, 9, 10, 0, -9), (111, 1056, 10, 9, 10, 0, -9), (112, 1068, 10, 12, 10, 0, -9),
  (113, 1083, 10, 12, 10, 0, -9), (114, 1098, 6, 9, 6, 0, -9), (115, 1105, 9, 9, 9, 0, -9),
  (116, 1116, 6, 11, 5, 0, -11), (117, 1125, 10, 9, 10, 0, -9), (118, 1137, 9, 9, 9, 0, -9),
  (119, 1148, 14, 9, 12, -1, -9), (120, 1164, 9, 9, 9, 0, -9), (121, 1175, 9, 12, 9, 0, -9),
  (122, 1189, 8, 9, 8, 0, -9), (123, 1198, 6, 15, 6, 0, -12), (124, 1210, 4, 16, 4, 0, -12),
  (125, 1218, 6, 15, 6, 0, -12), (126, 1230, 9, 8, 9, 0, -8), (192, 1239, 12, 16, 12, 0, -16),
  (193, 1263, 12, 16, 12, 0, -16), (194, 1287, 12, 16, 12, 0, -16), (195, 1311, 12, 16, 12, 0, -16),
  (200, 1335, 11, 16, 11, 0, -16), (201, 1357, 11, 16, 11, 0, -16), (202, 1379, 11, 16, 11, 0, -16),
  (204, 1401, 5, 16, 4, -1, -16), (205, 1411, 5, 16, 4, 0, -16), (210, 1421, 12, 16, 12, 0, -16),
  (211, 1445, 12, 16, 12, 0, -16), (212, 1469, 12, 16, 12, 0, -16), (213, 1493, 12, 16, 12, 0, -16),
  (217, 1517, 12, 16, 12, 0, -16), (218, 1541, 12, 16, 12, 0, -16), (221, 1565, 11, 16, 11, 0, -16),
  (224, 1587, 9, 13, 9, 0, -13), (225, 1602, 9, 13, 9, 0, -13), (226, 1617, 9, 13, 9, 0, -13),
  (227, 1632, 9, 13, 9, 0, -13), (232, 1647, 9, 13, 9, 0, -13), (233, 1662, 9, 13, 9, 0, -13),
  (234, 1677, 9, 13, 9, 0, -13), (236, 1692, 5, 13, 4, -1, -13), (237, 1701, 5, 13, 4, 0, -13),
  (242, 1710, 10, 13, 10, 0, -13), (243, 1727, 10, 13, 10, 0, -13), (244, 1744, 10, 13, 10, 0, -13),
  (245, 1761, 10, 13, 10, 0, -13), (249, 1778, 10, 13, 10, 0, -13), (250, 1795, 10, 13, 10, 0, -13),
  (253, 1812, 9, 16, 9, 0, -13), (258, 1830, 12, 16, 12, 0, -16), (259, 1854, 9, 13, 9, 0, -13),
  (272, 1869, 12, 12, 12, 0, -12), (273, 1887, 10, 12, 10, 0, -12), (296, 1902, 7, 16, 4, -1, -16),
  (297, 1916, 7, 13, 4, -1, -13), (360, 1928, 12, 16, 12, 0, -16), (361, 1952, 10, 13, 10, 0, -13),
  (416, 1969, 14, 12, 14, 0, -12), (417, 1990, 12, 9, 11, 0, -9), (431, 2004, 14, 12, 13, 0, -12),
  (432, 2025, 12, 9, 12, 0, -9), (7840, 2039, 12, 15, 12, 0, -12), (7841, 2062, 9, 12, 9, 0, -9),
  (7842, 2076, 12, 16, 12, 0, -16), (7843, 2100, 9, 13, 9, 0, -13), (7844, 2115, 12, 16, 12, 0, -16),
  (7845, 2139, 9, 13, 9, 0, -13), (7846, 2154, 12, 16, 12, 0, -16), (7847, 2178, 9, 13, 9, 0, -13),
  (7848, 2193, 12, 16, 12, 0, -16), (7849, 2217, 9, 14, 9, 0, -14), (7850, 2233, 12, 17, 12, 0, -17),
  (7851, 2259, 9, 15, 9, 0, -15), (7852, 2276, 12, 19, 12, 0, -16), (7853, 2305, 9, 16, 9, 0, -13),
  (7854, 2323, 12, 16, 12, 0, -16), (7855, 2347, 9, 15, 9, 0, -15), (7856, 2364, 12, 16, 12, 0, -16),
  (7857, 2388, 9, 15, 9, 0, -15), (7858, 2405, 12, 16, 12, 0, -16), (7859, 2429, 9, 15, 9, 0, -15),
  (7860, 2446, 12, 16, 12, 0, -16), (7861, 2470, 9, 15, 9, 0, -15), (7862, 2487, 12, 19, 12, 0, -16),
  (7863, 2516, 9, 16, 9, 0, -13), (7864, 2534, 11, 15, 11, 0, -12), (7865, 2555, 9, 12, 9, 0, -9),
  (7866, 2569, 11, 16, 11, 0, -16), (7867, 2591, 9, 13, 9, 0, -13), (7868, 2606, 11, 16, 11, 0, -16),
  (7869, 2628, 9, 13, 9, 0, -13), (7870, 2643, 11, 16, 11, 0, -16), (7871, 2665, 9, 13, 9, 0, -13),
  (7872, 2680, 11, 16, 11, 0, -16), (7873, 2702, 9, 13, 9, 0, -13), (7874, 2717, 11, 16, 11, 0, -16),
  (7875, 2739, 9, 14, 9, 0, -14), (7876, 2755, 11, 17, 11, 0, -17), (7877, 2779, 9, 15, 9, 0, -15),
  (7878, 2796, 11, 19, 11, 0, -16), (7879, 2823, 9, 16, 9, 0, -13), (7880, 2841, 5, 16, 4, 0, -16),
  (7881, 2851, 5, 13, 4, 0, -13), (7882, 2860, 4, 15, 4, 0, -12), (7883, 2868, 4, 15, 4, 0, -12),
  (7884, 2876, 12, 15, 12, 0, -12), (7885, 2899, 10, 12, 10, 0, -9), (7886, 2914, 12, 16, 12, 0, -16),
  (7887, 2938, 10, 13, 10, 0, -13), (7888, 2955, 12, 16, 12, 0, -16), (7889, 2979, 10, 13, 10, 0, -13),
  (7890, 2996, 12, 16, 12, 0, -16), (7891, 3020, 10, 13, 10, 0, -13), (7892, 3037, 12, 16, 12, 0, -16),
  (7893, 3061, 10, 14, 10, 0, -14), (7894, 3079, 12, 17, 12, 0, -17), (7895, 3105, 10, 15, 10, 0, -15),
  (7896, 3124, 12, 19, 12, 0, -16), (7897, 3153, 10, 16, 10, 0, -13), (7898, 3173, 14, 16, 14, 0, -16),
  (7899, 3201, 12, 13, 11, 0, -13), (7900, 3221, 14, 16, 14, 0, -16), (7901, 3249, 12, 13, 11, 0, -13),
  (7902, 3269, 14, 16, 14, 0, -16), (7903, 3297, 12, 13, 11, 0, -13), (7904, 3317, 14, 16, 14, 0, -16),
  (7905, 3345, 12, 13, 11, 0, -13), (7906, 3365, 14, 15, 14, 0, -12), (7907, 3392, 12, 12, 11, 0, -9),
  (7908, 3410, 12, 15, 12, 0, -12), (7909, 3433, 10, 12, 10, 0, -9), (7910, 3448, 12, 16, 12, 0, -16),
  (7911, 3472, 10, 13, 10, 0, -13), (7912, 3489, 14, 16, 13, 0, -16), (7913, 3517, 12, 13, 12, 0, -13),
  (7914, 3537, 14, 16, 13, 0, -16), (7915, 3565, 12, 13, 12, 0, -13), (7916, 3585, 14, 16, 13, 0, -16),
  (7917, 3613, 12, 13, 12, 0, -13), (7918, 3633, 14, 16, 13, 0, -16), (7919, 3661, 12, 13, 12, 0, -13),
  (7920, 3681, 14, 15, 13, 0, -12), (7921, 3708, 12, 12, 12, 0, -9), (7922, 3726, 11, 16, 11, 0, -16),
  (7923, 3748, 9, 16, 9, 0, -13), (7924, 3766, 11, 15, 11, 0, -12), (7925, 3787, 9, 12, 9, 0, -9),
  (7926, 3801, 11, 16, 11, 0, -16), (7927, 3823, 9, 16, 9, 0, -13), (7928, 3841, 11, 16, 11, 0, -16),
  (7929, 3863, 9, 16, 9, 0, -13)]"

definition vn_font_body :: vn_font_data where
  "vn_font_body = \<lparr>vf_bitmap = bitmap_body, vf_glyphs = map glyph_of_row glyph_rows_body, vf_ascent = 15, vf_descent = 4\<rparr>"

section \<open>The large font\<close>

definition bitmap_large_1 :: "bytes list" where
  "bitmap_large_1 = [
  [0x38, 0x38, 0x38, 0x38, 0x38, 0x38, 0x38, 0x38, 0x38, 0x38, 0x38, 0x00, 0x00, 0x38, 0x38, 0x38, 0x38, 0x3B, 0xC7, 0x78],
  [0xEE, 0x1C, 0xC3, 0x98, 0x63, 0x00, 0x00, 0x00, 0x00, 0x00, 0x00, 0x00, 0x00, 0x00, 0x00, 0x00, 0x00, 0x00, 0x00, 0x00],
  [0x00, 0x04, 0x30, 0x61, 0x03, 0x18, 0x18, 0xC0, 0xC6, 0x3F, 0xFD, 0xFF, 0xE3, 0x18, 0x18, 0xC0, 0xC6, 0x3F, 0xFD, 0xFF],
  [0xE3, 0x18, 0x18, 0xC0, 0xC6, 0x04, 0x30, 0x61, 0x00, 0x02, 0x00, 0x08, 0x01, 0xFC, 0x0F, 0xF8, 0x7A, 0xF1, 0xC9, 0xC7],
  [0x27, 0x1E, 0x80, 0x7F, 0x00, 0xFF, 0x80, 0xFF, 0x00, 0xBC, 0x02, 0x79, 0x88, 0xE7, 0x27, 0x9E, 0x9C, 0x3F, 0xF0, 0x7F],
  [0x00, 0x20, 0x00, 0x80, 0x00, 0x00, 0x3C, 0x0C, 0x03, 0xF0, 0xE0, 0x19, 0x86, 0x00, 0xCC, 0x70, 0x0E, 0x73, 0x00, 0x73],
  [0xB8, 0x01, 0x99, 0x80, 0x0C, 0xDD, 0xE0, 0x7E, 0xDF, 0x81, 0xEE, 0xCC, 0x00, 0x66, 0x60, 0x07, 0x73, 0x00, 0x33, 0x98],
  [0x03, 0x8C, 0xC0, 0x18, 0x66, 0x01, 0xC3, 0xF0, 0x0C, 0x0F, 0x00, 0x03, 0xE0, 0x03, 0xF8, 0x03, 0x8C, 0x01, 0xC7, 0x00],
  [0xE3, 0x00, 0x73, 0x80, 0x1F, 0x80, 0x1F, 0x00, 0x1F, 0x0C, 0x1F, 0xC7, 0x1E, 0xF3, 0x8E, 0x3B, 0x87, 0x0F, 0xC3, 0x83],
  [0xC1, 0xE3, 0xF0, 0x7F, 0xFE, 0x0F, 0x87, 0x00, 0x79, 0xC7, 0x0C, 0x30, 0xC0, 0x00, 0x00, 0x00, 0x00, 0x00, 0x00, 0x00],
  [0x00, 0x0F, 0x0E, 0x1C, 0x1C, 0x3C, 0x38, 0x38, 0x78, 0x78, 0x70, 0x70, 0x70, 0x70, 0x78, 0x78, 0x38, 0x38, 0x3C, 0x1C],
  [0x1C, 0x0E, 0x0F, 0xF0, 0x70, 0x38, 0x38, 0x3C, 0x1C, 0x1C, 0x1E, 0x1E, 0x1E, 0x0E, 0x0E, 0x1E, 0x1E, 0x1E, 0x1C, 0x1C],
  [0x3C, 0x38, 0x38, 0x70, 0xF0, 0x1C, 0x07, 0x05, 0xD3, 0xFE, 0x7F, 0x0F, 0x83, 0x61, 0xDC, 0x22, 0x00, 0x00, 0x00, 0x00],
  [0x00, 0x00, 0x00, 0x00, 0x00, 0x00, 0x00, 0x03, 0x00, 0x0C, 0x00, 0x30, 0x00, 0xC0, 0x03, 0x01, 0xFF, 0xE7, 0xFF, 0x80],
  [0xC0, 0x03, 0x00, 0x0C, 0x00, 0x30, 0x00, 0xC0, 0x00, 0x00, 0x00, 0x00, 0x38, 0x70, 0xE1, 0xC1, 0x83, 0x06, 0x18, 0x7E],
  [0x7E, 0x7E, 0x00, 0x00, 0x00, 0x00, 0x00, 0x38, 0x70, 0xE1, 0xC0, 0x0E, 0x38, 0x70, 0xE1, 0xC3, 0x8E, 0x1C, 0x38, 0x70],
  [0xE3, 0x87, 0x0E, 0x1C, 0x38, 0xE0, 0x0F, 0x80, 0xFE, 0x0E, 0x38, 0x71, 0xC7, 0x0F, 0x38, 0x39, 0xC1, 0xCE, 0x0E, 0x70],
  [0x73, 0x83, 0x9C, 0x1C, 0xE0, 0xE7, 0x0F, 0x1C, 0x70, 0xE3, 0x83, 0xF8, 0x0F, 0x80, 0x07, 0x80, 0xFC, 0x1F, 0xE0, 0xEF],
  [0x04, 0x78, 0x03, 0xC0, 0x1E, 0x00, 0xF0, 0x07, 0x80, 0x3C, 0x01, 0xE0, 0x0F, 0x00, 0x78, 0x03, 0xC0, 0x1E, 0x0F, 0xFF],
  [0x7F, 0xF8, 0x0F, 0x81, 0xFF, 0x0E, 0x38, 0xF1, 0xE7, 0x0F, 0x00, 0x78, 0x03, 0xC0, 0x3C, 0x03, 0xE0, 0x3E, 0x03, 0xE0],
  [0x3E, 0x03, 0xE0, 0x3E, 0x01, 0xE0, 0x0F, 0xFE, 0x7F, 0xF0, 0x0F, 0x81, 0xFF, 0x0E, 0x38, 0xE1, 0xE7, 0x0F, 0x00, 0x78],
  [0x07, 0x80, 0xF8, 0x07, 0xC0, 0x07, 0x00, 0x3C, 0x00, 0xE7, 0x07, 0x38, 0x39, 0xE3, 0xC7, 0xFC, 0x0F, 0x80, 0x01, 0xE0],
  [0x0F, 0x80, 0x3E, 0x01, 0xB8, 0x0E, 0xE0, 0x33, 0x81, 0xCE, 0x0E, 0x38, 0x38, 0xE1, 0xC3, 0x86, 0x0E, 0x3F, 0xFE, 0xFF],
  [0xF8, 0x03, 0x80, 0x0E, 0x00, 0x38, 0x00, 0xE0, 0x3F, 0xE1, 0xFF, 0x0E, 0x00, 0x70, 0x07, 0x80, 0x3C, 0x01, 0xFF, 0x0F],
  [0xFC, 0x78, 0xF3, 0xC3, 0x80, 0x1C, 0x00, 0xE7, 0x07, 0x38, 0x39, 0xE3, 0xC7, 0xFC, 0x0F, 0x80, 0x0F, 0x80, 0xFF, 0x0E],
  [0x38, 0x71, 0xE7, 0x00, 0x38, 0x01, 0xDF, 0x0F, 0xFC, 0x78, 0xF3, 0xC3, 0x9C, 0x1C, 0xE0, 0xE7, 0x07, 0x1C, 0x38, 0xE3],
  [0x83, 0xFC, 0x0F, 0x80, 0x7F, 0xF3, 0xFF, 0x80, 0x1C, 0x01, 0xC0, 0x1E, 0x00, 0xE0, 0x0E, 0x00, 0x70, 0x07, 0x80, 0x38],
  [0x01, 0xC0, 0x1E, 0x00, 0xE0, 0x07, 0x00, 0x38, 0x03, 0xC0, 0x1E, 0x00, 0x0F, 0x81, 0xFF, 0x1E, 0x3C, 0xF1, 0xE7, 0x0F],
  [0x3C, 0x78, 0xE3, 0x83, 0xF8, 0x1F, 0xC1, 0xC7, 0x9C, 0x1C, 0xE0, 0xE7, 0x07, 0x38, 0x39, 0xE3, 0xC7, 0xFC, 0x0F, 0x80],
  [0x0F, 0x81, 0xFE, 0x1E, 0x38, 0xE1, 0xC7, 0x07, 0x38, 0x39, 0xC1, 0xCE, 0x1E, 0x78, 0xF1, 0xFF, 0x87, 0xDC, 0x00, 0xE0],
  [0x07, 0x38, 0x71, 0xE7, 0x87, 0xF8, 0x1F, 0x80, 0x38, 0x38, 0x38, 0x38, 0x00, 0x00, 0x00, 0x00, 0x00, 0x38, 0x38, 0x38],
  [0x38, 0x38, 0x38, 0x38, 0x38, 0x00, 0x00, 0x00, 0x00, 0x00, 0x38, 0x38, 0x38, 0x38, 0x08, 0x18, 0x18, 0x30, 0x00, 0x08],
  [0x01, 0xE0, 0x3F, 0x83, 0xF8, 0x7F, 0x01, 0xF0, 0x06, 0x00, 0x1F, 0x00, 0x7F, 0x00, 0x3F, 0x80, 0x3F, 0x80, 0x1E, 0x00],
  [0x08, 0x00, 0x00, 0x7F, 0xF9, 0xFF, 0xE0, 0x00, 0x00, 0x00, 0x00, 0x00, 0x00, 0x07, 0xFF, 0x9F, 0xFE, 0x00, 0x00, 0x00],
  [0x00, 0x00, 0x00, 0x00, 0x40, 0x01, 0xE0, 0x07, 0xF0, 0x07, 0xF0, 0x03, 0xF8, 0x03, 0xE0, 0x01, 0x80, 0x3E, 0x03, 0xF8],
  [0x7F, 0x07, 0xF0, 0x1E, 0x00, 0x40, 0x00, 0x00, 0x00, 0x07, 0xE0, 0x3F, 0xE0, 0xF1, 0xE3, 0xC1, 0xC7, 0x83, 0xC0, 0x07],
  [0x00, 0x1E, 0x00, 0x78, 0x03, 0xC0, 0x07, 0x00, 0x1E, 0x00, 0x00, 0x00, 0x00, 0x00, 0xF0, 0x01, 0xE0, 0x03, 0xC0, 0x07],
  [0x80, 0x00, 0x7F, 0x00, 0x03, 0xFF, 0x80, 0x1E, 0x03, 0x80, 0x70, 0x01, 0x80, 0xC0, 0x01, 0x83, 0x00, 0x03, 0x0E, 0x1F],
  [0x62, 0x18, 0x7F, 0xC6, 0x31, 0xC7, 0x0C, 0x43, 0x06, 0x19, 0x8C, 0x0C, 0x23, 0x18, 0x18, 0xC6, 0x30, 0x61, 0x8C, 0x71],
  [0xC6, 0x0C, 0x7E, 0xF8, 0x18, 0x79, 0xE0, 0x38, 0x00, 0x00, 0x38, 0x01, 0x80, 0x3C, 0x0F, 0x00, 0x3F, 0xFC, 0x00, 0x1F],
  [0xC0, 0x00, 0x03, 0xE0, 0x01, 0xF0, 0x00, 0xF8, 0x00, 0xEE, 0x00, 0x77, 0x00, 0x3B, 0x80, 0x38, 0xE0, 0x1C, 0x70, 0x0E],
  [0x38, 0x0E, 0x0E, 0x07, 0xFF, 0x07, 0xFF, 0x83, 0x80, 0xE1, 0xC0, 0x71, 0xE0, 0x3C, 0xE0, 0x0E, 0x70, 0x07, 0x00, 0x3F],
  [0xF0, 0x1F, 0xFE, 0x0E, 0x07, 0x87, 0x03, 0xC3, 0x80, 0xE1, 0xC0, 0xF0, 0xE0, 0x70, 0x7F, 0xF0, 0x3F, 0xFC, 0x1C, 0x0F],
  [0x0E, 0x03, 0xC7, 0x01, 0xE3, 0x80, 0xF1, 0xC0, 0x78, 0xE0, 0x78, 0x7F, 0xFC, 0x3F, 0xF8, 0x00, 0x03, 0xF0, 0x07, 0xFE],
  [0x07, 0x87, 0x87, 0x81, 0xE3, 0x80, 0x63, 0xC0, 0x01, 0xE0, 0x00, 0xF0, 0x00, 0x70, 0x00, 0x38, 0x00, 0x1E, 0x00, 0x0F],
  [0x00, 0x03, 0x80, 0x61, 0xE0, 0x78, 0x78, 0x78, 0x1F, 0xF8, 0x03, 0xF8, 0x00, 0x3F, 0xE0, 0x1F, 0xFC, 0x0E, 0x0F, 0x07],
  [0x03, 0xC3, 0x80, 0xE1, 0xC0, 0x78, 0xE0, 0x3C, 0x70, 0x1E, 0x38, 0x07, 0x1C, 0x07, 0x8E, 0x03, 0xC7, 0x01, 0xE3, 0x80],
  [0xE1, 0xC0, 0xF0, 0xE0, 0xF0, 0x7F, 0xF0, 0x3F, 0xE0, 0x00, 0x3F, 0xFE, 0x3F, 0xFE, 0x38, 0x00, 0x38, 0x00, 0x38, 0x00],
  [0x38, 0x00, 0x38, 0x00, 0x3F, 0xFC, 0x3F, 0xFC, 0x38, 0x00, 0x38, 0x00, 0x38, 0x00, 0x38, 0x00, 0x38, 0x00, 0x38, 0x00],
  [0x3F, 0xFE, 0x3F, 0xFE, 0x3F, 0xFC, 0x7F, 0xF8, 0xE0, 0x01, 0xC0, 0x03, 0x80, 0x07, 0x00, 0x0E, 0x00, 0x1F, 0xFE, 0x3F],
  [0xFC, 0x70, 0x00, 0xE0, 0x01, 0xC0, 0x03, 0x80, 0x07, 0x00, 0x0E, 0x00, 0x1C, 0x00, 0x38, 0x00, 0x03, 0xF8, 0x01, 0xFF],
  [0xC0, 0x78, 0x3C, 0x1E, 0x03, 0xC3, 0x80, 0x30, 0xF0, 0x00, 0x1E, 0x00, 0x03, 0xC0, 0x00, 0x70, 0x3F, 0x8F, 0x07, 0xF1],
  [0xE0, 0x0E, 0x3C, 0x01, 0xC3, 0x80, 0x38, 0x78, 0x07, 0x07, 0x83, 0xE0, 0x7F, 0xF8, 0x03, 0xF8, 0x00, 0x38, 0x0E, 0x1C],
  [0x07, 0x0E, 0x03, 0x87, 0x01, 0xC3, 0x80, 0xE1, 0xC0, 0x70, 0xE0, 0x38, 0x7F, 0xFC, 0x3F, 0xFE, 0x1C, 0x07, 0x0E, 0x03],
  [0x87, 0x01, 0xC3, 0x80, 0xE1, 0xC0, 0x70, 0xE0, 0x38, 0x70, 0x1C, 0x38, 0x0E, 0x00, 0x38, 0x70, 0xE1, 0xC3, 0x87, 0x0E],
  [0x1C, 0x38, 0x70, 0xE1, 0xC3, 0x87, 0x0E, 0x1C, 0x38, 0x07, 0xE0, 0x3F, 0x00, 0x38, 0x01, 0xC0, 0x0E, 0x00, 0x70, 0x03],
  [0x80, 0x1C, 0x00, 0xE0, 0x07, 0x00, 0x38, 0x01, 0xCF, 0x0E, 0x38, 0x71, 0xE7, 0x87, 0xF8, 0x1F, 0x80, 0x38, 0x0F, 0x0E],
  [0x07, 0x83, 0x83, 0xC0, 0xE1, 0xE0, 0x38, 0xF0, 0x0E, 0x78, 0x03, 0xBC, 0x00, 0xFF, 0x00, 0x3F, 0xC0, 0x0F, 0xF8, 0x03],
  [0x8F, 0x00, 0xE1, 0xE0, 0x38, 0x78, 0x0E, 0x0F, 0x03, 0x81, 0xE0, 0xE0, 0x3C, 0x38, 0x0F, 0x00, 0x38, 0x00, 0x70, 0x00],
  [0xE0, 0x01, 0xC0, 0x03, 0x80, 0x07, 0x00, 0x0E, 0x00, 0x1C, 0x00, 0x38, 0x00, 0x70, 0x00, 0xE0, 0x01, 0xC0, 0x03, 0x80],
  [0x07, 0x00, 0x0E, 0x00, 0x1F, 0xFE, 0x3F, 0xFC, 0x3C, 0x01, 0xE3, 0xE0, 0x3E, 0x3E, 0x03, 0xE3, 0xF0, 0x3E, 0x3F, 0x07],
  [0xE3, 0xF0, 0x7E, 0x3B, 0x8E, 0xE3, 0xB8, 0xEE, 0x3B, 0x8E, 0xE3, 0x9D, 0xCE, 0x39, 0xDC, 0xE3, 0x9D, 0xCE, 0x38, 0xD8],
  [0xE3, 0x8F, 0x8E, 0x38, 0xF8, 0xE3, 0x87, 0x0E, 0x38, 0x70, 0xE0, 0x3C, 0x0E, 0x1E, 0x07, 0x0F, 0x83, 0x87, 0xC1, 0xC3],
  [0x70, 0xE1, 0xF8, 0x70, 0xEE, 0x38, 0x77, 0x9C, 0x39, 0xCE, 0x1C, 0xF7, 0x0E, 0x3B, 0x87, 0x1F, 0xC3, 0x87, 0xE1, 0xC3],
  [0xF0, 0xE0, 0xF8, 0x70, 0x3C, 0x38, 0x1E, 0x00, 0x03, 0xF0, 0x01, 0xFF, 0x80, 0x78, 0x78, 0x1E, 0x07, 0x83, 0x80, 0x70],
  [0xF0, 0x0F, 0x1E, 0x01, 0xE3, 0x80, 0x3C, 0x70, 0x03, 0x8E, 0x00, 0xF1, 0xE0, 0x1E, 0x3C, 0x03, 0xC3, 0x80, 0x70, 0x78],
  [0x1E, 0x07, 0x87, 0x80, 0x7F, 0xE0, 0x03, 0xF0, 0x00, 0x3F, 0xF0, 0x3F, 0xFC, 0x38, 0x3C, 0x38, 0x1E, 0x38, 0x0E, 0x38],
  [0x0E, 0x38, 0x0E, 0x38, 0x1E, 0x38, 0x3C, 0x3F, 0xF8, 0x3F, 0xF0, 0x38, 0x00, 0x38, 0x00, 0x38, 0x00, 0x38, 0x00, 0x38],
  [0x00, 0x38, 0x00, 0x03, 0xF0, 0x01, 0xFF, 0x80, 0x78, 0x78, 0x1E, 0x07, 0x83, 0x80, 0x70, 0xF0, 0x0F, 0x1E, 0x01, 0xE3],
  [0x80, 0x3C, 0x70, 0x03, 0x8E, 0x00, 0xF1, 0xE0, 0x1E, 0x3C, 0x03, 0xC3, 0x80, 0x70, 0x78, 0x1E, 0x07, 0x87, 0x80, 0x7F],
  [0xE0, 0x03, 0xF8, 0x00, 0x1C, 0x00, 0x03, 0xC0, 0x00, 0x38, 0x00, 0x07, 0xE0, 0x00, 0x3C, 0x00, 0x3F, 0xF8, 0x1F, 0xFE],
  [0x0E, 0x07, 0x87, 0x01, 0xC3, 0x80, 0xF1, 0xC0, 0x78, 0xE0, 0x3C, 0x70, 0x1C, 0x38, 0x1E, 0x1F, 0xFE, 0x0F, 0xFC, 0x07],
  [0x0F, 0x03, 0x83, 0xC1, 0xC1, 0xE0, 0xE0, 0x78, 0x70, 0x1E, 0x38, 0x0F, 0x00, 0x0F, 0xF0, 0x1F, 0xF8, 0x3C, 0x3C, 0x38],
  [0x1C, 0x78, 0x1E, 0x38, 0x00, 0x3E, 0x00, 0x3F, 0xE0, 0x0F, 0xF8, 0x01, 0xFC, 0x00, 0x1E, 0x00, 0x0E, 0x70, 0x0E, 0x78],
  [0x1E, 0x3C, 0x3C, 0x3F, 0xFC, 0x0F, 0xF0, 0xFF, 0xFF, 0xFF, 0xFC, 0x0E, 0x00, 0x1C, 0x00, 0x38, 0x00, 0x70, 0x00, 0xE0],
  [0x01, 0xC0, 0x03, 0x80, 0x07, 0x00, 0x0E, 0x00, 0x1C, 0x00, 0x38, 0x00, 0x70, 0x00, 0xE0, 0x01, 0xC0, 0x03, 0x80, 0x78],
  [0x0F, 0x3C, 0x07, 0x9E, 0x03, 0xCF, 0x01, 0xE7, 0x80, 0xF3, 0xC0, 0x79, 0xE0, 0x3C, 0xF0, 0x1E, 0x78, 0x0F, 0x3C, 0x07],
  [0x9E, 0x03, 0xCF, 0x01, 0xC3, 0x80, 0xE1, 0xC0, 0xF0, 0xF0, 0xF0, 0x3F, 0xF0, 0x07, 0xF0, 0x00, 0xF0, 0x0F, 0x70, 0x0E],
  [0x78, 0x1E, 0x78, 0x1E, 0x38, 0x1C, 0x38, 0x1C, 0x3C, 0x3C, 0x1C, 0x38, 0x1C, 0x38, 0x0E, 0x70, 0x0E, 0x70, 0x0E, 0x70],
  [0x07, 0xE0, 0x07, 0xE0, 0x07, 0xE0, 0x03, 0xC0, 0x03, 0xC0, 0xF0, 0x7C, 0x1F, 0xE0, 0xF8, 0x3D, 0xC1, 0xF0, 0x73, 0x83],
  [0xE0, 0xE7, 0x86, 0xE3, 0xCF, 0x1D, 0xC7, 0x8E, 0x3B, 0x8E, 0x1C, 0x77, 0x1C, 0x38, 0xC6, 0x38, 0x7B, 0x8E, 0xF0, 0x77],
  [0x1D, 0xC0, 0xEE, 0x3B, 0x81, 0xDC, 0x77, 0x03, 0xF0, 0x6E, 0x03, 0xE0, 0xF8, 0x07, 0xC1, 0xF0, 0x0F, 0x83, 0xE0, 0x78],
  [0x1E, 0x38, 0x1C, 0x3C, 0x3C, 0x1C, 0x38, 0x0E, 0x78, 0x0F, 0xF0, 0x07, 0xE0, 0x03, 0xE0, 0x03, 0xE0, 0x07, 0xE0, 0x0F],
  [0xF0, 0x0E, 0x70, 0x1E, 0x78, 0x3C, 0x3C, 0x38, 0x1C, 0x78, 0x1E, 0x70, 0x0E, 0x70, 0x1C, 0x78, 0x3C, 0x38, 0x38, 0x3C],
  [0x78, 0x1C, 0x70, 0x1E, 0xF0, 0x0E, 0xE0, 0x07, 0xE0, 0x07, 0xC0, 0x03, 0xC0, 0x03, 0x80, 0x03, 0x80, 0x03, 0x80, 0x03],
  [0x80, 0x03, 0x80, 0x03, 0x80, 0x03, 0x80, 0x3F, 0xF8, 0x7F, 0xF0, 0x01, 0xC0, 0x07, 0x80, 0x1E, 0x00, 0x3C, 0x00, 0xF0],
  [0x01, 0xC0, 0x07, 0x80, 0x1E, 0x00, 0x38, 0x00, 0xF0, 0x03, 0xC0, 0x07, 0x00, 0x1E, 0x00, 0x3F, 0xFC, 0x7F, 0xF8, 0x7F],
  [0x7F, 0x70, 0x70, 0x70, 0x70, 0x70, 0x70, 0x70, 0x70, 0x70, 0x70, 0x70, 0x70, 0x70, 0x70, 0x70, 0x70, 0x70, 0x70, 0x7F],
  [0x7F, 0xE0, 0xE1, 0xC3, 0x87, 0x0E, 0x0E, 0x1C, 0x38, 0x70, 0xE0, 0xE1, 0xC3, 0x87, 0x0E, 0x0E, 0xFE, 0xFE, 0x0E, 0x0E],
  [0x0E, 0x0E, 0x0E, 0x0E, 0x0E, 0x0E, 0x0E, 0x0E, 0x0E, 0x0E, 0x0E, 0x0E, 0x0E, 0x0E, 0x0E, 0x0E, 0xFE, 0xFE, 0x07, 0x80],
  [0x3F, 0x00, 0xFC, 0x07, 0x38, 0x1C, 0xE0, 0x61, 0x83, 0x87, 0x0C, 0x0C, 0x70, 0x39, 0x80, 0x60, 0x00, 0x00, 0x00, 0x00],
  [0x00, 0x00, 0x00, 0x00, 0x00, 0x00, 0x00, 0x00, 0x00, 0x00, 0x00, 0x03, 0xFF, 0xE0, 0x70, 0x38, 0x1C, 0x0E, 0x00, 0x00],
  [0x00, 0x00, 0x00, 0x00, 0x00, 0x00, 0x00, 0x00, 0x00, 0x00, 0x00, 0x00, 0x0F, 0x80, 0xFF, 0x03, 0x8E, 0x1E, 0x38, 0x00],
  [0xE0, 0x7F, 0x83, 0xFE, 0x1E, 0x38, 0x70, 0xE1, 0xC3, 0x87, 0x1F, 0x1F, 0xDE, 0x3E, 0x78, 0x38, 0x00, 0x70, 0x00, 0xE0],
  [0x01, 0xC0, 0x03, 0x9E, 0x07, 0x7F, 0x0F, 0x1E, 0x1E, 0x1E, 0x38, 0x3C, 0x70, 0x38, 0xE0, 0x71, 0xC0, 0xE3, 0x83, 0xC7],
  [0x87, 0x8F, 0x1E, 0x1F, 0xFC, 0x39, 0xE0, 0x0F, 0x80, 0xFF, 0x0E, 0x3C, 0xF0, 0xE7, 0x00, 0x38, 0x01, 0xC0, 0x0E, 0x00],
  [0x78, 0x73, 0xC3, 0x8E, 0x3C, 0x3F, 0xC0, 0xF8, 0x00, 0x00, 0x38, 0x00, 0x70, 0x00, 0xE0, 0x01, 0xC0, 0xF3, 0x87, 0xFF],
  [0x0F, 0x1E, 0x3C, 0x3C, 0x78, 0x38, 0xE0, 0x71, 0xC0, 0xE3, 0x81, 0xC7, 0x83, 0x8F, 0x0F, 0x0F, 0x1E, 0x1F, 0xDC, 0x0F],
  [0x38, 0x0F, 0x80, 0xFF, 0x0E, 0x38, 0xF0, 0xE7, 0x07, 0x3F, 0xF9, 0xFF, 0xCE, 0x00, 0x70, 0x03, 0xC3, 0x8E, 0x38, 0x3F],
  [0xC0, 0xF8, 0x00, 0x1F, 0x0F, 0x8F, 0x07, 0x8F, 0xF7, 0xF8, 0xF0, 0x78, 0x3C, 0x1E, 0x0F, 0x07, 0x83, 0xC1, 0xE0, 0xF0]]"

definition bitmap_large_2 :: "bytes list" where
  "bitmap_large_2 = [
  [0x78, 0x3C, 0x00, 0x0F, 0x38, 0x7F, 0xF0, 0xF1, 0xE3, 0xC3, 0xC7, 0x83, 0x8E, 0x07, 0x1C, 0x0E, 0x38, 0x1C, 0x78, 0x38],
  [0xF0, 0xF0, 0xF1, 0xE1, 0xFD, 0xC0, 0xF3, 0x80, 0x07, 0x0E, 0x0E, 0x1E, 0x3C, 0x1F, 0xF0, 0x1F, 0x80, 0x38, 0x00, 0x70],
  [0x00, 0xE0, 0x01, 0xC0, 0x03, 0x9E, 0x07, 0x7F, 0x0F, 0x1E, 0x1E, 0x1C, 0x38, 0x38, 0x70, 0x70, 0xE0, 0xE1, 0xC1, 0xC3],
  [0x83, 0x87, 0x07, 0x0E, 0x0E, 0x1C, 0x1C, 0x38, 0x38, 0x38, 0x70, 0xE0, 0x03, 0x87, 0x0E, 0x1C, 0x38, 0x70, 0xE1, 0xC3],
  [0x87, 0x0E, 0x1C, 0x38, 0x38, 0x38, 0x38, 0x00, 0x38, 0x38, 0x38, 0x38, 0x38, 0x38, 0x38, 0x38, 0x38, 0x38, 0x38, 0x38],
  [0x38, 0x38, 0x38, 0x78, 0xF8, 0xF0, 0x38, 0x00, 0xE0, 0x03, 0x80, 0x0E, 0x00, 0x38, 0x70, 0xE3, 0x83, 0x9E, 0x0E, 0xF0],
  [0x3B, 0x80, 0xFE, 0x03, 0xF8, 0x0F, 0xF0, 0x39, 0xC0, 0xE7, 0x83, 0x8F, 0x0E, 0x1C, 0x38, 0x78, 0x38, 0x70, 0xE1, 0xC3],
  [0x87, 0x0E, 0x1C, 0x38, 0x70, 0xE1, 0xC3, 0x87, 0x0E, 0x1C, 0x38, 0x39, 0xE3, 0xC1, 0xDF, 0xBF, 0x0F, 0x3E, 0x78, 0x70],
  [0xF1, 0xC3, 0x87, 0x0F, 0x1C, 0x38, 0x78, 0xE1, 0xC3, 0xC7, 0x0E, 0x1E, 0x38, 0x70, 0xF1, 0xC3, 0x87, 0x8E, 0x1C, 0x3C],
  [0x70, 0xE1, 0xE3, 0x87, 0x0F, 0x00, 0x39, 0xE0, 0x77, 0xF0, 0xF1, 0xE1, 0xE1, 0xC3, 0x83, 0x87, 0x07, 0x0E, 0x0E, 0x1C],
  [0x1C, 0x38, 0x38, 0x70, 0x70, 0xE0, 0xE1, 0xC1, 0xC3, 0x83, 0x80, 0x07, 0xE0, 0x3F, 0xE0, 0xF1, 0xE3, 0xC1, 0xE7, 0x83],
  [0xCE, 0x03, 0x9C, 0x07, 0x38, 0x0E, 0x78, 0x3C, 0xF0, 0x70, 0xF1, 0xE0, 0xFF, 0x80, 0xFC, 0x00, 0x39, 0xE0, 0x77, 0xF0],
  [0xF1, 0xE1, 0xE1, 0xE3, 0x83, 0xC7, 0x03, 0x8E, 0x07, 0x1C, 0x0E, 0x38, 0x3C, 0x78, 0x78, 0xF1, 0xE1, 0xFF, 0xC3, 0x9E],
  [0x07, 0x00, 0x0E, 0x00, 0x1C, 0x00, 0x38, 0x00, 0x70, 0x00, 0x0F, 0x38, 0x3F, 0xF0, 0xF1, 0xE3, 0xC3, 0xC7, 0x83, 0x8E],
  [0x07, 0x1C, 0x0E, 0x38, 0x1C, 0x78, 0x38, 0xF0, 0xF0, 0xF1, 0xE1, 0xFD, 0xC0, 0xF3, 0x80, 0x07, 0x00, 0x0E, 0x00, 0x1C],
  [0x00, 0x38, 0x00, 0x70, 0x3B, 0x9F, 0xCF, 0x07, 0x03, 0x81, 0xC0, 0xE0, 0x70, 0x38, 0x1C, 0x0E, 0x07, 0x03, 0x80, 0x0F],
  [0x81, 0xFF, 0x0E, 0x38, 0xE0, 0xE7, 0x80, 0x1F, 0xC0, 0x7F, 0x80, 0xFE, 0x00, 0x73, 0x83, 0x9C, 0x1C, 0x7F, 0xC1, 0xFC],
  [0x00, 0x18, 0x18, 0x38, 0xFF, 0xFF, 0x38, 0x38, 0x38, 0x38, 0x38, 0x38, 0x38, 0x38, 0x38, 0x3F, 0x1F, 0x38, 0x38, 0x70],
  [0x70, 0xE0, 0xE1, 0xC1, 0xC3, 0x83, 0x87, 0x07, 0x0E, 0x0E, 0x1C, 0x1C, 0x38, 0x38, 0x70, 0xF0, 0xF1, 0xE1, 0xFD, 0xC0],
  [0xF3, 0x80, 0xF0, 0x79, 0xC1, 0xC7, 0x07, 0x1E, 0x3C, 0x38, 0xE0, 0xE3, 0x83, 0x8E, 0x07, 0x70, 0x1D, 0xC0, 0x77, 0x00],
  [0xF8, 0x03, 0xE0, 0x0F, 0x80, 0xE0, 0xE0, 0xEE, 0x1F, 0x0E, 0x71, 0xB1, 0xC7, 0x1B, 0x1C, 0x73, 0xB1, 0xC7, 0x3B, 0x9C],
  [0x33, 0xB9, 0x83, 0xB1, 0xB8, 0x3F, 0x1B, 0x83, 0xF1, 0xF8, 0x1E, 0x1F, 0x01, 0xE0, 0xF0, 0x1E, 0x0F, 0x00, 0x70, 0x71],
  [0xE3, 0xC3, 0x9E, 0x07, 0x70, 0x1F, 0xC0, 0x3E, 0x00, 0xF8, 0x03, 0xE0, 0x1D, 0xC0, 0xF7, 0x83, 0x8E, 0x1E, 0x3C, 0xF0],
  [0x78, 0xF0, 0x79, 0xC1, 0xC7, 0x07, 0x1E, 0x3C, 0x38, 0xE0, 0xE3, 0x81, 0xCE, 0x07, 0x70, 0x1D, 0xC0, 0x37, 0x00, 0xF8],
  [0x03, 0xE0, 0x07, 0x80, 0x1C, 0x00, 0xF0, 0x03, 0x80, 0x7E, 0x01, 0xE0, 0x00, 0x7F, 0xE7, 0xFE, 0x01, 0xC0, 0x3C, 0x07],
  [0x80, 0x70, 0x0F, 0x01, 0xE0, 0x1C, 0x03, 0xC0, 0x78, 0x07, 0xFE, 0x7F, 0xE0, 0x0F, 0x8F, 0xC7, 0x83, 0x81, 0xC0, 0xE0],
  [0x70, 0x38, 0x1C, 0x1E, 0x3E, 0x1F, 0x03, 0xC0, 0xE0, 0x70, 0x38, 0x1C, 0x0E, 0x07, 0x03, 0xC1, 0xF8, 0x7C, 0x38, 0x70],
  [0xE1, 0xC3, 0x87, 0x0E, 0x1C, 0x38, 0x70, 0xE1, 0xC3, 0x87, 0x0E, 0x1C, 0x38, 0x70, 0xE1, 0xC3, 0x87, 0x00, 0xF8, 0x7E],
  [0x0F, 0x03, 0x81, 0xC0, 0xE0, 0x70, 0x38, 0x1C, 0x0F, 0x03, 0xE1, 0xF1, 0xE0, 0xE0, 0x70, 0x38, 0x1C, 0x0E, 0x07, 0x07],
  [0x8F, 0xC7, 0xC0, 0x3C, 0x01, 0xFC, 0x24, 0x3F, 0x80, 0x3C, 0x00, 0x00, 0x00, 0x00, 0x00, 0x00, 0x00, 0x00, 0x00, 0x00],
  [0x00, 0x07, 0x80, 0x00, 0xE0, 0x00, 0x38, 0x00, 0x00, 0x00, 0x3E, 0x00, 0x1F, 0x00, 0x0F, 0x80, 0x0E, 0xE0, 0x07, 0x70],
  [0x03, 0xB8, 0x03, 0x8E, 0x01, 0xC7, 0x00, 0xE3, 0x80, 0xE0, 0xE0, 0x7F, 0xF0, 0x7F, 0xF8, 0x38, 0x0E, 0x1C, 0x07, 0x1E],
  [0x03, 0xCE, 0x00, 0xE7, 0x00, 0x70, 0x00, 0x78, 0x00, 0x70, 0x00, 0x70, 0x00, 0x00, 0x00, 0x3E, 0x00, 0x1F, 0x00, 0x0F],
  [0x80, 0x0E, 0xE0, 0x07, 0x70, 0x03, 0xB8, 0x03, 0x8E, 0x01, 0xC7, 0x00, 0xE3, 0x80, 0xE0, 0xE0, 0x7F, 0xF0, 0x7F, 0xF8],
  [0x38, 0x0E, 0x1C, 0x07, 0x1E, 0x03, 0xCE, 0x00, 0xE7, 0x00, 0x70, 0x01, 0xE0, 0x01, 0xF8, 0x01, 0xCE, 0x00, 0x00, 0x00],
  [0x3E, 0x00, 0x1F, 0x00, 0x0F, 0x80, 0x0E, 0xE0, 0x07, 0x70, 0x03, 0xB8, 0x03, 0x8E, 0x01, 0xC7, 0x00, 0xE3, 0x80, 0xE0],
  [0xE0, 0x7F, 0xF0, 0x7F, 0xF8, 0x38, 0x0E, 0x1C, 0x07, 0x1E, 0x03, 0xCE, 0x00, 0xE7, 0x00, 0x70, 0x07, 0x88, 0x03, 0xFC],
  [0x03, 0x1E, 0x00, 0x00, 0x00, 0x3E, 0x00, 0x1F, 0x00, 0x0F, 0x80, 0x0E, 0xE0, 0x07, 0x70, 0x03, 0xB8, 0x03, 0x8E, 0x01],
  [0xC7, 0x00, 0xE3, 0x80, 0xE0, 0xE0, 0x7F, 0xF0, 0x7F, 0xF8, 0x38, 0x0E, 0x1C, 0x07, 0x1E, 0x03, 0xCE, 0x00, 0xE7, 0x00],
  [0x70, 0x07, 0x80, 0x01, 0xC0, 0x00, 0xE0, 0x00, 0x00, 0x3F, 0xFE, 0x3F, 0xFE, 0x38, 0x00, 0x38, 0x00, 0x38, 0x00, 0x38],
  [0x00, 0x38, 0x00, 0x3F, 0xFC, 0x3F, 0xFC, 0x38, 0x00, 0x38, 0x00, 0x38, 0x00, 0x38, 0x00, 0x38, 0x00, 0x38, 0x00, 0x3F],
  [0xFE, 0x3F, 0xFE, 0x00, 0xF0, 0x01, 0xC0, 0x03, 0x80, 0x00, 0x00, 0x3F, 0xFE, 0x3F, 0xFE, 0x38, 0x00, 0x38, 0x00, 0x38],
  [0x00, 0x38, 0x00, 0x38, 0x00, 0x3F, 0xFC, 0x3F, 0xFC, 0x38, 0x00, 0x38, 0x00, 0x38, 0x00, 0x38, 0x00, 0x38, 0x00, 0x38],
  [0x00, 0x3F, 0xFE, 0x3F, 0xFE, 0x01, 0xE0, 0x03, 0xF0, 0x07, 0x38, 0x00, 0x00, 0x3F, 0xFE, 0x3F, 0xFE, 0x38, 0x00, 0x38],
  [0x00, 0x38, 0x00, 0x38, 0x00, 0x38, 0x00, 0x3F, 0xFC, 0x3F, 0xFC, 0x38, 0x00, 0x38, 0x00, 0x38, 0x00, 0x38, 0x00, 0x38],
  [0x00, 0x38, 0x00, 0x3F, 0xFE, 0x3F, 0xFE, 0x78, 0x1C, 0x0E, 0x00, 0x1C, 0x1C, 0x1C, 0x1C, 0x1C, 0x1C, 0x1C, 0x1C, 0x1C],
  [0x1C, 0x1C, 0x1C, 0x1C, 0x1C, 0x1C, 0x1C, 0x1C, 0x0F, 0x1C, 0x38, 0x00, 0x38, 0x38, 0x38, 0x38, 0x38, 0x38, 0x38, 0x38],
  [0x38, 0x38, 0x38, 0x38, 0x38, 0x38, 0x38, 0x38, 0x38, 0x03, 0xC0, 0x00, 0x1C, 0x00, 0x01, 0xC0, 0x00, 0x00, 0x00, 0x3F],
  [0x00, 0x1F, 0xF8, 0x07, 0x87, 0x81, 0xE0, 0x78, 0x38, 0x07, 0x0F, 0x00, 0xF1, 0xE0, 0x1E, 0x38, 0x03, 0xC7, 0x00, 0x38],
  [0xE0, 0x0F, 0x1E, 0x01, 0xE3, 0xC0, 0x3C, 0x38, 0x07, 0x07, 0x81, 0xE0, 0x78, 0x78, 0x07, 0xFE, 0x00, 0x3F, 0x00, 0x00],
  [0x78, 0x00, 0x1C, 0x00, 0x07, 0x00, 0x00, 0x00, 0x00, 0x3F, 0x00, 0x1F, 0xF8, 0x07, 0x87, 0x81, 0xE0, 0x78, 0x38, 0x07],
  [0x0F, 0x00, 0xF1, 0xE0, 0x1E, 0x38, 0x03, 0xC7, 0x00, 0x38, 0xE0, 0x0F, 0x1E, 0x01, 0xE3, 0xC0, 0x3C, 0x38, 0x07, 0x07],
  [0x81, 0xE0, 0x78, 0x78, 0x07, 0xFE, 0x00, 0x3F, 0x00, 0x01, 0xE0, 0x00, 0x7E, 0x00, 0x1C, 0xE0, 0x00, 0x00, 0x00, 0x3F],
  [0x00, 0x1F, 0xF8, 0x07, 0x87, 0x81, 0xE0, 0x78, 0x38, 0x07, 0x0F, 0x00, 0xF1, 0xE0, 0x1E, 0x38, 0x03, 0xC7, 0x00, 0x38],
  [0xE0, 0x0F, 0x1E, 0x01, 0xE3, 0xC0, 0x3C, 0x38, 0x07, 0x07, 0x81, 0xE0, 0x78, 0x78, 0x07, 0xFE, 0x00, 0x3F, 0x00, 0x07],
  [0x88, 0x00, 0xFF, 0x00, 0x31, 0xE0, 0x00, 0x00, 0x00, 0x3F, 0x00, 0x1F, 0xF8, 0x07, 0x87, 0x81, 0xE0, 0x78, 0x38, 0x07],
  [0x0F, 0x00, 0xF1, 0xE0, 0x1E, 0x38, 0x03, 0xC7, 0x00, 0x38, 0xE0, 0x0F, 0x1E, 0x01, 0xE3, 0xC0, 0x3C, 0x38, 0x07, 0x07],
  [0x81, 0xE0, 0x78, 0x78, 0x07, 0xFE, 0x00, 0x3F, 0x00, 0x07, 0x80, 0x00, 0xE0, 0x00, 0x38, 0x00, 0x00, 0x07, 0x80, 0xF3],
  [0xC0, 0x79, 0xE0, 0x3C, 0xF0, 0x1E, 0x78, 0x0F, 0x3C, 0x07, 0x9E, 0x03, 0xCF, 0x01, 0xE7, 0x80, 0xF3, 0xC0, 0x79, 0xE0],
  [0x3C, 0xF0, 0x1C, 0x38, 0x0E, 0x1C, 0x0F, 0x0F, 0x0F, 0x03, 0xFF, 0x00, 0x7F, 0x00, 0x00, 0x78, 0x00, 0x70, 0x00, 0x70],
  [0x00, 0x00, 0x07, 0x80, 0xF3, 0xC0, 0x79, 0xE0, 0x3C, 0xF0, 0x1E, 0x78, 0x0F, 0x3C, 0x07, 0x9E, 0x03, 0xCF, 0x01, 0xE7],
  [0x80, 0xF3, 0xC0, 0x79, 0xE0, 0x3C, 0xF0, 0x1C, 0x38, 0x0E, 0x1C, 0x0F, 0x0F, 0x0F, 0x03, 0xFF, 0x00, 0x7F, 0x00, 0x00],
  [0xF0, 0x01, 0xC0, 0x03, 0x80, 0x00, 0x00, 0x70, 0x1C, 0x78, 0x3C, 0x38, 0x38, 0x3C, 0x78, 0x1C, 0x70, 0x1E, 0xF0, 0x0E],
  [0xE0, 0x07, 0xE0, 0x07, 0xC0, 0x03, 0xC0, 0x03, 0x80, 0x03, 0x80, 0x03, 0x80, 0x03, 0x80, 0x03, 0x80, 0x03, 0x80, 0x03],
  [0x80, 0x1C, 0x00, 0x38, 0x00, 0x70, 0x00, 0xE0, 0x00, 0x00, 0x3E, 0x03, 0xFC, 0x0E, 0x38, 0x78, 0xE0, 0x03, 0x81, 0xFE],
  [0x0F, 0xF8, 0x78, 0xE1, 0xC3, 0x87, 0x0E, 0x1C, 0x7C, 0x7F, 0x78, 0xF9, 0xE0, 0x00, 0xE0, 0x07, 0x00, 0x38, 0x01, 0xC0],
  [0x00, 0x00, 0x3E, 0x03, 0xFC, 0x0E, 0x38, 0x78, 0xE0, 0x03, 0x81, 0xFE, 0x0F, 0xF8, 0x78, 0xE1, 0xC3, 0x87, 0x0E, 0x1C],
  [0x7C, 0x7F, 0x78, 0xF9, 0xE0, 0x03, 0x80, 0x1F, 0x00, 0xEE, 0x06, 0x1C, 0x00, 0x00, 0x3E, 0x03, 0xFC, 0x0E, 0x38, 0x78],
  [0xE0, 0x03, 0x81, 0xFE, 0x0F, 0xF8, 0x78, 0xE1, 0xC3, 0x87, 0x0E, 0x1C, 0x7C, 0x7F, 0x78, 0xF9, 0xE0, 0x1E, 0x60, 0xFF],
  [0x83, 0x3C, 0x00, 0x00, 0x0F, 0x80, 0xFF, 0x03, 0x8E, 0x1E, 0x38, 0x00, 0xE0, 0x7F, 0x83, 0xFE, 0x1E, 0x38, 0x70, 0xE1],
  [0xC3, 0x87, 0x1F, 0x1F, 0xDE, 0x3E, 0x78, 0x0E, 0x00, 0x38, 0x00, 0xE0, 0x03, 0x80, 0x00, 0x07, 0xC0, 0x7F, 0x87, 0x1C],
  [0x78, 0x73, 0x83, 0x9F, 0xFC, 0xFF, 0xE7, 0x00, 0x38, 0x01, 0xE1, 0xC7, 0x1C, 0x1F, 0xE0, 0x7C, 0x00, 0x00, 0xE0, 0x0E],
  [0x00, 0xE0, 0x0E, 0x00, 0x00, 0x07, 0xC0, 0x7F, 0x87, 0x1C, 0x78, 0x73, 0x83, 0x9F, 0xFC, 0xFF, 0xE7, 0x00, 0x38, 0x01],
  [0xE1, 0xC7, 0x1C, 0x1F, 0xE0, 0x7C, 0x00, 0x03, 0x80, 0x3E, 0x03, 0xB8, 0x30, 0xE0, 0x00, 0x07, 0xC0, 0x7F, 0x87, 0x1C],
  [0x78, 0x73, 0x83, 0x9F, 0xFC, 0xFF, 0xE7, 0x00, 0x38, 0x01, 0xE1, 0xC7, 0x1C, 0x1F, 0xE0, 0x7C, 0x00, 0xE0, 0x70, 0x38],
  [0x1C, 0x00, 0x38, 0x38, 0x38, 0x38, 0x38, 0x38, 0x38, 0x38, 0x38, 0x38, 0x38, 0x38, 0x38, 0x07, 0x0E, 0x1C, 0x38, 0x00],
  [0x38, 0x38, 0x38, 0x38, 0x38, 0x38, 0x38, 0x38, 0x38, 0x38, 0x38, 0x38, 0x38, 0x0E, 0x00, 0x0E, 0x00, 0x0E, 0x00, 0x0E],
  [0x00, 0x00, 0x00, 0xFC, 0x07, 0xFC, 0x1E, 0x3C, 0x78, 0x3C, 0xF0, 0x79, 0xC0, 0x73, 0x80, 0xE7, 0x01, 0xCF, 0x07, 0x9E],
  [0x0E, 0x1E, 0x3C, 0x1F, 0xF0, 0x1F, 0x80, 0x00, 0x70, 0x01, 0xC0, 0x07, 0x00, 0x1C, 0x00, 0x00, 0x00, 0xFC, 0x07, 0xFC],
  [0x1E, 0x3C, 0x78, 0x3C, 0xF0, 0x79, 0xC0, 0x73, 0x80, 0xE7, 0x01, 0xCF, 0x07, 0x9E, 0x0E, 0x1E, 0x3C, 0x1F, 0xF0, 0x1F],
  [0x80, 0x03, 0x80, 0x0F, 0x80, 0x3B, 0x80, 0xC3, 0x80, 0x00, 0x00, 0xFC, 0x07, 0xFC, 0x1E, 0x3C, 0x78, 0x3C, 0xF0, 0x79],
  [0xC0, 0x73, 0x80, 0xE7, 0x01, 0xCF, 0x07, 0x9E, 0x0E, 0x1E, 0x3C, 0x1F, 0xF0, 0x1F, 0x80, 0x0F, 0x30, 0x3F, 0xE0, 0x67],
  [0x80, 0x00, 0x00, 0x7E, 0x03, 0xFE, 0x0F, 0x1E, 0x3C, 0x1E, 0x78, 0x3C, 0xE0, 0x39, 0xC0, 0x73, 0x80, 0xE7, 0x83, 0xCF],
  [0x07, 0x0F, 0x1E, 0x0F, 0xF8, 0x0F, 0xC0, 0x0E, 0x00, 0x0E, 0x00, 0x0E, 0x00, 0x0E, 0x00, 0x00, 0x07, 0x07, 0x0E, 0x0E],
  [0x1C, 0x1C, 0x38, 0x38, 0x70, 0x70, 0xE0, 0xE1, 0xC1, 0xC3, 0x83, 0x87, 0x07, 0x0E, 0x1E, 0x1E, 0x3C, 0x3F, 0xB8, 0x1E],
  [0x70, 0x00, 0x70, 0x01, 0xC0, 0x07, 0x00, 0x1C, 0x00, 0x00, 0x07, 0x07, 0x0E, 0x0E, 0x1C, 0x1C, 0x38, 0x38, 0x70, 0x70],
  [0xE0, 0xE1, 0xC1, 0xC3, 0x83, 0x87, 0x07, 0x0E, 0x1E, 0x1E, 0x3C, 0x3F, 0xB8, 0x1E, 0x70, 0x00, 0xE0, 0x07, 0x00, 0x38],
  [0x01, 0xC0, 0x00, 0x03, 0xC1, 0xE7, 0x07, 0x1C, 0x1C, 0x78, 0xF0, 0xE3, 0x83, 0x8E, 0x07, 0x38, 0x1D, 0xC0, 0x77, 0x00],
  [0xDC, 0x03, 0xE0, 0x0F, 0x80, 0x1E, 0x00, 0x70, 0x03, 0xC0, 0x0E, 0x01, 0xF8, 0x07, 0x80, 0x00, 0x06, 0x18, 0x03, 0xFC],
  [0x00, 0x78, 0x00, 0x00, 0x00, 0x3E, 0x00, 0x1F, 0x00, 0x0F, 0x80, 0x0E, 0xE0, 0x07, 0x70, 0x03, 0xB8, 0x03, 0x8E, 0x01],
  [0xC7, 0x00, 0xE3, 0x80, 0xE0, 0xE0, 0x7F, 0xF0, 0x7F, 0xF8, 0x38, 0x0E, 0x1C, 0x07, 0x1E, 0x03, 0xCE, 0x00, 0xE7, 0x00],
  [0x70, 0x30, 0x60, 0x63, 0x01, 0xFC, 0x03, 0xE0, 0x00, 0x00, 0x3E, 0x03, 0xFC, 0x0E, 0x38, 0x78, 0xE0, 0x03, 0x81, 0xFE],
  [0x0F, 0xF8, 0x78, 0xE1, 0xC3, 0x87, 0x0E, 0x1C, 0x7C, 0x7F, 0x78, 0xF9, 0xE0, 0x3F, 0xE0, 0x1F, 0xFC, 0x0E, 0x0F, 0x07],
  [0x03, 0xC3, 0x80, 0xE1, 0xC0, 0x78, 0xE0, 0x3D, 0xFF, 0x1E, 0xFF, 0x87, 0x1C, 0x07, 0x8E, 0x03, 0xC7, 0x01, 0xE3, 0x80],
  [0xE1, 0xC0, 0xF0, 0xE0, 0xF0, 0x7F, 0xF0, 0x3F, 0xE0, 0x00, 0x00, 0x38, 0x00, 0x70, 0x07, 0xF8, 0x0F, 0xF0, 0x03, 0x81],
  [0xE7, 0x0F, 0xFE, 0x1E, 0x3C, 0x78, 0x38, 0xF0, 0x71, 0xC0, 0xE3, 0x81, 0xC7, 0x83, 0x8F, 0x07, 0x0F, 0x1E, 0x1F, 0xDC],
  [0x0F, 0x38, 0x3C, 0x4F, 0xF6, 0x3C, 0x00, 0x0E, 0x03, 0x80, 0xE0, 0x38, 0x0E, 0x03, 0x80, 0xE0, 0x38, 0x0E, 0x03, 0x80],
  [0xE0, 0x38, 0x0E, 0x03, 0x80, 0xE0, 0x38, 0x0E, 0x00, 0x79, 0xBF, 0xEC, 0xF0, 0x00, 0x1C, 0x07, 0x01, 0xC0, 0x70, 0x1C],
  [0x07, 0x01, 0xC0, 0x70, 0x1C, 0x07, 0x01, 0xC0, 0x70, 0x1C, 0x00, 0x07, 0x88, 0x03, 0xFC, 0x03, 0x1E, 0x00, 0x00, 0x07],
  [0x80, 0xF3, 0xC0, 0x79, 0xE0, 0x3C, 0xF0, 0x1E, 0x78, 0x0F, 0x3C, 0x07, 0x9E, 0x03, 0xCF, 0x01, 0xE7, 0x80, 0xF3, 0xC0]]"

definition bitmap_large_3 :: "bytes list" where
  "bitmap_large_3 = [
  [0x79, 0xE0, 0x3C, 0xF0, 0x1C, 0x38, 0x0E, 0x1C, 0x0F, 0x0F, 0x0F, 0x03, 0xFF, 0x00, 0x7F, 0x00, 0x0F, 0x30, 0x3F, 0xE0],
  [0x67, 0x80, 0x00, 0x03, 0x83, 0x87, 0x07, 0x0E, 0x0E, 0x1C, 0x1C, 0x38, 0x38, 0x70, 0x70, 0xE0, 0xE1, 0xC1, 0xC3, 0x83],
  [0x87, 0x0F, 0x0F, 0x1E, 0x1F, 0xDC, 0x0F, 0x38, 0x03, 0xF0, 0x70, 0x7F, 0xE3, 0x87, 0x87, 0x9C, 0x78, 0x1E, 0x63, 0x80],
  [0x7B, 0x3C, 0x03, 0xD9, 0xE0, 0x0F, 0x8E, 0x00, 0x78, 0x70, 0x03, 0x83, 0x80, 0x1C, 0x1E, 0x00, 0xE0, 0xF0, 0x0F, 0x03],
  [0x80, 0x78, 0x1E, 0x07, 0x80, 0x78, 0x78, 0x01, 0xFF, 0x80, 0x03, 0xF0, 0x00, 0x0F, 0xC3, 0x87, 0xFC, 0xE3, 0xC7, 0xB9],
  [0xE0, 0xE6, 0x78, 0x39, 0x9C, 0x0F, 0xC7, 0x03, 0xF1, 0xC0, 0xF0, 0x78, 0x38, 0x1E, 0x0E, 0x03, 0xC7, 0x80, 0x7F, 0xC0],
  [0x0F, 0xC0, 0x00, 0x78, 0x0F, 0x77, 0x80, 0xF7, 0x78, 0x0F, 0x77, 0x80, 0xF3, 0x78, 0x0F, 0x37, 0x80, 0xF6, 0x78, 0x0F],
  [0xE7, 0x80, 0xF8, 0x78, 0x0F, 0x07, 0x80, 0xF0, 0x78, 0x0F, 0x07, 0x80, 0xF0, 0x38, 0x0F, 0x03, 0xC0, 0xE0, 0x3E, 0x1E],
  [0x01, 0xFF, 0xC0, 0x07, 0xF0, 0x00, 0x78, 0x7B, 0x9E, 0x1E, 0xE7, 0x87, 0xB9, 0xE1, 0xE6, 0x78, 0x79, 0x9E, 0x1E, 0xE7],
  [0x87, 0xF1, 0xE1, 0xF8, 0x78, 0x78, 0x0E, 0x1E, 0x03, 0xCB, 0x80, 0xFE, 0xE0, 0x1E, 0x38, 0x00, 0x03, 0xE0, 0x01, 0xF0],
  [0x00, 0xF8, 0x00, 0xEE, 0x00, 0x77, 0x00, 0x3B, 0x80, 0x38, 0xE0, 0x1C, 0x70, 0x0E, 0x38, 0x0E, 0x0E, 0x07, 0xFF, 0x07],
  [0xFF, 0x83, 0x80, 0xE1, 0xC0, 0x71, 0xE0, 0x3C, 0xE0, 0x0E, 0x70, 0x07, 0x00, 0x00, 0x00, 0x00, 0x00, 0x38, 0x00, 0x1C],
  [0x00, 0x00, 0x00, 0x0F, 0x80, 0xFF, 0x03, 0x8E, 0x1E, 0x38, 0x00, 0xE0, 0x7F, 0x83, 0xFE, 0x1E, 0x38, 0x70, 0xE1, 0xC3],
  [0x87, 0x1F, 0x1F, 0xDE, 0x3E, 0x78, 0x00, 0x00, 0x00, 0x01, 0xC0, 0x07, 0x00, 0x00, 0x00, 0x03, 0xE0, 0x00, 0x30, 0x00],
  [0x18, 0x00, 0x10, 0x00, 0x00, 0x00, 0x1F, 0x00, 0x0F, 0x80, 0x07, 0xC0, 0x07, 0x70, 0x03, 0xB8, 0x01, 0xDC, 0x01, 0xC7],
  [0x00, 0xE3, 0x80, 0x71, 0xC0, 0x70, 0x70, 0x3F, 0xF8, 0x3F, 0xFC, 0x1C, 0x07, 0x0E, 0x03, 0x8F, 0x01, 0xE7, 0x00, 0x73],
  [0x80, 0x38, 0x0F, 0x80, 0x06, 0x00, 0x18, 0x00, 0x80, 0x00, 0x00, 0x3E, 0x03, 0xFC, 0x0E, 0x38, 0x78, 0xE0, 0x03, 0x81],
  [0xFE, 0x0F, 0xF8, 0x78, 0xE1, 0xC3, 0x87, 0x0E, 0x1C, 0x7C, 0x7F, 0x78, 0xF9, 0xE0, 0x00, 0x0E, 0x00, 0xF4, 0x00, 0xFC],
  [0x00, 0xC3, 0x00, 0x00, 0x00, 0x1F, 0x00, 0x0F, 0x80, 0x07, 0xC0, 0x07, 0x70, 0x03, 0xB8, 0x01, 0xDC, 0x01, 0xC7, 0x00],
  [0xE3, 0x80, 0x71, 0xC0, 0x70, 0x70, 0x3F, 0xF8, 0x3F, 0xFC, 0x1C, 0x07, 0x0E, 0x03, 0x8F, 0x01, 0xE7, 0x00, 0x73, 0x80],
  [0x38, 0x00, 0x18, 0x1E, 0xC0, 0xFC, 0x03, 0x30, 0x18, 0x60, 0x00, 0x00, 0xF8, 0x0F, 0xF0, 0x38, 0xE1, 0xE3, 0x80, 0x0E],
  [0x07, 0xF8, 0x3F, 0xE1, 0xE3, 0x87, 0x0E, 0x1C, 0x38, 0x71, 0xF1, 0xFD, 0xE3, 0xE7, 0x80, 0x1C, 0x00, 0x02, 0xF0, 0x00],
  [0xFC, 0x00, 0xC3, 0x00, 0x00, 0x00, 0x1F, 0x00, 0x0F, 0x80, 0x07, 0xC0, 0x07, 0x70, 0x03, 0xB8, 0x01, 0xDC, 0x01, 0xC7],
  [0x00, 0xE3, 0x80, 0x71, 0xC0, 0x70, 0x70, 0x3F, 0xF8, 0x3F, 0xFC, 0x1C, 0x07, 0x0E, 0x03, 0x8F, 0x01, 0xE7, 0x00, 0x73],
  [0x80, 0x38, 0x60, 0x00, 0xDE, 0x00, 0xFC, 0x03, 0x30, 0x18, 0x60, 0x00, 0x00, 0xF8, 0x0F, 0xF0, 0x38, 0xE1, 0xE3, 0x80],
  [0x0E, 0x07, 0xF8, 0x3F, 0xE1, 0xE3, 0x87, 0x0E, 0x1C, 0x38, 0x71, 0xF1, 0xFD, 0xE3, 0xE7, 0x80, 0x00, 0x1C, 0x00, 0xF6],
  [0x00, 0xFC, 0x00, 0xC3, 0x00, 0x00, 0x00, 0x1F, 0x00, 0x0F, 0x80, 0x07, 0xC0, 0x07, 0x70, 0x03, 0xB8, 0x01, 0xDC, 0x01],
  [0xC7, 0x00, 0xE3, 0x80, 0x71, 0xC0, 0x70, 0x70, 0x3F, 0xF8, 0x3F, 0xFC, 0x1C, 0x07, 0x0E, 0x03, 0x8F, 0x01, 0xE7, 0x00],
  [0x73, 0x80, 0x38, 0x00, 0x78, 0x01, 0x60, 0x7B, 0x83, 0xF8, 0x0C, 0xC0, 0x61, 0x80, 0x00, 0x03, 0xE0, 0x3F, 0xC0, 0xE3],
  [0x87, 0x8E, 0x00, 0x38, 0x1F, 0xE0, 0xFF, 0x87, 0x8E, 0x1C, 0x38, 0x70, 0xE1, 0xC7, 0xC7, 0xF7, 0x8F, 0x9E, 0x03, 0xD8],
  [0x03, 0x78, 0x00, 0x78, 0x00, 0x66, 0x00, 0x00, 0x00, 0x1F, 0x00, 0x0F, 0x80, 0x07, 0xC0, 0x07, 0x70, 0x03, 0xB8, 0x01],
  [0xDC, 0x01, 0xC7, 0x00, 0xE3, 0x80, 0x71, 0xC0, 0x70, 0x70, 0x3F, 0xF8, 0x3F, 0xFC, 0x1C, 0x07, 0x0E, 0x03, 0x8F, 0x01],
  [0xE7, 0x00, 0x73, 0x80, 0x38, 0x0E, 0x20, 0x7F, 0x81, 0x1C, 0x00, 0x00, 0x07, 0x80, 0x3F, 0x01, 0xCE, 0x00, 0x00, 0x0F],
  [0x80, 0xFF, 0x03, 0x8E, 0x1E, 0x38, 0x00, 0xE0, 0x7F, 0x83, 0xFE, 0x1E, 0x38, 0x70, 0xE1, 0xC3, 0x87, 0x1F, 0x1F, 0xDE],
  [0x3E, 0x78, 0x01, 0xE0, 0x01, 0xF8, 0x01, 0xCE, 0x00, 0x00, 0x00, 0x3E, 0x00, 0x1F, 0x00, 0x0F, 0x80, 0x0E, 0xE0, 0x07],
  [0x70, 0x03, 0xB8, 0x03, 0x8E, 0x01, 0xC7, 0x00, 0xE3, 0x80, 0xE0, 0xE0, 0x7F, 0xF0, 0x7F, 0xF8, 0x38, 0x0E, 0x1C, 0x07],
  [0x1E, 0x03, 0xCE, 0x00, 0xE7, 0x00, 0x70, 0x00, 0x00, 0x00, 0x00, 0x03, 0x80, 0x01, 0xC0, 0x00, 0x00, 0x00, 0x07, 0x00],
  [0x3E, 0x01, 0xDC, 0x0C, 0x38, 0x00, 0x00, 0x3E, 0x03, 0xFC, 0x0E, 0x38, 0x78, 0xE0, 0x03, 0x81, 0xFE, 0x0F, 0xF8, 0x78],
  [0xE1, 0xC3, 0x87, 0x0E, 0x1C, 0x7C, 0x7F, 0x78, 0xF9, 0xE0, 0x00, 0x00, 0x00, 0x07, 0x00, 0x1C, 0x00, 0x00, 0x00, 0x00],
  [0x70, 0x03, 0x6C, 0x00, 0xFC, 0x00, 0x3C, 0x00, 0x00, 0x00, 0x1F, 0x00, 0x0F, 0x80, 0x07, 0xC0, 0x07, 0x70, 0x03, 0xB8],
  [0x01, 0xDC, 0x01, 0xC7, 0x00, 0xE3, 0x80, 0x71, 0xC0, 0x70, 0x70, 0x3F, 0xF8, 0x3F, 0xFC, 0x1C, 0x07, 0x0E, 0x03, 0x8F],
  [0x01, 0xE7, 0x00, 0x73, 0x80, 0x38, 0x00, 0xE0, 0x07, 0x00, 0x38, 0x00, 0xC0, 0x18, 0x60, 0x71, 0x80, 0xFC, 0x01, 0xE0],
  [0x00, 0x00, 0x3E, 0x03, 0xFC, 0x0E, 0x38, 0x78, 0xE0, 0x03, 0x81, 0xFE, 0x0F, 0xF8, 0x78, 0xE1, 0xC3, 0x87, 0x0E, 0x1C],
  [0x7C, 0x7F, 0x78, 0xF9, 0xE0, 0x03, 0x80, 0x03, 0x6C, 0x00, 0xFC, 0x00, 0x3C, 0x00, 0x00, 0x00, 0x1F, 0x00, 0x0F, 0x80],
  [0x07, 0xC0, 0x07, 0x70, 0x03, 0xB8, 0x01, 0xDC, 0x01, 0xC7, 0x00, 0xE3, 0x80, 0x71, 0xC0, 0x70, 0x70, 0x3F, 0xF8, 0x3F],
  [0xFC, 0x1C, 0x07, 0x0E, 0x03, 0x8F, 0x01, 0xE7, 0x00, 0x73, 0x80, 0x38, 0x1C, 0x00, 0x38, 0x00, 0x60, 0x00, 0xC0, 0x18],
  [0x60, 0x71, 0x80, 0xFC, 0x01, 0xE0, 0x00, 0x00, 0x3E, 0x03, 0xFC, 0x0E, 0x38, 0x78, 0xE0, 0x03, 0x81, 0xFE, 0x0F, 0xF8],
  [0x78, 0xE1, 0xC3, 0x87, 0x0E, 0x1C, 0x7C, 0x7F, 0x78, 0xF9, 0xE0, 0x01, 0xC0, 0x03, 0x6C, 0x00, 0xFC, 0x00, 0x3C, 0x00],
  [0x00, 0x00, 0x1F, 0x00, 0x0F, 0x80, 0x07, 0xC0, 0x07, 0x70, 0x03, 0xB8, 0x01, 0xDC, 0x01, 0xC7, 0x00, 0xE3, 0x80, 0x71],
  [0xC0, 0x70, 0x70, 0x3F, 0xF8, 0x3F, 0xFC, 0x1C, 0x07, 0x0E, 0x03, 0x8F, 0x01, 0xE7, 0x00, 0x73, 0x80, 0x38, 0x07, 0x80],
  [0x17, 0x00, 0x3C, 0x00, 0xC0, 0x18, 0x60, 0x71, 0x80, 0xFC, 0x01, 0xE0, 0x00, 0x00, 0x3E, 0x03, 0xFC, 0x0E, 0x38, 0x78],
  [0xE0, 0x03, 0x81, 0xFE, 0x0F, 0xF8, 0x78, 0xE1, 0xC3, 0x87, 0x0E, 0x1C, 0x7C, 0x7F, 0x78, 0xF9, 0xE0, 0x03, 0x98, 0x03],
  [0x38, 0x00, 0xCC, 0x00, 0x3C, 0x00, 0x00, 0x00, 0x1F, 0x00, 0x0F, 0x80, 0x07, 0xC0, 0x07, 0x70, 0x03, 0xB8, 0x01, 0xDC],
  [0x01, 0xC7, 0x00, 0xE3, 0x80, 0x71, 0xC0, 0x70, 0x70, 0x3F, 0xF8, 0x3F, 0xFC, 0x1C, 0x07, 0x0E, 0x03, 0x8F, 0x01, 0xE7],
  [0x00, 0x73, 0x80, 0x38, 0x0E, 0x20, 0x7F, 0x81, 0x1C, 0x00, 0x00, 0x18, 0x60, 0x61, 0x80, 0xFC, 0x01, 0xE0, 0x00, 0x00],
  [0x3E, 0x03, 0xFC, 0x0E, 0x38, 0x78, 0xE0, 0x03, 0x81, 0xFE, 0x0F, 0xF8, 0x78, 0xE1, 0xC3, 0x87, 0x0E, 0x1C, 0x7C, 0x7F],
  [0x78, 0xF9, 0xE0, 0x06, 0x18, 0x03, 0xFC, 0x00, 0x78, 0x00, 0x00, 0x00, 0x3E, 0x00, 0x1F, 0x00, 0x0F, 0x80, 0x0E, 0xE0],
  [0x07, 0x70, 0x03, 0xB8, 0x03, 0x8E, 0x01, 0xC7, 0x00, 0xE3, 0x80, 0xE0, 0xE0, 0x7F, 0xF0, 0x7F, 0xF8, 0x38, 0x0E, 0x1C],
  [0x07, 0x1E, 0x03, 0xCE, 0x00, 0xE7, 0x00, 0x70, 0x00, 0x00, 0x00, 0x00, 0x03, 0x80, 0x01, 0xC0, 0x00, 0x00, 0x00, 0x30],
  [0x60, 0x63, 0x01, 0xFC, 0x03, 0xE0, 0x00, 0x00, 0x3E, 0x03, 0xFC, 0x0E, 0x38, 0x78, 0xE0, 0x03, 0x81, 0xFE, 0x0F, 0xF8],
  [0x78, 0xE1, 0xC3, 0x87, 0x0E, 0x1C, 0x7C, 0x7F, 0x78, 0xF9, 0xE0, 0x00, 0x00, 0x00, 0x07, 0x00, 0x1C, 0x00, 0x00, 0x00],
  [0x3F, 0xFE, 0x3F, 0xFE, 0x38, 0x00, 0x38, 0x00, 0x38, 0x00, 0x38, 0x00, 0x38, 0x00, 0x3F, 0xFC, 0x3F, 0xFC, 0x38, 0x00],
  [0x38, 0x00, 0x38, 0x00, 0x38, 0x00, 0x38, 0x00, 0x38, 0x00, 0x3F, 0xFE, 0x3F, 0xFE, 0x00, 0x00, 0x00, 0x00, 0x01, 0xC0],
  [0x01, 0xC0, 0x00, 0x00, 0x0F, 0x80, 0xFF, 0x0E, 0x38, 0xF0, 0xE7, 0x07, 0x3F, 0xF9, 0xFF, 0xCE, 0x00, 0x70, 0x03, 0xC3],
  [0x8E, 0x38, 0x3F, 0xC0, 0xF8, 0x00, 0x00, 0x00, 0x00, 0x70, 0x03, 0x80, 0x00, 0x00, 0x03, 0xE0, 0x00, 0x60, 0x00, 0x60],
  [0x00, 0x80, 0x00, 0x00, 0x3F, 0xFE, 0x3F, 0xFE, 0x38, 0x00, 0x38, 0x00, 0x38, 0x00, 0x38, 0x00, 0x38, 0x00, 0x3F, 0xFC],
  [0x3F, 0xFC, 0x38, 0x00, 0x38, 0x00, 0x38, 0x00, 0x38, 0x00, 0x38, 0x00, 0x38, 0x00, 0x3F, 0xFE, 0x3F, 0xFE, 0x0F, 0x80],
  [0x0C, 0x00, 0x60, 0x04, 0x00, 0x00, 0x07, 0xC0, 0x7F, 0x87, 0x1C, 0x78, 0x73, 0x83, 0x9F, 0xFC, 0xFF, 0xE7, 0x00, 0x38],
  [0x01, 0xE1, 0xC7, 0x1C, 0x1F, 0xE0, 0x7C, 0x00, 0x07, 0x98, 0x0F, 0xF8, 0x0C, 0xF0, 0x00, 0x00, 0x3F, 0xFE, 0x3F, 0xFE],
  [0x38, 0x00, 0x38, 0x00, 0x38, 0x00, 0x38, 0x00, 0x38, 0x00, 0x3F, 0xFC, 0x3F, 0xFC, 0x38, 0x00, 0x38, 0x00, 0x38, 0x00],
  [0x38, 0x00, 0x38, 0x00, 0x38, 0x00, 0x3F, 0xFE, 0x3F, 0xFE, 0x0F, 0x30, 0xFF, 0x86, 0x78, 0x00, 0x00, 0xF8, 0x0F, 0xF0],
  [0xE3, 0x8F, 0x0E, 0x70, 0x73, 0xFF, 0x9F, 0xFC, 0xE0, 0x07, 0x00, 0x3C, 0x38, 0xE3, 0x83, 0xFC, 0x0F, 0x80, 0x00, 0x0E],
  [0x01, 0xE8, 0x03, 0xF0, 0x06, 0x18, 0x00, 0x00, 0x3F, 0xFE, 0x3F, 0xFE, 0x38, 0x00, 0x38, 0x00, 0x38, 0x00, 0x38, 0x00],
  [0x38, 0x00, 0x3F, 0xFC, 0x3F, 0xFC, 0x38, 0x00, 0x38, 0x00, 0x38, 0x00, 0x38, 0x00, 0x38, 0x00, 0x38, 0x00, 0x3F, 0xFE],
  [0x3F, 0xFE, 0x00, 0x18, 0x1E, 0xC0, 0xFC, 0x03, 0x30, 0x18, 0x60, 0x00, 0x00, 0xF8, 0x07, 0xF8, 0x38, 0xE1, 0xE1, 0xC7],
  [0x07, 0x1F, 0xFC, 0x7F, 0xF1, 0xC0, 0x07, 0x00, 0x1E, 0x1C, 0x38, 0xE0, 0x7F, 0x80, 0xF8, 0x00, 0x1C, 0x00, 0x05, 0xE0],
  [0x03, 0xF0, 0x06, 0x18, 0x00, 0x00, 0x3F, 0xFE, 0x3F, 0xFE, 0x38, 0x00, 0x38, 0x00, 0x38, 0x00, 0x38, 0x00, 0x38, 0x00],
  [0x3F, 0xFC, 0x3F, 0xFC, 0x38, 0x00, 0x38, 0x00, 0x38, 0x00, 0x38, 0x00, 0x38, 0x00, 0x38, 0x00, 0x3F, 0xFE, 0x3F, 0xFE],
  [0x60, 0x01, 0xBC, 0x03, 0xF0, 0x19, 0x81, 0x86, 0x00, 0x00, 0x3E, 0x03, 0xFC, 0x38, 0xE3, 0xC3, 0x9C, 0x1C, 0xFF, 0xE7],
  [0xFF, 0x38, 0x01, 0xC0, 0x0F, 0x0E, 0x38, 0xE0, 0xFF, 0x03, 0xE0, 0x00, 0x1C, 0x01, 0xEC, 0x03, 0xF0, 0x06, 0x18, 0x00],
  [0x00, 0x3F, 0xFE, 0x3F, 0xFE, 0x38, 0x00, 0x38, 0x00, 0x38, 0x00, 0x38, 0x00, 0x38, 0x00, 0x3F, 0xFC, 0x3F, 0xFC, 0x38],
  [0x00, 0x38, 0x00, 0x38, 0x00, 0x38, 0x00, 0x38, 0x00, 0x38, 0x00, 0x3F, 0xFE, 0x3F, 0xFE, 0x00, 0x78, 0x02, 0xC1, 0xEE],
  [0x1F, 0xC0, 0xCC, 0x0C, 0x30, 0x00, 0x01, 0xF0, 0x1F, 0xE1, 0xC7, 0x1E, 0x1C, 0xE0, 0xE7, 0xFF, 0x3F, 0xF9, 0xC0, 0x0E],
  [0x00, 0x78, 0x71, 0xC7, 0x07, 0xF8, 0x1F, 0x00, 0x03, 0xD8, 0x06, 0xF0, 0x01, 0xE0, 0x03, 0x30, 0x00, 0x00, 0x3F, 0xFE],
  [0x3F, 0xFE, 0x38, 0x00, 0x38, 0x00, 0x38, 0x00, 0x38, 0x00, 0x38, 0x00, 0x3F, 0xFC, 0x3F, 0xFC, 0x38, 0x00, 0x38, 0x00],
  [0x38, 0x00, 0x38, 0x00, 0x38, 0x00, 0x38, 0x00, 0x3F, 0xFE, 0x3F, 0xFE, 0x0E, 0x20, 0xFF, 0x04, 0x70, 0x00, 0x00, 0x78],
  [0x07, 0xE0, 0x73, 0x80, 0x00, 0x0F, 0x80, 0xFF, 0x0E, 0x38, 0xF0, 0xE7, 0x07, 0x3F, 0xF9, 0xFF, 0xCE, 0x00, 0x70, 0x03],
  [0xC3, 0x8E, 0x38, 0x3F, 0xC0, 0xF8, 0x00, 0x01, 0xE0, 0x03, 0xF0, 0x07, 0x38, 0x00, 0x00, 0x3F, 0xFE, 0x3F, 0xFE, 0x38],
  [0x00, 0x38, 0x00, 0x38, 0x00, 0x38, 0x00, 0x38, 0x00, 0x3F, 0xFC, 0x3F, 0xFC, 0x38, 0x00, 0x38, 0x00, 0x38, 0x00, 0x38],
  [0x00, 0x38, 0x00, 0x38, 0x00, 0x3F, 0xFE, 0x3F, 0xFE, 0x00, 0x00, 0x00, 0x00, 0x01, 0xC0, 0x01, 0xC0, 0x00, 0x00, 0x03],
  [0x80, 0x3E, 0x03, 0xB8, 0x30, 0xE0, 0x00, 0x07, 0xC0, 0x7F, 0x87, 0x1C, 0x78, 0x73, 0x83, 0x9F, 0xFC, 0xFF, 0xE7, 0x00],
  [0x38, 0x01, 0xE1, 0xC7, 0x1C, 0x1F, 0xE0, 0x7C, 0x00, 0x00, 0x00, 0x00, 0x38, 0x01, 0xC0, 0x00, 0x00, 0x7C, 0x18, 0x30],
  [0x80, 0x07, 0x0E, 0x1C, 0x38, 0x70, 0xE1, 0xC3, 0x87, 0x0E, 0x1C, 0x38, 0x70, 0xE1, 0xC3, 0x87, 0x00, 0x7C, 0x18, 0x30],
  [0x80, 0x07, 0x0E, 0x1C, 0x38, 0x70, 0xE1, 0xC3, 0x87, 0x0E, 0x1C, 0x38, 0x70, 0x38, 0x70, 0xE1, 0xC3, 0x87, 0x0E, 0x1C],
  [0x38, 0x70, 0xE1, 0xC3, 0x87, 0x0E, 0x1C, 0x38, 0x00, 0x01, 0xC3, 0x80, 0x00, 0x38, 0x70, 0xE0, 0x03, 0x87, 0x0E, 0x1C],
  [0x38, 0x70, 0xE1, 0xC3, 0x87, 0x0E, 0x1C, 0x38, 0x00, 0x01, 0xC3, 0x80, 0x00, 0x03, 0xF0, 0x01, 0xFF, 0x80, 0x78, 0x78],
  [0x1E, 0x07, 0x83, 0x80, 0x70, 0xF0, 0x0F, 0x1E, 0x01, 0xE3, 0x80, 0x3C, 0x70, 0x03, 0x8E, 0x00, 0xF1, 0xE0, 0x1E, 0x3C],
  [0x03, 0xC3, 0x80, 0x70, 0x78, 0x1E, 0x07, 0x87, 0x80, 0x7F, 0xE0, 0x03, 0xF0, 0x00, 0x00, 0x00, 0x00, 0x00, 0x00, 0x70],
  [0x00, 0x0E, 0x00, 0x00, 0x00, 0x00, 0x07, 0xE0, 0x3F, 0xE0, 0xF1, 0xE3, 0xC1, 0xE7, 0x83, 0xCE, 0x03, 0x9C, 0x07, 0x38],
  [0x0E, 0x78, 0x3C, 0xF0, 0x70, 0xF1, 0xE0, 0xFF, 0x80, 0xFC, 0x00, 0x00, 0x00, 0x00, 0x01, 0xC0, 0x03, 0x80, 0x00, 0x00]]"

definition bitmap_large_4 :: "bytes list" where
  "bitmap_large_4 = [
  [0x01, 0xF0, 0x00, 0x06, 0x00, 0x00, 0xC0, 0x00, 0x20, 0x00, 0x00, 0x00, 0x07, 0xE0, 0x03, 0xFF, 0x00, 0xF0, 0xF0, 0x3C],
  [0x0F, 0x07, 0x00, 0xE1, 0xE0, 0x1E, 0x3C, 0x03, 0xC7, 0x00, 0x78, 0xE0, 0x07, 0x1C, 0x01, 0xE3, 0xC0, 0x3C, 0x78, 0x07],
  [0x87, 0x00, 0xE0, 0xF0, 0x3C, 0x0F, 0x0F, 0x00, 0xFF, 0xC0, 0x07, 0xE0, 0x00, 0x07, 0xC0, 0x01, 0x80, 0x03, 0x00, 0x08],
  [0x00, 0x00, 0x00, 0xFC, 0x07, 0xFC, 0x1E, 0x3C, 0x78, 0x3C, 0xF0, 0x79, 0xC0, 0x73, 0x80, 0xE7, 0x01, 0xCF, 0x07, 0x9E],
  [0x0E, 0x1E, 0x3C, 0x1F, 0xF0, 0x1F, 0x80, 0x00, 0x0E, 0x00, 0x3D, 0x00, 0x0F, 0xC0, 0x03, 0x0C, 0x00, 0x00, 0x00, 0x07],
  [0xE0, 0x03, 0xFF, 0x00, 0xF0, 0xF0, 0x3C, 0x0F, 0x07, 0x00, 0xE1, 0xE0, 0x1E, 0x3C, 0x03, 0xC7, 0x00, 0x78, 0xE0, 0x07],
  [0x1C, 0x01, 0xE3, 0xC0, 0x3C, 0x78, 0x07, 0x87, 0x00, 0xE0, 0xF0, 0x3C, 0x0F, 0x0F, 0x00, 0xFF, 0xC0, 0x07, 0xE0, 0x00],
  [0x00, 0x0C, 0x07, 0xB0, 0x1F, 0x80, 0x33, 0x00, 0xC3, 0x00, 0x00, 0x01, 0xF8, 0x0F, 0xF8, 0x3C, 0x78, 0xF0, 0x79, 0xE0],
  [0xF3, 0x80, 0xE7, 0x01, 0xCE, 0x03, 0x9E, 0x0F, 0x3C, 0x1C, 0x3C, 0x78, 0x3F, 0xE0, 0x3F, 0x00, 0x1C, 0x00, 0x00, 0xBC],
  [0x00, 0x0F, 0xC0, 0x03, 0x0C, 0x00, 0x00, 0x00, 0x07, 0xE0, 0x03, 0xFF, 0x00, 0xF0, 0xF0, 0x3C, 0x0F, 0x07, 0x00, 0xE1],
  [0xE0, 0x1E, 0x3C, 0x03, 0xC7, 0x00, 0x78, 0xE0, 0x07, 0x1C, 0x01, 0xE3, 0xC0, 0x3C, 0x78, 0x07, 0x87, 0x00, 0xE0, 0xF0],
  [0x3C, 0x0F, 0x0F, 0x00, 0xFF, 0xC0, 0x07, 0xE0, 0x00, 0x30, 0x00, 0x37, 0x80, 0x1F, 0x80, 0x33, 0x00, 0xC3, 0x00, 0x00],
  [0x01, 0xF8, 0x0F, 0xF8, 0x3C, 0x78, 0xF0, 0x79, 0xE0, 0xF3, 0x80, 0xE7, 0x01, 0xCE, 0x03, 0x9E, 0x0F, 0x3C, 0x1C, 0x3C],
  [0x78, 0x3F, 0xE0, 0x3F, 0x00, 0x00, 0x1C, 0x00, 0x3D, 0x80, 0x0F, 0xC0, 0x03, 0x0C, 0x00, 0x00, 0x00, 0x07, 0xE0, 0x03],
  [0xFF, 0x00, 0xF0, 0xF0, 0x3C, 0x0F, 0x07, 0x00, 0xE1, 0xE0, 0x1E, 0x3C, 0x03, 0xC7, 0x00, 0x78, 0xE0, 0x07, 0x1C, 0x01],
  [0xE3, 0xC0, 0x3C, 0x78, 0x07, 0x87, 0x00, 0xE0, 0xF0, 0x3C, 0x0F, 0x0F, 0x00, 0xFF, 0xC0, 0x07, 0xE0, 0x00, 0x00, 0x3C],
  [0x00, 0x58, 0x0F, 0x70, 0x3F, 0x80, 0x66, 0x01, 0x86, 0x00, 0x00, 0x03, 0xF0, 0x1F, 0xF0, 0x78, 0xF1, 0xE0, 0xF3, 0xC1],
  [0xE7, 0x01, 0xCE, 0x03, 0x9C, 0x07, 0x3C, 0x1E, 0x78, 0x38, 0x78, 0xF0, 0x7F, 0xC0, 0x7E, 0x00, 0x03, 0xD8, 0x00, 0xDE],
  [0x00, 0x07, 0x80, 0x01, 0x98, 0x00, 0x00, 0x00, 0x07, 0xE0, 0x03, 0xFF, 0x00, 0xF0, 0xF0, 0x3C, 0x0F, 0x07, 0x00, 0xE1],
  [0xE0, 0x1E, 0x3C, 0x03, 0xC7, 0x00, 0x78, 0xE0, 0x07, 0x1C, 0x01, 0xE3, 0xC0, 0x3C, 0x78, 0x07, 0x87, 0x00, 0xE0, 0xF0],
  [0x3C, 0x0F, 0x0F, 0x00, 0xFF, 0xC0, 0x07, 0xE0, 0x00, 0x07, 0x10, 0x1F, 0xE0, 0x23, 0x80, 0x00, 0x00, 0x3C, 0x00, 0xFC],
  [0x03, 0x9C, 0x00, 0x00, 0x07, 0xE0, 0x3F, 0xE0, 0xF1, 0xE3, 0xC1, 0xE7, 0x83, 0xCE, 0x03, 0x9C, 0x07, 0x38, 0x0E, 0x78],
  [0x3C, 0xF0, 0x70, 0xF1, 0xE0, 0xFF, 0x80, 0xFC, 0x00, 0x01, 0xE0, 0x00, 0x7E, 0x00, 0x1C, 0xE0, 0x00, 0x00, 0x00, 0x3F],
  [0x00, 0x1F, 0xF8, 0x07, 0x87, 0x81, 0xE0, 0x78, 0x38, 0x07, 0x0F, 0x00, 0xF1, 0xE0, 0x1E, 0x38, 0x03, 0xC7, 0x00, 0x38],
  [0xE0, 0x0F, 0x1E, 0x01, 0xE3, 0xC0, 0x3C, 0x38, 0x07, 0x07, 0x81, 0xE0, 0x78, 0x78, 0x07, 0xFE, 0x00, 0x3F, 0x00, 0x00],
  [0x00, 0x00, 0x00, 0x00, 0x07, 0x00, 0x00, 0xE0, 0x00, 0x00, 0x00, 0x03, 0x80, 0x0F, 0x80, 0x3B, 0x80, 0xC3, 0x80, 0x00],
  [0x00, 0xFC, 0x07, 0xFC, 0x1E, 0x3C, 0x78, 0x3C, 0xF0, 0x79, 0xC0, 0x73, 0x80, 0xE7, 0x01, 0xCF, 0x07, 0x9E, 0x0E, 0x1E],
  [0x3C, 0x1F, 0xF0, 0x1F, 0x80, 0x00, 0x00, 0x00, 0x00, 0x38, 0x00, 0x70, 0x00, 0x00, 0x00, 0x00, 0x78, 0x00, 0x07, 0x00],
  [0x00, 0x70, 0x00, 0x00, 0x00, 0x00, 0x3F, 0x07, 0x07, 0xFE, 0x38, 0x78, 0x79, 0xC7, 0x81, 0xE6, 0x38, 0x07, 0xB3, 0xC0],
  [0x3D, 0x9E, 0x00, 0xF8, 0xE0, 0x07, 0x87, 0x00, 0x38, 0x38, 0x01, 0xC1, 0xE0, 0x0E, 0x0F, 0x00, 0xF0, 0x38, 0x07, 0x81],
  [0xE0, 0x78, 0x07, 0x87, 0x80, 0x1F, 0xF8, 0x00, 0x3F, 0x00, 0x00, 0x00, 0xE0, 0x00, 0x70, 0x00, 0x38, 0x00, 0x1C, 0x00],
  [0x00, 0x00, 0x03, 0xF0, 0xE1, 0xFF, 0x38, 0xF1, 0xEE, 0x78, 0x39, 0x9E, 0x0E, 0x67, 0x03, 0xF1, 0xC0, 0xFC, 0x70, 0x3C],
  [0x1E, 0x0E, 0x07, 0x83, 0x80, 0xF1, 0xE0, 0x1F, 0xF0, 0x03, 0xF0, 0x00, 0x03, 0xC0, 0x00, 0x07, 0x00, 0x00, 0x1C, 0x00],
  [0x00, 0x00, 0x00, 0x3F, 0x07, 0x07, 0xFE, 0x38, 0x78, 0x79, 0xC7, 0x81, 0xE6, 0x38, 0x07, 0xB3, 0xC0, 0x3D, 0x9E, 0x00],
  [0xF8, 0xE0, 0x07, 0x87, 0x00, 0x38, 0x38, 0x01, 0xC1, 0xE0, 0x0E, 0x0F, 0x00, 0xF0, 0x38, 0x07, 0x81, 0xE0, 0x78, 0x07],
  [0x87, 0x80, 0x1F, 0xF8, 0x00, 0x3F, 0x00, 0x00, 0x0E, 0x00, 0x01, 0xC0, 0x00, 0x38, 0x00, 0x07, 0x00, 0x00, 0x00, 0x03],
  [0xF0, 0xE1, 0xFF, 0x38, 0xF1, 0xEE, 0x78, 0x39, 0x9E, 0x0E, 0x67, 0x03, 0xF1, 0xC0, 0xFC, 0x70, 0x3C, 0x1E, 0x0E, 0x07],
  [0x83, 0x80, 0xF1, 0xE0, 0x1F, 0xF0, 0x03, 0xF0, 0x00, 0x01, 0xF0, 0x00, 0x01, 0x80, 0x00, 0x0C, 0x00, 0x00, 0x80, 0x00],
  [0x00, 0x00, 0x01, 0xF8, 0x38, 0x3F, 0xF1, 0xC3, 0xC3, 0xCE, 0x3C, 0x0F, 0x31, 0xC0, 0x3D, 0x9E, 0x01, 0xEC, 0xF0, 0x07],
  [0xC7, 0x00, 0x3C, 0x38, 0x01, 0xC1, 0xC0, 0x0E, 0x0F, 0x00, 0x70, 0x78, 0x07, 0x81, 0xC0, 0x3C, 0x0F, 0x03, 0xC0, 0x3C],
  [0x3C, 0x00, 0xFF, 0xC0, 0x01, 0xF8, 0x00, 0x07, 0xC0, 0x00, 0x30, 0x00, 0x0C, 0x00, 0x04, 0x00, 0x00, 0x00, 0x03, 0xF0],
  [0xE1, 0xFF, 0x38, 0xF1, 0xEE, 0x78, 0x39, 0x9E, 0x0E, 0x67, 0x03, 0xF1, 0xC0, 0xFC, 0x70, 0x3C, 0x1E, 0x0E, 0x07, 0x83],
  [0x80, 0xF1, 0xE0, 0x1F, 0xF0, 0x03, 0xF0, 0x00, 0x07, 0x88, 0x00, 0x3F, 0xC0, 0x03, 0x1E, 0x00, 0x00, 0x00, 0x00, 0x3F],
  [0x07, 0x07, 0xFE, 0x38, 0x78, 0x79, 0xC7, 0x81, 0xE6, 0x38, 0x07, 0xB3, 0xC0, 0x3D, 0x9E, 0x00, 0xF8, 0xE0, 0x07, 0x87],
  [0x00, 0x38, 0x38, 0x01, 0xC1, 0xE0, 0x0E, 0x0F, 0x00, 0xF0, 0x38, 0x07, 0x81, 0xE0, 0x78, 0x07, 0x87, 0x80, 0x1F, 0xF8],
  [0x00, 0x3F, 0x00, 0x00, 0x0F, 0x30, 0x07, 0xFC, 0x01, 0x9E, 0x00, 0x00, 0x00, 0x0F, 0xC3, 0x87, 0xFC, 0xE3, 0xC7, 0xB9],
  [0xE0, 0xE6, 0x78, 0x39, 0x9C, 0x0F, 0xC7, 0x03, 0xF1, 0xC0, 0xF0, 0x78, 0x38, 0x1E, 0x0E, 0x03, 0xC7, 0x80, 0x7F, 0xC0],
  [0x0F, 0xC0, 0x00, 0x03, 0xF0, 0x70, 0x7F, 0xE3, 0x87, 0x87, 0x9C, 0x78, 0x1E, 0x63, 0x80, 0x7B, 0x3C, 0x03, 0xD9, 0xE0],
  [0x0F, 0x8E, 0x00, 0x78, 0x70, 0x03, 0x83, 0x80, 0x1C, 0x1E, 0x00, 0xE0, 0xF0, 0x0F, 0x03, 0x80, 0x78, 0x1E, 0x07, 0x80],
  [0x78, 0x78, 0x01, 0xFF, 0x80, 0x03, 0xF0, 0x00, 0x00, 0x00, 0x00, 0x00, 0x00, 0x01, 0xC0, 0x00, 0x0E, 0x00, 0x00, 0x00],
  [0x00, 0x0F, 0xC3, 0x87, 0xFC, 0xE3, 0xC7, 0xB9, 0xE0, 0xE6, 0x78, 0x39, 0x9C, 0x0F, 0xC7, 0x03, 0xF1, 0xC0, 0xF0, 0x78],
  [0x38, 0x1E, 0x0E, 0x03, 0xC7, 0x80, 0x7F, 0xC0, 0x0F, 0xC0, 0x00, 0x00, 0x00, 0x00, 0x00, 0x0E, 0x00, 0x03, 0x80, 0x00],
  [0x00, 0x00, 0x78, 0x0F, 0x3C, 0x07, 0x9E, 0x03, 0xCF, 0x01, 0xE7, 0x80, 0xF3, 0xC0, 0x79, 0xE0, 0x3C, 0xF0, 0x1E, 0x78],
  [0x0F, 0x3C, 0x07, 0x9E, 0x03, 0xCF, 0x01, 0xC3, 0x80, 0xE1, 0xC0, 0xF0, 0xF0, 0xF0, 0x3F, 0xF0, 0x07, 0xF0, 0x00, 0x00],
  [0x00, 0x00, 0x00, 0x38, 0x00, 0x1C, 0x00, 0x00, 0x00, 0x38, 0x38, 0x70, 0x70, 0xE0, 0xE1, 0xC1, 0xC3, 0x83, 0x87, 0x07],
  [0x0E, 0x0E, 0x1C, 0x1C, 0x38, 0x38, 0x70, 0xF0, 0xF1, 0xE1, 0xFD, 0xC0, 0xF3, 0x80, 0x00, 0x00, 0x00, 0x01, 0xC0, 0x03],
  [0x80, 0x00, 0x00, 0x03, 0xE0, 0x00, 0x30, 0x00, 0x18, 0x00, 0x10, 0x00, 0x00, 0x03, 0xC0, 0x79, 0xE0, 0x3C, 0xF0, 0x1E],
  [0x78, 0x0F, 0x3C, 0x07, 0x9E, 0x03, 0xCF, 0x01, 0xE7, 0x80, 0xF3, 0xC0, 0x79, 0xE0, 0x3C, 0xF0, 0x1E, 0x78, 0x0E, 0x1C],
  [0x07, 0x0E, 0x07, 0x87, 0x87, 0x81, 0xFF, 0x80, 0x3F, 0x80, 0x07, 0xC0, 0x01, 0x80, 0x03, 0x00, 0x08, 0x00, 0x00, 0x07],
  [0x07, 0x0E, 0x0E, 0x1C, 0x1C, 0x38, 0x38, 0x70, 0x70, 0xE0, 0xE1, 0xC1, 0xC3, 0x83, 0x87, 0x07, 0x0E, 0x1E, 0x1E, 0x3C],
  [0x3F, 0xB8, 0x1E, 0x70, 0x00, 0xF0, 0x00, 0x1C, 0x00, 0x03, 0x80, 0x00, 0x00, 0x00, 0x78, 0x0F, 0x77, 0x80, 0xF7, 0x78],
  [0x0F, 0x77, 0x80, 0xF3, 0x78, 0x0F, 0x37, 0x80, 0xF6, 0x78, 0x0F, 0xE7, 0x80, 0xF8, 0x78, 0x0F, 0x07, 0x80, 0xF0, 0x78],
  [0x0F, 0x07, 0x80, 0xF0, 0x38, 0x0F, 0x03, 0xC0, 0xE0, 0x3E, 0x1E, 0x01, 0xFF, 0xC0, 0x07, 0xF0, 0x00, 0x00, 0xE0, 0x00],
  [0x70, 0x00, 0x38, 0x00, 0x1C, 0x00, 0x00, 0x00, 0x1E, 0x1E, 0xE7, 0x87, 0xB9, 0xE1, 0xEE, 0x78, 0x79, 0x9E, 0x1E, 0x67],
  [0x87, 0xB9, 0xE1, 0xFC, 0x78, 0x7E, 0x1E, 0x1E, 0x03, 0x87, 0x80, 0xF2, 0xE0, 0x3F, 0xB8, 0x07, 0x8E, 0x00, 0x07, 0x80],
  [0x00, 0x1C, 0x00, 0x00, 0xE0, 0x00, 0x00, 0x00, 0x78, 0x0F, 0x77, 0x80, 0xF7, 0x78, 0x0F, 0x77, 0x80, 0xF3, 0x78, 0x0F],
  [0x37, 0x80, 0xF6, 0x78, 0x0F, 0xE7, 0x80, 0xF8, 0x78, 0x0F, 0x07, 0x80, 0xF0, 0x78, 0x0F, 0x07, 0x80, 0xF0, 0x38, 0x0F],
  [0x03, 0xC0, 0xE0, 0x3E, 0x1E, 0x01, 0xFF, 0xC0, 0x07, 0xF0, 0x00, 0x0E, 0x00, 0x01, 0xC0, 0x00, 0x38, 0x00, 0x07, 0x00],
  [0x00, 0x00, 0x1E, 0x1E, 0xE7, 0x87, 0xB9, 0xE1, 0xEE, 0x78, 0x79, 0x9E, 0x1E, 0x67, 0x87, 0xB9, 0xE1, 0xFC, 0x78, 0x7E],
  [0x1E, 0x1E, 0x03, 0x87, 0x80, 0xF2, 0xE0, 0x3F, 0xB8, 0x07, 0x8E, 0x00, 0x03, 0xE0, 0x00, 0x06, 0x00, 0x00, 0x60, 0x00],
  [0x08, 0x00, 0x00, 0x00, 0x07, 0x80, 0xF7, 0x78, 0x0F, 0x77, 0x80, 0xF7, 0x78, 0x0F, 0x37, 0x80, 0xF3, 0x78, 0x0F, 0x67],
  [0x80, 0xFE, 0x78, 0x0F, 0x87, 0x80, 0xF0, 0x78, 0x0F, 0x07, 0x80, 0xF0, 0x78, 0x0F, 0x03, 0x80, 0xF0, 0x3C, 0x0E, 0x03],
  [0xE1, 0xE0, 0x1F, 0xFC, 0x00, 0x7F, 0x00, 0x07, 0xC0, 0x00, 0x30, 0x00, 0x0C, 0x00, 0x04, 0x00, 0x00, 0x00, 0x1E, 0x1E],
  [0xE7, 0x87, 0xB9, 0xE1, 0xEE, 0x78, 0x79, 0x9E, 0x1E, 0x67, 0x87, 0xB9, 0xE1, 0xFC, 0x78, 0x7E, 0x1E, 0x1E, 0x03, 0x87],
  [0x80, 0xF2, 0xE0, 0x3F, 0xB8, 0x07, 0x8E, 0x00, 0x07, 0x88, 0x00, 0x7F, 0x80, 0x0C, 0x78, 0x00, 0x00, 0x00, 0x78, 0x0F],
  [0x77, 0x80, 0xF7, 0x78, 0x0F, 0x77, 0x80, 0xF3, 0x78, 0x0F, 0x37, 0x80, 0xF6, 0x78, 0x0F, 0xE7, 0x80, 0xF8, 0x78, 0x0F],
  [0x07, 0x80, 0xF0, 0x78, 0x0F, 0x07, 0x80, 0xF0, 0x38, 0x0F, 0x03, 0xC0, 0xE0, 0x3E, 0x1E, 0x01, 0xFF, 0xC0, 0x07, 0xF0],
  [0x00, 0x0F, 0x30, 0x07, 0xFC, 0x01, 0x9E, 0x00, 0x00, 0x00, 0x78, 0x7B, 0x9E, 0x1E, 0xE7, 0x87, 0xB9, 0xE1, 0xE6, 0x78],
  [0x79, 0x9E, 0x1E, 0xE7, 0x87, 0xF1, 0xE1, 0xF8, 0x78, 0x78, 0x0E, 0x1E, 0x03, 0xCB, 0x80, 0xFE, 0xE0, 0x1E, 0x38, 0x00],
  [0x78, 0x0F, 0x77, 0x80, 0xF7, 0x78, 0x0F, 0x77, 0x80, 0xF3, 0x78, 0x0F, 0x37, 0x80, 0xF6, 0x78, 0x0F, 0xE7, 0x80, 0xF8],
  [0x78, 0x0F, 0x07, 0x80, 0xF0, 0x78, 0x0F, 0x07, 0x80, 0xF0, 0x38, 0x0F, 0x03, 0xC0, 0xE0, 0x3E, 0x1E, 0x01, 0xFF, 0xC0],
  [0x07, 0xF0, 0x00, 0x00, 0x00, 0x00, 0x00, 0x00, 0x1C, 0x00, 0x01, 0xC0, 0x00, 0x00, 0x00, 0x78, 0x7B, 0x9E, 0x1E, 0xE7],
  [0x87, 0xB9, 0xE1, 0xE6, 0x78, 0x79, 0x9E, 0x1E, 0xE7, 0x87, 0xF1, 0xE1, 0xF8, 0x78, 0x78, 0x0E, 0x1E, 0x03, 0xCB, 0x80],
  [0xFE, 0xE0, 0x1E, 0x38, 0x00, 0x00, 0x00, 0x00, 0x00, 0x0E, 0x00, 0x03, 0x80, 0x00, 0x00, 0x00, 0x0F, 0x00, 0x03, 0x80],
  [0x01, 0xC0, 0x00, 0x00, 0x70, 0x1C, 0x78, 0x3C, 0x38, 0x38, 0x3C, 0x78, 0x1C, 0x70, 0x1E, 0xF0, 0x0E, 0xE0, 0x07, 0xE0],
  [0x07, 0xC0, 0x03, 0xC0, 0x03, 0x80, 0x03, 0x80, 0x03, 0x80, 0x03, 0x80, 0x03, 0x80, 0x03, 0x80, 0x03, 0x80, 0x1C, 0x00],
  [0x38, 0x00, 0x70, 0x00, 0xE0, 0x00, 0x03, 0xC1, 0xE7, 0x07, 0x1C, 0x1C, 0x78, 0xF0, 0xE3, 0x83, 0x8E, 0x07, 0x38, 0x1D],
  [0xC0, 0x77, 0x00, 0xDC, 0x03, 0xE0, 0x0F, 0x80, 0x1E, 0x00, 0x70, 0x03, 0xC0, 0x0E, 0x01, 0xF8, 0x07, 0x80, 0x00, 0x70],
  [0x1C, 0x78, 0x3C, 0x38, 0x38, 0x3C, 0x78, 0x1C, 0x70, 0x1E, 0xF0, 0x0E, 0xE0, 0x07, 0xE0, 0x07, 0xC0, 0x03, 0xC0, 0x03],
  [0x80, 0x03, 0x80, 0x03, 0x80, 0x03, 0x80, 0x03, 0x80, 0x03, 0x80, 0x03, 0x80, 0x00, 0x00, 0x00, 0x00, 0x03, 0x80, 0x03],
  [0x80, 0x00, 0x00, 0xF0, 0x79, 0xC1, 0xC7, 0x07, 0x1E, 0x3C, 0x38, 0xE0, 0xE3, 0x81, 0xCE, 0x07, 0x70, 0x1D, 0xC0, 0x37],
  [0x00, 0xF8, 0x03, 0xE0, 0x07, 0x80, 0x1C, 0x00, 0xF0, 0x03, 0x8E, 0x7E, 0x39, 0xE0, 0x00, 0x07, 0xC0, 0x00, 0xC0, 0x00],
  [0xC0, 0x01, 0x00, 0x00, 0x00, 0x70, 0x1C, 0x78, 0x3C, 0x38, 0x38, 0x3C, 0x78, 0x1C, 0x70, 0x1E, 0xF0, 0x0E, 0xE0, 0x07],
  [0xE0, 0x07, 0xC0, 0x03, 0xC0, 0x03, 0x80, 0x03, 0x80, 0x03, 0x80, 0x03, 0x80, 0x03, 0x80, 0x03, 0x80, 0x03, 0x80, 0x0F],
  [0x80, 0x06, 0x00, 0x18, 0x00, 0x80, 0x00, 0x03, 0xC1, 0xE7, 0x07, 0x1C, 0x1C, 0x78, 0xF0, 0xE3, 0x83, 0x8E, 0x07, 0x38],
  [0x1D, 0xC0, 0x77, 0x00, 0xDC, 0x03, 0xE0, 0x0F, 0x80, 0x1E, 0x00, 0x70, 0x03, 0xC0, 0x0E, 0x01, 0xF8, 0x07, 0x80, 0x00],
  [0x0F, 0x10, 0x0F, 0xF0, 0x18, 0xF0, 0x00, 0x00, 0x70, 0x1C, 0x78, 0x3C, 0x38, 0x38, 0x3C, 0x78, 0x1C, 0x70, 0x1E, 0xF0],
  [0x0E, 0xE0, 0x07, 0xE0, 0x07, 0xC0, 0x03, 0xC0, 0x03, 0x80, 0x03, 0x80, 0x03, 0x80, 0x03, 0x80, 0x03, 0x80, 0x03, 0x80],
  [0x03, 0x80, 0x0F, 0x30, 0x7F, 0xC1, 0x9E, 0x00, 0x00, 0xF0, 0x79, 0xC1, 0xC7, 0x07, 0x1E, 0x3C, 0x38, 0xE0, 0xE3, 0x81],
  [0xCE, 0x07, 0x70, 0x1D, 0xC0, 0x37, 0x00, 0xF8, 0x03, 0xE0, 0x07, 0x80, 0x1C, 0x00, 0xF0, 0x03, 0x80, 0x7E, 0x01, 0xE0]]"

definition bitmap_large_5 :: "bytes list" where
  "bitmap_large_5 = [
  [0x00]]"

definition bitmap_large :: bytes where
  "bitmap_large = concat (bitmap_large_1 @ bitmap_large_2 @ bitmap_large_3 @ bitmap_large_4 @ bitmap_large_5)"

definition glyph_rows_large :: "glyph_row list" where
  "glyph_rows_large = [
  (32, 0, 7, 0, 7, 0, 0), (33, 0, 8, 17, 8, 0, -17), (34, 17, 11, 17, 11, 0, -17),
  (35, 41, 13, 17, 13, 0, -17), (36, 69, 14, 21, 13, 0, -18), (37, 106, 21, 17, 21, 0, -17),
  (38, 151, 17, 17, 17, 0, -17), (39, 188, 6, 17, 6, 0, -17), (40, 201, 8, 22, 8, 0, -17),
  (41, 223, 8, 22, 8, 0, -17), (42, 245, 10, 17, 9, 0, -17), (43, 267, 14, 14, 14, 0, -14),
  (44, 292, 7, 8, 7, 0, -4), (45, 299, 8, 8, 8, 0, -8), (46, 307, 7, 4, 7, 0, -4),
  (47, 311, 7, 17, 7, 0, -17), (48, 326, 13, 17, 13, 0, -17), (49, 354, 13, 17, 13, 0, -17),
  (50, 382, 13, 17, 13, 0, -17), (51, 410, 13, 17, 13, 0, -17), (52, 438, 14, 17, 13, 0, -17),
  (53, 468, 13, 17, 13, 0, -17), (54, 496, 13, 17, 13, 0, -17), (55, 524, 13, 17, 13, 0, -17),
  (56, 552, 13, 17, 13, 0, -17), (57, 580, 13, 17, 13, 0, -17), (58, 608, 8, 13, 8, 0, -13),
  (59, 621, 8, 17, 8, 0, -13), (60, 638, 14, 14, 14, 0, -14), (61, 663, 14, 12, 14, 0, -12),
  (62, 684, 14, 14, 14, 0, -14), (63, 709, 15, 17, 15, 0, -17), (64, 741, 23, 21, 23, 0, -17),
  (65, 802, 17, 17, 17, 0, -17), (66, 839, 17, 17, 17, 0, -17), (67, 876, 17, 17, 17, 0, -17),
  (68, 913, 17, 17, 17, 0, -17), (69, 950, 16, 17, 16, 0, -17), (70, 984, 15, 17, 15, 0, -17),
  (71, 1016, 19, 17, 19, 0, -17), (72, 1057, 17, 17, 17, 0, -17), (73, 1094, 7, 17, 7, 0, -17),
  (74, 1109, 13, 17, 13, 0, -17), (75, 1137, 18, 17, 17, 0, -17), (76, 1176, 15, 17, 15, 0, -17),
  (77, 1208, 20, 17, 20, 0, -17), (78, 1251, 17, 17, 17, 0, -17), (79, 1288, 19, 17, 19, 0, -17),
  (80, 1329, 16, 17, 16, 0, -17), (81, 1363, 19, 22, 19, 0, -17), (82, 1416, 17, 17, 17, 0, -17),
  (83, 1453, 16, 17, 16, 0, -17), (84, 1487, 15, 17, 15, 0, -17), (85, 1519, 17, 17, 17, 0, -17),
  (86, 1556, 16, 17, 16, 0, -17), (87, 1590, 23, 17, 23, 0, -17), (88, 1639, 16, 17, 16, 0, -17),
  (89, 1673, 16, 17, 16, 0, -17), (90, 1707, 15, 17, 15, 0, -17), (91, 1739, 8, 22, 8, 0, -17),
  (92, 1761, 7, 17, 7, 0, -17), (93, 1776, 8, 22, 8, 0, -17), (94, 1798, 14, 17, 14, 0, -17),
  (95, 1828, 15, 3, 13, -1, 0), (96, 1834, 8, 18, 8, 0, -18), (97, 1852, 14, 13, 13, 0, -13),
  (98, 1875, 15, 17, 15, 0, -17), (99, 1907, 13, 13, 13, 0, -13), (100, 1929, 15, 17, 15, 0, -17),
  (101, 1961, 13, 13, 13, 0, -13), (102, 1983, 9, 17, 8, 0, -17), (103, 2003, 15, 18, 15, 0, -13),
  (104, 2037, 15, 17, 15, 0, -17), (105, 2069, 7, 17, 7, 0, -17), (106, 2084, 8, 22, 7, -1, -17),
  (107, 2106, 14, 17, 13, 0, -17), (108, 2136, 7, 17, 7, 0, -17), (109, 2151, 21, 13, 21, 0, -13),
  (110, 2186, 15, 13, 15, 0, -13), (111, 2211, 15, 13, 15, 0, -13), (112, 2236, 15, 18, 15, 0, -13),
  (113, 2270, 15, 18, 15, 0, -13), (114, 2304, 9, 13, 9, 0, -13), (115, 2319, 13, 13, 13, 0, -13),
  (116, 2341, 8, 16, 8, 0, -16), (117, 2357, 15, 13, 15, 0, -13), (118, 2382, 14, 13, 13, 0, -13),
  (119, 2405, 20, 13, 19, -1, -13), (120, 2438, 14, 13, 13, 0, -13), (121, 2461, 14, 18, 13, 0, -13),
  (122, 2493, 12, 13, 12, 0, -13), (123, 2513, 9, 22, 9, 0, -17), (124, 2538, 7, 22, 7, 0, -17),
  (125, 2558, 9, 22, 9, 0, -17), (126, 2583, 14, 10, 14, 0, -10), (192, 2601, 17, 21, 17, 0, -21),
  (193, 2646, 17, 21, 17, 0, -21), (194, 2691, 17, 21, 17, 0, -21), (195, 2736, 17, 21, 17, 0, -21),
  (200, 2781, 16, 21, 16, 0, -21), (201, 2823, 16, 21, 16, 0, -21), (202, 2865, 16, 21, 16, 0, -21),
  (204, 2907, 8, 21, 7, -1, -21), (205, 2928, 8, 21, 7, 0, -21), (210, 2949, 19, 21, 19, 0, -21),
  (211, 2999, 19, 21, 19, 0, -21), (212, 3049, 19, 21, 19, 0, -21), (213, 3099, 19, 21, 19, 0, -21),
  (217, 3149, 17, 21, 17, 0, -21), (218, 3194, 17, 21, 17, 0, -21), (221, 3239, 16, 21, 16, 0, -21),
  (224, 3281, 14, 18, 13, 0, -18), (225, 3313, 14, 18, 13, 0, -18), (226, 3345, 14, 18, 13, 0, -18),
  (227, 3377, 14, 17, 13, 0, -17), (232, 3407, 13, 18, 13, 0, -18), (233, 3437, 13, 18, 13, 0, -18),
  (234, 3467, 13, 18, 13, 0, -18), (236, 3497, 8, 18, 7, -1, -18), (237, 3515, 8, 18, 7, 0, -18),
  (242, 3533, 15, 18, 15, 0, -18), (243, 3567, 15, 18, 15, 0, -18), (244, 3601, 15, 18, 15, 0, -18),
  (245, 3635, 15, 17, 15, 0, -17), (249, 3667, 15, 18, 15, 0, -18), (250, 3701, 15, 18, 15, 0, -18),
  (253, 3735, 14, 23, 13, 0, -18), (258, 3776, 17, 21, 17, 0, -21), (259, 3821, 14, 18, 13, 0, -18),
  (272, 3853, 17, 17, 17, 0, -17), (273, 3890, 15, 17, 15, 0, -17), (296, 3922, 10, 21, 7, -2, -21),
  (297, 3949, 10, 17, 7, -2, -17), (360, 3971, 17, 21, 17, 0, -21), (361, 4016, 15, 17, 15, 0, -17),
  (416, 4048, 21, 17, 20, 0, -17), (417, 4093, 18, 13, 17, 0, -13), (431, 4123, 20, 17, 20, 0, -17),
  (432, 4166, 18, 13, 17, 0, -13), (7840, 4196, 17, 22, 17, 0, -17), (7841, 4243, 14, 18, 13, 0, -13),
  (7842, 4275, 17, 22, 17, 0, -22), (7843, 4322, 14, 18, 13, 0, -18), (7844, 4354, 17, 22, 17, 0, -22),
  (7845, 4401, 14, 19, 13, 0, -19), (7846, 4435, 17, 22, 17, 0, -22), (7847, 4482, 14, 19, 13, 0, -19),
  (7848, 4516, 17, 22, 17, 0, -22), (7849, 4563, 14, 20, 13, 0, -20), (7850, 4598, 17, 22, 17, 0, -22),
  (7851, 4645, 14, 21, 13, 0, -21), (7852, 4682, 17, 26, 17, 0, -21), (7853, 4738, 14, 23, 13, 0, -18),
  (7854, 4779, 17, 22, 17, 0, -22), (7855, 4826, 14, 22, 13, 0, -22), (7856, 4865, 17, 22, 17, 0, -22),
  (7857, 4912, 14, 22, 13, 0, -22), (7858, 4951, 17, 22, 17, 0, -22), (7859, 4998, 14, 22, 13, 0, -22),
  (7860, 5037, 17, 22, 17, 0, -22), (7861, 5084, 14, 22, 13, 0, -22), (7862, 5123, 17, 26, 17, 0, -21),
  (7863, 5179, 14, 23, 13, 0, -18), (7864, 5220, 16, 22, 16, 0, -17), (7865, 5264, 13, 18, 13, 0, -13),
  (7866, 5294, 16, 22, 16, 0, -22), (7867, 5338, 13, 18, 13, 0, -18), (7868, 5368, 16, 21, 16, 0, -21),
  (7869, 5410, 13, 17, 13, 0, -17), (7870, 5438, 16, 22, 16, 0, -22), (7871, 5482, 14, 19, 13, 0, -19),
  (7872, 5516, 16, 22, 16, 0, -22), (7873, 5560, 13, 19, 13, 0, -19), (7874, 5591, 16, 22, 16, 0, -22),
  (7875, 5635, 13, 20, 13, 0, -20), (7876, 5668, 16, 22, 16, 0, -22), (7877, 5712, 13, 21, 13, 0, -21),
  (7878, 5747, 16, 26, 16, 0, -21), (7879, 5799, 13, 23, 13, 0, -18), (7880, 5837, 7, 22, 7, 0, -22),
  (7881, 5857, 7, 18, 7, 0, -18), (7882, 5873, 7, 22, 7, 0, -17), (7883, 5893, 7, 22, 7, 0, -17),
  (7884, 5913, 19, 22, 19, 0, -17), (7885, 5966, 15, 18, 15, 0, -13), (7886, 6000, 19, 22, 19, 0, -22),
  (7887, 6053, 15, 18, 15, 0, -18), (7888, 6087, 19, 22, 19, 0, -22), (7889, 6140, 15, 19, 15, 0, -19),
  (7890, 6176, 19, 22, 19, 0, -22), (7891, 6229, 15, 19, 15, 0, -19), (7892, 6265, 19, 22, 19, 0, -22),
  (7893, 6318, 15, 20, 15, 0, -20), (7894, 6356, 19, 22, 19, 0, -22), (7895, 6409, 15, 21, 15, 0, -21),
  (7896, 6449, 19, 26, 19, 0, -21), (7897, 6511, 15, 23, 15, 0, -18), (7898, 6555, 21, 21, 20, 0, -21),
  (7899, 6611, 18, 18, 17, 0, -18), (7900, 6652, 21, 21, 20, 0, -21), (7901, 6708, 18, 18, 17, 0, -18),
  (7902, 6749, 21, 22, 20, 0, -22), (7903, 6807, 18, 18, 17, 0, -18), (7904, 6848, 21, 21, 20, 0, -21),
  (7905, 6904, 18, 17, 17, 0, -17), (7906, 6943, 21, 22, 20, 0, -17), (7907, 7001, 18, 18, 17, 0, -13),
  (7908, 7042, 17, 22, 17, 0, -17), (7909, 7089, 15, 18, 15, 0, -13), (7910, 7123, 17, 22, 17, 0, -22),
  (7911, 7170, 15, 18, 15, 0, -18), (7912, 7204, 20, 21, 20, 0, -21), (7913, 7257, 18, 18, 17, 0, -18),
  (7914, 7298, 20, 21, 20, 0, -21), (7915, 7351, 18, 18, 17, 0, -18), (7916, 7392, 20, 22, 20, 0, -22),
  (7917, 7447, 18, 18, 17, 0, -18), (7918, 7488, 20, 21, 20, 0, -21), (7919, 7541, 18, 17, 17, 0, -17),
  (7920, 7580, 20, 22, 20, 0, -17), (7921, 7635, 18, 18, 17, 0, -13), (7922, 7676, 16, 21, 16, 0, -21),
  (7923, 7718, 14, 23, 13, 0, -18), (7924, 7759, 16, 22, 16, 0, -17), (7925, 7803, 14, 18, 13, 0, -13),
  (7926, 7835, 16, 22, 16, 0, -22), (7927, 7879, 14, 23, 13, 0, -18), (7928, 7920, 16, 21, 16, 0, -21),
  (7929, 7962, 14, 22, 13, 0, -17)]"

definition vn_font_large :: vn_font_data where
  "vn_font_large = \<lparr>vf_bitmap = bitmap_large, vf_glyphs = map glyph_of_row glyph_rows_large, vf_ascent = 22, vf_descent = 6\<rparr>"
section \<open>Lookup on rows\<close>

text \<open>The advance of a code point, by a search of the rows.\<close>

fun row_advance :: "glyph_row list \<Rightarrow> int \<Rightarrow> int \<Rightarrow> int" where
  "row_advance [] d cp = d"
| "row_advance ((c, _, _, _, adv, _, _) # rs) d cp = (if c = cp then adv else row_advance rs d cp)"

fun row_ascending :: "int \<Rightarrow> glyph_row list \<Rightarrow> bool" where
  "row_ascending lo [] = True"
| "row_ascending lo ((c, _) # rs) = (lo < c \<and> row_ascending c rs)"

text \<open>A row fits the fields of \<^verbatim>\<open>VnGlyph\<close>, advances by at most \<open>m\<close> pixels, and its
  pixels are bits of a bitmap of \<open>n\<close> bytes.\<close>

definition row_fits :: "int \<Rightarrow> int \<Rightarrow> glyph_row \<Rightarrow> bool" where
  "row_fits m n = (\<lambda>(cp, off, w, h, adv, xo, yo).
     0 < cp \<and> cp < 0x110000 \<and> 0 \<le> off \<and> 0 \<le> w \<and> w < 256 \<and> 0 \<le> h \<and> h < 256 \<and> 0 < adv \<and> adv \<le> m \<and>
     - 128 \<le> xo \<and> xo < 128 \<and> - 128 \<le> yo \<and> yo < 128 \<and> 8 * off + w * h \<le> 8 * n \<and> n < 0x10000)"

lemma rows_small: "row_ascending 0 glyph_rows_small" "list_all (row_fits 12 2296) glyph_rows_small"
  by code_simp+

lemma rows_body: "row_ascending 0 glyph_rows_body" "list_all (row_fits 16 3881) glyph_rows_body"
  by code_simp+

lemma rows_large: "row_ascending 0 glyph_rows_large" "list_all (row_fits 23 8001) glyph_rows_large"
  by code_simp+

lemma bitmap_lengths: "length bitmap_small = 2296" "length bitmap_body = 3881" "length bitmap_large = 8001"
  by (simp_all add: bitmap_small_def bitmap_body_def bitmap_large_def bitmap_small_1_def bitmap_small_2_def
     bitmap_body_1_def bitmap_body_2_def bitmap_large_1_def bitmap_large_2_def bitmap_large_3_def bitmap_large_4_def
     bitmap_large_5_def)

lemma codepoint_of_row: "row_fits m n r \<Longrightarrow> uint (vg_codepoint (glyph_of_row r)) = fst r"
  by (cases r) (simp add: row_fits_def glyph_of_row_def uint_word_of_int_eq take_bit_int_eq_self)

lemma advance_of_row: "row_fits m n (c, off, w, h, adv, xo, yo) \<Longrightarrow> m < 256 \<Longrightarrow>
    uint (vg_advance (glyph_of_row (c, off, w, h, adv, xo, yo))) = adv"
  by (simp add: row_fits_def glyph_of_row_def uint_word_of_int_eq take_bit_int_eq_self)

lemma rows_sorted:
  assumes "list_all (row_fits m n) rs" "row_ascending lo rs"
  shows "sorted_glyphs (map glyph_of_row rs) \<and> (\<forall>r\<in>set rs. lo < fst r)"
  using assms
proof (induction rs arbitrary: lo)
  case Nil
  then show ?case by (simp add: sorted_glyphs_def)
next
  case (Cons r rs)
  have "row_ascending (fst r) rs" "lo < fst r"
    using Cons.prems(2) by (cases r; simp)+
  then show ?case
    using Cons codepoint_of_row [of m n]
    by (auto simp: sorted_glyphs_def word_less_def list_all_iff intro: less_trans)
qed

end
