(* ===== verification/Display.thy ===== *)
theory Display
  imports Prelude
begin

text \<open>
  The display driver (hardware/display.h, .cpp): the shadow framebuffer that
  follows every pixel primitive of the panel.  The panel itself (the Adafruit
  base class and the SPI bus) is not modelled; its colour constants are the
  constructors of \<open>colour\<close> and \<open>px\<close> says which value each has.  The two shapes
  the driver does not override, outlined rectangles and lines, reach it as
  primitives of the graphics library: \<open>gfx\<close> is that decomposition.  An
  \<^verbatim>\<open>int16_t\<close> is an integer passed through \<open>i16\<close> where the code stores it.
\<close>

section \<open>Numbers and colours\<close>

definition i16 :: "int \<Rightarrow> int" where
  "i16 n = (n + 32768) mod 65536 - 32768"

definition u16_of :: "int \<Rightarrow> int" where
  "u16_of n = n mod 65536"

lemma i16_id [simp]: "- 32768 \<le> n \<Longrightarrow> n < 32768 \<Longrightarrow> i16 n = n"
  by (simp add: i16_def)

lemma i16_range: "- 32768 \<le> i16 n" "i16 n < 32768"
  by (simp_all add: i16_def)

lemma u16_of_id [simp]: "0 \<le> n \<Longrightarrow> n < 65536 \<Longrightarrow> u16_of n = n"
  by (simp add: u16_of_def)

lemma u16_of_range: "0 \<le> u16_of n" "u16_of n < 65536"
  by (simp_all add: u16_of_def)

lemma i16_i16 [simp]: "i16 (i16 n) = i16 n"
  by (simp add: i16_range)

datatype colour = Ili_black | Ili_white | Ili_green | Ili_yellow | Rgb565 u16

definition panel_width :: int where "panel_width = 240"
definition panel_height :: int where "panel_height = 320"

section \<open>The shadow framebuffer\<close>

record display =
  dp_framebuffer :: "u16 list option"
  dp_frame_id :: u32

definition pixel_index :: "int \<Rightarrow> int \<Rightarrow> nat" where
  "pixel_index x y = nat (y * panel_width + x)"

definition mirror_pixel :: "int \<Rightarrow> int \<Rightarrow> u16 \<Rightarrow> display \<Rightarrow> display" where
  "mirror_pixel x y c d =
     (case dp_framebuffer d of
        None \<Rightarrow> d
      | Some fb \<Rightarrow>
          if x < 0 \<or> y < 0 \<or> x \<ge> panel_width \<or> y \<ge> panel_height then d
          else d\<lparr>dp_framebuffer := Some (fb[pixel_index x y := c])\<rparr>)"

definition paint_row :: "int \<Rightarrow> int \<Rightarrow> u16 \<Rightarrow> int \<Rightarrow> u16 list \<Rightarrow> u16 list" where
  "paint_row x0 x1 c y fb = fold (\<lambda>x fb. fb[pixel_index x y := c]) [x0..x1 - 1] fb"

definition mirror_rect :: "int \<Rightarrow> int \<Rightarrow> int \<Rightarrow> int \<Rightarrow> u16 \<Rightarrow> display \<Rightarrow> display" where
  "mirror_rect x y w h c d =
     (case dp_framebuffer d of
        None \<Rightarrow> d
      | Some fb \<Rightarrow>
          let x0 = max x 0; y0 = max y 0;
              x1 = min (i16 (x + w)) panel_width; y1 = min (i16 (y + h)) panel_height in
          d\<lparr>dp_framebuffer := Some (fold (paint_row x0 x1 c) [y0..y1 - 1] fb)\<rparr>)"

text \<open>The overridden primitives.\<close>

datatype pixel_op =
    Px_pixel int int u16
  | Px_hline int int int u16
  | Px_vline int int int u16
  | Px_rect int int int int u16
  | Px_screen u16

definition pixel_op_mirror :: "pixel_op \<Rightarrow> display \<Rightarrow> display" where
  "pixel_op_mirror p =
     (case p of
        Px_pixel x y c \<Rightarrow> mirror_pixel x y c
      | Px_hline x y w c \<Rightarrow> mirror_rect x y w 1 c
      | Px_vline x y h c \<Rightarrow> mirror_rect x y 1 h c
      | Px_rect x y w h c \<Rightarrow> mirror_rect x y w h c
      | Px_screen c \<Rightarrow> mirror_rect 0 0 panel_width panel_height c)"

definition display_clear :: "u16 \<Rightarrow> display \<Rightarrow> display" where
  "display_clear c = pixel_op_mirror (Px_screen c)"

definition bump_frame_id :: "display \<Rightarrow> display" where
  "bump_frame_id d = d\<lparr>dp_frame_id := dp_frame_id d + 1\<rparr>"

definition display_init :: "bool \<Rightarrow> u16 \<Rightarrow> bool \<times> display" where
  "display_init psram_ok black =
     (if psram_ok
      then (True, pixel_op_mirror (Px_screen black)
              \<lparr>dp_framebuffer = Some (replicate (nat (panel_width * panel_height)) 0), dp_frame_id = 0\<rparr>)
      else (False, \<lparr>dp_framebuffer = None, dp_frame_id = 0\<rparr>))"

section \<open>What the renderer asks for\<close>

datatype draw_op =
    Op_clear colour
  | Op_pixel int int colour
  | Op_hline int int int colour
  | Op_fill int int int int colour
  | Op_outline int int int int colour
  | Op_line int int int int colour

definition perform :: "(colour \<Rightarrow> u16) \<Rightarrow> (draw_op \<Rightarrow> pixel_op list) \<Rightarrow> draw_op \<Rightarrow> display \<Rightarrow> display" where
  "perform px gfx op =
     (case op of
        Op_clear c \<Rightarrow> display_clear (px c)
      | Op_pixel x y c \<Rightarrow> pixel_op_mirror (Px_pixel x y (px c))
      | Op_hline x y w c \<Rightarrow> pixel_op_mirror (Px_hline x y w (px c))
      | Op_fill x y w h c \<Rightarrow> pixel_op_mirror (Px_rect x y w h (px c))
      | _ \<Rightarrow> fold pixel_op_mirror (gfx op))"

section \<open>Every write stays in the buffer\<close>

definition display_ok :: "display \<Rightarrow> bool" where
  "display_ok d = (case dp_framebuffer d of None \<Rightarrow> True | Some fb \<Rightarrow> length fb = nat (panel_width * panel_height))"

definition pixel_at :: "display \<Rightarrow> int \<Rightarrow> int \<Rightarrow> u16 option" where
  "pixel_at d x y = map_option (\<lambda>fb. fb ! pixel_index x y) (dp_framebuffer d)"

definition on_panel :: "int \<Rightarrow> int \<Rightarrow> bool" where
  "on_panel x y = (0 \<le> x \<and> x < panel_width \<and> 0 \<le> y \<and> y < panel_height)"

lemma pixel_index_less: "on_panel x y \<Longrightarrow> pixel_index x y < nat (panel_width * panel_height)"
proof -
  assume "on_panel x y"
  then have "y * 240 \<le> 319 * 240" "0 \<le> x" "x < 240" "0 \<le> y"
    by (auto simp: on_panel_def panel_width_def panel_height_def)
  then show ?thesis
    by (simp add: pixel_index_def panel_width_def panel_height_def)
qed

lemma pixel_index_eq_iff: "on_panel x y \<Longrightarrow> on_panel x' y' \<Longrightarrow> pixel_index x y = pixel_index x' y' \<longleftrightarrow> x = x' \<and> y = y'"
proof -
  assume "on_panel x y" "on_panel x' y'"
  then have b: "0 \<le> x" "x < 240" "0 \<le> x'" "x' < 240" "0 \<le> y" "0 \<le> y'"
    by (simp_all add: on_panel_def panel_width_def)
  then have "pixel_index x y = pixel_index x' y' \<longleftrightarrow> y * 240 + x = y' * 240 + x'"
    by (simp add: pixel_index_def panel_width_def eq_nat_nat_iff)
  moreover have "(y * 240 + x) mod 240 = x" "(y' * 240 + x') mod 240 = x'"
    using b by simp_all
  then have "x = x'" if "y * 240 + x = y' * 240 + x'"
    using that by metis
  ultimately show ?thesis
    by auto
qed

lemma fold_update_length: "length (fold (\<lambda>i fb. fb[g i := c]) is fb) = length fb"
  by (induction "is" arbitrary: fb) simp_all

lemma fold_update_nth:
  "k < length fb \<Longrightarrow> fold (\<lambda>i fb. fb[g i := c]) is fb ! k = (if k \<in> g ` set is then c else fb ! k)"
  by (induction "is" arbitrary: fb) (auto simp: nth_list_update)

lemma paint_row_length [simp]: "length (paint_row x0 x1 c y fb) = length fb"
  by (simp add: paint_row_def fold_update_length)

lemma paint_rows_length [simp]: "length (fold (paint_row x0 x1 c) ys fb) = length fb"
  by (induction ys arbitrary: fb) simp_all

lemma paint_rows_nth:
  "k < length fb \<Longrightarrow>
     fold (paint_row x0 x1 c) ys fb ! k = (if \<exists>y\<in>set ys. \<exists>x\<in>{x0..<x1}. k = pixel_index x y then c else fb ! k)"
  by (induction ys arbitrary: fb) (auto simp: paint_row_def fold_update_nth fold_update_length)

lemma pixel_op_mirror_ok: "display_ok d \<Longrightarrow> display_ok (pixel_op_mirror p d)"
  by (cases p) (auto simp: display_ok_def pixel_op_mirror_def mirror_pixel_def mirror_rect_def Let_def split: option.splits)

lemma fold_mirror_ok: "display_ok d \<Longrightarrow> display_ok (fold pixel_op_mirror ps d)"
  by (induction ps arbitrary: d) (simp_all add: pixel_op_mirror_ok)

lemma perform_ok [inv_intros]: "display_ok d \<Longrightarrow> display_ok (perform px gfx op d)"
  by (cases op) (simp_all add: perform_def display_clear_def pixel_op_mirror_ok fold_mirror_ok)

lemma display_init_ok: "display_ok (snd (display_init b c))"
  by (auto simp: display_init_def display_ok_def panel_width_def panel_height_def
      pixel_op_mirror_def mirror_rect_def Let_def)

text \<open>C40. A rectangle paints exactly its pixels that are on the panel: its right and
  bottom edges are the 16-bit sums the code stores.\<close>

theorem mirror_rect_exact:
  assumes "display_ok d" "on_panel px py"
  shows "pixel_at (mirror_rect x y w h c d) px py =
    map_option (\<lambda>old. if x \<le> px \<and> px < i16 (x + w) \<and> y \<le> py \<and> py < i16 (y + h) then c else old) (pixel_at d px py)"
proof (cases "dp_framebuffer d")
  case None
  then show ?thesis by (simp add: mirror_rect_def pixel_at_def)
next
  case (Some fb)
  let ?x0 = "max x 0" and ?x1 = "min (i16 (x + w)) panel_width"
    and ?y0 = "max y 0" and ?y1 = "min (i16 (y + h)) panel_height"
  have len: "pixel_index px py < length fb"
    using assms Some pixel_index_less by (simp add: display_ok_def)
  have "(\<exists>y'\<in>{?y0..?y1 - 1}. \<exists>x'\<in>{?x0..<?x1}. pixel_index px py = pixel_index x' y') \<longleftrightarrow>
      px \<in> {?x0..<?x1} \<and> py \<in> {?y0..?y1 - 1}" (is "?L = ?R")
  proof
    assume ?L
    then obtain x' y' where "y' \<in> {?y0..?y1 - 1}" "x' \<in> {?x0..<?x1}" "pixel_index px py = pixel_index x' y'"
      by blast
    moreover from this have "on_panel x' y'"
      by (auto simp: on_panel_def)
    ultimately show ?R
      using pixel_index_eq_iff [OF assms(2)] by auto
  next
    assume ?R
    then show ?L by blast
  qed
  then show ?thesis
    using len Some assms(2) paint_rows_nth [OF len, of ?x0 ?x1 c "[?y0..?y1 - 1]"]
    by (auto simp: mirror_rect_def pixel_at_def Let_def on_panel_def)
qed

theorem mirror_rect_exact_witness:
  "pixel_at (mirror_rect (- 3) 10 8 2 0xF1EB (snd (display_init True 0))) 4 11 = Some 0xF1EB"
proof -
  have "on_panel 4 11"
    by (simp add: on_panel_def panel_width_def panel_height_def)
  moreover have "pixel_at (snd (display_init True 0)) 4 11 \<noteq> None"
    by (simp add: pixel_at_def display_init_def pixel_op_mirror_def mirror_rect_def Let_def)
  ultimately show ?thesis
    using mirror_rect_exact [of "snd (display_init True 0)" 4 11 "- 3" 10 8 2 "0xF1EB"] display_init_ok by (auto simp: i16_def)
qed

section \<open>A run of operations\<close>

definition paint :: "(colour \<Rightarrow> u16) \<Rightarrow> (draw_op \<Rightarrow> pixel_op list) \<Rightarrow> draw_op list \<Rightarrow> display \<Rightarrow> display" where
  "paint px gfx ops d = fold (perform px gfx) ops d"

lemma paint_ok: "display_ok d \<Longrightarrow> display_ok (paint px gfx ops d)"
  unfolding paint_def by (induction ops arbitrary: d) (simp_all add: perform_ok)

end
