(* ===== verification/Text_Layout.thy ===== *)
theory Text_Layout
  imports Glyph_Tables Display Policies
begin

text \<open>
  The text layer of the renderer (ui/renderer.cpp): choice of a font for a size,
  measuring, drawing glyph by glyph, fitting and wrapping, and the colours of a
  bundle.  A \<^verbatim>\<open>String\<close> is the list of its bytes; a fixed text of the source is
  written with its ASCII runs and the code points between them.
\<close>

section \<open>Fixed texts\<close>

datatype text_part = Asc string | Uc int

definition part_codes :: "text_part list \<Rightarrow> int list" where
  "part_codes ps = concat (map (\<lambda>p. case p of Asc s \<Rightarrow> map of_char s | Uc n \<Rightarrow> [n]) ps)"

definition vn :: "text_part list \<Rightarrow> bytes" where
  "vn ps = concat (map (\<lambda>n. utf8_encode (nat n)) (part_codes ps))"

section \<open>Measuring\<close>

definition select_vn_font :: "u8 \<Rightarrow> vn_font_data \<times> u8" where
  "select_vn_font font_size =
     (let size = (if font_size = 0 then 1 else font_size) in
      if size = 1 then (vn_font_small, 1)
      else if size = 2 then (vn_font_body, 1)
      else if size = 3 then (vn_font_large, 1)
      else
      let scaled = u16_of ((uint size * 7 + 12) div 24) in
      (vn_font_large, if scaled = 0 then 1 else of_int scaled))"

definition measure_text_width :: "bytes \<Rightarrow> u8 \<Rightarrow> int" where
  "measure_text_width txt font_size =
     (if txt = [] then 0
      else
      let (font, scale) = select_vn_font font_size;
          w = sint (measure_vn_text font (Some txt) scale) in
      if w < 0 then 0 else u16_of w)"

definition centered_x :: "bytes \<Rightarrow> u8 \<Rightarrow> int" where
  "centered_x txt font_size =
     (let w = measure_text_width txt font_size;
          x = i16 (if w \<le> panel_width then (panel_width - w) div 2 else - ((w - panel_width) div 2)) in
      if x < 0 then 0 else x)"

section \<open>Drawing\<close>

text \<open>The set bits of a glyph's bitmap, row by row.\<close>

definition glyph_bit :: "vn_font_data \<Rightarrow> vn_glyph \<Rightarrow> int \<Rightarrow> bool" where
  "glyph_bit font g b =
     (vf_bitmap font ! nat (uint (vg_bitmap_offset g) + b div 8) AND drop_bit (nat (b mod 8)) 0x80 \<noteq> 0)"

definition glyph_ops :: "vn_font_data \<Rightarrow> int \<Rightarrow> int \<Rightarrow> int \<Rightarrow> colour \<Rightarrow> vn_glyph \<Rightarrow> draw_op list" where
  "glyph_ops font scale pen_x baseline color g =
     concat (map (\<lambda>yy. concat (map (\<lambda>xx.
       if \<not> glyph_bit font g (yy * uint (vg_width g) + xx) then []
       else
       let px = i16 (pen_x + (sint (vg_x_offset g) + xx) * scale);
           py = i16 (baseline + (sint (vg_y_offset g) + yy) * scale) in
       [if scale = 1 then Op_pixel px py color else Op_fill px py scale scale color])
       [0..uint (vg_width g) - 1])) [0..uint (vg_height g) - 1])"

lemma decode_shorter: "peek bs \<noteq> 0 \<Longrightarrow> (cp, r) = utf8_decode_next bs \<Longrightarrow> length r < length bs"
  using decode_consumes [of bs] by (metis snd_conv)

text \<open>The operations for the rest of a text, and where the pen ends.\<close>

function draw_loop :: "vn_font_data \<Rightarrow> int \<Rightarrow> int \<Rightarrow> colour \<Rightarrow> bytes \<Rightarrow> int \<Rightarrow> draw_op list \<times> int" where
  "draw_loop font scale baseline color bs pen_x =
     (if peek bs = 0 then ([], pen_x)
      else
      let (cp, r) = utf8_decode_next bs in
      if cp = 0 then ([], pen_x)
      else
      case find_glyph font cp of
        Some g \<Rightarrow>
          let (ops, pen) = draw_loop font scale baseline color r (i16 (pen_x + uint (vg_advance g) * scale)) in
          (glyph_ops font scale pen_x baseline color g @ ops, pen)
      | None \<Rightarrow> draw_loop font scale baseline color r (i16 (pen_x + uint (vf_ascent font) div 2 * scale)))"
  by pat_completeness auto

termination
  by (relation "measure (\<lambda>(font, scale, baseline, color, bs, pen). length bs)") (auto dest: decode_shorter)

declare draw_loop.simps [simp del]

definition draw_vn_text :: "int \<Rightarrow> int \<Rightarrow> bytes \<Rightarrow> colour \<Rightarrow> u8 \<Rightarrow> draw_op list" where
  "draw_vn_text x y txt color font_size =
     (if txt = [] then []
      else
      let (font, scale) = select_vn_font font_size in
      fst (draw_loop font (uint scale) (i16 (y + uint (vf_ascent font) * uint scale)) color txt x))"

section \<open>Fitting\<close>

definition dots :: bytes where
  "dots = bytes_of ''...''"

function trim_loop :: "u8 \<Rightarrow> int \<Rightarrow> bytes \<Rightarrow> bytes" where
  "trim_loop font_size max_w line =
     (if length line > 1 \<and> measure_text_width (line @ dots) font_size > u16_of max_w
      then trim_loop font_size max_w (butlast line)
      else line)"
  by pat_completeness auto

termination
  by (relation "measure (\<lambda>(fs, m, line). length line)") auto

declare trim_loop.simps [simp del]

definition ellipsize_to_width :: "bytes \<Rightarrow> u8 \<Rightarrow> int \<Rightarrow> bytes" where
  "ellipsize_to_width txt font_size max_w =
     (if txt = [] \<or> max_w \<le> 0 then []
      else if measure_text_width txt font_size \<le> u16_of max_w then txt
      else trim_loop font_size max_w txt @ dots)"

function space_loop :: "bytes \<Rightarrow> u8 \<Rightarrow> int \<Rightarrow> nat \<Rightarrow> nat option \<Rightarrow> nat option" where
  "space_loop txt font_size max_w i at_i =
     (if i \<ge> length txt then at_i
      else if txt ! i = 0x20 then
        (if measure_text_width (take i txt) font_size \<le> u16_of max_w
         then space_loop txt font_size max_w (i + 1) (Some i) else at_i)
      else space_loop txt font_size max_w (i + 1) at_i)"
  by pat_completeness auto

termination
  by (relation "measure (\<lambda>(txt, fs, m, i, a). length txt - i)") auto

declare space_loop.simps [simp del]

definition wrap_and_ellipsize_two_lines :: "bytes \<Rightarrow> u8 \<Rightarrow> int \<Rightarrow> bytes \<times> bytes" where
  "wrap_and_ellipsize_two_lines txt font_size max_w =
     (let (line1, line2) = (case space_loop txt font_size max_w 0 None of
            Some i \<Rightarrow> (take i txt, drop (i + 1) txt)
          | None \<Rightarrow> (txt, [])) in
      (ellipsize_to_width line1 font_size max_w, ellipsize_to_width line2 font_size max_w))"

section \<open>Colours\<close>

definition color_fg :: colour where "color_fg = Ili_white"
definition color_accent :: colour where "color_accent = Ili_green"
definition color_warn :: colour where "color_warn = Ili_yellow"
definition color_muted :: colour where "color_muted = Rgb565 0x9517"
definition color_err :: colour where "color_err = Rgb565 0xF1EB"
definition color_dev :: colour where "color_dev = Rgb565 0x653F"
definition color_brand :: colour where "color_brand = Rgb565 0x269D"

definition environment_color :: "environment \<Rightarrow> colour" where
  "environment_color e =
     (case e of ENV_DEV \<Rightarrow> color_dev | ENV_TEST \<Rightarrow> color_warn | ENV_PROD \<Rightarrow> color_accent | ENV_UNKNOWN \<Rightarrow> color_muted)"

text \<open>\<^verbatim>\<open>strtol\<close> in base 16: white space, a sign, a prefix, then the digits there are.\<close>

fun hex_digit :: "char \<Rightarrow> int option" where
  "hex_digit c =
     (let n = of_char c :: int in
      if 48 \<le> n \<and> n \<le> 57 then Some (n - 48)
      else if 97 \<le> n \<and> n \<le> 102 then Some (n - 87)
      else if 65 \<le> n \<and> n \<le> 70 then Some (n - 55)
      else None)"

fun hex_value :: "int \<Rightarrow> string \<Rightarrow> int" where
  "hex_value acc [] = acc"
| "hex_value acc (c # cs) = (case hex_digit c of Some d \<Rightarrow> hex_value (16 * acc + d) cs | None \<Rightarrow> acc)"

definition drop_hex_prefix :: "string \<Rightarrow> string" where
  "drop_hex_prefix s =
     (case s of z # x # d # _ \<Rightarrow>
        if z = CHR ''0'' \<and> (x = CHR ''x'' \<or> x = CHR ''X'') \<and> hex_digit d \<noteq> None then drop 2 s else s
      | _ \<Rightarrow> s)"

definition strtol_hex :: "string \<Rightarrow> int" where
  "strtol_hex s =
     (case dropWhile (\<lambda>c. c = CHR '' '' \<or> (9 \<le> (of_char c :: int) \<and> (of_char c :: int) \<le> 13)) s of
        [] \<Rightarrow> 0
      | c # cs \<Rightarrow>
          if c = CHR ''-'' then - hex_value 0 (drop_hex_prefix cs)
          else if c = CHR ''+'' then hex_value 0 (drop_hex_prefix cs)
          else hex_value 0 (drop_hex_prefix (c # cs)))"

definition parse_hex_color :: "string \<Rightarrow> colour" where
  "parse_hex_color hex =
     (if length hex \<noteq> 7 \<or> hex ! 0 \<noteq> CHR ''#'' then Ili_white
      else
      let hex_byte = (\<lambda>pos. of_int (strtol_hex (take 2 (drop pos hex))) :: u8);
          r = hex_byte 1; g = hex_byte 3; b = hex_byte 5 in
      Rgb565 (push_bit 8 (ucast (r AND 0xF8)) OR push_bit 3 (ucast (g AND 0xFC)) OR drop_bit 3 (ucast b)))"


section \<open>The width of a text\<close>

text \<open>What the advances of a text add up to, without any bound on the sum.\<close>

function text_advance :: "vn_font_data \<Rightarrow> bytes \<Rightarrow> int" where
  "text_advance font bs =
     (if peek bs = 0 then 0
      else
      let (cp, r) = utf8_decode_next bs in
      if cp = 0 then 0 else uint (glyph_advance font cp) + text_advance font r)"
  by pat_completeness auto

termination
  by (relation "measure (\<lambda>(font, bs). length bs)") (auto dest: decode_shorter)

declare text_advance.simps [simp del]

lemma measure_loop_advance: "measure_loop font sc bs w = w + of_int (text_advance font bs) * sc"
proof (induction font sc bs w rule: measure_loop.induct)
  case (1 font sc bs w)
  then show ?case
    by (subst measure_loop.simps, subst text_advance.simps) (auto simp: algebra_simps split: prod.split)
qed

definition advances_within :: "int \<Rightarrow> vn_font_data \<Rightarrow> bool" where
  "advances_within m font = (\<forall>cp. uint (glyph_advance font cp) \<le> m)"

lemma text_advance_bounds:
  assumes "advances_within m font" "0 \<le> m"
  shows "0 \<le> text_advance font bs \<and> text_advance font bs \<le> m * int (length bs)"
proof (induction bs rule: length_induct)
  case (1 bs)
  obtain cp r where d: "utf8_decode_next bs = (cp, r)"
    by fastforce
  show ?case
  proof (cases "peek bs = 0 \<or> cp = 0")
    case True
    then show ?thesis
      using assms(2) d by (subst (1 2) text_advance.simps) (auto simp: Let_def)
  next
    case False
    then have l: "length r < length bs"
      using decode_shorter d by metis
    then have "m * int (length r) + m \<le> m * int (length bs)"
      using mult_left_mono [of "int (length r) + 1" "int (length bs)" m] assms(2) by (simp add: algebra_simps)
    moreover have "0 \<le> text_advance font r \<and> text_advance font r \<le> m * int (length r)"
      using 1 l by blast
    moreover have "uint (glyph_advance font cp) \<le> m" "0 \<le> uint (glyph_advance font cp)"
      using assms(1) by (simp_all add: advances_within_def)
    ultimately show ?thesis
      using False d by (subst (1 2) text_advance.simps) simp
  qed
qed


text \<open>A font whose glyphs are the rows \<open>rs\<close>.\<close>

definition font_rows :: "int \<Rightarrow> int \<Rightarrow> glyph_row list \<Rightarrow> vn_font_data \<Rightarrow> bool" where
  "font_rows m n rs font =
     (vf_glyphs font = map glyph_of_row rs \<and> list_all (row_fits m n) rs \<and> row_ascending 0 rs \<and>
      uint (vf_ascent font) div 2 \<le> m \<and> 0 \<le> m \<and> m < 256 \<and> int (length (vf_bitmap font)) = n)"

lemma fonts_rows:
  "font_rows 12 2296 glyph_rows_small vn_font_small"
  "font_rows 16 3881 glyph_rows_body vn_font_body"
  "font_rows 23 8001 glyph_rows_large vn_font_large"
  using rows_small rows_body rows_large bitmap_lengths
  by (simp_all add: font_rows_def vn_font_small_def vn_font_body_def vn_font_large_def)

lemma font_rows_sorted: "font_rows m n rs font \<Longrightarrow> sorted_glyphs (vf_glyphs font)"
  using rows_sorted by (auto simp: font_rows_def)

lemma find_row:
  assumes "list_all (row_fits m n) rs" "0 \<le> cp" "cp < 0x110000"
  shows "find (\<lambda>g. vg_codepoint g = of_int cp) (map glyph_of_row rs) =
    map_option glyph_of_row (find (\<lambda>r. fst r = cp) rs)"
  using assms(1)
proof (induction rs)
  case Nil
  then show ?case by simp
next
  case (Cons r rs)
  have "uint (of_int cp :: u32) = cp"
    using assms(2,3) by (simp add: uint_word_of_int_eq take_bit_int_eq_self)
  then have "vg_codepoint (glyph_of_row r) = of_int cp \<longleftrightarrow> fst r = cp"
    using Cons.prems codepoint_of_row [of m n r] by (simp add: word_uint_eq_iff)
  then show ?case
    using Cons by simp
qed

lemma row_advance_find:
  "row_advance rs d cp = (case find (\<lambda>r. fst r = cp) rs of None \<Rightarrow> d | Some (_, _, _, _, adv, _, _) \<Rightarrow> adv)"
  by (induction rs d cp rule: row_advance.induct) auto

lemma row_advance_of_glyph:
  assumes "list_all (row_fits m n) rs" "m < 256"
  shows "row_advance rs d cp =
    (case map_option glyph_of_row (find (\<lambda>r. fst r = cp) rs) of None \<Rightarrow> d | Some g \<Rightarrow> uint (vg_advance g))"
proof (cases "find (\<lambda>r. fst r = cp) rs")
  case (Some r)
  then have "row_fits m n r"
    using assms(1) by (auto simp: find_Some_iff list_all_iff)
  then show ?thesis
    using Some assms(2) advance_of_row [of m n] by (cases r) (simp add: row_advance_find)
qed (simp add: row_advance_find)

lemma uint_widen [simp]: "uint (ucast (a :: u8) :: u32) = uint a"
  by (rule uint_up_ucast) (simp add: is_up)

lemma glyph_advance_rows:
  assumes "font_rows m n rs font" "0 \<le> cp" "cp < 0x110000"
  shows "uint (glyph_advance font (of_int cp)) = row_advance rs (uint (vf_ascent font) div 2) cp"
  using assms find_row [of m n rs cp] row_advance_of_glyph [of m n rs]
  by (auto simp: glyph_advance_def find_glyph_finds [OF font_rows_sorted] font_rows_def uint_div split: option.split)

lemma font_advances:
  assumes "font_rows m n rs font"
  shows "advances_within m font"
  unfolding advances_within_def
proof
  fix cp
  have r: "list_all (row_fits m n) rs" "m < 256" "uint (vf_ascent font) div 2 \<le> m"
    using assms by (simp_all add: font_rows_def)
  show "uint (glyph_advance font cp) \<le> m"
  proof (cases "find_glyph font cp")
    case None
    then show ?thesis
      using r(3) by (simp add: glyph_advance_def uint_div)
  next
    case (Some g)
    then have "g \<in> set (map glyph_of_row rs)"
      using assms by (auto simp: find_glyph_finds [OF font_rows_sorted [OF assms]] find_Some_iff font_rows_def)
    then obtain row where "row \<in> set rs" "g = glyph_of_row row"
      by auto
    then have "uint (vg_advance g) \<le> m"
      using r(1,2) advance_of_row [of m n] by (cases row) (auto simp: list_all_iff row_fits_def)
    then show ?thesis
      using Some by (simp add: glyph_advance_def)
  qed
qed

text \<open>The advance of fixed texts, by the rows of the table.\<close>

definition row_width :: "glyph_row list \<Rightarrow> int \<Rightarrow> int list \<Rightarrow> int" where
  "row_width rs d cs = sum_list (map (row_advance rs d) cs)"

definition codes_ok :: "int list \<Rightarrow> bool" where
  "codes_ok cs = list_all (\<lambda>n. 0 < n \<and> n < 0x110000) cs"

lemma text_advance_codes:
  assumes "font_rows m n rs font" "codes_ok cs"
  shows "text_advance font (concat (map (\<lambda>n. utf8_encode (nat n)) cs) @ r) =
    row_width rs (uint (vf_ascent font) div 2) cs + text_advance font r"
  using assms(2)
proof (induction cs)
  case Nil
  then show ?case by (simp add: row_width_def)
next
  case (Cons c cs)
  then have n: "0 < nat c" "nat c < 0x110000" and c: "0 < c" "c < 0x110000"
    by (auto simp: codes_ok_def)
  have "(of_nat (nat c) :: u32) = of_int c"
    using c by simp
  moreover have "(of_nat (nat c) :: u32) \<noteq> 0"
    using n by (simp add: word_of_nat_eq_0_iff nat_dvd_not_less del: of_nat_nat)
  ultimately show ?case
    using Cons encode_starts [OF n] utf8_decodes [OF n] glyph_advance_rows [OF assms(1), of c] c
    by (subst text_advance.simps) (simp add: row_width_def codes_ok_def)
qed


section \<open>What measuring returns\<close>

definition text_width :: "bytes \<Rightarrow> u8 \<Rightarrow> int" where
  "text_width txt font_size = (let (font, scale) = select_vn_font font_size in text_advance font txt * uint scale)"

lemma select_vn_font_simps [simp]:
  "select_vn_font 1 = (vn_font_small, 1)" "select_vn_font 2 = (vn_font_body, 1)"
  "select_vn_font 3 = (vn_font_large, 1)" "select_vn_font 6 = (vn_font_large, 2)"
  by (simp_all add: select_vn_font_def u16_of_def)

lemma select_vn_font_cases:
  obtains m n rs font scale where "select_vn_font fs = (font, scale)" "font_rows m n rs font" "m \<le> 23"
    "1 \<le> uint scale" "uint scale \<le> 74"
proof -
  let ?size = "if fs = 0 then 1 else fs" and ?scaled = "u16_of ((uint (if fs = 0 then 1 else fs) * 7 + 12) div 24)"
  have u: "0 \<le> uint ?size" "uint ?size < 256"
    using uint_bounded [of ?size] by auto
  then have "(uint ?size * 7 + 12) div 24 \<le> 74" "0 \<le> (uint ?size * 7 + 12) div 24"
    by linarith+
  then have s: "0 \<le> ?scaled" "?scaled \<le> 74"
    by simp_all
  then have "uint (of_int ?scaled :: u8) = ?scaled"
    by (simp add: uint_word_of_int_eq take_bit_int_eq_self)
  then have "uint (if ?scaled = 0 then 1 else of_int ?scaled :: u8) \<in> {1..74}"
    using s by auto
  then show thesis
    using that fonts_rows by (cases "?size = 1"; cases "?size = 2"; cases "?size = 3")
      (fastforce simp: select_vn_font_def Let_def)+
qed

lemma text_width_bounds: "0 \<le> text_width txt fs \<and> text_width txt fs \<le> 1702 * int (length txt)"
proof -
  obtain m n rs font scale where f: "select_vn_font fs = (font, scale)" "font_rows m n rs font" "m \<le> 23"
    and sc: "1 \<le> uint scale" "uint scale \<le> 74"
    by (rule select_vn_font_cases)
  have a: "0 \<le> text_advance font txt" "text_advance font txt \<le> m * int (length txt)"
    using text_advance_bounds [OF font_advances [OF f(2)], of "txt"] f(2) by (simp_all add: font_rows_def)
  then have "text_advance font txt \<le> 23 * int (length txt)"
    using mult_right_mono [OF f(3), of "int (length txt)"] by simp
  then have "text_advance font txt * uint scale \<le> 23 * int (length txt) * 74"
    using a sc by (intro mult_mono) auto
  then show ?thesis
    using a sc f(1) by (simp add: text_width_def)
qed

lemma measured_wrapped:
  assumes "length txt \<le> 1000000"
  shows "measure_text_width txt fs = u16_of (text_width txt fs)"
proof -
  obtain m n rs font scale where f: "select_vn_font fs = (font, scale)"
    and sc: "1 \<le> uint scale" "uint scale \<le> 74"
    by (rule select_vn_font_cases)
  let ?a = "text_advance font txt * uint scale"
  have b: "0 \<le> ?a" "?a < 2 ^ 31"
    using text_width_bounds [of "txt" fs] f assms by (auto simp: text_width_def)
  have "scale \<noteq> 0"
    using sc by auto
  then have "measure_vn_text font (Some txt) scale = of_int (text_advance font txt) * ucast scale"
    by (simp add: measure_vn_text_def measure_loop_advance)
  also have "\<dots> = of_int ?a"
    by (simp only: of_int_mult ucast_eq [of scale])
  finally have "sint (measure_vn_text font (Some txt) scale) = ?a"
    using b by (simp add: sint_sbintrunc' signed_take_bit_int_eq_self del: of_int_mult)
  then show ?thesis
    using b(1) f by (simp add: measure_text_width_def text_width_def u16_of_def text_advance.simps peek_def)
qed

lemma width_at_most:
  assumes "fs = 1 \<or> fs = 2 \<or> fs = 3"
  shows "0 \<le> text_width txt fs \<and> text_width txt fs \<le> (if fs = 1 then 12 else if fs = 2 then 16 else 23) * int (length txt)"
  using assms text_advance_bounds [OF font_advances [OF fonts_rows(1)], of "txt"]
    text_advance_bounds [OF font_advances [OF fonts_rows(2)], of "txt"]
    text_advance_bounds [OF font_advances [OF fonts_rows(3)], of "txt"]
  by (auto simp: text_width_def)

lemma measured:
  assumes "fs = 1 \<or> fs = 2 \<or> fs = 3" "length txt \<le> 2849"
  shows "measure_text_width txt fs = text_width txt fs"
proof -
  have "0 \<le> text_width txt fs \<and> text_width txt fs \<le> 23 * int (length txt)"
    using width_at_most [OF assms(1), of "txt"] by (auto split: if_splits)
  then show ?thesis
    using assms(2) by (simp add: measured_wrapped)
qed

lemma measure_range: "0 \<le> measure_text_width txt fs \<and> measure_text_width txt fs < 65536"
  by (auto simp: measure_text_width_def u16_of_range Let_def split: prod.split)


section \<open>Drawing\<close>

lemma glyph_in_rows:
  assumes "font_rows m n rs font" "find_glyph font cp = Some g"
  obtains row where "row \<in> set rs" "g = glyph_of_row row" "row_fits m n row"
proof -
  have "g \<in> set (map glyph_of_row rs)"
    using assms by (auto simp: find_glyph_finds [OF font_rows_sorted [OF assms(1)]] find_Some_iff font_rows_def)
  then show thesis
    using that assms(1) by (auto simp: font_rows_def list_all_iff)
qed

lemma row_bits:
  assumes "row_fits m n r" "g = glyph_of_row r" "0 \<le> yy" "yy < uint (vg_height g)" "0 \<le> xx" "xx < uint (vg_width g)"
  shows "uint (vg_bitmap_offset g) + (yy * uint (vg_width g) + xx) div 8 < n"
proof -
  obtain cp off w h adv xo yo where r: "r = (cp, off, w, h, adv, xo, yo)"
    by (cases r)
  have b: "0 \<le> off" "0 \<le> w" "w < 256" "0 \<le> h" "h < 256" "8 * off + w * h \<le> 8 * n" "n < 0x10000"
    using assms(1) by (simp_all add: r row_fits_def)
  have "0 \<le> w * h"
    using b by simp
  then have "off < 0x100000000"
    using b by linarith
  then have e: "uint (vg_bitmap_offset g) = off" "uint (vg_width g) = w" "uint (vg_height g) = h"
    using b by (simp_all add: assms(2) r glyph_of_row_def uint_word_of_int_eq take_bit_int_eq_self)
  have "(yy + 1) * w \<le> h * w"
    using assms(4) b(2) e by (intro mult_right_mono) auto
  then have "yy * w + xx < w * h"
    using assms(6) e by (simp add: algebra_simps)
  then have "8 * off + (yy * w + xx) < 8 * n"
    using b(6) by linarith
  then show ?thesis
    by (simp add: e)
qed

text \<open>C39. Drawing a text never reads past the end of a font's bitmap: whatever size
  a bundle asks for, each bit of each glyph the search returns lies in the
  array.\<close>

theorem glyph_reads_in_bitmap:
  assumes "select_vn_font font_size = (font, scale)" "find_glyph font cp = Some g"
    and "0 \<le> yy" "yy < uint (vg_height g)" "0 \<le> xx" "xx < uint (vg_width g)"
  shows "uint (vg_bitmap_offset g) + (yy * uint (vg_width g) + xx) div 8 < int (length (vf_bitmap font))"
proof -
  obtain m n rs where f: "font_rows m n rs font"
    using select_vn_font_cases [of font_size] assms(1) by (metis prod.inject)
  obtain row where "row_fits m n row" "g = glyph_of_row row"
    using glyph_in_rows [OF f assms(2)] by metis
  from row_bits [OF this assms(3-6)] show ?thesis
    using f by (simp add: font_rows_def)
qed

lemma find_glyph_row:
  assumes "font_rows m n rs font" "0 \<le> cp" "cp < 0x110000"
  shows "find_glyph font (of_int cp) = map_option glyph_of_row (find (\<lambda>r. fst r = cp) rs)"
  using assms find_row [of m n rs cp] by (simp add: find_glyph_finds [OF font_rows_sorted [OF assms(1)]] font_rows_def)

lemma body_A: "find_glyph vn_font_body 0x41 = Some (glyph_of_row (65, 387, 12, 12, 12, 0, -12))"
proof -
  have "find (\<lambda>r. fst r = 0x41) glyph_rows_body = Some (65, 387, 12, 12, 12, 0, -12)"
    by code_simp
  then show ?thesis
    using find_glyph_row [OF fonts_rows(2), of "0x41"] by simp
qed

theorem glyph_reads_in_bitmap_witness:
  "uint (vg_bitmap_offset (glyph_of_row (65, 387, 12, 12, 12, 0, -12))) +
     (11 * uint (vg_width (glyph_of_row (65, 387, 12, 12, 12, 0, -12))) + 10) div 8 < int (length (vf_bitmap vn_font_body))"
  by (rule glyph_reads_in_bitmap [OF select_vn_font_simps(2) body_A]) (simp_all add: glyph_of_row_def)

text \<open>C38. A drawn text ends where measuring says: the pen moves by the measured
  advance of the text, glyph or no glyph, so what a layout computes from widths
  is what appears.\<close>

theorem drawn_as_measured:
  "snd (draw_loop font (uint scale) baseline color bs (i16 x)) = i16 (x + text_advance font bs * uint scale)"
proof (induction bs arbitrary: x rule: length_induct)
  case (1 bs)
  obtain cp r where d: "utf8_decode_next bs = (cp, r)"
    by fastforce
  have i: "i16 (i16 a + b) = i16 (a + b)" for a b
    by (simp add: i16_def mod_simps algebra_simps)
  show ?case
  proof (cases "peek bs = 0 \<or> cp = 0")
    case True
    then show ?thesis
      using d by (subst draw_loop.simps, subst text_advance.simps) (auto simp: Let_def)
  next
    case False
    then have "length r < length bs"
      using decode_shorter d by metis
    then have IH: "snd (draw_loop font (uint scale) baseline color r (i16 y)) = i16 (y + text_advance font r * uint scale)" for y
      using 1 by blast
    show ?thesis
      using False d
      by (subst draw_loop.simps, subst text_advance.simps)
        (auto simp: glyph_advance_def i IH uint_div algebra_simps split_beta split: option.split)
  qed
qed


section \<open>Fitting\<close>

lemma trim_loop_prefix:
  obtains k where "trim_loop fs m line = take k line" "k \<le> length line" "line \<noteq> [] \<longrightarrow> 1 \<le> k"
    "1 < k \<longrightarrow> measure_text_width (take k line @ dots) fs \<le> u16_of m"
    "\<forall>j. k < j \<and> j \<le> length line \<longrightarrow> \<not> measure_text_width (take j line @ dots) fs \<le> u16_of m"
proof (induction fs m line arbitrary: thesis rule: trim_loop.induct)
  case (1 fs m line)
  show ?case
  proof (cases "length line > 1 \<and> measure_text_width (line @ dots) fs > u16_of m")
    case True
    obtain k where k: "trim_loop fs m (butlast line) = take k (butlast line)" "k \<le> length (butlast line)"
      "butlast line \<noteq> [] \<longrightarrow> 1 \<le> k"
      "1 < k \<longrightarrow> measure_text_width (take k (butlast line) @ dots) fs \<le> u16_of m"
      "\<forall>j. k < j \<and> j \<le> length (butlast line) \<longrightarrow> \<not> measure_text_width (take j (butlast line) @ dots) fs \<le> u16_of m"
      using "1.IH" [OF True] by metis
    have tk: "take j (butlast line) = take j line" if "j < length line" for j
      using that by (auto simp: butlast_conv_take min_def)
    show ?thesis
    proof (rule "1.prems" [of k])
      show "trim_loop fs m line = take k line"
        using True k(1,2) tk [of k] by (subst trim_loop.simps) auto
      show "1 < k \<longrightarrow> measure_text_width (take k line @ dots) fs \<le> u16_of m"
        using k(2,4) tk [of k] True by auto
      show "line \<noteq> [] \<longrightarrow> 1 \<le> k"
        using k(3) True by (cases line rule: rev_cases) auto
      show "\<forall>j. k < j \<and> j \<le> length line \<longrightarrow> \<not> measure_text_width (take j line @ dots) fs \<le> u16_of m"
      proof (intro allI impI)
        fix j assume j: "k < j \<and> j \<le> length line"
        show "\<not> measure_text_width (take j line @ dots) fs \<le> u16_of m"
          using j k(5) tk [of j] True by (cases "j = length line") auto
      qed
    qed (use k(2) in simp)
  next
    case False
    then show ?thesis
      by (intro "1.prems" [of "length line"]) (auto simp: trim_loop.simps [of fs m line] Suc_le_eq)
  qed
qed

text \<open>A text too wide for its place is cut to the longest beginning that fits
  together with three dots, in bytes and never to less than one byte; a text
  that fits is left alone.\<close>

lemma ellipsis_keeps_the_longest_prefix:
  assumes "txt \<noteq> []" "0 < max_w" "max_w < 32768"
  shows "ellipsize_to_width txt font_size max_w =
    (if measure_text_width txt font_size \<le> max_w then txt
     else take (Max (insert 1 {k. k \<le> length txt \<and> measure_text_width (take k txt @ dots) font_size \<le> max_w})) txt @ dots)"
proof -
  obtain k where k: "trim_loop font_size max_w txt = take k txt" "k \<le> length txt" "1 \<le> k"
    "1 < k \<longrightarrow> measure_text_width (take k txt @ dots) font_size \<le> max_w"
    "\<forall>j. k < j \<and> j \<le> length txt \<longrightarrow> \<not> measure_text_width (take j txt @ dots) font_size \<le> max_w"
    using trim_loop_prefix [of font_size max_w "txt"] assms by auto
  let ?K = "insert 1 {k. k \<le> length txt \<and> measure_text_width (take k txt @ dots) font_size \<le> max_w}"
  have "Max ?K = k"
  proof (rule Max_eqI)
    fix j assume "j \<in> ?K"
    then show "j \<le> k"
      using k(3,5) by (auto simp: not_less [symmetric])
  qed (use k(2,3,4) in \<open>auto simp: le_less\<close>)
  then show ?thesis
    using assms k(1) by (simp add: ellipsize_to_width_def)
qed

lemma ellipsis_keeps_the_longest_prefix_witness:
  "ellipsize_to_width (bytes_of ''RECOVERY_TASK_CREATE_FAILED'') 2 224 =
    (if measure_text_width (bytes_of ''RECOVERY_TASK_CREATE_FAILED'') 2 \<le> 224 then bytes_of ''RECOVERY_TASK_CREATE_FAILED''
     else take (Max (insert 1 {k. k \<le> length (bytes_of ''RECOVERY_TASK_CREATE_FAILED'') \<and>
       measure_text_width (take k (bytes_of ''RECOVERY_TASK_CREATE_FAILED'') @ dots) 2 \<le> 224}))
       (bytes_of ''RECOVERY_TASK_CREATE_FAILED'') @ dots)"
  by (rule ellipsis_keeps_the_longest_prefix) simp_all

lemma length_dots [simp]: "length dots = 3"
  by (simp add: dots_def)

lemma ellipsize_length: "length (ellipsize_to_width txt fs m) \<le> length txt + 3"
proof -
  obtain k where "trim_loop fs m txt = take k txt"
    using trim_loop_prefix [of fs m "txt"] by metis
  then show ?thesis
    by (simp add: ellipsize_to_width_def)
qed

lemma ellipsize_fits:
  assumes "fs = 1 \<or> fs = 2 \<or> fs = 3" "92 \<le> m" "m < 32768"
  shows "measure_text_width (ellipsize_to_width txt fs m) fs \<le> m"
proof (cases "txt = [] \<or> measure_text_width txt fs \<le> m")
  case True
  then show ?thesis
    using assms by (auto simp: ellipsize_to_width_def measure_text_width_def)
next
  case False
  obtain k where k: "trim_loop fs m txt = take k txt" "1 < k \<longrightarrow> measure_text_width (take k txt @ dots) fs \<le> u16_of m"
    using trim_loop_prefix [of fs m "txt"] by metis
  have "measure_text_width (take k txt @ dots) fs \<le> m"
  proof (cases "1 < k")
    case True
    then show ?thesis using k(2) assms by simp
  next
    case False
    then have l: "length (take k txt @ dots) \<le> 4"
      by simp
    have "text_width (take k txt @ dots) fs \<le> 23 * int (length (take k txt @ dots))"
      using width_at_most [OF assms(1), of "take k txt @ dots"] by (auto split: if_splits)
    then show ?thesis
      using l assms measured [OF assms(1), of "take k txt @ dots"] by linarith
  qed
  then show ?thesis
    using False k(1) assms by (simp add: ellipsize_to_width_def)
qed

lemma space_loop_sound:
  assumes "space_loop txt fs m i a = Some j" "\<forall>j. a = Some j \<longrightarrow> j < length txt \<and> txt ! j = 0x20 \<and> measure_text_width (take j txt) fs \<le> u16_of m"
  shows "j < length txt \<and> txt ! j = 0x20 \<and> measure_text_width (take j txt) fs \<le> u16_of m"
  using assms
proof (induction "txt" fs m i a rule: space_loop.induct)
  case (1 t fs m i a)
  from "1.prems"(1) show ?case
    by (subst (asm) space_loop.simps) (use "1.prems"(2) "1.IH" in \<open>auto split: if_splits\<close>)
qed

text \<open>Wrapping splits at a space up to which the text fits, or not at all.\<close>

lemma wrap_cases:
  assumes "wrap_and_ellipsize_two_lines txt fs m = (l1, l2)"
  obtains i where "i < length txt" "txt ! i = 0x20" "measure_text_width (take i txt) fs \<le> u16_of m"
      "l1 = ellipsize_to_width (take i txt) fs m" "l2 = ellipsize_to_width (drop (i + 1) txt) fs m"
  | "l1 = ellipsize_to_width txt fs m" "l2 = []"
proof (cases "space_loop txt fs m 0 None")
  case None
  then show ?thesis
    using assms that(2) by (auto simp: wrap_and_ellipsize_two_lines_def ellipsize_to_width_def [of "[]"])
next
  case (Some i)
  then show ?thesis
    using assms that(1) [of i] space_loop_sound [OF Some]
    by (auto simp: wrap_and_ellipsize_two_lines_def)
qed


section \<open>Boundary cases\<close>

text \<open>The separator of the identity line has no glyph in any table.\<close>

lemma separator_has_no_glyph:
  "find_glyph vn_font_small 0xB7 = None" "find_glyph vn_font_body 0xB7 = None" "find_glyph vn_font_large 0xB7 = None"
proof -
  have "find (\<lambda>r. fst r = 0xB7) glyph_rows_small = None" "find (\<lambda>r. fst r = 0xB7) glyph_rows_body = None"
    "find (\<lambda>r. fst r = 0xB7) glyph_rows_large = None"
    by code_simp+
  then show "find_glyph vn_font_small 0xB7 = None" "find_glyph vn_font_body 0xB7 = None" "find_glyph vn_font_large 0xB7 = None"
    using find_glyph_row [OF fonts_rows(1), of "0xB7"] find_glyph_row [OF fonts_rows(2), of "0xB7"]
      find_glyph_row [OF fonts_rows(3), of "0xB7"] by simp_all
qed

text \<open>A colour of the right length with digits that are none is black; a wrong
  length is white.\<close>

lemma malformed_colours: "parse_hex_color ''#GG0000'' = Rgb565 0" "parse_hex_color ''#FFF'' = Ili_white"
  "parse_hex_color ''#F43F5E'' = color_err"
  by code_simp+

end
