(* ===== verification/Renderer.thy ===== *)
theory Renderer
  imports Text_Layout Kiosk_State
begin

text \<open>
  The renderer's state and its drawing helpers (ui/renderer.h, .cpp): what a
  screen has drawn is recorded line by line or component by component for the
  debug interface, and sent to the display as drawing operations, which
  \<open>rn_ops\<close> collects in order.  The SSID of the station is an input.  Log lines
  are left out.
\<close>

section \<open>State\<close>

record drawn_line =
  dl_used :: bool
  dl_text :: bytes
  dl_color :: colour
  dl_overflow :: bool
  dl_measured_w :: int

record drawn_component =
  dc_used :: bool
  dc_x :: int
  dc_y :: int
  dc_w :: int
  dc_h :: int
  dc_font_size :: u8
  dc_text :: bytes
  dc_color :: colour
  dc_overflow :: bool
  dc_measured_w :: int

record renderer =
  rn_screen_id :: string
  rn_lines :: "drawn_line list"
  rn_components :: "drawn_component list"
  rn_next_component :: nat
  rn_qa_active :: bool
  rn_offline_queue_size :: u32
  rn_clock_text :: bytes
  rn_ops :: "draw_op list"
  rn_frame_id :: u32

definition max_lines :: nat where "max_lines = 10"
definition max_components :: nat where "max_components = 16"

definition new_line :: drawn_line where
  "new_line = \<lparr>dl_used = False, dl_text = [], dl_color = Rgb565 0, dl_overflow = False, dl_measured_w = 0\<rparr>"

definition new_component :: drawn_component where
  "new_component = \<lparr>dc_used = False, dc_x = 0, dc_y = 0, dc_w = 0, dc_h = 0, dc_font_size = 1, dc_text = [],
     dc_color = Rgb565 0, dc_overflow = False, dc_measured_w = 0\<rparr>"

definition new_renderer :: renderer where
  "new_renderer = \<lparr>rn_screen_id = ''none'', rn_lines = replicate max_lines new_line,
     rn_components = replicate max_components new_component, rn_next_component = 0, rn_qa_active = False,
     rn_offline_queue_size = 0, rn_clock_text = [], rn_ops = [], rn_frame_id = 0\<rparr>"

definition set_offline_queue_size :: "u32 \<Rightarrow> renderer \<Rightarrow> renderer" where
  "set_offline_queue_size n r = r\<lparr>rn_offline_queue_size := n\<rparr>"

definition set_clock_text :: "bytes \<Rightarrow> renderer \<Rightarrow> renderer" where
  "set_clock_text hhmm r = r\<lparr>rn_clock_text := hhmm\<rparr>"

definition set_qa_active :: "bool \<Rightarrow> renderer \<Rightarrow> renderer" where
  "set_qa_active b r = r\<lparr>rn_qa_active := b\<rparr>"

definition issue :: "draw_op list \<Rightarrow> renderer \<Rightarrow> renderer" where
  "issue ops r = r\<lparr>rn_ops := rn_ops r @ ops\<rparr>"

text \<open>A sequence of drawing calls.\<close>

definition steps :: "(renderer \<Rightarrow> renderer) list \<Rightarrow> renderer \<Rightarrow> renderer" where
  "steps fs r = fold (\<lambda>f. f) fs r"

definition only_if :: "bool \<Rightarrow> (renderer \<Rightarrow> renderer) \<Rightarrow> renderer \<Rightarrow> renderer" where
  "only_if b f r = (if b then f r else r)"

section \<open>Geometry\<close>

definition margin_x :: int where "margin_x = 8"
definition header_h :: int where "header_h = 24"
definition footer_h :: int where "footer_h = 30"
definition content_top :: int where "content_top = header_h"
definition content_bottom :: int where "content_bottom = panel_height - footer_h"
definition footer_y :: int where "footer_y = content_bottom + 8"
definition footer_divider_y :: int where "footer_divider_y = content_bottom - 4"
definition spacing_small :: int where "spacing_small = 4"
definition spacing_normal :: int where "spacing_normal = 8"
definition font_small :: u8 where "font_small = 2"
definition font_large :: u8 where "font_large = 3"
definition font_value_scale :: u8 where "font_value_scale = 6"
definition line_height_small :: int where "line_height_small = 22"
definition line_height_large :: int where "line_height_large = 34"

lemmas layout_defs = margin_x_def header_h_def footer_h_def content_top_def content_bottom_def footer_y_def
  footer_divider_y_def spacing_small_def spacing_normal_def font_small_def font_large_def font_value_scale_def
  line_height_small_def line_height_large_def panel_width_def panel_height_def

section \<open>Screens, lines, components\<close>

definition begin_screen :: "string \<Rightarrow> renderer \<Rightarrow> renderer" where
  "begin_screen screen_id r =
     issue [Op_clear Ili_black]
       (r\<lparr>rn_screen_id := screen_id,
          rn_lines := map (\<lambda>l. l\<lparr>dl_used := False, dl_text := [], dl_color := Rgb565 0\<rparr>) (rn_lines r),
          rn_components := map (\<lambda>c. c\<lparr>dc_used := False, dc_text := [], dc_color := Rgb565 0\<rparr>) (rn_components r),
          rn_next_component := 0\<rparr>)"

definition end_screen :: "renderer \<Rightarrow> renderer" where
  "end_screen r = r\<lparr>rn_frame_id := rn_frame_id r + 1\<rparr>"

definition emit_line :: "int \<Rightarrow> bytes \<Rightarrow> colour \<Rightarrow> renderer \<Rightarrow> renderer" where
  "emit_line row txt color r0 =
     (let line_font_size = (if txt \<noteq> [] \<and> measure_text_width txt font_small > panel_width - 8 then 1 else font_small);
          r = issue (draw_vn_text 4 (i16 (4 + row * line_height_small)) txt color line_font_size) r0 in
      if row < 0 \<or> row \<ge> int max_lines then r
      else
      let w = (if txt \<noteq> [] then measure_text_width txt line_font_size else 0);
          overflow = (txt \<noteq> [] \<and> 4 + w > panel_width) in
      r\<lparr>rn_lines := (rn_lines r)[nat row :=
          \<lparr>dl_used = True, dl_text = txt, dl_color = color, dl_overflow = overflow, dl_measured_w = w\<rparr>]\<rparr>)"

definition component_of :: "int \<Rightarrow> int \<Rightarrow> bytes \<Rightarrow> colour \<Rightarrow> u8 \<Rightarrow> drawn_component" where
  "component_of x y txt color fsize =
     (let (font, scale) = select_vn_font fsize;
          w = (if txt \<noteq> [] then measure_text_width txt fsize else 0);
          h = (if txt \<noteq> [] then u16_of ((uint (vf_ascent font) + uint (vf_descent font)) * uint scale) else 0) in
      \<lparr>dc_used = True, dc_x = x, dc_y = y, dc_w = i16 w, dc_h = i16 h, dc_font_size = fsize, dc_text = txt,
       dc_color = color, dc_overflow = (txt \<noteq> [] \<and> (x + w > panel_width \<or> y + h > panel_height)), dc_measured_w = w\<rparr>)"

definition emit_component_text :: "int \<Rightarrow> int \<Rightarrow> bytes \<Rightarrow> colour \<Rightarrow> u8 \<Rightarrow> renderer \<Rightarrow> renderer" where
  "emit_component_text x0 y0 txt color font_size r =
     (let x = i16 x0; y = i16 y0 in
      if x < 0 \<or> y < 0 \<or> x \<ge> panel_width \<or> y \<ge> panel_height then r
      else
      let fsize = (if font_size = 0 then 1 else font_size);
          r1 = issue (draw_vn_text x y txt color fsize) r in
      if rn_next_component r1 \<ge> max_components then r1
      else r1\<lparr>rn_components := (rn_components r1)[rn_next_component r1 := component_of x y txt color fsize],
              rn_next_component := rn_next_component r1 + 1\<rparr>)"

definition emit_transient_message :: "int \<Rightarrow> int \<Rightarrow> bytes \<Rightarrow> colour \<Rightarrow> renderer \<Rightarrow> renderer" where
  "emit_transient_message x y txt color =
     emit_component_text x y txt color
       (if measure_text_width txt font_small > panel_width - x - 4 then 1 else font_small)"

section \<open>Shared layout\<close>

definition centered :: "bytes \<Rightarrow> int \<Rightarrow> colour \<Rightarrow> u8 \<Rightarrow> renderer \<Rightarrow> renderer" where
  "centered txt y color font_size = emit_component_text (centered_x txt font_size) y txt color font_size"

definition draw_title_line :: "bytes \<Rightarrow> int \<Rightarrow> colour \<Rightarrow> renderer \<Rightarrow> renderer" where
  "draw_title_line txt y color = centered txt y color font_large"

definition draw_title_2line :: "bytes \<Rightarrow> bytes \<Rightarrow> int \<Rightarrow> colour \<Rightarrow> renderer \<Rightarrow> renderer" where
  "draw_title_2line line1 line2 y_top color =
     steps [draw_title_line line1 y_top color, draw_title_line line2 (i16 (y_top + line_height_large)) color]"

definition draw_fit_text :: "bytes \<Rightarrow> int \<Rightarrow> colour \<Rightarrow> bool \<Rightarrow> renderer \<Rightarrow> renderer" where
  "draw_fit_text txt y_top color prefer_large r =
     (if txt = [] then r
      else
      let max_w = panel_width - 2 * margin_x in
      if prefer_large \<and> measure_text_width txt font_large \<le> u16_of max_w then draw_title_line txt y_top color r
      else if measure_text_width txt font_small \<le> u16_of max_w then centered txt y_top color font_small r
      else
      let (line1, line2) = wrap_and_ellipsize_two_lines txt font_small max_w in
      steps [centered line1 y_top color font_small,
             only_if (line2 \<noteq> []) (centered line2 (y_top + line_height_small) color font_small)] r)"

definition draw_value_giant :: "bytes \<Rightarrow> int \<Rightarrow> colour \<Rightarrow> renderer \<Rightarrow> renderer" where
  "draw_value_giant txt y color = centered txt y color font_value_scale"

definition draw_footer :: "bytes \<Rightarrow> bytes \<Rightarrow> renderer \<Rightarrow> renderer" where
  "draw_footer left right =
     steps [issue [Op_hline margin_x footer_divider_y (panel_width - 2 * margin_x) color_muted],
            only_if (left \<noteq> []) (emit_component_text margin_x footer_y left color_muted font_small),
            only_if (right \<noteq> [])
              (emit_component_text (panel_width - measure_text_width right font_small - margin_x) footer_y right
                 color_muted font_small)]"

section \<open>The status bar\<close>

definition icon_right :: int where "icon_right = 234"
definition icon_base_y :: int where "icon_base_y = header_h - 4"
definition bar_w :: int where "bar_w = 5"
definition bar_gap_x :: int where "bar_gap_x = 7"
definition leftmost_bar_x :: int where "leftmost_bar_x = icon_right - 3 * bar_gap_x"

definition signal_bars :: "wifi_indicator \<Rightarrow> draw_op list" where
  "signal_bars wifi =
     (let bars_on = (if wifi = WIFI_CONNECTED then 3 else if wifi = WIFI_CONNECTING then 1 else 0);
          bar_on_color = (if wifi = WIFI_CONNECTED then color_accent else color_warn) in
      map (\<lambda>i. let bar_h = 4 + i * 4; x = icon_right - (3 - i) * bar_gap_x; y = icon_base_y - bar_h in
        if i < bars_on then Op_fill x y bar_w bar_h bar_on_color else Op_outline x y bar_w bar_h color_muted) [0, 1, 2] @
      (if wifi = WIFI_DISCONNECTED
       then [Op_line (icon_right - 3 * bar_gap_x) (icon_base_y - 12) icon_right icon_base_y color_warn] else []))"

definition brand :: bytes where "brand = bytes_of ''KIMEX''"

definition queue_text :: "u32 \<Rightarrow> bytes" where
  "queue_text n = bytes_of ('' Q:'' @ dec (unat n))"

definition right_slot :: "wifi_indicator \<Rightarrow> bytes \<Rightarrow> bytes \<times> colour" where
  "right_slot wifi ssid =
     (if wifi = WIFI_DISCONNECTED then (bytes_of ''OFFLINE'', color_err)
      else
      let s = (if wifi = WIFI_UNKNOWN then [] else ssid) in
      (if s \<noteq> [] then take 4 s else bytes_of ''----'', color_muted))"

definition draw_status_bar :: "bytes \<Rightarrow> wifi_indicator \<Rightarrow> renderer \<Rightarrow> renderer" where
  "draw_status_bar ssid wifi r =
     (let queue = rn_offline_queue_size r;
          left1 = i16 (spacing_small + i16 (measure_text_width brand font_small));
          left_end = (if queue > 0 then i16 (left1 + i16 (measure_text_width (queue_text queue) font_small)) else left1);
          (right_text, right_color) = right_slot wifi ssid;
          x = i16 (leftmost_bar_x - spacing_small - measure_text_width right_text font_small);
          right_x = (if x < 0 then 0 else x);
          clock = (if rn_clock_text r \<noteq> [] then rn_clock_text r else bytes_of ''--:--'');
          clock_w = measure_text_width clock font_small;
          clock_x = i16 (if clock_w \<le> panel_width then (panel_width - clock_w) div 2 else - ((clock_w - panel_width) div 2)) in
      steps [emit_component_text spacing_small spacing_small brand color_brand font_small,
             only_if (queue > 0) (emit_component_text left1 spacing_small (queue_text queue) color_warn font_small),
             issue (signal_bars wifi),
             emit_component_text right_x spacing_small right_text right_color font_small,
             only_if (clock_x \<ge> left_end + spacing_normal \<and> clock_x + clock_w \<le> right_x - spacing_normal)
               (emit_component_text clock_x spacing_small clock
                  (if rn_clock_text r \<noteq> [] then color_fg else color_muted) font_small)] r)"

definition draw_wifi_indicator :: "bytes \<Rightarrow> wifi_indicator \<Rightarrow> renderer \<Rightarrow> renderer" where
  "draw_wifi_indicator ssid wifi = draw_status_bar ssid wifi"

end
