(* ===== verification/Screens.thy ===== *)
theory Screens
  imports Renderer Status_Report Ui_Bundle
begin

text \<open>
  The screens (the \<^verbatim>\<open>draw_\<close> functions of ui/renderer.cpp) as sequences of drawing
  steps, with the texts and positions of the source.  Numbers are printed into the
  C buffers of the source and cut to their size.  \<open>draw_screen\<close> draws what the
  kiosk has chosen.
\<close>

section \<open>Printing\<close>

definition c_buffer :: "nat \<Rightarrow> bytes \<Rightarrow> bytes" where
  "c_buffer n s = take (n - 1) s"

definition text_of :: "string \<Rightarrow> bytes" where
  "text_of s = bytes_of (c_str s)"

definition number_text :: "u32 \<Rightarrow> bytes" where
  "number_text n = bytes_of (dec_int (sint n))"

definition unsigned_text :: "u32 \<Rightarrow> bytes" where
  "unsigned_text n = bytes_of (dec (unat n))"

section \<open>Technical screens\<close>

definition draw_boot_screen :: "boot_diagnostics \<Rightarrow> bool \<Rightarrow> bool \<Rightarrow> renderer \<Rightarrow> renderer" where
  "draw_boot_screen d scanner_ok keypad_ok =
     steps
      [begin_screen ''boot'',
       emit_line 0 (vn [Asc ''MESFlow Kiosk Runtime v2'']) color_accent,
       emit_line 1 (c_buffer 64 ((vn [Asc ''fw '']) @ text_of (di_fw_version d))) color_fg,
       emit_line 2 (text_of (di_build_id d)) color_muted,
       emit_line 3 (c_buffer 64 (text_of (di_chip_model d) @ (vn [Asc '' x'']) @ bytes_of (dec_int (di_chip_cores d)) @ (vn [Asc '', flash '']) @
         unsigned_text (di_flash_mb d) @ (vn [Asc ''MB'']))) color_fg,
       emit_line 4 (c_buffer 64 ((vn [Asc ''psram '']) @ unsigned_text (di_psram_free d div 1024) @ (vn [Asc ''/'']) @
         unsigned_text (di_psram_total d div 1024) @ (vn [Asc '' KB free'']))) color_fg,
       emit_line 5 (c_buffer 64 ((vn [Asc ''heap '']) @ unsigned_text (di_free_heap d div 1024) @ (vn [Asc '' KB, block '']) @
         unsigned_text (di_largest_block d div 1024) @ (vn [Asc '' KB'']))) color_fg,
       emit_line 6 (c_buffer 64 ((vn [Asc ''reset: '']) @ text_of (di_reset_reason d))) color_fg,
       emit_line 7 (c_buffer 64 ((vn [Asc ''scanner: '']) @ (if scanner_ok then (vn [Asc ''OK'']) else (vn [Asc ''FAIL''])) @ (vn [Asc ''  keypad: '']) @
         (if keypad_ok then (vn [Asc ''OK'']) else (vn [Asc ''DEGRADED''])))) (if scanner_ok then color_accent else color_warn),
       end_screen]"

definition draw_keypad_calibration_prompt :: "char \<Rightarrow> u8 \<Rightarrow> u8 \<Rightarrow> renderer \<Rightarrow> renderer" where
  "draw_keypad_calibration_prompt key idx total_keys =
     steps
      [begin_screen ''keypad_calibration'',
       emit_line 0 (vn [Asc ''HI'', Uc 0x1EC6, Asc ''U CH'', Uc 0x1EC8, Asc ''NH B'', Uc 0xC0, Asc ''N PH'', Uc 0xCD, Asc ''M'']) color_accent,
       emit_line 2 (c_buffer 32 ((vn [Asc ''B'', Uc 0x1EA4, Asc ''M PH'', Uc 0xCD, Asc ''M '']) @ text_of [key])) color_fg,
       emit_line 4 (c_buffer 32 (bytes_of (dec (unat idx + 1)) @ (vn [Asc '' / '']) @ bytes_of (dec (unat total_keys)))) color_fg,
       emit_line 6 (vn [Asc ''B'', Uc 0x1EA5, Asc ''m v'', Uc 0xE0, Asc '' th'', Uc 0x1EA3, Asc '' t'', Uc 0x1EEB, Asc ''ng ph'', Uc 0xED, Asc ''m'']) color_fg,
       end_screen]"

definition draw_wifi_hold_progress :: "int \<Rightarrow> renderer \<Rightarrow> renderer" where
  "draw_wifi_hold_progress seconds_held =
     (if seconds_held \<le> 0 then steps []
      else steps
        [begin_screen ''wifi_hold_progress'',
         draw_title_2line (vn [Asc ''TI'', Uc 0x1EBE, Asc ''P T'', Uc 0x1EE4, Asc ''C GI'', Uc 0x1EEE, Asc '' *'']) (vn [Asc ''M'', Uc 0x1EDE, Asc '' MENU'']) 130 color_fg,
         end_screen])"

definition draw_wifi_portal_active :: "bytes \<Rightarrow> renderer \<Rightarrow> renderer" where
  "draw_wifi_portal_active ap_ssid =
     steps
      [begin_screen ''wifi_portal_active'',
       draw_title_line (vn [Asc ''C'', Uc 0xC0, Asc ''I '', Uc 0x110, Uc 0x1EB6, Asc ''T WI-FI'']) 70 color_accent,
       centered (vn [Asc ''K'', Uc 0x1EBF, Asc ''t n'', Uc 0x1ED1, Asc ''i:'']) 140 color_fg font_small,
       draw_fit_text ap_ssid 166 color_accent False,
       centered (vn [Asc ''Kh'', Uc 0xF4, Asc ''ng m'', Uc 0x1EAD, Asc ''t kh'', Uc 0x1EA9, Asc ''u'']) 210 color_muted font_small,
       centered (vn [Asc ''M'', Uc 0x1EDF, Asc '': 192.168.4.1'']) 236 color_muted font_small,
       end_screen]"

definition draw_wifi_portal_testing :: "bytes \<Rightarrow> renderer \<Rightarrow> renderer" where
  "draw_wifi_portal_testing target =
     steps
      [begin_screen ''wifi_portal_testing'',
       draw_title_line (vn [Uc 0x110, Asc ''ANG KI'', Uc 0x1EC2, Asc ''M TRA'']) 130 color_fg,
       draw_fit_text target 190 color_accent False,
       centered (vn [Asc ''Vui l'', Uc 0xF2, Asc ''ng '', Uc 0x111, Uc 0x1EE3, Asc ''i...'']) 230 color_muted font_small,
       end_screen]"

definition draw_wifi_portal_failed :: "bytes \<Rightarrow> renderer \<Rightarrow> renderer" where
  "draw_wifi_portal_failed message =
     steps
      [begin_screen ''wifi_portal_failed'',
       draw_title_line (vn [Asc ''TH'', Uc 0x1EA4, Asc ''T B'', Uc 0x1EA0, Asc ''I'']) 100 color_warn,
       draw_fit_text message 160 color_fg False,
       centered (vn [Asc ''M'', Uc 0x1EDF, Asc '' 192.168.4.1 '', Uc 0x111, Uc 0x1EC3, Asc '' th'', Uc 0x1EED, Asc '' l'', Uc 0x1EA1, Asc ''i'']) 220 color_muted font_small,
       end_screen]"

section \<open>Device information and recovery\<close>

definition info_row :: "int \<Rightarrow> bytes \<Rightarrow> bytes \<Rightarrow> colour \<Rightarrow> renderer \<Rightarrow> renderer" where
  "info_row i label val color =
     (let max_w = i16 (panel_width - 8 - margin_x - i16 (measure_text_width label 1)) in
      emit_component_text 8 (content_top + spacing_small + 18 * i) (label @ ellipsize_to_width val 1 max_w) color 1)"

definition or_else :: "bytes \<Rightarrow> bytes \<Rightarrow> bytes" where
  "or_else s t = (if s \<noteq> [] then s else t)"

record device_info =
  in_environment :: environment
  in_server_endpoint :: bytes
  in_server_version :: bytes
  in_device_id :: bytes
  in_hardware_id :: bytes
  in_firmware_version :: bytes
  in_wifi_ssid :: bytes
  in_wifi_ip :: bytes
  in_wifi_rssi :: int
  in_api_online :: bool
  in_last_sync_iso :: bytes
  in_offline_queue :: u32

definition draw_device_info_screen :: "device_info \<Rightarrow> bytes \<Rightarrow> wifi_indicator \<Rightarrow> renderer \<Rightarrow> renderer" where
  "draw_device_info_screen n ssid wifi =
     steps
      [begin_screen ''device_info'',
       info_row 0 (vn [Asc ''Env      : '']) (bytes_of (environment_to_string (in_environment n))) (environment_color (in_environment n)),
       info_row 1 (vn [Asc ''Server   : '']) (or_else (in_server_endpoint n) (vn [Asc ''(ch'', Uc 0x1B0, Asc ''a c'', Uc 0x1EA5, Asc ''u h'', Uc 0xEC, Asc ''nh)''])) color_fg,
       info_row 2 (vn [Asc ''Ver      : '']) (or_else (in_server_version n) (vn [Asc ''?''])) color_muted,
       info_row 3 (vn [Asc ''Device ID: '']) (or_else (in_device_id n) (vn [Asc ''(ch'', Uc 0x1B0, Asc ''a provision)''])) color_fg,
       info_row 4 (vn [Asc ''HW ID    : '']) (in_hardware_id n) color_muted,
       info_row 5 (vn [Asc ''Firmware : '']) (in_firmware_version n) color_muted,
       info_row 6 (vn [Asc ''WiFi     : '']) (or_else (in_wifi_ssid n) (vn [Asc ''--''])) color_fg,
       info_row 7 (vn [Asc ''IP       : '']) (or_else (in_wifi_ip n) (vn [Asc ''--''])) color_muted,
       info_row 8 (vn [Asc ''RSSI     : ''])
         (if in_wifi_rssi n \<noteq> 0 then bytes_of (dec_int (in_wifi_rssi n)) @ (vn [Asc '' dBm'']) else (vn [Asc ''--''])) color_muted,
       info_row 9 (vn [Asc ''API      : '']) (if in_api_online n then (vn [Asc ''ONLINE'']) else (vn [Asc ''OFFLINE'']))
         (if in_api_online n then color_accent else color_err),
       info_row 10 (vn [Asc ''Last sync: '']) (or_else (in_last_sync_iso n) (vn [Asc ''(ch'', Uc 0x1B0, Asc ''a)''])) color_muted,
       info_row 11 (vn [Asc ''Offline Q: '']) (unsigned_text (in_offline_queue n))
         (if in_offline_queue n > 0 then color_warn else color_muted),
       draw_footer (vn [Asc ''b'', Uc 0x1EA5, Asc ''t k'', Uc 0x1EF3, Asc '' ph'', Uc 0xED, Asc ''m'']) (vn [Asc ''quay l'', Uc 0x1EA1, Asc ''i'']),
       draw_status_bar ssid wifi,
       end_screen]"

definition draw_recovery_menu :: "bytes \<Rightarrow> wifi_indicator \<Rightarrow> renderer \<Rightarrow> renderer" where
  "draw_recovery_menu ssid wifi =
     steps
      [begin_screen ''recovery_menu'',
       centered (vn [Asc ''MENU KH'', Uc 0xD4, Asc ''I PH'', Uc 0x1EE4, Asc ''C'']) 40 color_accent font_large,
       emit_component_text 24 110 (vn [Asc ''1  Th'', Uc 0x1EED, Asc '' l'', Uc 0x1EA1, Asc ''i m'', Uc 0x1EA1, Asc ''ng'']) color_fg font_small,
       emit_component_text 24 132 (vn [Asc ''2  '', Uc 0x110, Uc 0x1ED3, Asc ''ng b'', Uc 0x1ED9, Asc '' l'', Uc 0x1EA1, Asc ''i'']) color_fg font_small,
       emit_component_text 24 154 (vn [Asc ''3  C'', Uc 0xE0, Asc ''i '', Uc 0x111, Uc 0x1EB7, Asc ''t Wi-Fi'']) color_fg font_small,
       emit_component_text 24 176 (vn [Asc ''4  Quay l'', Uc 0x1EA1, Asc ''i'']) color_fg font_small,
       emit_component_text 24 198 (vn [Asc ''5  Kh'', Uc 0x1EDF, Asc ''i '', Uc 0x111, Uc 0x1ED9, Asc ''ng l'', Uc 0x1EA1, Asc ''i'']) color_fg font_small,
       emit_component_text 24 220 (vn [Asc ''6  Th'', Uc 0xF4, Asc ''ng tin thi'', Uc 0x1EBF, Asc ''t b'', Uc 0x1ECB]) color_fg font_small,
       draw_footer (vn [Asc ''* gi'', Uc 0x1EEF, Asc '' l'', Uc 0xE2, Asc ''u h'', Uc 0x1A1, Asc ''n:'']) (vn [Asc ''Wi-Fi'']),
       draw_status_bar ssid wifi,
       end_screen]"

section \<open>Screens of the kiosk\<close>

definition draw_waiting_screen :: "bytes \<Rightarrow> wifi_indicator \<Rightarrow> renderer \<Rightarrow> renderer" where
  "draw_waiting_screen ssid wifi =
     steps
      [begin_screen ''waiting'',
       draw_title_2line (vn [Asc ''S'', Uc 0x1EB4, Asc ''N S'', Uc 0xC0, Asc ''NG'']) (vn [Asc ''QU'', Uc 0xC9, Asc ''T M'', Uc 0xC3]) 130 color_fg,
       draw_status_bar ssid wifi,
       end_screen]"

definition draw_scan_received :: "bytes \<Rightarrow> bytes \<Rightarrow> wifi_indicator \<Rightarrow> renderer \<Rightarrow> renderer" where
  "draw_scan_received raw_code ssid wifi =
     steps
      [begin_screen ''scan_received'',
       draw_title_line (vn [Uc 0x110, Uc 0xC3, Asc '' NH'', Uc 0x1EAC, Asc ''N M'', Uc 0xC3]) 100 color_accent,
       draw_fit_text raw_code 160 color_fg False,
       centered (vn [Uc 0x110, Asc ''ang ki'', Uc 0x1EC3, Asc ''m tra...'']) 210 color_muted font_small,
       draw_status_bar ssid wifi,
       end_screen]"

definition draw_scan_result :: "bytes \<Rightarrow> bytes \<Rightarrow> bytes \<Rightarrow> bytes \<Rightarrow> wifi_indicator \<Rightarrow> renderer \<Rightarrow> renderer" where
  "draw_scan_result raw_code status_text error_code ssid wifi =
     steps
      [begin_screen ''scan_result'',
       draw_fit_text status_text 120 color_accent True,
       draw_fit_text raw_code 190 color_muted False,
       only_if (error_code \<noteq> []) (centered ((vn [Asc ''M'', Uc 0xE3, Asc '' l'', Uc 0x1ED7, Asc ''i: '']) @ error_code) 230 color_warn font_small),
       draw_status_bar ssid wifi,
       end_screen]"

definition draw_safe_mode_screen :: "bytes \<Rightarrow> bytes \<Rightarrow> wifi_indicator \<Rightarrow> renderer \<Rightarrow> renderer" where
  "draw_safe_mode_screen reason_code ssid wifi =
     steps
      [begin_screen ''safe_mode'',
       draw_title_line (vn [Asc ''KH'', Uc 0xD4, Asc ''I PH'', Uc 0x1EE4, Asc ''C'']) 90 color_err,
       draw_fit_text (or_else reason_code (vn [Asc ''Kh'', Uc 0xF4, Asc ''ng x'', Uc 0xE1, Asc ''c '', Uc 0x111, Uc 0x1ECB, Asc ''nh''])) 150 color_warn False,
       centered (vn [Uc 0x110, Asc ''ang t'', Uc 0x1EF1, Asc '' th'', Uc 0x1EED, Asc '' l'', Uc 0x1EA1, Asc ''i...'']) 210 color_muted font_small,
       draw_footer (vn [Asc ''* menu'']) (vn [Asc ''gi'', Uc 0x1EEF, Asc '' l'', Uc 0xE2, Asc ''u: Wi-Fi'']),
       draw_status_bar ssid wifi,
       end_screen]"

definition draw_server_mismatch_screen :: "environment \<Rightarrow> environment \<Rightarrow> bytes \<Rightarrow> wifi_indicator \<Rightarrow> renderer \<Rightarrow> renderer" where
  "draw_server_mismatch_screen expected actual ssid wifi =
     steps
      [begin_screen ''server_mismatch'',
       draw_title_line (vn [Asc ''SAI M'', Uc 0xD4, Asc ''I TR'', Uc 0x1AF, Uc 0x1EDC, Asc ''NG'']) 60 color_err,
       centered (vn [Asc ''C'', Uc 0x1EA7, Asc ''n:'']) 120 color_muted font_small,
       centered (bytes_of (environment_to_string expected)) 140 (environment_color expected) font_large,
       centered (vn [Asc ''Hi'', Uc 0x1EC7, Asc ''n t'', Uc 0x1EA1, Asc ''i:'']) 180 color_muted font_small,
       centered (bytes_of (environment_to_string actual)) 200 (environment_color actual) font_large,
       centered (vn [Asc ''KH'', Uc 0xD4, Asc ''NG CHO PH'', Uc 0xC9, Asc ''P THAO T'', Uc 0xC1, Asc ''C'']) 250 color_err font_small,
       draw_status_bar ssid wifi,
       end_screen]"

definition identity_texts :: "provisioning_state \<Rightarrow> bytes \<times> bytes" where
  "identity_texts s =
     (case s of
        UNPROVISIONED \<Rightarrow> ((vn [Asc ''CH'', Uc 0x1AF, Asc ''A C'', Uc 0x1EA4, Asc ''U H'', Uc 0xCC, Asc ''NH'']), (vn [Asc ''C'', Uc 0x1EA7, Asc ''n provision device_id'']))
      | PROVISIONING \<Rightarrow> ((vn [Asc ''CH'', Uc 0x1AF, Asc ''A C'', Uc 0x1EA4, Asc ''U H'', Uc 0xCC, Asc ''NH'']), (vn [Asc ''C'', Uc 0x1EA7, Asc ''n provision device_id'']))
      | SUSPENDED \<Rightarrow> ((vn [Asc ''T'', Uc 0x1EA0, Asc ''M D'', Uc 0x1EEA, Asc ''NG'']), (vn [Asc ''Li'', Uc 0xEA, Asc ''n h'', Uc 0x1EC7, Asc '' qu'', Uc 0x1EA3, Asc ''n tr'', Uc 0x1ECB, Asc '' vi'', Uc 0xEA, Asc ''n'']))
      | REVOKED \<Rightarrow> ((vn [Uc 0x110, Uc 0xC3, Asc '' THU H'', Uc 0x1ED2, Asc ''I'']), (vn [Asc ''Kh'', Uc 0xF4, Asc ''ng th'', Uc 0x1EC3, Asc '' k'', Uc 0x1EBF, Asc ''t n'', Uc 0x1ED1, Asc ''i backend'']))
      | ACTIVE \<Rightarrow> ((vn [Asc ''identity: ACTIVE'']), []))"

definition draw_identity_screen :: "provisioning_state \<Rightarrow> bytes \<Rightarrow> bytes \<Rightarrow> wifi_indicator \<Rightarrow> renderer \<Rightarrow> renderer" where
  "draw_identity_screen state hardware_id ssid wifi =
     (let (title, detail) = identity_texts state in
      steps
      [begin_screen ''identity'',
       draw_title_line title 90 color_warn,
       only_if (detail \<noteq> []) (draw_fit_text detail 150 color_fg False),
       draw_fit_text hardware_id 190 color_muted False,
       centered (vn [Asc ''Gi'', Uc 0x1EEF, Asc '' * 10s '', Uc 0x111, Uc 0x1EC3, Asc '' c'', Uc 0xE0, Asc ''i Wi-Fi'']) 236 color_muted font_small,
       draw_status_bar ssid wifi,
       end_screen])"

definition view_name :: "bool \<Rightarrow> string \<Rightarrow> bytes" where
  "view_name has name = (if has then text_of name else [])"

definition business_state_steps :: "state_snapshot \<Rightarrow> (renderer \<Rightarrow> renderer) list" where
  "business_state_steps s =
     (let v = ss_view s in
      case ss_state s of
        WAIT_EMPLOYEE \<Rightarrow>
          [begin_screen ''state_wait_employee'',
           draw_title_2line (vn [Asc ''QU'', Uc 0xC9, Asc ''T TH'', Uc 0x1EBA]) (vn [Asc ''NH'', Uc 0xC2, Asc ''N VI'', Uc 0xCA, Asc ''N'']) 130 color_fg]
      | WAIT_OPERATION \<Rightarrow>
          [begin_screen ''state_wait_operation'',
           draw_fit_text (if vm_has_employee_name v then text_of (vm_employee_name v) else (vn [Asc ''(nh'', Uc 0xE2, Asc ''n vi'', Uc 0xEA, Asc ''n)''])) 64 color_accent False,
           draw_title_2line (vn [Asc ''QU'', Uc 0xC9, Asc ''T M'', Uc 0xC3]) (vn [Asc ''C'', Uc 0xD4, Asc ''NG '', Uc 0x110, Asc ''O'', Uc 0x1EA0, Asc ''N'']) 150 color_fg,
           draw_footer [] (vn [Asc ''# H'', Uc 0x1EE7, Asc ''y''])]
      | SESSION_ACTIVE \<Rightarrow>
          (let emp = view_name (vm_has_employee_name v) (vm_employee_name v);
               op = view_name (vm_has_operation_name v) (vm_operation_name v) in
           [begin_screen ''state_session_active'',
            draw_title_line (vn [Uc 0x110, Asc ''ANG L'', Uc 0xC0, Asc ''M'']) 100 color_accent,
            only_if (emp \<noteq> []) (draw_fit_text emp 160 color_fg False),
            only_if (op \<noteq> []) (draw_fit_text op 186 color_muted False),
            centered (vn [Asc ''Qu'', Uc 0xE9, Asc ''t l'', Uc 0x1EA1, Asc ''i th'', Uc 0x1EBB, Asc '' '', Uc 0x111, Uc 0x1EC3, Asc '' k'', Uc 0x1EBF, Asc ''t th'', Uc 0xFA, Asc ''c'']) 230 color_muted font_small])
      | DEVICE_DISABLED \<Rightarrow>
          [begin_screen ''state_device_disabled'',
           draw_title_line (vn [Uc 0x110, Uc 0xC3, Asc '' V'', Uc 0xD4, Asc '' HI'', Uc 0x1EC6, Asc ''U H'', Uc 0xD3, Asc ''A'']) 130 color_warn,
           centered (vn [Asc ''Li'', Uc 0xEA, Asc ''n h'', Uc 0x1EC7, Asc '' qu'', Uc 0x1EA3, Asc ''n tr'', Uc 0x1ECB, Asc '' vi'', Uc 0xEA, Asc ''n'']) 190 color_fg font_small]
      | MAINTENANCE \<Rightarrow>
          [begin_screen ''state_maintenance'',
           draw_title_line (vn [Uc 0x110, Asc ''ANG B'', Uc 0x1EA2, Asc ''O TR'', Uc 0xCC]) 140 color_warn]
      | QUANTITY_INPUT \<Rightarrow>
          [begin_screen ''state_quantity_input_fallback'',
           draw_title_line (vn [Asc ''THI'', Uc 0x1EBE, Asc ''U D'', Uc 0x1EEE, Asc '' LI'', Uc 0x1EC6, Asc ''U'']) 140 color_warn]
      | UNSUPPORTED \<Rightarrow>
          [begin_screen ''state_unsupported'',
           draw_title_line (vn [Asc ''KH'', Uc 0xD4, Asc ''NG H'', Uc 0x1ED6, Asc '' TR'', Uc 0x1EE2]) 130 color_warn,
           centered (vn [Asc ''Firmware c'', Uc 0xF3, Asc '' th'', Uc 0x1EC3, Asc '' '', Uc 0x111, Uc 0xE3, Asc '' c'', Uc 0x169]) 190 color_fg font_small])"

definition draw_business_state ::
  "state_snapshot \<Rightarrow> bytes \<Rightarrow> bool \<Rightarrow> bytes \<Rightarrow> wifi_indicator \<Rightarrow> renderer \<Rightarrow> renderer" where
  "draw_business_state s message is_error ssid wifi =
     steps (business_state_steps s @
      [only_if (message \<noteq> []) (draw_fit_text message 254 (if is_error then color_warn else color_fg) False),
       draw_status_bar ssid wifi,
       end_screen])"

section \<open>Quantities\<close>

definition identity_line_text :: "view_model \<Rightarrow> bytes" where
  "identity_line_text v =
     (let emp = view_name (vm_has_employee_name v) (vm_employee_name v);
          op_code = view_name (vm_has_operation_code v) (vm_operation_code v) in
      emp @ (if op_code \<noteq> [] then (if emp \<noteq> [] then (vn [Asc '' '', Uc 0xB7, Asc '' '']) else []) @ op_code else []))"

definition draw_identity_line :: "view_model \<Rightarrow> int \<Rightarrow> colour \<Rightarrow> renderer \<Rightarrow> renderer" where
  "draw_identity_line v y_top color =
     only_if (identity_line_text v \<noteq> []) (draw_fit_text (identity_line_text v) y_top color False)"

definition transient_y :: int where
  "transient_y = footer_divider_y - line_height_small - spacing_small"

definition draw_quantity_input_screen ::
  "view_model \<Rightarrow> bytes \<Rightarrow> bytes \<Rightarrow> bool \<Rightarrow> bytes \<Rightarrow> wifi_indicator \<Rightarrow> renderer \<Rightarrow> renderer" where
  "draw_quantity_input_screen v digits message is_error ssid wifi =
     steps
      [begin_screen ''state_quantity_input'',
       draw_identity_line v (content_top + spacing_small) color_muted,
       centered (vn [Asc ''S'', Uc 0x1ED0, Asc '' L'', Uc 0x1AF, Uc 0x1EE2, Asc ''NG T'', Uc 0x1ED0, Asc ''T'']) 74 color_fg font_small,
       draw_value_giant (or_else digits (vn [Asc ''0''])) 130 color_accent,
       only_if (message \<noteq> []) (draw_fit_text message transient_y (if is_error then color_warn else color_fg) False),
       draw_footer (vn [Asc ''* X'', Uc 0xD3, Asc ''A'']) (vn [Asc ''# TI'', Uc 0x1EBE, Asc ''P'']),
       draw_status_bar ssid wifi,
       end_screen]"

definition draw_quantity_defect_screen ::
  "view_model \<Rightarrow> bytes \<Rightarrow> u32 \<Rightarrow> bytes \<Rightarrow> bool \<Rightarrow> bytes \<Rightarrow> wifi_indicator \<Rightarrow> renderer \<Rightarrow> renderer" where
  "draw_quantity_defect_screen v digits good_so_far message is_error ssid wifi =
     steps
      [begin_screen ''state_quantity_defect'',
       draw_identity_line v (content_top + spacing_small) color_muted,
       centered (vn [Asc ''S'', Uc 0x1ED0, Asc '' L'', Uc 0x1AF, Uc 0x1EE2, Asc ''NG L'', Uc 0x1ED6, Asc ''I'']) 74 color_err font_small,
       centered (c_buffer 24 ((vn [Uc 0x110, Uc 0x1EA1, Asc ''t: '']) @ number_text good_so_far)) 96 color_muted font_small,
       draw_value_giant (or_else digits (vn [Asc ''0''])) 140 color_err,
       only_if (message \<noteq> []) (draw_fit_text message transient_y (if is_error then color_err else color_fg) False),
       draw_footer (vn [Asc ''* X'', Uc 0xD3, Asc ''A'']) (vn [Asc ''# TI'', Uc 0x1EBE, Asc ''P'']),
       draw_status_bar ssid wifi,
       end_screen]"

definition draw_rework_decision_screen ::
  "view_model \<Rightarrow> u32 \<Rightarrow> u32 \<Rightarrow> bytes \<Rightarrow> bool \<Rightarrow> bytes \<Rightarrow> wifi_indicator \<Rightarrow> renderer \<Rightarrow> renderer" where
  "draw_rework_decision_screen v good_so_far defect_so_far message is_error ssid wifi =
     steps
      [begin_screen ''state_rework_decision'',
       draw_identity_line v (content_top + spacing_small) color_muted,
       draw_fit_text (c_buffer 32 ((vn [Uc 0x110, Uc 0x1EA1, Asc ''t: '']) @ number_text good_so_far @ (vn [Asc ''   L'', Uc 0x1ED7, Asc ''i: '']) @ number_text defect_so_far)) 74 color_muted False,
       draw_title_2line (vn [Asc ''L'', Uc 0x1ED6, Asc ''I C'', Uc 0xD3]) (vn [Asc ''S'', Uc 0x1EEC, Asc ''A '', Uc 0x110, Uc 0x1AF, Uc 0x1EE2, Asc ''C?'']) 128 color_warn,
       centered (vn [Asc ''1  C'', Uc 0xD3]) 226 color_accent font_small,
       centered (vn [Asc ''2 / #  KH'', Uc 0xD4, Asc ''NG'']) 250 color_fg font_small,
       only_if (message \<noteq> []) (draw_fit_text message transient_y (if is_error then color_err else color_fg) False),
       draw_status_bar ssid wifi,
       end_screen]"

definition draw_quantity_rework_screen ::
  "view_model \<Rightarrow> bytes \<Rightarrow> u32 \<Rightarrow> bytes \<Rightarrow> bool \<Rightarrow> bytes \<Rightarrow> wifi_indicator \<Rightarrow> renderer \<Rightarrow> renderer" where
  "draw_quantity_rework_screen v digits defect_so_far message is_error ssid wifi =
     steps
      [begin_screen ''state_quantity_rework'',
       draw_identity_line v (content_top + spacing_small) color_muted,
       centered (vn [Asc ''S'', Uc 0x1ED0, Asc '' L'', Uc 0x1AF, Uc 0x1EE2, Asc ''NG S'', Uc 0x1EEC, Asc ''A'']) 74 color_accent font_small,
       centered (c_buffer 32 ((vn [Asc ''T'', Uc 0x1ED1, Asc ''i '', Uc 0x111, Asc ''a: '']) @ number_text defect_so_far)) 96 color_muted font_small,
       draw_value_giant (or_else digits (vn [Asc ''0''])) 140 color_accent,
       only_if (message \<noteq> []) (draw_fit_text message transient_y (if is_error then color_err else color_fg) False),
       draw_footer (vn [Asc ''* X'', Uc 0xD3, Asc ''A'']) (vn [Asc ''# TI'', Uc 0x1EBE, Asc ''P'']),
       draw_status_bar ssid wifi,
       end_screen]"

text \<open>The three result lines the summary and the finish screen share.\<close>

definition quantity_lines :: "u32 \<Rightarrow> u32 \<Rightarrow> u32 \<Rightarrow> (renderer \<Rightarrow> renderer) list" where
  "quantity_lines good defect rework =
     [centered (c_buffer 24 ((vn [Uc 0x110, Uc 0x1EA1, Asc ''t: '']) @ number_text good)) 150 color_accent font_large,
      centered (c_buffer 24 ((vn [Asc ''L'', Uc 0x1ED7, Asc ''i: '']) @ number_text defect)) 178 (if sint defect > 0 then color_err else color_muted) font_large,
      only_if (sint rework > 0) (centered (c_buffer 24 ((vn [Asc ''S'', Uc 0x1EED, Asc ''a: '']) @ number_text rework)) 206 color_warn font_large)]"

definition draw_quantity_summary_screen ::
  "view_model \<Rightarrow> u32 \<Rightarrow> u32 \<Rightarrow> u32 \<Rightarrow> bytes \<Rightarrow> bool \<Rightarrow> bytes \<Rightarrow> wifi_indicator \<Rightarrow> renderer \<Rightarrow> renderer" where
  "draw_quantity_summary_screen v good defect rework message is_error ssid wifi =
     steps
      ([begin_screen ''state_quantity_summary'',
        draw_identity_line v (content_top + spacing_small) color_muted,
        draw_title_2line (vn [Asc ''X'', Uc 0xC1, Asc ''C NH'', Uc 0x1EAC, Asc ''N'']) (vn [Asc ''S'', Uc 0x1ED0, Asc '' L'', Uc 0x1AF, Uc 0x1EE2, Asc ''NG'']) 74 color_accent] @
       quantity_lines good defect rework @
       [only_if (message \<noteq> []) (draw_fit_text message transient_y (if is_error then color_err else color_fg) False),
        draw_footer (vn [Asc ''0 S'', Uc 0x1EEC, Asc ''A L'', Uc 0x1EA0, Asc ''I'']) (vn [Asc ''# X'', Uc 0xC1, Asc ''C NH'', Uc 0x1EAC, Asc ''N'']),
        draw_status_bar ssid wifi,
        end_screen])"

definition draw_finish_result_screen ::
  "bytes \<Rightarrow> bytes \<Rightarrow> u32 \<Rightarrow> u32 \<Rightarrow> u32 \<Rightarrow> bytes \<Rightarrow> wifi_indicator \<Rightarrow> renderer \<Rightarrow> renderer" where
  "draw_finish_result_screen employee_name operation_code good defect rework ssid wifi =
     steps
      ([begin_screen ''finish_result'',
        draw_title_2line (vn [Asc ''HO'', Uc 0xC0, Asc ''N T'', Uc 0x1EA4, Asc ''T'']) (vn []) 60 color_accent,
        only_if (employee_name \<noteq> []) (draw_fit_text employee_name (60 + line_height_large) color_fg False),
        only_if (operation_code \<noteq> [])
          (draw_fit_text operation_code (60 + line_height_large + line_height_small) color_muted False)] @
       quantity_lines good defect rework @
       [draw_status_bar ssid wifi,
        end_screen])"

section \<open>Errors\<close>

definition draw_error_view :: "bytes \<Rightarrow> bool \<Rightarrow> bytes \<Rightarrow> wifi_indicator \<Rightarrow> renderer \<Rightarrow> renderer" where
  "draw_error_view message is_network_error ssid wifi =
     steps
      [begin_screen (if is_network_error then ''error_view_network'' else ''error_view_business''),
       issue [Op_fill 0 header_h panel_width (header_h + 8) color_err],
       emit_component_text margin_x (header_h + spacing_small)
         (if is_network_error then (vn [Asc ''M'', Uc 0x1EA4, Asc ''T K'', Uc 0x1EBE, Asc ''T N'', Uc 0x1ED0, Asc ''I'']) else (vn [Asc ''L'', Uc 0x1ED6, Asc ''I''])) Ili_white font_small,
       draw_fit_text message 90 color_err False,
       draw_footer (vn [Asc ''* QUAY L'', Uc 0x1EA0, Asc ''I'']) [],
       draw_status_bar ssid wifi,
       end_screen]"

definition draw_resyncing_screen :: "bytes \<Rightarrow> wifi_indicator \<Rightarrow> renderer \<Rightarrow> renderer" where
  "draw_resyncing_screen ssid wifi =
     steps
      [begin_screen ''resyncing'',
       draw_title_line (vn [Uc 0x110, Asc ''ANG '', Uc 0x110, Uc 0x1ED2, Asc ''NG B'', Uc 0x1ED8]) 140 color_warn,
       draw_status_bar ssid wifi,
       end_screen]"

section \<open>Screens of a bundle\<close>

text \<open>Centred text shrinks until it fits or has the smallest size.\<close>

function shrink_loop :: "bytes \<Rightarrow> int \<Rightarrow> u8 \<Rightarrow> u8" where
  "shrink_loop txt max_w fs =
     (if fs > 1 \<and> measure_text_width txt fs > u16_of max_w then shrink_loop txt max_w (fs - 1) else fs)"
  by pat_completeness auto

termination
proof (relation "measure (\<lambda>(s, m, fs). unat fs)")
  fix s m and fs :: u8
  assume "1 < fs \<and> u16_of m < measure_text_width s fs"
  then have "fs \<noteq> 0"
    by auto
  then show "((s, m, fs - 1), s, m, fs) \<in> measure (\<lambda>(s, m, fs). unat fs)"
    by (simp add: unat_minus_one unat_gt_0)
qed simp

declare shrink_loop.simps [simp del]

definition draw_bundle_text :: "ui_component \<Rightarrow> bytes \<Rightarrow> renderer \<Rightarrow> renderer" where
  "draw_bundle_text uc txt =
     (let color = parse_hex_color (uc_color uc);
          fs0 = (if uc_font_size uc = 0 then 1 else uc_font_size uc);
          max_w = panel_width - 8;
          is_center = (uc_align uc = ''center'');
          fs = (if is_center then shrink_loop txt max_w fs0 else fs0);
          x0 = sint (uc_x uc); y0 = sint (uc_y uc) in
      if is_center \<and> measure_text_width txt fs > u16_of max_w then
        (let (line1, line2) = wrap_and_ellipsize_two_lines txt fs max_w in
         steps [centered line1 y0 color fs,
                only_if (line2 \<noteq> []) (centered line2 (y0 + line_height_small) color fs)])
      else
        (let x = (if is_center then centered_x txt fs
                  else if uc_align uc = ''right''
                  then (let xr = i16 (panel_width - measure_text_width txt fs) in if xr < 0 then 0 else xr)
                  else x0) in
         emit_component_text x y0 txt color fs))"

definition draw_bundle_component :: "view_model \<Rightarrow> string \<Rightarrow> ui_component \<Rightarrow> renderer \<Rightarrow> renderer" where
  "draw_bundle_component v digits uc =
     (let color = parse_hex_color (uc_color uc) in
      case uc_type uc of
        UI_TEXT \<Rightarrow> draw_bundle_text uc (text_of (resolve_ui_tokens v digits (uc_text uc)))
      | UI_RECT \<Rightarrow> issue [Op_fill (sint (uc_x uc)) (sint (uc_y uc)) (sint (uc_w uc)) (sint (uc_h uc)) color]
      | UI_LINE \<Rightarrow> issue [Op_hline (sint (uc_x uc)) (sint (uc_y uc)) (sint (uc_w uc)) color]
      | UI_UNSUPPORTED \<Rightarrow> steps [])"

definition draw_from_bundle ::
  "ui_screen \<Rightarrow> view_model \<Rightarrow> string \<Rightarrow> bytes \<Rightarrow> bool \<Rightarrow> bytes \<Rightarrow> wifi_indicator \<Rightarrow> renderer \<Rightarrow> renderer" where
  "draw_from_bundle scr v digits message is_error ssid wifi =
     steps
      ([begin_screen (c_str (us_screen_id scr))] @
       map (draw_bundle_component v digits) (us_components scr) @
       [only_if (message \<noteq> []) (emit_line 6 message (if is_error then color_warn else color_fg)),
        only_if (us_screen_id scr = ''state_wait_operation'') (draw_footer [] (vn [Asc ''# H'', Uc 0x1EE7, Asc ''y''])),
        draw_status_bar ssid wifi,
        end_screen])"

section \<open>What the kiosk shows\<close>

definition message_text :: "ui_message \<Rightarrow> bytes" where
  "message_text m =
     (case m of
        No_message \<Rightarrow> []
      | Server_text s \<Rightarrow> bytes_of s
      | Msg_backend_not_set \<Rightarrow> (vn [Asc ''Ch'', Uc 0x1B0, Asc ''a c'', Uc 0x1EA5, Asc ''u h'', Uc 0xEC, Asc ''nh m'', Uc 0xE1, Asc ''y ch'', Uc 0x1EE7, Asc '' (api-endpoint)''])
      | Msg_journal_full \<Rightarrow> (vn [Asc ''B'', Uc 0x1ED8, Asc '' NH'', Uc 0x1EDA, Asc '' CH'', Uc 0x1EDC, Asc '' G'', Uc 0x1EEC, Asc ''I '', Uc 0x110, Uc 0xC3, Asc '' '', Uc 0x110, Uc 0x1EA6, Asc ''Y - CH'', Uc 0x1AF, Asc ''A '', Uc 0x111, Uc 0x1B0, Uc 0x1EE3, Asc ''c l'', Uc 0x1B0, Asc ''u''])
      | Msg_sending \<Rightarrow> (vn [Uc 0x110, Asc ''ang g'', Uc 0x1EED, Asc ''i...''])
      | Msg_saved_will_sync \<Rightarrow> (vn [Uc 0x110, Uc 0xC3, Asc '' L'', Uc 0x1AF, Asc ''U / S'', Uc 0x1EBC, Asc '' '', Uc 0x110, Uc 0x1ED2, Asc ''NG B'', Uc 0x1ED8, Asc '' KHI C'', Uc 0xD3, Asc '' K'', Uc 0x1EBE, Asc ''T N'', Uc 0x1ED0, Asc ''I''])
      | Msg_enter_quantity \<Rightarrow> (vn [Asc ''Vui l'', Uc 0xF2, Asc ''ng nh'', Uc 0x1EAD, Asc ''p s'', Uc 0x1ED1, Asc '' l'', Uc 0x1B0, Uc 0x1EE3, Asc ''ng''])
      | Msg_rework_too_large \<Rightarrow> (vn [Asc ''S'', Uc 0x1EEC, Asc ''A KH'', Uc 0xD4, Asc ''NG '', Uc 0x110, Uc 0x1AF, Uc 0x1EE2, Asc ''C L'', Uc 0x1EDA, Asc ''N H'', Uc 0x1A0, Asc ''N L'', Uc 0x1ED6, Asc ''I''])
      | Msg_no_wifi \<Rightarrow> (vn [Asc ''Kh'', Uc 0xF4, Asc ''ng c'', Uc 0xF3, Asc '' Wi-Fi - CH'', Uc 0x1AF, Asc ''A '', Uc 0x111, Uc 0x1B0, Uc 0x1EE3, Asc ''c l'', Uc 0x1B0, Asc ''u''])
      | Msg_not_allowed \<Rightarrow> (vn [Asc ''THI'', Uc 0x1EBE, Asc ''T B'', Uc 0x1ECA, Asc '' KH'', Uc 0xD4, Asc ''NG '', Uc 0x110, Uc 0x1AF, Uc 0x1EE2, Asc ''C PH'', Uc 0xC9, Asc ''P - Li'', Uc 0xEA, Asc ''n h'', Uc 0x1EC7, Asc '' qu'', Uc 0x1EA3, Asc ''n tr'', Uc 0x1ECB])
      | Msg_server_error \<Rightarrow> (vn [Asc ''SERVER '', Uc 0x110, Asc ''ANG L'', Uc 0x1ED6, Asc ''I - Th'', Uc 0x1EED, Asc '' l'', Uc 0x1EA1, Asc ''i sau''])
      | Msg_connection_error \<Rightarrow> (vn [Asc ''L'', Uc 0x1ED7, Asc ''i k'', Uc 0x1EBF, Asc ''t n'', Uc 0x1ED1, Asc ''i m'', Uc 0xE1, Asc ''y ch'', Uc 0x1EE7, Asc '' - CH'', Uc 0x1AF, Asc ''A '', Uc 0x111, Uc 0x1B0, Uc 0x1EE3, Asc ''c l'', Uc 0x1B0, Asc ''u''])
      | Msg_bad_response \<Rightarrow> (vn [Asc ''Ph'', Uc 0x1EA3, Asc ''n h'', Uc 0x1ED3, Asc ''i kh'', Uc 0xF4, Asc ''ng h'', Uc 0x1EE3, Asc ''p l'', Uc 0x1EC7, Asc '' t'', Uc 0x1EEB, Asc '' server''])
      | Msg_state_unsupported \<Rightarrow> (vn [Asc ''Tr'', Uc 0x1EA1, Asc ''ng th'', Uc 0xE1, Asc ''i server kh'', Uc 0xF4, Asc ''ng '', Uc 0x111, Uc 0x1B0, Uc 0x1EE3, Asc ''c h'', Uc 0x1ED7, Asc '' tr'', Uc 0x1EE3, Asc '' (firmware c'', Uc 0x169, Asc ''?)''])
      | Msg_device_rejected \<Rightarrow> (vn [Asc ''Thi'', Uc 0x1EBF, Asc ''t b'', Uc 0x1ECB, Asc '' b'', Uc 0x1ECB, Asc '' t'', Uc 0x1EEB, Asc '' ch'', Uc 0x1ED1, Asc ''i b'', Uc 0x1EDF, Asc ''i server''])
      | Msg_not_ready \<Rightarrow> (vn [Asc ''Thi'', Uc 0x1EBF, Asc ''t b'', Uc 0x1ECB, Asc '' ch'', Uc 0x1B0, Asc ''a s'', Uc 0x1EB5, Asc ''n s'', Uc 0xE0, Asc ''ng (xem m'', Uc 0xE0, Asc ''n h'', Uc 0xEC, Asc ''nh ch'', Uc 0xED, Asc ''nh)'']))"

definition draw_screen :: "screen \<Rightarrow> bytes \<Rightarrow> wifi_indicator \<Rightarrow> renderer \<Rightarrow> renderer" where
  "draw_screen s ssid wifi =
     (case s of
        No_screen \<Rightarrow> steps []
      | Scan_received raw \<Rightarrow> draw_scan_received (bytes_of raw) ssid wifi
      | Scan_result raw msg code \<Rightarrow> draw_scan_result (bytes_of raw) (message_text msg) (bytes_of code) ssid wifi
      | Waiting \<Rightarrow> draw_waiting_screen ssid wifi
      | Resyncing \<Rightarrow> draw_resyncing_screen ssid wifi
      | Safe_mode reason \<Rightarrow> draw_safe_mode_screen (bytes_of reason) ssid wifi
      | Server_mismatch expected actual \<Rightarrow> draw_server_mismatch_screen expected actual ssid wifi
      | Identity state hw \<Rightarrow> draw_identity_screen state (bytes_of hw) ssid wifi
      | Error_view msg net \<Rightarrow> draw_error_view (message_text msg) net ssid wifi
      | Finish_result emp op good defect rework \<Rightarrow>
          draw_finish_result_screen (bytes_of emp) (bytes_of op) good defect rework ssid wifi
      | From_bundle u v digits msg err \<Rightarrow> draw_from_bundle u v (c_str digits) (message_text msg) err ssid wifi
      | Business snap msg err \<Rightarrow> draw_business_state snap (message_text msg) err ssid wifi
      | Quantity_input v digits msg err \<Rightarrow> draw_quantity_input_screen v (text_of digits) (message_text msg) err ssid wifi
      | Quantity_defect v digits good msg err \<Rightarrow>
          draw_quantity_defect_screen v (text_of digits) good (message_text msg) err ssid wifi
      | Quantity_rework_decision v good defect msg err \<Rightarrow>
          draw_rework_decision_screen v good defect (message_text msg) err ssid wifi
      | Quantity_rework v digits defect msg err \<Rightarrow>
          draw_quantity_rework_screen v (text_of digits) defect (message_text msg) err ssid wifi
      | Quantity_summary v good defect rework msg err \<Rightarrow>
          draw_quantity_summary_screen v good defect rework (message_text msg) err ssid wifi)"

end
