(* ===== verification/Renderer_Facts.thy ===== *)
theory Renderer_Facts
  imports Renderer Kiosk_Durable
begin

text \<open>
  What the renderer keeps and guarantees: the shape of its record under every
  drawing step, the width of fixed texts and numbers, and steps that record each
  component they draw, inside the panel.
\<close>

section \<open>The renderer's record keeps its type\<close>

definition int16 :: "int \<Rightarrow> bool" where "int16 n = (- 32768 \<le> n \<and> n < 32768)"
definition uint16 :: "int \<Rightarrow> bool" where "uint16 n = (0 \<le> n \<and> n < 65536)"

definition component_typed :: "drawn_component \<Rightarrow> bool" where
  "component_typed c =
     (int16 (dc_x c) \<and> int16 (dc_y c) \<and> int16 (dc_w c) \<and> int16 (dc_h c) \<and> uint16 (dc_measured_w c))"

definition renderer_ok :: "renderer \<Rightarrow> bool" where
  "renderer_ok r =
     (length (rn_lines r) = max_lines \<and> list_all (\<lambda>l. uint16 (dl_measured_w l)) (rn_lines r) \<and>
      length (rn_components r) = max_components \<and> list_all component_typed (rn_components r) \<and>
      rn_next_component r \<le> max_components \<and>
      (\<forall>i<max_components. dc_used (rn_components r ! i) = (i < rn_next_component r)))"

definition keeps_type :: "(renderer \<Rightarrow> renderer) \<Rightarrow> bool" where
  "keeps_type f = (\<forall>r. renderer_ok r \<longrightarrow> renderer_ok (f r))"

lemma keeps_typeI: "(\<And>r. renderer_ok r \<Longrightarrow> renderer_ok (f r)) \<Longrightarrow> keeps_type f"
  by (simp add: keeps_type_def)

lemma keeps_typeD: "keeps_type f \<Longrightarrow> renderer_ok r \<Longrightarrow> renderer_ok (f r)"
  by (simp add: keeps_type_def)

named_theorems type_intros \<open>drawing steps that keep the type of the renderer\<close>

lemma new_renderer_ok: "renderer_ok new_renderer"
  by (simp add: renderer_ok_def new_renderer_def new_line_def new_component_def component_typed_def
      int16_def uint16_def max_lines_def max_components_def list_all_iff)

lemma uint16_measure [simp]: "uint16 (measure_text_width s fs)"
  using measure_range [of s fs] by (simp add: uint16_def)

lemma component_of_typed: "int16 x \<Longrightarrow> int16 y \<Longrightarrow> component_typed (component_of x y s c fs)"
  using i16_range by (simp add: component_of_def component_typed_def split_beta Let_def int16_def)
    (simp add: uint16_def)

lemma issue_type [type_intros]: "keeps_type (issue ops)"
  by (simp add: keeps_type_def issue_def renderer_ok_def)

lemma end_screen_type [type_intros]: "keeps_type end_screen"
  by (simp add: keeps_type_def end_screen_def renderer_ok_def)

lemma steps_type [type_intros]: "list_all keeps_type fs \<Longrightarrow> keeps_type (steps fs)"
proof -
  have "list_all keeps_type fs \<Longrightarrow> renderer_ok r \<Longrightarrow> renderer_ok (fold (\<lambda>f. f) fs r)" for r
    by (induction fs arbitrary: r) (auto simp: keeps_type_def)
  then show "list_all keeps_type fs \<Longrightarrow> keeps_type (steps fs)"
    by (simp add: keeps_type_def steps_def)
qed

lemma list_all_intros [type_intros]: "list_all P []" "P x \<Longrightarrow> list_all P xs \<Longrightarrow> list_all P (x # xs)"
  "list_all P xs \<Longrightarrow> list_all P ys \<Longrightarrow> list_all P (xs @ ys)"
  by simp_all

lemma only_if_type [type_intros]: "keeps_type f \<Longrightarrow> keeps_type (only_if b f)"
  by (simp add: keeps_type_def only_if_def)

lemma begin_screen_type [type_intros]: "keeps_type (begin_screen i)"
proof (rule keeps_typeI)
  fix r assume r: "renderer_ok r"
  have "renderer_ok (r\<lparr>rn_screen_id := i,
      rn_lines := map (\<lambda>l. l\<lparr>dl_used := False, dl_text := [], dl_color := Rgb565 0\<rparr>) (rn_lines r),
      rn_components := map (\<lambda>c. c\<lparr>dc_used := False, dc_text := [], dc_color := Rgb565 0\<rparr>) (rn_components r),
      rn_next_component := 0\<rparr>)"
    using r by (auto simp: renderer_ok_def list_all_iff component_typed_def)
  then show "renderer_ok (begin_screen i r)"
    using keeps_typeD [OF issue_type] by (simp add: begin_screen_def)
qed

lemma emit_line_type [type_intros]: "keeps_type (emit_line row s c)"
  by (auto simp: keeps_type_def emit_line_def issue_def Let_def renderer_ok_def list_all_length nth_list_update uint16_def
      measure_range)

lemma emit_type [type_intros]: "keeps_type (emit_component_text x y s c fs)"
proof (rule keeps_typeI)
  fix r assume "renderer_ok r"
  moreover have "component_typed (component_of (i16 x) (i16 y) s c f)" for f
    using i16_range by (intro component_of_typed) (simp_all add: int16_def)
  moreover have "dc_used (component_of x y s c f)" for x y f
    by (simp add: component_of_def split_beta Let_def)
  ultimately show "renderer_ok (emit_component_text x y s c fs r)"
    by (auto simp: emit_component_text_def issue_def Let_def renderer_ok_def list_all_length nth_list_update)
qed

lemma layout_type [type_intros]:
  "keeps_type (emit_transient_message x y s c)" "keeps_type (centered s y c fs)" "keeps_type (draw_title_line s y c)"
  "keeps_type (draw_title_2line s t y c)" "keeps_type (draw_value_giant s y c)" "keeps_type (draw_footer s t)"
  by (auto simp: emit_transient_message_def centered_def draw_title_line_def draw_title_2line_def draw_value_giant_def
      draw_footer_def intro!: type_intros)

lemma fit_text_type [type_intros]: "keeps_type (draw_fit_text s y c large)"
proof (rule keeps_typeI)
  fix r assume "renderer_ok r"
  moreover have "keeps_type (steps [centered l y c font_small, only_if b (centered m z c font_small)])" for l b m z
    by (intro type_intros)
  ultimately show "renderer_ok (draw_fit_text s y c large r)"
    by (simp add: draw_fit_text_def keeps_typeD layout_type Let_def split_beta)
qed

lemma status_bar_type [type_intros]: "keeps_type (draw_status_bar ssid wifi)"
proof (rule keeps_typeI)
  fix r assume "renderer_ok r"
  moreover have "keeps_type (steps [emit_component_text a b c d e, only_if q (emit_component_text f b g h e), issue i,
      emit_component_text j b k l e, only_if m (emit_component_text n b p o' e)])" for a b c d e f g h i j k l m n o' p q
    by (intro type_intros)
  ultimately show "renderer_ok (draw_status_bar ssid wifi r)"
    by (simp add: draw_status_bar_def keeps_typeD Let_def split_beta)
qed


section \<open>Widths of fixed texts and numbers\<close>

definition body_width :: "int list \<Rightarrow> int" where "body_width = row_width glyph_rows_body 7"
definition large_width :: "int list \<Rightarrow> int" where "large_width = row_width glyph_rows_large 11"
definition small_width :: "int list \<Rightarrow> int" where "small_width = row_width glyph_rows_small 5"

definition encode :: "int list \<Rightarrow> bytes" where
  "encode cs = concat (map (\<lambda>n. utf8_encode (nat n)) cs)"

lemma vn_encode: "vn ps = encode (part_codes ps)"
  by (simp add: vn_def encode_def)

lemma encode_append [simp]: "encode (cs @ ds) = encode cs @ encode ds"
  by (simp add: encode_def)

lemma length_encode: "length (encode cs) \<le> 4 * length cs"
  by (induction cs) (auto simp: encode_def utf8_encode_def)

lemma text_advance_encode:
  assumes "codes_ok cs"
  shows "text_advance vn_font_small (encode cs) = small_width cs"
    "text_advance vn_font_body (encode cs) = body_width cs"
    "text_advance vn_font_large (encode cs) = large_width cs"
  using text_advance_codes [OF fonts_rows(1) assms, of "[]"] text_advance_codes [OF fonts_rows(2) assms, of "[]"]
    text_advance_codes [OF fonts_rows(3) assms, of "[]"]
  by (simp_all add: encode_def small_width_def body_width_def large_width_def text_advance.simps [of _ "[]"] peek_def
      vn_font_small_def vn_font_body_def vn_font_large_def)

lemma measure_encoded:
  assumes "codes_ok cs" "length cs \<le> 700"
  shows "measure_text_width (encode cs) 1 = small_width cs" "measure_text_width (encode cs) 2 = body_width cs"
    "measure_text_width (encode cs) 3 = large_width cs"
    "measure_text_width (encode cs) 6 = u16_of (2 * large_width cs)"
proof -
  have l: "length (encode cs) \<le> 2849" "length (encode cs) \<le> 1000000"
    using length_encode [of cs] assms(2) by simp_all
  show "measure_text_width (encode cs) 1 = small_width cs" "measure_text_width (encode cs) 2 = body_width cs"
    "measure_text_width (encode cs) 3 = large_width cs"
    using measured [of _ "encode cs"] l by (simp_all add: text_width_def text_advance_encode [OF assms(1)])
  show "measure_text_width (encode cs) 6 = u16_of (2 * large_width cs)"
    using measured_wrapped [OF l(2), of 6] by (simp add: text_width_def text_advance_encode [OF assms(1)] mult.commute)
qed

section \<open>Advances of the characters of the fixed texts\<close>

text \<open>One pass over a table checks the advances of an ascending list of code points;
  the results are rewrite rules, so that the width of a fixed text is computed by
  rewriting.\<close>

fun advances_at :: "glyph_row list \<Rightarrow> (int \<times> int) list \<Rightarrow> bool" where
  "advances_at rs [] = True"
| "advances_at [] (q # qs) = False"
| "advances_at ((c, _, _, _, adv, _, _) # rs) ((q, a) # qs) =
     (if c = q then adv = a \<and> advances_at rs qs else advances_at rs ((q, a) # qs))"

lemma advances_at_greater: "advances_at rs qs \<Longrightarrow> row_ascending lo rs \<Longrightarrow> \<forall>q\<in>fst ` set qs. lo < q"
proof (induction rs qs arbitrary: lo rule: advances_at.induct)
  case (3 c v w x adv y z rs q a qs)
  then show ?case
    by (fastforce split: if_splits)
qed simp_all

lemma advances_at_sound:
  "advances_at rs qs \<Longrightarrow> row_ascending lo rs \<Longrightarrow> list_all (\<lambda>(q, a). row_advance rs d q = a) qs"
proof (induction rs qs arbitrary: lo rule: advances_at.induct)
  case (3 c v w x adv y z rs q a qs)
  then have asc: "row_ascending c rs"
    by simp
  show ?case
  proof (cases "c = q")
    case True
    then have "list_all (\<lambda>(q, a). row_advance rs d q = a) qs" "\<forall>q\<in>fst ` set qs. c < q"
      using 3 advances_at_greater [OF _ asc] by auto
    then show ?thesis
      using True "3.prems" by (fastforce simp: list_all_iff)
  next
    case False
    then have "list_all (\<lambda>(q, a). row_advance rs d q = a) ((q, a) # qs)" "\<forall>q'\<in>fst ` set ((q, a) # qs). c < q'"
      using 3 asc advances_at_greater [OF _ asc, of "(q, a) # qs"] by auto
    then show ?thesis
      by (fastforce simp: list_all_iff)
  qed
qed simp_all

definition advances_small :: "(int \<times> int) list" where
  "advances_small =
    [(32, 3), (35, 7), (40, 4), (41, 4), (42, 5), (44, 3), (45, 4), (46, 3), (47, 3), (48, 7), (49, 7), (50, 7),
     (51, 7), (52, 7), (53, 7), (54, 7), (55, 7), (56, 7), (57, 7), (58, 4), (63, 7), (65, 9), (66, 9), (67, 9),
     (68, 9), (69, 8), (70, 7), (71, 9), (72, 9), (73, 3), (75, 9), (76, 7), (77, 10), (78, 9), (79, 9), (80, 8),
     (81, 9), (82, 9), (83, 8), (84, 7), (85, 9), (86, 8), (87, 11), (88, 8), (89, 8), (95, 7), (97, 7), (98, 7),
     (99, 7), (100, 7), (101, 7), (102, 4), (103, 7), (104, 7), (105, 3), (107, 7), (108, 3), (109, 11), (110, 7), (111, 7),
     (112, 7), (113, 7), (114, 5), (115, 7), (116, 4), (117, 7), (118, 7), (119, 9), (120, 7), (121, 7), (192, 9), (193, 9),
     (194, 9), (195, 9), (201, 8), (202, 8), (204, 3), (205, 3), (211, 9), (212, 9), (224, 7), (225, 7), (226, 7), (227, 7),
     (233, 7), (234, 7), (236, 3), (237, 3), (242, 7), (243, 7), (244, 7), (250, 7), (272, 9), (273, 7), (361, 7), (416, 10),
     (417, 9), (431, 10), (432, 9), (7840, 9), (7841, 7), (7842, 9), (7843, 7), (7844, 9), (7845, 7), (7846, 9), (7847, 7), (7849, 7),
     (7852, 9), (7853, 7), (7860, 9), (7861, 7), (7862, 9), (7863, 7), (7866, 8), (7867, 7), (7868, 8), (7870, 8), (7871, 7), (7874, 8),
     (7875, 7), (7878, 8), (7879, 7), (7880, 3), (7882, 3), (7883, 3), (7888, 9), (7889, 7), (7890, 9), (7891, 7), (7894, 9), (7895, 7),
     (7896, 9), (7897, 7), (7898, 10), (7900, 10), (7902, 10), (7903, 9), (7906, 10), (7907, 9), (7908, 9), (7911, 7), (7914, 10), (7915, 9),
     (7916, 10), (7917, 9), (7918, 10), (7919, 9), (7921, 9), (7923, 7)]"

lemma advances_small_at: "advances_at glyph_rows_small advances_small"
  by code_simp

lemmas advance_small_simps = advances_at_sound [OF advances_small_at rows_small(1), of 5, unfolded advances_small_def, simplified]

definition advances_body :: "(int \<times> int) list" where
  "advances_body =
    [(32, 4), (35, 9), (40, 5), (41, 5), (42, 6), (44, 4), (45, 5), (46, 4), (47, 4), (48, 9), (49, 9), (50, 9),
     (51, 9), (52, 9), (53, 9), (54, 9), (55, 9), (56, 9), (57, 9), (58, 5), (63, 10), (65, 12), (66, 12), (67, 12),
     (68, 12), (69, 11), (70, 10), (71, 12), (72, 12), (73, 4), (75, 12), (76, 10), (77, 13), (78, 12), (79, 12), (80, 11),
     (81, 12), (82, 12), (83, 11), (84, 10), (85, 12), (86, 11), (87, 15), (88, 11), (89, 11), (95, 9), (97, 9), (98, 10),
     (99, 9), (100, 10), (101, 9), (102, 5), (103, 10), (104, 10), (105, 4), (107, 9), (108, 4), (109, 14), (110, 10), (111, 10),
     (112, 10), (113, 10), (114, 6), (115, 9), (116, 5), (117, 10), (118, 9), (119, 12), (120, 9), (121, 9), (192, 12), (193, 12),
     (194, 12), (195, 12), (201, 11), (202, 11), (204, 4), (205, 4), (211, 12), (212, 12), (224, 9), (225, 9), (226, 9), (227, 9),
     (233, 9), (234, 9), (236, 4), (237, 4), (242, 10), (243, 10), (244, 10), (250, 10), (272, 12), (273, 10), (361, 10), (416, 14),
     (417, 11), (431, 13), (432, 12), (7840, 12), (7841, 9), (7842, 12), (7843, 9), (7844, 12), (7845, 9), (7846, 12), (7847, 9), (7849, 9),
     (7852, 12), (7853, 9), (7860, 12), (7861, 9), (7862, 12), (7863, 9), (7866, 11), (7867, 9), (7868, 11), (7870, 11), (7871, 9), (7874, 11),
     (7875, 9), (7878, 11), (7879, 9), (7880, 4), (7882, 4), (7883, 4), (7888, 12), (7889, 10), (7890, 12), (7891, 10), (7894, 12), (7895, 10),
     (7896, 12), (7897, 10), (7898, 14), (7900, 14), (7902, 14), (7903, 11), (7906, 14), (7907, 11), (7908, 12), (7911, 10), (7914, 13), (7915, 12),
     (7916, 13), (7917, 12), (7918, 13), (7919, 12), (7921, 12), (7923, 9)]"

lemma advances_body_at: "advances_at glyph_rows_body advances_body"
  by code_simp

lemmas advance_body_simps = advances_at_sound [OF advances_body_at rows_body(1), of 7, unfolded advances_body_def, simplified]

definition advances_large :: "(int \<times> int) list" where
  "advances_large =
    [(32, 7), (35, 13), (40, 8), (41, 8), (42, 9), (44, 7), (45, 8), (46, 7), (47, 7), (48, 13), (49, 13), (50, 13),
     (51, 13), (52, 13), (53, 13), (54, 13), (55, 13), (56, 13), (57, 13), (58, 8), (63, 15), (65, 17), (66, 17), (67, 17),
     (68, 17), (69, 16), (70, 15), (71, 19), (72, 17), (73, 7), (75, 17), (76, 15), (77, 20), (78, 17), (79, 19), (80, 16),
     (81, 19), (82, 17), (83, 16), (84, 15), (85, 17), (86, 16), (87, 23), (88, 16), (89, 16), (95, 13), (97, 13), (98, 15),
     (99, 13), (100, 15), (101, 13), (102, 8), (103, 15), (104, 15), (105, 7), (107, 13), (108, 7), (109, 21), (110, 15), (111, 15),
     (112, 15), (113, 15), (114, 9), (115, 13), (116, 8), (117, 15), (118, 13), (119, 19), (120, 13), (121, 13), (192, 17), (193, 17),
     (194, 17), (195, 17), (201, 16), (202, 16), (204, 7), (205, 7), (211, 19), (212, 19), (224, 13), (225, 13), (226, 13), (227, 13),
     (233, 13), (234, 13), (236, 7), (237, 7), (242, 15), (243, 15), (244, 15), (250, 15), (272, 17), (273, 15), (361, 15), (416, 20),
     (417, 17), (431, 20), (432, 17), (7840, 17), (7841, 13), (7842, 17), (7843, 13), (7844, 17), (7845, 13), (7846, 17), (7847, 13), (7849, 13),
     (7852, 17), (7853, 13), (7860, 17), (7861, 13), (7862, 17), (7863, 13), (7866, 16), (7867, 13), (7868, 16), (7870, 16), (7871, 13), (7874, 16),
     (7875, 13), (7878, 16), (7879, 13), (7880, 7), (7882, 7), (7883, 7), (7888, 19), (7889, 15), (7890, 19), (7891, 15), (7894, 19), (7895, 15),
     (7896, 19), (7897, 15), (7898, 20), (7900, 20), (7902, 20), (7903, 17), (7906, 20), (7907, 17), (7908, 17), (7911, 15), (7914, 20), (7915, 17),
     (7916, 20), (7917, 17), (7918, 20), (7919, 17), (7921, 17), (7923, 13)]"

lemma advances_large_at: "advances_at glyph_rows_large advances_large"
  by code_simp

lemmas advance_large_simps = advances_at_sound [OF advances_large_at rows_large(1), of 11, unfolded advances_large_def, simplified]

lemmas width_eval = codes_ok_def part_codes_def body_width_def large_width_def small_width_def row_width_def
  advance_small_simps advance_body_simps advance_large_simps

text \<open>ASCII strings, and the decimal numbers among them.\<close>

definition char_codes :: "string \<Rightarrow> int list" where "char_codes s = map of_char s"

definition ascii :: "string \<Rightarrow> bool" where
  "ascii s = list_all (\<lambda>c. 0 < (of_char c :: nat) \<and> (of_char c :: nat) < 128) s"


lemma int_of_char: "(of_char c :: int) = int (of_char c)"
  by (rule of_nat_of_char [symmetric])

lemma bytes_of_encode: "ascii s \<Longrightarrow> bytes_of s = encode (char_codes s)"
  by (induction s) (auto simp: ascii_def encode_def char_codes_def bytes_of_def byte_of_char_def utf8_encode_def int_of_char
      simp del: of_nat_of_char)

lemma ascii_codes: "ascii s \<Longrightarrow> codes_ok (char_codes s)"
  by (fastforce simp: ascii_def codes_ok_def char_codes_def list_all_iff int_of_char simp del: of_nat_of_char)

definition number_char :: "char \<Rightarrow> bool" where
  "number_char c = (c = CHR ''-'' \<or> is_digit c)"


lemma number_char_code: "number_char c \<Longrightarrow> of_char c = (45 :: nat) \<or> 48 \<le> (of_char c :: nat) \<and> of_char c \<le> (57 :: nat)"
  by (auto simp: number_char_def is_digit_def)

lemma number_advances:
  "list_all (\<lambda>n. row_advance glyph_rows_body 7 n \<le> 9 \<and> row_advance glyph_rows_large 11 n \<le> 13) (45 # [48..57])"
  by (simp add: upto.simps advance_body_simps advance_large_simps)

lemma number_width:
  "list_all number_char s \<Longrightarrow> body_width (char_codes s) \<le> 9 * int (length s) \<and> large_width (char_codes s) \<le> 13 * int (length s)"
proof (induction s)
  case Nil
  then show ?case by (simp add: body_width_def large_width_def row_width_def char_codes_def)
next
  case (Cons c s)
  then have "(of_char c :: int) \<in> set (45 # [48..57])"
    using number_char_code [of c] by (simp only: list.set set_upto atLeastAtMost_iff insert_iff int_of_char) auto
  then have "row_advance glyph_rows_body 7 (of_char c) \<le> 9 \<and> row_advance glyph_rows_large 11 (of_char c) \<le> 13"
    using number_advances unfolding list_all_iff by blast
  then show ?case
    using Cons by (simp add: body_width_def large_width_def row_width_def char_codes_def)
qed

lemma number_ascii: "list_all number_char s \<Longrightarrow> ascii s"
  unfolding ascii_def list_all_iff using number_char_code by fastforce

lemma number_dec [simp]: "list_all number_char (dec n)" "list_all number_char (dec_int i)"
  using is_digit_dec by (auto simp: list_all_iff number_char_def dec_int_def)

lemma body_width_append [simp]: "body_width (a @ b) = body_width a + body_width b"
  by (simp add: body_width_def row_width_def)

lemma large_width_append [simp]: "large_width (a @ b) = large_width a + large_width b"
  by (simp add: large_width_def row_width_def)

lemma codes_ok_append [simp]: "codes_ok (a @ b) = (codes_ok a \<and> codes_ok b)"
  by (simp add: codes_ok_def)

lemma length_char_codes [simp]: "length (char_codes s) = length s"
  by (simp add: char_codes_def)

text \<open>A fixed text followed by a number.\<close>

lemma labelled_number_width:
  assumes "codes_ok (part_codes ps)" "length (part_codes ps) \<le> 600" "list_all number_char s" "length s \<le> 100"
  shows "measure_text_width (vn ps @ bytes_of s) 2 \<le> body_width (part_codes ps) + 9 * int (length s)"
    "measure_text_width (vn ps @ bytes_of s) 3 \<le> large_width (part_codes ps) + 13 * int (length s)"
proof -
  have "vn ps @ bytes_of s = encode (part_codes ps @ char_codes s)"
    using assms(3) by (simp add: vn_encode bytes_of_encode number_ascii)
  then show "measure_text_width (vn ps @ bytes_of s) 2 \<le> body_width (part_codes ps) + 9 * int (length s)"
    "measure_text_width (vn ps @ bytes_of s) 3 \<le> large_width (part_codes ps) + 13 * int (length s)"
    using measure_encoded [of "part_codes ps @ char_codes s"] assms number_width [OF assms(3)]
    by (simp_all add: ascii_codes number_ascii del: encode_append)
qed

section \<open>Steps that draw inside the panel\<close>

definition drawn :: "renderer \<Rightarrow> drawn_component list" where
  "drawn r = take (rn_next_component r) (rn_components r)"

text \<open>With room for \<open>n\<close> more components, the step adds at most \<open>n\<close>, drops none and
  every one of them lies on the panel.\<close>

definition draws :: "nat \<Rightarrow> (renderer \<Rightarrow> renderer) \<Rightarrow> bool" where
  "draws n f = (\<forall>r. renderer_ok r \<and> rn_next_component r + n \<le> max_components \<longrightarrow>
     renderer_ok (f r) \<and> (\<exists>cs. drawn (f r) = drawn r @ cs \<and> length cs \<le> n \<and> list_all (\<lambda>c. \<not> dc_overflow c) cs))"

named_theorems draws_intros \<open>drawing steps that stay on the panel\<close>

lemma length_drawn: "renderer_ok r \<Longrightarrow> length (drawn r) = rn_next_component r"
  by (simp add: drawn_def renderer_ok_def)

lemma drawsI:
  assumes "keeps_type f"
    "\<And>r. renderer_ok r \<Longrightarrow> rn_next_component r + n \<le> max_components \<Longrightarrow>
       \<exists>cs. drawn (f r) = drawn r @ cs \<and> length cs \<le> n \<and> list_all (\<lambda>c. \<not> dc_overflow c) cs"
  shows "draws n f"
  using assms by (simp add: draws_def keeps_type_def)

lemma draws_mono: "draws m f \<Longrightarrow> m \<le> n \<Longrightarrow> draws n f"
  unfolding draws_def by (meson add_le_mono order_refl order_trans)

lemma draws_same: "keeps_type f \<Longrightarrow> (\<And>r. drawn (f r) = drawn r) \<Longrightarrow> draws n f"
  by (rule drawsI) auto

lemma draws_issue [draws_intros]: "draws 0 (issue ops)"
  by (rule draws_same) (simp_all add: issue_type issue_def drawn_def)

lemma draws_end [draws_intros]: "draws 0 end_screen"
  by (rule draws_same) (simp_all add: end_screen_type end_screen_def drawn_def)

lemma steps_Nil [simp]: "steps [] r = r"
  by (simp add: steps_def)

lemma steps_Cons [simp]: "steps (f # fs) r = steps fs (f r)"
  by (simp add: steps_def)

lemma draws_Nil [draws_intros]: "draws 0 (steps [])"
  by (simp add: draws_def)

lemma draws_Cons [draws_intros]:
  assumes "draws m f" "draws n (steps fs)"
  shows "draws (m + n) (steps (f # fs))"
  unfolding draws_def
proof (intro allI impI)
  fix r assume r: "renderer_ok r \<and> rn_next_component r + (m + n) \<le> max_components"
  obtain cs where f: "renderer_ok (f r)" "drawn (f r) = drawn r @ cs" "length cs \<le> m" "list_all (\<lambda>c. \<not> dc_overflow c) cs"
    using assms(1) r unfolding draws_def by (metis add.assoc add_leD1)
  then have "rn_next_component (f r) + n \<le> max_components"
    using r length_drawn [of r] length_drawn [of "f r"] by simp
  then obtain ds where "renderer_ok (steps fs (f r))" "drawn (steps fs (f r)) = drawn (f r) @ ds" "length ds \<le> n"
    "list_all (\<lambda>c. \<not> dc_overflow c) ds"
    using assms(2) f(1) unfolding draws_def by metis
  then show "renderer_ok (steps (f # fs) r) \<and> (\<exists>es. drawn (steps (f # fs) r) = drawn r @ es \<and> length es \<le> m + n \<and>
      list_all (\<lambda>c. \<not> dc_overflow c) es)"
    using f by (intro conjI exI [of _ "cs @ ds"]) auto
qed

lemma draws_only_if [draws_intros]: "(b \<Longrightarrow> draws n f) \<Longrightarrow> draws n (only_if b f)"
  by (auto simp: draws_def only_if_def)

text \<open>The height of a line of text.\<close>

definition line_px :: "u8 \<Rightarrow> int" where
  "line_px fs = (if fs = 1 then 14 else if fs = 2 then 19 else if fs = 3 then 28 else 56)"

definition known_size :: "u8 \<Rightarrow> bool" where
  "known_size fs = (fs = 1 \<or> fs = 2 \<or> fs = 3 \<or> fs = 6)"

lemma component_on_panel:
  assumes "known_size fs" "x + measure_text_width s fs \<le> panel_width" "y + line_px fs \<le> panel_height"
  shows "\<not> dc_overflow (component_of x y s c fs)"
  using assms by (auto simp: component_of_def known_size_def line_px_def u16_of_def Let_def
      vn_font_small_def vn_font_body_def vn_font_large_def)

lemma drawn_emit:
  assumes "renderer_ok r" "rn_next_component r < max_components" "on_panel x y" "fs \<noteq> 0"
  shows "drawn (emit_component_text x y s c fs r) = drawn r @ [component_of x y s c fs]"
proof -
  have "length (rn_components r) = max_components"
    using assms(1) by (simp add: renderer_ok_def)
  then show ?thesis
    using assms by (auto simp: emit_component_text_def drawn_def issue_def Let_def on_panel_def panel_width_def panel_height_def
        take_Suc_conv_app_nth)
qed

lemma draws_emit:
  assumes "known_size fs" "on_panel x y" "x + measure_text_width s fs \<le> panel_width" "y + line_px fs \<le> panel_height"
  shows "draws 1 (emit_component_text x y s c fs)"
proof (rule drawsI)
  fix r assume "renderer_ok r" "rn_next_component r + 1 \<le> max_components"
  then show "\<exists>cs. drawn (emit_component_text x y s c fs r) = drawn r @ cs \<and> length cs \<le> 1 \<and> list_all (\<lambda>c. \<not> dc_overflow c) cs"
    using drawn_emit [of r x y fs s c] component_on_panel [OF assms(1,3,4)] assms(1,2) by (auto simp: known_size_def)
qed (rule emit_type)


lemma centered_x_bounds:
  "measure_text_width s fs \<le> panel_width \<Longrightarrow> centered_x s fs = (panel_width - measure_text_width s fs) div 2"
  using measure_range [of s fs] by (simp add: centered_x_def panel_width_def Let_def)

lemma draws_centered:
  assumes "known_size fs" "measure_text_width s fs \<le> panel_width" "0 \<le> y" "y + line_px fs \<le> panel_height"
  shows "draws 1 (centered s y c fs)"
  unfolding centered_def
proof (rule draws_emit [OF assms(1)])
  show "on_panel (centered_x s fs) y"
    using assms measure_range [of s fs]
    by (auto simp: on_panel_def centered_x_bounds panel_width_def panel_height_def line_px_def split: if_splits)
  show "centered_x s fs + measure_text_width s fs \<le> panel_width"
    using assms(2) measure_range [of s fs] by (simp add: centered_x_bounds panel_width_def)
qed (use assms in simp)

text \<open>What evaluation has to establish for a fixed text in a size.\<close>

definition fixed_fits :: "text_part list \<Rightarrow> u8 \<Rightarrow> int \<Rightarrow> bool" where
  "fixed_fits ps fs m =
     (codes_ok (part_codes ps) \<and> length (part_codes ps) \<le> 600 \<and>
      (if fs = 1 then small_width (part_codes ps) \<le> m
       else if fs = 2 then body_width (part_codes ps) \<le> m
       else fs = 3 \<and> large_width (part_codes ps) \<le> m))"

lemma fixed_measure: "fixed_fits ps fs m \<Longrightarrow> measure_text_width (vn ps) fs \<le> m"
  using measure_encoded [of "part_codes ps"] by (auto simp: fixed_fits_def vn_encode split: if_splits)

definition row_fits_panel :: "int \<Rightarrow> u8 \<Rightarrow> bool" where
  "row_fits_panel y fs = (0 \<le> y \<and> y + line_px fs \<le> panel_height)"

lemma draws_fixed [draws_intros]:
  assumes "fixed_fits ps fs panel_width" "row_fits_panel y fs"
  shows "draws 1 (centered (vn ps) y c fs)"
proof (rule draws_centered)
  show "known_size fs"
    using assms(1) by (auto simp: fixed_fits_def known_size_def split: if_splits)
qed (use assms fixed_measure in \<open>auto simp: row_fits_panel_def\<close>)

lemma draws_title [draws_intros]:
  "fixed_fits ps font_large panel_width \<Longrightarrow> row_fits_panel y font_large \<Longrightarrow> draws 1 (draw_title_line (vn ps) y c)"
  unfolding draw_title_line_def by (rule draws_fixed)

lemma draws_title_2line [draws_intros]:
  assumes "fixed_fits ps font_large panel_width" "fixed_fits qs font_large panel_width"
    "row_fits_panel y font_large" "row_fits_panel (y + line_height_large) font_large"
  shows "draws 2 (draw_title_2line (vn ps) (vn qs) y c)"
proof -
  have "i16 (y + line_height_large) = y + line_height_large"
    using assms(3,4) by (simp add: row_fits_panel_def layout_defs line_px_def)
  then have "draws (1 + (1 + 0)) (draw_title_2line (vn ps) (vn qs) y c)"
    unfolding draw_title_2line_def using assms by (intro draws_intros) simp_all
  then show ?thesis by (simp add: numeral_2_eq_2)
qed

lemma draws_fixed_at [draws_intros]:
  assumes "fixed_fits ps fs (panel_width - x)" "0 \<le> x" "x < panel_width" "row_fits_panel y fs"
  shows "draws 1 (emit_component_text x y (vn ps) c fs)"
proof (rule draws_emit)
  show "known_size fs"
    using assms(1) by (auto simp: fixed_fits_def known_size_def split: if_splits)
  show "on_panel x y"
    using assms(2-4) by (auto simp: on_panel_def row_fits_panel_def line_px_def panel_height_def split: if_splits)
qed (use assms fixed_measure [OF assms(1)] in \<open>auto simp: row_fits_panel_def\<close>)

lemma draws_labelled_number [draws_intros]:
  assumes "fixed_fits ps fs (panel_width - 143)" "list_all number_char s" "length s \<le> 11" "row_fits_panel y fs" "fs = 2 \<or> fs = 3"
  shows "draws 1 (centered (vn ps @ bytes_of s) y c fs)"
proof (rule draws_centered)
  show "measure_text_width (vn ps @ bytes_of s) fs \<le> panel_width"
    using labelled_number_width [of ps s] assms by (auto simp: fixed_fits_def)
qed (use assms in \<open>auto simp: row_fits_panel_def known_size_def\<close>)

lemma fit_width_small: "measure_text_width (ellipsize_to_width s font_small 224) font_small \<le> 224"
  by (rule ellipsize_fits) (simp_all add: font_small_def)

lemma emit_adds:
  assumes "renderer_ok r" "rn_next_component r < max_components" "on_panel x y" "fs \<noteq> 0"
  shows "renderer_ok (emit_component_text x y s c fs r)"
    "drawn (emit_component_text x y s c fs r) = drawn r @ [component_of x y s c fs]"
    "rn_next_component (emit_component_text x y s c fs r) = rn_next_component r + 1"
proof -
  show o: "renderer_ok (emit_component_text x y s c fs r)"
    using assms(1) by (rule keeps_typeD [OF emit_type])
  show d: "drawn (emit_component_text x y s c fs r) = drawn r @ [component_of x y s c fs]"
    by (rule drawn_emit [OF assms])
  show "rn_next_component (emit_component_text x y s c fs r) = rn_next_component r + 1"
    using length_drawn [OF o] length_drawn [OF assms(1)] d by simp
qed

lemmas fixed_eval = fixed_fits_def row_fits_panel_def line_px_def layout_defs width_eval

text \<open>A fitted text is at most two centred lines, each no wider than the margins leave.\<close>

definition fitted_line :: "bytes \<Rightarrow> int \<Rightarrow> bytes \<times> int \<times> u8 \<Rightarrow> bool" where
  "fitted_line s y = (\<lambda>(l, z, fs). measure_text_width l fs \<le> 224 \<and> length l \<le> length s + 3 \<and>
     (fs = 2 \<and> (z = y \<or> z = y + 22) \<or> fs = 3 \<and> z = y))"

lemma fit_text_lines:
  obtains ls where "draw_fit_text s y c large r = steps (map (\<lambda>(l, z, fs). centered l z c fs) ls) r"
    "length ls \<le> 2" "list_all (fitted_line s y) ls"
proof -
  have m: "panel_width - 2 * margin_x = 224" "u16_of 224 = 224"
    by (simp_all add: layout_defs u16_of_def)
  consider "s = []" | "s \<noteq> []" "large \<and> measure_text_width s font_large \<le> 224"
    | "s \<noteq> []" "\<not> (large \<and> measure_text_width s font_large \<le> 224)" "measure_text_width s font_small \<le> 224"
    | (wrap) "s \<noteq> []" "\<not> (large \<and> measure_text_width s font_large \<le> 224)" "\<not> measure_text_width s font_small \<le> 224"
    by blast
  then show thesis
  proof cases
    case 1
    then show ?thesis by (intro that [of "[]"]) (simp_all add: draw_fit_text_def)
  next
    case 2
    then show ?thesis
      using m by (intro that [of "[(s, y, 3)]"]) (auto simp: draw_fit_text_def draw_title_line_def fitted_line_def font_large_def)
  next
    case 3
    then show ?thesis
      using m by (intro that [of "[(s, y, 2)]"]) (auto simp: draw_fit_text_def fitted_line_def font_small_def)
  next
    case wrap
    obtain l1 l2 where w: "wrap_and_ellipsize_two_lines s font_small 224 = (l1, l2)"
      by fastforce
    have "measure_text_width l1 font_small \<le> 224" "measure_text_width l2 font_small \<le> 224"
      using wrap_cases [OF w] fit_width_small by (metis measure_text_width_def zero_le_numeral)+
    moreover have "length l1 \<le> length s + 3 \<and> length l2 \<le> length s + 3"
      using w
    proof (rule wrap_cases)
      fix i assume "l1 = ellipsize_to_width (take i s) font_small 224" "l2 = ellipsize_to_width (drop (i + 1) s) font_small 224"
      then show ?thesis
        using ellipsize_length [of "take i s" font_small 224] ellipsize_length [of "drop (i + 1) s" font_small 224] by auto
    qed (use ellipsize_length in simp)
    ultimately show ?thesis
      using wrap w m by (intro that [of "(l1, y, 2) # (if l2 \<noteq> [] then [(l2, y + 22, 2)] else [])"])
        (auto simp: draw_fit_text_def fitted_line_def font_small_def line_height_small_def only_if_def)
  qed
qed

lemma drawn_fitted_lines:
  assumes "list_all (fitted_line s y) ls" "0 \<le> y" "y \<le> 279" "renderer_ok r" "rn_next_component r + length ls \<le> max_components"
  shows "drawn (steps (map (\<lambda>(l, z, fs). centered l z c fs) ls) r) =
    drawn r @ map (\<lambda>(l, z, fs). component_of (centered_x l fs) z l c fs) ls"
  using assms(1,4,5)
proof (induction ls arbitrary: r)
  case Nil
  then show ?case by simp
next
  case (Cons e ls)
  obtain l z fs where e: "e = (l, z, fs)"
    by (cases e)
  have f: "measure_text_width l fs \<le> 224" "0 \<le> z" "z < 320" "fs \<noteq> 0"
    using Cons.prems(1) assms(2,3) by (auto simp: e fitted_line_def)
  then have "on_panel (centered_x l fs) z"
    using measure_range [of l fs] by (simp add: on_panel_def centered_x_bounds panel_width_def panel_height_def)
  note a = emit_adds [OF Cons.prems(2) _ this f(4), of l c]
  show ?case
    using Cons.IH [of "centered l z c fs r"] Cons.prems a by (simp add: e centered_def)
qed

lemma draws_fit_text [draws_intros]:
  assumes "0 \<le> y" "y + line_height_small + 19 \<le> panel_height"
  shows "draws 2 (draw_fit_text s y c large)"
proof (rule drawsI)
  fix r assume r: "renderer_ok r" "rn_next_component r + 2 \<le> max_components"
  obtain ls where ls: "draw_fit_text s y c large r = steps (map (\<lambda>(l, z, fs). centered l z c fs) ls) r"
    "length ls \<le> 2" "list_all (fitted_line s y) ls"
    by (rule fit_text_lines)
  have "\<not> dc_overflow (component_of (centered_x l fs) z l c fs)" if "fitted_line s y (l, z, fs)" for l z fs
    using that assms measure_range [of l fs]
    by (intro component_on_panel) (auto simp: fitted_line_def known_size_def centered_x_bounds layout_defs line_px_def)
  then have "list_all (\<lambda>c. \<not> dc_overflow c) (map (\<lambda>(l, z, fs). component_of (centered_x l fs) z l c fs) ls)"
    using ls(3) by (auto simp: list_all_iff)
  moreover have "y \<le> 279"
    using assms(2) by (simp add: layout_defs)
  ultimately show "\<exists>cs. drawn (draw_fit_text s y c large r) = drawn r @ cs \<and> length cs \<le> 2 \<and> list_all (\<lambda>c. \<not> dc_overflow c) cs"
    using drawn_fitted_lines [OF ls(3) assms(1) _ r(1), of c] ls(1,2) r(2) by fastforce
qed (rule fit_text_type)

lemma draws_footer:
  assumes "l = [] \<or> (\<exists>ps. l = vn ps \<and> fixed_fits ps font_small (panel_width - margin_x))"
    "s = [] \<or> (\<exists>qs. s = vn qs \<and> fixed_fits qs font_small (panel_width - margin_x))"
  shows "draws 2 (draw_footer l s)"
proof -
  have f: "row_fits_panel footer_y font_small"
    by (simp add: row_fits_panel_def layout_defs line_px_def)
  have "draws 1 (emit_component_text margin_x footer_y l color_muted font_small)" if "l \<noteq> []"
    using assms(1) that f draws_fixed_at [of _ font_small margin_x footer_y color_muted] by (auto simp: layout_defs)
  moreover have "draws 1 (emit_component_text (panel_width - measure_text_width s font_small - margin_x) footer_y s
      color_muted font_small)" if "s \<noteq> []"
  proof (rule draws_emit)
    have "measure_text_width s font_small \<le> 232"
      using assms(2) that fixed_measure by (fastforce simp: layout_defs)
    then show "on_panel (panel_width - measure_text_width s font_small - margin_x) footer_y"
      using measure_range [of s font_small] by (simp add: on_panel_def layout_defs)
  qed (simp_all add: known_size_def layout_defs line_px_def)
  ultimately have "draws (0 + (1 + (1 + 0))) (draw_footer l s)"
    unfolding draw_footer_def by (intro draws_intros) auto
  then show ?thesis by (simp add: numeral_2_eq_2)
qed

lemma draws_footers [draws_intros]:
  "fixed_fits ps font_small 232 \<Longrightarrow> fixed_fits qs font_small 232 \<Longrightarrow> draws 2 (draw_footer (vn ps) (vn qs))"
  "fixed_fits ps font_small 232 \<Longrightarrow> draws 2 (draw_footer (vn ps) [])"
  "fixed_fits qs font_small 232 \<Longrightarrow> draws 2 (draw_footer [] (vn qs))"
  by (auto intro!: draws_footer simp: layout_defs)

section \<open>The status bar\<close>

lemma brand_width: "measure_text_width brand font_small = 51"
proof -
  have "body_width (char_codes ''KIMEX'') = 51" "ascii ''KIMEX''" "length (char_codes ''KIMEX'') \<le> 700"
    by (simp_all add: width_eval char_codes_def ascii_def)
  then show ?thesis
    by (simp add: brand_def bytes_of_encode measure_encoded ascii_codes font_small_def)
qed

lemma queue_width: "measure_text_width (queue_text n) font_small \<le> 21 + 9 * int (length (dec (unat n)))"
proof -
  have "codes_ok (part_codes [Asc '' Q:''])" "length (part_codes [Asc '' Q:'']) \<le> 600" "body_width (part_codes [Asc '' Q:'']) = 21"
    by (simp_all add: width_eval)
  moreover have "queue_text n = vn [Asc '' Q:''] @ bytes_of (dec (unat n))"
    by (simp add: queue_text_def vn_def part_codes_def utf8_encode_def bytes_of_def byte_of_char_def)
  moreover have "length (dec (unat n)) \<le> 100"
    using length_dec_u32 [of n] by simp
  ultimately show ?thesis
    using labelled_number_width(1) [of "[Asc '' Q:'']" "dec (unat n)"] by (simp add: font_small_def)
qed

lemma right_slot_width: "measure_text_width (fst (right_slot wifi ssid)) font_small \<le> 69"
proof -
  have "body_width (char_codes ''OFFLINE'') = 69" "ascii ''OFFLINE''" "length (char_codes ''OFFLINE'') \<le> 700"
    by (simp_all add: width_eval char_codes_def ascii_def)
  then have o: "measure_text_width (bytes_of ''OFFLINE'') 2 = 69"
    by (simp add: bytes_of_encode measure_encoded ascii_codes)
  have w: "measure_text_width s 2 \<le> 64" if "length s \<le> 4" for s
    using measured [of 2 s] width_at_most [of 2 s] that by simp
  show ?thesis
    using o w [of "take 4 ssid"] w [of "bytes_of ''----''"] by (auto simp: right_slot_def Let_def font_small_def)
qed

text \<open>Two components side by side.\<close>

definition apart :: "drawn_component \<Rightarrow> drawn_component \<Rightarrow> bool" where
  "apart c d = (dc_x c + dc_w c \<le> dc_x d \<or> dc_x d + dc_w d \<le> dc_x c)"

lemma component_of_x [simp]: "dc_x (component_of x y s c fs) = x"
  by (simp add: component_of_def split_beta Let_def)

lemma component_of_w: "measure_text_width s fs < 32768 \<Longrightarrow> dc_w (component_of x y s c fs) = measure_text_width s fs"
  using measure_range [of s fs] by (simp add: component_of_def split_beta Let_def) (simp add: measure_text_width_def)


definition status_left_end :: "u32 \<Rightarrow> int" where
  "status_left_end q = (if q > 0 then 55 + measure_text_width (queue_text q) font_small else 55)"

definition status_right_x :: "wifi_indicator \<Rightarrow> bytes \<Rightarrow> int" where
  "status_right_x wifi ssid = 209 - measure_text_width (fst (right_slot wifi ssid)) font_small"

definition status_clock :: "renderer \<Rightarrow> bytes" where
  "status_clock r = (if rn_clock_text r \<noteq> [] then rn_clock_text r else bytes_of ''--:--'')"

definition clock_shown :: "renderer \<Rightarrow> wifi_indicator \<Rightarrow> bytes \<Rightarrow> bool" where
  "clock_shown r wifi ssid =
     (centered_x (status_clock r) font_small \<ge> status_left_end (rn_offline_queue_size r) + 8 \<and>
      centered_x (status_clock r) font_small + measure_text_width (status_clock r) font_small \<le> status_right_x wifi ssid - 8)"

text \<open>The components of the bar, in the order it draws them.\<close>

definition status_components :: "renderer \<Rightarrow> wifi_indicator \<Rightarrow> bytes \<Rightarrow> drawn_component list" where
  "status_components r wifi ssid =
     (let q = rn_offline_queue_size r; rs = right_slot wifi ssid; ct = status_clock r in
      component_of 4 4 brand color_brand font_small #
      (if q > 0 then [component_of 55 4 (queue_text q) color_warn font_small] else []) @
      [component_of (status_right_x wifi ssid) 4 (fst rs) (snd rs) font_small] @
      (if clock_shown r wifi ssid
       then [component_of (centered_x ct font_small) 4 ct (if rn_clock_text r \<noteq> [] then color_fg else color_muted) font_small]
       else []))"


lemma issue_adds:
  "renderer_ok r \<Longrightarrow> renderer_ok (issue ops r)" "drawn (issue ops r) = drawn r"
  "rn_next_component (issue ops r) = rn_next_component r"
  by (simp_all add: keeps_typeD issue_type) (simp_all add: issue_def drawn_def)

lemma drawn_emits:
  assumes "list_all (\<lambda>(b, x, s, c). b \<longrightarrow> on_panel x 4) es" "renderer_ok r" "rn_next_component r + length es \<le> max_components"
  shows "drawn (steps (map (\<lambda>(b, x, s, c). only_if b (emit_component_text x 4 s c font_small)) es) r) =
    drawn r @ map (\<lambda>(b, x, s, c). component_of x 4 s c font_small) (filter fst es)"
  using assms
proof (induction es arbitrary: r)
  case Nil
  then show ?case by simp
next
  case (Cons e es)
  obtain b x s c where e: "e = (b, x, s, c)"
    by (cases e)
  show ?case
  proof (cases b)
    case True
    then have "on_panel x 4"
      using Cons.prems(1) e by simp
    note a = emit_adds [OF Cons.prems(2) _ this, of font_small s c]
    have "rn_next_component r < max_components" "font_small \<noteq> 0"
      using Cons.prems(3) by (simp_all add: font_small_def)
    then show ?thesis
      using Cons.IH [of "emit_component_text x 4 s c font_small r"] Cons.prems a True e by (simp add: only_if_def)
  next
    case False
    then show ?thesis
      using Cons e by (simp add: only_if_def)
  qed
qed

lemma steps_append [simp]: "steps (fs @ gs) r = steps gs (steps fs r)"
  by (simp add: steps_def)

lemma status_bar_drawn:
  assumes "renderer_ok r" "rn_next_component r + 4 \<le> max_components"
  shows "drawn (draw_status_bar ssid wifi r) = drawn r @ status_components r wifi ssid"
proof -
  define q where "q = rn_offline_queue_size r"
  define qw where "qw = measure_text_width (queue_text q) font_small"
  define rt where "rt = right_slot wifi ssid"
  define rw where "rw = measure_text_width (fst rt) font_small"
  define ct where "ct = status_clock r"
  define cw where "cw = measure_text_width ct font_small"
  define cx where "cx = i16 (if cw \<le> panel_width then (panel_width - cw) div 2 else - ((cw - panel_width) div 2))"
  define cc where "cc = (if rn_clock_text r \<noteq> [] then color_fg else color_muted)"
  let ?shown = "clock_shown r wifi ssid"
  have w: "0 \<le> qw" "qw \<le> 111" "0 \<le> rw" "rw \<le> 69" "0 \<le> cw" "cw < 65536"
    using queue_width [of q] length_dec_u32 [of q] right_slot_width [of wifi ssid]
      measure_range [of _ font_small] by (auto simp: qw_def rt_def rw_def cw_def order_trans)
  have cx: "centered_x ct font_small = (if cx < 0 then 0 else cx)" "cx \<le> 120"
    using w(5,6) by (auto simp: centered_x_def cx_def cw_def panel_width_def i16_def)
  have sh: "?shown \<longleftrightarrow> cx \<ge> (if q > 0 then 55 + qw else 55) + 8 \<and> cx + cw \<le> 209 - rw - 8"
    using cx w unfolding clock_shown_def status_left_end_def status_right_x_def
    by (auto simp: ct_def [symmetric] q_def [symmetric] qw_def [symmetric] rt_def [symmetric] rw_def [symmetric] cw_def [symmetric])
  let ?es = "[(q > 0, 55, queue_text q, color_warn)]" and
    ?fs = "[(True, 209 - rw, fst rt, snd rt), (?shown, cx, ct, cc)]"
  let ?E = "map (\<lambda>(b, x, s, c). only_if b (emit_component_text x 4 s c font_small))"
  have bar: "draw_status_bar ssid wifi r = steps (?E ?fs) (issue (signal_bars wifi) (steps (?E ((True, 4, brand, color_brand) # ?es)) r))"
  proof -
    have ct: "(if rn_clock_text r \<noteq> [] then rn_clock_text r else bytes_of ''--:--'') = ct"
      by (simp add: ct_def status_clock_def)
    have l: "i16 (spacing_small + i16 (measure_text_width brand font_small)) = 55" "i16 (55 + i16 qw) = 55 + qw"
      "i16 (leftmost_bar_x - spacing_small - rw) = 209 - rw" "\<not> 209 - rw < 0"
      using w by (simp_all add: brand_width spacing_small_def leftmost_bar_x_def icon_right_def bar_gap_x_def)
    show ?thesis
      unfolding draw_status_bar_def Let_def case_prod_beta ct q_def [symmetric] qw_def [symmetric] rt_def [symmetric]
        rw_def [symmetric] cw_def [symmetric] cx_def [symmetric] cc_def [symmetric] l sh
      using l(4) by (simp only: if_False) (simp add: only_if_def spacing_small_def spacing_normal_def)
  qed
  let ?r1 = "steps (?E ((True, 4, brand, color_brand) # ?es)) r"
  have d1: "drawn ?r1 = drawn r @ component_of 4 4 brand color_brand font_small #
      (if q > 0 then [component_of 55 4 (queue_text q) color_warn font_small] else [])"
    by (subst drawn_emits) (use assms in \<open>auto simp: on_panel_def layout_defs\<close>)
  have "keeps_type (steps (?E ((True, 4, brand, color_brand) # ?es)))"
    by (auto intro!: type_intros)
  then have o1: "renderer_ok ?r1"
    by (rule keeps_typeD [OF _ assms(1)])
  have n1: "rn_next_component (issue (signal_bars wifi) ?r1) + 2 \<le> max_components"
    using length_drawn [OF o1] length_drawn [OF assms(1)] d1 assms(2) by (simp add: issue_adds split: if_splits)
  have "drawn (steps (?E ?fs) (issue (signal_bars wifi) ?r1)) = drawn (issue (signal_bars wifi) ?r1) @
      map (\<lambda>(b, x, s, c). component_of x 4 s c font_small) (filter fst ?fs)"
  proof (rule drawn_emits)
    show "list_all (\<lambda>(b, x, s, c). b \<longrightarrow> on_panel x 4) ?fs"
      using w sh cx(2) by (auto simp: on_panel_def layout_defs)
  qed (use o1 n1 in \<open>auto simp: issue_adds simp del: steps_Cons\<close>)
  then show ?thesis
    unfolding bar using d1 cx sh w
    by (auto simp: status_components_def Let_def issue_adds status_right_x_def split_beta simp del: steps_Cons
        simp flip: q_def rt_def ct_def rw_def cc_def)
qed


lemma draws_status_bar [draws_intros]: "draws 4 (draw_status_bar ssid wifi)"
proof (rule drawsI)
  fix r assume r: "renderer_ok r" "rn_next_component r + 4 \<le> max_components"
  have k: "known_size font_small" "line_px font_small = 19"
    by (simp_all add: known_size_def font_small_def line_px_def)
  have on: "\<not> dc_overflow (component_of x 4 s c font_small)" if "x + measure_text_width s font_small \<le> 240" for x s c
    using that k(2) by (intro component_on_panel k(1)) (simp_all add: panel_width_def panel_height_def)
  have w: "measure_text_width (queue_text q) font_small \<le> 111" for q
    using queue_width [of q] length_dec_u32 [of q] by simp
  have "list_all (\<lambda>c. \<not> dc_overflow c) (status_components r wifi ssid)"
    using w [of "rn_offline_queue_size r"] brand_width measure_range [of "fst (right_slot wifi ssid)" font_small] k(2)
    by (auto simp: status_components_def Let_def clock_shown_def status_right_x_def on)
  moreover have "length (status_components r wifi ssid) \<le> 4"
    by (simp add: status_components_def Let_def)
  ultimately show "\<exists>cs. drawn (draw_status_bar ssid wifi r) = drawn r @ cs \<and> length cs \<le> 4 \<and> list_all (\<lambda>c. \<not> dc_overflow c) cs"
    using status_bar_drawn [OF r] by metis
qed (rule status_bar_type)

text \<open>C17. The slots of the status bar never run into each other: whatever the
  network name, the clock text and the state of the link, each component ends
  left of the signal bars, and with a backlog of less than ten million events
  any two of them are side by side.\<close>

theorem status_bar_slots_apart:
  assumes "renderer_ok r" "rn_next_component r + 4 \<le> max_components" "unat (rn_offline_queue_size r) < 10000000"
  shows "\<exists>cs. drawn (draw_status_bar ssid wifi r) = drawn r @ cs \<and> length cs \<ge> 2 \<and> sorted_wrt apart cs \<and>
    list_all (\<lambda>c. \<not> dc_overflow c \<and> dc_x c + dc_w c \<le> leftmost_bar_x) cs"
proof (intro exI conjI)
  show "drawn (draw_status_bar ssid wifi r) = drawn r @ status_components r wifi ssid"
    by (rule status_bar_drawn [OF assms(1,2)])
  let ?q = "rn_offline_queue_size r" and ?cs = "status_components r wifi ssid"
  have "length (dec (unat ?q)) \<le> 7"
    using assms(3) by (intro length_dec) simp_all
  then have q: "measure_text_width (queue_text ?q) font_small \<le> 84"
    using queue_width [of ?q] by simp
  have rw: "0 \<le> measure_text_width (fst (right_slot wifi ssid)) font_small" "measure_text_width (fst (right_slot wifi ssid)) font_small \<le> 69"
    using measure_range right_slot_width by blast+
  have p: "0 \<le> measure_text_width (queue_text ?q) font_small" "0 \<le> measure_text_width (status_clock r) font_small"
    using measure_range by blast+
  show "sorted_wrt apart ?cs"
    using p q rw brand_width
    by (auto simp: status_components_def Let_def apart_def component_of_w clock_shown_def status_left_end_def
        status_right_x_def split: if_splits)
  have "list_all (\<lambda>c. dc_x c + dc_w c \<le> leftmost_bar_x) ?cs"
    using p q rw brand_width
    by (auto simp: status_components_def Let_def component_of_w clock_shown_def status_left_end_def
        status_right_x_def leftmost_bar_x_def icon_right_def bar_gap_x_def)
  moreover have "list_all (\<lambda>c. \<not> dc_overflow c) ?cs"
    using draws_status_bar [of ssid wifi] assms(1,2) status_bar_drawn [OF assms(1,2)] unfolding draws_def by force
  ultimately show "list_all (\<lambda>c. \<not> dc_overflow c \<and> dc_x c + dc_w c \<le> leftmost_bar_x) ?cs"
    by (simp add: list_all_iff)
  show "length ?cs \<ge> 2"
    by (simp add: status_components_def Let_def)
qed

theorem status_bar_slots_apart_witness:
  "\<exists>cs. drawn (draw_status_bar (bytes_of ''Kimex-Floor'') WIFI_CONNECTED (begin_screen ''waiting'' new_renderer)) = [] @ cs \<and>
     length cs \<ge> 2 \<and> sorted_wrt apart cs \<and> list_all (\<lambda>c. \<not> dc_overflow c \<and> dc_x c + dc_w c \<le> leftmost_bar_x) cs"
proof -
  let ?r = "begin_screen ''waiting'' new_renderer"
  have "renderer_ok ?r"
    by (rule keeps_typeD [OF begin_screen_type new_renderer_ok])
  moreover have "drawn ?r = []" "rn_next_component ?r + 4 \<le> max_components" "unat (rn_offline_queue_size ?r) < 10000000"
    by (simp_all add: drawn_def begin_screen_def issue_def new_renderer_def max_components_def)
  ultimately show ?thesis
    using status_bar_slots_apart [of ?r "bytes_of ''Kimex-Floor''" WIFI_CONNECTED] by simp
qed


text \<open>C37. Server and operator texts keep the margins: a text of any content and up
  to 2800 bytes is drawn in at most two lines whose true width, in pixels of the
  font they are drawn in, lies between the left and the right margin.\<close>

theorem fit_text_keeps_margins:
  assumes "renderer_ok r" "rn_next_component r + 2 \<le> max_components" "0 \<le> y" "y + line_height_small + 19 \<le> panel_height"
    and "length s \<le> 2800"
  shows "\<exists>cs. drawn (draw_fit_text s y c large r) = drawn r @ cs \<and> length cs \<le> 2 \<and>
    list_all (\<lambda>d. margin_x \<le> dc_x d \<and> dc_x d + text_width (dc_text d) (dc_font_size d) \<le> panel_width - margin_x \<and>
      \<not> dc_overflow d) cs"
proof -
  obtain ls where ls: "draw_fit_text s y c large r = steps (map (\<lambda>(l, z, fs). centered l z c fs) ls) r"
    "length ls \<le> 2" "list_all (fitted_line s y) ls"
    by (rule fit_text_lines)
  let ?cs = "map (\<lambda>(l, z, fs). component_of (centered_x l fs) z l c fs) ls"
  have d: "drawn (draw_fit_text s y c large r) = drawn r @ ?cs"
    using drawn_fitted_lines [OF ls(3) assms(3) _ assms(1), of c] ls(1,2) assms(2,4) by (simp add: layout_defs)
  moreover have "list_all (\<lambda>c. \<not> dc_overflow c) ?cs"
    using draws_fit_text [OF assms(3,4), of s c large] assms(1,2) d unfolding draws_def by force
  moreover have "margin_x \<le> centered_x l fs \<and> centered_x l fs + text_width l fs \<le> panel_width - margin_x"
    if "(l, z, fs) \<in> set ls" for l z fs
  proof -
    have f: "measure_text_width l fs \<le> 224" "length l \<le> 2849" "fs = 2 \<or> fs = 3"
      using ls(3) that assms(5) by (auto simp: list_all_iff fitted_line_def)
    then have "measure_text_width l fs = text_width l fs"
      by (intro measured) auto
    then show ?thesis
      using f(1) measure_range [of l fs] by (simp add: centered_x_bounds layout_defs) presburger
  qed
  ultimately show ?thesis
    using ls(2) by (intro exI [of _ ?cs])
      (auto simp: list_all_iff component_of_def split_beta Let_def)
qed

theorem fit_text_keeps_margins_witness:
  "\<exists>cs. drawn (draw_fit_text (bytes_of (replicate 300 CHR ''M'')) 90 color_err False (begin_screen ''error_view_business'' new_renderer)) =
      drawn (begin_screen ''error_view_business'' new_renderer) @ cs \<and> length cs \<le> 2 \<and>
    list_all (\<lambda>d. margin_x \<le> dc_x d \<and> dc_x d + text_width (dc_text d) (dc_font_size d) \<le> panel_width - margin_x \<and>
      \<not> dc_overflow d) cs"
proof (rule fit_text_keeps_margins)
  show "renderer_ok (begin_screen ''error_view_business'' new_renderer)"
    by (rule keeps_typeD [OF begin_screen_type new_renderer_ok])
qed (simp_all add: begin_screen_def issue_def max_components_def layout_defs)

end
