(* ===== verification/Screen_Facts.thy ===== *)
theory Screen_Facts
  imports Screens Renderer_Facts Kiosk_Quantity
begin

text \<open>
  What holds of every screen: it keeps the renderer's type, and each screen the
  kiosk chooses of its own puts all its components on the panel, for any content
  of the texts it shows.
\<close>

section \<open>Every screen keeps the renderer's type\<close>

lemma info_row_type [type_intros]: "keeps_type (info_row i l v c)"
  by (simp add: info_row_def Let_def emit_type)

lemma identity_line_type [type_intros]: "keeps_type (draw_identity_line v y c)"
  by (simp add: draw_identity_line_def type_intros)

lemma quantity_lines_type [type_intros]: "list_all keeps_type (quantity_lines g d w)"
  by (simp add: quantity_lines_def type_intros)

lemma business_steps_type [type_intros]: "list_all keeps_type (business_state_steps s)"
  by (simp add: business_state_steps_def Let_def type_intros split: business_state.split)

lemma bundle_component_type [type_intros]: "keeps_type (draw_bundle_component v d uc)"
proof -
  have "keeps_type (draw_bundle_text uc s)" for s
    unfolding draw_bundle_text_def Let_def case_prod_beta by (auto intro!: type_intros)
  then show ?thesis
    unfolding draw_bundle_component_def Let_def by (cases "uc_type uc") (auto intro!: type_intros)
qed

lemma bundle_components_type [type_intros]: "list_all keeps_type (map (draw_bundle_component v d) cs)"
  by (simp add: list_all_iff bundle_component_type)

lemmas kiosk_screen_defs = draw_waiting_screen_def draw_scan_received_def draw_scan_result_def draw_safe_mode_screen_def
  draw_server_mismatch_screen_def draw_identity_screen_def draw_business_state_def draw_quantity_input_screen_def
  draw_quantity_defect_screen_def draw_rework_decision_screen_def draw_quantity_rework_screen_def
  draw_quantity_summary_screen_def draw_finish_result_screen_def draw_error_view_def draw_resyncing_screen_def

text \<open>C18. Whatever is drawn, with whatever texts, numbers and bundle, the renderer's
  record keeps its type: ten lines, sixteen component slots filled from the
  front and no further, each measure in the range of its integer type.\<close>

theorem screens_keep_type:
  "keeps_type (draw_screen s ssid wifi) \<and> keeps_type (draw_boot_screen d a b) \<and>
   keeps_type (draw_recovery_menu ssid wifi) \<and> keeps_type (draw_keypad_calibration_prompt key i t) \<and>
   keeps_type (draw_wifi_hold_progress sec) \<and> keeps_type (draw_wifi_portal_active txt) \<and>
   keeps_type (draw_wifi_portal_testing txt) \<and> keeps_type (draw_wifi_portal_failed txt) \<and>
   keeps_type (draw_device_info_screen n ssid wifi)"
proof -
  have "keeps_type (draw_screen s ssid wifi)"
    by (cases s) (auto simp: draw_screen_def kiosk_screen_defs draw_from_bundle_def split_beta Let_def intro!: type_intros)
  moreover have "keeps_type (draw_wifi_hold_progress sec)"
    unfolding draw_wifi_hold_progress_def by (auto intro!: type_intros)
  moreover have "keeps_type (draw_boot_screen d a b)" "keeps_type (draw_recovery_menu ssid wifi)"
    "keeps_type (draw_keypad_calibration_prompt key i t)"
    "keeps_type (draw_wifi_portal_active txt)" "keeps_type (draw_wifi_portal_testing txt)"
    "keeps_type (draw_wifi_portal_failed txt)" "keeps_type (draw_device_info_screen n ssid wifi)"
    unfolding draw_boot_screen_def draw_recovery_menu_def draw_keypad_calibration_prompt_def draw_wifi_portal_active_def
      draw_wifi_portal_testing_def draw_wifi_portal_failed_def draw_device_info_screen_def
    by (intro type_intros)+
  ultimately show ?thesis
    by blast
qed


section \<open>Every component on the panel\<close>

definition draws_whole :: "nat \<Rightarrow> (renderer \<Rightarrow> renderer) \<Rightarrow> bool" where
  "draws_whole n f = (\<forall>r. renderer_ok r \<longrightarrow>
     renderer_ok (f r) \<and> length (drawn (f r)) \<le> n \<and> list_all (\<lambda>c. \<not> dc_overflow c) (drawn (f r)))"

lemma draws_append [draws_intros]: "draws m (steps xs) \<Longrightarrow> draws n (steps ys) \<Longrightarrow> draws (m + n) (steps (xs @ ys))"
  using draws_Cons [of m "steps xs" n ys] by (simp add: draws_def)

lemma whole_screen:
  assumes "draws m (steps fs)" "m \<le> n" "n \<le> max_components"
  shows "draws_whole n (steps (begin_screen i # fs))"
  unfolding draws_whole_def
proof (intro allI impI)
  fix r assume "renderer_ok r"
  then have o: "renderer_ok (begin_screen i r)"
    by (rule keeps_typeD [OF begin_screen_type])
  have d: "drawn (begin_screen i r) = []" "rn_next_component (begin_screen i r) = 0"
    by (simp_all add: begin_screen_def issue_def drawn_def)
  show "renderer_ok (steps (begin_screen i # fs) r) \<and> length (drawn (steps (begin_screen i # fs) r)) \<le> n \<and>
      list_all (\<lambda>c. \<not> dc_overflow c) (drawn (steps (begin_screen i # fs) r))"
    using assms o d unfolding draws_def steps_Cons by fastforce
qed

lemma ascii_vn: "ascii s \<Longrightarrow> bytes_of s = vn [Asc s]"
  by (simp add: bytes_of_encode vn_encode part_codes_def char_codes_def)

lemma draws_environment [draws_intros]:
  assumes "row_fits_panel y font_large"
  shows "draws 1 (centered (bytes_of (environment_to_string e)) y c font_large)"
proof -
  have "list_all (\<lambda>s. fixed_fits [Asc s] font_large panel_width \<and> ascii s) [''DEV'', ''TEST'', ''PROD'', ''UNKNOWN'']"
    by (simp add: fixed_eval ascii_def)
  moreover have "environment_to_string e \<in> set [''DEV'', ''TEST'', ''PROD'', ''UNKNOWN'']"
    by (cases e) (simp_all add: environment_to_string_def)
  ultimately have "fixed_fits [Asc (environment_to_string e)] font_large panel_width \<and> ascii (environment_to_string e)"
    unfolding list_all_iff by blast
  then show ?thesis
    using assms draws_fixed by (simp add: ascii_vn)
qed

text \<open>The length of a fixed text, by its code points.\<close>

definition utf8_size :: "int \<Rightarrow> int" where
  "utf8_size c = (if c < 0x80 then 1 else if c < 0x800 then 2 else if c < 0x10000 then 3 else 4)"

definition encoded_size :: "text_part list \<Rightarrow> int" where
  "encoded_size ps = sum_list (map utf8_size (part_codes ps))"

lemma length_vn: "int (length (vn ps)) = encoded_size ps"
proof -
  have "int (length (encode cs)) = sum_list (map utf8_size cs)" for cs
    by (induction cs) (auto simp: encode_def utf8_encode_def utf8_size_def)
  then show ?thesis
    by (simp add: vn_encode encoded_size_def)
qed

lemmas screen_eval = fixed_eval encoded_size_def utf8_size_def max_components_def

lemma draws_numbered [draws_intros]:
  assumes "fixed_fits ps fs (panel_width - 143)" "fs = 2 \<or> fs = 3" "encoded_size ps + 12 \<le> int n" "row_fits_panel y fs"
  shows "draws 1 (centered (c_buffer n (vn ps @ number_text g)) y c fs)"
proof -
  have "length (vn ps @ number_text g) \<le> n - 1"
    using assms(3) length_dec_int [of g] length_vn [of ps] by (simp add: number_text_def)
  then have "c_buffer n (vn ps @ number_text g) = vn ps @ bytes_of (dec_int (sint g))"
    by (simp add: c_buffer_def number_text_def)
  then show ?thesis
    using draws_labelled_number [OF assms(1) _ length_dec_int assms(4,2)] by simp
qed

definition digits_ok :: "string \<Rightarrow> bool" where
  "digits_ok s = (list_all is_digit s \<and> length s \<le> 9)"

lemma draws_digits [draws_intros]:
  assumes "digits_ok s" "0 \<le> y" "y + 56 \<le> panel_height"
  shows "draws 1 (draw_value_giant (or_else (text_of s) (vn [Asc ''0''])) y c)"
proof -
  have n: "number_char d" if "d \<in> set s" for d
    using assms(1) that by (auto simp: digits_ok_def number_char_def list_all_iff)
  have "\<not> number_char (CHR 0x00)"
    by code_simp
  then have "CHR 0x00 \<notin> set s"
    using n by blast
  then have "or_else (text_of s) (vn [Asc ''0'']) = bytes_of (if s = [] then ''0'' else s)"
    using ascii_vn [of "''0''"] by (auto simp: or_else_def text_of_def ascii_def)
  moreover obtain t where t: "t = (if s = [] then ''0'' else s)" "list_all number_char t" "length t \<le> 9"
    using assms(1) n by (auto simp: list_all_iff digits_ok_def number_char_def is_digit_def)
  ultimately have e: "or_else (text_of s) (vn [Asc ''0'']) = encode (char_codes t)"
    by (simp add: bytes_of_encode number_ascii)
  have w: "large_width (char_codes t) \<le> 13 * int (length t)"
    using number_width [OF t(2)] by simp
  have "0 \<le> large_width (char_codes t)"
    using measure_encoded(3) [of "char_codes t"] measure_range [of "encode (char_codes t)" 3] t
    by (simp add: ascii_codes number_ascii)
  then have "measure_text_width (encode (char_codes t)) 6 \<le> panel_width"
    using w t measure_encoded(4) [of "char_codes t"] by (simp add: ascii_codes number_ascii panel_width_def)
  then show ?thesis
    unfolding draw_value_giant_def e using assms(2,3)
    by (intro draws_centered) (simp_all add: font_value_scale_def known_size_def line_px_def)
qed

lemma draws_identity_line [draws_intros]:
  "0 \<le> y \<Longrightarrow> y + line_height_small + 19 \<le> panel_height \<Longrightarrow> draws 2 (draw_identity_line v y c)"
  unfolding draw_identity_line_def by (intro draws_intros)

lemma draws_quantity_lines [draws_intros]: "draws (1 + (1 + (1 + 0))) (steps (quantity_lines g d w))"
  unfolding quantity_lines_def by (intro draws_intros) (simp_all add: screen_eval)

lemma whole_waiting_screen: "draws_whole 15 (draw_waiting_screen ssid wifi)"
  unfolding draw_waiting_screen_def by (rule whole_screen) (rule draws_intros | simp add: screen_eval)+

lemma whole_resyncing_screen: "draws_whole 15 (draw_resyncing_screen ssid wifi)"
  unfolding draw_resyncing_screen_def by (rule whole_screen) (rule draws_intros | simp add: screen_eval)+

lemma whole_scan_received: "draws_whole 15 (draw_scan_received raw ssid wifi)"
  unfolding draw_scan_received_def by (rule whole_screen) (rule draws_intros | simp add: screen_eval)+

lemma whole_safe_mode_screen: "draws_whole 15 (draw_safe_mode_screen reason ssid wifi)"
  unfolding draw_safe_mode_screen_def by (rule whole_screen) (rule draws_intros | simp add: screen_eval)+

lemma whole_server_mismatch_screen: "draws_whole 15 (draw_server_mismatch_screen e a ssid wifi)"
  unfolding draw_server_mismatch_screen_def by (rule whole_screen) (rule draws_intros | simp add: screen_eval)+

lemma whole_recovery_menu: "draws_whole 15 (draw_recovery_menu ssid wifi)"
  unfolding draw_recovery_menu_def by (rule whole_screen) (rule draws_intros | simp add: screen_eval)+

lemma whole_portal_active: "draws_whole 15 (draw_wifi_portal_active s)"
  unfolding draw_wifi_portal_active_def by (rule whole_screen) (rule draws_intros | simp add: screen_eval)+

lemma whole_portal_testing: "draws_whole 15 (draw_wifi_portal_testing s)"
  unfolding draw_wifi_portal_testing_def by (rule whole_screen) (rule draws_intros | simp add: screen_eval)+

lemma whole_portal_failed: "draws_whole 15 (draw_wifi_portal_failed s)"
  unfolding draw_wifi_portal_failed_def by (rule whole_screen) (rule draws_intros | simp add: screen_eval)+

lemma draws_measured [draws_intros]:
  assumes "b \<Longrightarrow> measure_text_width s font_small \<le> 240" "row_fits_panel y font_small"
  shows "draws 1 (only_if b (centered s y c font_small))"
  using assms draws_centered [of font_small s y c]
  by (intro draws_only_if) (simp add: font_small_def known_size_def panel_width_def row_fits_panel_def)

lemma whole_scan_result:
  assumes "code \<noteq> [] \<Longrightarrow> measure_text_width ((vn [Asc ''M'', Uc 0xE3, Asc '' l'', Uc 0x1ED7, Asc ''i: '']) @ code) font_small \<le> 240"
  shows "draws_whole 15 (draw_scan_result raw status code ssid wifi)"
  unfolding draw_scan_result_def
  by (rule whole_screen) (rule draws_intros assms | simp add: screen_eval | assumption)+

lemma whole_identity_screen: "draws_whole 15 (draw_identity_screen state hw ssid wifi)"
proof (cases state)
qed (simp add: draw_identity_screen_def identity_texts_def,
    (rule whole_screen, (rule draws_intros | simp add: screen_eval)+))+

lemma whole_business_state: "draws_whole 15 (draw_business_state s msg e ssid wifi)"
proof (cases "ss_state s")
qed (simp only: draw_business_state_def business_state_steps_def Let_def business_state.case append_Cons append_Nil,
    (rule whole_screen, (rule draws_intros | simp add: screen_eval)+))+

lemma whole_quantity_input_screen:
  "digits_ok digits \<Longrightarrow> draws_whole 15 (draw_quantity_input_screen v (text_of digits) msg e ssid wifi)"
  unfolding draw_quantity_input_screen_def
  by (rule whole_screen) (rule draws_intros | assumption | simp add: screen_eval transient_y_def)+

lemma whole_quantity_defect_screen:
  "digits_ok digits \<Longrightarrow> draws_whole 15 (draw_quantity_defect_screen v (text_of digits) g msg e ssid wifi)"
  unfolding draw_quantity_defect_screen_def
  by (rule whole_screen) (rule draws_intros | assumption | simp add: screen_eval transient_y_def)+

lemma whole_rework_decision_screen: "draws_whole 15 (draw_rework_decision_screen v g d msg e ssid wifi)"
  unfolding draw_rework_decision_screen_def
  by (rule whole_screen) (rule draws_intros | simp add: screen_eval transient_y_def)+

lemma whole_quantity_rework_screen:
  "digits_ok digits \<Longrightarrow> draws_whole 15 (draw_quantity_rework_screen v (text_of digits) d msg e ssid wifi)"
  unfolding draw_quantity_rework_screen_def
  by (rule whole_screen) (rule draws_intros | assumption | simp add: screen_eval transient_y_def)+

lemma whole_quantity_summary_screen: "draws_whole 15 (draw_quantity_summary_screen v g d w msg e ssid wifi)"
  unfolding draw_quantity_summary_screen_def append_Cons append_Nil
  by (rule whole_screen) (rule draws_intros | simp add: screen_eval transient_y_def)+

lemma whole_finish_result_screen: "draws_whole 15 (draw_finish_result_screen emp op g d w ssid wifi)"
  unfolding draw_finish_result_screen_def append_Cons append_Nil
  by (rule whole_screen) (rule draws_intros | simp add: screen_eval)+

lemma whole_error_view: "draws_whole 15 (draw_error_view msg net ssid wifi)"
  unfolding draw_error_view_def
  by (cases net; (simp only: if_True if_False, rule whole_screen, (rule draws_intros | simp add: screen_eval)+))

section \<open>The kiosk's own screens\<close>

definition screen_fits :: "screen \<Rightarrow> bool" where
  "screen_fits s =
     (case s of
        No_screen \<Rightarrow> False
      | From_bundle u v digits msg err \<Rightarrow> False
      | Scan_result raw msg code \<Rightarrow> code = [] \<or> measure_text_width ((vn [Asc ''M'', Uc 0xE3, Asc '' l'', Uc 0x1ED7, Asc ''i: '']) @ bytes_of code) font_small \<le> 240
      | Quantity_input v digits msg err \<Rightarrow> digits_ok digits
      | Quantity_defect v digits good msg err \<Rightarrow> digits_ok digits
      | Quantity_rework v digits defect msg err \<Rightarrow> digits_ok digits
      | _ \<Rightarrow> True)"

lemma screen_drawn_whole: "screen_fits s \<Longrightarrow> draws_whole 15 (draw_screen s ssid wifi)"
  by (cases s)
    (auto simp: screen_fits_def draw_screen_def whole_waiting_screen whole_resyncing_screen whole_scan_received
      whole_safe_mode_screen whole_server_mismatch_screen whole_scan_result whole_identity_screen whole_business_state
      whole_quantity_input_screen whole_quantity_defect_screen whole_rework_decision_screen whole_quantity_rework_screen
      whole_quantity_summary_screen whole_finish_result_screen whole_error_view)

lemma quantity_digits_ok: "quantity_ok q \<Longrightarrow> digits_ok (qf_buffer q)"
  by (simp add: quantity_ok_def digits_ok_def)

lemma screen_fits_simps [simp]:
  "screen_fits Waiting" "screen_fits Resyncing" "screen_fits (Safe_mode x)" "screen_fits (Server_mismatch a b)"
  "screen_fits (Identity i h)" "screen_fits (Error_view m n)" "screen_fits (Finish_result u v g d w)"
  by (simp_all add: screen_fits_def)

lemma rendered_screen_fits:
  assumes "quantity_ok (k_quantity k)" "bundle_screen k = None"
  shows "screen_fits (k_screen (render p m msg is_error is_network k))"
proof -
  have "screen_fits (business_screen msg is_error (k\<lparr>k_view := w\<rparr>))" for w
    using assms quantity_digits_ok [of "k_quantity k"]
    by (auto simp: business_screen_def bundle_screen_def quantity_screen_def screen_fits_def Let_def
        split: qty_step.splits option.splits)
  then show ?thesis
    by (simp add: render_def draw_def Let_def finish_screen_def)
qed



text \<open>The code a scan on an unprovisioned device is refused with does not fit its
  line: it is centred, not fitted, and clipped at the right edge.\<close>

lemma unprovisioned_code_clipped:
  "identity_error_code UNPROVISIONED = ''IDENTITY_NOT_PROVISIONED''"
  "measure_text_width ((vn [Asc ''M'', Uc 0xE3, Asc '' l'', Uc 0x1ED7, Asc ''i: '']) @ bytes_of ''IDENTITY_NOT_PROVISIONED'') font_small = 291"
  "\<not> screen_fits (Scan_result raw Msg_not_ready (identity_error_code UNPROVISIONED))"
proof -
  show c: "identity_error_code UNPROVISIONED = ''IDENTITY_NOT_PROVISIONED''"
    by (simp add: identity_error_code_def)
  let ?ps = "[Asc ''M'', Uc 0xE3, Asc '' l'', Uc 0x1ED7, Asc ''i: '', Asc ''IDENTITY_NOT_PROVISIONED'']"
  have "(vn [Asc ''M'', Uc 0xE3, Asc '' l'', Uc 0x1ED7, Asc ''i: '']) @ bytes_of ''IDENTITY_NOT_PROVISIONED'' = vn ?ps"
    using ascii_vn [of "''IDENTITY_NOT_PROVISIONED''"] by (simp add: vn_def part_codes_def ascii_def)
  moreover have "measure_text_width (vn ?ps) 2 = body_width (part_codes ?ps)"
    unfolding vn_encode by (rule measure_encoded(2)) (simp_all add: width_eval)
  ultimately show w: "measure_text_width ((vn [Asc ''M'', Uc 0xE3, Asc '' l'', Uc 0x1ED7, Asc ''i: '']) @ bytes_of ''IDENTITY_NOT_PROVISIONED'') font_small = 291"
    by (simp add: font_small_def width_eval)
  show "\<not> screen_fits (Scan_result raw Msg_not_ready (identity_error_code UNPROVISIONED))"
    using w by (simp add: screen_fits_def c)
qed

section \<open>Screens of a bundle\<close>

lemma shrink_loop_result:
  "1 \<le> fs \<Longrightarrow> shrink_loop s m fs = 1 \<or> measure_text_width s (shrink_loop s m fs) \<le> u16_of m"
proof (induction s m fs rule: shrink_loop.induct)
  case (1 s m fs)
  show ?case
  proof (cases "fs > 1 \<and> measure_text_width s fs > u16_of m")
    case True
    then have "fs \<noteq> 0"
      by auto
    then have "1 \<le> fs - 1"
      using True by (auto simp: word_less_nat_alt word_le_nat_alt unat_minus_one)
    then show ?thesis
      using 1 True by (subst (1 2) shrink_loop.simps) simp
  next
    case False
    then show ?thesis
      using "1.prems" by (subst (1 2) shrink_loop.simps) (auto simp: not_less)
  qed
qed

lemma shrink_loop_pos: "fs \<noteq> 0 \<Longrightarrow> shrink_loop s m fs \<noteq> 0"
proof (induction s m fs rule: shrink_loop.induct)
  case (1 s m fs)
  have "fs - 1 \<noteq> 0" if "fs > 1"
    using that by auto
  then show ?case
    using 1 by (subst shrink_loop.simps) auto
qed

lemma emit_at_most:
  assumes "renderer_ok r"
  obtains "drawn (emit_component_text x y s c fs r) = drawn r"
  | "0 \<le> i16 x" "drawn (emit_component_text x y s c fs r) = drawn r @ [component_of (i16 x) (i16 y) s c (if fs = 0 then 1 else fs)]"
proof -
  let ?ops = "draw_vn_text (i16 x) (i16 y) s c (if fs = 0 then 1 else fs)"
  have l: "length (rn_components r) = max_components"
    using assms by (simp add: renderer_ok_def)
  consider "i16 x < 0 \<or> i16 y < 0 \<or> i16 x \<ge> panel_width \<or> i16 y \<ge> panel_height"
    | "0 \<le> i16 x" "on_panel (i16 x) (i16 y)" "rn_next_component r \<ge> max_components"
    | "0 \<le> i16 x" "on_panel (i16 x) (i16 y)" "rn_next_component r < max_components"
    by (fastforce simp: on_panel_def)
  then show thesis
  proof cases
    case 1
    then show ?thesis by (intro that(1)) (simp add: emit_component_text_def)
  next
    case 2
    then have "emit_component_text x y s c fs r = issue ?ops r"
      by (auto simp: emit_component_text_def on_panel_def Let_def issue_def)
    then show ?thesis by (intro that(1)) (simp add: issue_adds)
  next
    case 3
    have "emit_component_text x y s c fs r = emit_component_text (i16 x) (i16 y) s c (if fs = 0 then 1 else fs) r"
      by (simp add: emit_component_text_def)
    then show ?thesis
      using drawn_emit [OF assms 3(3,2), of "if fs = 0 then 1 else fs" s c] 3(1) by (intro that(2)) simp_all
  qed
qed


text \<open>What a step adds stays left of the right edge.\<close>

definition adds_within :: "(renderer \<Rightarrow> renderer) \<Rightarrow> bool" where
  "adds_within f = (\<forall>r. renderer_ok r \<longrightarrow> (\<exists>cs. drawn (f r) = drawn r @ cs \<and>
     list_all (\<lambda>c. 0 \<le> dc_x c \<and> dc_x c + dc_measured_w c \<le> panel_width) cs))"

lemma adds_withinE:
  assumes "adds_within f" "renderer_ok r"
  obtains cs where "drawn (f r) = drawn r @ cs" "list_all (\<lambda>c. 0 \<le> dc_x c \<and> dc_x c + dc_measured_w c \<le> panel_width) cs"
  using assms unfolding adds_within_def by blast

lemma component_of_measured [simp]: "dc_measured_w (component_of x y s c fs) = measure_text_width s fs"
  by (simp add: component_of_def split_beta Let_def measure_text_width_def)

lemma adds_centered:
  assumes "measure_text_width s fs \<le> 232" "fs \<noteq> 0"
  shows "adds_within (centered s y c fs)"
  unfolding adds_within_def
proof (intro allI impI)
  fix r assume r: "renderer_ok r"
  let ?x = "centered_x s fs"
  have x: "?x = (240 - measure_text_width s fs) div 2" "0 \<le> ?x" "?x \<le> 120" "?x + measure_text_width s fs \<le> 240"
    using assms(1) measure_range [of s fs] by (auto simp: centered_x_bounds panel_width_def)
  show "\<exists>cs. drawn (centered s y c fs r) = drawn r @ cs \<and>
      list_all (\<lambda>c. 0 \<le> dc_x c \<and> dc_x c + dc_measured_w c \<le> panel_width) cs"
    using emit_at_most [OF r, of ?x y s c fs]
  proof cases
    case 1
    then show ?thesis by (intro exI [of _ "[]"]) (simp add: centered_def)
  next
    case 2
    then show ?thesis
      using x assms(2) by (intro exI) (auto simp: centered_def panel_width_def)
  qed
qed

lemma adds_two:
  assumes "adds_within f" "adds_within g" "keeps_type f"
  shows "adds_within (steps [f, only_if b g])"
  unfolding adds_within_def
proof (intro allI impI)
  fix r assume r: "renderer_ok r"
  obtain cs where cs: "drawn (f r) = drawn r @ cs" "list_all (\<lambda>c. 0 \<le> dc_x c \<and> dc_x c + dc_measured_w c \<le> panel_width) cs"
    by (rule adds_withinE [OF assms(1) r])
  obtain ds where "drawn (g (f r)) = drawn (f r) @ ds" "list_all (\<lambda>c. 0 \<le> dc_x c \<and> dc_x c + dc_measured_w c \<le> panel_width) ds"
    by (rule adds_withinE [OF assms(2) keeps_typeD [OF assms(3) r]])
  then show "\<exists>cs. drawn (steps [f, only_if b g] r) = drawn r @ cs \<and>
      list_all (\<lambda>c. 0 \<le> dc_x c \<and> dc_x c + dc_measured_w c \<le> panel_width) cs"
    using cs by (intro exI [of _ "if b then cs @ ds else cs"]) (auto simp: only_if_def)
qed



section \<open>What overlaps\<close>

text \<open>A second line of a transient message lies below the footer's divider and on
  the footer's text; on the rework decision even the first line overlaps the
  second option.\<close>

lemma transient_overlaps:
  "transient_y + line_height_small + line_px font_small > footer_y"
  "254 + line_height_small + line_px font_small > footer_divider_y"
  "transient_y < 250 + line_px font_small"
  by (simp_all add: transient_y_def layout_defs line_px_def)

end
