(* ===== verification/Debug_Server.thy ===== *)
theory Debug_Server
  imports Status_Report Ui_Sync Renderer Display
begin

text \<open>
  The debug interface of a development build (debug/debug_server.h, .cpp): the
  screenshot as it goes over HTTP and over the serial line, the descriptions of the
  screen and of the device, and the reading of injected input.  Responses are values;
  what a handler prints in the log is left out.  The reader of the serial frame in
  \<^verbatim>\<open>tools/serial_debug_protocol.py\<close> is modelled too, as the specification of the frame:
  what it returns is the picture on the display.
\<close>

section \<open>Bytes on the wire\<close>

definition write_u16le :: "u16 \<Rightarrow> bytes" where
  "write_u16le v = [ucast (v AND 0xFF), ucast (drop_bit 8 v AND 0xFF)]"

definition write_u32le :: "u32 \<Rightarrow> bytes" where
  "write_u32le v = [ucast (v AND 0xFF), ucast (drop_bit 8 v AND 0xFF),
     ucast (drop_bit 16 v AND 0xFF), ucast (drop_bit 24 v AND 0xFF)]"

definition crc_shift :: "u32 \<Rightarrow> u32" where
  "crc_shift crc = (if crc AND 1 \<noteq> 0 then drop_bit 1 crc XOR 0xEDB88320 else drop_bit 1 crc)"

definition crc32_update :: "u32 \<Rightarrow> bytes \<Rightarrow> u32" where
  "crc32_update crc data = foldl (\<lambda>crc b. (crc_shift ^^ 8) (crc XOR ucast b)) crc data"

text \<open>It is the checksum of the journal, computed with a branch instead of a mask.\<close>

lemma crc_shift_is_bit: "crc_shift = crc32_bit"
proof
  fix crc :: u32
  show "crc_shift crc = crc32_bit crc"
    by (cases "even crc")
      (simp_all add: crc_shift_def crc32_bit_alt and_one_eq bit_0 even_iff_mod_2_eq_zero odd_iff_mod_2_eq_one)
qed

lemma crc32_update_fold: "crc32_update crc data = foldl crc32_byte crc data"
  unfolding crc32_update_def crc_shift_is_bit crc32_byte_def by (rule refl)

lemma payload_crc: "NOT (crc32_update (crc32_update 0xFFFFFFFF xs) ys) = crc32 (xs @ ys)"
  by (simp add: crc32_update_fold crc32_def crc32_seed_def)

section \<open>The screenshot\<close>

text \<open>\<^verbatim>\<open>setRotation(0)\<close> is the only rotation the firmware sets; the words of the
  framebuffer lie in memory with the low byte first.\<close>

definition display_rotation :: u8 where "display_rotation = 0"

definition framebuffer_size :: nat where
  "framebuffer_size = nat (panel_width * panel_height) * 2"

definition raw_pixels :: "u16 list \<Rightarrow> bytes" where
  "raw_pixels fb = concat (map write_u16le fb)"

definition id_length :: "string \<Rightarrow> u8" where
  "id_length s = of_nat (min (length s) 255)"

definition id_bytes :: "string \<Rightarrow> bytes" where
  "id_bytes s = take (unat (id_length s)) (bytes_of s)"

definition screenshot_fields :: "display \<Rightarrow> renderer \<Rightarrow> bytes" where
  "screenshot_fields d r =
     [1, 0, display_rotation, id_length (rn_screen_id r)] @
     write_u16le (of_int panel_width) @ write_u16le (of_int panel_height) @ write_u32le (dp_frame_id d)"

definition debug_println :: "string \<Rightarrow> bytes" where
  "debug_println s = bytes_of (s @ [CHR 0x0D, CHR 0x0A])"

definition no_framebuffer_line :: string where
  "no_framebuffer_line =
     ''{'' @ jkey ''level'' @ jraw ''ERROR'' @ '','' @ jkey ''code'' @ jraw ''DEBUG_SCREENSHOT_FAIL'' @ '','' @
     jkey ''module'' @ jraw ''debug_server'' @ '','' @
     jkey ''message'' @ jraw ''no shadow framebuffer (PSRAM allocation failed at boot)'' @ ''}''"

definition serial_magic :: bytes where "serial_magic = bytes_of ''MFSB''"
definition http_magic :: bytes where "http_magic = bytes_of ''MFSC''"

definition write_screenshot_serial :: "display \<Rightarrow> renderer \<Rightarrow> bytes" where
  "write_screenshot_serial d r =
     (case dp_framebuffer d of
        None \<Rightarrow> debug_println no_framebuffer_line
      | Some fb \<Rightarrow>
          let idb = id_bytes (rn_screen_id r);
              payload_size = ucast (id_length (rn_screen_id r)) + of_nat framebuffer_size;
              crc = NOT (crc32_update (crc32_update 0xFFFFFFFF idb) (raw_pixels fb)) in
          serial_magic @ screenshot_fields d r @ write_u32le payload_size @ write_u32le crc @ idb @ raw_pixels fb)"

section \<open>The server\<close>

record debug_server =
  db_last_screenshot_ms :: u32
  db_paused :: bool
  db_listening :: bool
  db_subscribed :: bool
  db_input_seq :: u32
  db_qa_active :: bool
  db_qa_run_id :: string
  db_qa_step :: string

definition new_debug_server :: debug_server where
  "new_debug_server = \<lparr>db_last_screenshot_ms = 0, db_paused = False, db_listening = False, db_subscribed = False,
     db_input_seq = 0, db_qa_active = False, db_qa_run_id = [], db_qa_step = []\<rparr>"

text \<open>\<open>db_listening\<close>: the last of \<^verbatim>\<open>begin()\<close> and \<^verbatim>\<open>close()\<close> called on the web server.\<close>

definition debug_begin :: "debug_server \<Rightarrow> debug_server" where
  "debug_begin ds = ds\<lparr>db_listening := True\<rparr>"

definition set_paused :: "bool \<Rightarrow> debug_server \<Rightarrow> debug_server" where
  "set_paused paused ds =
     (if paused = db_paused ds then ds
      else if paused then ds\<lparr>db_paused := True, db_listening := False\<rparr>
      else ds\<lparr>db_paused := False, db_listening := True\<rparr>)"

record http_response =
  hs_status :: int
  hs_type :: string
  hs_body :: bytes

definition respond :: "int \<Rightarrow> string \<Rightarrow> string \<Rightarrow> http_response" where
  "respond status type text = \<lparr>hs_status = status, hs_type = type, hs_body = bytes_of text\<rparr>"

definition screenshot_min_interval_ms :: u32 where
  "screenshot_min_interval_ms = 500"

definition handle_screenshot :: "u32 \<Rightarrow> display \<Rightarrow> renderer \<Rightarrow> debug_server \<Rightarrow> http_response \<times> debug_server" where
  "handle_screenshot now d r ds =
     (if now - db_last_screenshot_ms ds < screenshot_min_interval_ms
      then (respond 429 ''text/plain'' ''DEBUG_RATE_LIMITED: max ~2 captures/sec'', ds)
      else
      let ds1 = ds\<lparr>db_last_screenshot_ms := now\<rparr> in
      case dp_framebuffer d of
        None \<Rightarrow> (respond 503 ''text/plain'' ''DEBUG_SCREENSHOT_FAIL: no framebuffer'', ds1)
      | Some fb \<Rightarrow>
          (\<lparr>hs_status = 200, hs_type = ''application/octet-stream'',
            hs_body = http_magic @ screenshot_fields d r @ id_bytes (rn_screen_id r) @ raw_pixels fb\<rparr>, ds1))"

section \<open>What is on the screen\<close>

definition used_items :: "('a \<Rightarrow> bool) \<Rightarrow> 'a list \<Rightarrow> (nat \<times> 'a) list" where
  "used_items used xs = filter (\<lambda>(i, x). used x) (zip [0..<length xs] xs)"

definition line_entry :: "(colour \<Rightarrow> u16) \<Rightarrow> nat \<times> drawn_line \<Rightarrow> string" where
  "line_entry px = (\<lambda>(i, l).
     ''{'' @ jkey ''row'' @ dec i @ '','' @ jkey ''text'' @ jstr (c_str (string_of (dl_text l))) @ '','' @
     jkey ''color565'' @ num (px (dl_color l)) @ '','' @ jkey ''measured_w'' @ dec_int (dl_measured_w l) @ '','' @
     jkey ''overflow'' @ jbool (dl_overflow l) @ ''}'')"

definition component_entry :: "(colour \<Rightarrow> u16) \<Rightarrow> drawn_component \<Rightarrow> string" where
  "component_entry px c =
     ''{'' @ jkey ''x'' @ dec_int (dc_x c) @ '','' @ jkey ''y'' @ dec_int (dc_y c) @ '','' @
     jkey ''w'' @ dec_int (dc_w c) @ '','' @ jkey ''h'' @ dec_int (dc_h c) @ '','' @
     jkey ''font_size'' @ num (dc_font_size c) @ '','' @ jkey ''text'' @ jstr (c_str (string_of (dc_text c))) @ '','' @
     jkey ''color565'' @ num (px (dc_color c)) @ '','' @ jkey ''measured_w'' @ dec_int (dc_measured_w c) @ '','' @
     jkey ''overflow'' @ jbool (dc_overflow c) @ ''}''"

definition build_ui_state_json ::
  "(colour \<Rightarrow> u16) \<Rightarrow> build_info \<Rightarrow> display \<Rightarrow> renderer \<Rightarrow> ui_store \<Rightarrow> string" where
  "build_ui_state_json px bi d r st =
     ''{'' @ jkey ''screen_id'' @ jstr (c_str (rn_screen_id r)) @ '','' @
     jkey ''frame_id'' @ num (dp_frame_id d) @ '','' @
     jkey ''display'' @ ''{'' @ jkey ''width'' @ dec_int panel_width @ '','' @ jkey ''height'' @ dec_int panel_height @ '','' @
     jkey ''rotation'' @ num display_rotation @ ''},'' @
     jkey ''runtime'' @ ''{'' @ jkey ''firmware_version'' @ jraw kiosk_runtime_version @ '','' @
     jkey ''build_id'' @ jraw (bi_build_id bi) @ ''},'' @
     jkey ''lines'' @ ''['' @ comma_sep (map (line_entry px) (used_items dl_used (rn_lines r))) @ ''],'' @
     jkey ''components'' @ ''['' @
       comma_sep (map (component_entry px \<circ> snd) (used_items dc_used (rn_components r))) @ ''],'' @
     jkey ''layout_id'' @ jstr (c_str (rn_screen_id r)) @ '','' @
     jkey ''ui_bundle_version'' @ num (if us_has_active st then us_active_version st else 0) @ ''}''"

section \<open>The state of the device\<close>

definition insert_before_end :: "string \<Rightarrow> string \<Rightarrow> string" where
  "insert_before_end x json = take (length json - 1) json @ x @ drop (length json - 1) json"

definition qa_fields :: "debug_server \<Rightarrow> string" where
  "qa_fields ds =
     '','' @ jkey ''qa'' @ ''{'' @ jkey ''active'' @ jbool (db_qa_active ds) @
     (if db_qa_active ds
      then '','' @ jkey ''run_id'' @ jstr (c_str (db_qa_run_id ds)) @ '','' @ jkey ''step'' @ jstr (c_str (db_qa_step ds))
      else []) @
     ''}'' @ '','' @ jkey ''last_input_seq'' @ num (db_input_seq ds)"

definition ui_fields :: "ui_store \<Rightarrow> ui_sync \<Rightarrow> string" where
  "ui_fields st uy =
     '','' @ jkey ''ui'' @ ''{'' @ jkey ''active_version'' @ num (us_active_version st) @ '','' @
     jkey ''active_hash'' @ jstr (c_str (us_active_hash st)) @ '','' @
     jkey ''schema_version'' @ num (us_active_schema_version st) @ '','' @
     jkey ''active_slot'' @ jraw [us_active_slot st] @ '','' @
     jkey ''last_good_version'' @ num (us_last_good_version st) @ '','' @
     jkey ''desired_version'' @ num (uy_last_desired_version uy) @ '','' @
     jkey ''sync_state'' @ jraw (ui_sync_state_to_string (us_sync_state st)) @ '','' @
     jkey ''last_update_error'' @ jstr (c_str (us_last_update_error st)) @ ''}''"

definition build_device_state_json :: "string \<Rightarrow> ui_store \<Rightarrow> ui_sync \<Rightarrow> debug_server \<Rightarrow> string" where
  "build_device_state_json status st uy ds =
     insert_before_end (ui_fields st uy)
       (insert_before_end (qa_fields ds)
         (insert_before_end ('','' @ jkey ''framebuffer_bytes'' @ dec framebuffer_size) status))"

section \<open>Test sessions and injected input\<close>

definition handle_qa_session ::
  "string \<Rightarrow> debug_server \<times> renderer \<Rightarrow> http_response \<times> debug_server \<times> renderer" where
  "handle_qa_session arg = (\<lambda>(ds, r).
     (let body = c_str arg;
          has_run_id = json_has_key body ''run_id'';
          explicit_inactive = json_has_key body ''active'' \<and> \<not> json_extract_bool body ''active'' True in
      if \<not> has_run_id \<or> explicit_inactive then
        (respond 200 ''application/json'' (''{'' @ jkey ''active'' @ ''false}''),
         ds\<lparr>db_qa_active := False, db_qa_run_id := [], db_qa_step := []\<rparr>, set_qa_active False r)
      else
      let run_id = c_str (json_extract_string body ''run_id'' []);
          step = c_str (json_extract_string body ''step'' []) in
      (respond 200 ''application/json''
         (''{'' @ jkey ''active'' @ ''true,'' @ jkey ''run_id'' @ jstr run_id @ '','' @ jkey ''step'' @ jstr step @ ''}''),
       ds\<lparr>db_qa_active := True, db_qa_run_id := run_id, db_qa_step := step\<rparr>, set_qa_active True r)))"

text \<open>A rejection carries the status and the message of the response.\<close>

definition build_input_event :: "string \<Rightarrow> int \<times> string + local_event" where
  "build_input_event body =
     (let extract = (\<lambda>field. c_str (json_extract_string body field [])); type = extract ''type'' in
      if type = ''SCAN'' then
        (let value = extract ''value'' in
         if value = [] then Inl (400, ''SCAN requires '' @ jraw ''value'') else Inr (Scan_event value))
      else if type = ''KEY_DOWN'' \<or> type = ''KEY_UP'' then
        (let key = extract ''key'' in
         if key = [] then Inl (400, ''KEY_DOWN/KEY_UP requires '' @ jraw ''key'')
         else Inr ((if type = ''KEY_DOWN'' then Key_down else Key_up) (hd key)))
      else if type = ''TOUCH'' then Inl (501, ''TOUCH not implemented in Phase 0 (no touch driver)'')
      else Inl (400, ''unknown type (expected SCAN/KEY_DOWN/KEY_UP)''))"

definition accepted_text :: "debug_server \<Rightarrow> string" where
  "accepted_text ds = ''{'' @ jkey ''accepted'' @ ''true,'' @ jkey ''input_seq'' @ num (db_input_seq ds) @ ''}''"

definition rejected_text :: "int \<Rightarrow> string \<Rightarrow> string" where
  "rejected_text status message =
     ''{'' @ jkey ''accepted'' @ ''false,'' @ jkey ''http_status'' @ dec_int status @ '','' @
     jkey ''error'' @ jstr message @ ''}''"

definition count_input :: "debug_server \<Rightarrow> debug_server" where
  "count_input ds = ds\<lparr>db_input_seq := db_input_seq ds + 1\<rparr>"

definition marked :: "string \<Rightarrow> string \<Rightarrow> bytes" where
  "marked tag text =
     debug_println (''##MFDBG-BEGIN '' @ tag @ ''##'') @ debug_println text @ debug_println ''##MFDBG-END##''"

end
