(* ===== verification/Debug_Frame.thy ===== *)
theory Debug_Frame
  imports Debug_Server
begin

text \<open>
  The reader at the other end of the serial line (\<^verbatim>\<open>read_screenshot\<close> of
  tools/serial_debug_protocol.py and the pixel decoder of tools/capture_screen.py) and
  what it makes of a screenshot: the picture, or an error.  The stream is the list of
  bytes received until the line falls silent.
\<close>

section \<open>The reader\<close>

fun find_magic :: "bytes \<Rightarrow> bytes option" where
  "find_magic [] = None"
| "find_magic (b # bs) = (if take 4 (b # bs) = serial_magic then Some (drop 3 bs) else find_magic bs)"

record screenshot =
  sh_rotation :: u8
  sh_width :: nat
  sh_height :: nat
  sh_frame_id :: u32
  sh_screen_id :: bytes
  sh_pixel_bytes :: bytes

definition read_u16_le :: "bytes \<Rightarrow> nat" where
  "read_u16_le b = unat (b ! 0) + 256 * unat (b ! 1)"

definition read_screenshot :: "bytes \<Rightarrow> screenshot option" where
  "read_screenshot stream =
     (case find_magic stream of
        None \<Rightarrow> None
      | Some rest \<Rightarrow>
          if length rest < 20 then None
          else
          let version = rest ! 0; pixel_format = rest ! 1; rotation = rest ! 2; screen_id_len = rest ! 3;
              width = read_u16_le (drop 4 rest); height = read_u16_le (drop 6 rest);
              frame_id = read_u32_le (drop 8 rest); payload_size = unat (read_u32_le (drop 12 rest));
              expected_crc = read_u32_le (drop 16 rest); body = drop 20 rest in
          if version \<noteq> 1 then None
          else if pixel_format \<noteq> 0 then None
          else if length body < payload_size then None
          else
          let payload = take payload_size body; actual_crc = crc32 payload in
          if actual_crc \<noteq> expected_crc then None
          else
          let screen_id = take (unat screen_id_len) payload; pixel_bytes = drop (unat screen_id_len) payload in
          if length pixel_bytes \<noteq> width * height * 2 then None
          else Some \<lparr>sh_rotation = rotation, sh_width = width, sh_height = height, sh_frame_id = frame_id,
            sh_screen_id = screen_id, sh_pixel_bytes = pixel_bytes\<rparr>)"

fun pixel_values :: "bytes \<Rightarrow> nat list" where
  "pixel_values (lo # hi # bs) = (unat lo + 256 * unat hi) # pixel_values bs"
| "pixel_values _ = []"

section \<open>Numbers and pixels\<close>

lemma write_u32le_eq: "write_u32le v = write_u32_le v"
  by (simp add: write_u32le_def write_u32_le_def)

lemma length_writes [simp]: "length (write_u16le w) = 2" "length (write_u32le v) = 4"
  by (simp_all add: write_u16le_def write_u32le_def)

lemma read_u32_write [codec_simps]: "read_u32_le (write_u32le v @ r) = v"
  using read_write_u32_le [of v]
  by (simp add: read_u32_le_def nth_append write_u32le_eq)

lemma u16_bytes: "unat (ucast (v AND 0xFF) :: u8) + 256 * unat (ucast (drop_bit 8 v AND 0xFF) :: u8) = unat (v :: u16)"
proof -
  have m: "unat (ucast (w AND 0xFF) :: u8) = unat w mod 256" for w :: u16
  proof -
    have "w AND 0xFF = take_bit 8 w"
      by (simp add: take_bit_eq_mask mask_eq_exp_minus_1)
    then have "ucast (w AND 0xFF) = (ucast (take_bit 8 w) :: u8)"
      by (rule arg_cong)
    moreover have "unat (ucast (take_bit 8 w) :: u8) = take_bit 8 (take_bit 8 (unat w))"
      by (simp only: unsigned_ucast_eq unsigned_take_bit_eq) simp
    ultimately show ?thesis
      by (simp add: take_bit_eq_mod)
  qed
  have "unat (drop_bit 8 v) = unat v div 256"
    by (simp add: drop_bit_eq_div unat_div)
  moreover have "unat v < 65536"
    using unsigned_less [where 'a = nat, of v] by simp
  ultimately show ?thesis
    by (simp only: m) simp
qed

lemma read_u16_write [codec_simps]: "read_u16_le (write_u16le v @ r) = unat v"
  by (simp add: read_u16_le_def write_u16le_def u16_bytes)

lemma length_raw_pixels [simp]: "length (raw_pixels fb) = 2 * length fb"
  by (induction fb) (simp_all add: raw_pixels_def)

lemma pixels_reread: "pixel_values (raw_pixels fb) = map unat fb"
  by (induction fb) (simp_all add: raw_pixels_def write_u16le_def u16_bytes)

lemma unat_id_length: "unat (id_length s) = min (length s) 255"
  by (simp add: id_length_def unat_of_nat)

lemma id_bytes_eq: "id_bytes s = take 255 (bytes_of s)"
  by (simp add: id_bytes_def unat_id_length min_def)

section \<open>The frame\<close>

text \<open>Log lines may come before the frame, as long as none of them spells the magic.\<close>

definition magic_free :: "bytes \<Rightarrow> bool" where
  "magic_free noise = (\<forall>k<length noise. take 4 (drop k noise) \<noteq> serial_magic)"

lemma find_magic_here: "find_magic (serial_magic @ r) = Some r"
  by (simp add: serial_magic_def bytes_of_def)

lemma no_overlap:
  assumes "take 4 (a @ serial_magic @ r) = serial_magic" "a \<noteq> []" "length a < 4"
  shows False
proof -
  consider x where "a = [x]" | x y where "a = [x, y]" | x y z where "a = [x, y, z]"
    using assms(2,3) by (cases a; cases "tl a"; cases "tl (tl a)"; cases "tl (tl (tl a))") auto
  then show False
    using assms(1) by cases (auto simp: serial_magic_def bytes_of_def byte_of_char_def)
qed

lemma find_magic_after:
  assumes "magic_free noise"
  shows "find_magic (noise @ serial_magic @ r) = Some r"
  using assms
proof (induction noise)
  case Nil
  then show ?case by (simp add: find_magic_here)
next
  case (Cons b bs)
  have "take 4 (b # bs @ serial_magic @ r) \<noteq> serial_magic"
  proof (cases "length (b # bs) < 4")
    case True
    then show ?thesis
      using no_overlap [of "b # bs" r] by auto
  next
    case False
    then have "take 4 (b # bs @ serial_magic @ r) = take 4 (drop 0 (b # bs))"
      by simp
    then show ?thesis
      using Cons.prems unfolding magic_free_def by (metis length_greater_0_conv list.distinct(1))
  qed
  moreover have "magic_free bs"
    using Cons.prems unfolding magic_free_def by (metis Suc_less_eq drop_Suc_Cons length_Cons)
  ultimately show ?case
    using Cons.IH by simp
qed

text \<open>What the reader does with a frame of these fields, up to the check of the payload.\<close>

lemma length_fields [simp]: "length (screenshot_fields d r) = 12"
  by (simp add: screenshot_fields_def)

lemma fields_nth:
  "screenshot_fields d r ! 0 = 1" "screenshot_fields d r ! Suc 0 = 0" "screenshot_fields d r ! 2 = display_rotation"
  "screenshot_fields d r ! 3 = id_length (rn_screen_id r)"
  by (simp_all add: screenshot_fields_def)

lemma fields_drop:
  "drop 4 (screenshot_fields d r) = write_u16le 240 @ write_u16le 320 @ write_u32le (dp_frame_id d)"
  "drop 6 (screenshot_fields d r) = write_u16le 320 @ write_u32le (dp_frame_id d)"
  "drop 8 (screenshot_fields d r) = write_u32le (dp_frame_id d)"
  by (simp_all add: screenshot_fields_def panel_width_def panel_height_def)

lemma read_frame:
  assumes "magic_free noise" "length payload = unat n" "unat (id_length (rn_screen_id r)) \<le> unat n"
  shows "read_screenshot
      (noise @ serial_magic @ screenshot_fields d r @ write_u32le n @ write_u32le crc @ payload @ later) =
    (if crc32 payload \<noteq> crc \<or> unat n - unat (id_length (rn_screen_id r)) \<noteq> 153600 then None
     else Some \<lparr>sh_rotation = display_rotation, sh_width = 240, sh_height = 320, sh_frame_id = dp_frame_id d,
       sh_screen_id = take (unat (id_length (rn_screen_id r))) payload,
       sh_pixel_bytes = drop (unat (id_length (rn_screen_id r))) payload\<rparr>)"
  using assms(2,3)
  by (simp add: read_screenshot_def find_magic_after [OF assms(1)] nth_append fields_nth fields_drop codec_simps
      Let_def drop_append)

lemma payload_length:
  assumes "dp_framebuffer d = Some fb" "display_ok d"
  shows "length (id_bytes s @ raw_pixels fb) =
    unat (ucast (id_length s) + of_nat framebuffer_size :: u32)"
    "unat (ucast (id_length s) + of_nat framebuffer_size :: u32) = unat (id_length s) + 153600"
proof -
  have "unat (id_length s) < 256"
    using unsigned_less [where 'a = nat, of "id_length s"] by simp
  moreover from this have "unat (ucast (id_length s) :: u32) = unat (id_length s)"
    by (simp add: unsigned_ucast_eq take_bit_eq_mod)
  ultimately show n: "unat (ucast (id_length s) + of_nat framebuffer_size :: u32) = unat (id_length s) + 153600"
    by (simp add: unat_word_ariths framebuffer_size_def panel_width_def panel_height_def)
  show "length (id_bytes s @ raw_pixels fb) = unat (ucast (id_length s) + of_nat framebuffer_size :: u32)"
    using assms unfolding n
    by (simp add: display_ok_def id_bytes_eq unat_id_length panel_width_def panel_height_def min_def)
qed

text \<open>The frame with any other payload of the same length in the place of its own.\<close>

lemma read_payload:
  assumes "dp_framebuffer d = Some fb" "display_ok d" "magic_free noise"
    and "length payload = length (id_bytes (rn_screen_id r) @ raw_pixels fb)"
  shows "read_screenshot (noise @ serial_magic @ screenshot_fields d r @
      write_u32le (ucast (id_length (rn_screen_id r)) + of_nat framebuffer_size) @
      write_u32le (crc32 (id_bytes (rn_screen_id r) @ raw_pixels fb)) @ payload @ later) =
    (if crc32 payload \<noteq> crc32 (id_bytes (rn_screen_id r) @ raw_pixels fb) then None
     else Some \<lparr>sh_rotation = display_rotation, sh_width = 240, sh_height = 320, sh_frame_id = dp_frame_id d,
       sh_screen_id = take (unat (id_length (rn_screen_id r))) payload,
       sh_pixel_bytes = drop (unat (id_length (rn_screen_id r))) payload\<rparr>)"
proof -
  note n = payload_length [OF assms(1,2), of "rn_screen_id r"]
  have l: "length payload = unat (ucast (id_length (rn_screen_id r)) + of_nat framebuffer_size :: u32)"
    using assms(4) n(1) by (rule trans)
  show ?thesis
    by (subst read_frame [OF assms(3) l]) (simp_all only: n(2), simp_all)
qed

lemma serial_frame:
  assumes "dp_framebuffer d = Some fb"
  shows "write_screenshot_serial d r = serial_magic @ screenshot_fields d r @
      write_u32le (ucast (id_length (rn_screen_id r)) + of_nat framebuffer_size) @
      write_u32le (crc32 (id_bytes (rn_screen_id r) @ raw_pixels fb)) @ id_bytes (rn_screen_id r) @ raw_pixels fb"
  by (simp add: write_screenshot_serial_def assms Let_def payload_crc)

text \<open>C35. A screenshot sent over the serial line arrives: behind any bytes that do not spell
  the magic, and whatever follows, the reader returns the size of the panel, the
  number of the frame, the name of the screen (its first 255 bytes) and every pixel
  of the framebuffer, in order and with its value.\<close>

theorem screenshot_reaches_host:
  assumes "dp_framebuffer d = Some fb" "display_ok d" "magic_free noise"
  shows "\<exists>shot. read_screenshot (noise @ write_screenshot_serial d r @ later) = Some shot \<and>
    sh_width shot = 240 \<and> sh_height shot = 320 \<and> sh_frame_id shot = dp_frame_id d \<and>
    sh_screen_id shot = take 255 (bytes_of (rn_screen_id r)) \<and>
    pixel_values (sh_pixel_bytes shot) = map unat fb"
proof -
  have l: "length (id_bytes (rn_screen_id r)) = unat (id_length (rn_screen_id r))"
    by (simp add: id_bytes_eq unat_id_length min_def)
  show ?thesis
    using read_payload [OF assms refl, of r later]
    by (simp add: serial_frame [OF assms(1)] l pixels_reread) (simp add: id_bytes_eq)
qed

theorem screenshot_reaches_host_witness:
  "\<exists>shot. read_screenshot (bytes_of ''{MFS}'' @ write_screenshot_serial (snd (display_init True 0xF800)) new_renderer @ [7])
     = Some shot \<and> sh_screen_id shot = bytes_of ''none''"
proof -
  let ?d = "snd (display_init True 0xF800)"
  obtain fb where fb: "dp_framebuffer ?d = Some fb"
    by (simp add: display_init_def pixel_op_mirror_def mirror_rect_def Let_def)
  have ok: "display_ok ?d"
    using display_init_ok by simp
  have "magic_free (bytes_of ''{MFS}'')"
    by (simp add: magic_free_def bytes_of_def serial_magic_def byte_of_char_def less_Suc_eq)
  from screenshot_reaches_host [OF fb ok this, of new_renderer "[7]"] show ?thesis
    by (auto simp: new_renderer_def bytes_of_def)
qed

text \<open>Up to four neighbouring bytes of the payload garbled on the way are noticed.\<close>

lemma garbled_screenshot_rejected:
  assumes "dp_framebuffer d = Some fb" "display_ok d" "magic_free noise"
    and "write_screenshot_serial d r = header @ front @ xs @ rest" "length header = 24"
    and "length ys = length xs" "length xs \<le> 4" "ys \<noteq> xs"
  shows "read_screenshot (noise @ header @ front @ ys @ rest @ later) = None"
proof -
  let ?header = "serial_magic @ screenshot_fields d r @
      write_u32le (ucast (id_length (rn_screen_id r)) + of_nat framebuffer_size) @
      write_u32le (crc32 (id_bytes (rn_screen_id r) @ raw_pixels fb))"
  have whole: "?header @ id_bytes (rn_screen_id r) @ raw_pixels fb = header @ front @ xs @ rest"
    using assms(4) by (simp add: serial_frame [OF assms(1)])
  have "length ?header = length header"
    by (simp add: assms(5) serial_magic_def)
  then have "?header = header \<and> id_bytes (rn_screen_id r) @ raw_pixels fb = front @ xs @ rest"
    using whole by (rule append_eq_append_conv [THEN iffD1, OF disjI1])
  then have e: "header = ?header" "front @ xs @ rest = id_bytes (rn_screen_id r) @ raw_pixels fb"
    by (metis, metis)
  have "crc32 (front @ ys @ rest) \<noteq> crc32 (front @ xs @ rest)"
    unfolding crc32_def by (rule crc32_burst) (use assms(6-8) in simp_all)
  moreover have "length (front @ ys @ rest) = length (id_bytes (rn_screen_id r) @ raw_pixels fb)"
    by (simp add: assms(6) flip: e(2))
  ultimately show ?thesis
    using read_payload [OF assms(1-3), of "front @ ys @ rest" r later] by (simp add: e(1) e(2) [symmetric])
qed

end
