(* ===== verification/Compaction_Crash.thy ===== *)
theory Compaction_Crash
  imports Event_Journal
begin

text \<open>
  The development build can put the disk into the states an interrupted compaction
  leaves behind (\<^verbatim>\<open>simulate_compaction_crash_for_test\<close> of storage/event_journal.cpp)
  and restart; the recovery of the next boot is then seen at work.  Whatever the
  state chosen and whichever of the operations fail while it is set up, that boot
  finds the journal as it was.
\<close>

section \<open>The four states\<close>

text \<open>A header that claims a hundred bytes, and two of them.\<close>

definition stray_frame :: bytes where
  "stray_frame = [0x64, 0x00, 0x00, 0x00, 0xAA, 0xBB]"

definition leave_torn_tmp :: "'d spiffs_ops \<Rightarrow> 'd \<Rightarrow> 'd" where
  "leave_torn_tmp fs d =
     (let d1 = snd (fs_remove fs d journal_tmp_path);
          (opened, d2) = fs_open fs d1 journal_tmp_path MODE_APPEND in
      if opened then snd (fs_write fs d2 journal_tmp_path stray_frame) else d2)"

text \<open>The records of the keep list, whether or not each is written.\<close>

fun write_regardless :: "'d spiffs_ops \<Rightarrow> journal_index \<Rightarrow> string list \<Rightarrow> 'd sj_file \<Rightarrow> 'd sj_file" where
  "write_regardless fs idx [] f = f"
| "write_regardless fs idx (k # ks) f =
     (case index_find idx k of
        None \<Rightarrow> write_regardless fs idx ks f
      | Some r \<Rightarrow> write_regardless fs idx ks (snd (append_journal_frame (sj_ops fs) f (encode_journal_event r))))"

definition leave_whole_tmp :: "'d spiffs_ops \<Rightarrow> journal_index \<Rightarrow> 'd \<Rightarrow> 'd" where
  "leave_whole_tmp fs idx d =
     (let keep = select_records_to_keep default_policy idx;
          d1 = snd (fs_remove fs d journal_tmp_path) in
      sj_disk (write_regardless fs idx keep (new_sj_file d1 journal_tmp_path)))"

definition leave_half_swapped :: "'d spiffs_ops \<Rightarrow> 'd \<Rightarrow> 'd" where
  "leave_half_swapped fs d =
     (let d1 = snd (fs_remove fs d journal_tmp_path) in
      if fs_exists fs d1 journal_path then snd (fs_rename fs d1 journal_path journal_old_path) else d1)"

text \<open>The loop that copies the journal in blocks of 512 bytes, from a position of the
  source; how much a read returns is up to the file system.\<close>

partial_function (option) copy_loop :: "'d spiffs_ops \<Rightarrow> nat \<Rightarrow> 'd \<Rightarrow> 'd option" where
  "copy_loop fs pos d =
     (let c = fs_read fs d journal_path pos 512 in
      if c = [] then Some d
      else copy_loop fs (pos + length c) (snd (fs_write fs d journal_old_path c)))"

definition leave_both :: "'d spiffs_ops \<Rightarrow> 'd \<Rightarrow> 'd option" where
  "leave_both fs d =
     (let d1 = snd (fs_remove fs d journal_tmp_path);
          d2 = snd (fs_remove fs d1 journal_old_path) in
      if fs_exists fs d2 journal_path then
        let (src, d3) = fs_open fs d2 journal_path MODE_READ;
            (dst, d4) = fs_open fs d3 journal_old_path MODE_APPEND in
        if src \<and> dst then copy_loop fs 0 d4 else Some d4
      else Some d2)"

definition simulate_compaction_crash :: "'d spiffs_ops \<Rightarrow> int \<Rightarrow> 'd event_journal \<Rightarrow> 'd event_journal option" where
  "simulate_compaction_crash fs scenario ej =
     (if scenario = 1 then Some (ej\<lparr>ej_disk := leave_torn_tmp fs (ej_disk ej)\<rparr>)
      else if scenario = 2 then Some (ej\<lparr>ej_disk := leave_whole_tmp fs (ej_index ej) (ej_disk ej)\<rparr>)
      else if scenario = 3 then Some (ej\<lparr>ej_disk := leave_half_swapped fs (ej_disk ej)\<rparr>)
      else if scenario = 4 then map_option (\<lambda>d. ej\<lparr>ej_disk := d\<rparr>) (leave_both fs (ej_disk ej))
      else Some ej)"

section \<open>Each of them is recovered\<close>

context spiffs begin

lemma boot_bytes_other:
  "(\<And>q. q \<noteq> journal_tmp_path \<Longrightarrow> fs' q = fs q) \<Longrightarrow> boot_bytes fs' = boot_bytes fs"
  by (simp add: boot_bytes_def file_bytes_def split: option.split)

lemma append_other:
  assumes "fs_open ops d p MODE_APPEND = (ok, d')" "q \<noteq> p"
  shows "files d' q = files d q"
  using open_append [OF assms(1)] assms(2) by auto

lemma write_other: "q \<noteq> p \<Longrightarrow> files (snd (fs_write ops d p data)) q = files d q"
  using write_data [of d p data "fst (fs_write ops d p data)" "snd (fs_write ops d p data)"]
  by (cases "files d p") auto

lemma torn_tmp_other: "q \<noteq> journal_tmp_path \<Longrightarrow> files (leave_torn_tmp ops d) q = files d q"
  using append_other [of "snd (fs_remove ops d journal_tmp_path)" journal_tmp_path]
  by (auto simp: leave_torn_tmp_def write_other remove_other split: prod.split)

lemma write_regardless_other:
  "q \<noteq> sj_path f \<Longrightarrow> files (sj_disk (write_regardless ops idx ks f)) q = files (sj_disk f) q"
proof (induction ks arbitrary: f)
  case (Cons k ks)
  have "files (sj_disk (snd (append_journal_frame (sj_ops ops) f b))) q = files (sj_disk f) q \<and>
      sj_path (snd (append_journal_frame (sj_ops ops) f b)) = sj_path f" for b
  proof -
    obtain ok f' where a: "append_journal_frame (sj_ops ops) f b = (ok, f')"
      by fastforce
    have r: "(files (sj_disk f'))(sj_path f' := None) = (files (sj_disk f))(sj_path f := None)" "sj_path f' = sj_path f"
      using sj.append_rest [OF a] unfolding sj_rest_def prod.inject by blast+
    show ?thesis
      using fun_cong [OF r(1), of q] r(2) Cons.prems by (simp add: a)
  qed
  then show ?case
    using Cons by (simp split: option.split)
qed simp

lemma whole_tmp_other: "q \<noteq> journal_tmp_path \<Longrightarrow> files (leave_whole_tmp ops idx d) q = files d q"
  by (simp add: leave_whole_tmp_def write_regardless_other remove_other new_sj_file_def)

lemma half_swapped_boot: "boot_bytes (files (leave_half_swapped ops d)) = boot_bytes (files d)"
proof -
  let ?d1 = "snd (fs_remove ops d journal_tmp_path)"
  have d1: "boot_bytes (files ?d1) = boot_bytes (files d)"
    by (rule boot_bytes_other) (rule remove_other)
  obtain ok d2 where r: "fs_rename ops ?d1 journal_path journal_old_path = (ok, d2)"
    by fastforce
  have "boot_bytes (files d2) = boot_bytes (files ?d1)"
    using rename [OF r] by (cases ok) (auto simp: boot_bytes_def)
  then show ?thesis
    using d1 by (simp add: leave_half_swapped_def r Let_def)
qed

text \<open>The copy ends: each block moves the position on, and at the end of the file a read
  returns nothing.\<close>

lemma copy_loop_spec:
  assumes "files d journal_path = Some c"
  shows "\<exists>d'. copy_loop ops pos d = Some d' \<and> (\<forall>q. q \<noteq> journal_old_path \<longrightarrow> files d' q = files d q)"
  using assms
proof (induction "length c - pos" arbitrary: pos d rule: less_induct)
  case less
  obtain k where k: "fs_read ops d journal_path pos 512 = take k (drop pos c)"
      "0 < (512 :: nat) \<and> pos < length c \<longrightarrow> 0 < k"
    using read_data [OF less.prems] by blast
  show ?case
  proof (cases "fs_read ops d journal_path pos 512 = []")
    case True
    then show ?thesis
      by (subst copy_loop.simps) simp
  next
    case False
    let ?c = "fs_read ops d journal_path pos 512" and ?d = "snd (fs_write ops d journal_old_path (fs_read ops d journal_path pos 512))"
    have "length c - (pos + length ?c) < length c - pos"
      using False k(1) by auto
    moreover have "files ?d journal_path = Some c"
      using less.prems by (simp add: write_other)
    ultimately obtain d' where "copy_loop ops (pos + length ?c) ?d = Some d'"
        "\<forall>q. q \<noteq> journal_old_path \<longrightarrow> files d' q = files ?d q"
      using less.hyps by blast
    then show ?thesis
      using False by (subst copy_loop.simps) (simp add: write_other Let_def)
  qed
qed

lemma both_boot:
  assumes "files d journal_path \<noteq> None"
  shows "\<exists>d'. leave_both ops d = Some d' \<and> boot_bytes (files d') = boot_bytes (files d)"
proof -
  let ?d2 = "snd (fs_remove ops (snd (fs_remove ops d journal_tmp_path)) journal_old_path)"
  obtain src d3 dst d4 where o: "fs_open ops ?d2 journal_path MODE_READ = (src, d3)"
      "fs_open ops d3 journal_old_path MODE_APPEND = (dst, d4)"
    by fastforce
  obtain c where c: "files d journal_path = Some c"
    using assms by blast
  have d2: "files ?d2 journal_path = Some c"
    using c by (simp add: remove_other)
  then have "files d4 journal_path = Some c"
    using append_other [OF o(2), of journal_path] open_read [OF o(1)] by simp
  then show ?thesis
    using copy_loop_spec [of d4 c 0] c d2 o
    by (auto simp: leave_both_def exists_iff boot_bytes_def)
qed

text \<open>The state of the disk changes, what a boot recovers from it does not; it is the
  index of the memory.\<close>

lemma simulated_crash_recovers:
  assumes "healthy ops files" "journal_holds files bs ej" "files (ej_disk ej) journal_path \<noteq> None"
  shows "\<exists>ej' b. simulate_compaction_crash ops scenario ej = Some ej' \<and>
    journal_init ops (ji_capacity_bytes (ej_index ej)) (new_journal (ej_disk ej')) = Some b \<and> ej_init_ok b \<and>
    ej_index b = ej_index ej"
proof -
  have "\<exists>ej'. simulate_compaction_crash ops scenario ej = Some ej' \<and>
      boot_bytes (files (ej_disk ej')) = boot_bytes (files (ej_disk ej))"
    using both_boot [OF assms(3)] half_swapped_boot [of "ej_disk ej"]
      boot_bytes_other [OF torn_tmp_other] boot_bytes_other [OF whole_tmp_other]
    unfolding simulate_compaction_crash_def by auto
  moreover have "boot_bytes (files (ej_disk ej)) = file_bytes (files (ej_disk ej)) journal_path"
    using assms(3) by (auto simp: boot_bytes_def)
  ultimately obtain ej' where e: "simulate_compaction_crash ops scenario ej = Some ej'"
      "boot_bytes (files (ej_disk ej')) = file_bytes (files (ej_disk ej)) journal_path"
    by auto
  show ?thesis
    using journal_init_spec [OF assms(1), of "ji_capacity_bytes (ej_index ej)" "new_journal (ej_disk ej')"]
      e journal_holds_log [OF assms(2)] by (metis new_journal_def event_journal.select_convs(1))
qed

end

end
