(* ===== verification/Debug_Lab.thy ===== *)
theory Debug_Lab
  imports Debug_Server Device_Run Compaction_Crash
begin

text \<open>
  The device of a development build: the debug server as a further subscriber of the
  event bus, its requests over HTTP, and the debugging commands of the serial console
  (kiosk_runtime_v2.ino, between the \<^verbatim>\<open>MESFLOW_DEBUG_API\<close> conditionals).  The panel
  behaves as in a production build; the server is closed while the open setup network
  is up.  Results of commands are the bytes written to the serial line; log lines and
  the text of the network diagnosis are not modelled, the latter is an argument.
\<close>

section \<open>The third subscriber\<close>

text \<open>The subscription exists when the server was started.\<close>

definition debug_hears :: "local_event \<Rightarrow> debug_server \<Rightarrow> debug_server" where
  "debug_hears e ds =
     (case e of
        Wifi_recovery_state t \<Rightarrow> if db_subscribed ds then set_paused (t \<noteq> ''INACTIVE'') ds else ds
      | _ \<Rightarrow> ds)"

definition debug_start_portal ::
  "('d, 'n) platform \<Rightarrow> moment \<Rightarrow> ('d, 'n) panel \<times> debug_server \<Rightarrow> ('d, 'n) panel \<times> debug_server" where
  "debug_start_portal p m = (\<lambda>(fp, ds).
     (let (rs, es, po) = portal_start (pf_nv p) (pf_mac p) (m_now m) (k_nvs (fp_kiosk fp)) (fp_portal fp) in
      (publish_recovery p m es (fp\<lparr>fp_portal := po\<rparr>), fold debug_hears es ds)))"

definition debug_finish ::
  "('d, 'n) platform \<Rightarrow> moment \<Rightarrow> ('d, 'n) panel \<times> string option \<Rightarrow> debug_server \<Rightarrow> ('d, 'n) panel \<times> debug_server" where
  "debug_finish p m r ds = (case r of (fp, None) \<Rightarrow> (fp, ds) | (fp, Some reason) \<Rightarrow> debug_start_portal p m (fp, ds))"

definition debug_publish ::
  "('d, 'n) platform \<Rightarrow> moment \<Rightarrow> local_event \<Rightarrow> ('d, 'n) panel \<times> debug_server \<Rightarrow> ('d, 'n) panel \<times> debug_server" where
  "debug_publish p m e = (\<lambda>(fp, ds).
     (let (fp1, ds1) = debug_finish p m (publish_to_both p m e fp) ds in (fp1, debug_hears e ds1)))"

definition debug_tick ::
  "('d, 'n) platform \<Rightarrow> moment \<Rightarrow> portal_request option \<Rightarrow> bool \<Rightarrow> ('d, 'n) panel \<times> debug_server \<Rightarrow>
    ('d, 'n) panel \<times> debug_server" where
  "debug_tick p m req up = (\<lambda>(fp, ds).
     (if portal_active (fp_portal fp) then
        (let (restart, rs, es, po, n) = portal_poll (pf_nv p) (m_now m) req up (k_nvs (fp_kiosk fp)) (fp_portal fp) in
         (panel_tick p m req up fp, fold debug_hears es ds))
      else
      let (as, rm, start) = menu_tick (m_now m) (fp_menu fp) in
      debug_finish p m (panel_acts p m as (fp\<lparr>fp_menu := rm\<rparr>), start) ds))"

definition debug_wifi ::
  "('d, 'n) platform \<Rightarrow> moment \<Rightarrow> bool \<Rightarrow> ('d, 'n) panel \<times> debug_server \<Rightarrow> ('d, 'n) panel \<times> debug_server" where
  "debug_wifi p m up = (\<lambda>(fp, ds).
     (if portal_active (fp_portal fp) then (fp, ds)
      else
      let (rs, es, w) = wifi_poll (m_now m) up (fp_wifi fp) in
      fold (debug_publish p m) es (fp\<lparr>fp_wifi := w\<rparr>, ds)))"

text \<open>The end of \<^verbatim>\<open>setup()\<close>: not in safe mode the server is started and subscribes, then the
  portal may open.\<close>

definition debug_boot ::
  "('d, 'n) platform \<Rightarrow> moment \<Rightarrow> ('d, 'n) panel \<Rightarrow> ('d, 'n) panel \<times> debug_server" where
  "debug_boot p m fp =
     (let ds = (if rc_safe_mode (k_recovery (fp_kiosk fp)) then new_debug_server
                else (debug_begin new_debug_server)\<lparr>db_subscribed := True\<rparr>) in
      if config_wifi_ssid (pf_nv p) (k_nvs (fp_kiosk fp)) = [] then debug_start_portal p m (fp, ds) else (fp, ds))"

section \<open>The panel is that of production\<close>

lemma start_portal_panel: "fst (debug_start_portal p m (fp, ds)) = panel_start_portal p m fp"
  by (simp add: debug_start_portal_def panel_start_portal_def split_beta Let_def)

lemma finish_panel: "fst (debug_finish p m r ds) = panel_finish p m r"
  by (cases r; cases "snd r") (simp_all add: debug_finish_def panel_finish_def start_portal_panel)

lemma publish_panel: "fst (debug_publish p m e (fp, ds)) = panel_publish p m e fp"
  by (simp add: debug_publish_def panel_publish_def split_beta Let_def finish_panel)

lemma publishes_panel: "fst (fold (debug_publish p m) es s) = fold (panel_publish p m) es (fst s)"
proof (induction es arbitrary: s)
  case (Cons e es)
  have "fst (debug_publish p m e s) = panel_publish p m e (fst s)"
    using publish_panel [of p m e "fst s" "snd s"] by simp
  then show ?case
    using Cons by simp
qed simp

lemma tick_panel: "fst (debug_tick p m req up (fp, ds)) = panel_tick p m req up fp"
  by (simp add: debug_tick_def split_beta Let_def finish_panel) (simp add: panel_tick_def split_beta Let_def)

lemma wifi_panel: "fst (debug_wifi p m up (fp, ds)) = panel_wifi p m up fp"
  by (simp add: debug_wifi_def panel_wifi_def split_beta Let_def publishes_panel)

lemma boot_panel_same: "fst (debug_boot p m fp) = panel_boot p m fp"
  by (simp add: debug_boot_def panel_boot_def start_portal_panel Let_def)

section \<open>The server follows the portal\<close>

definition follows :: "bool \<Rightarrow> debug_server \<Rightarrow> bool" where
  "follows active ds =
     (if db_subscribed ds then db_paused ds = active \<and> db_listening ds = (\<not> active) else \<not> db_listening ds)"

lemma inactive_name: "portal_state_name s = ''INACTIVE'' \<longleftrightarrow> s = P_INACTIVE"
  by (cases s) (simp_all add: portal_state_name_def)

lemma portal_active_upd [simp]:
  "portal_active (po\<lparr>po_last_activity_ms := a\<rparr>) = portal_active po"
  "portal_active (po\<lparr>po_failed_once := b\<rparr>) = portal_active po"
  "portal_active (po\<lparr>po_pending_ssid := s, po_pending_password := w, po_testing_started_ms := t\<rparr>) = portal_active po"
  "portal_active (po\<lparr>po_ap_ssid := s\<rparr>) = portal_active po"
  by (simp_all add: portal_active_def)

lemma set_state_follows:
  assumes "portal_set_state s po = (es, po')" "follows (portal_active po) ds"
  shows "follows (portal_active po') (fold debug_hears es ds)"
  using assms
  by (auto simp: portal_set_state_def debug_hears_def inactive_name set_paused_def follows_def portal_active_def
      split: if_splits)

lemma start_follows:
  assumes "portal_start nv mac now n po = (rs, es, po')" "follows (portal_active po) ds"
  shows "follows (portal_active po') (fold debug_hears es ds)"
proof (cases "portal_active po")
  case False
  have "portal_set_state P_AP_ACTIVE ((compute_ap_credentials nv mac n po)\<lparr>po_last_activity_ms := now\<rparr>) = (es, po')"
    using assms(1) False by (simp add: portal_start_def Let_def)
  then show ?thesis
    by (rule set_state_follows) (use assms(2) in \<open>simp add: compute_ap_credentials_def Let_def\<close>)
qed (use assms in \<open>simp add: portal_start_def\<close>)

lemma stop_follows:
  assumes "portal_stop po = (rs, es, po')" "follows (portal_active po) ds"
  shows "follows (portal_active po') (fold debug_hears es ds)"
proof (cases "portal_active po")
  case True
  then have "portal_set_state P_INACTIVE po = (es, po')"
    using assms(1) by (simp add: portal_stop_def)
  then show ?thesis
    using assms(2) by (rule set_state_follows)
qed (use assms in \<open>simp add: portal_stop_def\<close>)

lemma save_follows:
  assumes "portal_save now s w po = (rs, es, po')" "follows (portal_active po) ds"
  shows "follows (portal_active po') (fold debug_hears es ds)"
proof (cases "trim_spaces s = []")
  case False
  let ?po = "(po\<lparr>po_last_activity_ms := now\<rparr>)\<lparr>po_pending_ssid := trim_spaces s, po_pending_password := w,
      po_testing_started_ms := now\<rparr>"
  have "portal_set_state P_TESTING ?po = (es, po')"
    using assms(1) False by (simp add: portal_save_def Let_def)
  then show ?thesis
    by (rule set_state_follows) (use assms(2) in \<open>simp only: portal_active_upd\<close>)
qed (use assms in \<open>auto simp: portal_save_def Let_def\<close>)

lemma request_follows:
  assumes "portal_request now req po = (rs, es, po')" "follows (portal_active po) ds"
  shows "follows (portal_active po') (fold debug_hears es ds)"
proof (cases req)
  case (Some r)
  have a: "follows (portal_active (po\<lparr>po_last_activity_ms := now\<rparr>)) ds"
    using assms(2) by simp
  show ?thesis
  proof (cases r)
    case (Req_save s w)
    then show ?thesis
      using assms Some by (intro save_follows [of now s w po rs]) (simp_all add: portal_request_def)
  next
    case Req_cancel
    then show ?thesis
      using assms(1) Some by (intro stop_follows [OF _ a, of rs]) (simp add: portal_request_def)
  qed (use assms Some in \<open>auto simp: portal_request_def\<close>)
qed (use assms in \<open>simp add: portal_request_def\<close>)

lemma poll_follows:
  assumes "portal_poll nv now req up n po = (restart, rs, es, po', n')" "follows (portal_active po) ds"
  shows "follows (portal_active po') (fold debug_hears es ds)"
proof -
  obtain rs1 es1 po1 where r: "portal_request now req po = (rs1, es1, po1)"
    by (metis prod_cases3)
  have f: "follows (portal_active po1) (fold debug_hears es1 ds)"
    by (rule request_follows [OF r assms(2)])
  obtain rs2 es2 po2 where s: "portal_stop po1 = (rs2, es2, po2)"
    by (metis prod_cases3)
  obtain es3 po3 where t: "portal_set_state P_FAILED (po1\<lparr>po_failed_once := True\<rparr>) = (es3, po3)"
    by fastforce
  have "follows (portal_active po3) (fold debug_hears es3 (fold debug_hears es1 ds))"
    by (rule set_state_follows [OF t]) (use f in simp)
  then show ?thesis
    using assms f stop_follows [OF s f]
    by (auto simp: portal_poll_def r s t Let_def split: if_splits)
qed

section \<open>Requests\<close>

record ('d, 'n, 'b) lab =
  lb_device :: "('d, 'n, 'b) device"
  lb_server :: debug_server
  lb_renderer :: renderer
  lb_display :: display

datatype debug_request =
    Get_screenshot
  | Get_ui_state
  | Get_device_state
  | Post_input string
  | Post_qa_session string

abbreviation lb_panel :: "('d, 'n, 'b) lab \<Rightarrow> ('d, 'n) panel" where
  "lb_panel l \<equiv> dv_panel (lb_device l)"

abbreviation lb_portal :: "('d, 'n, 'b) lab \<Rightarrow> setup_portal" where
  "lb_portal l \<equiv> fp_portal (lb_panel l)"

definition with_panel ::
  "(('d, 'n) panel \<times> debug_server \<Rightarrow> ('d, 'n) panel \<times> debug_server) \<Rightarrow> ('d, 'n, 'b) lab \<Rightarrow> ('d, 'n, 'b) lab" where
  "with_panel f l =
     (let (fp, ds) = f (lb_panel l, lb_server l) in
      l\<lparr>lb_device := (lb_device l)\<lparr>dv_panel := fp\<rparr>, lb_server := ds\<rparr>)"

definition inject ::
  "('d, 'n, 'b) firmware \<Rightarrow> moment \<Rightarrow> local_event \<Rightarrow> ('d, 'n, 'b) lab \<Rightarrow> ('d, 'n, 'b) lab" where
  "inject fw m e l =
     with_panel (debug_publish (fw_platform fw) m e) (l\<lparr>lb_server := count_input (lb_server l)\<rparr>)"

definition handle_input ::
  "('d, 'n, 'b) firmware \<Rightarrow> moment \<Rightarrow> string \<Rightarrow> ('d, 'n, 'b) lab \<Rightarrow> http_response \<times> ('d, 'n, 'b) lab" where
  "handle_input fw m arg l =
     (case build_input_event (c_str arg) of
        Inl (status, message) \<Rightarrow> (respond status ''text/plain'' (''DEBUG_INPUT_REJECTED: '' @ message), l)
      | Inr e \<Rightarrow> (let l1 = inject fw m e l in (respond 200 ''application/json'' (accepted_text (lb_server l1)), l1)))"

definition ui_state_of ::
  "('d, 'n, 'b) firmware \<Rightarrow> (colour \<Rightarrow> u16) \<Rightarrow> ('d, 'n, 'b) lab \<Rightarrow> string" where
  "ui_state_of fw px l =
     build_ui_state_json px (fw_build fw) (lb_display l) (lb_renderer l) (k_ui (dv_kiosk (lb_device l)))"

definition device_state_of ::
  "('d, 'n, 'b) firmware \<Rightarrow> u32 \<Rightarrow> board_reading \<Rightarrow> ('d, 'n, 'b) lab \<Rightarrow> string \<times> ('d, 'n, 'b) lab" where
  "device_state_of fw now bd l =
     (let d = lb_device l;
          (status, di) = build_status_json (fw_build fw) bd now (dv_self_test d) (dv_keypad d) (dv_bootstrap d)
            (fp_wifi (dv_panel d)) (fw_platform fw) (dv_diagnostics d, dv_kiosk d) in
      (build_device_state_json status (k_ui (dv_kiosk d)) (dv_ui_sync d) (lb_server l),
       l\<lparr>lb_device := d\<lparr>dv_diagnostics := di\<rparr>\<rparr>))"

definition handle_request ::
  "('d, 'n, 'b) firmware \<Rightarrow> (colour \<Rightarrow> u16) \<Rightarrow> moment \<Rightarrow> board_reading \<Rightarrow> debug_request \<Rightarrow>
    ('d, 'n, 'b) lab \<Rightarrow> http_response \<times> ('d, 'n, 'b) lab" where
  "handle_request fw px m bd req l =
     (case req of
        Get_screenshot \<Rightarrow>
          (let (a, ds) = handle_screenshot (m_now m) (lb_display l) (lb_renderer l) (lb_server l) in
           (a, l\<lparr>lb_server := ds\<rparr>))
      | Get_ui_state \<Rightarrow> (respond 200 ''application/json'' (c_str (ui_state_of fw px l)), l)
      | Get_device_state \<Rightarrow>
          (let (s, l1) = device_state_of fw (m_now m) bd l in (respond 200 ''application/json'' (c_str s), l1))
      | Post_input body \<Rightarrow> handle_input fw m body l
      | Post_qa_session body \<Rightarrow>
          (let (a, ds, r) = handle_qa_session body (lb_server l, lb_renderer l) in
           (a, l\<lparr>lb_server := ds, lb_renderer := r\<rparr>)))"

text \<open>A request reaches the handlers when the server listens and is not paused.\<close>

definition debug_poll ::
  "('d, 'n, 'b) firmware \<Rightarrow> (colour \<Rightarrow> u16) \<Rightarrow> moment \<Rightarrow> board_reading \<Rightarrow> debug_request option \<Rightarrow>
    ('d, 'n, 'b) lab \<Rightarrow> http_response option \<times> ('d, 'n, 'b) lab" where
  "debug_poll fw px m bd req l =
     (if db_paused (lb_server l) then (None, l)
      else
      case req of
        None \<Rightarrow> (None, l)
      | Some q \<Rightarrow>
          if \<not> db_listening (lb_server l) then (None, l)
          else (let (a, l1) = handle_request fw px m bd q l in (Some a, l1)))"

section \<open>Commands\<close>

text \<open>\<^verbatim>\<open>String::toInt\<close>, over a long of 32 bits.\<close>

definition to_int :: "string \<Rightarrow> int" where
  "to_int s =
     (let t = skip_ws s; neg = (t \<noteq> [] \<and> hd t = CHR ''-'');
          ds = takeWhile is_digit (if t \<noteq> [] \<and> hd t \<in> {CHR ''-'', CHR ''+''} then tl t else t);
          v = int (digits_value ds) in
      if neg then max (- (2 ^ 31)) (- v) else min (2 ^ 31 - 1) v)"

datatype debug_command =
    Dbg_screenshot
  | Dbg_ui_state
  | Dbg_device_state
  | Dbg_net_diag
  | Dbg_wifi_drop
  | Dbg_input string
  | Dbg_task_create_failure
  | Dbg_compaction_crash int
  | Dbg_reinit_scanner
  | Dbg_scanner_baud int
  | Dbg_safe_mode
  | Dbg_nothing

definition parse_debug_command :: "string \<Rightarrow> debug_command" where
  "parse_debug_command l =
     (if l = ''debug-screenshot'' then Dbg_screenshot
      else if l = ''debug-ui-state'' then Dbg_ui_state
      else if l = ''debug-device-state'' then Dbg_device_state
      else if l = ''debug-net-diag'' then Dbg_net_diag
      else if l = ''debug-wifi-drop'' then Dbg_wifi_drop
      else if has_prefix ''debug-input:'' l then Dbg_input (after_prefix ''debug-input:'' l)
      else if l = ''force-task-create-failure'' then Dbg_task_create_failure
      else if has_prefix ''simulate-compaction-crash:'' l then
        Dbg_compaction_crash (to_int (after_prefix ''simulate-compaction-crash:'' l))
      else if l = ''reinit-scanner'' then Dbg_reinit_scanner
      else if has_prefix ''scanner-baud:'' l then Dbg_scanner_baud (to_int (after_prefix ''scanner-baud:'' l))
      else if l = ''force-safe-mode'' then Dbg_safe_mode
      else Dbg_nothing)"

definition write_input_result_serial ::
  "('d, 'n, 'b) firmware \<Rightarrow> moment \<Rightarrow> string \<Rightarrow> ('d, 'n, 'b) lab \<Rightarrow> bytes \<times> ('d, 'n, 'b) lab" where
  "write_input_result_serial fw m body l =
     (case build_input_event body of
        Inl (status, message) \<Rightarrow> (marked ''debug-input'' (rejected_text status message), l)
      | Inr e \<Rightarrow> (let l1 = inject fw m e l in (marked ''debug-input'' (accepted_text (lb_server l1)), l1)))"

definition upd_device :: "(('d, 'n, 'b) device \<Rightarrow> ('d, 'n, 'b) device) \<Rightarrow> ('d, 'n, 'b) lab \<Rightarrow> ('d, 'n, 'b) lab" where
  "upd_device f l = l\<lparr>lb_device := f (lb_device l)\<rparr>"

definition restart_device :: "('d, 'n, 'b) device \<Rightarrow> ('d, 'n, 'b) device" where
  "restart_device d = d\<lparr>dv_panel := (dv_panel d)\<lparr>fp_restarting := True\<rparr>\<rparr>"

text \<open>The bytes written, the calls to the radio, and the state; no state when the copy of
  the journal does not end.\<close>

definition run_debug_command ::
  "('d, 'n, 'b) firmware \<Rightarrow> (colour \<Rightarrow> u16) \<Rightarrow> moment \<Rightarrow> board_reading \<Rightarrow> bytes \<Rightarrow> debug_command \<Rightarrow>
    ('d, 'n, 'b) lab \<Rightarrow> (bytes \<times> radio_call list \<times> ('d, 'n, 'b) lab) option" where
  "run_debug_command fw px m bd diagnosis cmd l =
     (let p = fw_platform fw; d = lb_device l; k = dv_kiosk d in
      case cmd of
        Dbg_screenshot \<Rightarrow> Some (write_screenshot_serial (lb_display l) (lb_renderer l), [], l)
      | Dbg_ui_state \<Rightarrow> Some (marked ''ui-state'' (c_str (ui_state_of fw px l)), [], l)
      | Dbg_device_state \<Rightarrow>
          (let (s, l1) = device_state_of fw (m_now m) bd l in Some (marked ''device-state'' (c_str s), [], l1))
      | Dbg_net_diag \<Rightarrow> Some (diagnosis, [], l)
      | Dbg_wifi_drop \<Rightarrow> Some ([], [Radio_disconnect], l)
      | Dbg_input body \<Rightarrow>
          (let (out, l1) = write_input_result_serial fw m (c_str body) l in Some (out, [], l1))
      | Dbg_task_create_failure \<Rightarrow> Some ([], [], l)
      | Dbg_compaction_crash scenario \<Rightarrow>
          map_option (\<lambda>ej. ([], [], upd_device (\<lambda>d. restart_device (upd_journal (\<lambda>_. ej) d)) l))
            (simulate_compaction_crash (pf_fs p) scenario (k_journal k))
      | Dbg_reinit_scanner \<Rightarrow> Some ([], [], upd_device (\<lambda>d. d\<lparr>dv_scanner := scanner_reinit (dv_scanner d)\<rparr>) l)
      | Dbg_scanner_baud baud \<Rightarrow>
          (let (ok, n) = set_scanner_baud (pf_nv p) baud (k_nvs k) in
           Some ([], [],
             if ok then upd_device (\<lambda>d. d\<lparr>dv_scanner := scanner_set_baud baud (dv_scanner d),
                 dv_panel := upd_nvs (\<lambda>_. n) (dv_panel d)\<rparr>) l
             else l))
      | Dbg_safe_mode \<Rightarrow>
          Some ([], [], upd_device (\<lambda>d. restart_device (d\<lparr>dv_panel :=
            upd_nvs (force_safe_mode_for_test (pf_nv p) (m_now m) TASK_CREATE_FAILED) (dv_panel d)\<rparr>)) l)
      | Dbg_nothing \<Rightarrow> Some ([], [], l))"

text \<open>A line: the commands of every build come first.\<close>

definition run_debug_line ::
  "('d, 'n, 'b) firmware \<Rightarrow> (colour \<Rightarrow> u16) \<Rightarrow> scans \<Rightarrow> moment \<Rightarrow> board_reading \<Rightarrow> bytes \<Rightarrow> string \<Rightarrow>
    ('d, 'n, 'b) lab \<Rightarrow> (bytes \<times> radio_call list \<times> ('d, 'n, 'b) lab) option" where
  "run_debug_line fw px ss m bd diagnosis line l =
     (if parse_command line \<noteq> Cmd_nothing then
        map_option (\<lambda>(kp, fp). ([], [], upd_device (\<lambda>d. d\<lparr>dv_keypad := kp, dv_panel := fp\<rparr>) l))
          (run_command (fw_blobs fw) ss (fw_platform fw) m (parse_command line)
            (dv_keypad (lb_device l), lb_panel l))
      else run_debug_command fw px m bd diagnosis (parse_debug_command line) l)"

section \<open>Runs\<close>

text \<open>The drivers publish events, the controller and the station work, requests arrive,
  lines are typed; whatever else the loop does leaves the state of the portal and the
  server alone.\<close>

inductive debug_run ::
  "('d, 'n, 'b) firmware \<Rightarrow> (colour \<Rightarrow> u16) \<Rightarrow> ('d, 'n, 'b) lab \<Rightarrow> ('d, 'n, 'b) lab \<Rightarrow> bool" for fw px l0 where
  debug_start: "debug_run fw px l0 l0"
| debug_event: "debug_run fw px l0 l \<Longrightarrow> (\<And>t. e \<noteq> Wifi_recovery_state t) \<Longrightarrow>
    debug_run fw px l0 (with_panel (debug_publish (fw_platform fw) m e) l)"
| debug_ticks: "debug_run fw px l0 l \<Longrightarrow> debug_run fw px l0 (with_panel (debug_tick (fw_platform fw) m req up) l)"
| debug_station: "debug_run fw px l0 l \<Longrightarrow> debug_run fw px l0 (with_panel (debug_wifi (fw_platform fw) m up) l)"
| debug_asked: "debug_run fw px l0 l \<Longrightarrow> debug_run fw px l0 (snd (debug_poll fw px m bd asked l))"
| debug_typed: "debug_run fw px l0 l \<Longrightarrow>
    run_debug_line fw px ss m bd diagnosis line l = Some (out, calls, l') \<Longrightarrow> debug_run fw px l0 l'"
| debug_others: "debug_run fw px l0 l \<Longrightarrow> po_state (lb_portal l') = po_state (lb_portal l) \<Longrightarrow>
    lb_server l' = lb_server l \<Longrightarrow> debug_run fw px l0 l'"

definition lab_ok :: "('d, 'n, 'b) lab \<Rightarrow> bool" where
  "lab_ok l = follows (portal_active (lb_portal l)) (lb_server l)"

lemma acts_portal [simp]: "fp_portal (panel_acts p m as fp) = fp_portal fp"
  by (induction as arbitrary: fp) simp_all

lemma both_portal: "fp_portal (fst (publish_to_both p m e fp)) = fp_portal fp"
  by (simp add: publish_to_both_def split_beta Let_def)

lemma recovery_portal: "fp_portal (publish_recovery p m es fp) = fp_portal fp"
  unfolding publish_recovery_def by (induction es arbitrary: fp) (simp_all add: both_portal)

text \<open>A pair of panel and server in order.\<close>

definition pair_ok :: "('d, 'n) panel \<times> debug_server \<Rightarrow> bool" where
  "pair_ok = (\<lambda>(fp, ds). follows (portal_active (fp_portal fp)) ds)"

lemma pair_ok_pair [simp]: "pair_ok (fp, ds) = follows (portal_active (fp_portal fp)) ds"
  by (simp add: pair_ok_def)

lemma start_portal_pair:
  assumes "pair_ok (fp, ds)"
  shows "pair_ok (debug_start_portal p m (fp, ds))"
proof -
  obtain rs es po where s: "portal_start (pf_nv p) (pf_mac p) (m_now m) (k_nvs (fp_kiosk fp)) (fp_portal fp) = (rs, es, po)"
    by (metis prod_cases3)
  show ?thesis
    using start_follows [OF s] assms by (simp add: debug_start_portal_def s recovery_portal)
qed

lemma finish_pair: "pair_ok (fst r, ds) \<Longrightarrow> pair_ok (debug_finish p m r ds)"
  by (cases r; cases "snd r") (simp_all add: debug_finish_def start_portal_pair)

lemma publish_pair:
  assumes "pair_ok (fp, ds)" "\<And>t. e \<noteq> Wifi_recovery_state t"
  shows "pair_ok (debug_publish p m e (fp, ds))"
proof -
  have "debug_hears e ds = ds" for ds
    using assms(2) by (cases e) (auto simp: debug_hears_def)
  then show ?thesis
    using finish_pair [of "publish_to_both p m e fp" ds p m] assms(1)
    by (simp add: debug_publish_def split_beta Let_def both_portal)
qed

lemma publishes_pair:
  assumes "\<forall>e\<in>set es. \<exists>t. e = Wifi_state t" "pair_ok s"
  shows "pair_ok (fold (debug_publish p m) es s)"
  using assms
proof (induction es arbitrary: s)
  case (Cons e es)
  then have "pair_ok (debug_publish p m e s)"
    using publish_pair [of "fst s" "snd s" e p m] by auto
  then show ?case
    using Cons by simp
qed simp

lemma tick_pair:
  assumes "pair_ok (fp, ds)"
  shows "pair_ok (debug_tick p m req up (fp, ds))"
proof (cases "portal_active (fp_portal fp)")
  case True
  obtain restart rs es po n where
    s: "portal_poll (pf_nv p) (m_now m) req up (k_nvs (fp_kiosk fp)) (fp_portal fp) = (restart, rs, es, po, n)"
    by (metis prod_cases5)
  have "fp_portal (panel_tick p m req up fp) = po"
    using True by (simp add: panel_tick_def s recovery_portal Let_def)
  then show ?thesis
    using True poll_follows [OF s] assms by (simp add: debug_tick_def s)
next
  case False
  obtain as rm start where t: "menu_tick (m_now m) (fp_menu fp) = (as, rm, start)"
    by (metis prod_cases3)
  show ?thesis
    using False finish_pair [of "(panel_acts p m as (fp\<lparr>fp_menu := rm\<rparr>), start)" ds p m] assms
    by (simp add: debug_tick_def t)
qed

lemma wifi_pair:
  assumes "pair_ok (fp, ds)"
  shows "pair_ok (debug_wifi p m up (fp, ds))"
proof -
  obtain rs es w where s: "wifi_poll (m_now m) up (fp_wifi fp) = (rs, es, w)"
    by (metis prod_cases3)
  have "\<forall>e\<in>set es. \<exists>t. e = Wifi_state t"
    using wifi_events_are_changes [OF s] by auto
  from publishes_pair [OF this, of "(fp\<lparr>fp_wifi := w\<rparr>, ds)" p m] show ?thesis
    using assms by (cases "portal_active (fp_portal fp)") (simp_all add: debug_wifi_def s)
qed

lemma lab_ok_pair: "lab_ok l = pair_ok (lb_panel l, lb_server l)"
  by (simp add: lab_ok_def)

lemma with_panel_ok: "pair_ok (f (lb_panel l, lb_server l)) \<Longrightarrow> lab_ok (with_panel f l)"
  by (simp add: with_panel_def lab_ok_pair split_beta Let_def)

lemma lab_unchanged:
  assumes "lab_ok l" "po_state (lb_portal l') = po_state (lb_portal l)"
    and "db_subscribed (lb_server l') = db_subscribed (lb_server l)" "db_paused (lb_server l') = db_paused (lb_server l)"
      "db_listening (lb_server l') = db_listening (lb_server l)"
  shows "lab_ok l'"
  using assms by (simp add: lab_ok_def follows_def portal_active_def)

lemma inject_ok:
  assumes "lab_ok l" "\<And>t. e \<noteq> Wifi_recovery_state t"
  shows "lab_ok (inject fw m e l)"
  unfolding inject_def
  by (intro with_panel_ok publish_pair assms(2))
    (use assms(1) in \<open>simp_all add: lab_ok_def follows_def count_input_def\<close>)

text \<open>Only scans and keys can be injected.\<close>

lemma input_event_kind: "build_input_event body = Inr e \<Longrightarrow> e \<noteq> Wifi_recovery_state t"
  by (auto simp: build_input_event_def Let_def split: if_splits)

lemma handle_input_ok: "lab_ok l \<Longrightarrow> lab_ok (snd (handle_input fw m arg l))"
  by (auto simp: handle_input_def Let_def split: sum.split intro!: inject_ok dest: input_event_kind)

lemma device_state_ok: "lab_ok l \<Longrightarrow> lab_ok (snd (device_state_of fw now bd l))"
  by (auto simp: device_state_of_def split_beta Let_def elim!: lab_unchanged)

lemma handle_request_ok: "lab_ok l \<Longrightarrow> lab_ok (snd (handle_request fw px m bd q l))"
proof (cases q)
  case Get_device_state
  then show "lab_ok l \<Longrightarrow> ?thesis"
    using device_state_ok [of l fw "m_now m" bd] by (simp add: handle_request_def split_beta Let_def)
next
  case (Post_input body)
  then show "lab_ok l \<Longrightarrow> ?thesis"
    by (simp add: handle_request_def handle_input_ok)
qed (auto simp: handle_request_def handle_screenshot_def handle_qa_session_def split_beta Let_def
    elim!: lab_unchanged split: option.splits if_splits)

lemma debug_poll_ok: "lab_ok l \<Longrightarrow> lab_ok (snd (debug_poll fw px m bd req l))"
  using handle_request_ok [of l fw px m bd "the req"]
  by (auto simp: debug_poll_def split_beta Let_def split: option.split)

text \<open>No command changes the state of the portal.\<close>

lemma command_portal:
  assumes "run_command bo ss p m cmd (kp, fp) = Some (kp', fp')"
  shows "po_state (fp_portal fp') = po_state (fp_portal fp)"
  using assms
  by (cases cmd) (auto simp: run_command_def upd_nvs_def panel_refresh_def compute_ap_credentials_def Let_def
      split: option.splits prod.splits)

lemma serial_input_ok: "lab_ok l \<Longrightarrow> lab_ok (snd (write_input_result_serial fw m body l))"
  by (auto simp: write_input_result_serial_def Let_def split: sum.split intro!: inject_ok dest: input_event_kind)

lemma debug_command_ok:
  assumes "run_debug_command fw px m bd diagnosis cmd l = Some (out, calls, l')" "lab_ok l"
  shows "lab_ok l'"
proof (cases cmd)
  case Dbg_device_state
  then show ?thesis
    using assms device_state_ok [OF assms(2), of fw "m_now m" bd] by (auto simp: run_debug_command_def split_beta Let_def)
next
  case (Dbg_input body)
  then show ?thesis
    using assms serial_input_ok [OF assms(2), of fw m "c_str body"] by (auto simp: run_debug_command_def split_beta Let_def)
qed (use assms in \<open>auto simp: run_debug_command_def upd_device_def restart_device_def upd_journal_def upd_kiosk_def
    upd_nvs_def split_beta Let_def elim!: lab_unchanged split: if_splits\<close>)

lemma debug_line_ok:
  assumes "run_debug_line fw px ss m bd diagnosis line l = Some (out, calls, l')" "lab_ok l"
  shows "lab_ok l'"
proof (cases "parse_command line = Cmd_nothing")
  case True
  then show ?thesis
    using assms by (auto simp: run_debug_line_def intro: debug_command_ok)
next
  case False
  then obtain kp fp where
    "run_command (fw_blobs fw) ss (fw_platform fw) m (parse_command line) (dv_keypad (lb_device l), lb_panel l) = Some (kp, fp)"
    "l' = upd_device (\<lambda>d. d\<lparr>dv_keypad := kp, dv_panel := fp\<rparr>) l"
    using assms(1) by (auto simp: run_debug_line_def)
  then show ?thesis
    using command_portal assms(2) by (auto simp: upd_device_def elim!: lab_unchanged)
qed

lemma run_lab_ok: "debug_run fw px l0 l \<Longrightarrow> lab_ok l0 \<Longrightarrow> lab_ok l"
proof (induction rule: debug_run.induct)
  case (debug_event l e m)
  then show ?case
    by (intro with_panel_ok publish_pair) (simp_all add: lab_ok_pair)
next
  case (debug_ticks l m req up)
  then show ?case
    by (intro with_panel_ok tick_pair) (simp add: lab_ok_pair)
next
  case (debug_station l m up)
  then show ?case
    by (intro with_panel_ok wifi_pair) (simp add: lab_ok_pair)
next
  case (debug_asked l m bd asked)
  then show ?case
    by (intro debug_poll_ok) simp
next
  case (debug_typed l ss m bd diagnosis line out calls l')
  then show ?case
    by (auto intro: debug_line_ok)
next
  case (debug_others l l')
  then show ?case
    by (auto intro: lab_unchanged)
qed simp

text \<open>The end of \<^verbatim>\<open>setup()\<close> leaves the pair in order, with or without the portal, in safe
  mode or not.\<close>

lemma boot_pair: "\<not> portal_active (fp_portal fp) \<Longrightarrow> pair_ok (debug_boot p m fp)"
  by (simp add: debug_boot_def debug_begin_def new_debug_server_def follows_def start_portal_pair Let_def)


text \<open>A provisioned device; the star key has been held for ten seconds.\<close>

definition held_menu :: recovery_menu where
  "held_menu = new_recovery_menu\<lparr>rm_star_held := True\<rparr>"

lemma held_star_starts:
  "\<not> portal_active (fp_portal fp) \<Longrightarrow> fp_menu fp = held_menu \<Longrightarrow>
   portal_active (fp_portal (fst (debug_tick p (some_moment\<lparr>m_now := 10000\<rparr>) None True (fp, ds))))"
  using portal_start_events [of "fp_portal fp" "pf_nv p" "pf_mac p", OF _ surjective_pairing [THEN trans,
      OF arg_cong2 [where f = Pair, OF refl surjective_pairing]]]
  by (auto simp: debug_tick_def held_menu_def new_recovery_menu_def menu_tick_def wifi_recovery_hold_ms_def some_moment_def
      debug_finish_def debug_start_portal_def recovery_portal panel_act_def split_beta Let_def)


section \<open>Injected input is input\<close>

lemma plain_c_str: "plain s \<Longrightarrow> c_str s = s"
  by (rule c_str_id) (auto simp: plain_def list_all_iff is_ctrl_def)

definition scan_request :: "string \<Rightarrow> string" where
  "scan_request v = ''{'' @ jkey ''type'' @ jstr ''SCAN'' @ '','' @ jkey ''value'' @ jstr v @ ''}''"

lemma injected_scan:
  assumes "plain v" "v \<noteq> []"
  shows "build_input_event (scan_request v) = Inr (Scan_event v)"
proof -
  have k: "simple_key ''type''" "simple_key ''value''" "plain ''SCAN''"
    by (simp_all add: simple_key_def plain_def is_ctrl_def)
  have "json_extract_string (scan_request v) ''type'' [] = ''SCAN''"
    by (rule extract_string_value [OF _ k(3)]) (use k in \<open>simp add: scan_request_def find_simps\<close>)
  moreover have "json_extract_string (scan_request v) ''value'' [] = v"
    by (rule extract_string_value [OF _ assms(1)]) (use k in \<open>simp add: scan_request_def find_simps\<close>)
  ultimately show ?thesis
    using assms by (simp add: build_input_event_def plain_c_str Let_def)
qed

text \<open>It does to the panel what the same scan by the reader does.\<close>

lemma injected_scan_reaches_panel:
  assumes "plain v" "v \<noteq> []"
    and "handle_input fw m (scan_request v) l = (a, l')"
  shows "hs_status a = 200 \<and> lb_panel l' = panel_publish (fw_platform fw) m (Scan_event v) (lb_panel l) \<and>
    lb_renderer l' = lb_renderer l \<and> lb_display l' = lb_display l"
proof -
  have "plain (scan_request v)"
    by (simp add: scan_request_def jkey_def plain_Cons is_ctrl_def)
  then have "build_input_event (c_str (scan_request v)) = Inr (Scan_event v)"
    by (simp add: plain_c_str injected_scan assms(1,2))
  then show ?thesis
    using assms(3) publish_panel [of "fw_platform fw" m "Scan_event v" "lb_panel l" "count_input (lb_server l)"]
    by (auto simp: handle_input_def inject_def with_panel_def respond_def split_beta Let_def)
qed

section \<open>Forced safe mode\<close>

lemma forced_safe_mode_boots_safe:
  "rc_safe_mode (recovery_supervisor_init (ram_nvs_ops True)
     (force_safe_mode_for_test (ram_nvs_ops True) now code n) rc)"
  by (simp add: recovery_supervisor_init_def force_safe_mode_for_test_def ram_nvs_ops_def rn_put_def Let_def
      recovery_namespace_def safe_mode_threshold_def)

section \<open>The descriptions\<close>

lemma insert_before_brace: "insert_before_end x (s @ ''}'') = (s @ x) @ ''}''"
  by (simp add: insert_before_end_def)

lemma device_state_extends_report:
  "build_device_state_json (s @ ''}'') st uy ds =
     s @ '','' @ jkey ''framebuffer_bytes'' @ dec 153600 @ qa_fields ds @ ui_fields st uy @ ''}''"
proof -
  have "framebuffer_size = 153600"
    by (simp add: framebuffer_size_def panel_width_def panel_height_def)
  then show ?thesis
    unfolding build_device_state_json_def insert_before_brace by (simp only: append_assoc)
qed

lemma ui_state_names_screen:
  assumes "plain (rn_screen_id r)"
  shows "json_extract_string (build_ui_state_json px bi d r st) ''screen_id'' [] = rn_screen_id r"
  by (rule extract_string_value [OF _ assms(1)])
    (simp add: build_ui_state_json_def find_simps simple_key_def plain_c_str assms)

end
