(* ===== verification/Structured_Log.thy ===== *)
theory Structured_Log
  imports Status_Report
begin

text \<open>
  The log line of health/structured_log.cpp: the text one call prints, built whole before
  it is written.  The mutex around the write is not modelled, the write being one
  operation here.  A reader of the serial line that works by lines is safe: a call
  prints one line, and never one of the marker lines of the debug interface.
\<close>

definition log_line :: "string \<Rightarrow> string \<Rightarrow> string \<Rightarrow> string \<Rightarrow> u32 \<Rightarrow> string" where
  "log_line level code origin message now =
     ''{'' @ jkey ''level'' @ jraw level @ '','' @ jkey ''code'' @ jraw code @ '','' @
     jkey ''module'' @ jraw origin @ '','' @ jkey ''message'' @ jstr message @ '','' @
     jkey ''uptime_ms'' @ num now @ ''}'' @ [CHR 0x0A]"

lemma digit_no_newline: "d < 10 \<Longrightarrow> digit_char d \<noteq> CHR 0x0A"
  by (auto simp: digit_char_def dest!: arg_cong [where f = "of_char :: char \<Rightarrow> nat"])

lemma dec_no_newline: "CHR 0x0A \<notin> set (dec n)"
proof (induction n rule: dec.induct)
  case (1 n)
  have "CHR 0x0A \<noteq> digit_char (n mod 10)" "n < 10 \<Longrightarrow> CHR 0x0A \<noteq> digit_char n"
    using digit_no_newline [of "n mod 10"] digit_no_newline [of n] by (simp_all add: eq_commute)
  then show ?case
    using 1 by (subst dec.simps) simp
qed

lemma hex_no_newline: "d < 16 \<Longrightarrow> hex_char d \<noteq> CHR 0x0A"
  by (auto simp: hex_char_def dest!: arg_cong [where f = "of_char :: char \<Rightarrow> nat"])

lemma escape_no_newline: "CHR 0x0A \<notin> set (json_escape s)"
proof (induction s)
  case (Cons c s)
  have "CHR 0x0A \<notin> set (hex4 n)" for n
    using hex_no_newline [symmetric] by (simp add: hex4_def)
  then have "CHR 0x0A \<notin> set (escape_char c)"
    by (simp add: escape_char_def)
  then show ?case
    using Cons by simp
qed simp

lemma log_is_one_line:
  assumes "CHR 0x0A \<notin> set level" "CHR 0x0A \<notin> set code" "CHR 0x0A \<notin> set origin"
  shows "\<exists>body. log_line level code origin message now = body @ [CHR 0x0A] \<and> CHR 0x0A \<notin> set body \<and>
    hd body = CHR ''{''"
  using assms escape_no_newline [of message] dec_no_newline
  by (intro exI [of _ "butlast (log_line level code origin message now)"])
    (simp add: log_line_def jkey_def jraw_def jstr_def num_def butlast_append)

end
